(* ===== verification/Prelude.thy ===== *)
theory Prelude
  imports Main "HOL-Library.Word" "HOL-Library.Signed_Division" "HOL-Library.Monad_Syntax"
begin

text \<open>
  Shared vocabulary of the development: the machine integers of \<open>seabios/src/types.h\<close> under
  their C names, the alignment and rounding macros of that header, the two collections of facts the
  component proofs draw on, and generic lemmas on words, options and lists.

  Conventions used in every theory.
  \<^item> A C function that always returns is a total HOL function. A C function that may never return
    (a polling loop, a CPU fault) yields an \<open>option\<close>; \<open>None\<close> means that control never comes back
    to the caller.
  \<^item> State is passed explicitly; in a \<open>do\<close> block of the option monad the state variable is
    rebound by each step.
  \<^item> A C conversion between integer types is \<open>ucast\<close>, and \<open>sint\<close> reads a signed value.
\<close>

unbundle bit_operations_syntax

section \<open>Integer types\<close>

type_synonym u8 = "8 word"
type_synonym u16 = "16 word"
type_synonym u32 = "32 word"
type_synonym u64 = "64 word"

section \<open>Collections of facts\<close>

named_theorems io_frame "what an operation leaves unchanged of the state"
named_theorems dev_law "how the operations of a driver act on the device it drives"

section \<open>The macros of types.h\<close>

definition DIV_ROUND_UP :: "'a::len word \<Rightarrow> 'a word \<Rightarrow> 'a word" where
  "DIV_ROUND_UP n d = (n + d - 1) div d"

definition ALIGN :: "'a::len word \<Rightarrow> 'a word \<Rightarrow> 'a word" where
  "ALIGN x a = (x + (a - 1)) AND NOT (a - 1)"

definition ALIGN_DOWN :: "'a::len word \<Rightarrow> 'a word \<Rightarrow> 'a word" where
  "ALIGN_DOWN x a = x AND NOT (a - 1)"

section \<open>Bytes of wider integers\<close>

abbreviation lo8 :: "u16 \<Rightarrow> u8" where
  "lo8 v \<equiv> ucast (v AND 0xFF)"

abbreviation hi8 :: "u16 \<Rightarrow> u8" where
  "hi8 v \<equiv> ucast (drop_bit 8 v AND 0xFF)"

definition le16 :: "u8 \<Rightarrow> u8 \<Rightarrow> u16" where
  "le16 lo hi = ucast lo OR push_bit 8 (ucast hi)"

lemma le16_lo_hi [simp]: "le16 (lo8 v) (hi8 v) = v"
proof (rule bit_word_eqI)
  fix n assume "n < LENGTH(16)"
  then have n: "n < 16" by simp
  have ff: "(0xFF :: u16) = mask 8" by (simp add: mask_eq_decr_exp)
  show "bit (le16 (lo8 v) (hi8 v)) n = bit v n"
    using n by (cases "n < 8")
      (auto simp: le16_def ff bit_simps)
qed

lemma lo8_le16 [simp]: "lo8 (le16 lo hi) = lo"
proof (rule bit_word_eqI)
  fix n assume "n < LENGTH(8)"
  then have n: "n < 8" by simp
  have ff: "(0xFF :: u16) = mask 8" by (simp add: mask_eq_decr_exp)
  show "bit (lo8 (le16 lo hi)) n = bit lo n"
    using n by (auto simp: le16_def ff bit_simps)
qed

lemma hi8_le16 [simp]: "hi8 (le16 lo hi) = hi"
proof (rule bit_word_eqI)
  fix n assume "n < LENGTH(8)"
  then have n: "n < 8" by simp
  have ff: "(0xFF :: u16) = mask 8" by (simp add: mask_eq_decr_exp)
  show "bit (hi8 (le16 lo hi)) n = bit hi n"
    using n by (auto simp: le16_def ff bit_simps dest: bit_imp_le_length)
qed

lemma hi8_eq: "hi8 v = ucast (drop_bit 8 v)"
proof (rule bit_word_eqI)
  fix n assume "n < LENGTH(8)"
  moreover have ff: "(0xFF :: u16) = mask 8" by (simp add: mask_eq_decr_exp)
  ultimately show "bit (hi8 v) n = bit (ucast (drop_bit 8 v) :: u8) n"
    unfolding ff by (auto simp: bit_simps)
qed

lemma u8_and_FF: "(0xFF :: u8) AND b = b"
proof -
  have "(0xFF :: u8) = - 1" by simp
  then show ?thesis by (metis and.left_neutral)
qed

lemma unat_neq: "x \<noteq> y \<Longrightarrow> unat x \<noteq> unat y"
  by (simp add: word_unat_eq_iff)

lemma u16_unat_lt: "unat (v :: u16) < 65536"
  using unsigned_less [of v] by simp

section \<open>Options\<close>

text \<open>The short-circuit conjunction of two C calls that return a truth value.\<close>

definition andalso :: "('s \<Rightarrow> (bool \<times> 's) option) \<Rightarrow> ('s \<Rightarrow> (bool \<times> 's) option) \<Rightarrow> 's \<Rightarrow>
    (bool \<times> 's) option" where
  "andalso f g s = do { (ok, s) \<leftarrow> f s; if ok then g s else Some (False, s) }"

lemma bind_SomeE:
  assumes "Option.bind m f = Some y"
  obtains x where "m = Some x" "f x = Some y"
  using assms by (auto simp: bind_eq_Some_conv)

section \<open>Loops and arrays\<close>

text \<open>A counted C loop whose body changes the state and may not return.\<close>

fun for_each :: "('a \<Rightarrow> 's \<Rightarrow> 's option) \<Rightarrow> 'a list \<Rightarrow> 's \<Rightarrow> 's option" where
  "for_each f [] s = Some s"
| "for_each f (x # xs) s = do { s \<leftarrow> f x s; for_each f xs s }"

text \<open>An array element at an \<open>int\<close> index; outside of the array the behaviour is undefined.\<close>

definition arr_get :: "'a list \<Rightarrow> int \<Rightarrow> 'a option" where
  "arr_get xs i = (if 0 \<le> i \<and> nat i < length xs then Some (xs ! nat i) else None)"

text \<open>An array of \<open>n\<close> elements with a shorter initialiser: the rest is zero.\<close>

definition padded :: "nat \<Rightarrow> 'a \<Rightarrow> 'a list \<Rightarrow> 'a list" where
  "padded n z xs = take n (xs @ replicate n z)"


text \<open>
  A C loop without a bound: \<open>Again\<close> is the next turn, \<open>Finish\<close> leaves the loop. An endless run
  has the value \<open>None\<close>.
\<close>

datatype ('a, 'b) turn = Again 'a | Finish 'b

partial_function (option) loop :: "('a \<Rightarrow> ('a, 'b) turn option) \<Rightarrow> 'a \<Rightarrow> 'b option" where
  "loop body x =
     Option.bind (body x) (\<lambda>t. case t of Again y \<Rightarrow> loop body y | Finish z \<Rightarrow> Some z)"

lemma loop_unfold_Again: "body x = Some (Again y) \<Longrightarrow> loop body x = loop body y"
  by (subst loop.simps) simp

lemma loop_unfold_Finish: "body x = Some (Finish z) \<Longrightarrow> loop body x = Some z"
  by (subst loop.simps) simp

lemma loop_invariant:
  assumes "loop body x = Some z" and "I x"
    and "\<And>x y. I x \<Longrightarrow> body x = Some (Again y) \<Longrightarrow> I y"
    and "\<And>x z. I x \<Longrightarrow> body x = Some (Finish z) \<Longrightarrow> Q z"
  shows "Q z"
proof -
  have "body = body \<longrightarrow> I x \<longrightarrow> Q z"
  proof (rule loop.raw_induct [of "\<lambda>b x z. b = body \<longrightarrow> I x \<longrightarrow> Q z" "(body, x)" z, simplified prod.case])
    fix lp b x y
    assume IH: "\<And>x b y. lp x b = Some y \<Longrightarrow> x = body \<longrightarrow> I b \<longrightarrow> Q y"
      and run: "Option.bind (b x) (\<lambda>t. case t of Again y \<Rightarrow> lp b y | Finish z \<Rightarrow> Some z) = Some y"
    show "b = body \<longrightarrow> I x \<longrightarrow> Q y"
    proof (intro impI)
      assume b: "b = body" and Ix: "I x"
      from run obtain t where t: "b x = Some t"
        "(case t of Again y \<Rightarrow> lp b y | Finish z \<Rightarrow> Some z) = Some y"
        by (rule bind_SomeE)
      show "Q y"
      proof (cases t)
        case (Again u)
        then show ?thesis using t b Ix assms(3) [of x u] IH [of b u y] by simp
      next
        case (Finish v)
        then show ?thesis using t b Ix assms(4) [of x v] by simp
      qed
    qed
  qed (rule assms(1))
  then show ?thesis using assms(2) by blast
qed

end
