(* ===== verification/Machine.thy ===== *)
theory Machine
  imports Prelude
begin

text \<open>
  The machine below the firmware: port input and output and the time-stamp counter
  (\<open>seabios/src/x86.h\<close>) and the register file of a BIOS software interrupt
  (\<open>seabios/src/bregs.h\<close>, \<open>stacks.c\<close>).

  The chipset, the add-on devices, the video BIOS and the other threads are not code of this
  repository. They are the parameter \<open>io\<close>, a record of functions on a world of an arbitrary type
  \<open>'w\<close>: what one instruction or one call does to the world and what it returns.
\<close>

section \<open>Registers of a BIOS call\<close>

text \<open>
  \<open>struct bregs\<close> (\<open>bregs.h\<close>): the 8-bit halves of the four general registers are fields, a 16-bit
  register is the pair of its halves. \<open>es_bp\<close> is what the far pointer \<open>ES:BP\<close> points to: the
  bytes of the caller's buffer.
\<close>

record bregs =
  br_ah :: u8   br_al :: u8
  br_bh :: u8   br_bl :: u8
  br_ch :: u8   br_cl :: u8
  br_dh :: u8   br_dl :: u8
  br_es :: u16
  br_flags :: u16
  es_bp :: "u8 list"

definition bregs_zero :: bregs where
  "bregs_zero = \<lparr>br_ah = 0, br_al = 0, br_bh = 0, br_bl = 0, br_ch = 0, br_cl = 0,
     br_dh = 0, br_dl = 0, br_es = 0, br_flags = 0, es_bp = []\<rparr>"

definition set_ax :: "u16 \<Rightarrow> 'r bregs_scheme \<Rightarrow> 'r bregs_scheme" where
  "set_ax v r = r\<lparr>br_ah := hi8 v, br_al := lo8 v\<rparr>"

definition set_cx :: "u16 \<Rightarrow> 'r bregs_scheme \<Rightarrow> 'r bregs_scheme" where
  "set_cx v r = r\<lparr>br_ch := hi8 v, br_cl := lo8 v\<rparr>"

definition set_dx :: "u16 \<Rightarrow> 'r bregs_scheme \<Rightarrow> 'r bregs_scheme" where
  "set_dx v r = r\<lparr>br_dh := hi8 v, br_dl := lo8 v\<rparr>"

definition get_ax :: "'r bregs_scheme \<Rightarrow> u16" where
  "get_ax r = le16 (br_al r) (br_ah r)"

definition get_cx :: "'r bregs_scheme \<Rightarrow> u16" where
  "get_cx r = le16 (br_cl r) (br_ch r)"

definition F_CF :: u16 where "F_CF = 1"
definition F_ZF :: u16 where "F_ZF = 0x40"
definition F_IF :: u16 where "F_IF = 0x200"

lemma get_ax_set_ax [simp]: "get_ax (set_ax v r) = v"
  by (simp add: get_ax_def set_ax_def)

lemma get_cx_set_cx [simp]: "get_cx (set_cx v r) = v"
  by (simp add: get_cx_def set_cx_def)

section \<open>The interface to the hardware\<close>

record 'w io =
  io_inb :: "u16 \<Rightarrow> 'w \<Rightarrow> u8 \<times> 'w"
  io_inl :: "u16 \<Rightarrow> 'w \<Rightarrow> u32 \<times> 'w"
  io_outb :: "u8 \<Rightarrow> u16 \<Rightarrow> 'w \<Rightarrow> 'w"
  io_outl :: "u32 \<Rightarrow> u16 \<Rightarrow> 'w \<Rightarrow> 'w"
  io_rdtsc :: "'w \<Rightarrow> u64 \<times> 'w"
  io_cr0 :: "'w \<Rightarrow> u32"
  io_setcr0 :: "u32 \<Rightarrow> 'w \<Rightarrow> 'w"
  io_wbinvd :: "'w \<Rightarrow> 'w"
  io_yield :: "'w \<Rightarrow> 'w"
  io_yield_toirq :: "'w \<Rightarrow> 'w"
  io_timer_counter :: "'w \<Rightarrow> u32"
  io_call16 :: "u8 \<Rightarrow> bregs \<Rightarrow> 'w \<Rightarrow> bregs \<times> 'w"

text \<open>
  The firmware's state: the three variables that \<open>timer_setup\<close> fills, the last sample of a narrow
  timer, and the world. The drivers extend the record with their own static variables.
\<close>

record 'w mach =
  TimerKHz :: u32
  TimerPort :: u16
  ShiftTSC :: u8
  TimerLast :: u32
  wd :: 'w

definition inb :: "'w io \<Rightarrow> u16 \<Rightarrow> ('w, 'z) mach_scheme \<Rightarrow> u8 \<times> ('w, 'z) mach_scheme" where
  "inb io port s = (case io_inb io port (wd s) of (v, w) \<Rightarrow> (v, s\<lparr>wd := w\<rparr>))"

definition inl :: "'w io \<Rightarrow> u16 \<Rightarrow> ('w, 'z) mach_scheme \<Rightarrow> u32 \<times> ('w, 'z) mach_scheme" where
  "inl io port s = (case io_inl io port (wd s) of (v, w) \<Rightarrow> (v, s\<lparr>wd := w\<rparr>))"

definition outb :: "'w io \<Rightarrow> u8 \<Rightarrow> u16 \<Rightarrow> ('w, 'z) mach_scheme \<Rightarrow> ('w, 'z) mach_scheme" where
  "outb io v port s = s\<lparr>wd := io_outb io v port (wd s)\<rparr>"

definition outl :: "'w io \<Rightarrow> u32 \<Rightarrow> u16 \<Rightarrow> ('w, 'z) mach_scheme \<Rightarrow> ('w, 'z) mach_scheme" where
  "outl io v port s = s\<lparr>wd := io_outl io v port (wd s)\<rparr>"

definition rdtscll :: "'w io \<Rightarrow> ('w, 'z) mach_scheme \<Rightarrow> u64 \<times> ('w, 'z) mach_scheme" where
  "rdtscll io s = (case io_rdtsc io (wd s) of (v, w) \<Rightarrow> (v, s\<lparr>wd := w\<rparr>))"

text \<open>
  \<open>yield\<close> and \<open>yield_toirq\<close> of \<open>stacks.c\<close> let the other threads and the interrupt handlers
  run: a step of the world. \<open>io_timer_counter\<close> reads the tick count that the timer interrupt keeps
  in the BIOS data area.
\<close>

definition yield :: "'w io \<Rightarrow> ('w, 'z) mach_scheme \<Rightarrow> ('w, 'z) mach_scheme" where
  "yield io s = s\<lparr>wd := io_yield io (wd s)\<rparr>"

definition yield_toirq :: "'w io \<Rightarrow> ('w, 'z) mach_scheme \<Rightarrow> ('w, 'z) mach_scheme" where
  "yield_toirq io s = s\<lparr>wd := io_yield_toirq io (wd s)\<rparr>"

definition call16_int :: "'w io \<Rightarrow> u8 \<Rightarrow> bregs \<Rightarrow> ('w, 'z) mach_scheme \<Rightarrow>
    bregs \<times> ('w, 'z) mach_scheme" where
  "call16_int io nr br s = (case io_call16 io nr br (wd s) of (br', w) \<Rightarrow> (br', s\<lparr>wd := w\<rparr>))"

end
