(* ===== verification/Timer.thy ===== *)
theory Timer
  imports Machine
begin

text \<open>
  The internal timer, \<open>seabios/src/hw/timer.c\<close>: its setup from the processor's features or from
  the power management timer, the reading of a 32-bit tick count from one of three sources, and the
  delays built on it. The configuration has \<open>CONFIG_PMTIMER\<close> set.
\<close>

section \<open>Reading the timer\<close>

definition PORT_PIT_COUNTER0 :: u16 where "PORT_PIT_COUNTER0 = 0x40"
definition PORT_PIT_COUNTER2 :: u16 where "PORT_PIT_COUNTER2 = 0x42"
definition PORT_PIT_MODE :: u16 where "PORT_PIT_MODE = 0x43"
definition PORT_PS2_CTRLB :: u16 where "PORT_PS2_CTRLB = 0x61"

definition timer_adjust_bits :: "u32 \<Rightarrow> u32 \<Rightarrow> ('w, 'z) mach_scheme \<Rightarrow> u32 \<times> ('w, 'z) mach_scheme"
where
  "timer_adjust_bits value validbits s =
     (let last = TimerLast s;
          v = (last AND NOT validbits) OR (value AND validbits);
          v' = (if v < last then v + (validbits + 1) else v)
      in (v', s\<lparr>TimerLast := v'\<rparr>))"

definition timer_read :: "'w io \<Rightarrow> ('w, 'z) mach_scheme \<Rightarrow> u32 \<times> ('w, 'z) mach_scheme" where
  "timer_read io s =
     (if TimerPort s = 0
      then (case rdtscll io s of (v, s) \<Rightarrow> (ucast (drop_bit (unat (ShiftTSC s)) v), s))
      else if TimerPort s \<noteq> PORT_PIT_COUNTER0
      then (case inl io (TimerPort s) s of (v, s) \<Rightarrow> timer_adjust_bits v 0xffffff s)
      else (let s = outb io 0xD2 PORT_PIT_MODE s in
            case inb io PORT_PIT_COUNTER0 s of (lo, s) \<Rightarrow>
            case inb io PORT_PIT_COUNTER0 s of (hi, s) \<Rightarrow>
            timer_adjust_bits (ucast (le16 lo hi)) 0xffff s))"

definition timer_check :: "'w io \<Rightarrow> u32 \<Rightarrow> ('w, 'z) mach_scheme \<Rightarrow> bool \<times> ('w, 'z) mach_scheme" where
  "timer_check io end s = (case timer_read io s of (v, s) \<Rightarrow> (0 < sint (v - end), s))"

text \<open>\<open>timer_sleep\<close> is the same loop with \<open>yield\<close> in its body.\<close>

partial_function (option) timer_sleep_loop ::
    "'w io \<Rightarrow> u32 \<Rightarrow> ('w, 'z) mach_scheme \<Rightarrow> ('w, 'z) mach_scheme option" where
  "timer_sleep_loop io end s =
     (case timer_check io end s of (late, s) \<Rightarrow>
        if late then Some s else timer_sleep_loop io end (yield io s))"

definition timer_sleep :: "'w io \<Rightarrow> u32 \<Rightarrow> ('w, 'z) mach_scheme \<Rightarrow> ('w, 'z) mach_scheme option" where
  "timer_sleep io diff s =
     (case timer_read io s of (start, s) \<Rightarrow> timer_sleep_loop io (start + diff) s)"

text \<open>\<open>cpu_relax\<close> in the body of \<open>timer_delay\<close> is a hint to the processor without an effect.\<close>

partial_function (option) timer_delay_loop ::
    "'w io \<Rightarrow> u32 \<Rightarrow> ('w, 'z) mach_scheme \<Rightarrow> ('w, 'z) mach_scheme option" where
  "timer_delay_loop io end s =
     (case timer_check io end s of (late, s) \<Rightarrow>
        if late then Some s else timer_delay_loop io end s)"

definition timer_delay :: "'w io \<Rightarrow> u32 \<Rightarrow> ('w, 'z) mach_scheme \<Rightarrow> ('w, 'z) mach_scheme option" where
  "timer_delay io diff s =
     (case timer_read io s of (start, s) \<Rightarrow> timer_delay_loop io (start + diff) s)"

definition udelay :: "'w io \<Rightarrow> u32 \<Rightarrow> ('w, 'z) mach_scheme \<Rightarrow> ('w, 'z) mach_scheme option" where
  "udelay io count s = timer_delay io (DIV_ROUND_UP (count * TimerKHz s) 1000) s"

definition ndelay :: "'w io \<Rightarrow> u32 \<Rightarrow> ('w, 'z) mach_scheme \<Rightarrow> ('w, 'z) mach_scheme option" where
  "ndelay io count s = timer_delay io (DIV_ROUND_UP (count * TimerKHz s) 1000000) s"

definition mdelay :: "'w io \<Rightarrow> u32 \<Rightarrow> ('w, 'z) mach_scheme \<Rightarrow> ('w, 'z) mach_scheme option" where
  "mdelay io count s = timer_delay io (count * TimerKHz s) s"

definition timer_calc :: "'w io \<Rightarrow> u32 \<Rightarrow> ('w, 'z) mach_scheme \<Rightarrow> u32 \<times> ('w, 'z) mach_scheme" where
  "timer_calc io msecs s = (case timer_read io s of (v, s) \<Rightarrow> (v + TimerKHz s * msecs, s))"

definition timer_calc_usec :: "'w io \<Rightarrow> u32 \<Rightarrow> ('w, 'z) mach_scheme \<Rightarrow> u32 \<times> ('w, 'z) mach_scheme"
where
  "timer_calc_usec io usecs s =
     (case timer_read io s of (v, s) \<Rightarrow> (v + DIV_ROUND_UP (TimerKHz s * usecs) 1000, s))"

definition nsleep :: "'w io \<Rightarrow> u32 \<Rightarrow> ('w, 'z) mach_scheme \<Rightarrow> ('w, 'z) mach_scheme option" where
  "nsleep io count s = timer_sleep io (DIV_ROUND_UP (count * TimerKHz s) 1000000) s"

definition usleep :: "'w io \<Rightarrow> u32 \<Rightarrow> ('w, 'z) mach_scheme \<Rightarrow> ('w, 'z) mach_scheme option" where
  "usleep io count s = timer_sleep io (DIV_ROUND_UP (count * TimerKHz s) 1000) s"

definition msleep :: "'w io \<Rightarrow> u32 \<Rightarrow> ('w, 'z) mach_scheme \<Rightarrow> ('w, 'z) mach_scheme option" where
  "msleep io count s = timer_sleep io (count * TimerKHz s) s"

section \<open>Setting the timer up\<close>

definition PMTIMER_HZ :: "'a::len word" where "PMTIMER_HZ = 3579545"
definition PMTIMER_TO_PIT :: "'a::len word" where "PMTIMER_TO_PIT = 3"
definition CALIBRATE_COUNT :: "'a::len word" where "CALIBRATE_COUNT = 0x800"

text \<open>
  The calibration counts time-stamp ticks while the PIT's channel 2 runs down \<open>CALIBRATE_COUNT\<close>:
  a polling loop, then a loop that halves the count until it fits in 24 bits, doubling the unit each
  time.
\<close>

partial_function (option) wait_t2out :: "'w io \<Rightarrow> ('w, 'z) mach_scheme \<Rightarrow> ('w, 'z) mach_scheme option"
where
  "wait_t2out io s =
     (case inb io PORT_PS2_CTRLB s of (v, s) \<Rightarrow>
        if v AND 0x20 = 0 then wait_t2out io s else Some s)"

function tsc_scale :: "u64 \<Rightarrow> u8 \<Rightarrow> u64 \<times> u8" where
  "tsc_scale t shift =
     (if t < 0x1000000 then (t, shift) else tsc_scale (drop_bit 1 (t + 1)) (shift + 1))"
  by pat_completeness auto
termination
proof (relation "measure (\<lambda>(t, shift). if t = - 1 then 2 ^ 64 else unat t)", goal_cases)
  case 1 show ?case by simp
next
  case (2 t shift)
  then have big: "0x1000000 \<le> unat t"
    by (simp add: word_le_nat_alt not_less)
  show ?case
  proof (cases "t = - 1")
    case True
    then show ?thesis by simp
  next
    case False
    then have "unat (t + 1) = unat t + 1"
      by (metis Suc_eq_plus1 add.commute unatSuc add_eq_0_iff)
    then have "unat (drop_bit 1 (t + 1)) = (unat t + 1) div 2"
      by (simp add: unat_drop_bit_eq drop_bit_eq_div unat_div)
    moreover have "drop_bit 1 (t + 1) \<noteq> - 1"
    proof
      assume "drop_bit 1 (t + 1) = - 1"
      then have "bit (drop_bit 1 (t + 1)) 63" by simp
      then show False by (auto simp: bit_simps dest: bit_imp_le_length)
    qed
    ultimately show ?thesis using False big by simp
  qed
qed

text \<open>\<open>pit_start\<close> opens the gate of the channel and loads its count; \<open>orig\<close> is the value of port 61h.\<close>

definition pit_start :: "'w io \<Rightarrow> u8 \<Rightarrow> ('w, 'z) mach_scheme \<Rightarrow> ('w, 'z) mach_scheme" where
  "pit_start io orig s =
     (let s = outb io ((orig AND NOT 2) OR 1) PORT_PS2_CTRLB s;
          s = outb io 0xB0 PORT_PIT_MODE s;
          s = outb io (ucast (CALIBRATE_COUNT AND 0xFF :: u32)) PORT_PIT_COUNTER2 s
      in outb io (ucast (drop_bit 8 CALIBRATE_COUNT :: u32)) PORT_PIT_COUNTER2 s)"

definition tsctimer_setup :: "'w io \<Rightarrow> ('w, 'z) mach_scheme \<Rightarrow> ('w, 'z) mach_scheme option" where
  "tsctimer_setup io s =
     (case inb io PORT_PS2_CTRLB s of (orig, s) \<Rightarrow>
      case rdtscll io (pit_start io orig s) of (start, s) \<Rightarrow>
      do {
        s \<leftarrow> wait_t2out io s;
        let (end, s) = rdtscll io s;
        let s = outb io orig PORT_PS2_CTRLB s;
        let diff = end - start;
        let (t, shift) = tsc_scale (DIV_ROUND_UP (diff * PMTIMER_HZ) CALIBRATE_COUNT) (ShiftTSC s);
        Some (s\<lparr>ShiftTSC := shift,
                TimerKHz := DIV_ROUND_UP (ucast t) (1000 * PMTIMER_TO_PIT)\<rparr>)
      })"

text \<open>
  \<open>cpuid\<close> executes the instruction when the processor has it; the two results that
  \<open>timer_setup\<close> reads, the highest leaf and the feature flags of leaf 1, are arguments.
\<close>

definition timer_setup :: "'w io \<Rightarrow> u32 \<Rightarrow> u32 \<Rightarrow> ('w, 'z) mach_scheme \<Rightarrow> ('w, 'z) mach_scheme option"
where
  "timer_setup io max_leaf leaf1_edx s =
     (if TimerPort s \<noteq> 0 then Some s
      else let features = (if max_leaf > 0 then leaf1_edx else 0)
           in if features AND 0x10 = 0
              then Some (s\<lparr>TimerPort := PORT_PIT_COUNTER0,
                           TimerKHz := DIV_ROUND_UP PMTIMER_HZ (1000 * PMTIMER_TO_PIT)\<rparr>)
              else tsctimer_setup io s)"

definition pmtimer_setup :: "u16 \<Rightarrow> ('w, 'z) mach_scheme \<Rightarrow> ('w, 'z) mach_scheme" where
  "pmtimer_setup ioport s =
     s\<lparr>TimerPort := ioport, TimerKHz := DIV_ROUND_UP PMTIMER_HZ 1000\<rparr>"

section \<open>Ticks of the timer interrupt\<close>

definition ticks_to_ms :: "u32 \<Rightarrow> u32" where
  "ticks_to_ms ticks = DIV_ROUND_UP (65536 * 1000 * PMTIMER_TO_PIT * ticks) PMTIMER_HZ"

definition ticks_from_ms :: "u32 \<Rightarrow> u32" where
  "ticks_from_ms ms =
     (let t = ucast (DIV_ROUND_UP (ucast ms * PMTIMER_HZ :: u64) 65536) :: u32
      in DIV_ROUND_UP t (1000 * PMTIMER_TO_PIT))"

definition pit_setup :: "'w io \<Rightarrow> ('w, 'z) mach_scheme \<Rightarrow> ('w, 'z) mach_scheme" where
  "pit_setup io s =
     (let s = outb io 0x34 PORT_PIT_MODE s;
          s = outb io 0 PORT_PIT_COUNTER0 s
      in outb io 0 PORT_PIT_COUNTER0 s)"

section \<open>Properties\<close>

lemma round_up_word:
  fixes n d :: "'a::len word"
  assumes "unat n + unat d < 2 ^ LENGTH('a)" "d \<noteq> 0"
  shows "unat (DIV_ROUND_UP n d) = (unat n + unat d - 1) div unat d"
proof -
  have d: "0 < unat d" using assms(2) by (simp add: unat_gt_0)
  have "unat (n + d) = unat n + unat d"
    using assms(1) by (simp add: unat_word_ariths)
  then have "unat (n + d - 1) = unat n + unat d - 1"
    using d by (subst unat_minus_one) (auto simp: word_eq_iff_unsigned)
  then show ?thesis by (simp add: DIV_ROUND_UP_def unat_div)
qed

text \<open>
  Milliseconds become ticks of the timer interrupt by rounding up, so that a wait is never shorter than
  asked for, for every interval up to 21 hours. The way back overflows its 32 bits early: it is exact up to 21
  ticks (1.2 seconds), and 22 ticks are 9 milliseconds.
\<close>

theorem ticks_conversions:
  "(unat ms \<le> 78000000 \<longrightarrow> unat ms * 3579545 \<le> unat (ticks_from_ms ms) * 3000 * 65536 \<and>
      unat (ticks_from_ms ms) * 3000 * 65536 < unat ms * 3579545 + 3000 * 65536) \<and>
   (ticks \<le> 21 \<longrightarrow> unat (ticks_to_ms ticks) = (unat ticks * 196608000 + 3579544) div 3579545) \<and>
   ticks_to_ms 22 = 9"
proof (intro conjI impI)
  assume ms: "unat ms \<le> 78000000"
  let ?p = "ucast ms * PMTIMER_HZ :: u64"
  have p: "unat ?p = unat ms * 3579545"
    using ms by (simp add: PMTIMER_HZ_def unat_word_ariths unsigned_ucast_eq take_bit_nat_eq_self)
  define t where "t = (unat ms * 3579545 + 65535) div 65536"
  have "t \<le> (78000000 * 3579545 + 65535) div 65536"
    unfolding t_def using ms by (intro div_le_mono) auto
  then have t: "t \<le> 4260340000" by simp
  have "unat (DIV_ROUND_UP ?p 65536) = t"
    using ms p by (subst round_up_word) (simp_all add: t_def)
  then have t32: "unat (ucast (DIV_ROUND_UP ?p 65536) :: u32) = t"
    using t by (simp add: unsigned_ucast_eq take_bit_nat_eq_self)
  have r: "unat (ticks_from_ms ms) = (t + 2999) div 3000"
    unfolding ticks_from_ms_def Let_def using t t32
    by (subst round_up_word) (simp_all add: PMTIMER_TO_PIT_def)
  show "unat ms * 3579545 \<le> unat (ticks_from_ms ms) * 3000 * 65536"
    unfolding r t_def by linarith
  show "unat (ticks_from_ms ms) * 3000 * 65536 < unat ms * 3579545 + 3000 * 65536"
    unfolding r t_def by linarith
next
  assume "ticks \<le> 21"
  then have n: "unat ticks \<le> 21" by (simp add: word_le_nat_alt)
  have "unat (65536 * 1000 * PMTIMER_TO_PIT * ticks) = unat ticks * 196608000"
    using n by (simp add: PMTIMER_TO_PIT_def unat_word_ariths)
  then show "unat (ticks_to_ms ticks) = (unat ticks * 196608000 + 3579544) div 3579545"
    unfolding ticks_to_ms_def using n
    by (subst round_up_word) (simp_all add: PMTIMER_HZ_def)
next
  show "ticks_to_ms 22 = 9"
    by (simp add: ticks_to_ms_def PMTIMER_TO_PIT_def PMTIMER_HZ_def DIV_ROUND_UP_def)
qed

theorem ticks_conversions_witness:
  "1000 * 3579545 \<le> unat (ticks_from_ms 1000) * 3000 * 65536 \<and> unat (ticks_to_ms 18) = 989"
  using ticks_conversions [of 1000 18] by simp

end
