(* ===== verification/Clock.thy ===== *)
theory Clock
  imports Timer
begin

text \<open>
  What the delays and the timeouts of the drivers rely on: a clock that advances with every reading
  and never too far between two of them. The contract is the locale \<open>tick_clock\<close>, on what
  \<open>timer_read\<close> returns; the loops of \<open>timer.c\<close> are proved in it to return, and not too early.
  The interpretation is the time-stamp counter as \<open>timer_setup\<close> configures it.
\<close>

section \<open>Operations that return\<close>

text \<open>\<open>returns Q m\<close>: the operation \<open>m\<close> ends, with a result that satisfies \<open>Q\<close>.\<close>

definition returns :: "('r \<Rightarrow> bool) \<Rightarrow> 'r option \<Rightarrow> bool" where
  "returns Q m \<longleftrightarrow> (\<exists>r. m = Some r \<and> Q r)"

named_theorems runs "operations that return and keep the clock in order"

lemma returns_Some [runs]: "Q r \<Longrightarrow> returns Q (Some r)"
  by (simp add: returns_def)

lemma returns_bind [runs]:
  assumes "returns R m" "\<And>r. R r \<Longrightarrow> returns Q (k r)"
  shows "returns Q (Option.bind m k)"
  using assms by (auto simp: returns_def)

lemma returns_map [runs]: "returns (\<lambda>r. Q (f r)) m \<Longrightarrow> returns Q (map_option f m)"
  by (auto simp: returns_def)

lemma returns_if [runs]:
  "(b \<Longrightarrow> returns Q m) \<Longrightarrow> (\<not> b \<Longrightarrow> returns Q n) \<Longrightarrow> returns Q (if b then m else n)"
  by simp

lemma returns_prod:
  "\<lbrakk>case r of (x, y) \<Rightarrow> P x y; \<And>x y. P x y \<Longrightarrow> returns Q (f x y)\<rbrakk> \<Longrightarrow>
     returns Q (case r of (x, y) \<Rightarrow> f x y)"
  by (cases r) simp

lemma returns_mono: "returns Q m \<Longrightarrow> (\<And>r. Q r \<Longrightarrow> R r) \<Longrightarrow> returns R m"
  by (auto simp: returns_def)

lemma returns_andalso [runs]:
  assumes "returns (\<lambda>(b, s). P s) (f s)" "\<And>s. P s \<Longrightarrow> returns (\<lambda>(b, s). P s) (g s)"
  shows "returns (\<lambda>(b, s). P s) (andalso f g s)"
  using assms by (fastforce simp: returns_def andalso_def)

section \<open>Operations that may not return\<close>

text \<open>\<open>yields Q m\<close>: if \<open>m\<close> returns, its result satisfies \<open>Q\<close>.\<close>

definition yields :: "('r \<Rightarrow> bool) \<Rightarrow> 'r option \<Rightarrow> bool" where
  "yields Q m \<longleftrightarrow> (\<forall>r. m = Some r \<longrightarrow> Q r)"

lemma yieldsD: "yields Q m \<Longrightarrow> m = Some r \<Longrightarrow> Q r"
  by (simp add: yields_def)

lemma yields_simps [simp]:
  "yields Q (Some r) \<longleftrightarrow> Q r" "yields Q None"
  "yields Q (map_option f m) \<longleftrightarrow> yields (\<lambda>r. Q (f r)) m"
  by (auto simp: yields_def)

lemma yields_bind:
  "(\<And>x. m = Some x \<Longrightarrow> yields Q (f x)) \<Longrightarrow> yields Q (Option.bind m f)"
  by (auto simp: yields_def bind_eq_Some_conv)

lemma yields_mono: "yields R m \<Longrightarrow> (\<And>r. R r \<Longrightarrow> Q r) \<Longrightarrow> yields Q m"
  by (auto simp: yields_def)

lemma yields_bind_of:
  "yields R m \<Longrightarrow> (\<And>x. R x \<Longrightarrow> yields Q (f x)) \<Longrightarrow> yields Q (Option.bind m f)"
  by (auto simp: yields_def bind_eq_Some_conv)

lemma yields_loop:
  assumes "I x" "\<And>x. I x \<Longrightarrow> yields (case_turn I Q) (body x)"
  shows "yields Q (loop body x)"
  unfolding yields_def
proof (intro allI impI)
  fix r assume "loop body x = Some r"
  then show "Q r"
    by (rule loop_invariant [where I = I]) (use assms(1) in \<open>auto dest: yieldsD [OF assms(2)]\<close>)
qed

lemma arr_get_yields: "yields (\<lambda>x. x \<in> set xs) (arr_get xs i)"
  by (auto simp: arr_get_def yields_def)

section \<open>A clock\<close>

text \<open>
  \<open>cyc\<close> counts the cycles that have passed, \<open>unit\<close> is the number of cycles of one tick, and
  \<open>gap\<close> bounds the cycles one instruction or one turn of the other threads takes: at 500 MHz the
  2^28 cycles are half a second.
\<close>

definition gap :: nat where "gap = 2 ^ 28"

locale tick_clock =
  fixes io :: "'w io" and cyc :: "'w \<Rightarrow> nat" and unit :: nat
    and ok :: "('w, 'z) mach_scheme \<Rightarrow> bool"
  assumes unit: "0 < unit"
    and read: "\<lbrakk>ok s; timer_read io s = (v, s')\<rbrakk> \<Longrightarrow>
      ok s' \<and> v = of_nat (cyc (wd s') div unit) \<and> cyc (wd s) < cyc (wd s') \<and> cyc (wd s') \<le> cyc (wd s) + gap \<and>
      TimerKHz s' = TimerKHz s"
begin

text \<open>A deadline less than 2^30 ticks ahead is recognised, in spite of the wrap-around.\<close>

lemma late_iff:
  assumes "e \<le> n + 2 ^ 30" "n < e + 2 ^ 31"
  shows "0 < sint ((of_nat n :: u32) - of_nat e) \<longleftrightarrow> e < n"
proof -
  have "(of_nat n :: u32) - of_nat e = of_int (int n - int e)" by simp
  moreover have "sint (word_of_int (int n - int e) :: u32) = int n - int e"
    using assms by (subst signed_of_int) (simp add: signed_take_bit_int_eq_self)
  ultimately show ?thesis by simp
qed

lemma check_late:
  assumes "ok s" "timer_check io (of_nat e) s = (b, s')"
    "e * unit \<le> cyc (wd s) + 2 ^ 30 * unit" "cyc (wd s) \<le> (e + 1) * unit + 6 * gap"
  shows "ok s'" "cyc (wd s) < cyc (wd s')" "cyc (wd s') \<le> cyc (wd s) + gap" "b \<longleftrightarrow> e < cyc (wd s') div unit"
    "TimerKHz s' = TimerKHz s"
proof -
  obtain v where v: "timer_read io s = (v, s')" "b = (0 < sint (v - of_nat e))"
    using assms(2) by (auto simp: timer_check_def split: prod.splits)
  note r = read [OF assms(1) v(1)]
  show "ok s'" "cyc (wd s) < cyc (wd s')" "cyc (wd s') \<le> cyc (wd s) + gap" "TimerKHz s' = TimerKHz s"
    using r by auto
  have "e * unit \<le> cyc (wd s') + 2 ^ 30 * unit" using assms(3) r by linarith
  then have "e \<le> (cyc (wd s') + 2 ^ 30 * unit) div unit" using unit by (subst less_eq_div_iff_mult_less_eq) auto
  also have "\<dots> = cyc (wd s') div unit + 2 ^ 30" 
    using div_mult_self1 [of unit "cyc (wd s')" "2 ^ 30"] unit by simp
  finally have 1: "e \<le> cyc (wd s') div unit + 2 ^ 30" .
  have "cyc (wd s') \<le> (e + 1) * unit + 7 * gap" using assms(4) r by linarith
  also have "\<dots> \<le> (e + 1) * unit + 7 * gap * unit" using unit by simp
  also have "\<dots> = (e + 1 + 7 * gap) * unit" by (simp add: algebra_simps)
  finally have "cyc (wd s') div unit \<le> e + 1 + 7 * gap"
    using unit by (metis div_le_mono nonzero_mult_div_cancel_right not_gr0)
  then have 2: "cyc (wd s') div unit < e + 2 ^ 31" by (simp add: gap_def)
  show "b \<longleftrightarrow> e < cyc (wd s') div unit"
    using late_iff [OF 1 2] v(2) r by simp
qed

lemma check:
  assumes "ok s" "timer_check io (of_nat e) s = (b, s')"
    "e * unit \<le> cyc (wd s) + 2 ^ 30 * unit" "cyc (wd s) \<le> (e + 1) * unit + 2 * gap"
  shows "ok s'" "cyc (wd s) < cyc (wd s')" "cyc (wd s') \<le> cyc (wd s) + gap" "b \<longleftrightarrow> e < cyc (wd s') div unit"
    "TimerKHz s' = TimerKHz s"
proof -
  have "cyc (wd s) \<le> (e + 1) * unit + 6 * gap" using assms(4) by simp
  from check_late [OF assms(1-3) this] show "ok s'" "cyc (wd s) < cyc (wd s')" "cyc (wd s') \<le> cyc (wd s) + gap"
    "b \<longleftrightarrow> e < cyc (wd s') div unit" "TimerKHz s' = TimerKHz s" by simp_all
qed

lemma div_le_bound: "n div unit \<le> e \<Longrightarrow> n < (e + 1) * unit"
  using unit by (metis Suc_eq_plus1 div_less_iff_less_mult le_imp_less_Suc)

text \<open>The waiting loop of \<open>timer_delay\<close>: it leaves after the deadline, and it does leave.\<close>

lemma delay_loop:
  assumes "ok s" "cyc (wd s) \<le> (e + 1) * unit" "e * unit \<le> cyc (wd s) + 2 ^ 30 * unit"
  shows "\<exists>s'. timer_delay_loop io (of_nat e) s = Some s' \<and> ok s' \<and> e < cyc (wd s') div unit"
  using assms
proof (induction "(e + 1) * unit - cyc (wd s)" arbitrary: s rule: less_induct)
  case less
  obtain b s1 where c: "timer_check io (of_nat e) s = (b, s1)" by fastforce
  note k = check [OF less.prems(1) c less.prems(3)]
  have le: "cyc (wd s) \<le> (e + 1) * unit + 2 * gap" using less.prems(2) by simp
  show ?case
  proof (cases b)
    case True
    then show ?thesis using k [OF le] c by (subst timer_delay_loop.simps) auto
  next
    case False
    then have "cyc (wd s1) < (e + 1) * unit" using k(4) [OF le] by (intro div_le_bound) simp
    then have "\<exists>s'. timer_delay_loop io (of_nat e) s1 = Some s' \<and> ok s' \<and> e < cyc (wd s') div unit"
      using k(1-3) [OF le] less.prems by (intro less.hyps) auto
    then show ?thesis using False c by (subst timer_delay_loop.simps) auto
  qed
qed

text \<open>The deadline of a delay, in ticks that have not wrapped around.\<close>

lemma deadline:
  assumes "ok s" "timer_read io s = (v, s1)" "unat diff \<le> 2 ^ 30"
  shows "\<exists>e. ok s1 \<and> v + diff = of_nat e \<and> cyc (wd s) < cyc (wd s1) \<and> TimerKHz s1 = TimerKHz s \<and>
    cyc (wd s1) \<le> (e + 1) * unit \<and> e * unit \<le> cyc (wd s1) + 2 ^ 30 * unit \<and>
    (\<forall>n. e < n div unit \<longrightarrow> cyc (wd s1) + unat diff * unit < n)"
proof (intro exI [of _ "cyc (wd s1) div unit + unat diff"] conjI allI impI)
  note r = read [OF assms(1,2)]
  show "ok s1" "cyc (wd s) < cyc (wd s1)" "TimerKHz s1 = TimerKHz s"
    "v + diff = of_nat (cyc (wd s1) div unit + unat diff)"
    using r by auto
  have c: "cyc (wd s1) < (cyc (wd s1) div unit + 1) * unit"
    using div_le_bound [of "cyc (wd s1)" "cyc (wd s1) div unit"] by simp
  then show "cyc (wd s1) \<le> (cyc (wd s1) div unit + unat diff + 1) * unit"
    by (simp add: add_mult_distrib)
  show "(cyc (wd s1) div unit + unat diff) * unit \<le> cyc (wd s1) + 2 ^ 30 * unit"
    using assms(3) by (simp add: add_mult_distrib add_mono)
  fix n assume "cyc (wd s1) div unit + unat diff < n div unit"
  then have "(cyc (wd s1) div unit + unat diff + 1) * unit \<le> n"
    using unit by (metis Suc_eq_plus1 Suc_leI less_eq_div_iff_mult_less_eq)
  then show "cyc (wd s1) + unat diff * unit < n"
    using c by (simp add: add_mult_distrib)
qed

lemma delay:
  assumes "ok s" "unat diff \<le> 2 ^ 30"
  shows "\<exists>s'. timer_delay io diff s = Some s' \<and> ok s' \<and> cyc (wd s) + unat diff * unit < cyc (wd s')"
proof -
  obtain v s1 where rd: "timer_read io s = (v, s1)" by fastforce
  obtain e where e: "ok s1" "v + diff = of_nat e" "cyc (wd s) < cyc (wd s1)"
      "cyc (wd s1) \<le> (e + 1) * unit" "e * unit \<le> cyc (wd s1) + 2 ^ 30 * unit"
      "\<And>n. e < n div unit \<Longrightarrow> cyc (wd s1) + unat diff * unit < n"
    using deadline [OF assms(1) rd assms(2)] by blast
  obtain s' where s': "timer_delay_loop io (of_nat e) s1 = Some s'" "ok s'" "e < cyc (wd s') div unit"
    using delay_loop [OF e(1,4,5)] by blast
  then show ?thesis
    using e(2,3) e(6) [OF s'(3)] rd by (auto simp: timer_delay_def)
qed

lemma sleep_loop:
  assumes "ok s" "cyc (wd s) \<le> (e + 1) * unit + gap" "e * unit \<le> cyc (wd s) + 2 ^ 30 * unit"
    and idle: "\<And>s. ok s \<Longrightarrow> ok (yield io s) \<and> cyc (wd s) \<le> cyc (wd (yield io s)) \<and>
      cyc (wd (yield io s)) \<le> cyc (wd s) + gap"
  shows "\<exists>s'. timer_sleep_loop io (of_nat e) s = Some s' \<and> ok s' \<and> e < cyc (wd s') div unit"
  using assms(1-3)
proof (induction "(e + 1) * unit + gap - cyc (wd s)" arbitrary: s rule: less_induct)
  case less
  obtain b s1 where c: "timer_check io (of_nat e) s = (b, s1)" by fastforce
  have le: "cyc (wd s) \<le> (e + 1) * unit + 2 * gap" using less.prems(2) by simp
  note k = check [OF less.prems(1) c less.prems(3) le]
  show ?case
  proof (cases b)
    case True
    then show ?thesis using k c by (subst timer_sleep_loop.simps) auto
  next
    case False
    then have early: "cyc (wd s1) < (e + 1) * unit" using k(4) by (intro div_le_bound) simp
    note y = idle [OF k(1)]
    have "\<exists>s'. timer_sleep_loop io (of_nat e) (yield io s1) = Some s' \<and> ok s' \<and> e < cyc (wd s') div unit"
      using early y k less.prems by (intro less.hyps) auto
    then show ?thesis using False c by (subst timer_sleep_loop.simps) auto
  qed
qed

lemma sleep:
  assumes "ok s" "unat diff \<le> 2 ^ 30"
    and "\<And>s. ok s \<Longrightarrow> ok (yield io s) \<and> cyc (wd s) \<le> cyc (wd (yield io s)) \<and>
      cyc (wd (yield io s)) \<le> cyc (wd s) + gap"
  shows "\<exists>s'. timer_sleep io diff s = Some s' \<and> ok s' \<and> cyc (wd s) + unat diff * unit < cyc (wd s')"
proof -
  obtain v s1 where rd: "timer_read io s = (v, s1)" by fastforce
  obtain e where e: "ok s1" "v + diff = of_nat e" "cyc (wd s) < cyc (wd s1)"
      "cyc (wd s1) \<le> (e + 1) * unit" "e * unit \<le> cyc (wd s1) + 2 ^ 30 * unit"
      "\<And>n. e < n div unit \<Longrightarrow> cyc (wd s1) + unat diff * unit < n"
    using deadline [OF assms(1) rd assms(2)] by blast
  obtain s' where s': "timer_sleep_loop io (of_nat e) s1 = Some s'" "ok s'" "e < cyc (wd s') div unit"
    using sleep_loop [OF e(1) _ e(5) assms(3)] e(4) by fastforce
  then show ?thesis
    using e(2,3) e(6) [OF s'(3)] rd by (auto simp: timer_sleep_def)
qed

end

section \<open>A machine with a clock\<close>

text \<open>
  The drivers read ports, write ports, run interrupts and let other threads run between two readings
  of the clock. \<open>KHZ_MAX\<close> is the largest rate that \<open>tsctimer_setup\<close> computes; with it the
  delays and timeouts of up to \<open>DELAY_MAX\<close> milliseconds do not overflow.
\<close>

definition KHZ_MAX :: nat where "KHZ_MAX = 5593"
definition DELAY_MAX :: nat where "DELAY_MAX = 190000"

locale timed_machine = tick_clock +
  assumes world: "ok s \<Longrightarrow> ok (s\<lparr>wd := w\<rparr>)"
    and khz: "ok s \<Longrightarrow> unat (TimerKHz s) \<le> KHZ_MAX"
    and inb_time: "ok s \<Longrightarrow> cyc w \<le> cyc (snd (io_inb io port w))"
      "ok s \<Longrightarrow> cyc (snd (io_inb io port w)) \<le> cyc w + gap"
    and yield_time: "ok s \<Longrightarrow> cyc w \<le> cyc (io_yield io w)" "ok s \<Longrightarrow> cyc (io_yield io w) \<le> cyc w + gap"
begin

lemma outb_ok [simp]: "ok s \<Longrightarrow> ok (outb io v port s)"
  by (simp add: outb_def world)

lemma outl_ok [simp]: "ok s \<Longrightarrow> ok (outl io v port s)"
  by (simp add: outl_def world)

lemma snd_ok [simp]:
  "ok s \<Longrightarrow> ok (snd (inb io port s))" "ok s \<Longrightarrow> ok (snd (inl io port s))"
  "ok s \<Longrightarrow> ok (snd (call16_int io nr br s))"
  by (auto simp: inb_def inl_def call16_int_def world split: prod.splits)

lemma inb_runs [runs]:
  "\<lbrakk>ok s; \<And>v s. ok s \<Longrightarrow> returns Q (k v s)\<rbrakk> \<Longrightarrow> returns Q (case inb io port s of (v, s) \<Rightarrow> k v s)"
  by (auto simp: inb_def world split: prod.splits)

lemma inl_runs [runs]:
  "\<lbrakk>ok s; \<And>v s. ok s \<Longrightarrow> returns Q (k v s)\<rbrakk> \<Longrightarrow> returns Q (case inl io port s of (v, s) \<Rightarrow> k v s)"
  by (auto simp: inl_def world split: prod.splits)

lemma ticks_exact:
  assumes "ok s" "unat count \<le> DELAY_MAX"
  shows "unat (count * TimerKHz s) = unat count * unat (TimerKHz s)"
    "unat count * unat (TimerKHz s) < 2 ^ 30"
proof -
  have "unat count * unat (TimerKHz s) \<le> DELAY_MAX * KHZ_MAX"
    using assms khz by (intro mult_mono) auto
  also have "\<dots> < 2 ^ 30" by (simp add: DELAY_MAX_def KHZ_MAX_def)
  finally show b: "unat count * unat (TimerKHz s) < 2 ^ 30" .
  show "unat (count * TimerKHz s) = unat count * unat (TimerKHz s)"
    using b by (simp add: unat_word_ariths)
qed

lemma div_round_up:
  assumes "ok s" "unat count \<le> DELAY_MAX" "0 < d" "d \<le> 1000000"
  shows "unat (DIV_ROUND_UP (count * TimerKHz s) d) = (unat count * unat (TimerKHz s) + unat d - 1) div unat d"
    "unat (DIV_ROUND_UP (count * TimerKHz s) d) \<le> 2 ^ 30"
proof -
  note t = ticks_exact [OF assms(1,2)]
  have d: "0 < unat d" "unat d \<le> 1000000" using assms(3,4) by (simp_all add: word_le_nat_alt unat_gt_0)
  have "unat (count * TimerKHz s + d) = unat count * unat (TimerKHz s) + unat d"
    using t d by (subst unat_add_lem [THEN iffD1]) auto
  then have "unat (count * TimerKHz s + d - 1) = unat count * unat (TimerKHz s) + unat d - 1"
    using d by (subst unat_minus_one) (auto simp: word_eq_iff_unsigned)
  then show e: "unat (DIV_ROUND_UP (count * TimerKHz s) d) =
      (unat count * unat (TimerKHz s) + unat d - 1) div unat d"
    by (simp add: DIV_ROUND_UP_def unat_div)
  have le: "(n + unat d - 1) div unat d \<le> n" for n
  proof -
    have "n * 1 \<le> n * unat d" using d by (intro mult_le_mono) auto
    then have "n + unat d - 1 < (n + 1) * unat d" using d unfolding add_mult_distrib by linarith
    then have "(n + unat d - 1) div unat d < n + 1" using d by (subst div_less_iff_less_mult) auto
    then show ?thesis by simp
  qed
  then show "unat (DIV_ROUND_UP (count * TimerKHz s) d) \<le> 2 ^ 30"
    using e t(2) le [of "unat count * unat (TimerKHz s)"] by linarith
qed

lemma round_up_le: "0 < d \<Longrightarrow> n \<le> (n + d - 1) div d * (d::nat)"
  using dividend_less_div_times [of d "n + d - 1"] by linarith

text \<open>Every delay returns, and it lasts as long as it was asked to.\<close>

lemma mdelay_runs:
  assumes "ok s" "unat count \<le> DELAY_MAX"
  shows "\<exists>s'. mdelay io count s = Some s' \<and> ok s' \<and>
    cyc (wd s) + unat count * unat (TimerKHz s) * unit < cyc (wd s')"
  using delay [OF assms(1), of "count * TimerKHz s"] ticks_exact [OF assms]
  by (simp add: mdelay_def)

lemma udelay_runs:
  assumes "ok s" "unat count \<le> DELAY_MAX"
  shows "\<exists>s'. udelay io count s = Some s' \<and> ok s' \<and>
    cyc (wd s) * 1000 + unat count * unat (TimerKHz s) * unit < cyc (wd s') * 1000"
proof -
  have d: "(0 :: u32) < 1000" "(1000 :: u32) \<le> 1000000" by simp_all
  note r = div_round_up [OF assms d]
  obtain q where q: "q = (unat count * unat (TimerKHz s) + 1000 - 1) div 1000" by blast
  obtain s' where s': "udelay io count s = Some s'" "ok s'" "cyc (wd s) + q * unit < cyc (wd s')"
    using delay [OF assms(1) r(2)] r(1) q by (auto simp: udelay_def)
  have "unat count * unat (TimerKHz s) * unit \<le> (q * 1000) * unit"
    using round_up_le [of 1000] q by (intro mult_right_mono) auto
  also have "\<dots> = q * unit * 1000" by simp
  finally have "cyc (wd s) * 1000 + unat count * unat (TimerKHz s) * unit < cyc (wd s') * 1000"
    using s'(3) by linarith
  then show ?thesis using s' by blast
qed

lemma udelay_returns [runs]:
  "ok s \<Longrightarrow> unat count \<le> DELAY_MAX \<Longrightarrow> returns ok (udelay io count s)"
  using udelay_runs by (fastforce simp: returns_def)

lemma mdelay_returns [runs]:
  "ok s \<Longrightarrow> unat count \<le> DELAY_MAX \<Longrightarrow> returns ok (mdelay io count s)"
  using mdelay_runs by (fastforce simp: returns_def)

lemma yield_ok: "ok s \<Longrightarrow> ok (yield io s) \<and> cyc (wd s) \<le> cyc (wd (yield io s)) \<and>
    cyc (wd (yield io s)) \<le> cyc (wd s) + gap"
  by (simp add: yield_def world yield_time)

lemma msleep_runs:
  assumes "ok s" "unat count \<le> DELAY_MAX"
  shows "\<exists>s'. msleep io count s = Some s' \<and> ok s' \<and>
    cyc (wd s) + unat count * unat (TimerKHz s) * unit < cyc (wd s')"
  using sleep [OF assms(1) _ yield_ok, of "count * TimerKHz s"] ticks_exact [OF assms]
  by (simp add: msleep_def)

end

section \<open>The time-stamp counter\<close>

definition tsc_clock :: "'w io \<Rightarrow> ('w \<Rightarrow> nat) \<Rightarrow> bool" where
  "tsc_clock io cyc \<longleftrightarrow>
     (\<forall>w. fst (io_rdtsc io w) = of_nat (cyc (snd (io_rdtsc io w))) \<and>
          cyc w < cyc (snd (io_rdtsc io w)) \<and> cyc (snd (io_rdtsc io w)) \<le> cyc w + gap) \<and>
     (\<forall>w port. cyc w \<le> cyc (snd (io_inb io port w)) \<and> cyc (snd (io_inb io port w)) \<le> cyc w + gap) \<and>
     (\<forall>w. cyc w \<le> cyc (io_yield io w) \<and> cyc (io_yield io w) \<le> cyc w + gap)"

text \<open>The timer is set up to count units of 2^k cycles.\<close>

definition tsc_timer :: "'w io \<Rightarrow> ('w \<Rightarrow> nat) \<Rightarrow> nat \<Rightarrow> ('w, 'z) mach_scheme \<Rightarrow> bool" where
  "tsc_timer io cyc k s \<longleftrightarrow> tsc_clock io cyc \<and> TimerPort s = 0 \<and> unat (ShiftTSC s) = k \<and> k \<le> 32 \<and>
     unat (TimerKHz s) \<le> KHZ_MAX"

lemma ucast_drop_bit_of_nat:
  assumes "k \<le> 32"
  shows "(ucast (drop_bit k (of_nat c :: u64)) :: u32) = of_nat (c div 2 ^ k)"
proof (rule bit_word_eqI)
  fix n assume "n < LENGTH(32)"
  then show "bit (ucast (drop_bit k (of_nat c :: u64)) :: u32) n = bit (of_nat (c div 2 ^ k) :: u32) n"
    using assms by (auto simp: bit_simps drop_bit_eq_div [symmetric])
qed

interpretation tsc: timed_machine io cyc "2 ^ k" "tsc_timer io cyc k" for io :: "'w io" and cyc k
proof unfold_locales
  fix s :: "('w, 'b) mach_scheme" and v s'
  assume ok: "tsc_timer io cyc k s" and run: "timer_read io s = (v, s')"
  obtain c w where c: "io_rdtsc io (wd s) = (c, w)" by fastforce
  have "fst (io_rdtsc io (wd s)) = of_nat (cyc (snd (io_rdtsc io (wd s))))" "cyc (wd s) < cyc w"
      "cyc w \<le> cyc (wd s) + gap"
    using ok c by (auto simp: tsc_timer_def tsc_clock_def dest: spec [of _ "wd s"])
  then show "tsc_timer io cyc k s' \<and> v = of_nat (cyc (wd s') div 2 ^ k) \<and> cyc (wd s) < cyc (wd s') \<and>
      cyc (wd s') \<le> cyc (wd s) + gap \<and> TimerKHz s' = TimerKHz s"
    using ok run c by (auto simp: timer_read_def rdtscll_def tsc_timer_def ucast_drop_bit_of_nat)
qed (auto simp: tsc_timer_def tsc_clock_def)

section \<open>Calibration\<close>

text \<open>
  Scaling halves the count, rounding up, until it has 24 bits: the unit grows by the same power of two,
  and the scaled count never stands for less than the count it started from.
\<close>

declare tsc_scale.simps [simp del]

lemma unat_drop_bit_1: "unat (drop_bit 1 (v :: u64)) = unat v div 2"
  by (simp add: unat_drop_bit_eq drop_bit_eq_div unat_div)

lemma tsc_scale_spec:
  assumes "tsc_scale t sh = (t', sh')" "unat t \<le> 2 ^ (24 + m)" "m < 40"
  shows "\<exists>k \<le> m + 1. sh' = sh + of_nat k \<and> unat t' < 2 ^ 24 \<and>
    unat t \<le> unat t' * 2 ^ k \<and> unat t' * 2 ^ k < unat t + 2 ^ k"
  using assms
proof (induction t sh arbitrary: m rule: tsc_scale.induct)
  case (1 t sh)
  show ?case
  proof (cases "t < 0x1000000")
    case True
    then have "unat t < 2 ^ 24" by (simp add: word_less_nat_alt)
    moreover have "t' = t" "sh' = sh" using 1(2) True by (simp_all add: tsc_scale.simps [of t sh])
    ultimately show ?thesis by (intro exI [of _ 0]) auto
  next
    case False
    then have big: "2 ^ 24 \<le> unat t" by (simp add: word_le_nat_alt not_less)
    have "(2 :: nat) ^ (24 + m) \<le> 2 ^ 63" using 1(4) by (intro power_increasing) auto
    then have nm: "unat t + 1 < 2 ^ 64" using 1(3) by simp
    then have u: "unat (drop_bit 1 (t + 1)) = (unat t + 1) div 2"
      unfolding unat_drop_bit_1 by (simp add: unat_word_ariths)
    have run: "tsc_scale (drop_bit 1 (t + 1)) (sh + 1) = (t', sh')"
      using 1(2) False by (simp add: tsc_scale.simps [of t sh])
    show ?thesis
    proof (cases m)
      case 0
      then have "unat (drop_bit 1 (t + 1)) = 2 ^ 23" using 1(3) big u by simp
      then have "drop_bit 1 (t + 1) = 2 ^ 23" by (simp add: word_unat_eq_iff)
      then have "t' = 2 ^ 23" "sh' = sh + 1" "unat t = 2 ^ 24"
        using run 1(3) big 0 by (simp_all add: tsc_scale.simps)
      then show ?thesis using 0 by (intro exI [of _ 1]) simp
    next
      case (Suc n)
      then have "unat t \<le> 2 * 2 ^ (24 + n)" using 1(3) by (simp add: power_add)
      then have "unat (drop_bit 1 (t + 1)) \<le> 2 ^ (24 + n)" unfolding u by linarith
      then obtain k where k: "k \<le> n + 1" "sh' = sh + 1 + of_nat k" "unat t' < 2 ^ 24"
          "(unat t + 1) div 2 \<le> unat t' * 2 ^ k" "unat t' * 2 ^ k < (unat t + 1) div 2 + 2 ^ k"
        using 1(1) [OF False run, of n] 1(4) Suc u by auto
      then have "unat t \<le> unat t' * 2 ^ (k + 1)" "unat t' * 2 ^ (k + 1) < unat t + 2 ^ (k + 1)"
        by simp_all
      then show ?thesis using k Suc by (intro exI [of _ "k + 1"]) simp
    qed
  qed
qed

text \<open>
  The programmable interval timer, as calibration uses it: \<open>t2\<close> counts the polls of port 61h after which
  the output of channel 2 is high.
\<close>

definition pit_board :: "'w io \<Rightarrow> ('w \<Rightarrow> nat) \<Rightarrow> bool" where
  "pit_board io t2 \<longleftrightarrow>
     (\<forall>w. (fst (io_inb io PORT_PS2_CTRLB w) AND 0x20 = 0 \<longleftrightarrow> t2 w \<noteq> 0) \<and>
          (t2 w \<noteq> 0 \<longrightarrow> t2 (snd (io_inb io PORT_PS2_CTRLB w)) < t2 w))"

lemma wait_t2out_returns:
  assumes "pit_board io t2" "tsc_clock io cyc"
  shows "\<exists>w. wait_t2out io s = Some (s\<lparr>wd := w\<rparr>) \<and> cyc (wd s) \<le> cyc w"
proof (induction "t2 (wd s)" arbitrary: s rule: less_induct)
  case less
  obtain v w where v: "io_inb io PORT_PS2_CTRLB (wd s) = (v, w)" by fastforce
  have b: "(v AND 0x20 = 0) = (t2 (wd s) \<noteq> 0)" "t2 (wd s) \<noteq> 0 \<longrightarrow> t2 w < t2 (wd s)"
    using assms(1) v unfolding pit_board_def by (metis fst_conv, metis snd_conv)
  have c: "cyc (wd s) \<le> cyc w"
    using assms(2) v unfolding tsc_clock_def by (metis snd_conv)
  show ?case
  proof (cases "t2 (wd s) = 0")
    case True
    then show ?thesis using v b c by (subst wait_t2out.simps) (auto simp: inb_def)
  next
    case False
    then obtain w' where "wait_t2out io (s\<lparr>wd := w\<rparr>) = Some (s\<lparr>wd := w\<rparr>\<lparr>wd := w'\<rparr>)" "cyc w \<le> cyc w'"
      using less [of "s\<lparr>wd := w\<rparr>"] b by auto
    then show ?thesis using v b c False by (subst wait_t2out.simps) (auto simp: inb_def)
  qed
qed

text \<open>The rate that the setup derives from a count of cycles over the calibration interval.\<close>

definition calibrated :: "nat \<Rightarrow> nat \<Rightarrow> u32 \<Rightarrow> bool" where
  "calibrated cycles k khz \<longleftrightarrow> k \<le> 32 \<and> unat khz \<le> KHZ_MAX \<and>
     (cycles < 2 ^ 42 \<longrightarrow>
        cycles * 3579545 \<le> unat khz * 3000 * 2 ^ k * 0x800 \<and>
        unat khz * 3000 * 2 ^ k * 0x800 < cycles * 3579545 + 3000 * 2 ^ k * 0x800)"

lemma of_nat_diff_small:
  assumes "a \<le> (b::nat)" "b - a < 2 ^ 42"
  shows "unat ((of_nat b :: u64) - of_nat a) = b - a"
proof -
  have "(of_nat b :: u64) - of_nat a = of_nat (b - a)" using assms(1) by simp
  then show ?thesis using assms(2) by (simp add: unsigned_of_nat take_bit_nat_eq_self)
qed

lemma unat_lt: "unat (v :: u64) < 2 ^ 64"
  using unsigned_less [of v] by simp

lemma scale_calibrated:
  assumes "tsc_scale (DIV_ROUND_UP (diff * PMTIMER_HZ) CALIBRATE_COUNT) 0 = (t, sh)"
  shows "calibrated (unat diff) (unat sh) (DIV_ROUND_UP (ucast t) (1000 * PMTIMER_TO_PIT))"
proof -
  let ?t = "DIV_ROUND_UP (diff * PMTIMER_HZ) CALIBRATE_COUNT :: u64"
  have "unat ?t \<le> (2 ^ 64) div 0x800"
    using unat_lt [of "0x7FF + diff * PMTIMER_HZ :: u64"]
    by (simp add: DIV_ROUND_UP_def CALIBRATE_COUNT_def unat_div)
  then have "unat ?t \<le> 2 ^ (24 + 29)" by simp
  then obtain k where k: "k \<le> 30" "sh = of_nat k" "unat t < 2 ^ 24" "unat ?t \<le> unat t * 2 ^ k"
      "unat t * 2 ^ k < unat ?t + 2 ^ k"
    using tsc_scale_spec [OF assms, of 29] by auto
  have sh: "unat sh = k" using k(1,2) by (simp add: unsigned_of_nat take_bit_nat_eq_self)
  let ?khz = "DIV_ROUND_UP (ucast t) (1000 * PMTIMER_TO_PIT) :: u32"
  have ut: "unat (ucast t :: u32) = unat t"
    using k(3) by (simp add: unsigned_ucast_eq take_bit_nat_eq_self)
  then have khz: "unat ?khz = (unat t + 2999) div 3000"
    using k(3) ut by (simp add: DIV_ROUND_UP_def PMTIMER_TO_PIT_def unat_div unat_word_ariths)
  let ?K = "unat ?khz" and ?P = "(2 :: nat) ^ k" and ?d = "unat diff * 3579545"
  have K: "unat t \<le> 3000 * ?K" "3000 * ?K \<le> unat t + 2999"
    unfolding khz by linarith+
  then have "?K \<le> KHZ_MAX" using k(3) by (simp add: KHZ_MAX_def)
  moreover have "?d \<le> ?K * 3000 * ?P * 0x800 \<and> ?K * 3000 * ?P * 0x800 < ?d + 3000 * ?P * 0x800"
    if "unat diff < 2 ^ 42"
  proof -
    have "unat ?t = (?d + 2047) div 2048"
      using that by (simp add: DIV_ROUND_UP_def CALIBRATE_COUNT_def PMTIMER_HZ_def unat_div unat_word_ariths)
    then have T: "?d \<le> 2048 * unat ?t" "2048 * unat ?t < ?d + 2048" by linarith+
    have "unat t * ?P \<le> 3000 * ?K * ?P" "3000 * ?K * ?P \<le> (unat t + 2999) * ?P"
      using K by (auto intro: mult_right_mono)
    then have "unat t * ?P \<le> 3000 * (?K * ?P)" "3000 * (?K * ?P) \<le> unat t * ?P + 2999 * ?P"
      by (simp_all add: algebra_simps)
    then have "?d \<le> 2048 * (3000 * (?K * ?P))" "2048 * (3000 * (?K * ?P)) < ?d + 2048 * (3000 * ?P)"
      using T k(4,5) by linarith+
    then show ?thesis by (simp add: algebra_simps)
  qed
  ultimately show ?thesis
    unfolding calibrated_def sh using k(1) by auto
qed

text \<open>The cycles between the two readings of the counter, after the PIT was started and after it ran down.\<close>

definition calibration_cycles :: "'w io \<Rightarrow> ('w \<Rightarrow> nat) \<Rightarrow> ('w, 'z) mach_scheme \<Rightarrow> nat" where
  "calibration_cycles io cyc s =
     (case inb io PORT_PS2_CTRLB s of (orig, s) \<Rightarrow>
      let s1 = snd (rdtscll io (pit_start io orig s))
      in case wait_t2out io s1 of
           None \<Rightarrow> 0
         | Some s \<Rightarrow> cyc (wd (snd (rdtscll io s))) - cyc (wd s1))"

section \<open>A simulated clock\<close>

definition clock_sim :: "nat io" where
  "clock_sim =
     \<lparr>io_inb = (\<lambda>port w. (if w < 1200 then 0 else 0x20, w + 400)),
      io_inl = (\<lambda>port w. (0, w + 400)),
      io_outb = (\<lambda>v port w. w + 400),
      io_outl = (\<lambda>v port w. w + 400),
      io_rdtsc = (\<lambda>w. (of_nat (w + 20), w + 20)),
      io_cr0 = (\<lambda>w. 0), io_setcr0 = (\<lambda>v w. w), io_wbinvd = (\<lambda>w. w),
      io_yield = (\<lambda>w. w + 1000), io_yield_toirq = (\<lambda>w. w + 1000),
      io_timer_counter = (\<lambda>w. of_nat (w div 27462500)),
      io_call16 = (\<lambda>nr br w. (br, w + 1000))\<rparr>"

lemma clock_sim_tsc: "tsc_clock clock_sim id"
  by (simp add: tsc_clock_def clock_sim_def gap_def)

lemma splice_of_nat:
  "((of_nat n :: u32) AND NOT (mask b)) OR (of_nat m AND mask b) =
     of_nat (n div 2 ^ b * 2 ^ b + m mod 2 ^ b)"
proof -
  have high: "(of_nat n :: u32) AND NOT (mask b) = of_nat (n div 2 ^ b * 2 ^ b)"
  proof (rule bit_word_eqI)
    fix i assume "i < LENGTH(32)"
    moreover have "n div 2 ^ b * 2 ^ b = push_bit b (drop_bit b n)"
      by (simp add: push_bit_eq_mult drop_bit_eq_div)
    ultimately show "bit ((of_nat n :: u32) AND NOT (mask b)) i = bit (of_nat (n div 2 ^ b * 2 ^ b) :: u32) i"
      by (auto simp: bit_simps)
  qed
  have low: "(of_nat m :: u32) AND mask b = of_nat (m mod 2 ^ b)"
    by (simp add: take_bit_of_nat flip: take_bit_eq_mask take_bit_eq_mod)
  have "((of_nat n :: u32) AND NOT (mask b)) AND (of_nat m AND mask b) = 0"
    by (rule bit_word_eqI) (auto simp: bit_simps)
  then have "((of_nat n :: u32) AND NOT (mask b)) OR (of_nat m AND mask b) =
      ((of_nat n :: u32) AND NOT (mask b)) + (of_nat m AND mask b)"
    by (simp add: disjunctive_add_eq_or)
  then show ?thesis unfolding high low by simp
qed

section \<open>Properties\<close>

text \<open>
  C25. A delay in microseconds ends, and not too early: with the time-stamp counter as the clock,
  \<open>udelay\<close> returns after at least \<open>count * TimerKHz / 1000\<close> units of 2^k cycles, whether or not the
  32-bit tick count wraps around meanwhile, and leaves the timer as it was set up.
\<close>

theorem udelay_waits:
  assumes "tsc_timer io cyc k s" "unat count \<le> DELAY_MAX"
  shows "\<exists>s'. udelay io count s = Some s' \<and> tsc_timer io cyc k s' \<and>
    unat count * unat (TimerKHz s) * 2 ^ k < (cyc (wd s') - cyc (wd s)) * 1000"
  using tsc.udelay_runs [OF assms] by (auto simp: diff_mult_distrib)

theorem udelay_waits_witness:
  "\<exists>s'. udelay clock_sim 10 \<lparr>TimerKHz = 5000, TimerPort = 0, ShiftTSC = 5, TimerLast = 0, wd = 2 ^ 37 - 100\<rparr>
      = Some s' \<and> 10 * 5000 * 2 ^ 5 < (wd s' - (2 ^ 37 - 100)) * 1000"
  using udelay_waits [of clock_sim id 5
      "\<lparr>TimerKHz = 5000, TimerPort = 0, ShiftTSC = 5, TimerLast = 0, wd = 2 ^ 37 - 100\<rparr>" 10]
    clock_sim_tsc
  by (auto simp: tsc_timer_def KHZ_MAX_def DELAY_MAX_def)

text \<open>
  C26. The setup of the timer returns when channel 2 of the PIT runs down, whatever the speed of the
  processor, and it calibrates: the rate it stores is never below the rate of the cycles that passed
  while the channel counted down, and above it by less than one unit per millisecond. The timer then satisfies
  the contract of the clock.
\<close>

theorem timer_setup_calibrates:
  assumes "TimerPort s = 0" "ShiftTSC s = 0" "0 < max_leaf" "leaf1_edx AND 0x10 \<noteq> 0"
    and "pit_board io t2" "tsc_clock io cyc"
  shows "\<exists>s' k. timer_setup io max_leaf leaf1_edx s = Some s' \<and> tsc_timer io cyc k s' \<and>
    calibrated (calibration_cycles io cyc s) k (TimerKHz s')"
proof -
  obtain orig w1 where 1: "io_inb io PORT_PS2_CTRLB (wd s) = (orig, w1)" by fastforce
  define w2 where "w2 = wd (pit_start io orig (s\<lparr>wd := w1\<rparr>))"
  obtain start w3 where 3: "io_rdtsc io w2 = (start, w3)" by fastforce
  obtain w4 where 4: "wait_t2out io (s\<lparr>wd := w3\<rparr>) = Some (s\<lparr>wd := w4\<rparr>)" "cyc w3 \<le> cyc w4"
    using wait_t2out_returns [OF assms(5,6), of "s\<lparr>wd := w3\<rparr>"] by auto
  obtain fin w5 where 5: "io_rdtsc io w4 = (fin, w5)" by fastforce
  have tsc: "start = of_nat (cyc w3)" "fin = of_nat (cyc w5)" "cyc w4 < cyc w5"
    using assms(6) 3 5 unfolding tsc_clock_def by (metis fst_conv snd_conv)+
  have ps: "pit_start io orig (s\<lparr>wd := w1\<rparr>) = s\<lparr>wd := w2\<rparr>"
    by (simp add: w2_def pit_start_def outb_def)
  have cc: "calibration_cycles io cyc s = cyc w5 - cyc w3"
    using 1 3 4 5 ps by (simp add: calibration_cycles_def inb_def rdtscll_def)
  obtain t sh where t: "tsc_scale (DIV_ROUND_UP ((fin - start) * PMTIMER_HZ) CALIBRATE_COUNT) 0 = (t, sh)"
    by fastforce
  let ?khz = "DIV_ROUND_UP (ucast t) (1000 * PMTIMER_TO_PIT) :: u32"
  have cal: "calibrated (unat (fin - start)) (unat sh) ?khz" by (rule scale_calibrated [OF t])
  have "calibrated (calibration_cycles io cyc s) (unat sh) ?khz"
    using cal of_nat_diff_small [of "cyc w3" "cyc w5"] tsc 4(2) unfolding cc calibrated_def by auto
  moreover have "timer_setup io max_leaf leaf1_edx s =
      Some (s\<lparr>wd := io_outb io orig PORT_PS2_CTRLB w5, ShiftTSC := sh, TimerKHz := ?khz\<rparr>)"
    using 1 3 4 5 t ps assms(1-4)
    by (simp add: timer_setup_def tsctimer_setup_def inb_def rdtscll_def outb_def)
  moreover have "unat sh \<le> 32" "unat ?khz \<le> KHZ_MAX" using cal by (auto simp: calibrated_def)
  ultimately show ?thesis
    using assms(1,6) by (intro exI [of _ "unat sh"] exI conjI) (auto simp: tsc_timer_def)
qed

theorem timer_setup_calibrates_witness:
  "\<exists>s' k. timer_setup clock_sim 1 0x10 \<lparr>TimerKHz = 0, TimerPort = 0, ShiftTSC = 0, TimerLast = 0, wd = 0\<rparr> = Some s' \<and>
     tsc_timer clock_sim id k s'"
proof -
  have "pit_board clock_sim (\<lambda>w. 1200 - w)"
    by (simp add: pit_board_def clock_sim_def) presburger
  then show ?thesis
    using timer_setup_calibrates [of "\<lparr>TimerKHz = 0, TimerPort = 0, ShiftTSC = 0, TimerLast = 0, wd = 0\<rparr>" 1 "0x10"
        clock_sim "\<lambda>w. 1200 - w" id] clock_sim_tsc by auto
qed

text \<open>
  The software extension of a narrow timer is exact: a counter of \<open>b\<close> bits that has advanced by less than
  2^b since the last sample \<open>n\<close> yields the 32-bit count of its real position \<open>m\<close>, across every
  wrap-around of the counter and of the count itself.
\<close>

theorem timer_adjust_bits_exact:
  assumes "b < 32" "n \<le> m" "m < n + 2 ^ b" "TimerLast s = of_nat n"
    and "value AND mask b = of_nat m AND mask b"
  shows "timer_adjust_bits value (mask b) s = (of_nat m, s\<lparr>TimerLast := of_nat m\<rparr>)"
proof -
  let ?B = "(2 :: nat) ^ b" and ?C = "(2 :: nat) ^ (32 - b)"
  define x where "x = m mod ?B"
  define q r where "q = n div ?B" and "r = n mod ?B"
  have x: "x < ?B" "r < ?B" "n = q * ?B + r"
    by (simp_all only: x_def r_def q_def div_mult_mod_eq mod_less_divisor zero_less_power zero_less_numeral)
  have v: "((of_nat n :: u32) AND NOT (mask b)) OR (value AND mask b) = of_nat (q * ?B + x)"
    unfolding assms(5) q_def x_def by (rule splice_of_nat)
  have "?B * ?C = 2 ^ 32" using assms(1) by (simp flip: power_add)
  then have u: "unat (of_nat (q * ?B + y) :: u32) = ?B * (q mod ?C) + y" if "y < ?B" for y
  proof -
    have "unat (of_nat (q * ?B + y) :: u32) = (q * ?B + y) mod (?B * ?C)"
      unfolding \<open>?B * ?C = 2 ^ 32\<close> by (simp only: unsigned_of_nat take_bit_eq_mod) simp
    then show ?thesis using mod_mult2_eq [of "q * ?B + y" ?B ?C] that by simp
  qed
  have less: "(of_nat (q * ?B + x) :: u32) < of_nat n \<longleftrightarrow> x < r"
    unfolding x(3) word_less_nat_alt u [OF x(1)] u [OF x(2)] by simp
  have m: "m = q * ?B + x \<and> \<not> x < r \<or> m = q * ?B + x + ?B \<and> x < r"
  proof -
    have e: "m = m div ?B * ?B + x" by (simp only: x_def div_mult_mod_eq)
    have "m div ?B = q \<or> m div ?B = q + 1"
    proof -
      have "q \<le> m div ?B" using assms(2) by (simp add: q_def div_le_mono)
      moreover have "m < (q + 2) * ?B" using assms(3) x by (simp add: algebra_simps)
      then have "m div ?B < q + 2" by (simp add: less_mult_imp_div_less)
      ultimately show ?thesis by linarith
    qed
    then show ?thesis using e x assms(2,3) by (auto simp: algebra_simps)
  qed
  then show ?thesis
    unfolding timer_adjust_bits_def Let_def assms(4) v less
    by (auto simp: mask_eq_exp_minus_1 x(3) algebra_simps)
qed

theorem timer_adjust_bits_exact_witness:
  "timer_adjust_bits 5 (mask 24) \<lparr>TimerKHz = 3580, TimerPort = 0x808, ShiftTSC = 0, TimerLast = 0xFFFFFFFE, wd = ()\<rparr>
     = (5, \<lparr>TimerKHz = 3580, TimerPort = 0x808, ShiftTSC = 0, TimerLast = 5, wd = ()\<rparr>)"
  using timer_adjust_bits_exact [of 24 "0xFFFFFFFE" "0x100000005"
      "\<lparr>TimerKHz = 3580, TimerPort = 0x808, ShiftTSC = 0, TimerLast = 0xFFFFFFFE, wd = ()\<rparr>" 5]
  by (simp add: mask_eq_exp_minus_1)

end
