(* ===== verification/Nbsb.thy ===== *)
theory Nbsb
  imports Machine
begin

text \<open>
  Access to the configuration space of the Vortex86EX north and south bridge through the PCI
  configuration ports 0xCF8 and 0xCFC: \<open>seabios/src/llama/llama_nbsb.c\<close>, \<open>llama_nbsb.h\<close>.
\<close>

datatype vx86ex_nbsb = vx86ex_nb | vx86ex_sb

datatype vx86ex_nbsb_func = vx86ex_nbsb_func0 | vx86ex_nbsb_func1

fun nbsb_dev :: "vx86ex_nbsb \<Rightarrow> u32" where
  "nbsb_dev vx86ex_nb = 0"
| "nbsb_dev vx86ex_sb = 7"

fun nbsb_fun :: "vx86ex_nbsb_func \<Rightarrow> u32" where
  "nbsb_fun vx86ex_nbsb_func0 = 0"
| "nbsb_fun vx86ex_nbsb_func1 = 1"

definition PCI_GET_CF8 :: "u32 \<Rightarrow> u32 \<Rightarrow> u32 \<Rightarrow> u32" where
  "PCI_GET_CF8 bus dev fn = 0x80000000 + push_bit 16 bus + push_bit 11 dev + push_bit 8 fn"

definition pci_in32 :: "'w io \<Rightarrow> u32 \<Rightarrow> ('w, 'z) mach_scheme \<Rightarrow> u32 \<times> ('w, 'z) mach_scheme" where
  "pci_in32 io addr s = inl io 0xCFC (outl io addr 0xCF8 s)"

definition pci_out32 :: "'w io \<Rightarrow> u32 \<Rightarrow> u32 \<Rightarrow> ('w, 'z) mach_scheme \<Rightarrow> ('w, 'z) mach_scheme" where
  "pci_out32 io addr value s = outl io value 0xCFC (outl io addr 0xCF8 s)"

definition lane_shift :: "u32 \<Rightarrow> nat" where
  "lane_shift addr = unat (push_bit 3 (addr AND 3))"

definition pci_in8 :: "'w io \<Rightarrow> u32 \<Rightarrow> ('w, 'z) mach_scheme \<Rightarrow> u8 \<times> ('w, 'z) mach_scheme" where
  "pci_in8 io addr s =
     (case inl io 0xCFC (outl io (addr AND 0xFFFFFFFC) 0xCF8 s) of (v, s) \<Rightarrow>
        (ucast (drop_bit (lane_shift addr) v), s))"

definition pci_out8 :: "'w io \<Rightarrow> u32 \<Rightarrow> u8 \<Rightarrow> ('w, 'z) mach_scheme \<Rightarrow> ('w, 'z) mach_scheme" where
  "pci_out8 io addr value s =
     (case inl io 0xCFC (outl io (addr AND 0xFFFFFFFC) 0xCF8 s) of (v, s) \<Rightarrow>
        outl io ((v AND NOT (push_bit (lane_shift addr) 0xFF))
                 OR push_bit (lane_shift addr) (ucast value)) 0xCFC s)"

definition llama_nbsb_read32 :: "'w io \<Rightarrow> vx86ex_nbsb \<Rightarrow> vx86ex_nbsb_func \<Rightarrow> u8 \<Rightarrow>
    ('w, 'z) mach_scheme \<Rightarrow> u32 \<times> ('w, 'z) mach_scheme" where
  "llama_nbsb_read32 io nbsb func offset s =
     pci_in32 io (PCI_GET_CF8 0 (nbsb_dev nbsb) (nbsb_fun func) + ucast offset) s"

definition llama_nbsb_write32 :: "'w io \<Rightarrow> vx86ex_nbsb \<Rightarrow> vx86ex_nbsb_func \<Rightarrow> u8 \<Rightarrow> u32 \<Rightarrow>
    ('w, 'z) mach_scheme \<Rightarrow> ('w, 'z) mach_scheme" where
  "llama_nbsb_write32 io nbsb func offset value s =
     pci_out32 io (PCI_GET_CF8 0 (nbsb_dev nbsb) (nbsb_fun func) + ucast offset) value s"

definition llama_nbsb_read8 :: "'w io \<Rightarrow> vx86ex_nbsb \<Rightarrow> vx86ex_nbsb_func \<Rightarrow> u8 \<Rightarrow>
    ('w, 'z) mach_scheme \<Rightarrow> u8 \<times> ('w, 'z) mach_scheme" where
  "llama_nbsb_read8 io nbsb func offset s =
     pci_in8 io (PCI_GET_CF8 0 (nbsb_dev nbsb) (nbsb_fun func) + ucast offset) s"

definition llama_nbsb_write8 :: "'w io \<Rightarrow> vx86ex_nbsb \<Rightarrow> vx86ex_nbsb_func \<Rightarrow> u8 \<Rightarrow> u8 \<Rightarrow>
    ('w, 'z) mach_scheme \<Rightarrow> ('w, 'z) mach_scheme" where
  "llama_nbsb_write8 io nbsb func offset value s =
     pci_out8 io (PCI_GET_CF8 0 (nbsb_dev nbsb) (nbsb_fun func) + ucast offset) value s"

section \<open>The configuration ports\<close>

text \<open>
  What the PCI configuration mechanism promises, as far as this driver relies on it: port 0xCF8 is a
  latch for an address, port 0xCFC reads and writes the configuration dword at that address.
  \<open>latch\<close> and \<open>cfg\<close> observe the world.
\<close>

definition pci_config_ports :: "'w io \<Rightarrow> ('w \<Rightarrow> u32) \<Rightarrow> ('w \<Rightarrow> u32 \<Rightarrow> u32) \<Rightarrow> bool" where
  "pci_config_ports io latch cfg \<longleftrightarrow>
     (\<forall>a w. latch (io_outl io a 0xCF8 w) = a \<and> cfg (io_outl io a 0xCF8 w) = cfg w) \<and>
     (\<forall>w. fst (io_inl io 0xCFC w) = cfg w (latch w) \<and>
          latch (snd (io_inl io 0xCFC w)) = latch w \<and> cfg (snd (io_inl io 0xCFC w)) = cfg w) \<and>
     (\<forall>v w. latch (io_outl io v 0xCFC w) = latch w \<and>
            cfg (io_outl io v 0xCFC w) = (cfg w)(latch w := v))"

definition nbsb_addr :: "vx86ex_nbsb \<Rightarrow> vx86ex_nbsb_func \<Rightarrow> u8 \<Rightarrow> u32" where
  "nbsb_addr nbsb func offset = PCI_GET_CF8 0 (nbsb_dev nbsb) (nbsb_fun func) + ucast offset"

definition dword_addr :: "u32 \<Rightarrow> u32" where
  "dword_addr a = a AND 0xFFFFFFFC"

text \<open>The dword \<open>v\<close> with the byte lane of \<open>addr\<close> replaced.\<close>

definition lane_insert :: "u32 \<Rightarrow> u8 \<Rightarrow> u32 \<Rightarrow> u32" where
  "lane_insert addr b v =
     (v AND NOT (push_bit (lane_shift addr) 0xFF)) OR push_bit (lane_shift addr) (ucast b)"

definition lane_get :: "u32 \<Rightarrow> u32 \<Rightarrow> u8" where
  "lane_get addr v = ucast (drop_bit (lane_shift addr) v)"

lemma unat_and_3: "unat (addr AND 3 :: u32) = unat addr mod 4"
proof -
  have "addr AND 3 = take_bit 2 addr"
    by (simp add: take_bit_eq_mask mask_eq_decr_exp)
  then show ?thesis by (simp add: take_bit_eq_mod unat_mod)
qed

lemma lane_shift_eq: "lane_shift addr = 8 * (unat addr mod 4)"
  using unat_and_3 [of addr]
  by (simp add: lane_shift_def push_bit_eq_mult unat_word_ariths)

lemma lane_shift_cases: "lane_shift addr \<in> {0, 8, 16, 24}"
proof -
  have "unat addr mod 4 \<in> {0, 1, 2, 3}" by auto
  then show ?thesis by (auto simp: lane_shift_eq)
qed

lemma mask_0xFF_32: "(0xFF :: u32) = mask 8"
  by (simp add: mask_eq_decr_exp)

lemma lane_get_insert [simp]: "lane_get addr (lane_insert addr b v) = b"
proof (rule bit_word_eqI)
  fix n assume "n < LENGTH(8)"
  then show "bit (lane_get addr (lane_insert addr b v)) n = bit b n"
    using lane_shift_cases [of addr]
    by (auto simp: lane_get_def lane_insert_def bit_simps mask_0xFF_32)
qed

lemma lane_get_insert_other:
  "lane_shift a \<noteq> lane_shift addr \<Longrightarrow> lane_get a (lane_insert addr b v) = lane_get a v"
proof (rule bit_word_eqI)
  fix n assume "n < LENGTH(8)" "lane_shift a \<noteq> lane_shift addr"
  then show "bit (lane_get a (lane_insert addr b v)) n = bit (lane_get a v) n"
    using lane_shift_cases [of addr] lane_shift_cases [of a]
    by (auto simp: lane_get_def lane_insert_def bit_simps mask_0xFF_32 dest: bit_imp_le_length)
qed


lemma dword_lane_inject:
  assumes "dword_addr a = dword_addr b" "lane_shift a = lane_shift b"
  shows "a = b"
proof -
  have not3: "(0xFFFFFFFC :: u32) = NOT 3" by simp
  have split: "x = dword_addr x OR (x AND 3)" for x :: u32
    by (rule bit_word_eqI) (auto simp: dword_addr_def not3 bit_simps)
  have "unat a mod 4 = unat b mod 4" using assms(2) by (simp add: lane_shift_eq)
  then have "a AND 3 = b AND 3"
    by (simp add: word_unat_eq_iff unat_and_3)
  then show ?thesis using assms(1) split [of a] split [of b] by metis
qed

lemmas nbsb_defs =
  llama_nbsb_read32_def llama_nbsb_write32_def llama_nbsb_read8_def llama_nbsb_write8_def
  pci_in32_def pci_out32_def pci_in8_def pci_out8_def inl_def outl_def
  nbsb_addr_def dword_addr_def lane_insert_def lane_get_def

lemma nbsb_read32 [dev_law]:
  assumes "pci_config_ports io latch cfg"
  shows "fst (llama_nbsb_read32 io nbsb func off s) = cfg (wd s) (nbsb_addr nbsb func off)"
    and "cfg (wd (snd (llama_nbsb_read32 io nbsb func off s))) = cfg (wd s)"
  using assms by (auto simp: pci_config_ports_def nbsb_defs split: prod.splits) (metis fst_conv snd_conv)+

lemma nbsb_write32 [dev_law]:
  assumes "pci_config_ports io latch cfg"
  shows "cfg (wd (llama_nbsb_write32 io nbsb func off v s)) = (cfg (wd s))(nbsb_addr nbsb func off := v)"
  using assms by (simp add: pci_config_ports_def nbsb_defs)

lemma nbsb_read8 [dev_law]:
  assumes "pci_config_ports io latch cfg"
  shows "fst (llama_nbsb_read8 io nbsb func off s) =
           lane_get (nbsb_addr nbsb func off) (cfg (wd s) (dword_addr (nbsb_addr nbsb func off)))"
    and "cfg (wd (snd (llama_nbsb_read8 io nbsb func off s))) = cfg (wd s)"
  using assms by (auto simp: pci_config_ports_def nbsb_defs split: prod.splits) (metis fst_conv snd_conv)+

lemma nbsb_write8 [dev_law]:
  assumes "pci_config_ports io latch cfg"
  shows "cfg (wd (llama_nbsb_write8 io nbsb func off v s)) =
           (cfg (wd s))(dword_addr (nbsb_addr nbsb func off) :=
              lane_insert (nbsb_addr nbsb func off) v
                (cfg (wd s) (dword_addr (nbsb_addr nbsb func off))))"
  using assms by (auto simp: pci_config_ports_def nbsb_defs split: prod.splits) (metis fst_conv snd_conv)+

text \<open>
  A byte written to a bridge's configuration space is read back, and no other byte of any
  register of either bridge changes, although the access goes through the dword that holds it.
\<close>

theorem nbsb_write8_byte:
  assumes "pci_config_ports io latch cfg"
  shows "fst (llama_nbsb_read8 io nbsb func off (llama_nbsb_write8 io nbsb func off v s)) = v \<and>
    (\<forall>nbsb' func' off'. nbsb_addr nbsb' func' off' \<noteq> nbsb_addr nbsb func off \<longrightarrow>
       fst (llama_nbsb_read8 io nbsb' func' off' (llama_nbsb_write8 io nbsb func off v s)) =
       fst (llama_nbsb_read8 io nbsb' func' off' s))"
  using dword_lane_inject [of _ "nbsb_addr nbsb func off"]
  by (auto simp: nbsb_read8 [OF assms] nbsb_write8 [OF assms] intro!: lane_get_insert_other)

text \<open>A configuration space that starts out zero.\<close>

definition pci_sim :: "(u32 \<times> (u32 \<Rightarrow> u32)) io" where
  "pci_sim =
     \<lparr>io_inb = (\<lambda>port w. (0, w)),
      io_inl = (\<lambda>port w. (snd w (fst w), w)),
      io_outb = (\<lambda>v port w. w),
      io_outl = (\<lambda>v port w. if port = 0xCF8 then (v, snd w) else (fst w, (snd w)(fst w := v))),
      io_rdtsc = (\<lambda>w. (0, w)), io_cr0 = (\<lambda>w. 0), io_setcr0 = (\<lambda>v w. w), io_wbinvd = (\<lambda>w. w),
      io_yield = (\<lambda>w. w), io_yield_toirq = (\<lambda>w. w), io_timer_counter = (\<lambda>w. 0),
      io_call16 = (\<lambda>nr br w. (br, w))\<rparr>"

definition mach_init :: "'w \<Rightarrow> 'w mach" where
  "mach_init w = \<lparr>TimerKHz = 0, TimerPort = 0, ShiftTSC = 0, TimerLast = 0, wd = w\<rparr>"

theorem nbsb_write8_byte_witness:
  "fst (llama_nbsb_read8 pci_sim vx86ex_sb vx86ex_nbsb_func0 0xC5
     (llama_nbsb_write8 pci_sim vx86ex_sb vx86ex_nbsb_func0 0xC5 0x5A (mach_init (0, \<lambda>_. 0)))) = 0x5A \<and>
   pci_config_ports pci_sim fst snd"
proof -
  have "pci_config_ports pci_sim fst snd" by (simp add: pci_config_ports_def pci_sim_def)
  then show ?thesis using nbsb_write8_byte [of pci_sim fst snd] by blast
qed

end
