(* ===== verification/Spi_Flash.thy ===== *)
theory Spi_Flash
  imports Nbsb
begin

text \<open>
  The driver of the SPI flash chip that holds the firmware and its settings,
  \<open>seabios/src/llama/llama_spi_flash.c\<close>: every operation opens the controller through the bridge's
  configuration space, sends the chip its command in one or more chip-select frames, waits where the
  chip needs time, and closes the controller again.
\<close>

section \<open>Layout of the chip\<close>

definition SPI_ROM_SIZE :: u32 where "SPI_ROM_SIZE = 8 * 1024 * 1024"
definition spi_sector_size :: u32 where "spi_sector_size = 4096"
definition spi_page_size :: u32 where "spi_page_size = 256"
definition spi_sector_offset :: u32 where "spi_sector_offset = SPI_ROM_SIZE - spi_sector_size"
definition spi_crossbar_offset :: u32 where "spi_crossbar_offset = SPI_ROM_SIZE - 3 * spi_page_size"
definition spi_bios_settings_offset :: u32 where
  "spi_bios_settings_offset = SPI_ROM_SIZE - spi_page_size"

section \<open>Bytes on the serial bus\<close>

partial_function (option) spi_wait ::
    "'w io \<Rightarrow> u16 \<Rightarrow> u8 \<Rightarrow> ('w, 'z) mach_scheme \<Rightarrow> ('w, 'z) mach_scheme option" where
  "spi_wait io iobase flag s =
     (case inb io (iobase + 3) s of (v, s) \<Rightarrow>
        if v AND flag = 0 then spi_wait io iobase flag s else Some s)"

definition write_spi_byte :: "'w io \<Rightarrow> u16 \<Rightarrow> u8 \<Rightarrow> ('w, 'z) mach_scheme \<Rightarrow> ('w, 'z) mach_scheme option"
where
  "write_spi_byte io iobase n s = spi_wait io iobase 0x10 (outb io n iobase s)"

definition read_spi_byte :: "'w io \<Rightarrow> u16 \<Rightarrow> ('w, 'z) mach_scheme \<Rightarrow>
    (u8 \<times> ('w, 'z) mach_scheme) option" where
  "read_spi_byte io iobase s =
     do {
       s \<leftarrow> spi_wait io iobase 0x20 (outb io 0 (iobase + 1) s);
       Some (inb io (iobase + 1) s)
     }"

definition enable_cs :: "'w io \<Rightarrow> u16 \<Rightarrow> ('w, 'z) mach_scheme \<Rightarrow> ('w, 'z) mach_scheme" where
  "enable_cs io iobase s = outb io 0 (iobase + 4) s"

definition disable_cs :: "'w io \<Rightarrow> u16 \<Rightarrow> ('w, 'z) mach_scheme \<Rightarrow> ('w, 'z) mach_scheme" where
  "disable_cs io iobase s = outb io 1 (iobase + 4) s"

definition write_spi_24bit_addr :: "'w io \<Rightarrow> u16 \<Rightarrow> u32 \<Rightarrow> ('w, 'z) mach_scheme \<Rightarrow>
    ('w, 'z) mach_scheme option" where
  "write_spi_24bit_addr io iobase addr s =
     do {
       s \<leftarrow> write_spi_byte io iobase (ucast (drop_bit 16 addr AND 0xFF)) s;
       s \<leftarrow> write_spi_byte io iobase (ucast (drop_bit 8 addr AND 0xFF)) s;
       write_spi_byte io iobase (ucast (addr AND 0xFF)) s
     }"

section \<open>The driver's static variables\<close>

record 'w spi_mach = "'w mach" +
  reg_sb_c4 :: u8
  reg_nb_40 :: u32
  spi_ctrl_reg :: u8
  spi_base :: u32

abbreviation spi_port :: "('w, 'z) spi_mach_scheme \<Rightarrow> u16" where
  "spi_port s \<equiv> ucast (spi_base s)"

definition set_flash_writable :: "'w io \<Rightarrow> ('w, 'z) spi_mach_scheme \<Rightarrow> ('w, 'z) spi_mach_scheme" where
  "set_flash_writable io s =
     (case llama_nbsb_read8 io vx86ex_sb vx86ex_nbsb_func0 0xC4 s of (c4, s) \<Rightarrow>
      let s = s\<lparr>reg_sb_c4 := c4\<rparr>
      in case llama_nbsb_read32 io vx86ex_nb vx86ex_nbsb_func0 0x40 s of (nb40, s) \<Rightarrow>
      let s = s\<lparr>reg_nb_40 := nb40, spi_base := nb40 AND 0x00FFF0\<rparr>
      in case inb io (ucast (spi_base s + 2)) s of (ctrl, s) \<Rightarrow>
      let s = s\<lparr>spi_ctrl_reg := ctrl\<rparr>;
          s = llama_nbsb_write8 io vx86ex_sb vx86ex_nbsb_func0 0xC4 (reg_sb_c4 s OR 1) s;
          s = llama_nbsb_write32 io vx86ex_nb vx86ex_nbsb_func0 0x40 (reg_nb_40 s OR 1) s
      in outl io (((ucast (spi_ctrl_reg s) OR 0x20) AND 0xF0) OR 0x0C) (ucast (spi_base s + 2)) s)"

definition set_flash_unwritable :: "'w io \<Rightarrow> ('w, 'z) spi_mach_scheme \<Rightarrow> ('w, 'z) spi_mach_scheme" where
  "set_flash_unwritable io s =
     (let s = outl io (ucast (spi_ctrl_reg s)) (ucast (spi_base s + 2)) s;
          s = llama_nbsb_write32 io vx86ex_nb vx86ex_nbsb_func0 0x40 (reg_nb_40 s) s
      in llama_nbsb_write8 io vx86ex_sb vx86ex_nbsb_func0 0xC4 (reg_sb_c4 s) s)"

section \<open>Identifying the chip\<close>

record flash_info =
  fi_id :: "u8 list"
  fi_name :: string
  fi_size :: u32

definition flash_info_table :: "flash_info list" where
  "flash_info_table =
     [\<lparr>fi_id = [0xc2, 0x20, 0x12], fi_name = ''MX25L2005'', fi_size = 256 * 1024\<rparr>,
      \<lparr>fi_id = [0xc2, 0x20, 0x15], fi_name = ''MX25L1605'', fi_size = 2 * 1024 * 1024\<rparr>,
      \<lparr>fi_id = [0xc2, 0x25, 0x37], fi_name = ''MX25U6435F'', fi_size = 8 * 1024 * 1024\<rparr>,
      \<lparr>fi_id = [0xc2, 0x25, 0x38], fi_name = ''MX25U12835F'', fi_size = 16 * 1024 * 1024\<rparr>]"

definition get_flash_info :: "u8 list \<Rightarrow> flash_info option" where
  "get_flash_info chip = find (\<lambda>fi. fi_id fi = chip) flash_info_table"

definition read_flash_device_id :: "'w io \<Rightarrow> ('w, 'z) spi_mach_scheme \<Rightarrow>
    (u8 list \<times> ('w, 'z) spi_mach_scheme) option" where
  "read_flash_device_id io s =
     do {
       let s = enable_cs io (spi_port s) s;
       s \<leftarrow> write_spi_byte io (spi_port s) 0x9F s;
       (p0, s) \<leftarrow> read_spi_byte io (spi_port s) s;
       (p1, s) \<leftarrow> read_spi_byte io (spi_port s) s;
       (p2, s) \<leftarrow> read_spi_byte io (spi_port s) s;
       Some ([p0, p1, p2], disable_cs io (spi_port s) s)
     }"

definition get_spi_flash_info :: "'w io \<Rightarrow> ('w, 'z) spi_mach_scheme \<Rightarrow>
    (bool \<times> ('w, 'z) spi_mach_scheme) option" where
  "get_spi_flash_info io s =
     do {
       let s = set_flash_writable io s;
       (chip, s) \<leftarrow> read_flash_device_id io s;
       let s = set_flash_unwritable io s;
       Some (get_flash_info chip \<noteq> None, s)
     }"

section \<open>Read, program, erase\<close>

text \<open>
  The write-in-progress bit must read 0 three times in a row. Each turn of the loop reads the status
  register once; \<open>cnt\<close> is \<open>wip_cnt\<close>.
\<close>

partial_function (option) wait_wip :: "'w io \<Rightarrow> nat \<Rightarrow> ('w, 'z) spi_mach_scheme \<Rightarrow>
    ('w, 'z) spi_mach_scheme option" where
  "wait_wip io cnt s =
     Option.bind (read_spi_byte io (spi_port s) s) (\<lambda>(st, s).
       if st AND 1 = 0 then
         (if 3 \<le> cnt + 1 then Some s else wait_wip io (cnt + 1) s)
       else wait_wip io 0 s)"

definition spi_command :: "'w io \<Rightarrow> u8 \<Rightarrow> ('w, 'z) spi_mach_scheme \<Rightarrow> ('w, 'z) spi_mach_scheme option"
where
  "spi_command io cmd s =
     do {
       let s = enable_cs io (spi_port s) s;
       s \<leftarrow> write_spi_byte io (spi_port s) cmd s;
       Some (disable_cs io (spi_port s) s)
     }"

definition spi_finish_write :: "'w io \<Rightarrow> ('w, 'z) spi_mach_scheme \<Rightarrow> ('w, 'z) spi_mach_scheme option"
where
  "spi_finish_write io s =
     do {
       let s = enable_cs io (spi_port s) s;
       s \<leftarrow> write_spi_byte io (spi_port s) 0x05 s;
       s \<leftarrow> wait_wip io 0 s;
       let s = disable_cs io (spi_port s) s;
       s \<leftarrow> spi_command io 0x04 s;
       Some (set_flash_unwritable io s)
     }"

definition spi_flash_write_byte :: "'w io \<Rightarrow> u32 \<Rightarrow> u8 \<Rightarrow> ('w, 'z) spi_mach_scheme \<Rightarrow>
    ('w, 'z) spi_mach_scheme option" where
  "spi_flash_write_byte io in_addr in_value s =
     do {
       let s = set_flash_writable io s;
       s \<leftarrow> spi_command io 0x06 s;
       let s = enable_cs io (spi_port s) s;
       s \<leftarrow> write_spi_byte io (spi_port s) 0x02 s;
       s \<leftarrow> write_spi_24bit_addr io (spi_port s) in_addr s;
       s \<leftarrow> write_spi_byte io (spi_port s) in_value s;
       let s = disable_cs io (spi_port s) s;
       spi_finish_write io s
     }"

definition spi_flash_erase_sector :: "'w io \<Rightarrow> u32 \<Rightarrow> ('w, 'z) spi_mach_scheme \<Rightarrow>
    ('w, 'z) spi_mach_scheme option" where
  "spi_flash_erase_sector io in_addr s =
     do {
       let s = set_flash_writable io s;
       s \<leftarrow> spi_command io 0x06 s;
       let s = enable_cs io (spi_port s) s;
       s \<leftarrow> write_spi_byte io (spi_port s) 0x20 s;
       s \<leftarrow> write_spi_24bit_addr io (spi_port s) in_addr s;
       let s = disable_cs io (spi_port s) s;
       spi_finish_write io s
     }"

definition spi_flash_read_byte :: "'w io \<Rightarrow> u32 \<Rightarrow> ('w, 'z) spi_mach_scheme \<Rightarrow>
    (u8 \<times> ('w, 'z) spi_mach_scheme) option" where
  "spi_flash_read_byte io in_addr s =
     do {
       let s = set_flash_writable io s;
       let s = enable_cs io (spi_port s) s;
       s \<leftarrow> write_spi_byte io (spi_port s) 0x03 s;
       s \<leftarrow> write_spi_24bit_addr io (spi_port s) in_addr s;
       (value, s) \<leftarrow> read_spi_byte io (spi_port s) s;
       let s = disable_cs io (spi_port s) s;
       let s = set_flash_unwritable io s;
       Some (value, s)
     }"

text \<open>
  The two-byte operations are stated over any byte operation, so that their client can be reasoned
  about over the byte interface alone.
\<close>

definition flash_read_word :: "(u32 \<Rightarrow> 's \<Rightarrow> (u8 \<times> 's) option) \<Rightarrow> u32 \<Rightarrow> 's \<Rightarrow> (u16 \<times> 's) option" where
  "flash_read_word rd in_addr s =
     do {
       (lo, s) \<leftarrow> rd in_addr s;
       (hi, s) \<leftarrow> rd (in_addr + 1) s;
       Some (ucast lo OR push_bit 8 (ucast hi), s)
     }"

definition flash_write_word :: "(u32 \<Rightarrow> u8 \<Rightarrow> 's \<Rightarrow> 's option) \<Rightarrow> u32 \<Rightarrow> u16 \<Rightarrow> 's \<Rightarrow> 's option" where
  "flash_write_word wr in_addr in_value s =
     do {
       s \<leftarrow> wr in_addr (ucast (drop_bit 8 in_value)) s;
       wr (in_addr + 1) (ucast (in_value AND 0xFF)) s
     }"

definition spi_flash_read_word :: "'w io \<Rightarrow> u32 \<Rightarrow> ('w, 'z) spi_mach_scheme \<Rightarrow>
    (u16 \<times> ('w, 'z) spi_mach_scheme) option" where
  "spi_flash_read_word io = flash_read_word (spi_flash_read_byte io)"

definition spi_flash_write_word :: "'w io \<Rightarrow> u32 \<Rightarrow> u16 \<Rightarrow> ('w, 'z) spi_mach_scheme \<Rightarrow>
    ('w, 'z) spi_mach_scheme option" where
  "spi_flash_write_word io = flash_write_word (spi_flash_write_byte io)"

end
