(* ===== verification/Flash_Store.thy ===== *)
theory Flash_Store
  imports Spi_Flash
begin

text \<open>
  The interface between the settings and the flash driver: byte-wise reading, programming and sector
  erasing of a NOR flash memory. Programming can only clear bits; erasing sets a sector to ones.
\<close>

definition sector_of :: "u32 \<Rightarrow> u32" where
  "sector_of a = a AND 0xFFFFF000"

definition erased :: "u32 \<Rightarrow> (u32 \<Rightarrow> u8) \<Rightarrow> u32 \<Rightarrow> u8" where
  "erased a m = (\<lambda>b. if sector_of b = sector_of a then 0xFF else m b)"

locale flash_store =
  fixes info :: "'s \<Rightarrow> (bool \<times> 's) option"
    and rd :: "u32 \<Rightarrow> 's \<Rightarrow> (u8 \<times> 's) option"
    and wr :: "u32 \<Rightarrow> u8 \<Rightarrow> 's \<Rightarrow> 's option"
    and er :: "u32 \<Rightarrow> 's \<Rightarrow> 's option"
    and mem :: "'s \<Rightarrow> u32 \<Rightarrow> u8"
    and ok :: "'s \<Rightarrow> bool"
  assumes info: "ok s \<Longrightarrow> \<exists>s'. info s = Some (True, s') \<and> ok s' \<and> mem s' = mem s"
    and rd: "ok s \<Longrightarrow> a < SPI_ROM_SIZE \<Longrightarrow> \<exists>s'. rd a s = Some (mem s a, s') \<and> ok s' \<and> mem s' = mem s"
    and wr: "ok s \<Longrightarrow> a < SPI_ROM_SIZE \<Longrightarrow>
      \<exists>s'. wr a v s = Some s' \<and> ok s' \<and> mem s' = (mem s)(a := mem s a AND v)"
    and er: "ok s \<Longrightarrow> a < SPI_ROM_SIZE \<Longrightarrow>
      \<exists>s'. er a s = Some s' \<and> ok s' \<and> mem s' = erased a (mem s)"
begin

lemma read_word:
  assumes "ok s" "a + 1 < SPI_ROM_SIZE" "a < SPI_ROM_SIZE"
  shows "\<exists>s'. flash_read_word rd a s = Some (le16 (mem s a) (mem s (a + 1)), s') \<and>
    ok s' \<and> mem s' = mem s"
proof -
  obtain s1 where 1: "rd a s = Some (mem s a, s1)" "ok s1" "mem s1 = mem s"
    using rd assms by blast
  obtain s2 where 2: "rd (a + 1) s1 = Some (mem s1 (a + 1), s2)" "ok s2" "mem s2 = mem s1"
    using rd 1 assms by blast
  show ?thesis using 1 2 by (simp add: flash_read_word_def le16_def)
qed

lemma write_word:
  assumes "ok s" "a + 1 < SPI_ROM_SIZE" "a < SPI_ROM_SIZE"
  shows "\<exists>s'. flash_write_word wr a v s = Some s' \<and> ok s' \<and>
    mem s' = (mem s)(a := mem s a AND ucast (drop_bit 8 v), a + 1 := mem s (a + 1) AND lo8 v)"
proof -
  obtain s1 where 1: "wr a (ucast (drop_bit 8 v)) s = Some s1" "ok s1"
      "mem s1 = (mem s)(a := mem s a AND ucast (drop_bit 8 v))"
    using wr assms by blast
  obtain s2 where 2: "wr (a + 1) (lo8 v) s1 = Some s2" "ok s2"
      "mem s2 = (mem s1)(a + 1 := mem s1 (a + 1) AND lo8 v)"
    using wr 1 assms by blast
  have "a + 1 \<noteq> a" by simp
  then show ?thesis using 1 2 by (simp add: flash_write_word_def)
qed

end

end
