(* ===== verification/Spi_Chip.thy ===== *)
theory Spi_Chip
  imports Flash_Store
begin

text \<open>
  What the flash driver relies on: the SPI controller of the bridge and the flash chip behind it, as
  their data sheets describe them, stated as one predicate \<open>spi_board\<close> on the hardware interface.
  Under it every operation of the driver returns and has its effect on the chip's memory; the
  interpretation at the end of the theory makes the driver a \<open>flash_store\<close>.
\<close>

section \<open>The flash chip\<close>

text \<open>
  A chip-select frame is the list of bytes shifted in since the select line went low; a command takes
  effect when the line goes high again.
\<close>

record spi_chip =
  cs :: bool
  frame :: "u8 list"
  rd_pos :: nat
  rx_data :: u8
  wel :: bool
  flash :: "u32 \<Rightarrow> u8"
  chip_id :: "u8 list"

definition addr24 :: "u8 \<Rightarrow> u8 \<Rightarrow> u8 \<Rightarrow> u32" where
  "addr24 a2 a1 a0 = push_bit 16 (ucast a2) OR push_bit 8 (ucast a1) OR ucast a0"

definition chip_select :: "spi_chip \<Rightarrow> spi_chip" where
  "chip_select c = (if cs c then c else c\<lparr>cs := True, frame := [], rd_pos := 0\<rparr>)"

definition chip_shift :: "u8 \<Rightarrow> spi_chip \<Rightarrow> spi_chip" where
  "chip_shift v c = (if cs c then c\<lparr>frame := frame c @ [v]\<rparr> else c)"

definition chip_execute :: "spi_chip \<Rightarrow> spi_chip" where
  "chip_execute c =
     (case frame c of
        [cmd] \<Rightarrow> if cmd = 0x06 then c\<lparr>wel := True\<rparr> else if cmd = 0x04 then c\<lparr>wel := False\<rparr> else c
      | [cmd, a2, a1, a0] \<Rightarrow>
          if cmd = 0x20 \<and> wel c then c\<lparr>wel := False, flash := erased (addr24 a2 a1 a0) (flash c)\<rparr> else c
      | [cmd, a2, a1, a0, d] \<Rightarrow>
          if cmd = 0x02 \<and> wel c
          then c\<lparr>wel := False,
                 flash := (flash c)(addr24 a2 a1 a0 := flash c (addr24 a2 a1 a0) AND d)\<rparr>
          else c
      | _ \<Rightarrow> c)"

definition writes_flash :: "spi_chip \<Rightarrow> bool" where
  "writes_flash c \<longleftrightarrow> cs c \<and> wel c \<and>
     (length (frame c) = 4 \<and> hd (frame c) = 0x20 \<or> length (frame c) = 5 \<and> hd (frame c) = 0x02)"

definition chip_deselect :: "nat \<Rightarrow> spi_chip \<Rightarrow> spi_chip" where
  "chip_deselect bsy c =
     (if cs c \<and> bsy = 0 then (chip_execute c)\<lparr>cs := False\<rparr> else c\<lparr>cs := False\<rparr>)"

text \<open>A byte is clocked out: of the memory, of the status register or of the identification.\<close>

definition chip_out :: "nat \<Rightarrow> spi_chip \<Rightarrow> u8 \<Rightarrow> bool" where
  "chip_out bsy c d \<longleftrightarrow> (cs c \<longrightarrow>
     (\<forall>a2 a1 a0. frame c = [0x03, a2, a1, a0] \<and> bsy = 0 \<longrightarrow>
        d = flash c (addr24 a2 a1 a0 + of_nat (rd_pos c))) \<and>
     (frame c = [0x05] \<longrightarrow> (d AND 1 = 0 \<longleftrightarrow> bsy = 0)) \<and>
     (frame c = [0x9F] \<and> bsy = 0 \<and> rd_pos c < 3 \<longrightarrow> d = chip_id c ! rd_pos c))"

definition chip_clock :: "nat \<Rightarrow> spi_chip \<Rightarrow> spi_chip \<Rightarrow> bool" where
  "chip_clock bsy c c' \<longleftrightarrow>
     (\<exists>d. chip_out bsy c d \<and> c' = c\<lparr>rx_data := d, rd_pos := rd_pos c + 1\<rparr>)"

section \<open>The controller\<close>

text \<open>
  Observers of the world: the chip, how many more polls of the controller's status register see the
  transmitter or the receiver at work, how many more polls of the chip's status see a write in
  progress, and the bridge's configuration space.
\<close>

record 'w spi_view =
  chip :: "'w \<Rightarrow> spi_chip"
  tx_busy :: "'w \<Rightarrow> nat"
  rx_busy :: "'w \<Rightarrow> nat"
  busy :: "'w \<Rightarrow> nat"
  pci_latch :: "'w \<Rightarrow> u32"
  pci_cfg :: "'w \<Rightarrow> u32 \<Rightarrow> u32"

definition same_chip :: "'w spi_view \<Rightarrow> 'w \<Rightarrow> 'w \<Rightarrow> bool" where
  "same_chip V w w' \<longleftrightarrow> chip V w' = chip V w \<and> busy V w' = busy V w"

definition same_cfg :: "'w spi_view \<Rightarrow> 'w \<Rightarrow> 'w \<Rightarrow> bool" where
  "same_cfg V w w' \<longleftrightarrow> pci_cfg V w' = pci_cfg V w"

definition spi_board :: "'w io \<Rightarrow> u16 \<Rightarrow> 'w spi_view \<Rightarrow> bool" where
  "spi_board io base V \<longleftrightarrow>
     pci_config_ports io (pci_latch V) (pci_cfg V) \<and>
     (\<forall>w v port. port = 0xCF8 \<or> port = 0xCFC \<longrightarrow> same_chip V w (io_outl io v port w)) \<and>
     (\<forall>w. same_chip V w (snd (io_inl io 0xCFC w))) \<and>
     (\<forall>w v. chip V (io_outb io v base w) = chip_shift v (chip V w) \<and>
            busy V (io_outb io v base w) = busy V w \<and>
            same_cfg V w (io_outb io v base w)) \<and>
     (\<forall>w v. let w' = io_outb io v (base + 1) w in
            chip_clock (busy V w) (chip V w) (chip V w') \<and>
            busy V w' \<le> busy V w \<and>
            (cs (chip V w) \<and> frame (chip V w) = [0x05] \<and> busy V w \<noteq> 0 \<longrightarrow> busy V w' < busy V w) \<and>
            same_cfg V w w') \<and>
     (\<forall>w. rx_busy V w = 0 \<longrightarrow> fst (io_inb io (base + 1) w) = rx_data (chip V w) \<and>
          same_chip V w (snd (io_inb io (base + 1) w)) \<and>
          same_cfg V w (snd (io_inb io (base + 1) w))) \<and>
     (\<forall>w. let r = io_inb io (base + 3) w in
          (fst r AND 0x10 \<noteq> 0 \<longleftrightarrow> tx_busy V w = 0) \<and>
          (fst r AND 0x20 \<noteq> 0 \<longleftrightarrow> rx_busy V w = 0) \<and>
          tx_busy V (snd r) \<le> tx_busy V w - 1 \<and> rx_busy V (snd r) \<le> rx_busy V w - 1 \<and>
          same_chip V w (snd r) \<and> same_cfg V w (snd r)) \<and>
     (\<forall>w. chip V (io_outb io 0 (base + 4) w) = chip_select (chip V w) \<and>
          busy V (io_outb io 0 (base + 4) w) = busy V w \<and>
          same_cfg V w (io_outb io 0 (base + 4) w)) \<and>
     (\<forall>w. let w' = io_outb io 1 (base + 4) w in
          chip V w' = chip_deselect (busy V w) (chip V w) \<and>
          (\<not> writes_flash (chip V w) \<longrightarrow> busy V w' = busy V w) \<and>
          same_cfg V w w') \<and>
     (\<forall>w. same_chip V w (snd (io_inb io (base + 2) w)) \<and>
          same_cfg V w (snd (io_inb io (base + 2) w))) \<and>
     (\<forall>w v. let w' = io_outl io v (base + 2) w in
          (chip V w' = chip V w \<or> chip V w' = chip_select (chip V w)) \<and>
          busy V w' = busy V w \<and> same_cfg V w w')"

section \<open>Single accesses\<close>

text \<open>
  \<open>at\<close> says what a state sees of the hardware; \<open>moved\<close> that only the world has changed.
\<close>

definition at :: "'w spi_view \<Rightarrow> ('w, 'z) spi_mach_scheme \<Rightarrow> spi_chip \<Rightarrow> nat \<Rightarrow> (u32 \<Rightarrow> u32) \<Rightarrow> bool" where
  "at V s c b g \<longleftrightarrow> chip V (wd s) = c \<and> busy V (wd s) = b \<and> pci_cfg V (wd s) = g"

definition moved :: "('w, 'z) spi_mach_scheme \<Rightarrow> ('w, 'z) spi_mach_scheme \<Rightarrow> bool" where
  "moved s s' \<longleftrightarrow> s' = s\<lparr>wd := wd s'\<rparr>"

lemma moved_refl [simp]: "moved s s" by (simp add: moved_def)

lemma moved_trans [trans]: "moved s t \<Longrightarrow> moved t u \<Longrightarrow> moved s u"
  unfolding moved_def by (metis mach.update_convs(5) mach.surjective mach.select_convs(5) mach.fold_congs(5))

lemma moved_wd [simp]: "moved s (s\<lparr>wd := w\<rparr>)" by (simp add: moved_def)

lemma moved_fields:
  assumes "moved s s'"
  shows "spi_base s' = spi_base s" "reg_sb_c4 s' = reg_sb_c4 s" "reg_nb_40 s' = reg_nb_40 s"
    "spi_ctrl_reg s' = spi_ctrl_reg s"
proof -
  obtain w where "s' = s\<lparr>wd := w\<rparr>" using assms by (auto simp: moved_def)
  then show "spi_base s' = spi_base s" "reg_sb_c4 s' = reg_sb_c4 s" "reg_nb_40 s' = reg_nb_40 s"
    "spi_ctrl_reg s' = spi_ctrl_reg s" by simp_all
qed


lemma spi_wait_returns:
  assumes law: "\<And>w. (fst (io_inb io (base + 3) w) AND flag \<noteq> 0 \<longleftrightarrow> ob w = 0) \<and>
      ob (snd (io_inb io (base + 3) w)) \<le> (ob w - 1 :: nat) \<and>
      same_chip V w (snd (io_inb io (base + 3) w)) \<and> same_cfg V w (snd (io_inb io (base + 3) w))"
    and "at V s c b g"
  shows "\<exists>s'. spi_wait io base flag s = Some s' \<and> at V s' c b g \<and> moved s s' \<and> ob (wd s') = 0"
  using assms(2)
proof (induction "ob (wd s)" arbitrary: s rule: less_induct)
  case less
  obtain v w' where poll: "io_inb io (base + 3) (wd s) = (v, w')" by fastforce
  note l = law [of "wd s", unfolded poll fst_conv snd_conv]
  let ?s' = "s\<lparr>wd := w'\<rparr>"
  have at': "at V ?s' c b g" using less.prems l by (simp add: at_def same_chip_def same_cfg_def)
  show ?case
  proof (cases "ob (wd s) = 0")
    case True
    then have "spi_wait io base flag s = Some ?s'"
      by (subst spi_wait.simps) (use l in \<open>simp add: inb_def poll\<close>)
    then show ?thesis using at' l True by auto
  next
    case False
    then have step: "spi_wait io base flag s = spi_wait io base flag ?s'"
      by (subst spi_wait.simps) (use l in \<open>simp add: inb_def poll\<close>)
    have "ob (wd ?s') < ob (wd s)" using False l by auto
    from less.hyps [OF this at'] step show ?thesis by (metis moved_trans moved_wd)
  qed
qed

lemma board_poll:
  assumes "spi_board io base V"
  shows "(fst (io_inb io (base + 3) w) AND 0x10 \<noteq> 0 \<longleftrightarrow> tx_busy V w = 0) \<and>
      tx_busy V (snd (io_inb io (base + 3) w)) \<le> tx_busy V w - 1 \<and>
      same_chip V w (snd (io_inb io (base + 3) w)) \<and> same_cfg V w (snd (io_inb io (base + 3) w))"
    and "(fst (io_inb io (base + 3) w) AND 0x20 \<noteq> 0 \<longleftrightarrow> rx_busy V w = 0) \<and>
      rx_busy V (snd (io_inb io (base + 3) w)) \<le> rx_busy V w - 1 \<and>
      same_chip V w (snd (io_inb io (base + 3) w)) \<and> same_cfg V w (snd (io_inb io (base + 3) w))"
  using assms by (auto simp: spi_board_def Let_def)

lemma shift_byte [dev_law]:
  assumes "spi_board io base V" "at V s c b g"
  shows "\<exists>s'. write_spi_byte io base v s = Some s' \<and> at V s' (chip_shift v c) b g \<and> moved s s'"
proof -
  have "at V (outb io v base s) (chip_shift v c) b g"
    using assms by (auto simp: spi_board_def at_def outb_def same_cfg_def)
  from spi_wait_returns [where ob = "tx_busy V", OF board_poll(1) [OF assms(1)] this]
  show ?thesis by (metis moved_trans moved_wd outb_def write_spi_byte_def)
qed

lemma clock_byte [dev_law]:
  assumes "spi_board io base V" "at V s c b g"
  shows "\<exists>d s' b'. read_spi_byte io base s = Some (d, s') \<and> chip_out b c d \<and>
    at V s' (c\<lparr>rx_data := d, rd_pos := rd_pos c + 1\<rparr>) b' g \<and> b' \<le> b \<and>
    (cs c \<and> frame c = [0x05] \<and> b \<noteq> 0 \<longrightarrow> b' < b) \<and> moved s s'"
proof -
  let ?s1 = "outb io 0 (base + 1) s"
  obtain d b' where out: "chip_out b c d"
    and at1: "at V ?s1 (c\<lparr>rx_data := d, rd_pos := rd_pos c + 1\<rparr>) b' g"
    and b': "b' \<le> b" "cs c \<and> frame c = [0x05] \<and> b \<noteq> 0 \<longrightarrow> b' < b"
    using assms by (auto simp: spi_board_def at_def outb_def same_cfg_def Let_def chip_clock_def) metis
  from spi_wait_returns [where ob = "rx_busy V", OF board_poll(2) [OF assms(1)] at1]
  obtain s2 where s2: "spi_wait io base 0x20 ?s1 = Some s2"
    "at V s2 (c\<lparr>rx_data := d, rd_pos := rd_pos c + 1\<rparr>) b' g" "moved ?s1 s2" "rx_busy V (wd s2) = 0"
    by blast
  obtain v w' where rd: "io_inb io (base + 1) (wd s2) = (v, w')" by fastforce
  then have "v = d" "at V (s2\<lparr>wd := w'\<rparr>) (c\<lparr>rx_data := d, rd_pos := rd_pos c + 1\<rparr>) b' g"
    using assms(1) s2(2,4)
    by (auto simp: spi_board_def at_def same_cfg_def same_chip_def dest!: spec [of _ "wd s2"])
  moreover have "moved s (s2\<lparr>wd := w'\<rparr>)"
    using s2(3) by (metis moved_trans moved_wd outb_def)
  ultimately show ?thesis
    using s2(1) rd out b' by (auto simp: read_spi_byte_def inb_def)
qed

lemma select_chip [dev_law]:
  assumes "spi_board io base V" "at V s c b g"
  shows "at V (enable_cs io base s) (chip_select c) b g" "moved s (enable_cs io base s)"
  using assms by (auto simp: spi_board_def at_def enable_cs_def outb_def same_cfg_def)

lemma deselect_chip [dev_law]:
  assumes "spi_board io base V" "at V s c b g"
  shows "\<exists>b'. at V (disable_cs io base s) (chip_deselect b c) b' g \<and> (\<not> writes_flash c \<longrightarrow> b' = b)"
    "moved s (disable_cs io base s)"
  using assms by (auto simp: spi_board_def at_def disable_cs_def outb_def same_cfg_def Let_def)


section \<open>Opening and closing the controller\<close>

lemma nbsb_read_at [dev_law]:
  assumes "spi_board io base V" "at V s c b g"
  shows "at V (snd (llama_nbsb_read8 io n f off s)) c b g" "moved s (snd (llama_nbsb_read8 io n f off s))"
    and "at V (snd (llama_nbsb_read32 io n f off s)) c b g" "moved s (snd (llama_nbsb_read32 io n f off s))"
    and "fst (llama_nbsb_read32 io n f off s) = g (nbsb_addr n f off)"
proof -
  have ports: "pci_config_ports io (pci_latch V) (pci_cfg V)"
    and chip: "\<And>w v. same_chip V w (io_outl io v 0xCF8 w)" "\<And>w. same_chip V w (snd (io_inl io 0xCFC w))"
    using assms(1) by (auto simp: spi_board_def)
  let ?r8 = "llama_nbsb_read8 io n f off s" and ?r32 = "llama_nbsb_read32 io n f off s"
  have w8: "same_chip V (wd s) (wd (snd ?r8))" "moved s (snd ?r8)"
    and w32: "same_chip V (wd s) (wd (snd ?r32))" "moved s (snd ?r32)"
    using chip unfolding nbsb_defs same_chip_def moved_def
    by (auto split: prod.splits) (metis snd_conv)+
  then show "at V (snd ?r8) c b g" "at V (snd ?r32) c b g" "moved s (snd ?r8)" "moved s (snd ?r32)"
    using assms(2) nbsb_read8(2) [OF ports] nbsb_read32(2) [OF ports]
    by (auto simp: at_def same_chip_def)
  show "fst ?r32 = g (nbsb_addr n f off)"
    using assms(2) by (simp add: at_def nbsb_read32(1) [OF ports])
qed

lemma nbsb_write_at [dev_law]:
  assumes "spi_board io base V" "at V s c b g"
  shows "at V (llama_nbsb_write8 io n f off v s) c b
           (g(dword_addr (nbsb_addr n f off) :=
                lane_insert (nbsb_addr n f off) v (g (dword_addr (nbsb_addr n f off)))))"
    and "moved s (llama_nbsb_write8 io n f off v s)"
    and "at V (llama_nbsb_write32 io n f off v' s) c b (g(nbsb_addr n f off := v'))"
    and "moved s (llama_nbsb_write32 io n f off v' s)"
proof -
  have ports: "pci_config_ports io (pci_latch V) (pci_cfg V)"
    and chip: "\<And>w v. same_chip V w (io_outl io v 0xCF8 w)" "\<And>w v. same_chip V w (io_outl io v 0xCFC w)"
      "\<And>w. same_chip V w (snd (io_inl io 0xCFC w))"
    using assms(1) by (auto simp: spi_board_def)
  let ?w8 = "llama_nbsb_write8 io n f off v s" and ?w32 = "llama_nbsb_write32 io n f off v' s"
  have w8: "same_chip V (wd s) (wd ?w8)" "moved s ?w8"
    and w32: "same_chip V (wd s) (wd ?w32)" "moved s ?w32"
    using chip unfolding nbsb_defs same_chip_def moved_def
    by (auto split: prod.splits) (metis snd_conv)+
  then show "moved s ?w8" "moved s ?w32" by simp_all
  show "at V ?w8 c b (g(dword_addr (nbsb_addr n f off) :=
                lane_insert (nbsb_addr n f off) v (g (dword_addr (nbsb_addr n f off)))))"
    using w8 assms(2) nbsb_write8 [OF ports, of n f off v s] by (auto simp: at_def same_chip_def)
  show "at V ?w32 c b (g(nbsb_addr n f off := v'))"
    using w32 assms(2) nbsb_write32 [OF ports, of n f off v' s] by (auto simp: at_def same_chip_def)
qed

abbreviation NB40 :: u32 where
  "NB40 \<equiv> nbsb_addr vx86ex_nb vx86ex_nbsb_func0 0x40"

abbreviation base_of :: "u32 \<Rightarrow> u16" where
  "base_of nb40 \<equiv> ucast (nb40 AND 0x00FFF0)"

text \<open>
  \<open>idle\<close>: the controller's base address is \<open>base\<close>, no write is in progress and, when the chip is
  selected, no byte has been sent. \<open>opened\<close>: the driver's variables hold that base address.
\<close>

definition idle_chip :: "spi_chip \<Rightarrow> bool" where
  "idle_chip c \<longleftrightarrow> (cs c \<longrightarrow> frame c = [] \<and> rd_pos c = 0)"

definition idle :: "u16 \<Rightarrow> 'w spi_view \<Rightarrow> ('w, 'z) spi_mach_scheme \<Rightarrow> bool" where
  "idle base V s \<longleftrightarrow> idle_chip (chip V (wd s)) \<and> busy V (wd s) = 0 \<and>
     base_of (pci_cfg V (wd s) NB40) = base"

definition opened :: "u16 \<Rightarrow> ('w, 'z) spi_mach_scheme \<Rightarrow> bool" where
  "opened base s \<longleftrightarrow> spi_port s = base \<and> base_of (reg_nb_40 s) = base"

lemma moved_opened: "moved s s' \<Longrightarrow> opened base s \<Longrightarrow> opened base s'"
  by (simp add: opened_def moved_fields)

lemma ucast_add_u16: "ucast (x + y :: u32) = (ucast x + ucast y :: u16)"
  by (rule word_unat_eq_iff [THEN iffD2])
    (simp add: unsigned_ucast_eq take_bit_eq_mod unat_word_ariths mod_simps mod_mod_cancel)

lemma sb_c4_not_nb_40:
  "dword_addr (nbsb_addr vx86ex_sb vx86ex_nbsb_func0 0xC4) \<noteq> NB40"
  by (simp add: nbsb_addr_def PCI_GET_CF8_def dword_addr_def)


lemma open_controller [dev_law]:
  assumes "spi_board io base V" "idle base V s"
  shows "opened base (set_flash_writable io s)"
    and "\<exists>c' g'. at V (set_flash_writable io s) c' 0 g' \<and> chip_select c' = chip_select (chip V (wd s)) \<and>
           base_of (g' NB40) = base"
proof -
  obtain c g where at0: "at V s c 0 g" and c: "idle_chip c" and base: "base_of (g NB40) = base"
    and c_def: "chip V (wd s) = c"
    using assms(2) by (auto simp: idle_def at_def)
  obtain c4 s1 where r1: "llama_nbsb_read8 io vx86ex_sb vx86ex_nbsb_func0 0xC4 s = (c4, s1)"
    by fastforce
  have at1: "at V (s1\<lparr>reg_sb_c4 := c4\<rparr>) c 0 g"
    using nbsb_read_at(1) [OF assms(1) at0, of vx86ex_sb vx86ex_nbsb_func0 "0xC4"] r1
    by (simp add: at_def)
  obtain nb40 s2 where r2:
    "llama_nbsb_read32 io vx86ex_nb vx86ex_nbsb_func0 0x40 (s1\<lparr>reg_sb_c4 := c4\<rparr>) = (nb40, s2)"
    by fastforce
  have nb40: "nb40 = g NB40"
    using nbsb_read_at(5) [OF assms(1) at1, of vx86ex_nb vx86ex_nbsb_func0 "0x40"] r2 by simp
  let ?s3 = "s2\<lparr>reg_nb_40 := nb40, spi_base := nb40 AND 0x00FFF0\<rparr>"
  have at3: "at V ?s3 c 0 g"
    using nbsb_read_at(3) [OF assms(1) at1, of vx86ex_nb vx86ex_nbsb_func0 "0x40"] r2
    by (simp add: at_def)
  have port: "ucast (nb40 AND 0x00FFF0 :: u32) = base" using base nb40 by simp
  have port2: "ucast ((nb40 AND 0x00FFF0) + 2 :: u32) = base + 2"
    using port by (simp add: ucast_add_u16)
  obtain ctrl s4 where r4: "inb io (base + 2) ?s3 = (ctrl, s4)" by fastforce
  have m4: "moved ?s3 s4" and at4: "at V (s4\<lparr>spi_ctrl_reg := ctrl\<rparr>) c 0 g"
    using r4 at3 assms(1)
    by (auto simp: inb_def at_def spi_board_def same_chip_def same_cfg_def split: prod.splits)
      (metis snd_conv)+
  let ?s4 = "s4\<lparr>spi_ctrl_reg := ctrl\<rparr>"
  let ?s5 = "llama_nbsb_write8 io vx86ex_sb vx86ex_nbsb_func0 0xC4 (c4 OR 1) ?s4"
  obtain g5 where at5: "at V ?s5 c 0 g5" and g5: "g5 NB40 = g NB40" and m5: "moved ?s4 ?s5"
    using nbsb_write_at(1,2) [OF assms(1) at4, of vx86ex_sb vx86ex_nbsb_func0 "0xC4" "c4 OR 1"]
      sb_c4_not_nb_40 by auto
  let ?s6 = "llama_nbsb_write32 io vx86ex_nb vx86ex_nbsb_func0 0x40 (nb40 OR 1) ?s5"
  obtain g6 where at6: "at V ?s6 c 0 g6" and g6: "g6 NB40 = nb40 OR 1" and m6: "moved ?s5 ?s6"
    using nbsb_write_at(3,4) [OF assms(1) at5, of vx86ex_nb vx86ex_nbsb_func0 "0x40" "nb40 OR 1"]
    by auto
  let ?v = "((ucast ctrl OR 0x20) AND 0xF0) OR 0x0C :: u32"
  have m2: "moved (s1\<lparr>reg_sb_c4 := c4\<rparr>) s2"
    using nbsb_read_at(4) [OF assms(1) at1, of vx86ex_nb vx86ex_nbsb_func0 "0x40"] r2 by simp
  have s4: "reg_sb_c4 s4 = c4" "reg_nb_40 s4 = nb40" "spi_base s4 = nb40 AND 0x00FFF0"
    using moved_fields [OF m4] moved_fields [OF m2] by simp_all
  have s5: "reg_nb_40 ?s5 = nb40" using moved_fields [OF m5] s4 by simp
  have s6: "reg_nb_40 ?s6 = nb40" "spi_base ?s6 = nb40 AND 0x00FFF0" "spi_ctrl_reg ?s6 = ctrl"
    using moved_fields [OF m5] moved_fields [OF m6] s4 by simp_all
  have out: "set_flash_writable io s = outl io ?v (base + 2) ?s6"
    using r1 r2 r4 port2 s4 s5 s6
    by (simp add: set_flash_writable_def Let_def del: word_and_le1)
  show "opened base (set_flash_writable io s)"
    using s6 port by (simp add: out opened_def outl_def)
  have "chip V (wd (outl io ?v (base + 2) ?s6)) \<in> {c, chip_select c} \<and>
      busy V (wd (outl io ?v (base + 2) ?s6)) = 0 \<and> pci_cfg V (wd (outl io ?v (base + 2) ?s6)) = g6"
    using assms(1) at6 by (auto simp: spi_board_def outl_def at_def same_cfg_def Let_def)
  moreover have "base_of (nb40 OR 1) = base"
  proof -
    have "(nb40 OR 1) AND 0x00FFF0 = nb40 AND 0x00FFF0" by (simp add: word_ao_dist)
    then show ?thesis using port by simp
  qed
  ultimately show "\<exists>c' g'. at V (set_flash_writable io s) c' 0 g' \<and>
      chip_select c' = chip_select (chip V (wd s)) \<and> base_of (g' NB40) = base"
    using g6 c_def by (auto simp: out at_def chip_select_def)
qed


lemma close_controller [dev_law]:
  assumes "spi_board io base V" "at V s c 0 g" "idle_chip c" "opened base s"
  shows "idle base V (set_flash_unwritable io s)"
    and "chip_select (chip V (wd (set_flash_unwritable io s))) = chip_select c"
proof -
  have port: "base_of (reg_nb_40 s) = base" "ucast (spi_base s + 2) = base + 2"
    using assms(4) by (auto simp: opened_def ucast_add_u16)
  let ?s1 = "outl io (ucast (spi_ctrl_reg s)) (base + 2) s"
  obtain c1 where at1: "at V ?s1 c1 0 g" and c1: "c1 = c \<or> c1 = chip_select c"
    using assms(1,2) by (auto simp: spi_board_def outl_def at_def same_cfg_def Let_def)
  have m1: "moved s ?s1" by (simp add: outl_def)
  let ?s2 = "llama_nbsb_write32 io vx86ex_nb vx86ex_nbsb_func0 0x40 (reg_nb_40 s) ?s1"
  obtain g2 where at2: "at V ?s2 c1 0 g2" and g2: "g2 NB40 = reg_nb_40 s" and m2: "moved ?s1 ?s2"
    using nbsb_write_at(3,4) [OF assms(1) at1, of vx86ex_nb vx86ex_nbsb_func0 "0x40" "reg_nb_40 s"]
    by auto
  let ?s3 = "llama_nbsb_write8 io vx86ex_sb vx86ex_nbsb_func0 0xC4 (reg_sb_c4 s) ?s2"
  obtain g3 where at3: "at V ?s3 c1 0 g3" and g3: "g3 NB40 = reg_nb_40 s"
    using nbsb_write_at(1) [OF assms(1) at2, of vx86ex_sb vx86ex_nbsb_func0 "0xC4" "reg_sb_c4 s"]
      g2 sb_c4_not_nb_40 by auto
  have regs: "reg_nb_40 ?s1 = reg_nb_40 s" "reg_sb_c4 ?s2 = reg_sb_c4 s"
    using moved_fields [OF m1] moved_fields [OF m2] by simp_all
  have out: "set_flash_unwritable io s = ?s3"
    using port regs by (simp add: set_flash_unwritable_def Let_def)
  have idem: "chip_select (chip_select c) = chip_select c" "idle_chip (chip_select c)"
    using assms(3) by (auto simp: chip_select_def idle_chip_def)
  show "idle base V (set_flash_unwritable io s)"
    unfolding out using at3 g3 port c1 assms(3) idem by (auto simp: idle_def at_def)
  show "chip_select (chip V (wd (set_flash_unwritable io s))) = chip_select c"
    unfolding out using at3 c1 idem by (auto simp: at_def)
qed

section \<open>Frames\<close>

lemma addr24_bytes:
  assumes "a < 0x1000000"
  shows "addr24 (ucast (drop_bit 16 a AND 0xFF)) (ucast (drop_bit 8 a AND 0xFF)) (ucast (a AND 0xFF)) = a"
proof (rule bit_word_eqI)
  fix n assume "n < LENGTH(32)"
  have "unat a < 2 ^ 24" using assms by (simp add: word_less_nat_alt)
  then have "a = take_bit 24 a"
    by (simp add: word_unat_eq_iff unsigned_take_bit_eq take_bit_nat_eq_self)
  then have high: "bit a n \<Longrightarrow> n < 24" by (metis bit_take_bit_iff)
  show "bit (addr24 (ucast (drop_bit 16 a AND 0xFF)) (ucast (drop_bit 8 a AND 0xFF)) (ucast (a AND 0xFF))) n = bit a n"
    using high by (cases "n < 8"; cases "n < 16") (auto simp: addr24_def mask_0xFF_32 bit_simps)
qed

lemma shift_addr [dev_law]:
  assumes "spi_board io base V" "at V s c b g" "cs c"
  shows "\<exists>s'. write_spi_24bit_addr io base a s = Some s' \<and>
    at V s' (c\<lparr>frame := frame c @ [ucast (drop_bit 16 a AND 0xFF), ucast (drop_bit 8 a AND 0xFF),
                                    ucast (a AND 0xFF)]\<rparr>) b g \<and> moved s s'"
proof -
  obtain s1 where 1: "write_spi_byte io base (ucast (drop_bit 16 a AND 0xFF)) s = Some s1"
    "at V s1 (chip_shift (ucast (drop_bit 16 a AND 0xFF)) c) b g" "moved s s1"
    using shift_byte [OF assms(1,2)] by blast
  obtain s2 where 2: "write_spi_byte io base (ucast (drop_bit 8 a AND 0xFF)) s1 = Some s2"
    "at V s2 (chip_shift (ucast (drop_bit 8 a AND 0xFF)) (chip_shift (ucast (drop_bit 16 a AND 0xFF)) c)) b g"
    "moved s1 s2"
    using shift_byte [OF assms(1) 1(2)] by blast
  obtain s3 where 3: "write_spi_byte io base (ucast (a AND 0xFF)) s2 = Some s3"
    "at V s3 (chip_shift (ucast (a AND 0xFF)) (chip_shift (ucast (drop_bit 8 a AND 0xFF))
       (chip_shift (ucast (drop_bit 16 a AND 0xFF)) c))) b g" "moved s2 s3"
    using shift_byte [OF assms(1) 2(2)] by blast
  have "moved s s3" using 1 2 3 moved_trans by blast
  then show ?thesis
    using 1 2 3 assms(3) by (auto simp: write_spi_24bit_addr_def chip_shift_def)
qed


lemma wait_wip_returns [dev_law]:
  assumes board: "spi_board io base V"
    and "at V s c b g" "cs c" "frame c = [0x05]" "opened base s"
  shows "\<exists>s' d n. wait_wip io cnt s = Some s' \<and> at V s' (c\<lparr>rx_data := d, rd_pos := n\<rparr>) 0 g \<and> moved s s'"
  using assms(2-5)
proof (induction "(b, 3 - cnt)" arbitrary: b cnt s c rule: wf_induct_rule [OF wf_lex_prod [OF wf_less wf_less]])
  case 1
  obtain d s1 b1 where rd: "read_spi_byte io base s = Some (d, s1)" "chip_out b c d"
    "at V s1 (c\<lparr>rx_data := d, rd_pos := rd_pos c + 1\<rparr>) b1 g" "b1 \<le> b" "b \<noteq> 0 \<Longrightarrow> b1 < b" "moved s s1"
    using clock_byte [OF board 1(2)] 1(3,4) by blast
  have st: "d AND 1 = 0 \<longleftrightarrow> b = 0" using rd(2) 1(3,4) by (simp add: chip_out_def)
  have port: "spi_port s = base" using 1(5) by (simp add: opened_def)
  have op: "opened base s1" using rd(6) 1(5) by (rule moved_opened)
  let ?c = "c\<lparr>rx_data := d, rd_pos := rd_pos c + 1\<rparr>"
  show ?case
  proof (cases "b = 0 \<and> 3 \<le> cnt + 1")
    case True
    then have "wait_wip io cnt s = Some s1"
      by (subst wait_wip.simps) (use st rd(1) port in simp)
    then show ?thesis using rd(3,4,6) True by auto
  next
    case False
    define cnt' where "cnt' = (if b = 0 then cnt + 1 else 0)"
    have step: "wait_wip io cnt s = wait_wip io cnt' s1"
      by (subst wait_wip.simps) (use st rd(1) port False in \<open>auto simp: cnt'_def\<close>)
    have "((b1, 3 - cnt'), (b, 3 - cnt)) \<in> less_than <*lex*> less_than"
      using False rd(4,5) by (auto simp: cnt'_def)
    then have "((b1, 3 - cnt'), (b, 3 - cnt)) \<in> {(x, y). x < y} <*lex*> {(x, y). x < y}"
      by auto
    from 1(1) [OF this rd(3)] obtain s' d' n where
      "wait_wip io cnt' s1 = Some s'" "at V s' (?c\<lparr>rx_data := d', rd_pos := n\<rparr>) 0 g" "moved s1 s'"
      using 1(3,4) op by auto
    then show ?thesis using step rd(6) moved_trans by auto
  qed
qed


section \<open>The operations of the driver\<close>

text \<open>
  Each operation leaves the controller idle and acts on the chip as \<open>served\<close> says: the memory is
  \<open>m\<close>, the identification is unchanged.
\<close>

definition flash_of :: "'w spi_view \<Rightarrow> ('w, 'z) spi_mach_scheme \<Rightarrow> u32 \<Rightarrow> u8" where
  "flash_of V s = flash (chip V (wd s))"

definition chip_id_of :: "'w spi_view \<Rightarrow> ('w, 'z) spi_mach_scheme \<Rightarrow> u8 list" where
  "chip_id_of V s = chip_id (chip V (wd s))"

lemma start_frame [dev_law]:
  assumes "spi_board io base V" "at V s c b g"
    and "chip_select c = c0"
  shows "\<exists>s'. write_spi_byte io base cmd (enable_cs io base s) = Some s' \<and>
    at V s' (c0\<lparr>frame := frame c0 @ [cmd]\<rparr>) b g \<and> moved s s'"
proof -
  note sel = select_chip [OF assms(1,2)]
  have "cs c0" using assms(3) by (auto simp: chip_select_def split: if_splits)
  with shift_byte [OF assms(1) sel(1), of cmd] show ?thesis
    using sel(2) moved_trans assms(3) by (auto simp: chip_shift_def)
qed

lemma select_idle:
  "idle_chip c \<Longrightarrow> chip_select c = c\<lparr>cs := True, frame := [], rd_pos := 0\<rparr>"
  by (auto simp: idle_chip_def chip_select_def)

lemma select_same:
  "chip_select c = chip_select c' \<Longrightarrow> flash c = flash c' \<and> chip_id c = chip_id c'"
  by (auto simp: chip_select_def split: if_splits dest: arg_cong [where f = flash] arg_cong [where f = chip_id])

lemma spi_read_byte [dev_law]:
  assumes board: "spi_board io base V" and idle: "idle base V s" and a: "a < SPI_ROM_SIZE"
  shows "\<exists>s'. spi_flash_read_byte io a s = Some (flash_of V s a, s') \<and> idle base V s' \<and>
    flash_of V s' = flash_of V s \<and> chip_id_of V s' = chip_id_of V s"
proof -
  let ?s1 = "set_flash_writable io s"
  note op1 = open_controller(1) [OF board idle]
  obtain c1 g where at1: "at V ?s1 c1 0 g" and c1: "chip_select c1 = chip_select (chip V (wd s))"
    using open_controller(2) [OF board idle] by blast
  let ?c0 = "chip_select (chip V (wd s))"
  have c0: "?c0 = (chip V (wd s))\<lparr>cs := True, frame := [], rd_pos := 0\<rparr>"
    using idle by (simp add: idle_def select_idle)
  have port: "spi_port s' = base" if "opened base s'" for s' :: "('a, 'b) spi_mach_scheme"
    using that by (simp add: opened_def)
  obtain s2 where 2: "write_spi_byte io base 0x03 (enable_cs io base ?s1) = Some s2"
    "at V s2 (?c0\<lparr>frame := [0x03]\<rparr>) 0 g" "moved ?s1 s2"
    using start_frame [OF board at1 c1, of "0x03"] c0 by auto
  note op2 = moved_opened [OF 2(3) op1]
  obtain s3 where 3: "write_spi_24bit_addr io base a s2 = Some s3"
    "at V s3 (?c0\<lparr>frame := [0x03, ucast (drop_bit 16 a AND 0xFF), ucast (drop_bit 8 a AND 0xFF), ucast (a AND 0xFF)]\<rparr>) 0 g"
    "moved s2 s3"
    using shift_addr [OF board 2(2), of a] c0 by auto
  note op3 = moved_opened [OF 3(3) op2]
  obtain d s4 c4 b4 where 4: "read_spi_byte io base s3 = Some (d, s4)"
    "chip_out 0 (?c0\<lparr>frame := [0x03, ucast (drop_bit 16 a AND 0xFF), ucast (drop_bit 8 a AND 0xFF), ucast (a AND 0xFF)]\<rparr>) d"
    "at V s4 c4 b4 g" "b4 = 0" "c4 = ?c0\<lparr>frame := [0x03, ucast (drop_bit 16 a AND 0xFF), ucast (drop_bit 8 a AND 0xFF), ucast (a AND 0xFF)], rx_data := d, rd_pos := 1\<rparr>"
    "moved s3 s4"
    using clock_byte [OF board 3(2)] c0 by auto
  note op4 = moved_opened [OF 4(6) op3]
  have d: "d = flash_of V s a"
    using 4(2) addr24_bytes [of a] a
    by (simp add: chip_out_def c0 flash_of_def SPI_ROM_SIZE_def word_less_nat_alt)
  have at5: "at V (disable_cs io base s4) (chip_deselect 0 c4) 0 g" and m5: "moved s4 (disable_cs io base s4)"
    using deselect_chip [OF board 4(3)] 4(4,5) c0 by (auto simp: writes_flash_def)
  have c5: "chip_deselect 0 c4 = c4\<lparr>cs := False\<rparr>"
    using 4(5) c0 by (simp add: chip_deselect_def chip_execute_def)
  have idle5: "idle_chip (chip_deselect 0 c4)" by (simp add: c5 idle_chip_def)
  note cl = close_controller [OF board at5 idle5 moved_opened [OF m5 op4]]
  have "opened base (enable_cs io base ?s1)" "opened base (disable_cs io base s4)"
    using moved_opened [OF select_chip(2) [OF board at1] op1] moved_opened [OF m5 op4] by simp_all
  then have "spi_flash_read_byte io a s = Some (d, set_flash_unwritable io (disable_cs io base s4))"
    using 2(1) 3(1) 4(1) port op1 op2 op3 op4
    by (simp add: spi_flash_read_byte_def)
  then show ?thesis
    using cl c5 4(5) c0 d by (auto simp: flash_of_def chip_id_of_def dest!: select_same)
qed


lemma spi_command_at [dev_law]:
  assumes board: "spi_board io base V" and "at V s c 0 g" "idle_chip c" "opened base s"
  shows "\<exists>s'. spi_command io cmd s = Some s' \<and>
    at V s' (chip_execute (c\<lparr>cs := True, rd_pos := 0, frame := [cmd]\<rparr>)\<lparr>cs := False\<rparr>) 0 g \<and> moved s s'"
proof -
  let ?c = "c\<lparr>cs := True, rd_pos := 0, frame := [cmd]\<rparr>"
  have port: "spi_port t = base" if "moved s t" for t
    using moved_opened [OF that assms(4)] by (simp add: opened_def)
  obtain s2 where 2: "write_spi_byte io base cmd (enable_cs io base s) = Some s2"
    "at V s2 ?c 0 g" "moved s s2"
    using start_frame [OF board assms(2) refl, of cmd] select_idle [OF assms(3)] by auto
  have at3: "at V (disable_cs io base s2) (chip_deselect 0 ?c) 0 g"
    using deselect_chip(1) [OF board 2(2)] by (auto simp: writes_flash_def)
  have m3: "moved s (disable_cs io base s2)"
    using deselect_chip(2) [OF board 2(2)] 2(3) moved_trans by blast
  have "spi_command io cmd s = Some (disable_cs io base s2)"
    using 2(1) port [OF moved_refl] port [OF 2(3)] port [OF select_chip(2) [OF board assms(2)]]
    by (simp add: spi_command_def)
  then show ?thesis using at3 m3 by (simp add: chip_deselect_def)
qed

lemma spi_finish_write_at [dev_law]:
  assumes board: "spi_board io base V" and at0: "at V s c b g" and "\<not> cs c" "opened base s"
  shows "\<exists>s'. spi_finish_write io s = Some s' \<and> idle base V s' \<and> flash_of V s' = flash c \<and>
    chip_id_of V s' = chip_id c"
proof -
  have port: "spi_port t = base" if "moved s t" for t
    using moved_opened [OF that assms(4)] by (simp add: opened_def)
  obtain s2 where 2: "write_spi_byte io base 0x05 (enable_cs io base s) = Some s2"
    "at V s2 (c\<lparr>cs := True, rd_pos := 0, frame := [0x05]\<rparr>) b g" "moved s s2"
    using start_frame [OF board at0 refl, of "0x05"] assms(3) by (auto simp: chip_select_def)
  note op2 = moved_opened [OF 2(3) assms(4)]
  obtain s3 d n where 3: "wait_wip io 0 s2 = Some s3"
    "at V s3 (c\<lparr>cs := True, frame := [0x05], rx_data := d, rd_pos := n\<rparr>) 0 g" "moved s2 s3"
    using wait_wip_returns [OF board 2(2) _ _ op2, of 0] by auto
  have m3: "moved s s3" using 2(3) 3(3) by (rule moved_trans)
  let ?s4 = "disable_cs io base s3" and ?c4 = "c\<lparr>frame := [0x05], rx_data := d, rd_pos := n, cs := False\<rparr>"
  have at4: "at V ?s4 ?c4 0 g" and m4: "moved s ?s4"
    using deselect_chip [OF board 3(2)] m3 moved_trans
    by (auto simp: writes_flash_def chip_deselect_def chip_execute_def)
  obtain s5 where 5: "spi_command io 0x04 ?s4 = Some s5" "moved ?s4 s5"
    "at V s5 (chip_execute (?c4\<lparr>cs := True, rd_pos := 0, frame := [0x04]\<rparr>)\<lparr>cs := False\<rparr>) 0 g"
    using spi_command_at [OF board at4 _ moved_opened [OF m4 assms(4)], of "0x04"]
    by (auto simp: idle_chip_def)
  have op5: "opened base s5" using moved_trans [OF m4 5(2)] assms(4) by (rule moved_opened)
  let ?c5 = "chip_execute (?c4\<lparr>cs := True, rd_pos := 0, frame := [0x04]\<rparr>)\<lparr>cs := False\<rparr>"
  have "idle_chip ?c5" by (simp add: idle_chip_def)
  note cl = close_controller [OF board 5(3) this op5]
  have "spi_finish_write io s = Some (set_flash_unwritable io s5)"
    using 2(1) 3(1) 5(1) port [OF moved_refl] port [OF 2(3)] port [OF m3]
      port [OF select_chip(2) [OF board at0]]
    by (simp add: spi_finish_write_def)
  then show ?thesis
    using cl by (auto simp: flash_of_def chip_id_of_def chip_execute_def dest!: select_same)
qed

lemma write_enabled [dev_law]:
  assumes board: "spi_board io base V" and idle: "idle base V s"
  shows "\<exists>s' c g. spi_command io 0x06 (set_flash_writable io s) = Some s' \<and> at V s' c 0 g \<and>
    \<not> cs c \<and> wel c \<and> flash c = flash_of V s \<and> chip_id c = chip_id_of V s \<and> opened base s'"
proof -
  let ?s1 = "set_flash_writable io s"
  note op1 = open_controller(1) [OF board idle]
  obtain c1 g where at1: "at V ?s1 c1 0 g" and c1: "chip_select c1 = chip_select (chip V (wd s))"
    using open_controller(2) [OF board idle] by blast
  have "idle_chip c1"
    using c1 idle by (auto simp: idle_def idle_chip_def chip_select_def split: if_splits)
  from spi_command_at [OF board at1 this op1, of "0x06"] obtain s' where s':
    "spi_command io 0x06 ?s1 = Some s'" "moved ?s1 s'"
    "at V s' (chip_execute (c1\<lparr>cs := True, rd_pos := 0, frame := [0x06]\<rparr>)\<lparr>cs := False\<rparr>) 0 g"
    by blast
  have "flash c1 = flash_of V s" "chip_id c1 = chip_id_of V s"
    using select_same [OF c1] by (simp_all add: flash_of_def chip_id_of_def)
  then show ?thesis
    using s' moved_opened [OF s'(2) op1] by (auto simp: chip_execute_def)
qed


lemma spi_write_byte [dev_law]:
  assumes board: "spi_board io base V" and idle: "idle base V s" and a: "a < SPI_ROM_SIZE"
  shows "\<exists>s'. spi_flash_write_byte io a v s = Some s' \<and> idle base V s' \<and>
    flash_of V s' = (flash_of V s)(a := flash_of V s a AND v) \<and> chip_id_of V s' = chip_id_of V s"
proof -
  obtain s1 c g where 1: "spi_command io 0x06 (set_flash_writable io s) = Some s1" "at V s1 c 0 g"
    "\<not> cs c" "wel c" "flash c = flash_of V s" "chip_id c = chip_id_of V s" "opened base s1"
    using write_enabled [OF board idle] by blast
  have port: "spi_port t = base" if "moved s1 t" for t
    using moved_opened [OF that 1(7)] by (simp add: opened_def)
  let ?c0 = "c\<lparr>cs := True, frame := [], rd_pos := 0\<rparr>"
  obtain s2 where 2: "write_spi_byte io base 0x02 (enable_cs io base s1) = Some s2"
    "at V s2 (?c0\<lparr>frame := [0x02]\<rparr>) 0 g" "moved s1 s2"
    using start_frame [OF board 1(2) refl, of "0x02"] 1(3) by (auto simp: chip_select_def)
  let ?a2 = "ucast (drop_bit 16 a AND 0xFF)" and ?a1 = "ucast (drop_bit 8 a AND 0xFF)"
    and ?a0 = "ucast (a AND 0xFF)"
  obtain s3 where 3: "write_spi_24bit_addr io base a s2 = Some s3"
    "at V s3 (?c0\<lparr>frame := [0x02, ?a2, ?a1, ?a0]\<rparr>) 0 g" "moved s2 s3"
    using shift_addr [OF board 2(2), of a] by auto
  have m3: "moved s1 s3" using 2(3) 3(3) by (rule moved_trans)
  obtain s4 where 4: "write_spi_byte io base v s3 = Some s4"
    "at V s4 (?c0\<lparr>frame := [0x02, ?a2, ?a1, ?a0, v]\<rparr>) 0 g" "moved s3 s4"
    using shift_byte [OF board 3(2), of v] by (auto simp: chip_shift_def)
  have m4: "moved s1 s4" using m3 4(3) by (rule moved_trans)
  let ?c4 = "?c0\<lparr>frame := [0x02, ?a2, ?a1, ?a0, v]\<rparr>"
  obtain b5 where at5: "at V (disable_cs io base s4) (chip_deselect 0 ?c4) b5 g"
    using deselect_chip(1) [OF board 4(2)] by blast
  have m5: "moved s1 (disable_cs io base s4)"
    using deselect_chip(2) [OF board 4(2)] m4 moved_trans by blast
  have addr: "addr24 ?a2 ?a1 ?a0 = a"
    using a by (intro addr24_bytes) (simp add: SPI_ROM_SIZE_def word_less_nat_alt)
  have c5: "flash (chip_deselect 0 ?c4) = (flash c)(a := flash c a AND v)"
    "chip_id (chip_deselect 0 ?c4) = chip_id c" "\<not> cs (chip_deselect 0 ?c4)"
    using 1(4) addr by (simp_all add: chip_deselect_def chip_execute_def)
  obtain s6 where 6: "spi_finish_write io (disable_cs io base s4) = Some s6" "idle base V s6"
    "flash_of V s6 = flash (chip_deselect 0 ?c4)" "chip_id_of V s6 = chip_id (chip_deselect 0 ?c4)"
    using spi_finish_write_at [OF board at5 c5(3) moved_opened [OF m5 1(7)]] by blast
  have "spi_flash_write_byte io a v s = Some s6"
    using 1(1) 2(1) 3(1) 4(1) 6(1) port [OF moved_refl] port [OF 2(3)] port [OF m3] port [OF m4]
      port [OF select_chip(2) [OF board 1(2)]]
    by (simp add: spi_flash_write_byte_def)
  then show ?thesis using 6 c5 1(5,6) by simp
qed

lemma spi_erase_sector [dev_law]:
  assumes board: "spi_board io base V" and idle: "idle base V s" and a: "a < SPI_ROM_SIZE"
  shows "\<exists>s'. spi_flash_erase_sector io a s = Some s' \<and> idle base V s' \<and>
    flash_of V s' = erased a (flash_of V s) \<and> chip_id_of V s' = chip_id_of V s"
proof -
  obtain s1 c g where 1: "spi_command io 0x06 (set_flash_writable io s) = Some s1" "at V s1 c 0 g"
    "\<not> cs c" "wel c" "flash c = flash_of V s" "chip_id c = chip_id_of V s" "opened base s1"
    using write_enabled [OF board idle] by blast
  have port: "spi_port t = base" if "moved s1 t" for t
    using moved_opened [OF that 1(7)] by (simp add: opened_def)
  let ?c0 = "c\<lparr>cs := True, frame := [], rd_pos := 0\<rparr>"
  obtain s2 where 2: "write_spi_byte io base 0x20 (enable_cs io base s1) = Some s2"
    "at V s2 (?c0\<lparr>frame := [0x20]\<rparr>) 0 g" "moved s1 s2"
    using start_frame [OF board 1(2) refl, of "0x20"] 1(3) by (auto simp: chip_select_def)
  let ?a2 = "ucast (drop_bit 16 a AND 0xFF)" and ?a1 = "ucast (drop_bit 8 a AND 0xFF)"
    and ?a0 = "ucast (a AND 0xFF)"
  obtain s3 where 3: "write_spi_24bit_addr io base a s2 = Some s3"
    "at V s3 (?c0\<lparr>frame := [0x20, ?a2, ?a1, ?a0]\<rparr>) 0 g" "moved s2 s3"
    using shift_addr [OF board 2(2), of a] by auto
  have m3: "moved s1 s3" using 2(3) 3(3) by (rule moved_trans)
  let ?c3 = "?c0\<lparr>frame := [0x20, ?a2, ?a1, ?a0]\<rparr>"
  obtain b5 where at5: "at V (disable_cs io base s3) (chip_deselect 0 ?c3) b5 g"
    using deselect_chip(1) [OF board 3(2)] by blast
  have m5: "moved s1 (disable_cs io base s3)"
    using deselect_chip(2) [OF board 3(2)] m3 moved_trans by blast
  have addr: "addr24 ?a2 ?a1 ?a0 = a"
    using a by (intro addr24_bytes) (simp add: SPI_ROM_SIZE_def word_less_nat_alt)
  have c5: "flash (chip_deselect 0 ?c3) = erased a (flash c)"
    "chip_id (chip_deselect 0 ?c3) = chip_id c" "\<not> cs (chip_deselect 0 ?c3)"
    using 1(4) addr by (simp_all add: chip_deselect_def chip_execute_def)
  obtain s6 where 6: "spi_finish_write io (disable_cs io base s3) = Some s6" "idle base V s6"
    "flash_of V s6 = flash (chip_deselect 0 ?c3)" "chip_id_of V s6 = chip_id (chip_deselect 0 ?c3)"
    using spi_finish_write_at [OF board at5 c5(3) moved_opened [OF m5 1(7)]] by blast
  have "spi_flash_erase_sector io a s = Some s6"
    using 1(1) 2(1) 3(1) 6(1) port [OF moved_refl] port [OF 2(3)] port [OF m3]
      port [OF select_chip(2) [OF board 1(2)]]
    by (simp add: spi_flash_erase_sector_def)
  then show ?thesis using 6 c5 1(5,6) by simp
qed


lemma spi_identify [dev_law]:
  assumes board: "spi_board io base V" and idle: "idle base V s"
    and known: "get_flash_info (chip_id_of V s) \<noteq> None"
  shows "\<exists>s'. get_spi_flash_info io s = Some (True, s') \<and> idle base V s' \<and>
    flash_of V s' = flash_of V s \<and> chip_id_of V s' = chip_id_of V s"
proof -
  let ?s1 = "set_flash_writable io s" and ?chip = "chip V (wd s)"
  note op1 = open_controller(1) [OF board idle]
  obtain c1 g where at1: "at V ?s1 c1 0 g" and c1: "chip_select c1 = chip_select ?chip"
    using open_controller(2) [OF board idle] by blast
  have sel: "chip_select ?chip = ?chip\<lparr>cs := True, frame := [], rd_pos := 0\<rparr>"
    using idle by (simp add: idle_def select_idle)
  have port: "spi_port t = base" if "moved ?s1 t" for t
    using moved_opened [OF that op1] by (simp add: opened_def)
  let ?c = "\<lambda>d n. ?chip\<lparr>cs := True, frame := [0x9F], rx_data := d, rd_pos := n\<rparr>"
  have reorder: "?chip\<lparr>cs := True, rd_pos := 0, frame := [0x9F]\<rparr> = ?c (rx_data ?chip) 0"
    by (cases ?chip) simp
  have clock: "\<exists>s'. read_spi_byte io base t = Some (chip_id ?chip ! n, s') \<and>
      at V s' (?c (chip_id ?chip ! n) (Suc n)) 0 g \<and> moved t s'"
    if "at V t (?c d n) 0 g" "n < 3" for t :: "('a, 'b) spi_mach_scheme" and d n
    using clock_byte [OF board that(1)] that(2) by (auto simp: chip_out_def)
  obtain s2 where 2: "write_spi_byte io base 0x9F (enable_cs io base ?s1) = Some s2"
    "at V s2 (?c (rx_data ?chip) 0) 0 g" "moved ?s1 s2"
    using start_frame [OF board at1 c1, of "0x9F"] sel reorder by auto
  obtain s3 where 3: "read_spi_byte io base s2 = Some (chip_id ?chip ! 0, s3)"
    "at V s3 (?c (chip_id ?chip ! 0) 1) 0 g" "moved s2 s3"
    using clock [OF 2(2)] by auto
  have m3: "moved ?s1 s3" using 2(3) 3(3) by (rule moved_trans)
  obtain s4 where 4: "read_spi_byte io base s3 = Some (chip_id ?chip ! 1, s4)"
    "at V s4 (?c (chip_id ?chip ! 1) 2) 0 g" "moved s3 s4"
    using clock [OF 3(2)] by (auto simp: numeral_2_eq_2)
  have m4: "moved ?s1 s4" using m3 4(3) by (rule moved_trans)
  obtain s5 where 5: "read_spi_byte io base s4 = Some (chip_id ?chip ! 2, s5)"
    "at V s5 (?c (chip_id ?chip ! 2) 3) 0 g" "moved s4 s5"
    using clock [OF 4(2)] by (auto simp: numeral_2_eq_2 numeral_3_eq_3)
  have m5: "moved ?s1 s5" using m4 5(3) by (rule moved_trans)
  let ?s6 = "disable_cs io base s5" and ?c6 = "(?c (chip_id ?chip ! 2) 3)\<lparr>cs := False\<rparr>"
  have at6: "at V ?s6 ?c6 0 g" and m6: "moved ?s1 ?s6"
    using deselect_chip [OF board 5(2)] m5 moved_trans
    by (auto simp: writes_flash_def chip_deselect_def chip_execute_def)
  have "chip_id ?chip = [chip_id ?chip ! 0, chip_id ?chip ! 1, chip_id ?chip ! 2]"
    using known by (auto simp: get_flash_info_def flash_info_table_def chip_id_of_def
        split: if_splits dest!: sym [of "_ # _" "chip_id _"])
  moreover have "idle_chip ?c6" by (simp add: idle_chip_def)
  note cl = close_controller [OF board at6 this moved_opened [OF m6 op1]]
  moreover have "read_flash_device_id io ?s1 =
      Some ([chip_id ?chip ! 0, chip_id ?chip ! 1, chip_id ?chip ! 2], ?s6)"
    using 2(1) 3(1) 4(1) 5(1) port [OF moved_refl] port [OF 2(3)] port [OF m3] port [OF m4]
      port [OF m5] port [OF select_chip(2) [OF board at1]]
    by (simp add: read_flash_device_id_def)
  ultimately have "get_spi_flash_info io s =
      Some (get_flash_info (chip_id ?chip) \<noteq> None, set_flash_unwritable io ?s6)"
    by (simp add: get_spi_flash_info_def)
  then show ?thesis
    using cl known by (auto simp: flash_of_def chip_id_of_def dest!: select_same)
qed

section \<open>The driver is a flash store\<close>

definition spi_ok :: "'w io \<Rightarrow> u16 \<Rightarrow> 'w spi_view \<Rightarrow> ('w, 'z) spi_mach_scheme \<Rightarrow> bool" where
  "spi_ok io base V s \<longleftrightarrow>
     spi_board io base V \<and> idle base V s \<and> get_flash_info (chip_id_of V s) \<noteq> None"

interpretation spi: flash_store "get_spi_flash_info io" "spi_flash_read_byte io"
  "spi_flash_write_byte io" "spi_flash_erase_sector io" "flash_of V" "spi_ok io base V"
  for io :: "'w io" and base V
proof
  fix s :: "('w, 'z) spi_mach_scheme" and a v
  assume ok: "spi_ok io base V s"
  then have board: "spi_board io base V" and idle: "idle base V s" by (auto simp: spi_ok_def)
  show "\<exists>s'. get_spi_flash_info io s = Some (True, s') \<and> spi_ok io base V s' \<and> flash_of V s' = flash_of V s"
    using spi_identify [OF board idle] ok by (auto simp: spi_ok_def)
  assume a: "a < SPI_ROM_SIZE"
  show "\<exists>s'. spi_flash_read_byte io a s = Some (flash_of V s a, s') \<and> spi_ok io base V s' \<and>
      flash_of V s' = flash_of V s"
    using spi_read_byte [OF board idle a] ok by (auto simp: spi_ok_def)
  show "\<exists>s'. spi_flash_write_byte io a v s = Some s' \<and> spi_ok io base V s' \<and>
      flash_of V s' = (flash_of V s)(a := flash_of V s a AND v)"
    using spi_write_byte [OF board idle a, of v] ok by (auto simp: spi_ok_def)
  show "\<exists>s'. spi_flash_erase_sector io a s = Some s' \<and> spi_ok io base V s' \<and>
      flash_of V s' = erased a (flash_of V s)"
    using spi_erase_sector [OF board idle a] ok by (auto simp: spi_ok_def)
qed


section \<open>A simulated board\<close>

text \<open>
  A board whose controller is always ready and whose chip finishes a write at once; the base address
  of the controller is 0xFC00. It shows that the hypothesis \<open>spi_board\<close> can hold.
\<close>

type_synonym spi_world = "spi_chip \<times> u32 \<times> (u32 \<Rightarrow> u32)"

definition sim_base :: u16 where "sim_base = 0xFC00"

definition sim_out :: "spi_chip \<Rightarrow> u8" where
  "sim_out c =
     (case frame c of
        [cmd] \<Rightarrow> if cmd = 0x9F \<and> rd_pos c < 3 then chip_id c ! rd_pos c else 0
      | [cmd, a2, a1, a0] \<Rightarrow> if cmd = 0x03 then flash c (addr24 a2 a1 a0 + of_nat (rd_pos c)) else 0
      | _ \<Rightarrow> 0)"

definition sim_outb :: "u8 \<Rightarrow> u16 \<Rightarrow> spi_chip \<Rightarrow> spi_chip" where
  "sim_outb v port c =
     (if port = sim_base then chip_shift v c
      else if port = sim_base + 1 then c\<lparr>rx_data := sim_out c, rd_pos := rd_pos c + 1\<rparr>
      else if port = sim_base + 4 then (if v = 0 then chip_select c else chip_deselect 0 c)
      else c)"

definition spi_sim :: "spi_world io" where
  "spi_sim =
     \<lparr>io_inb = (\<lambda>port w. (if port = sim_base + 1 then rx_data (fst w)
                         else if port = sim_base + 3 then 0x30 else 0, w)),
      io_inl = (\<lambda>port (c, latch, cfg). (cfg latch, c, latch, cfg)),
      io_outb = (\<lambda>v port (c, r). (sim_outb v port c, r)),
      io_outl = (\<lambda>v port (c, latch, cfg).
        if port = 0xCF8 then (c, v, cfg)
        else if port = 0xCFC then (c, latch, cfg(latch := v)) else (c, latch, cfg)),
      io_rdtsc = (\<lambda>w. (0, w)), io_cr0 = (\<lambda>w. 0), io_setcr0 = (\<lambda>v w. w), io_wbinvd = (\<lambda>w. w),
      io_yield = (\<lambda>w. w), io_yield_toirq = (\<lambda>w. w), io_timer_counter = (\<lambda>w. 0),
      io_call16 = (\<lambda>nr br w. (br, w))\<rparr>"

definition sim_view :: "spi_world spi_view" where
  "sim_view =
     \<lparr>chip = fst, tx_busy = (\<lambda>w. 0), rx_busy = (\<lambda>w. 0), busy = (\<lambda>w. 0),
      pci_latch = fst \<circ> snd, pci_cfg = snd \<circ> snd\<rparr>"

definition sim_mach :: "(u32 \<Rightarrow> u8) \<Rightarrow> spi_world spi_mach" where
  "sim_mach m =
     \<lparr>TimerKHz = 0, TimerPort = 0, ShiftTSC = 0, TimerLast = 0,
      wd = (\<lparr>cs = False, frame = [], rd_pos = 0, rx_data = 0, wel = False, flash = m,
             chip_id = [0xc2, 0x25, 0x37]\<rparr>, 0, \<lambda>_. ucast sim_base),
      reg_sb_c4 = 0, reg_nb_40 = 0, spi_ctrl_reg = 0, spi_base = 0\<rparr>"

lemma sim_clock: "chip_clock 0 c (c\<lparr>rx_data := sim_out c, rd_pos := Suc (rd_pos c)\<rparr>)"
  by (auto simp: chip_clock_def chip_out_def sim_out_def intro!: exI [of _ "sim_out c"])

lemma spi_board_sim: "spi_board spi_sim sim_base sim_view"
  using sim_clock
  by (auto simp: spi_board_def pci_config_ports_def spi_sim_def sim_view_def same_chip_def
      same_cfg_def sim_outb_def sim_base_def Let_def)

lemma spi_ok_sim: "spi_ok spi_sim sim_base sim_view (sim_mach m)"
  using spi_board_sim
  by (simp add: spi_ok_def idle_def idle_chip_def sim_view_def sim_mach_def sim_base_def
      chip_id_of_def get_flash_info_def flash_info_table_def)

lemma flash_of_sim [simp]: "flash_of sim_view (sim_mach m) = m"
  by (simp add: flash_of_def sim_view_def sim_mach_def)


section \<open>Properties\<close>

text \<open>
  C3. The driver's byte operations are those of a flash memory: whatever delays the controller and
  the chip need, each of them returns; a read gives the byte at the address and changes nothing, a
  write ands its byte into the cell, an erase sets the 4 KiB sector to ones, and the controller is
  left ready for the next operation.
\<close>

theorem spi_driver_refines_flash:
  assumes "spi_ok io base V s" "a < SPI_ROM_SIZE"
  shows "(\<exists>s'. spi_flash_read_byte io a s = Some (flash_of V s a, s') \<and> spi_ok io base V s' \<and>
      flash_of V s' = flash_of V s) \<and>
    (\<exists>s'. spi_flash_write_byte io a v s = Some s' \<and> spi_ok io base V s' \<and>
      flash_of V s' = (flash_of V s)(a := flash_of V s a AND v)) \<and>
    (\<exists>s'. spi_flash_erase_sector io a s = Some s' \<and> spi_ok io base V s' \<and>
      flash_of V s' = erased a (flash_of V s))"
  using spi.rd [OF assms] spi.wr [OF assms] spi.er [OF assms] by blast

theorem spi_driver_refines_flash_witness:
  "\<exists>s'. spi_flash_write_byte spi_sim 0x7FFF10 0x5A (sim_mach (\<lambda>_. 0xFF)) = Some s' \<and>
     flash_of sim_view s' = (\<lambda>_. 0xFF)(0x7FFF10 := 0x5A)"
  using spi_driver_refines_flash [OF spi_ok_sim, of "0x7FFF10" "\<lambda>_. 0xFF" "0x5A"]
  by (auto simp: SPI_ROM_SIZE_def)

text \<open>
  The two-byte operations disagree on the order of the bytes: a word written with
  \<open>spi_flash_write_word\<close> to erased cells is read back by \<open>spi_flash_read_word\<close> with its bytes
  swapped.
\<close>

theorem spi_word_order:
  assumes "spi_ok io base V s" "a + 1 < SPI_ROM_SIZE" "a < SPI_ROM_SIZE"
    and "flash_of V s a = 0xFF" "flash_of V s (a + 1) = 0xFF"
  shows "\<exists>s' s''. spi_flash_write_word io a v s = Some s' \<and>
    spi_flash_read_word io a s' = Some (le16 (hi8 v) (lo8 v), s'')"
proof -
  obtain s1 where 1: "spi_flash_write_word io a v s = Some s1" "spi_ok io base V s1"
    "flash_of V s1 = (flash_of V s)(a := ucast (drop_bit 8 v), a + 1 := lo8 v)"
    using spi.write_word [OF assms(1-3), of v] assms(4,5)
    by (auto simp: spi_flash_write_word_def u8_and_FF)
  then show ?thesis
    using spi.read_word [OF 1(2) assms(2,3)] by (auto simp: spi_flash_read_word_def hi8_eq)
qed

theorem spi_word_order_witness:
  "\<exists>s' s''. spi_flash_write_word spi_sim 0x100 0x1234 (sim_mach (\<lambda>_. 0xFF)) = Some s' \<and>
     spi_flash_read_word spi_sim 0x100 s' = Some (0x3412, s'')"
  using spi_word_order [OF spi_ok_sim, of "0x100" "\<lambda>_. 0xFF" "0x1234"]
  by (simp add: SPI_ROM_SIZE_def le16_def)

end
