(* ===== verification/Settings.thy ===== *)
theory Settings
  imports Spi_Chip
begin

text \<open>
  The setup options and their place in the flash chip: \<open>seabios/src/llama/llama_bios_settings.h\<close>
  and \<open>llama_bios_settings.c\<close>. The record has the fields of \<open>struct llama_bios_settings_s\<close>;
  every stored option carries its offset in the settings page.
\<close>

section \<open>The settings\<close>

record 'v setting_entry =
  se_value :: 'v
  se_offset :: u8

record llama_bios_settings =
  has_changes :: u8
  cs4237_ext_fm_present :: u8
  initialized :: "u8 setting_entry"
  cpu_freq_index :: "u8 setting_entry"
  l1_cache :: "u8 setting_entry"
  l2_cache :: "u8 setting_entry"
  boot_order_index :: "u8 setting_entry"
  usb_as_fixed_disks :: "u8 setting_entry"
  com1_base_clock_index :: "u8 setting_entry"
  com2_base_clock_index :: "u8 setting_entry"
  cs4237_wss_port :: "u16 setting_entry"
  cs4237_syn_port :: "u16 setting_entry"
  cs4237_sb_port :: "u16 setting_entry"
  cs4237_gamepad_port :: "u16 setting_entry"
  cs4237_mpu_port :: "u16 setting_entry"
  cs4237_ext_fm :: "u8 setting_entry"
  cs4237_digital :: "u8 setting_entry"
  mac_address_index :: "u8 setting_entry"
  fan1_target_rpm :: "u16 setting_entry"
  fan2_target_rpm :: "u16 setting_entry"
  fan3_target_rpm :: "u16 setting_entry"
  boot_tune_index :: "u8 setting_entry"

abbreviation entry :: "'v \<Rightarrow> u8 \<Rightarrow> 'v setting_entry" where
  "entry v off \<equiv> \<lparr>se_value = v, se_offset = off\<rparr>"

definition llama_bios_settings_default :: llama_bios_settings where
  "llama_bios_settings_default =
     \<lparr>has_changes           = 0,
      cs4237_ext_fm_present = 0,
      initialized           = entry 1     0xC0,
      cpu_freq_index        = entry 3     0xC1,
      l1_cache              = entry 1     0xC2,
      l2_cache              = entry 1     0xC3,
      boot_order_index      = entry 0     0xC4,
      usb_as_fixed_disks    = entry 1     0xC5,
      com1_base_clock_index = entry 0     0xC6,
      com2_base_clock_index = entry 0     0xC7,
      cs4237_wss_port       = entry 0x534 0xC8,
      cs4237_syn_port       = entry 0x388 0xCA,
      cs4237_sb_port        = entry 0x220 0xCC,
      cs4237_gamepad_port   = entry 0x200 0xCE,
      cs4237_mpu_port       = entry 0x330 0xD0,
      cs4237_ext_fm         = entry 0     0xD2,
      cs4237_digital        = entry 1     0xD3,
      mac_address_index     = entry 0     0xD4,
      fan1_target_rpm       = entry 2000  0xD5,
      fan2_target_rpm       = entry 2000  0xD7,
      fan3_target_rpm       = entry 2000  0xD9,
      boot_tune_index       = entry 1     0xDB\<rparr>"

definition freq_array :: "u8 list list" where
  "freq_array =
     [[0x48, 0x37, 0x21, 0x02, 0xCF, 0x07],
      [0x40, 0x26, 0x23, 0x02, 0x3F, 0x07],
      [0x30, 0x03, 0x23, 0x02, 0xDF, 0x07],
      [0x48, 0x03, 0x23, 0x02, 0x7F, 0x07],
      [0xA8, 0x53, 0x23, 0x02, 0x3F, 0x07],
      [0x78, 0x52, 0x23, 0x02, 0xDF, 0x07]]"

definition mac_address_array :: "u8 list list" where
  "mac_address_array =
     [[0x00, 0x0B, 0xB4, 0x00, 0x00, 0x01],
      [0x00, 0x0B, 0xB4, 0x00, 0x00, 0x02],
      [0x00, 0x0B, 0xB4, 0x00, 0x00, 0x03],
      [0x00, 0x0B, 0xB4, 0x00, 0x00, 0x04],
      [0x00, 0x0B, 0xB4, 0x00, 0x00, 0x05],
      [0x00, 0x0B, 0xB4, 0x00, 0x00, 0x06]]"

section \<open>Loading\<close>

text \<open>
  One assignment of \<open>llama_load_bios_settings\<close>: read the option's cell and store the value in the
  structure. \<open>sel\<close> and \<open>upd\<close> are the selector and the update of its field.
\<close>

definition setting_addr :: "'v setting_entry \<Rightarrow> u32" where
  "setting_addr e = spi_bios_settings_offset + ucast (se_offset e)"

definition load_entry :: "(u32 \<Rightarrow> 's \<Rightarrow> ('v \<times> 's) option) \<Rightarrow>
    (llama_bios_settings \<Rightarrow> 'v setting_entry) \<Rightarrow>
    (('v setting_entry \<Rightarrow> 'v setting_entry) \<Rightarrow> llama_bios_settings \<Rightarrow> llama_bios_settings) \<Rightarrow>
    llama_bios_settings \<times> 's \<Rightarrow> (llama_bios_settings \<times> 's) option" where
  "load_entry rd sel upd p =
     do {
       (v, s) \<leftarrow> rd (setting_addr (sel (fst p))) (snd p);
       Some (upd (\<lambda>e. e\<lparr>se_value := v\<rparr>) (fst p), s)
     }"

definition load_bios_settings :: "(u32 \<Rightarrow> 's \<Rightarrow> (u8 \<times> 's) option) \<Rightarrow> llama_bios_settings \<Rightarrow> 's \<Rightarrow>
    (llama_bios_settings \<times> 's) option" where
  "load_bios_settings rd lbs s =
     do {
       (init, s) \<leftarrow> rd (setting_addr (initialized lbs)) s;
       if init \<noteq> 1 then Some (lbs, s)
       else do {
         p \<leftarrow> load_entry rd cpu_freq_index cpu_freq_index_update (lbs, s);
         p \<leftarrow> load_entry rd l1_cache l1_cache_update p;
         p \<leftarrow> load_entry rd l2_cache l2_cache_update p;
         p \<leftarrow> load_entry rd boot_order_index boot_order_index_update p;
         p \<leftarrow> load_entry rd usb_as_fixed_disks usb_as_fixed_disks_update p;
         p \<leftarrow> load_entry rd com1_base_clock_index com1_base_clock_index_update p;
         p \<leftarrow> load_entry rd com2_base_clock_index com2_base_clock_index_update p;
         p \<leftarrow> load_entry (flash_read_word rd) cs4237_wss_port cs4237_wss_port_update p;
         p \<leftarrow> load_entry (flash_read_word rd) cs4237_syn_port cs4237_syn_port_update p;
         p \<leftarrow> load_entry (flash_read_word rd) cs4237_sb_port cs4237_sb_port_update p;
         p \<leftarrow> load_entry (flash_read_word rd) cs4237_gamepad_port cs4237_gamepad_port_update p;
         p \<leftarrow> load_entry (flash_read_word rd) cs4237_mpu_port cs4237_mpu_port_update p;
         p \<leftarrow> load_entry rd cs4237_ext_fm cs4237_ext_fm_update p;
         p \<leftarrow> load_entry rd cs4237_digital cs4237_digital_update p;
         p \<leftarrow> load_entry rd mac_address_index mac_address_index_update p;
         p \<leftarrow> load_entry (flash_read_word rd) fan1_target_rpm fan1_target_rpm_update p;
         p \<leftarrow> load_entry (flash_read_word rd) fan2_target_rpm fan2_target_rpm_update p;
         p \<leftarrow> load_entry (flash_read_word rd) fan3_target_rpm fan3_target_rpm_update p;
         load_entry rd boot_tune_index boot_tune_index_update p
       }
     }"

section \<open>Saving\<close>

text \<open>
  The assignments to the page buffer, in the order of the code: index and byte. A row of the two
  tables is read at an index of the settings; outside of the table, and for a store outside of the
  256-byte buffer, the behaviour of the C code is undefined (\<open>None\<close>).
\<close>

definition table_row :: "'a list \<Rightarrow> u8 \<Rightarrow> 'a option" where
  "table_row tab i = (if unat i < length tab then Some (tab ! unat i) else None)"

definition put8 :: "u8 setting_entry \<Rightarrow> (nat \<times> u8) list" where
  "put8 e = [(unat (se_offset e), se_value e)]"

definition put16 :: "u16 setting_entry \<Rightarrow> (nat \<times> u8) list" where
  "put16 e = [(unat (se_offset e), lo8 (se_value e)), (unat (se_offset e) + 1, hi8 (se_value e))]"

definition settings_writes :: "llama_bios_settings \<Rightarrow> (nat \<times> u8) list option" where
  "settings_writes lbs =
     do {
       mac \<leftarrow> table_row mac_address_array (se_value (mac_address_index lbs));
       freq \<leftarrow> table_row freq_array (se_value (cpu_freq_index lbs));
       Some (zip [0xB0, 0xB1, 0xB2, 0xB3, 0xB4, 0xB5] mac
             @ zip [0xB6, 0xB7, 0xBB, 0xBC, 0xBD, 0xBF] freq
             @ [(unat (se_offset (initialized lbs)), 1)]
             @ put8 (cpu_freq_index lbs)
             @ put8 (l1_cache lbs)
             @ put8 (l2_cache lbs)
             @ put8 (boot_order_index lbs)
             @ put8 (usb_as_fixed_disks lbs)
             @ put8 (com1_base_clock_index lbs)
             @ put8 (com2_base_clock_index lbs)
             @ put16 (cs4237_wss_port lbs)
             @ put16 (cs4237_syn_port lbs)
             @ put16 (cs4237_sb_port lbs)
             @ put16 (cs4237_gamepad_port lbs)
             @ put16 (cs4237_mpu_port lbs)
             @ put8 (cs4237_ext_fm lbs)
             @ put8 (cs4237_digital lbs)
             @ put8 (mac_address_index lbs)
             @ put16 (fan1_target_rpm lbs)
             @ put16 (fan2_target_rpm lbs)
             @ put16 (fan3_target_rpm lbs)
             @ put8 (boot_tune_index lbs))
     }"

fun store_all :: "'a list \<Rightarrow> (nat \<times> 'a) list \<Rightarrow> 'a list option" where
  "store_all buf [] = Some buf"
| "store_all buf ((i, v) # ws) = (if i < length buf then store_all (buf[i := v]) ws else None)"

text \<open>The three loops over a page.\<close>

fun read_range :: "(u32 \<Rightarrow> 's \<Rightarrow> (u8 \<times> 's) option) \<Rightarrow> u32 \<Rightarrow> nat \<Rightarrow> 's \<Rightarrow> (u8 list \<times> 's) option" where
  "read_range rd addr 0 s = Some ([], s)"
| "read_range rd addr (Suc n) s =
     do {
       (b, s) \<leftarrow> rd addr s;
       (bs, s) \<leftarrow> read_range rd (addr + 1) n s;
       Some (b # bs, s)
     }"

fun write_range :: "(u32 \<Rightarrow> u8 \<Rightarrow> 's \<Rightarrow> 's option) \<Rightarrow> u32 \<Rightarrow> u8 list \<Rightarrow> 's \<Rightarrow> 's option" where
  "write_range wr addr [] s = Some s"
| "write_range wr addr (b # bs) s = do { s \<leftarrow> wr addr b s; write_range wr (addr + 1) bs s }"

definition save_bios_settings :: "('s \<Rightarrow> (bool \<times> 's) option) \<Rightarrow> (u32 \<Rightarrow> 's \<Rightarrow> (u8 \<times> 's) option) \<Rightarrow>
    (u32 \<Rightarrow> u8 \<Rightarrow> 's \<Rightarrow> 's option) \<Rightarrow> (u32 \<Rightarrow> 's \<Rightarrow> 's option) \<Rightarrow>
    llama_bios_settings \<Rightarrow> 's \<Rightarrow> 's option" where
  "save_bios_settings info rd wr er lbs s =
     do {
       (found, s) \<leftarrow> info s;
       if \<not> found then Some s
       else do {
         (crossbar, s) \<leftarrow> read_range rd spi_crossbar_offset (unat spi_page_size) s;
         (bios_settings, s) \<leftarrow> read_range rd spi_bios_settings_offset (unat spi_page_size) s;
         writes \<leftarrow> settings_writes lbs;
         bios_settings \<leftarrow> store_all bios_settings writes;
         s \<leftarrow> er spi_sector_offset s;
         s \<leftarrow> write_range wr spi_crossbar_offset crossbar s;
         write_range wr spi_bios_settings_offset bios_settings s
       }
     }"

section \<open>On the SPI flash driver\<close>

definition llama_load_bios_settings :: "'w io \<Rightarrow> llama_bios_settings \<Rightarrow> ('w, 'z) spi_mach_scheme \<Rightarrow>
    (llama_bios_settings \<times> ('w, 'z) spi_mach_scheme) option" where
  "llama_load_bios_settings io = load_bios_settings (spi_flash_read_byte io)"

definition llama_save_bios_settings :: "'w io \<Rightarrow> llama_bios_settings \<Rightarrow> ('w, 'z) spi_mach_scheme \<Rightarrow>
    ('w, 'z) spi_mach_scheme option" where
  "llama_save_bios_settings io =
     save_bios_settings (get_spi_flash_info io) (spi_flash_read_byte io) (spi_flash_write_byte io)
       (spi_flash_erase_sector io)"

section \<open>What saving does\<close>

text \<open>
  The options lie where \<open>llama_bios_settings_default\<close> puts them. The offsets are part of the
  structure, but nothing of the program changes them.
\<close>

definition settings_layout :: "llama_bios_settings \<Rightarrow> bool" where
  "settings_layout lbs \<longleftrightarrow>
     se_offset (initialized lbs) = 0xC0 \<and> se_offset (cpu_freq_index lbs) = 0xC1 \<and>
     se_offset (l1_cache lbs) = 0xC2 \<and> se_offset (l2_cache lbs) = 0xC3 \<and>
     se_offset (boot_order_index lbs) = 0xC4 \<and> se_offset (usb_as_fixed_disks lbs) = 0xC5 \<and>
     se_offset (com1_base_clock_index lbs) = 0xC6 \<and> se_offset (com2_base_clock_index lbs) = 0xC7 \<and>
     se_offset (cs4237_wss_port lbs) = 0xC8 \<and> se_offset (cs4237_syn_port lbs) = 0xCA \<and>
     se_offset (cs4237_sb_port lbs) = 0xCC \<and> se_offset (cs4237_gamepad_port lbs) = 0xCE \<and>
     se_offset (cs4237_mpu_port lbs) = 0xD0 \<and> se_offset (cs4237_ext_fm lbs) = 0xD2 \<and>
     se_offset (cs4237_digital lbs) = 0xD3 \<and> se_offset (mac_address_index lbs) = 0xD4 \<and>
     se_offset (fan1_target_rpm lbs) = 0xD5 \<and> se_offset (fan2_target_rpm lbs) = 0xD7 \<and>
     se_offset (fan3_target_rpm lbs) = 0xD9 \<and> se_offset (boot_tune_index lbs) = 0xDB"

definition settings_valid :: "llama_bios_settings \<Rightarrow> bool" where
  "settings_valid lbs \<longleftrightarrow> settings_layout lbs \<and>
     se_value (mac_address_index lbs) < 6 \<and> se_value (cpu_freq_index lbs) < 6"

lemma settings_valid_default [simp]: "settings_valid llama_bios_settings_default"
  by (simp add: settings_valid_def settings_layout_def llama_bios_settings_default_def)

text \<open>The bytes of the settings page that saving determines.\<close>

definition settings_image :: "llama_bios_settings \<Rightarrow> nat \<Rightarrow> u8 option" where
  "settings_image lbs i = (case settings_writes lbs of None \<Rightarrow> None | Some ws \<Rightarrow> map_of (rev ws) i)"

definition saved_flash :: "llama_bios_settings \<Rightarrow> (u32 \<Rightarrow> u8) \<Rightarrow> u32 \<Rightarrow> u8" where
  "saved_flash lbs m a =
     (if a < spi_sector_offset \<or> SPI_ROM_SIZE \<le> a then m a
      else if spi_bios_settings_offset \<le> a then
        (case settings_image lbs (unat (a - spi_bios_settings_offset)) of Some v \<Rightarrow> v | None \<Rightarrow> m a)
      else if spi_crossbar_offset \<le> a \<and> a < spi_crossbar_offset + spi_page_size then m a
      else 0xFF)"

lemma table_row_6:
  assumes "i < 6" "length tab = 6"
  shows "table_row tab i = Some (tab ! unat i)"
  using assms by (simp add: table_row_def word_less_nat_alt)

lemma store_all_spec:
  "(\<forall>(i, v)\<in>set ws. i < length buf) \<Longrightarrow>
   \<exists>buf'. store_all buf ws = Some buf' \<and> length buf' = length buf \<and>
     (\<forall>i < length buf. buf' ! i = (case map_of (rev ws) i of Some v \<Rightarrow> v | None \<Rightarrow> buf ! i))"
proof (induction ws arbitrary: buf)
  case Nil
  then show ?case by simp
next
  case (Cons w ws)
  obtain i v where w: "w = (i, v)" by fastforce
  from Cons.prems w have i: "i < length buf" by simp
  from Cons.IH [of "buf[i := v]"] Cons.prems obtain buf' where buf':
    "store_all (buf[i := v]) ws = Some buf'" "length buf' = length buf"
    "\<forall>j < length buf. buf' ! j = (case map_of (rev ws) j of Some v \<Rightarrow> v | None \<Rightarrow> buf[i := v] ! j)"
    by auto
  show ?case
    using buf' i by (auto simp: w map_add_def nth_list_update split: option.splits)
qed

lemma settings_writes_valid:
  assumes "settings_valid lbs"
  shows "\<exists>ws. settings_writes lbs = Some ws \<and> (\<forall>(i, v)\<in>set ws. i < 256)"
proof -
  have "length mac_address_array = 6" "length freq_array = 6"
    by (simp_all add: mac_address_array_def freq_array_def)
  then obtain mac freq where rows: "table_row mac_address_array (se_value (mac_address_index lbs)) = Some mac"
    "table_row freq_array (se_value (cpu_freq_index lbs)) = Some freq"
    using assms by (auto simp: settings_valid_def table_row_6)
  show ?thesis
    using assms unfolding settings_writes_def rows bind.bind_lunit
    by (auto simp: put8_def put16_def settings_valid_def settings_layout_def dest!: set_zip_leftD)
qed


section \<open>Over any flash store\<close>

text \<open>
  \<open>reads_as ok mem M f g\<close>: on settings with the standard layout and a store whose memory is \<open>M\<close>, the
  loading step \<open>f\<close> returns, leaves the memory alone and changes the settings by \<open>g\<close>.
\<close>

definition reads_as :: "('s \<Rightarrow> bool) \<Rightarrow> ('s \<Rightarrow> u32 \<Rightarrow> u8) \<Rightarrow> (u32 \<Rightarrow> u8) \<Rightarrow>
    (llama_bios_settings \<times> 's \<Rightarrow> (llama_bios_settings \<times> 's) option) \<Rightarrow>
    (llama_bios_settings \<Rightarrow> llama_bios_settings) \<Rightarrow> bool" where
  "reads_as ok mem M f g \<longleftrightarrow>
     (\<forall>l s. settings_layout l \<and> ok s \<and> mem s = M \<longrightarrow>
        settings_layout (g l) \<and> (\<exists>s'. f (l, s) = Some (g l, s') \<and> ok s' \<and> mem s' = M))"

lemma reads_as_bind:
  assumes "reads_as ok mem M f g" "reads_as ok mem M h k"
  shows "reads_as ok mem M (\<lambda>p. Option.bind (f p) h) (\<lambda>l. k (g l))"
  using assms unfolding reads_as_def by fastforce

definition byte_at :: "(u32 \<Rightarrow> u8) \<Rightarrow> u8 \<Rightarrow> u8" where
  "byte_at M off = M (spi_bios_settings_offset + ucast off)"

definition word_at :: "(u32 \<Rightarrow> u8) \<Rightarrow> u8 \<Rightarrow> u16" where
  "word_at M off = le16 (byte_at M off) (M (spi_bios_settings_offset + ucast off + 1))"

text \<open>The settings that loading makes of \<open>l\<close> when the page is initialised.\<close>

definition loaded :: "(u32 \<Rightarrow> u8) \<Rightarrow> llama_bios_settings \<Rightarrow> llama_bios_settings" where
  "loaded M l =
     l\<lparr>cpu_freq_index := entry (byte_at M 0xC1) 0xC1,
       l1_cache := entry (byte_at M 0xC2) 0xC2,
       l2_cache := entry (byte_at M 0xC3) 0xC3,
       boot_order_index := entry (byte_at M 0xC4) 0xC4,
       usb_as_fixed_disks := entry (byte_at M 0xC5) 0xC5,
       com1_base_clock_index := entry (byte_at M 0xC6) 0xC6,
       com2_base_clock_index := entry (byte_at M 0xC7) 0xC7,
       cs4237_wss_port := entry (word_at M 0xC8) 0xC8,
       cs4237_syn_port := entry (word_at M 0xCA) 0xCA,
       cs4237_sb_port := entry (word_at M 0xCC) 0xCC,
       cs4237_gamepad_port := entry (word_at M 0xCE) 0xCE,
       cs4237_mpu_port := entry (word_at M 0xD0) 0xD0,
       cs4237_ext_fm := entry (byte_at M 0xD2) 0xD2,
       cs4237_digital := entry (byte_at M 0xD3) 0xD3,
       mac_address_index := entry (byte_at M 0xD4) 0xD4,
       fan1_target_rpm := entry (word_at M 0xD5) 0xD5,
       fan2_target_rpm := entry (word_at M 0xD7) 0xD7,
       fan3_target_rpm := entry (word_at M 0xD9) 0xD9,
       boot_tune_index := entry (byte_at M 0xDB) 0xDB\<rparr>"

lemma page_nth:
  assumes "b \<le> x" "unat x < unat b + n"
  shows "map (\<lambda>i. m (b + of_nat i)) [0..<n] ! (unat x - unat b) = m x"
  using assms by (auto simp: word_le_nat_alt)

lemma last_sector: "sector_of b = sector_of spi_sector_offset \<longleftrightarrow> spi_sector_offset \<le> b \<and> b < SPI_ROM_SIZE"
proof -
  have mask: "(0xFFFFF000 :: u32) = NOT (mask 12)" by (simp add: mask_eq_decr_exp)
  have "sector_of b = push_bit 12 (drop_bit 12 b)" for b
    unfolding sector_of_def mask by (rule bit_word_eqI) (auto simp: bit_simps)
  moreover have "unat (push_bit 12 (drop_bit 12 b)) = 4096 * (unat b div 4096)" for b :: u32
  proof -
    have "unat b div 4096 < 1048576" using unsigned_less [of b, where 'a = nat] by simp
    then show ?thesis
      by (simp add: push_bit_eq_mult drop_bit_eq_div unat_word_ariths unat_div)
  qed
  ultimately have "unat (sector_of b) = 4096 * (unat b div 4096)" for b by simp
  then show ?thesis
    by (auto simp: word_unat_eq_iff word_le_nat_alt word_less_nat_alt spi_sector_offset_def
        SPI_ROM_SIZE_def spi_sector_size_def)
qed

lemma entry_update: "se_offset e = off \<Longrightarrow> e\<lparr>se_value := v\<rparr> = entry v off"
  by (cases e) simp

lemma loaded_eq:
  assumes "settings_layout l"
  shows "boot_tune_index_update (\<lambda>e. e\<lparr>se_value := byte_at M 0xDB\<rparr>)
     (fan3_target_rpm_update (\<lambda>e. e\<lparr>se_value := word_at M 0xD9\<rparr>)
     (fan2_target_rpm_update (\<lambda>e. e\<lparr>se_value := word_at M 0xD7\<rparr>)
     (fan1_target_rpm_update (\<lambda>e. e\<lparr>se_value := word_at M 0xD5\<rparr>)
     (mac_address_index_update (\<lambda>e. e\<lparr>se_value := byte_at M 0xD4\<rparr>)
     (cs4237_digital_update (\<lambda>e. e\<lparr>se_value := byte_at M 0xD3\<rparr>)
     (cs4237_ext_fm_update (\<lambda>e. e\<lparr>se_value := byte_at M 0xD2\<rparr>)
     (cs4237_mpu_port_update (\<lambda>e. e\<lparr>se_value := word_at M 0xD0\<rparr>)
     (cs4237_gamepad_port_update (\<lambda>e. e\<lparr>se_value := word_at M 0xCE\<rparr>)
     (cs4237_sb_port_update (\<lambda>e. e\<lparr>se_value := word_at M 0xCC\<rparr>)
     (cs4237_syn_port_update (\<lambda>e. e\<lparr>se_value := word_at M 0xCA\<rparr>)
     (cs4237_wss_port_update (\<lambda>e. e\<lparr>se_value := word_at M 0xC8\<rparr>)
     (com2_base_clock_index_update (\<lambda>e. e\<lparr>se_value := byte_at M 0xC7\<rparr>)
     (com1_base_clock_index_update (\<lambda>e. e\<lparr>se_value := byte_at M 0xC6\<rparr>)
     (usb_as_fixed_disks_update (\<lambda>e. e\<lparr>se_value := byte_at M 0xC5\<rparr>)
     (boot_order_index_update (\<lambda>e. e\<lparr>se_value := byte_at M 0xC4\<rparr>)
     (l2_cache_update (\<lambda>e. e\<lparr>se_value := byte_at M 0xC3\<rparr>)
     (l1_cache_update (\<lambda>e. e\<lparr>se_value := byte_at M 0xC2\<rparr>)
     (cpu_freq_index_update (\<lambda>e. e\<lparr>se_value := byte_at M 0xC1\<rparr>)
     l)))))))))))))))))) = loaded M l"
  using assms by (cases l) (simp add: loaded_def settings_layout_def entry_update)

context flash_store begin

lemma read_range_returns:
  assumes "ok s" "unat a + n \<le> unat SPI_ROM_SIZE"
  shows "\<exists>s'. read_range rd a n s = Some (map (\<lambda>i. mem s (a + of_nat i)) [0..<n], s') \<and>
    ok s' \<and> mem s' = mem s"
  using assms
proof (induction n arbitrary: a s)
  case 0
  then show ?case by simp
next
  case (Suc n)
  have "a < SPI_ROM_SIZE" using Suc.prems(2) by (simp add: word_less_nat_alt)
  then obtain s1 where 1: "rd a s = Some (mem s a, s1)" "ok s1" "mem s1 = mem s"
    using rd Suc.prems(1) by blast
  have "unat (a + 1) + n \<le> unat SPI_ROM_SIZE"
  proof (cases "n = 0")
    case True
    then show ?thesis using Suc.prems(2) by (simp add: unat_word_ariths)
  next
    case False
    then show ?thesis using Suc.prems(2)
      by (simp add: unat_word_ariths SPI_ROM_SIZE_def)
  qed
  from Suc.IH [OF 1(2) this] obtain s2 where 2:
    "read_range rd (a + 1) n s1 = Some (map (\<lambda>i. mem s1 (a + 1 + of_nat i)) [0..<n], s2)"
    "ok s2" "mem s2 = mem s1" by blast
  have "map (\<lambda>i. mem s (a + of_nat i)) [0..<Suc n] =
      mem s a # map (\<lambda>i. mem s (a + 1 + of_nat i)) [0..<n]"
    by (simp add: upt_conv_Cons map_Suc_upt [symmetric] o_def add.assoc del: upt_Suc)
  then show ?case using 1 2 by simp
qed

lemma write_range_returns:
  assumes "ok s" "unat a + length bs \<le> unat SPI_ROM_SIZE"
  shows "\<exists>s'. write_range wr a bs s = Some s' \<and> ok s' \<and>
    mem s' = (\<lambda>x. if a \<le> x \<and> unat x < unat a + length bs
                  then mem s x AND bs ! (unat x - unat a) else mem s x)"
  using assms
proof (induction bs arbitrary: a s)
  case Nil
  then show ?case by (auto simp: fun_eq_iff word_le_nat_alt)
next
  case (Cons b bs)
  have a: "a < SPI_ROM_SIZE" using Cons.prems(2) by (simp add: word_less_nat_alt)
  then obtain s1 where 1: "wr a b s = Some s1" "ok s1" "mem s1 = (mem s)(a := mem s a AND b)"
    using wr Cons.prems(1) by blast
  have a1: "unat (a + 1) = unat a + 1"
    using a by (simp add: unat_word_ariths SPI_ROM_SIZE_def word_less_nat_alt)
  then have "unat (a + 1) + length bs \<le> unat SPI_ROM_SIZE" using Cons.prems(2) by simp
  from Cons.IH [OF 1(2) this] obtain s2 where 2: "write_range wr (a + 1) bs s1 = Some s2" "ok s2"
    "mem s2 = (\<lambda>x. if a + 1 \<le> x \<and> unat x < unat (a + 1) + length bs
                  then mem s1 x AND bs ! (unat x - unat (a + 1)) else mem s1 x)"
    by blast
  have "mem s2 x = (if a \<le> x \<and> unat x < unat a + length (b # bs)
                  then mem s x AND (b # bs) ! (unat x - unat a) else mem s x)" for x
    using a1 by (cases "x = a") (auto simp: 1(3) 2(3) word_le_nat_alt nth_Cons' dest: unat_neq)
  then show ?case using 1 2 by auto
qed

lemma save_spec:
  assumes "ok s" "settings_valid lbs"
  shows "\<exists>s'. save_bios_settings info rd wr er lbs s = Some s' \<and> ok s' \<and>
    mem s' = saved_flash lbs (mem s)"
proof -
  let ?m = "mem s"
  obtain s1 where 1: "info s = Some (True, s1)" "ok s1" "mem s1 = ?m"
    using info assms(1) by blast
  let ?crossbar = "map (\<lambda>i. ?m (spi_crossbar_offset + of_nat i)) [0..<256]"
  let ?page = "map (\<lambda>i. ?m (spi_bios_settings_offset + of_nat i)) [0..<256]"
  have bounds: "unat spi_crossbar_offset + 256 \<le> unat SPI_ROM_SIZE"
    "unat spi_bios_settings_offset + 256 \<le> unat SPI_ROM_SIZE" "spi_sector_offset < SPI_ROM_SIZE"
    by (simp_all add: spi_crossbar_offset_def spi_bios_settings_offset_def spi_sector_offset_def
        SPI_ROM_SIZE_def spi_page_size_def spi_sector_size_def)
  obtain s2 where 2: "read_range rd spi_crossbar_offset 256 s1 = Some (?crossbar, s2)" "ok s2" "mem s2 = ?m"
    using read_range_returns [OF 1(2) bounds(1)] 1(3) by auto
  obtain s3 where 3: "read_range rd spi_bios_settings_offset 256 s2 = Some (?page, s3)" "ok s3" "mem s3 = ?m"
    using read_range_returns [OF 2(2) bounds(2)] 2(3) by auto
  obtain ws where ws: "settings_writes lbs = Some ws" "\<forall>(i, v)\<in>set ws. i < 256"
    using settings_writes_valid [OF assms(2)] by blast
  obtain page where page: "store_all ?page ws = Some page" "length page = 256"
    "\<forall>i < 256. page ! i = (case settings_image lbs i of Some v \<Rightarrow> v | None \<Rightarrow> ?page ! i)"
    using store_all_spec [of ws ?page] ws by (auto simp: settings_image_def)
  obtain s4 where 4: "er spi_sector_offset s3 = Some s4" "ok s4" "mem s4 = erased spi_sector_offset ?m"
    using er [OF 3(2) bounds(3)] 3(3) by auto
  obtain s5 where 5: "write_range wr spi_crossbar_offset ?crossbar s4 = Some s5" "ok s5"
    "mem s5 = (\<lambda>x. if spi_crossbar_offset \<le> x \<and> unat x < unat spi_crossbar_offset + 256
       then mem s4 x AND ?crossbar ! (unat x - unat spi_crossbar_offset) else mem s4 x)"
    using write_range_returns [OF 4(2), of spi_crossbar_offset ?crossbar] bounds(1) by auto
  obtain s6 where 6: "write_range wr spi_bios_settings_offset page s5 = Some s6" "ok s6"
    "mem s6 = (\<lambda>x. if spi_bios_settings_offset \<le> x \<and> unat x < unat spi_bios_settings_offset + 256
       then mem s5 x AND page ! (unat x - unat spi_bios_settings_offset) else mem s5 x)"
    using write_range_returns [OF 5(2), of spi_bios_settings_offset page] bounds(2) page(2) by auto
  have "save_bios_settings info rd wr er lbs s = Some s6"
    using 1(1) 2(1) 3(1) ws(1) page(1) 4(1) 5(1) 6(1)
    by (simp add: save_bios_settings_def spi_page_size_def)
  moreover have "mem s6 x = saved_flash lbs ?m x" for x
  proof -
    note layout = spi_crossbar_offset_def spi_bios_settings_offset_def spi_sector_offset_def
      SPI_ROM_SIZE_def spi_page_size_def spi_sector_size_def word_le_nat_alt word_less_nat_alt
    have m4: "mem s4 x = (if spi_sector_offset \<le> x \<and> x < SPI_ROM_SIZE then 0xFF else ?m x)"
      by (simp add: 4(3) erased_def last_sector)
    have m5: "mem s5 x = (if spi_crossbar_offset \<le> x \<and> x < spi_crossbar_offset + spi_page_size
        then ?m x else mem s4 x)"
      unfolding 5(3) m4 using page_nth [of spi_crossbar_offset x 256 ?m] by (auto simp: layout u8_and_FF)
    show ?thesis
    proof (cases "spi_bios_settings_offset \<le> x \<and> x < SPI_ROM_SIZE")
      case True
      then have i: "unat x - unat spi_bios_settings_offset < 256"
        "unat (x - spi_bios_settings_offset) = unat x - unat spi_bios_settings_offset"
        by (auto simp: layout unat_sub_if')
      have "?page ! (unat x - unat spi_bios_settings_offset) = ?m x"
        using True by (intro page_nth) (auto simp: layout)
      moreover have "mem s5 x = 0xFF" using True unfolding m5 m4 by (auto simp: layout)
      moreover have "\<not> (x < spi_sector_offset \<or> SPI_ROM_SIZE \<le> x)"
        "unat x < unat spi_bios_settings_offset + 256"
        using True by (auto simp: layout)
      ultimately show ?thesis
        using True i page(3) by (simp add: 6(3) saved_flash_def u8_and_FF split: option.split)
    next
      case False
      then have "mem s6 x = mem s5 x" by (auto simp: 6(3) layout)
      then show ?thesis using False unfolding m5 m4 by (auto simp: saved_flash_def layout)
    qed
  qed
  ultimately show ?thesis using 6(2) by auto
qed

lemma save_undefined:
  assumes "ok s" "settings_writes lbs = None"
  shows "save_bios_settings info rd wr er lbs s = None"
proof -
  obtain s1 where 1: "info s = Some (True, s1)" "ok s1"
    using info assms(1) by blast
  have bounds: "unat spi_crossbar_offset + 256 \<le> unat SPI_ROM_SIZE"
    "unat spi_bios_settings_offset + 256 \<le> unat SPI_ROM_SIZE"
    by (simp_all add: spi_crossbar_offset_def spi_bios_settings_offset_def SPI_ROM_SIZE_def
        spi_page_size_def)
  obtain c s2 where 2: "read_range rd spi_crossbar_offset 256 s1 = Some (c, s2)" "ok s2"
    using read_range_returns [OF 1(2) bounds(1)] by blast
  obtain b s3 where 3: "read_range rd spi_bios_settings_offset 256 s2 = Some (b, s3)"
    using read_range_returns [OF 2(2) bounds(2)] by blast
  show ?thesis
    using 1(1) 2(1) 3 assms(2) by (simp add: save_bios_settings_def spi_page_size_def)
qed

lemma reads_byte:
  assumes "\<And>l v. settings_layout l \<Longrightarrow> settings_layout (upd (\<lambda>e. e\<lparr>se_value := v\<rparr>) l)"
    and "\<And>l. settings_layout l \<Longrightarrow> se_offset (sel l) = off"
  shows "reads_as ok mem M (load_entry rd sel upd) (upd (\<lambda>e. e\<lparr>se_value := byte_at M off\<rparr>))"
proof -
  have addr: "spi_bios_settings_offset + ucast off < SPI_ROM_SIZE"
    using unsigned_less [of off, where 'a = nat]
    by (simp add: spi_bios_settings_offset_def SPI_ROM_SIZE_def spi_page_size_def word_less_nat_alt
        unat_word_ariths unsigned_ucast_eq take_bit_eq_mod)
  show ?thesis
    unfolding reads_as_def
  proof (intro allI impI)
    fix l s assume l: "settings_layout l \<and> ok s \<and> mem s = M"
    with rd addr obtain s' where "rd (spi_bios_settings_offset + ucast off) s = Some (byte_at M off, s')"
      "ok s'" "mem s' = M"
      unfolding byte_at_def by blast
    then show "settings_layout (upd (\<lambda>e. e\<lparr>se_value := byte_at M off\<rparr>) l) \<and>
        (\<exists>s'. load_entry rd sel upd (l, s) =
           Some (upd (\<lambda>e. e\<lparr>se_value := byte_at M off\<rparr>) l, s') \<and> ok s' \<and> mem s' = M)"
      using l assms by (simp add: load_entry_def setting_addr_def)
  qed
qed

lemma reads_word:
  assumes "\<And>l v. settings_layout l \<Longrightarrow> settings_layout (upd (\<lambda>e. e\<lparr>se_value := v\<rparr>) l)"
    and "\<And>l. settings_layout l \<Longrightarrow> se_offset (sel l) = off" and "off < 0xFF"
  shows "reads_as ok mem M (load_entry (flash_read_word rd) sel upd)
    (upd (\<lambda>e. e\<lparr>se_value := word_at M off\<rparr>))"
proof -
  have "spi_bios_settings_offset + ucast off < SPI_ROM_SIZE"
    "spi_bios_settings_offset + ucast off + 1 < SPI_ROM_SIZE"
    using assms(3)
    by (simp_all add: spi_bios_settings_offset_def SPI_ROM_SIZE_def spi_page_size_def word_less_nat_alt
        unat_word_ariths unsigned_ucast_eq take_bit_eq_mod)
  note addr = this
  show ?thesis
    unfolding reads_as_def
  proof (intro allI impI)
    fix l s assume l: "settings_layout l \<and> ok s \<and> mem s = M"
    with read_word addr obtain s' where
      "flash_read_word rd (spi_bios_settings_offset + ucast off) s = Some (word_at M off, s')"
      "ok s'" "mem s' = M"
      unfolding byte_at_def word_at_def by blast
    then show "settings_layout (upd (\<lambda>e. e\<lparr>se_value := word_at M off\<rparr>) l) \<and>
        (\<exists>s'. load_entry (flash_read_word rd) sel upd (l, s) =
           Some (upd (\<lambda>e. e\<lparr>se_value := word_at M off\<rparr>) l, s') \<and> ok s' \<and> mem s' = M)"
      using l assms by (simp add: load_entry_def setting_addr_def)
  qed
qed

lemma reads_entries:
  shows "reads_as ok mem M (load_entry rd cpu_freq_index cpu_freq_index_update)
      (cpu_freq_index_update (\<lambda>e. e\<lparr>se_value := byte_at M 0xC1\<rparr>))"
    and "reads_as ok mem M (load_entry rd l1_cache l1_cache_update)
      (l1_cache_update (\<lambda>e. e\<lparr>se_value := byte_at M 0xC2\<rparr>))"
    and "reads_as ok mem M (load_entry rd l2_cache l2_cache_update)
      (l2_cache_update (\<lambda>e. e\<lparr>se_value := byte_at M 0xC3\<rparr>))"
    and "reads_as ok mem M (load_entry rd boot_order_index boot_order_index_update)
      (boot_order_index_update (\<lambda>e. e\<lparr>se_value := byte_at M 0xC4\<rparr>))"
    and "reads_as ok mem M (load_entry rd usb_as_fixed_disks usb_as_fixed_disks_update)
      (usb_as_fixed_disks_update (\<lambda>e. e\<lparr>se_value := byte_at M 0xC5\<rparr>))"
    and "reads_as ok mem M (load_entry rd com1_base_clock_index com1_base_clock_index_update)
      (com1_base_clock_index_update (\<lambda>e. e\<lparr>se_value := byte_at M 0xC6\<rparr>))"
    and "reads_as ok mem M (load_entry rd com2_base_clock_index com2_base_clock_index_update)
      (com2_base_clock_index_update (\<lambda>e. e\<lparr>se_value := byte_at M 0xC7\<rparr>))"
    and "reads_as ok mem M (load_entry (flash_read_word rd) cs4237_wss_port cs4237_wss_port_update)
      (cs4237_wss_port_update (\<lambda>e. e\<lparr>se_value := word_at M 0xC8\<rparr>))"
    and "reads_as ok mem M (load_entry (flash_read_word rd) cs4237_syn_port cs4237_syn_port_update)
      (cs4237_syn_port_update (\<lambda>e. e\<lparr>se_value := word_at M 0xCA\<rparr>))"
    and "reads_as ok mem M (load_entry (flash_read_word rd) cs4237_sb_port cs4237_sb_port_update)
      (cs4237_sb_port_update (\<lambda>e. e\<lparr>se_value := word_at M 0xCC\<rparr>))"
    and "reads_as ok mem M (load_entry (flash_read_word rd) cs4237_gamepad_port cs4237_gamepad_port_update)
      (cs4237_gamepad_port_update (\<lambda>e. e\<lparr>se_value := word_at M 0xCE\<rparr>))"
    and "reads_as ok mem M (load_entry (flash_read_word rd) cs4237_mpu_port cs4237_mpu_port_update)
      (cs4237_mpu_port_update (\<lambda>e. e\<lparr>se_value := word_at M 0xD0\<rparr>))"
    and "reads_as ok mem M (load_entry rd cs4237_ext_fm cs4237_ext_fm_update)
      (cs4237_ext_fm_update (\<lambda>e. e\<lparr>se_value := byte_at M 0xD2\<rparr>))"
    and "reads_as ok mem M (load_entry rd cs4237_digital cs4237_digital_update)
      (cs4237_digital_update (\<lambda>e. e\<lparr>se_value := byte_at M 0xD3\<rparr>))"
    and "reads_as ok mem M (load_entry rd mac_address_index mac_address_index_update)
      (mac_address_index_update (\<lambda>e. e\<lparr>se_value := byte_at M 0xD4\<rparr>))"
    and "reads_as ok mem M (load_entry (flash_read_word rd) fan1_target_rpm fan1_target_rpm_update)
      (fan1_target_rpm_update (\<lambda>e. e\<lparr>se_value := word_at M 0xD5\<rparr>))"
    and "reads_as ok mem M (load_entry (flash_read_word rd) fan2_target_rpm fan2_target_rpm_update)
      (fan2_target_rpm_update (\<lambda>e. e\<lparr>se_value := word_at M 0xD7\<rparr>))"
    and "reads_as ok mem M (load_entry (flash_read_word rd) fan3_target_rpm fan3_target_rpm_update)
      (fan3_target_rpm_update (\<lambda>e. e\<lparr>se_value := word_at M 0xD9\<rparr>))"
    and "reads_as ok mem M (load_entry rd boot_tune_index boot_tune_index_update)
      (boot_tune_index_update (\<lambda>e. e\<lparr>se_value := byte_at M 0xDB\<rparr>))"
  by (rule reads_byte reads_word; simp add: settings_layout_def)+

lemmas reads_all =
  reads_as_bind [OF reads_entries(1)
  reads_as_bind [OF reads_entries(2)
  reads_as_bind [OF reads_entries(3)
  reads_as_bind [OF reads_entries(4)
  reads_as_bind [OF reads_entries(5)
  reads_as_bind [OF reads_entries(6)
  reads_as_bind [OF reads_entries(7)
  reads_as_bind [OF reads_entries(8)
  reads_as_bind [OF reads_entries(9)
  reads_as_bind [OF reads_entries(10)
  reads_as_bind [OF reads_entries(11)
  reads_as_bind [OF reads_entries(12)
  reads_as_bind [OF reads_entries(13)
  reads_as_bind [OF reads_entries(14)
  reads_as_bind [OF reads_entries(15)
  reads_as_bind [OF reads_entries(16)
  reads_as_bind [OF reads_entries(17)
  reads_as_bind [OF reads_entries(18)
  reads_entries(19)]]]]]]]]]]]]]]]]]]

lemma load_spec:
  assumes "ok s" "settings_layout l"
  shows "\<exists>s'. load_bios_settings rd l s =
      Some (if byte_at (mem s) 0xC0 = 1 then loaded (mem s) l else l, s') \<and> ok s' \<and> mem s' = mem s"
proof -
  have "spi_bios_settings_offset + 0xC0 < SPI_ROM_SIZE"
    by (simp add: spi_bios_settings_offset_def SPI_ROM_SIZE_def spi_page_size_def)
  then obtain s1 where 1: "rd (setting_addr (initialized l)) s = Some (byte_at (mem s) 0xC0, s1)" "ok s1"
    "mem s1 = mem s"
    using rd [OF assms(1)] assms(2) by (auto simp: setting_addr_def settings_layout_def byte_at_def)
  show ?thesis
  proof (cases "byte_at (mem s) 0xC0 = 1")
    case False
    then show ?thesis using 1 by (simp add: load_bios_settings_def)
  next
    case True
    from reads_all [of "mem s", unfolded reads_as_def, rule_format, of l s1, OF conjI [OF assms(2) conjI [OF 1(2,3)]]]
    show ?thesis
      unfolding loaded_eq [OF assms(2)] using 1(1) True
      by (elim conjE exE) (simp add: load_bios_settings_def)
  qed
qed

end


section \<open>On the chip\<close>

lemma byte_at_saved:
  "byte_at (saved_flash lbs M) off =
     (case settings_image lbs (unat off) of Some v \<Rightarrow> v | None \<Rightarrow> byte_at M off)"
  using unsigned_less [of off, where 'a = nat]
  by (simp add: byte_at_def saved_flash_def spi_bios_settings_offset_def spi_sector_offset_def
      SPI_ROM_SIZE_def spi_page_size_def spi_sector_size_def word_less_nat_alt word_le_nat_alt
      unat_word_ariths unsigned_ucast_eq take_bit_eq_mod split: option.split)

lemma word_at_saved:
  assumes "off < 0xFF"
    and "settings_image lbs (unat off) = Some lo" "settings_image lbs (unat off + 1) = Some hi"
  shows "word_at (saved_flash lbs M) off = le16 lo hi"
proof -
  have "unat (off + 1) = unat off + 1" using assms(1) by (simp add: unat_word_ariths word_less_nat_alt)
  moreover have hi_addr: "spi_bios_settings_offset + ucast off + 1 = spi_bios_settings_offset + ucast (off + 1)"
    using assms(1)
    by (simp add: word_unat_eq_iff unat_word_ariths unsigned_ucast_eq take_bit_eq_mod word_less_nat_alt
        spi_bios_settings_offset_def SPI_ROM_SIZE_def spi_page_size_def)
  ultimately show ?thesis
    using assms byte_at_saved [of lbs M off] byte_at_saved [of lbs M "off + 1"]
    unfolding word_at_def hi_addr by (simp add: byte_at_def)
qed

lemma settings_rows:
  assumes "settings_valid lbs"
  shows "table_row mac_address_array (se_value (mac_address_index lbs)) =
      Some (mac_address_array ! unat (se_value (mac_address_index lbs)))"
    and "table_row freq_array (se_value (cpu_freq_index lbs)) =
      Some (freq_array ! unat (se_value (cpu_freq_index lbs)))"
  using assms by (simp_all add: settings_valid_def table_row_6 mac_address_array_def freq_array_def)

lemma settings_image_options:
  assumes "settings_valid lbs"
  shows "settings_image lbs 0xC0 = Some 1"
    and "settings_image lbs 0xC1 = Some (se_value (cpu_freq_index lbs))"
    and "settings_image lbs 0xC2 = Some (se_value (l1_cache lbs))"
    and "settings_image lbs 0xC3 = Some (se_value (l2_cache lbs))"
    and "settings_image lbs 0xC4 = Some (se_value (boot_order_index lbs))"
    and "settings_image lbs 0xC5 = Some (se_value (usb_as_fixed_disks lbs))"
    and "settings_image lbs 0xC6 = Some (se_value (com1_base_clock_index lbs))"
    and "settings_image lbs 0xC7 = Some (se_value (com2_base_clock_index lbs))"
    and "settings_image lbs 0xC8 = Some (lo8 (se_value (cs4237_wss_port lbs)))"
    and "settings_image lbs 0xC9 = Some (hi8 (se_value (cs4237_wss_port lbs)))"
    and "settings_image lbs 0xCA = Some (lo8 (se_value (cs4237_syn_port lbs)))"
    and "settings_image lbs 0xCB = Some (hi8 (se_value (cs4237_syn_port lbs)))"
    and "settings_image lbs 0xCC = Some (lo8 (se_value (cs4237_sb_port lbs)))"
    and "settings_image lbs 0xCD = Some (hi8 (se_value (cs4237_sb_port lbs)))"
    and "settings_image lbs 0xCE = Some (lo8 (se_value (cs4237_gamepad_port lbs)))"
    and "settings_image lbs 0xCF = Some (hi8 (se_value (cs4237_gamepad_port lbs)))"
    and "settings_image lbs 0xD0 = Some (lo8 (se_value (cs4237_mpu_port lbs)))"
    and "settings_image lbs 0xD1 = Some (hi8 (se_value (cs4237_mpu_port lbs)))"
    and "settings_image lbs 0xD2 = Some (se_value (cs4237_ext_fm lbs))"
    and "settings_image lbs 0xD3 = Some (se_value (cs4237_digital lbs))"
    and "settings_image lbs 0xD4 = Some (se_value (mac_address_index lbs))"
    and "settings_image lbs 0xD5 = Some (lo8 (se_value (fan1_target_rpm lbs)))"
    and "settings_image lbs 0xD6 = Some (hi8 (se_value (fan1_target_rpm lbs)))"
    and "settings_image lbs 0xD7 = Some (lo8 (se_value (fan2_target_rpm lbs)))"
    and "settings_image lbs 0xD8 = Some (hi8 (se_value (fan2_target_rpm lbs)))"
    and "settings_image lbs 0xD9 = Some (lo8 (se_value (fan3_target_rpm lbs)))"
    and "settings_image lbs 0xDA = Some (hi8 (se_value (fan3_target_rpm lbs)))"
    and "settings_image lbs 0xDB = Some (se_value (boot_tune_index lbs))"
  using assms
  by (simp_all add: settings_image_def settings_writes_def settings_rows [OF assms] put8_def put16_def
      settings_valid_def settings_layout_def)


lemma loaded_saved:
  assumes "settings_valid lbs" "se_value (initialized lbs) = 1"
  shows "loaded (saved_flash lbs M) llama_bios_settings_default =
    lbs\<lparr>has_changes := 0, cs4237_ext_fm_present := 0\<rparr>"
proof -
  have eta: "entry (se_value e) off = e" if "se_offset e = off" for e :: "'v setting_entry" and off
    using that by (cases e) simp
  show ?thesis
    using assms(1) [unfolded settings_valid_def settings_layout_def] assms(2)
    by (intro llama_bios_settings.equality)
      (simp_all add: loaded_def byte_at_saved word_at_saved settings_image_options [OF assms(1)]
        llama_bios_settings_default_def eta)
qed

lemma default_layout: "settings_layout llama_bios_settings_default"
  using settings_valid_default by (simp add: settings_valid_def)

text \<open>
  C1. Settings that are saved come back: after \<open>llama_save_bios_settings\<close> a load into the defaults
  gives every option the saved value. The hypotheses are the data-sheet behaviour of the chip and
  table indices within the tables.
\<close>

theorem settings_save_load:
  assumes "spi_ok io base V s" "settings_valid lbs" "se_value (initialized lbs) = 1"
  shows "\<exists>s' s''. llama_save_bios_settings io lbs s = Some s' \<and>
    llama_load_bios_settings io llama_bios_settings_default s' =
      Some (lbs\<lparr>has_changes := 0, cs4237_ext_fm_present := 0\<rparr>, s'')"
proof -
  obtain s' where s': "llama_save_bios_settings io lbs s = Some s'" "spi_ok io base V s'"
    "flash_of V s' = saved_flash lbs (flash_of V s)"
    using spi.save_spec [OF assms(1,2)] by (auto simp: llama_save_bios_settings_def)
  have "byte_at (flash_of V s') 0xC0 = 1"
    by (simp add: s'(3) byte_at_saved settings_image_options [OF assms(2)])
  with spi.load_spec [OF s'(2) default_layout] s' loaded_saved [OF assms(2,3)]
  show ?thesis by (auto simp: llama_load_bios_settings_def)
qed

theorem settings_save_load_witness:
  "\<exists>s' s''. llama_save_bios_settings spi_sim (llama_bios_settings_default\<lparr>boot_order_index := entry 4 0xC4\<rparr>)
       (sim_mach (\<lambda>_. 0xFF)) = Some s' \<and>
     llama_load_bios_settings spi_sim llama_bios_settings_default s' =
       Some (llama_bios_settings_default\<lparr>boot_order_index := entry 4 0xC4\<rparr>, s'')"
  using settings_save_load [OF spi_ok_sim,
      of "llama_bios_settings_default\<lparr>boot_order_index := entry 4 0xC4\<rparr>" "\<lambda>_. 0xFF"]
  by (simp add: settings_valid_def settings_layout_def llama_bios_settings_default_def)

text \<open>
  C2. What saving does to the whole chip: outside the last sector nothing changes; in it the
  crossbar page and those bytes of the settings page that belong to no option keep their values,
  the bytes of the options, of the MAC address and of the frequency straps are the new ones, and the
  rest of the sector is erased.
\<close>

theorem settings_save_refines:
  assumes "spi_ok io base V s" "settings_valid lbs"
  shows "map_option (flash_of V) (llama_save_bios_settings io lbs s) = Some (saved_flash lbs (flash_of V s))"
  using spi.save_spec [OF assms] by (auto simp: llama_save_bios_settings_def)

theorem settings_save_refines_witness:
  "map_option (flash_of sim_view) (llama_save_bios_settings spi_sim llama_bios_settings_default (sim_mach (\<lambda>_. 0))) =
   Some (saved_flash llama_bios_settings_default (\<lambda>_. 0))"
  using settings_save_refines [OF spi_ok_sim settings_valid_default, of "\<lambda>_. 0"] by simp

lemma list_6: "length xs = 6 \<Longrightarrow> \<exists>a b c d e f. xs = [a, b, c, d, e, f]"
  by (auto simp: length_Suc_conv numeral_eq_Suc)

lemma settings_row_lengths:
  assumes "settings_valid lbs"
  shows "length (mac_address_array ! unat (se_value (mac_address_index lbs))) = 6"
    and "length (freq_array ! unat (se_value (cpu_freq_index lbs))) = 6"
proof -
  have "\<forall>r\<in>set mac_address_array. length r = 6" "\<forall>r\<in>set freq_array. length r = 6"
    "length mac_address_array = 6" "length freq_array = 6"
    by (simp_all add: mac_address_array_def freq_array_def)
  moreover have "unat (se_value (mac_address_index lbs)) < 6" "unat (se_value (cpu_freq_index lbs)) < 6"
    using assms by (simp_all add: settings_valid_def word_less_nat_alt)
  ultimately show "length (mac_address_array ! unat (se_value (mac_address_index lbs))) = 6"
    "length (freq_array ! unat (se_value (cpu_freq_index lbs))) = 6" by simp_all
qed

text \<open>
  The bytes that the boot hardware reads: saving puts the row of the selected processor frequency
  into the strap bytes and the row of the selected MAC address into its six bytes, and it determines
  no byte of the page outside 0xB0 to 0xDB, nor 0xB8, 0xB9, 0xBA and 0xBE.
\<close>

theorem settings_image_tables:
  assumes "settings_valid lbs"
  shows "map (settings_image lbs) [0xB0, 0xB1, 0xB2, 0xB3, 0xB4, 0xB5] =
      map Some (mac_address_array ! unat (se_value (mac_address_index lbs))) \<and>
    map (settings_image lbs) [0xB6, 0xB7, 0xBB, 0xBC, 0xBD, 0xBF] =
      map Some (freq_array ! unat (se_value (cpu_freq_index lbs))) \<and>
    {i. settings_image lbs i \<noteq> None} = {0xB0..0xDB} - {0xB8, 0xB9, 0xBA, 0xBE}"
proof -
  obtain a b c d e f where mac: "mac_address_array ! unat (se_value (mac_address_index lbs)) = [a, b, c, d, e, f]"
    using list_6 [OF settings_row_lengths(1) [OF assms]] by blast
  obtain u v w x y z where freq: "freq_array ! unat (se_value (cpu_freq_index lbs)) = [u, v, w, x, y, z]"
    using list_6 [OF settings_row_lengths(2) [OF assms]] by blast
  obtain ws where ws: "settings_writes lbs = Some ws"
    "fst ` set ws = {0xB0..0xDB} - {0xB8, 0xB9, 0xBA, 0xBE}"
    "map (map_of (rev ws)) [0xB0, 0xB1, 0xB2, 0xB3, 0xB4, 0xB5] = map Some [a, b, c, d, e, f]"
    "map (map_of (rev ws)) [0xB6, 0xB7, 0xBB, 0xBC, 0xBD, 0xBF] = map Some [u, v, w, x, y, z]"
  proof
    let ?ws = "the (settings_writes lbs)"
    have ws: "settings_writes lbs = Some ?ws"
      by (simp add: settings_writes_def settings_rows [OF assms])
    show "settings_writes lbs = Some ?ws" by (fact ws)
    have "{0xB0..0xDB} = set [0xB0..<0xDC]"
      by (auto simp only: set_upt atLeastAtMost_iff atLeastLessThan_iff)
    then have "{0xB0..0xDB} - {0xB8, 0xB9, 0xBA, 0xBE} =
        set (filter (\<lambda>i. i \<notin> {0xB8, 0xB9, 0xBA, 0xBE}) [0xB0..<0xDC])"
      by (simp only: set_filter) blast
    also have "\<dots> = fst ` set ?ws"
      using assms by (simp add: settings_writes_def settings_rows [OF assms] mac freq put8_def put16_def
          settings_valid_def settings_layout_def upt_rec_numeral)
    finally show "fst ` set ?ws = {0xB0..0xDB} - {0xB8, 0xB9, 0xBA, 0xBE}" by simp
    show "map (map_of (rev ?ws)) [0xB0, 0xB1, 0xB2, 0xB3, 0xB4, 0xB5] = map Some [a, b, c, d, e, f]"
      using assms by (simp add: settings_writes_def settings_rows [OF assms] mac freq put8_def put16_def
          settings_valid_def settings_layout_def)
    show "map (map_of (rev ?ws)) [0xB6, 0xB7, 0xBB, 0xBC, 0xBD, 0xBF] = map Some [u, v, w, x, y, z]"
      using assms by (simp add: settings_writes_def settings_rows [OF assms] mac freq put8_def put16_def
          settings_valid_def settings_layout_def)
  qed
  have "{i. settings_image lbs i \<noteq> None} = fst ` set ws"
    using ws(1) by (auto simp: settings_image_def dom_map_of_conv_image_fst [of "rev ws", unfolded dom_def, simplified, symmetric])
  then show ?thesis using ws mac freq by (simp add: settings_image_def)
qed


theorem settings_image_tables_witness:
  "map (settings_image (llama_bios_settings_default\<lparr>cpu_freq_index := entry 5 0xC1\<rparr>))
     [0xB6, 0xB7, 0xBB, 0xBC, 0xBD, 0xBF] = map Some [0x78, 0x52, 0x23, 0x02, 0xDF, 0x07]"
  using settings_image_tables [of "llama_bios_settings_default\<lparr>cpu_freq_index := entry 5 0xC1\<rparr>"]
  by (simp add: settings_valid_def settings_layout_def llama_bios_settings_default_def freq_array_def)

text \<open>
  A load trusts the chip: an initialised page whose frequency index is not below 6 is loaded as
  it is, and saving those settings reads outside of \<open>freq_array\<close>, which is undefined.
\<close>

theorem settings_unchecked_index:
  assumes "spi_ok io base V s"
    and "byte_at (flash_of V s) 0xC0 = 1" "6 \<le> byte_at (flash_of V s) 0xC1"
  shows "\<exists>lbs s'. llama_load_bios_settings io llama_bios_settings_default s = Some (lbs, s') \<and>
    llama_save_bios_settings io lbs s' = None"
proof -
  let ?lbs = "loaded (flash_of V s) llama_bios_settings_default"
  obtain s1 where 1: "llama_load_bios_settings io llama_bios_settings_default s = Some (?lbs, s1)"
    "spi_ok io base V s1"
    using spi.load_spec [OF assms(1) default_layout] assms(2) by (auto simp: llama_load_bios_settings_def)
  have "unat (byte_at (flash_of V s) 0xC1) \<ge> 6" using assms(3) by (simp add: word_le_nat_alt)
  then have "settings_writes ?lbs = None"
    by (cases "table_row mac_address_array (se_value (mac_address_index ?lbs))")
      (simp_all add: settings_writes_def loaded_def table_row_def freq_array_def)
  with spi.save_undefined [OF 1(2)] 1(1) show ?thesis by (auto simp: llama_save_bios_settings_def)
qed

theorem settings_unchecked_index_witness:
  "\<exists>lbs s'. llama_load_bios_settings spi_sim llama_bios_settings_default
       (sim_mach (\<lambda>a. if a = spi_bios_settings_offset + 0xC0 then 1 else 0xFF)) = Some (lbs, s') \<and>
     llama_save_bios_settings spi_sim lbs s' = None"
  by (rule settings_unchecked_index [OF spi_ok_sim])
    (simp_all add: byte_at_def spi_bios_settings_offset_def SPI_ROM_SIZE_def spi_page_size_def)

end
