(* ===== verification/Cs4237.thy ===== *)
theory Cs4237
  imports Clock Settings
begin

text \<open>
  The CS4237 sound chip: \<open>seabios/src/llama/llama_cs4237.c\<close>. The driver downloads a resource
  image (\<open>cs4237_hostload\<close>), activates the logical devices with the settings' port addresses
  (\<open>cs4237_slam_configuration\<close>), sets the mixer through the codec's indirect and extended
  registers, turns the digital output on and looks for an external OPL3. Every access to the chip is
  followed by a delay of \<open>UDELAY\<close> microseconds.
\<close>

section \<open>Constants and tables\<close>

definition UDELAY :: u32 where "UDELAY = 500"
definition CTRLBASE :: u16 where "CTRLBASE = 0x538"

abbreviation CTRLBASE_HIGH :: u8 where "CTRLBASE_HIGH \<equiv> 0x05"
abbreviation CTRLBASE_LOW :: u8 where "CTRLBASE_LOW \<equiv> 0x38"
abbreviation WSSBASE_HIGH :: u8 where "WSSBASE_HIGH \<equiv> 0x05"
abbreviation WSSBASE_LOW :: u8 where "WSSBASE_LOW \<equiv> 0x34"
abbreviation SYNBASE_HIGH :: u8 where "SYNBASE_HIGH \<equiv> 0x03"
abbreviation SYNBASE_LOW :: u8 where "SYNBASE_LOW \<equiv> 0x88"
abbreviation SBBASE_HIGH :: u8 where "SBBASE_HIGH \<equiv> 0x02"
abbreviation SBBASE_LOW :: u8 where "SBBASE_LOW \<equiv> 0x20"
abbreviation GAMEBASE_HIGH :: u8 where "GAMEBASE_HIGH \<equiv> 0x02"
abbreviation GAMEBASE_LOW :: u8 where "GAMEBASE_LOW \<equiv> 0x00"
abbreviation MPUBASE_HIGH :: u8 where "MPUBASE_HIGH \<equiv> 0x03"
abbreviation MPUBASE_LOW :: u8 where "MPUBASE_LOW \<equiv> 0x30"

definition crystal_key :: "u8 list" where
  "crystal_key =
     [
      0x96, 0x35, 0x9A, 0xCD, 0xE6, 0xF3, 0x79, 0xBC, 0x5E, 0xAF, 0x57, 0x2B, 0x15, 0x8A, 0xC5,
      0xE2, 0xF1, 0xF8, 0x7C, 0x3E, 0x9F, 0x4F, 0x27, 0x13, 0x09, 0x84, 0x42, 0xA1, 0xD0, 0x68,
      0x34, 0x1A]"

definition ctrl_base_conf :: "u8 list" where
  "ctrl_base_conf =
     [
      0x15, 0x02, 0x47, CTRLBASE_HIGH, CTRLBASE_LOW, 0x33, 0x01, 0x79]"

definition cs4237_conf :: "u8 list" where
  "cs4237_conf =
     [
      0x00, 0x03, 0x80, 0x00, 0x0B, 0x20, 0x04, 0x08, 0x10, 0x80, 0x00, 0x00, 0x00, 0x48, 0x75,
      0xB9, 0xFC, 0x10, 0x03, 0x0E, 0x63, 0x42, 0x37, 0xFF, 0xFF, 0xFF, 0xFF, 0x30, 0x0A, 0x10,
      0x01, 0x82, 0x12, 0x00, 0x49, 0x54, 0x58, 0x2D, 0x4C, 0x6C, 0x61, 0x6D, 0x61, 0x2D, 0x43,
      0x53, 0x34, 0x32, 0x33, 0x37, 0x42, 0x00, 0x15, 0x0E, 0x63, 0x00, 0x00, 0x00, 0x82, 0x07,
      0x00, 0x57, 0x53, 0x53, 0x2F, 0x53, 0x42, 0x00, 0x31, 0x00, 0x2A, 0x02, 0x28, 0x22, 0x80,
      0x00, 0x47, 0x01, WSSBASE_LOW, WSSBASE_HIGH, WSSBASE_LOW, WSSBASE_HIGH, 0x04, 0x04, 0x47,
      0x01, SYNBASE_LOW, SYNBASE_HIGH, SYNBASE_LOW, SYNBASE_HIGH, 0x08, 0x04, 0x47, 0x01,
      SBBASE_LOW, SBBASE_HIGH, SBBASE_LOW, SBBASE_HIGH, 0x20, 0x10, 0x38, 0x15, 0x0E, 0x63, 0x00,
      0x01, 0x00, 0x82, 0x05, 0x00, 0x47, 0x41, 0x4D, 0x45, 0x00, 0x31, 0x00, 0x47, 0x01,
      GAMEBASE_LOW, GAMEBASE_HIGH, GAMEBASE_LOW, GAMEBASE_HIGH, 0x08, 0x08, 0x38, 0x15, 0x0E,
      0x63, 0x00, 0x10, 0x00, 0x82, 0x05, 0x00, 0x43, 0x54, 0x52, 0x4C, 0x00, 0x47, 0x01,
      CTRLBASE_LOW, CTRLBASE_HIGH, CTRLBASE_LOW, CTRLBASE_HIGH, 0x08, 0x08, 0x15, 0x0E, 0x63,
      0x00, 0x03, 0x00, 0x82, 0x08, 0x00, 0x4D, 0x50, 0x55, 0x2D, 0x34, 0x30, 0x31, 0x00, 0x31,
      0x00, 0x47, 0x01, MPUBASE_LOW, MPUBASE_HIGH, MPUBASE_LOW, MPUBASE_HIGH, 0x08, 0x02, 0x38,
      0x79, 0xEA]"

definition slam_conf :: "u8 list" where
  "slam_conf =
     [
      0x06, 0x00, 0x15, 0x00, 0x47, WSSBASE_HIGH, WSSBASE_LOW, 0x48, SYNBASE_HIGH, SYNBASE_LOW,
      0x42, SBBASE_HIGH, SBBASE_LOW, 0x22, 0x07, 0x2a, 0x01, 0x33, 0x01, 0x15, 0x01, 0x47,
      GAMEBASE_HIGH, GAMEBASE_LOW, 0x33, 0x01, 0x15, 0x02, 0x47, CTRLBASE_HIGH, CTRLBASE_LOW,
      0x33, 0x01, 0x15, 0x03, 0x47, MPUBASE_HIGH, MPUBASE_LOW, 0x33, 0x01, 0x79]"

section \<open>Access to the chip\<close>

definition out_delay :: "'w io \<Rightarrow> u8 \<Rightarrow> u16 \<Rightarrow> ('w, 'z) mach_scheme \<Rightarrow> ('w, 'z) mach_scheme option" where
  "out_delay io v port s = udelay io UDELAY (outb io v port s)"

fun out_list :: "'w io \<Rightarrow> u8 list \<Rightarrow> u16 \<Rightarrow> ('w, 'z) mach_scheme \<Rightarrow> ('w, 'z) mach_scheme option" where
  "out_list io [] port s = Some s"
| "out_list io (v # vs) port s = do { s \<leftarrow> out_delay io v port s; out_list io vs port s }"

text \<open>A register number is the value of its enumerator: \<open>CTRL_C3\<close> is 3, \<open>WSS_I16\<close> is 16.\<close>

definition ctrl_indirect_write :: "'w io \<Rightarrow> u8 \<Rightarrow> u8 \<Rightarrow> ('w, 'z) mach_scheme \<Rightarrow>
    ('w, 'z) mach_scheme option" where
  "ctrl_indirect_write io reg val s =
     do {
       s \<leftarrow> out_delay io reg (CTRLBASE + 3) s;
       out_delay io val (CTRLBASE + 4) s
     }"

definition wss_base :: "llama_bios_settings \<Rightarrow> u16" where
  "wss_base lbs = se_value (cs4237_wss_port lbs)"

definition wss_set_mce :: "'w io \<Rightarrow> llama_bios_settings \<Rightarrow> ('w, 'z) mach_scheme \<Rightarrow>
    ('w, 'z) mach_scheme option" where
  "wss_set_mce io lbs s =
     (case inb io (wss_base lbs) s of (v, s) \<Rightarrow> out_delay io (v OR 0x40) (wss_base lbs) s)"

definition wss_clear_mce :: "'w io \<Rightarrow> llama_bios_settings \<Rightarrow> ('w, 'z) mach_scheme \<Rightarrow>
    ('w, 'z) mach_scheme option" where
  "wss_clear_mce io lbs s =
     (case inb io (wss_base lbs) s of (v, s) \<Rightarrow> out_delay io (v AND NOT 0x40) (wss_base lbs) s)"

definition wss_indirect_read :: "'w io \<Rightarrow> u8 \<Rightarrow> llama_bios_settings \<Rightarrow> ('w, 'z) mach_scheme \<Rightarrow>
    (u8 \<times> ('w, 'z) mach_scheme) option" where
  "wss_indirect_read io reg lbs s =
     do {
       let (v, s) = inb io (wss_base lbs) s;
       s \<leftarrow> out_delay io ((v AND 0x60) OR (reg AND 0x1F)) (wss_base lbs) s;
       let (val, s) = inb io (wss_base lbs + 1) s;
       s \<leftarrow> udelay io UDELAY s;
       Some (val, s)
     }"

definition wss_indirect_write :: "'w io \<Rightarrow> u8 \<Rightarrow> u8 \<Rightarrow> llama_bios_settings \<Rightarrow>
    ('w, 'z) mach_scheme \<Rightarrow> ('w, 'z) mach_scheme option" where
  "wss_indirect_write io reg val lbs s =
     do {
       let (v, s) = inb io (wss_base lbs) s;
       s \<leftarrow> out_delay io ((v AND 0x60) OR (reg AND 0x1F)) (wss_base lbs) s;
       out_delay io val (wss_base lbs + 1) s
     }"

text \<open>The selector written to I23 for an extended register, with the code's operators.\<close>

definition I23val :: "u8 \<Rightarrow> u8" where
  "I23val reg = (drop_bit 2 (reg AND 0x10) AND push_bit 4 (reg AND 0x0F)) OR 0x08"

definition wss_ext_read :: "'w io \<Rightarrow> u8 \<Rightarrow> llama_bios_settings \<Rightarrow> ('w, 'z) mach_scheme \<Rightarrow>
    (u8 \<times> ('w, 'z) mach_scheme) option" where
  "wss_ext_read io reg lbs s =
     do {
       s \<leftarrow> wss_indirect_write io 23 (I23val reg) lbs s;
       let (val, s) = inb io (wss_base lbs + 1) s;
       s \<leftarrow> udelay io UDELAY s;
       Some (val, s)
     }"

definition wss_ext_write :: "'w io \<Rightarrow> u8 \<Rightarrow> u8 \<Rightarrow> llama_bios_settings \<Rightarrow> ('w, 'z) mach_scheme \<Rightarrow>
    ('w, 'z) mach_scheme option" where
  "wss_ext_write io reg val lbs s =
     do {
       s \<leftarrow> wss_indirect_write io 23 (I23val reg) lbs s;
       out_delay io val (wss_base lbs + 1) s
     }"

section \<open>Download and configuration\<close>

definition hostload_conf :: "llama_bios_settings \<Rightarrow> u8 \<Rightarrow> u8 list" where
  "hostload_conf lbs force_ext_fm =
     cs4237_conf
       [3 := (if force_ext_fm \<noteq> 0 \<or> se_value (cs4237_ext_fm lbs) \<noteq> 0 then 0x00 else 0x80),
        78 := lo8 (se_value (cs4237_wss_port lbs)),
        79 := ucast (drop_bit 8 (se_value (cs4237_wss_port lbs))),
        80 := lo8 (se_value (cs4237_wss_port lbs)),
        81 := ucast (drop_bit 8 (se_value (cs4237_wss_port lbs))),
        86 := lo8 (se_value (cs4237_syn_port lbs)),
        87 := ucast (drop_bit 8 (se_value (cs4237_syn_port lbs))),
        88 := lo8 (se_value (cs4237_syn_port lbs)),
        89 := ucast (drop_bit 8 (se_value (cs4237_syn_port lbs))),
        94 := lo8 (se_value (cs4237_sb_port lbs)),
        95 := ucast (drop_bit 8 (se_value (cs4237_sb_port lbs))),
        96 := lo8 (se_value (cs4237_sb_port lbs)),
        97 := ucast (drop_bit 8 (se_value (cs4237_sb_port lbs))),
        119 := lo8 (se_value (cs4237_gamepad_port lbs)),
        120 := ucast (drop_bit 8 (se_value (cs4237_gamepad_port lbs))),
        121 := lo8 (se_value (cs4237_gamepad_port lbs)),
        122 := ucast (drop_bit 8 (se_value (cs4237_gamepad_port lbs))),
        169 := lo8 (se_value (cs4237_mpu_port lbs)),
        170 := ucast (drop_bit 8 (se_value (cs4237_mpu_port lbs))),
        171 := lo8 (se_value (cs4237_mpu_port lbs)),
        172 := ucast (drop_bit 8 (se_value (cs4237_mpu_port lbs)))]"

definition cs4237_hostload :: "'w io \<Rightarrow> llama_bios_settings \<Rightarrow> u8 \<Rightarrow> ('w, 'z) mach_scheme \<Rightarrow>
    ('w, 'z) mach_scheme option" where
  "cs4237_hostload io lbs force_ext_fm s =
     do {
       s \<leftarrow> out_list io crystal_key 0x279 s;
       s \<leftarrow> out_list io ctrl_base_conf 0x279 s;
       s \<leftarrow> out_delay io 0x57 (CTRLBASE + 5) s;
       s \<leftarrow> out_delay io 0xAA (CTRLBASE + 5) s;
       s \<leftarrow> out_delay io 0x00 (CTRLBASE + 5) s;
       s \<leftarrow> out_delay io 0x40 (CTRLBASE + 5) s;
       s \<leftarrow> out_list io (hostload_conf lbs force_ext_fm) (CTRLBASE + 5) s;
       s \<leftarrow> out_delay io 0x00 (CTRLBASE + 6) s;
       out_delay io 0x5A (CTRLBASE + 5) s
     }"

definition slam_conf_temp :: "llama_bios_settings \<Rightarrow> u8 list" where
  "slam_conf_temp lbs =
     slam_conf
       [5 := ucast (drop_bit 8 (se_value (cs4237_wss_port lbs))),
        6 := lo8 (se_value (cs4237_wss_port lbs)),
        8 := ucast (drop_bit 8 (se_value (cs4237_syn_port lbs))),
        9 := lo8 (se_value (cs4237_syn_port lbs)),
        11 := ucast (drop_bit 8 (se_value (cs4237_sb_port lbs))),
        12 := lo8 (se_value (cs4237_sb_port lbs)),
        22 := ucast (drop_bit 8 (se_value (cs4237_gamepad_port lbs))),
        23 := lo8 (se_value (cs4237_gamepad_port lbs)),
        36 := ucast (drop_bit 8 (se_value (cs4237_mpu_port lbs))),
        37 := lo8 (se_value (cs4237_mpu_port lbs))]"

definition cs4237_slam_configuration :: "'w io \<Rightarrow> llama_bios_settings \<Rightarrow> ('w, 'z) mach_scheme \<Rightarrow>
    ('w, 'z) mach_scheme option" where
  "cs4237_slam_configuration io lbs s =
     do {
       s \<leftarrow> out_list io crystal_key 0x279 s;
       out_list io (slam_conf_temp lbs) 0x279 s
     }"

section \<open>Mixer, digital output, OPL3 detection\<close>

definition cs4237_setup_mixer :: "'w io \<Rightarrow> llama_bios_settings \<Rightarrow> ('w, 'z) mach_scheme \<Rightarrow>
    ('w, 'z) mach_scheme option" where
  "cs4237_setup_mixer io lbs s =
     do {
       s \<leftarrow> wss_indirect_write io 12 0xEA lbs s;
       s \<leftarrow> wss_ext_write io 8 0x80 lbs s;
       s \<leftarrow> wss_ext_write io 9 0x80 lbs s;
       s \<leftarrow> wss_ext_write io 2 0xDF lbs s;
       s \<leftarrow> wss_ext_write io 3 0xDF lbs s;
       s \<leftarrow> wss_indirect_write io 2 0x68 lbs s;
       s \<leftarrow> wss_indirect_write io 3 0x68 lbs s;
       s \<leftarrow> wss_indirect_write io 4 0x48 lbs s;
       s \<leftarrow> wss_indirect_write io 5 0x48 lbs s;
       s \<leftarrow> wss_ext_write io 0 0x68 lbs s;
       s \<leftarrow> wss_ext_write io 1 0x68 lbs s;
       s \<leftarrow> wss_ext_write io 6 0x00 lbs s;
       s \<leftarrow> wss_ext_write io 7 0x00 lbs s;
       s \<leftarrow> wss_ext_write io 11 0xC0 lbs s;
       s \<leftarrow> wss_ext_write io 14 0x00 lbs s;
       s \<leftarrow> wss_ext_write io 15 0x00 lbs s;
       (x4, s) \<leftarrow> wss_ext_read io 4 lbs s;
       s \<leftarrow> wss_ext_write io 4 (x4 AND 0x9C) lbs s;
       (x5, s) \<leftarrow> wss_ext_read io 5 lbs s;
       s \<leftarrow> wss_ext_write io 5 (x5 AND 0x80) lbs s;
       s \<leftarrow> wss_indirect_write io 0 0xC0 lbs s;
       wss_indirect_write io 1 0xC0 lbs s
     }"

definition cs4237_enable_digital_output :: "'w io \<Rightarrow> llama_bios_settings \<Rightarrow> ('w, 'z) mach_scheme \<Rightarrow>
    ('w, 'z) mach_scheme option" where
  "cs4237_enable_digital_output io lbs s =
     do {
       s \<leftarrow> ctrl_indirect_write io 5 0x24 s;
       s \<leftarrow> ctrl_indirect_write io 6 0x00 s;
       s \<leftarrow> ctrl_indirect_write io 3 0x00 s;
       s \<leftarrow> ctrl_indirect_write io 4 0x80 s;
       s \<leftarrow> wss_set_mce io lbs s;
       (i16, s) \<leftarrow> wss_indirect_read io 16 lbs s;
       s \<leftarrow> wss_indirect_write io 16 (i16 OR 0x02) lbs s;
       s \<leftarrow> wss_clear_mce io lbs s;
       s \<leftarrow> ctrl_indirect_write io 4 0xC0 s;
       ctrl_indirect_write io 4 0x80 s
     }"

definition opl3_found :: "u8 \<Rightarrow> u8 \<Rightarrow> bool" where
  "opl3_found test1 test2 \<longleftrightarrow> test1 AND 0xE0 = 0x00 \<and> test2 AND 0xE0 = 0xc0"

definition cs4237_test_opl3 :: "'w io \<Rightarrow> llama_bios_settings \<Rightarrow> ('w, 'z) mach_scheme \<Rightarrow>
    (u8 \<times> ('w, 'z) mach_scheme) option" where
  "cs4237_test_opl3 io lbs s =
     do {
       let syn = se_value (cs4237_syn_port lbs);
       s \<leftarrow> out_delay io 0x04 syn s;
       s \<leftarrow> out_delay io 0x60 (syn + 1) s;
       s \<leftarrow> out_delay io 0x80 (syn + 1) s;
       let (test1, s) = inb io syn s;
       s \<leftarrow> out_delay io 0x02 syn s;
       s \<leftarrow> out_delay io 0xFF (syn + 1) s;
       s \<leftarrow> out_delay io 0x04 syn s;
       s \<leftarrow> out_delay io 0x21 (syn + 1) s;
       let (test2, s) = inb io syn s;
       s \<leftarrow> out_delay io 0x60 (syn + 1) s;
       s \<leftarrow> out_delay io 0x80 (syn + 1) s;
       Some (if opl3_found test1 test2 then 1 else 0, s)
     }"

section \<open>Every access ends\<close>

context timed_machine
begin

lemma out_delay_returns [runs]: "ok s \<Longrightarrow> returns ok (out_delay io v port s)"
  unfolding out_delay_def by (rule runs) (simp_all add: UDELAY_def DELAY_MAX_def)

lemma udelay_UDELAY [runs]: "ok s \<Longrightarrow> returns ok (udelay io UDELAY s)"
  by (rule runs) (simp_all add: UDELAY_def DELAY_MAX_def)

lemma out_list_returns [runs]: "ok s \<Longrightarrow> returns ok (out_list io vs port s)"
proof (induction vs arbitrary: s)
  case (Cons v vs)
  show ?case
    unfolding out_list.simps by (assumption | rule runs Cons.IH Cons.prems)+
qed (simp add: returns_Some)

lemma wss_returns [runs]:
  "ok s \<Longrightarrow> returns ok (ctrl_indirect_write io reg v s)"
  "ok s \<Longrightarrow> returns ok (wss_set_mce io lbs s)"
  "ok s \<Longrightarrow> returns ok (wss_clear_mce io lbs s)"
  "ok s \<Longrightarrow> returns (\<lambda>(v, s). ok s) (wss_indirect_read io reg lbs s)"
  "ok s \<Longrightarrow> returns ok (wss_indirect_write io reg v lbs s)"
  unfolding ctrl_indirect_write_def wss_set_mce_def wss_clear_mce_def wss_indirect_read_def
    wss_indirect_write_def Let_def
  by (assumption | rule runs | (simp; fail))+

lemma wss_ext_returns [runs]:
  "ok s \<Longrightarrow> returns (\<lambda>(v, s). ok s) (wss_ext_read io reg lbs s)"
  "ok s \<Longrightarrow> returns ok (wss_ext_write io reg v lbs s)"
  unfolding wss_ext_read_def wss_ext_write_def Let_def
  by (assumption | rule runs | (simp; fail))+

lemma cs4237_returns [runs]:
  "ok s \<Longrightarrow> returns ok (cs4237_hostload io lbs force s)"
  "ok s \<Longrightarrow> returns ok (cs4237_slam_configuration io lbs s)"
  "ok s \<Longrightarrow> returns ok (cs4237_setup_mixer io lbs s)"
  "ok s \<Longrightarrow> returns ok (cs4237_enable_digital_output io lbs s)"
  "ok s \<Longrightarrow> returns (\<lambda>(v, s). ok s) (cs4237_test_opl3 io lbs s)"
  unfolding cs4237_hostload_def cs4237_slam_configuration_def cs4237_setup_mixer_def
    cs4237_enable_digital_output_def cs4237_test_opl3_def Let_def
  by (assumption | rule runs returns_prod | (simp; fail))+

end

section \<open>Properties\<close>

lemma I23val_const: "I23val reg = 0x08"
proof -
  have b: "bit (0x10 :: u8) m \<longleftrightarrow> m = 4" for m
    using bit_exp_iff [where 'a = "8 word", of 4 m] by auto
  have "drop_bit 2 (reg AND 0x10) AND push_bit 4 (reg AND 0x0F) = 0"
  proof (rule bit_word_eqI)
    fix n assume "n < LENGTH(8)"
    show "bit (drop_bit 2 (reg AND 0x10) AND push_bit 4 (reg AND 0x0F)) n = bit (0 :: u8) n"
      unfolding bit_and_iff bit_drop_bit_eq bit_push_bit_iff b comp_def by auto
  qed
  then show ?thesis by (simp add: I23val_def)
qed

text \<open>
  The extended registers of the codec are not told apart: the selector that both access routines
  write to I23 is 8 for every register number, so that an access to any extended register is an access to
  register X0.
\<close>

theorem ext_registers_alias:
  "I23val reg = 0x08 \<and> wss_ext_write io reg val lbs s = wss_ext_write io 0 val lbs s \<and>
   wss_ext_read io reg lbs s = wss_ext_read io 0 lbs s"
  by (simp add: I23val_const wss_ext_write_def wss_ext_read_def)

end
