(* ===== verification/I2c.thy ===== *)
theory I2c
  imports Clock
begin

text \<open>
  The driver of the I2C master controller, \<open>seabios/src/llama/llama_i2c.c\<close>. A transfer that the
  controller does not finish within \<open>I2C_TIMEOUT\<close> milliseconds, loses arbitration or misses an
  acknowledgement is reported as \<open>False\<close>.
\<close>

definition I2C_CTRL_REG :: u16 where "I2C_CTRL_REG = 0xfb00"
definition I2C_STAT_REG :: u16 where "I2C_STAT_REG = 0xfb01"
definition I2C_ADDR_REG :: u16 where "I2C_ADDR_REG = 0xfb03"
definition I2C_DATA_REG :: u16 where "I2C_DATA_REG = 0xfb04"
definition I2C_TIMEOUT :: u32 where "I2C_TIMEOUT = 2000"

section \<open>Registers\<close>

definition i2c_check_stop :: "'w io \<Rightarrow> ('w, 'z) mach_scheme \<Rightarrow> bool \<times> ('w, 'z) mach_scheme" where
  "i2c_check_stop io s = (case inb io I2C_CTRL_REG s of (v, s) \<Rightarrow> (v AND 0x02 \<noteq> 0, s))"

definition i2c_set_stop :: "'w io \<Rightarrow> ('w, 'z) mach_scheme \<Rightarrow> ('w, 'z) mach_scheme" where
  "i2c_set_stop io s = (case inb io I2C_CTRL_REG s of (v, s) \<Rightarrow> outb io (v OR 0x02) I2C_CTRL_REG s)"

definition i2c_read_stat_reg :: "'w io \<Rightarrow> ('w, 'z) mach_scheme \<Rightarrow> u8 \<times> ('w, 'z) mach_scheme" where
  "i2c_read_stat_reg io = inb io I2C_STAT_REG"

definition i2c_clear_ar_loss :: "'w io \<Rightarrow> ('w, 'z) mach_scheme \<Rightarrow> ('w, 'z) mach_scheme" where
  "i2c_clear_ar_loss io = outb io 0x08 I2C_STAT_REG"

definition i2c_clear_ack_error :: "'w io \<Rightarrow> ('w, 'z) mach_scheme \<Rightarrow> ('w, 'z) mach_scheme" where
  "i2c_clear_ack_error io = outb io 0x10 I2C_STAT_REG"

definition i2c_check_tx_done :: "'w io \<Rightarrow> ('w, 'z) mach_scheme \<Rightarrow> bool \<times> ('w, 'z) mach_scheme" where
  "i2c_check_tx_done io s = (case inb io I2C_STAT_REG s of (v, s) \<Rightarrow> (v AND 0x20 \<noteq> 0, s))"

definition i2c_clear_tx_done :: "'w io \<Rightarrow> ('w, 'z) mach_scheme \<Rightarrow> ('w, 'z) mach_scheme" where
  "i2c_clear_tx_done io = outb io 0x20 I2C_STAT_REG"

definition i2c_check_rx_ready :: "'w io \<Rightarrow> ('w, 'z) mach_scheme \<Rightarrow> bool \<times> ('w, 'z) mach_scheme" where
  "i2c_check_rx_ready io s = (case inb io I2C_STAT_REG s of (v, s) \<Rightarrow> (v AND 0x40 \<noteq> 0, s))"

definition i2c_clear_rx_ready :: "'w io \<Rightarrow> ('w, 'z) mach_scheme \<Rightarrow> ('w, 'z) mach_scheme" where
  "i2c_clear_rx_ready io = outb io 0x40 I2C_STAT_REG"

definition i2c_set_address :: "'w io \<Rightarrow> u8 \<Rightarrow> u8 \<Rightarrow> ('w, 'z) mach_scheme \<Rightarrow> ('w, 'z) mach_scheme" where
  "i2c_set_address io addr rw_bit = outb io (push_bit 1 addr + rw_bit) I2C_ADDR_REG"

definition i2c_read_byte :: "'w io \<Rightarrow> ('w, 'z) mach_scheme \<Rightarrow> u8 \<times> ('w, 'z) mach_scheme" where
  "i2c_read_byte io = inb io I2C_DATA_REG"

definition i2c_write_byte :: "'w io \<Rightarrow> u8 \<Rightarrow> ('w, 'z) mach_scheme \<Rightarrow> ('w, 'z) mach_scheme" where
  "i2c_write_byte io data = outb io data I2C_DATA_REG"

section \<open>Waiting with a timeout\<close>

text \<open>
  The three wait loops of the file have one shape: leave when \<open>check\<close> holds, leave when the deadline
  has passed, and let the other threads run in between.
\<close>

partial_function (option) i2c_wait ::
    "'w io \<Rightarrow> (('w, 'z) mach_scheme \<Rightarrow> bool \<times> ('w, 'z) mach_scheme) \<Rightarrow> u32 \<Rightarrow>
     ('w, 'z) mach_scheme \<Rightarrow> ('w, 'z) mach_scheme option" where
  "i2c_wait io check end s =
     (case check s of (done, s) \<Rightarrow>
        if done then Some s
        else (case timer_check io end s of (late, s) \<Rightarrow>
                if late then Some s else i2c_wait io check end (yield io s)))"

definition check_tx_done :: "'w io \<Rightarrow> ('w, 'z) mach_scheme \<Rightarrow> (bool \<times> ('w, 'z) mach_scheme) option" where
  "check_tx_done io s =
     do {
       let (end, s) = timer_calc io I2C_TIMEOUT s;
       s \<leftarrow> i2c_wait io (i2c_check_tx_done io) end s;
       let (stat_reg, s) = i2c_read_stat_reg io s;
       let s = i2c_clear_tx_done io s;
       let s = (if stat_reg AND 0x08 \<noteq> 0 then i2c_clear_ar_loss io s else s);
       let s = (if stat_reg AND 0x10 \<noteq> 0 then i2c_clear_ack_error io s else s);
       Some (if stat_reg AND 0x18 \<noteq> 0 then False
             else if stat_reg AND 0x01 = 0 then False
             else if stat_reg AND 0x20 = 0 then False
             else True, s)
     }"

definition check_rx_done :: "'w io \<Rightarrow> ('w, 'z) mach_scheme \<Rightarrow> (bool \<times> ('w, 'z) mach_scheme) option" where
  "check_rx_done io s =
     do {
       let (end, s) = timer_calc io I2C_TIMEOUT s;
       s \<leftarrow> i2c_wait io (i2c_check_rx_ready io) end s;
       let (stat_reg, s) = i2c_read_stat_reg io s;
       let s = i2c_clear_rx_ready io s;
       if stat_reg AND 0x08 \<noteq> 0 then Some (False, i2c_clear_ar_loss io s)
       else if stat_reg AND 0x01 = 0 then Some (False, s)
       else if stat_reg AND 0x40 = 0 then Some (False, s)
       else Some (True, s)
     }"

definition check_stop_done :: "'w io \<Rightarrow> ('w, 'z) mach_scheme \<Rightarrow> (bool \<times> ('w, 'z) mach_scheme) option"
where
  "check_stop_done io s =
     do {
       let (end, s) = timer_calc io I2C_TIMEOUT s;
       s \<leftarrow> i2c_wait io (\<lambda>s. case i2c_check_stop io s of (b, s) \<Rightarrow> (\<not> b, s)) end s;
       let (b, s) = i2c_check_stop io s;
       Some (\<not> b, s)
     }"

section \<open>Transfers\<close>

definition i2c_start :: "'w io \<Rightarrow> u8 \<Rightarrow> u8 \<Rightarrow> ('w, 'z) mach_scheme \<Rightarrow>
    (bool \<times> ('w, 'z) mach_scheme) option" where
  "i2c_start io addr rwbit s = check_tx_done io (i2c_set_address io addr rwbit s)"

text \<open>The loop of \<open>i2c_read\<close> at index \<open>i\<close>: success, the bytes read from there on, the state.\<close>

function i2c_read_loop :: "'w io \<Rightarrow> nat \<Rightarrow> nat \<Rightarrow> ('w, 'z) mach_scheme \<Rightarrow>
    (bool \<times> u8 list \<times> ('w, 'z) mach_scheme) option" where
  "i2c_read_loop io len i s =
     (if len \<le> i then Some (True, [], s)
      else do {
        let s = (if i = 0 then
                   (let s = (if i + 1 = len then i2c_set_stop io s else s)
                    in snd (i2c_read_byte io s))
                 else s);
        (ok, s) \<leftarrow> check_rx_done io s;
        if \<not> ok then Some (False, [], s)
        else do {
          let s = (if i + 2 = len then i2c_set_stop io s else s);
          let (b, s) = i2c_read_byte io s;
          (ok, s) \<leftarrow> (if i + 1 = len then check_stop_done io s else Some (True, s));
          if \<not> ok then Some (False, [b], s)
          else do {
            (ok, bs, s) \<leftarrow> i2c_read_loop io len (i + 1) s;
            Some (ok, b # bs, s)
          }
        }
      })"
  by pat_completeness auto
termination
  by (relation "measure (\<lambda>(io, len, i, s). len - i)") auto

declare i2c_read_loop.simps [simp del]

definition i2c_read :: "'w io \<Rightarrow> nat \<Rightarrow> ('w, 'z) mach_scheme \<Rightarrow>
    (bool \<times> u8 list \<times> ('w, 'z) mach_scheme) option" where
  "i2c_read io len s = i2c_read_loop io len 0 s"

fun i2c_write :: "'w io \<Rightarrow> u8 list \<Rightarrow> ('w, 'z) mach_scheme \<Rightarrow> (bool \<times> ('w, 'z) mach_scheme) option"
where
  "i2c_write io [] s = check_stop_done io (i2c_set_stop io s)"
| "i2c_write io (b # bs) s =
     do {
       (ok, s) \<leftarrow> check_tx_done io (i2c_write_byte io b s);
       if \<not> ok then Some (False, s) else i2c_write io bs s
     }"

definition i2c_write_byte_no_stop :: "'w io \<Rightarrow> u8 \<Rightarrow> ('w, 'z) mach_scheme \<Rightarrow>
    (bool \<times> ('w, 'z) mach_scheme) option" where
  "i2c_write_byte_no_stop io data s = check_tx_done io (i2c_write_byte io data s)"

section \<open>Every transfer ends\<close>

text \<open>
  Whatever the controller and the slaves answer: each wait is bounded by its deadline, so every operation
  returns on a machine whose clock runs.
\<close>

definition quick :: "'w io \<Rightarrow> ('w \<Rightarrow> nat) \<Rightarrow> (('w, 'z) mach_scheme \<Rightarrow> bool) \<Rightarrow>
    (('w, 'z) mach_scheme \<Rightarrow> bool \<times> ('w, 'z) mach_scheme) \<Rightarrow> bool" where
  "quick io cyc ok check \<longleftrightarrow> (\<forall>s. ok s \<longrightarrow> ok (snd (check s)) \<and>
     cyc (wd s) \<le> cyc (wd (snd (check s))) \<and> cyc (wd (snd (check s))) \<le> cyc (wd s) + gap)"

context timed_machine
begin

lemma inb_quick:
  assumes "\<And>s. check s = (f (fst (inb io port s)), snd (inb io port s))"
  shows "quick io cyc ok check"
proof -
  have "snd (check s) = s\<lparr>wd := snd (io_inb io port (wd s))\<rparr>" for s
    by (simp add: assms inb_def split: prod.splits)
  then show ?thesis by (simp add: quick_def world inb_time)
qed

lemma tx_quick: "quick io cyc ok (i2c_check_tx_done io)"
  by (rule inb_quick [of _ "\<lambda>v. v AND 0x20 \<noteq> 0" I2C_STAT_REG])
    (simp add: i2c_check_tx_done_def split: prod.splits)

lemma rx_quick: "quick io cyc ok (i2c_check_rx_ready io)"
  by (rule inb_quick [of _ "\<lambda>v. v AND 0x40 \<noteq> 0" I2C_STAT_REG])
    (simp add: i2c_check_rx_ready_def split: prod.splits)

lemma stop_quick: "quick io cyc ok (\<lambda>s. case i2c_check_stop io s of (b, s) \<Rightarrow> (\<not> b, s))"
  by (rule inb_quick [of _ "\<lambda>v. v AND 0x02 = 0" I2C_CTRL_REG])
    (simp add: i2c_check_stop_def split: prod.splits)

lemma i2c_wait_deadline:
  assumes "quick io cyc ok check" "ok s"
    and "cyc (wd s) \<le> (e + 1) * unit + gap" "e * unit \<le> cyc (wd s) + 2 ^ 30 * unit"
  shows "returns ok (i2c_wait io check (of_nat e) s)"
  using assms(2-4)
proof (induction "(e + 1) * unit + gap - cyc (wd s)" arbitrary: s rule: less_induct)
  case less
  obtain d s1 where d: "check s = (d, s1)" by fastforce
  have s1: "ok s1" "cyc (wd s) \<le> cyc (wd s1)" "cyc (wd s1) \<le> cyc (wd s) + gap"
    using assms(1) less.prems(1) d unfolding quick_def by (metis snd_conv)+
  obtain b s2 where c: "timer_check io (of_nat e) s1 = (b, s2)" by fastforce
  have 1: "e * unit \<le> cyc (wd s1) + 2 ^ 30 * unit" using less.prems(3) s1(2) by linarith
  have 2: "cyc (wd s1) \<le> (e + 1) * unit + 2 * gap" using less.prems(2) s1(3) by linarith
  note k = check [OF s1(1) c 1 2]
  show ?case
  proof (cases "d \<or> b")
    case True
    then show ?thesis
      using d c s1 k(1) by (subst i2c_wait.simps) (auto simp: returns_def)
  next
    case False
    then have early: "cyc (wd s2) < (e + 1) * unit" using k(4) by (intro div_le_bound) simp
    note y = yield_ok [OF k(1)]
    have "returns ok (i2c_wait io check (of_nat e) (yield io s2))"
      using early y k s1 less.prems by (intro less.hyps) auto
    then show ?thesis using False d c by (subst i2c_wait.simps) auto
  qed
qed

lemma i2c_wait_returns:
  assumes "quick io cyc ok check" "ok s" "timer_calc io I2C_TIMEOUT s = (fin, s1)"
  shows "returns ok (i2c_wait io check fin s1)"
proof -
  obtain v where v: "timer_read io s = (v, s1)" "fin = v + TimerKHz s1 * I2C_TIMEOUT"
    using assms(3) by (auto simp: timer_calc_def split: prod.splits)
  have b: "unat (I2C_TIMEOUT * TimerKHz s1) < 2 ^ 30"
    using ticks_exact [of s1 I2C_TIMEOUT] read [OF assms(2) v(1)]
    by (simp add: I2C_TIMEOUT_def DELAY_MAX_def)
  obtain e where "ok s1" "fin = of_nat e" "cyc (wd s1) \<le> (e + 1) * unit"
      "e * unit \<le> cyc (wd s1) + 2 ^ 30 * unit"
    using deadline [OF assms(2) v(1), of "I2C_TIMEOUT * TimerKHz s1"] b v(2)
    by (auto simp: mult.commute)
  then show ?thesis using i2c_wait_deadline [OF assms(1)] by simp
qed

lemma wait_runs [runs]:
  assumes "ok s" "quick io cyc ok check" and k: "\<And>s. ok s \<Longrightarrow> returns Q (k s)"
  shows "returns Q (case timer_calc io I2C_TIMEOUT s of (fin, s) \<Rightarrow> Option.bind (i2c_wait io check fin s) k)"
proof -
  obtain fin s1 where t: "timer_calc io I2C_TIMEOUT s = (fin, s1)" by fastforce
  show ?thesis unfolding t prod.case by (rule returns_bind [OF i2c_wait_returns [OF assms(2,1) t] k])
qed

lemma i2c_reads_runs [runs]:
  "\<lbrakk>ok s; \<And>v s. ok s \<Longrightarrow> returns Q (k v s)\<rbrakk> \<Longrightarrow> returns Q (case i2c_read_stat_reg io s of (v, s) \<Rightarrow> k v s)"
  "\<lbrakk>ok s; \<And>v s. ok s \<Longrightarrow> returns Q (l v s)\<rbrakk> \<Longrightarrow> returns Q (case i2c_read_byte io s of (v, s) \<Rightarrow> l v s)"
  "\<lbrakk>ok s; \<And>b s. ok s \<Longrightarrow> returns Q (m b s)\<rbrakk> \<Longrightarrow> returns Q (case i2c_check_stop io s of (b, s) \<Rightarrow> m b s)"
  by (simp_all add: i2c_read_stat_reg_def i2c_read_byte_def i2c_check_stop_def inb_def world split: prod.splits)

lemma i2c_writes_ok [simp]:
  "ok s \<Longrightarrow> ok (i2c_set_stop io s)"
  "ok s \<Longrightarrow> ok (i2c_clear_ar_loss io s)"
  "ok s \<Longrightarrow> ok (i2c_clear_ack_error io s)"
  "ok s \<Longrightarrow> ok (i2c_clear_tx_done io s)"
  "ok s \<Longrightarrow> ok (i2c_clear_rx_ready io s)"
  "ok s \<Longrightarrow> ok (i2c_set_address io addr rw s)"
  "ok s \<Longrightarrow> ok (i2c_write_byte io b s)"
  "ok s \<Longrightarrow> ok (snd (i2c_read_byte io s))"
  by (simp_all add: i2c_set_stop_def i2c_clear_ar_loss_def i2c_clear_ack_error_def i2c_clear_tx_done_def
      i2c_clear_rx_ready_def i2c_set_address_def i2c_write_byte_def i2c_read_byte_def inb_def outb_def world
      split: prod.splits)

lemma check_tx_done_returns [runs]: "ok s \<Longrightarrow> returns (\<lambda>(b, s). ok s) (check_tx_done io s)"
  unfolding check_tx_done_def Let_def
  by (assumption | rule runs tx_quick returns_prod | (simp; fail))+

lemma check_rx_done_returns [runs]: "ok s \<Longrightarrow> returns (\<lambda>(b, s). ok s) (check_rx_done io s)"
  unfolding check_rx_done_def Let_def
  by (assumption | rule runs rx_quick returns_prod | (simp; fail))+

lemma check_stop_done_returns [runs]: "ok s \<Longrightarrow> returns (\<lambda>(b, s). ok s) (check_stop_done io s)"
  unfolding check_stop_done_def Let_def
  by (assumption | rule runs stop_quick returns_prod | (simp; fail))+

lemma i2c_start_returns [runs]: "ok s \<Longrightarrow> returns (\<lambda>(b, s). ok s) (i2c_start io addr rw s)"
  unfolding i2c_start_def by (rule runs) simp

lemma i2c_write_byte_no_stop_returns [runs]:
  "ok s \<Longrightarrow> returns (\<lambda>(b, s). ok s) (i2c_write_byte_no_stop io b s)"
  unfolding i2c_write_byte_no_stop_def by (rule runs) simp

lemma i2c_write_returns [runs]: "ok s \<Longrightarrow> returns (\<lambda>(b, s). ok s) (i2c_write io bs s)"
proof (induction bs arbitrary: s)
  case Nil
  then show ?case by (simp add: check_stop_done_returns)
next
  case (Cons b bs)
  show ?case
    unfolding i2c_write.simps
    by (assumption | rule runs Cons.IH returns_prod | (simp add: Cons.prems; fail))+
qed

text \<open>A read that succeeds has the number of bytes that was asked for.\<close>

lemma i2c_read_loop_returns:
  "ok s \<Longrightarrow> returns (\<lambda>(b, bs, s). ok s \<and> (b \<longrightarrow> length bs = len - i)) (i2c_read_loop io len i s)"
proof (induction "len - i" arbitrary: i s)
  case 0
  then show ?case by (subst i2c_read_loop.simps) (simp add: returns_def)
next
  case (Suc n)
  have IH: "ok s \<Longrightarrow> returns (\<lambda>(b, bs, s). ok s \<and> (b \<longrightarrow> length bs = len - (i + 1)))
      (i2c_read_loop io len (i + 1) s)" for s
    using Suc.hyps(1) [of "i + 1" s] Suc.hyps(2) by simp
  define s0 where "s0 = (if i = 0 then (let s = (if i + 1 = len then i2c_set_stop io s else s)
      in snd (i2c_read_byte io s)) else s)"
  have s0: "ok s0"
    using Suc.prems unfolding s0_def by (simp add: Let_def)
  have stop: "returns (\<lambda>(b, s). ok s) (if i + 1 = len then check_stop_done io s else Some (True, s))" if "ok s" for s
    using check_stop_done_returns [OF that] that by (auto simp: returns_def)
  have "i < len" using Suc.hyps(2) by simp
  then show ?case
    unfolding i2c_read_loop.simps [of io len i s] s0_def [symmetric]
    using Suc.hyps(2) unfolding Let_def
    by simp (assumption | rule runs IH stop returns_prod | (simp add: s0; fail) | (auto; fail))+
qed

lemma i2c_read_returns [runs]:
  "ok s \<Longrightarrow> returns (\<lambda>(b, bs, s). ok s \<and> (b \<longrightarrow> length bs = len)) (i2c_read io len s)"
  using i2c_read_loop_returns [of s len 0] by (simp add: i2c_read_def)

end

section \<open>Properties\<close>

text \<open>
  C24. No answer and no silence of the I2C bus can hang the firmware: starting, writing and reading end
  whatever the controller's registers hold, leave the timer as it was, and a read that reports success has
  delivered all the bytes.
\<close>

theorem i2c_transfers_end:
  assumes "tsc_timer io cyc k s"
  shows "(\<exists>ok s'. i2c_start io addr rw s = Some (ok, s') \<and> tsc_timer io cyc k s') \<and>
    (\<exists>ok s'. i2c_write io bytes s = Some (ok, s') \<and> tsc_timer io cyc k s') \<and>
    (\<exists>ok data s'. i2c_read io len s = Some (ok, data, s') \<and> tsc_timer io cyc k s' \<and>
       (ok \<longrightarrow> length data = len))"
  using tsc.i2c_start_returns [OF assms, of addr rw] tsc.i2c_write_returns [OF assms, of bytes]
    tsc.i2c_read_returns [OF assms, of len]
  by (auto simp: returns_def)

theorem i2c_transfers_end_witness:
  "\<exists>ok s'. i2c_write clock_sim [0xFD] \<lparr>TimerKHz = 5000, TimerPort = 0, ShiftTSC = 5, TimerLast = 0, wd = 0\<rparr> =
     Some (ok, s')"
proof -
  have "tsc_timer clock_sim id 5 \<lparr>TimerKHz = 5000, TimerPort = 0, ShiftTSC = 5, TimerLast = 0, wd = 0 :: nat\<rparr>"
    using clock_sim_tsc by (simp add: tsc_timer_def KHZ_MAX_def)
  then show ?thesis using i2c_transfers_end by blast
qed

end
