(* ===== verification/Emc2303.thy ===== *)
theory Emc2303
  imports I2c
begin

text \<open>
  The EMC2303 fan controller, an I2C slave: \<open>seabios/src/llama/llama_emc2303.c\<close>. Fan speeds are
  exchanged as tachometer counts, 13 bits aligned to the left of a register pair.
\<close>

definition EMC2303_ADDR :: u8 where "EMC2303_ADDR = 0x2E"

section \<open>Revolutions and tachometer counts\<close>

text \<open>
  \<open>get_rpm\<close> divides by the count; a count of 0 raises the processor's divide error (\<open>None\<close>).
\<close>

definition get_rpm :: "u8 \<Rightarrow> u8 \<Rightarrow> u16 option" where
  "get_rpm tach_high tach_low =
     (let count = drop_bit 3 (push_bit 8 (ucast tach_high) OR ucast tach_low) :: u32
      in if count = 0 then None else Some (ucast (3932160 div count)))"

definition get_regs_from_rpm :: "u16 \<Rightarrow> u8 \<times> u8" where
  "get_regs_from_rpm rpm =
     (let regs = (if rpm = 0 then 0xffff else ucast (push_bit 3 (3932160 div ucast rpm :: u32))) :: u16
      in (ucast (drop_bit 8 regs), ucast (regs AND 0xFF)))"

section \<open>Registers of the controller\<close>

definition emc_get_reg_byte :: "'w io \<Rightarrow> u8 \<Rightarrow> ('w, 'z) mach_scheme \<Rightarrow>
    (u8 \<times> ('w, 'z) mach_scheme) option" where
  "emc_get_reg_byte io reg s =
     do {
       (ok, s) \<leftarrow> andalso (i2c_start io EMC2303_ADDR 0)
                   (andalso (i2c_write io [reg]) (i2c_start io EMC2303_ADDR 1)) s;
       if \<not> ok then Some (0, s)
       else do {
         (ok, data, s) \<leftarrow> i2c_read io 1 s;
         Some (if ok then hd data else 0, s)
       }
     }"

definition emc_set_reg_byte :: "'w io \<Rightarrow> u8 \<Rightarrow> u8 \<Rightarrow> ('w, 'z) mach_scheme \<Rightarrow>
    (bool \<times> ('w, 'z) mach_scheme) option" where
  "emc_set_reg_byte io reg reg_value =
     andalso (i2c_start io EMC2303_ADDR 0)
       (andalso (i2c_write_byte_no_stop io reg) (i2c_write io [reg_value]))"

definition set_fanX_target_rpm :: "'w io \<Rightarrow> u8 \<Rightarrow> u8 \<Rightarrow> u8 \<Rightarrow> u8 \<Rightarrow> u8 \<Rightarrow> u8 \<Rightarrow> u8 \<Rightarrow> u16 \<Rightarrow>
    ('w, 'z) mach_scheme \<Rightarrow> (bool \<times> ('w, 'z) mach_scheme) option" where
  "set_fanX_target_rpm io step_reg min_drive_reg spinup_reg target_tach_low_reg
     target_tach_high_reg conf2_reg conf_reg rpm s =
     (if rpm > 16000 then Some (False, s)
      else case get_regs_from_rpm rpm of (tach_high, tach_low) \<Rightarrow>
        andalso (emc_set_reg_byte io step_reg 0x04)
          (andalso (emc_set_reg_byte io min_drive_reg 0x00)
          (andalso (emc_set_reg_byte io spinup_reg 0x98)
          (andalso (emc_set_reg_byte io target_tach_low_reg tach_low)
          (andalso (emc_set_reg_byte io target_tach_high_reg tach_high)
          (andalso (emc_set_reg_byte io conf2_reg 0x28)
                   (emc_set_reg_byte io conf_reg 0x8B)))))) s)"

section \<open>The interface of the driver\<close>

definition llama_get_emc_product_id_reg :: "'w io \<Rightarrow> ('w, 'z) mach_scheme \<Rightarrow>
    (u8 \<times> ('w, 'z) mach_scheme) option" where
  "llama_get_emc_product_id_reg io = emc_get_reg_byte io 0xFD"

definition fan_tach_rpm :: "'w io \<Rightarrow> u8 \<Rightarrow> u8 \<Rightarrow> ('w, 'z) mach_scheme \<Rightarrow>
    (u16 \<times> ('w, 'z) mach_scheme) option" where
  "fan_tach_rpm io high_reg low_reg s =
     do {
       (hi, s) \<leftarrow> emc_get_reg_byte io high_reg s;
       (lo, s) \<leftarrow> emc_get_reg_byte io low_reg s;
       rpm \<leftarrow> get_rpm hi lo;
       Some (rpm, s)
     }"

definition llama_get_fan1_tach_rpm :: "'w io \<Rightarrow> ('w, 'z) mach_scheme \<Rightarrow>
    (u16 \<times> ('w, 'z) mach_scheme) option" where
  "llama_get_fan1_tach_rpm io = fan_tach_rpm io 0x3E 0x3F"

definition llama_get_fan2_tach_rpm :: "'w io \<Rightarrow> ('w, 'z) mach_scheme \<Rightarrow>
    (u16 \<times> ('w, 'z) mach_scheme) option" where
  "llama_get_fan2_tach_rpm io = fan_tach_rpm io 0x4E 0x4F"

definition llama_get_fan3_tach_rpm :: "'w io \<Rightarrow> ('w, 'z) mach_scheme \<Rightarrow>
    (u16 \<times> ('w, 'z) mach_scheme) option" where
  "llama_get_fan3_tach_rpm io = fan_tach_rpm io 0x5E 0x5F"

definition llama_set_fan1_target_rpm :: "'w io \<Rightarrow> u16 \<Rightarrow> ('w, 'z) mach_scheme \<Rightarrow>
    (bool \<times> ('w, 'z) mach_scheme) option" where
  "llama_set_fan1_target_rpm io rpm =
     set_fanX_target_rpm io 0x37 0x38 0x36 0x3C 0x3D 0x33 0x32 rpm"

definition llama_set_fan2_target_rpm :: "'w io \<Rightarrow> u16 \<Rightarrow> ('w, 'z) mach_scheme \<Rightarrow>
    (bool \<times> ('w, 'z) mach_scheme) option" where
  "llama_set_fan2_target_rpm io rpm =
     set_fanX_target_rpm io 0x47 0x48 0x46 0x4C 0x4D 0x43 0x42 rpm"

definition llama_set_fan3_target_rpm :: "'w io \<Rightarrow> u16 \<Rightarrow> ('w, 'z) mach_scheme \<Rightarrow>
    (bool \<times> ('w, 'z) mach_scheme) option" where
  "llama_set_fan3_target_rpm io rpm =
     set_fanX_target_rpm io 0x57 0x58 0x56 0x5C 0x5D 0x53 0x52 rpm"

text \<open>Bit 0 of a fan's status is a stall, bit 1 a spin-up failure, bit 2 a drive failure.\<close>

definition fan_statuses :: "u8 \<Rightarrow> u8 \<Rightarrow> u8 \<Rightarrow> u8 \<times> u8 \<times> u8" where
  "fan_statuses stall spin fail =
     ((stall AND 0x01) OR push_bit 1 (spin AND 0x01) OR push_bit 2 (fail AND 0x01),
      drop_bit 1 (stall AND 0x02) OR (spin AND 0x02) OR push_bit 1 (fail AND 0x02),
      drop_bit 2 (stall AND 0x04) OR drop_bit 1 (spin AND 0x04) OR (fail AND 0x04))"

definition llama_get_fan_statuses :: "'w io \<Rightarrow> ('w, 'z) mach_scheme \<Rightarrow>
    ((u8 \<times> u8 \<times> u8) \<times> ('w, 'z) mach_scheme) option" where
  "llama_get_fan_statuses io s =
     do {
       (stall, s) \<leftarrow> emc_get_reg_byte io 0x25 s;
       (spin, s) \<leftarrow> emc_get_reg_byte io 0x26 s;
       (fail, s) \<leftarrow> emc_get_reg_byte io 0x27 s;
       Some (fan_statuses stall spin fail, s)
     }"

section \<open>Every access ends\<close>

context timed_machine
begin

lemma emc_get_reg_byte_returns [runs]: "ok s \<Longrightarrow> returns (\<lambda>(v, s). ok s) (emc_get_reg_byte io reg s)"
  unfolding emc_get_reg_byte_def
  by (assumption | rule runs returns_prod | (simp; fail))+

lemma emc_set_reg_byte_returns [runs]: "ok s \<Longrightarrow> returns (\<lambda>(b, s). ok s) (emc_set_reg_byte io reg v s)"
  unfolding emc_set_reg_byte_def
  by (assumption | rule runs returns_prod | (simp; fail))+

lemma set_fanX_target_rpm_returns:
  "ok s \<Longrightarrow> returns (\<lambda>(b, s). ok s) (set_fanX_target_rpm io r1 r2 r3 r4 r5 r6 r7 rpm s)"
  unfolding set_fanX_target_rpm_def
  by (cases "get_regs_from_rpm rpm") (simp, intro conjI impI, (assumption | rule runs | (simp; fail))+)

lemma fan_targets_returns [runs]:
  "ok s \<Longrightarrow> returns (\<lambda>(b, s). ok s) (llama_set_fan1_target_rpm io rpm s)"
  "ok s \<Longrightarrow> returns (\<lambda>(b, s). ok s) (llama_set_fan2_target_rpm io rpm s)"
  "ok s \<Longrightarrow> returns (\<lambda>(b, s). ok s) (llama_set_fan3_target_rpm io rpm s)"
  unfolding llama_set_fan1_target_rpm_def llama_set_fan2_target_rpm_def llama_set_fan3_target_rpm_def
  by (rule set_fanX_target_rpm_returns, assumption)+

lemma product_id_returns [runs]:
  "ok s \<Longrightarrow> returns (\<lambda>(v, s). ok s) (llama_get_emc_product_id_reg io s)"
  unfolding llama_get_emc_product_id_reg_def by (assumption | rule runs returns_prod | (simp; fail))+

lemma fan_statuses_returns [runs]:
  "ok s \<Longrightarrow> returns (\<lambda>(v, s). ok s) (llama_get_fan_statuses io s)"
  unfolding llama_get_fan_statuses_def by (assumption | rule runs returns_prod | (simp; fail))+

text \<open>Without a fan controller on the bus nobody acknowledges, and a register reads as 0.\<close>

lemma no_ack:
  assumes "ok s" "\<And>w. fst (io_inb io I2C_STAT_REG w) AND 0x10 \<noteq> 0"
  shows "\<exists>s'. check_tx_done io s = Some (False, s')"
proof -
  obtain fin s1 where t: "timer_calc io I2C_TIMEOUT s = (fin, s1)" by fastforce
  obtain s2 where w: "i2c_wait io (i2c_check_tx_done io) fin s1 = Some s2"
    using i2c_wait_returns [OF tx_quick assms(1) t] by (auto simp: returns_def)
  obtain v s3 where v: "i2c_read_stat_reg io s2 = (v, s3)" by fastforce
  have "v AND 0x10 \<noteq> 0"
    using v assms(2) [of "wd s2"] by (auto simp: i2c_read_stat_reg_def inb_def split: prod.splits)
  moreover have "v AND 0x10 = (v AND 0x18) AND 0x10" by (simp add: and.assoc)
  ultimately have "v AND 0x18 \<noteq> 0" by auto
  then show ?thesis using t w v by (simp add: check_tx_done_def Let_def)
qed

lemma emc_get_reg_byte_absent:
  assumes "ok s" "\<And>w. fst (io_inb io I2C_STAT_REG w) AND 0x10 \<noteq> 0"
  shows "returns (\<lambda>(v, s). ok s \<and> v = 0) (emc_get_reg_byte io reg s)"
proof -
  obtain s' where "i2c_start io EMC2303_ADDR 0 s = Some (False, s')"
    using no_ack [OF i2c_writes_ok(6) [OF assms(1)] assms(2)] by (auto simp: i2c_start_def)
  moreover have "ok s'"
    using calculation i2c_start_returns [OF assms(1), of EMC2303_ADDR 0] by (simp add: returns_def)
  ultimately show ?thesis by (simp add: emc_get_reg_byte_def andalso_def returns_def)
qed

end

section \<open>Tachometer counts\<close>

lemma regs_word:
  "push_bit 8 (ucast (ucast (drop_bit 8 r) :: u8)) OR ucast (ucast (r AND 0xFF) :: u8) =
     (ucast (r :: u16) :: u32)"
proof (rule bit_word_eqI)
  fix n assume "n < LENGTH(32)"
  have ff: "(0xFF :: u16) = mask 8" by (simp add: mask_eq_decr_exp)
  show "bit (push_bit 8 (ucast (ucast (drop_bit 8 r) :: u8)) OR ucast (ucast (r AND 0xFF) :: u8) :: u32) n =
      bit (ucast r :: u32) n"
    by (cases "n < 8") (auto simp: ff bit_simps dest: bit_imp_le_length)
qed

lemma count_of_regs:
  assumes "get_regs_from_rpm rpm = (hi, lo)" "rpm \<noteq> 0"
  shows "unat (drop_bit 3 (push_bit 8 (ucast hi) OR ucast lo :: u32)) = (3932160 div unat rpm) mod 2 ^ 13"
proof -
  define r where "r = (ucast (push_bit 3 (3932160 div ucast rpm :: u32)) :: u16)"
  have hl: "hi = ucast (drop_bit 8 r)" "lo = ucast (r AND 0xFF)"
    using assms by (auto simp: get_regs_from_rpm_def r_def Let_def)
  have "unat (3932160 div ucast rpm :: u32) = 3932160 div unat rpm"
    using u16_unat_lt [of rpm]
    by (simp add: unat_div unsigned_ucast_eq take_bit_nat_eq_self)
  then have "unat r = (3932160 div unat rpm * 8) mod 65536"
    by (simp add: r_def unsigned_ucast_eq unsigned_push_bit_eq push_bit_eq_mult take_bit_eq_mod
        unat_word_ariths mod_mod_cancel)
  moreover have "(n * 8) mod 65536 div 8 = n mod 8192" for n :: nat
    using mod_mult_mult2 [of n 8 8192] by simp
  ultimately show ?thesis
    unfolding hl regs_word by (simp add: unat_drop_bit_eq unsigned_ucast_eq take_bit_eq_mod drop_bit_eq_div unat_div)
qed

section \<open>Properties\<close>

text \<open>
  The tachometer target has 13 bits: for every speed the count written to the controller is the
  quotient modulo 2^13, and so it is the quotient exactly for the speeds from 481 rpm on; for a slower target
  the register holds a wrong count (for 480 rpm the count 0).
\<close>

theorem tach_target_count:
  assumes "get_regs_from_rpm rpm = (hi, lo)" "rpm \<noteq> 0"
  shows "unat (drop_bit 3 (push_bit 8 (ucast hi) OR ucast lo :: u32)) = (3932160 div unat rpm) mod 2 ^ 13 \<and>
    (unat (drop_bit 3 (push_bit 8 (ucast hi) OR ucast lo :: u32)) = 3932160 div unat rpm \<longleftrightarrow> 481 \<le> rpm)"
proof -
  have 1: "unat (drop_bit 3 (push_bit 8 (ucast hi) OR ucast lo :: u32)) = (3932160 div unat rpm) mod 2 ^ 13"
    by (rule count_of_regs [OF assms])
  have pos: "0 < unat rpm" using assms(2) by (simp add: unat_gt_0)
  have "3932160 div unat rpm < 2 ^ 13 \<longleftrightarrow> 3932160 < 2 ^ 13 * unat rpm"
    using pos by (simp add: div_less_iff_less_mult mult.commute)
  also have "\<dots> \<longleftrightarrow> 481 \<le> unat rpm" by auto
  also have "\<dots> \<longleftrightarrow> 481 \<le> rpm" by (simp add: word_le_nat_alt)
  finally have "(3932160 div unat rpm) mod 2 ^ 13 = 3932160 div unat rpm \<longleftrightarrow> 481 \<le> rpm"
    by (metis mod_less mod_less_divisor zero_less_numeral zero_less_power)
  then show ?thesis unfolding 1 by simp
qed

theorem tach_target_count_witness:
  "get_regs_from_rpm 480 = (0, 0) \<and> unat (drop_bit 3 (push_bit 8 (ucast (0 :: u8)) OR ucast (0 :: u8) :: u32)) \<noteq> 8192"
proof -
  have "get_regs_from_rpm 480 = (0, 0)" by (simp add: get_regs_from_rpm_def Let_def)
  then show ?thesis using tach_target_count [of 480 0 0] by simp
qed

text \<open>
  For the speeds the controller can represent the two conversions are inverse up to the rounding of the
  count: the speed read back is not below the target, and above it by a relative error of less than
  rpm / 3932160 (0.5 percent at 16000 rpm).
\<close>

theorem rpm_roundtrip:
  assumes "481 \<le> rpm" "rpm \<le> 16000" "get_regs_from_rpm rpm = (hi, lo)"
  shows "\<exists>rpm'. get_rpm hi lo = Some rpm' \<and> rpm \<le> rpm' \<and>
    unat rpm' * (3932160 - unat rpm) \<le> 3932160 * unat rpm"
proof -
  let ?c = "drop_bit 3 (push_bit 8 (ucast hi) OR ucast lo :: u32)" and ?K = "3932160 :: nat"
  have r: "481 \<le> unat rpm" "unat rpm \<le> 16000" "rpm \<noteq> 0"
    using assms(1,2) by (auto simp: word_le_nat_alt)
  have "?K div unat rpm \<le> ?K div 481" using r by (intro div_le_mono2) auto
  then have c: "unat ?c = ?K div unat rpm"
    using count_of_regs [OF assms(3) r(3)] by simp
  have "?K div 16000 \<le> ?K div unat rpm" using r by (intro div_le_mono2) auto
  then have c0: "245 \<le> unat ?c" using c by simp
  then have "?c \<noteq> 0" by auto
  then have g: "get_rpm hi lo = Some (ucast (3932160 div ?c))" by (simp add: get_rpm_def Let_def)
  define q where "q = ?K div unat ?c"
  have "q \<le> ?K div 245" unfolding q_def using c0 by (intro div_le_mono2) auto
  then have q: "unat (ucast (3932160 div ?c) :: u16) = q"
    by (simp add: q_def unsigned_ucast_eq unat_div take_bit_nat_eq_self)
  have cr: "unat ?c * unat rpm \<le> ?K" "?K < (unat ?c + 1) * unat rpm"
    using c r(1) by (simp_all add: div_times_less_eq_dividend dividend_less_div_times)
  have qc: "q * unat ?c \<le> ?K" by (simp add: q_def)
  have "unat rpm \<le> q"
    unfolding q_def using cr(1) c0 by (simp add: less_eq_div_iff_mult_less_eq mult.commute)
  moreover have "q * (?K - unat rpm) \<le> ?K * unat rpm"
  proof -
    have "?K - unat rpm \<le> unat ?c * unat rpm" using cr(2) by simp
    then have "q * (?K - unat rpm) \<le> (q * unat ?c) * unat rpm" by (simp add: mult.assoc)
    also have "\<dots> \<le> ?K * unat rpm" using qc by (intro mult_right_mono) auto
    finally show ?thesis .
  qed
  ultimately show ?thesis using g q by (simp add: word_le_nat_alt)
qed

theorem rpm_roundtrip_witness: "get_regs_from_rpm 1500 = (81, 232) \<and> (\<exists>r. get_rpm 81 232 = Some r \<and> 1500 \<le> r)"
proof -
  have "get_regs_from_rpm 1500 = (81, 232)" by (simp add: get_regs_from_rpm_def Let_def)
  then show ?thesis using rpm_roundtrip [of 1500 81 232] by auto
qed

text \<open>
  The statuses of the three fans are the transposed status registers: bit 0 of a fan's status is its bit in
  the stall register, bit 1 in the spin-up register, bit 2 in the drive-fail register, and nothing else is set.
\<close>

theorem fan_statuses_bits:
  "(bit (fst (fan_statuses stall spin fail)) n \<longleftrightarrow>
      n = 0 \<and> bit stall 0 \<or> n = 1 \<and> bit spin 0 \<or> n = 2 \<and> bit fail 0) \<and>
   (bit (fst (snd (fan_statuses stall spin fail))) n \<longleftrightarrow>
      n = 0 \<and> bit stall 1 \<or> n = 1 \<and> bit spin 1 \<or> n = 2 \<and> bit fail 1) \<and>
   (bit (snd (snd (fan_statuses stall spin fail))) n \<longleftrightarrow>
      n = 0 \<and> bit stall 2 \<or> n = 1 \<and> bit spin 2 \<or> n = 2 \<and> bit fail 2)"
proof -
  have b: "bit (1 :: u8) m \<longleftrightarrow> m = 0" "bit (2 :: u8) m \<longleftrightarrow> m = 1" "bit (4 :: u8) m \<longleftrightarrow> m = 2" for m
    using bit_exp_iff [where 'a = u8, of 1 m] bit_exp_iff [where 'a = u8, of 2 m] by (auto simp: bit_1_iff)
  show ?thesis
    unfolding fan_statuses_def fst_conv snd_conv bit_or_iff bit_and_iff bit_push_bit_iff bit_drop_bit_eq b comp_def
    by (auto simp: numeral_2_eq_2)
qed

text \<open>
  On a board whose I2C controller reports a missing acknowledgement, as it does without a fan controller,
  every speed reading divides by zero: the registers read as 0 and \<open>get_rpm\<close> does not check the count.
\<close>

theorem fan_tach_faults:
  assumes "tsc_timer io cyc k s" "\<And>w. fst (io_inb io I2C_STAT_REG w) AND 0x10 \<noteq> 0"
  shows "llama_get_fan1_tach_rpm io s = None \<and> llama_get_fan2_tach_rpm io s = None \<and>
    llama_get_fan3_tach_rpm io s = None"
proof -
  have "fan_tach_rpm io h l s = None" for h l
  proof -
    obtain s1 where 1: "emc_get_reg_byte io h s = Some (0, s1)" "tsc_timer io cyc k s1"
      using tsc.emc_get_reg_byte_absent [OF assms, of h] by (auto simp: returns_def)
    obtain s2 where "emc_get_reg_byte io l s1 = Some (0, s2)"
      using tsc.emc_get_reg_byte_absent [OF 1(2) assms(2), of l] by (auto simp: returns_def)
    then show ?thesis using 1 by (simp add: fan_tach_rpm_def get_rpm_def)
  qed
  then show ?thesis
    by (simp add: llama_get_fan1_tach_rpm_def llama_get_fan2_tach_rpm_def llama_get_fan3_tach_rpm_def)
qed

theorem fan_tach_faults_witness:
  "llama_get_fan1_tach_rpm (clock_sim\<lparr>io_inb := (\<lambda>port w. (0x31, w + 400))\<rparr>)
     \<lparr>TimerKHz = 5000, TimerPort = 0, ShiftTSC = 5, TimerLast = 0, wd = 0\<rparr> = None"
proof -
  let ?io = "clock_sim\<lparr>io_inb := (\<lambda>port w. (0x31, w + 400))\<rparr>"
  have "tsc_timer ?io id 5 \<lparr>TimerKHz = 5000, TimerPort = 0, ShiftTSC = 5, TimerLast = 0, wd = 0 :: nat\<rparr>"
    using clock_sim_tsc by (simp add: tsc_timer_def tsc_clock_def clock_sim_def KHZ_MAX_def gap_def)
  moreover have "fst (io_inb ?io I2C_STAT_REG w) AND 0x10 \<noteq> 0" for w by simp
  ultimately show ?thesis using fan_tach_faults by blast
qed

end
