(* ===== verification/Speaker.thy ===== *)
theory Speaker
  imports Clock
begin

text \<open>
  Tones and tunes on the PC speaker, \<open>seabios/src/llama/llama_speaker.c\<close>. The divisor of the
  timer's channel 2 is a quotient by the frequency; a frequency of 0 raises the divide error.
\<close>

definition speaker_enable :: "'w io \<Rightarrow> u16 \<Rightarrow> ('w, 'z) mach_scheme \<Rightarrow> ('w, 'z) mach_scheme option" where
  "speaker_enable io freq s =
     (if freq = 0 then None
      else let reg16 = ucast (1193180 div ucast freq :: u32) :: u16;
               s = outb io 0xb6 PORT_PIT_MODE s;
               s = outb io (ucast (reg16 AND 0x00ff)) PORT_PIT_COUNTER2 s;
               s = outb io (ucast (drop_bit 8 reg16)) PORT_PIT_COUNTER2 s
           in case inb io PORT_PS2_CTRLB s of (v, s) \<Rightarrow>
              Some (outb io (v OR 0x03) PORT_PS2_CTRLB s))"

definition speaker_disable :: "'w io \<Rightarrow> ('w, 'z) mach_scheme \<Rightarrow> ('w, 'z) mach_scheme" where
  "speaker_disable io s =
     (case inb io PORT_PS2_CTRLB s of (v, s) \<Rightarrow> outb io (v AND 0xfc) PORT_PS2_CTRLB s)"

definition speaker_tone :: "'w io \<Rightarrow> u16 \<Rightarrow> u32 \<Rightarrow> ('w, 'z) mach_scheme \<Rightarrow> ('w, 'z) mach_scheme option"
where
  "speaker_tone io freq duration s =
     do {
       s \<leftarrow> speaker_enable io freq s;
       s \<leftarrow> mdelay io duration s;
       Some (speaker_disable io s)
     }"

definition llama_play_ducks_tune :: "'w io \<Rightarrow> ('w, 'z) mach_scheme \<Rightarrow> ('w, 'z) mach_scheme option" where
  "llama_play_ducks_tune io s =
     do {
       s \<leftarrow> speaker_tone io 784 40 s;
       s \<leftarrow> mdelay io 40 s;
       s \<leftarrow> speaker_tone io 784 40 s;
       s \<leftarrow> mdelay io 40 s;
       s \<leftarrow> speaker_tone io 622 40 s;
       s \<leftarrow> mdelay io (40 + 80) s;
       s \<leftarrow> speaker_tone io 622 40 s;
       s \<leftarrow> mdelay io (40 + 80) s;
       s \<leftarrow> speaker_tone io 466 40 s;
       s \<leftarrow> mdelay io 40 s;
       s \<leftarrow> speaker_tone io 466 40 s;
       s \<leftarrow> mdelay io 40 s;
       s \<leftarrow> speaker_tone io 466 40 s;
       s \<leftarrow> mdelay io (40 + 80) s;
       s \<leftarrow> speaker_tone io 622 40 s;
       s \<leftarrow> mdelay io (40 + 80) s;
       speaker_tone io 523 40 s
     }"

definition mushroom_notes :: "u16 list" where
  "mushroom_notes =
     [523, 392, 523, 659, 784, 1047, 784, 415, 523, 622, 830, 622, 830, 1047, 1245, 1661, 1245,
      932, 1175, 1397, 1865, 1397, 1865, 2349, 2794, 3729, 2794]"

fun play_notes :: "'w io \<Rightarrow> u16 list \<Rightarrow> u32 \<Rightarrow> ('w, 'z) mach_scheme \<Rightarrow> ('w, 'z) mach_scheme option" where
  "play_notes io [] duration s = Some s"
| "play_notes io (f # fs) duration s =
     do { s \<leftarrow> speaker_tone io f duration s; play_notes io fs duration s }"

definition llama_play_mushroom_tune :: "'w io \<Rightarrow> ('w, 'z) mach_scheme \<Rightarrow> ('w, 'z) mach_scheme option"
where
  "llama_play_mushroom_tune io s = play_notes io mushroom_notes 38 s"

section \<open>Every tune ends\<close>

context timed_machine
begin

lemma speaker_tone_returns [runs]:
  assumes "ok s" "freq \<noteq> 0" "unat duration \<le> DELAY_MAX"
  shows "returns ok (speaker_tone io freq duration s)"
proof -
  have "returns ok (speaker_enable io freq s)"
    using assms(1,2) by (auto simp: speaker_enable_def returns_def Let_def inb_def outb_def world split: prod.splits)
  moreover have "ok (speaker_disable io s)" if "ok s" for s
    using that by (auto simp: speaker_disable_def inb_def outb_def world split: prod.splits)
  ultimately show ?thesis
    unfolding speaker_tone_def
    by (blast intro: returns_bind returns_Some mdelay_returns assms(3))
qed

lemma ducks_returns [runs]: "ok s \<Longrightarrow> returns ok (llama_play_ducks_tune io s)"
  unfolding llama_play_ducks_tune_def
  by (assumption | rule runs | (simp add: DELAY_MAX_def; fail))+

lemma play_notes_returns:
  "ok s \<Longrightarrow> \<forall>f \<in> set fs. f \<noteq> 0 \<Longrightarrow> unat duration \<le> DELAY_MAX \<Longrightarrow> returns ok (play_notes io fs duration s)"
proof (induction fs arbitrary: s)
  case (Cons f fs)
  have "returns ok (play_notes io fs duration s)" if "ok s" for s
    using Cons that by simp
  then show ?case
    unfolding play_notes.simps using Cons.prems
    by (intro returns_bind [where R = ok]) (auto intro: speaker_tone_returns)
qed (simp add: returns_Some)

lemma mushroom_returns [runs]: "ok s \<Longrightarrow> returns ok (llama_play_mushroom_tune io s)"
  unfolding llama_play_mushroom_tune_def
  by (rule play_notes_returns) (auto simp: mushroom_notes_def DELAY_MAX_def)

end

end
