(* ===== verification/Output.thy ===== *)
theory Output
  imports Machine
begin

text \<open>
  The formatted output of the firmware, \<open>seabios/src/output.c\<close>: the interpreter of format strings,
  output to the screen and to a buffer. The characters that \<open>bvprintf\<close> hands to \<open>putc\<close> are the
  value of the functions here; each \<open>putc\<close> callback then consumes them in order.

  A C string is a \<open>string\<close> without its terminating NUL. The debug ports are not modelled.
\<close>

section \<open>Numbers\<close>

function putuint :: "u32 \<Rightarrow> string" where
  "putuint val = (let digit = char_of (unat (val mod 10) + 48)
                  in if val div 10 = 0 then [digit] else putuint (val div 10) @ [digit])"
  by pat_completeness auto
termination
proof (relation "measure unat", goal_cases)
  case 1 show ?case by simp
next
  case (2 val d)
  then have "val \<noteq> 0" by auto
  then show ?case by (simp add: unat_div unat_gt_0)
qed

declare putuint.simps [simp del]

definition putsinglehex :: "u32 \<Rightarrow> char" where
  "putsinglehex val = (if val \<le> 9 then char_of (unat (48 + val)) else char_of (unat (97 + val - 10)))"

text \<open>The cases of \<open>puthex\<close> fall through, so a width of n prints the n lowest digits.\<close>

definition puthex :: "u32 \<Rightarrow> int \<Rightarrow> string" where
  "puthex val width =
     (let n = (if 1 \<le> width \<and> width \<le> 7 then nat width else 8)
      in map (\<lambda>i. putsinglehex (drop_bit (4 * i) val AND 0xf)) (rev [0..<n]))"

function hex_digits :: "u32 \<Rightarrow> int \<Rightarrow> int" where
  "hex_digits tmp count =
     (let tmp = drop_bit 4 tmp in if tmp \<noteq> 0 then hex_digits tmp (count + 1) else count)"
  by pat_completeness auto
termination
proof (relation "measure (\<lambda>(tmp, count). unat tmp)", goal_cases)
  case 1 show ?case by simp
next
  case (2 tmp count x)
  then have "tmp \<noteq> 0" by auto
  with 2 show ?case by (simp add: unat_drop_bit_eq drop_bit_eq_div unat_div unat_gt_0)
qed

declare hex_digits.simps [simp del]

definition putprettyhex :: "u32 \<Rightarrow> int \<Rightarrow> char \<Rightarrow> string" where
  "putprettyhex val width padchar =
     (let count = hex_digits val 1
      in replicate (nat (width - count)) padchar @ puthex val count)"

section \<open>Format strings\<close>

text \<open>
  The variable arguments are a list; taking an argument of the wrong kind or one that is not there is
  undefined behaviour in C (\<open>None\<close>). An \<open>s32\<close> is kept as the word of its bits.
\<close>

datatype printf_arg = PInt u32 | PStr string

fun va_int :: "printf_arg list \<Rightarrow> (u32 \<times> printf_arg list) option" where
  "va_int (PInt v # args) = Some (v, args)"
| "va_int _ = None"

fun va_str :: "printf_arg list \<Rightarrow> (string \<times> printf_arg list) option" where
  "va_str (PStr t # args) = Some (t, args)"
| "va_str _ = None"

definition isdigit :: "char \<Rightarrow> bool" where
  "isdigit c \<longleftrightarrow> (of_char c :: u8) - 48 < 10"

fun scan_width :: "string \<Rightarrow> int \<Rightarrow> char \<Rightarrow> int \<times> char \<times> string" where
  "scan_width [] width padchar = (width, padchar, [])"
| "scan_width (c # n) width padchar =
     (if \<not> isdigit c then (width, padchar, c # n)
      else if width = 0 \<and> c = CHR ''0'' then scan_width n width CHR ''0''
      else scan_width n (width * 10 + of_char c - 48) padchar)"

lemma scan_width_length: "scan_width n w p = (w', p', n') \<Longrightarrow> length n' \<le> length n"
  by (induction n w p rule: scan_width.induct) (auto split: if_splits)

definition skip_long :: "string \<Rightarrow> bool \<times> string" where
  "skip_long n =
     (case n of
        CHR ''l'' # n' \<Rightarrow> (case n' of CHR ''l'' # n'' \<Rightarrow> (True, n'') | _ \<Rightarrow> (False, n'))
      | _ \<Rightarrow> (False, n))"

lemma skip_long_length: "skip_long n = (l, n') \<Longrightarrow> length n' \<le> length n"
  by (auto simp: skip_long_def split: list.splits if_splits char.splits bool.splits)

text \<open>
  One conversion: \<open>n\<close> starts at the conversion character, \<open>s\<close> after the percent sign. The value is
  the output, the remaining arguments and where the format continues.
\<close>

definition skip_second :: "bool \<Rightarrow> printf_arg list \<Rightarrow> (u32 \<times> printf_arg list) option" where
  "skip_second is64 args = (if is64 then va_int args else Some (0, args))"

definition bvprintf_conv :: "string \<Rightarrow> bool \<Rightarrow> int \<Rightarrow> char \<Rightarrow> string \<Rightarrow> printf_arg list \<Rightarrow>
    (string \<times> printf_arg list \<times> string) option" where
  "bvprintf_conv n is64 field_width padchar s args =
     (case n of
        [] \<Rightarrow> Some (''%'', args, s)
      | c # n \<Rightarrow>
          if c = CHR ''%'' then Some (''%'', args, n)
          else if c = CHR ''d'' then do {
            (val, args) \<leftarrow> va_int args;
            (_, args) \<leftarrow> skip_second is64 args;
            Some (if sint val < 0 then CHR ''-'' # putuint (- val) else putuint val, args, n)
          }
          else if c = CHR ''u'' then do {
            (val, args) \<leftarrow> va_int args;
            (_, args) \<leftarrow> skip_second is64 args;
            Some (putuint val, args, n)
          }
          else if c = CHR ''p'' then do {
            (val, args) \<leftarrow> va_int args;
            Some (''0x'' @ puthex val 8, args, n)
          }
          else if c = CHR ''x'' then do {
            (val, args) \<leftarrow> va_int args;
            (upper, args) \<leftarrow> skip_second is64 args;
            Some (if upper \<noteq> 0
                  then putprettyhex upper (field_width - 8) padchar @ puthex val 8
                  else putprettyhex val field_width padchar, args, n)
          }
          else if c = CHR ''c'' then do {
            (val, args) \<leftarrow> va_int args;
            Some ([char_of (unat val mod 256)], args, n)
          }
          else if c = CHR ''.'' then
            (case n of
               CHR ''s'' # n \<Rightarrow> do {
                 (sarg, args) \<leftarrow> va_str args;
                 Some (sarg, args, n)
               }
             | _ \<Rightarrow> Some ('''', args, n))
          else if c = CHR ''s'' then do {
            (sarg, args) \<leftarrow> va_str args;
            Some (sarg, args, n)
          }
          else Some (''%'', args, s))"

lemma bvprintf_conv_length:
  assumes "bvprintf_conv n is64 w p s args = Some (out, args', r)" "length n \<le> length s"
  shows "length r \<le> length s"
  using assms
  by (auto simp: bvprintf_conv_def bind_eq_Some_conv
        split: list.splits if_splits char.splits bool.splits)

function bvprintf :: "string \<Rightarrow> printf_arg list \<Rightarrow> string option" where
  "bvprintf [] args = Some ''''"
| "bvprintf (c # s) args =
     (if c \<noteq> CHR ''%'' then map_option (\<lambda>out. c # out) (bvprintf s args)
      else case scan_width s 0 CHR '' '' of (field_width, padchar, n) \<Rightarrow>
        case skip_long n of (is64, n) \<Rightarrow>
        case bvprintf_conv n is64 field_width padchar s args of
          None \<Rightarrow> None
        | Some (out, args, r) \<Rightarrow> map_option (\<lambda>rest. out @ rest) (bvprintf r args))"
  by pat_completeness auto
termination
proof (relation "measure (\<lambda>(s, args). length s)", goal_cases)
  case (3 c s args fw pn pad n is64 n' out r)
  then show ?case
    by (auto simp: less_Suc_eq_le
        dest!: sym [of _ "scan_width _ _ _"] sym [of _ "skip_long _"] scan_width_length skip_long_length
        dest: bvprintf_conv_length)
qed simp_all

declare bvprintf.simps [simp del]

section \<open>To a buffer\<close>

text \<open>
  \<open>putc_str\<close> drops what does not fit into the \<open>size\<close> bytes of the buffer; \<open>snprintf\<close> then
  writes the NUL after the output, or over its last character. The list is the buffer up to that NUL.
\<close>

definition putc_str :: "nat \<Rightarrow> string \<Rightarrow> char \<Rightarrow> string" where
  "putc_str sz buf c = (if length buf \<ge> sz then buf else buf @ [c])"

definition snprintf :: "nat \<Rightarrow> string \<Rightarrow> printf_arg list \<Rightarrow> (string \<times> nat) option" where
  "snprintf sz fmt args =
     (if sz = 0 then Some ('''', 0)
      else do {
        out \<leftarrow> bvprintf fmt args;
        let buf = foldl (putc_str sz) '''' out;
        let len = (if length buf \<ge> sz then sz - 1 else length buf);
        Some (take len buf, len)
      })"

section \<open>To the screen\<close>

definition screenc :: "'w io \<Rightarrow> char \<Rightarrow> ('w, 'z) mach_scheme \<Rightarrow> ('w, 'z) mach_scheme" where
  "screenc io c s =
     snd (call16_int io 0x10
       (bregs_zero\<lparr>br_flags := F_IF, br_ah := 0x0e, br_al := of_char c, br_bl := 0x07\<rparr>) s)"

definition screen_putc :: "'w io \<Rightarrow> char \<Rightarrow> ('w, 'z) mach_scheme \<Rightarrow> ('w, 'z) mach_scheme" where
  "screen_putc io c s =
     (let s = (if c = CHR 0x0A then screenc io (CHR 0x0D) s else s) in screenc io c s)"

definition printf :: "'w io \<Rightarrow> string \<Rightarrow> printf_arg list \<Rightarrow> ('w, 'z) mach_scheme \<Rightarrow>
    ('w, 'z) mach_scheme option" where
  "printf io fmt args s =
     do {
       out \<leftarrow> bvprintf fmt args;
       Some (fold (screen_putc io) out s)
     }"

section \<open>What the formats print\<close>

lemma bvprintf_literal: "CHR ''%'' \<notin> set fmt \<Longrightarrow> bvprintf fmt args = Some fmt"
  by (induction fmt) (auto simp: bvprintf.simps)

lemma bvprintf_d:
  "CHR ''%'' \<notin> set rest \<Longrightarrow>
   bvprintf (''%d'' @ rest) [PInt v] = Some ((if sint v < 0 then CHR ''-'' # putuint (- v) else putuint v) @ rest)"
  by (simp add: bvprintf.simps isdigit_def skip_long_def bvprintf_conv_def skip_second_def bvprintf_literal)

lemma foldl_putc_str: "length buf \<le> sz \<Longrightarrow> foldl (putc_str sz) buf out = take sz (buf @ out)"
proof (induction out arbitrary: buf)
  case (Cons c out)
  show ?case
  proof (cases "length buf < sz")
    case True
    then obtain k where "sz = Suc (length buf + k)" using less_imp_Suc_add by blast
    then show ?thesis using Cons by (simp add: putc_str_def)
  next
    case False
    then show ?thesis using Cons by (simp add: putc_str_def)
  qed
qed simp

text \<open>The buffer holds the output, cut to leave room for the NUL.\<close>

lemma snprintf_spec [code]:
  "snprintf sz fmt args =
     (if sz = 0 then Some ('''', 0)
      else map_option (\<lambda>out. (take (sz - 1) out, min (length out) (sz - 1))) (bvprintf fmt args))"
proof (cases "sz = 0")
  case False
  have len: "(if sz \<le> length (take sz out) then sz - 1 else length (take sz out)) = min (length out) (sz - 1)"
    for out :: string
    using False by auto
  show ?thesis
    using False by (cases "bvprintf fmt args") (simp_all add: snprintf_def foldl_putc_str Let_def len)
qed (simp add: snprintf_def)

section \<open>Decimal digits\<close>

fun decimal :: "nat \<Rightarrow> string" where
  "decimal n = (if n < 10 then [char_of (n + 48)] else decimal (n div 10) @ [char_of (n mod 10 + 48)])"

declare decimal.simps [simp del]

lemma putuint_decimal: "putuint val = decimal (unat val)"
proof (induction val rule: putuint.induct)
  case (1 val)
  have d: "val div 10 = 0 \<longleftrightarrow> unat val < 10"
    by (simp add: word_unat_eq_iff unat_div div_eq_0_iff)
  show ?case
  proof (cases "val div 10 = 0")
    case True
    then show ?thesis using d
      by (simp add: putuint.simps [of val] decimal.simps [of "unat val"] unat_mod)
  next
    case False
    then show ?thesis using 1 d
      by (simp add: putuint.simps [of val] decimal.simps [of "unat val"] unat_mod unat_div)
  qed
qed

lemma unat_sint:
  "0 \<le> sint (v :: u32) \<Longrightarrow> unat v = nat (sint v)" "sint v < 0 \<Longrightarrow> unat (- v) = nat (- sint v)"
proof -
  have b: "- (2 ^ 31) \<le> sint v" "sint v < 2 ^ 31"
    using sint_ge [of v] sint_lt [of v] by simp_all
  have v: "v = word_of_int (sint v)" "- v = word_of_int (- sint v)" by simp_all
  have u: "unat (word_of_int k :: u32) = nat (take_bit 32 k)" for k
    by (simp add: unat_eq_nat_uint uint_word_of_int take_bit_eq_mod)
  show "0 \<le> sint v \<Longrightarrow> unat v = nat (sint v)"
    using b by (subst v(1), subst u) (simp add: take_bit_int_eq_self)
  show "sint v < 0 \<Longrightarrow> unat (- v) = nat (- sint v)"
    using b by (subst v(2), subst u) (simp add: take_bit_int_eq_self)
qed

section \<open>Properties\<close>

text \<open>
  \<open>snprintf\<close> never writes past its buffer and loses only what does not fit: the buffer holds the
  first \<open>size - 1\<close> characters of what the format prints, and the returned length is theirs.
\<close>

theorem snprintf_truncates:
  "snprintf sz fmt args =
     (if sz = 0 then Some ('''', 0)
      else map_option (\<lambda>out. (take (sz - 1) out, min (length out) (sz - 1))) (bvprintf fmt args))"
  by (rule snprintf_spec)

text \<open>
  \<open>%d\<close> prints the signed decimal number and nothing else, for every value down to the most
  negative one; a field width in the format is read and ignored.
\<close>

theorem printf_decimal:
  "bvprintf ''%d'' [PInt v] =
     Some (if 0 \<le> sint v then decimal (nat (sint v)) else CHR ''-'' # decimal (nat (- sint v))) \<and>
   bvprintf ''  %4d'' [PInt v] = map_option (\<lambda>out. ''  '' @ out) (bvprintf ''%d'' [PInt v])"
proof -
  have "bvprintf ''  %4d'' [PInt v] = map_option (\<lambda>out. ''  '' @ out) (bvprintf ''%d'' [PInt v])"
    by (simp add: bvprintf.simps isdigit_def skip_long_def bvprintf_conv_def skip_second_def)
  then show ?thesis
    using bvprintf_d [of "[]" v] by (simp add: putuint_decimal unat_sint)
qed

end
