(* ===== verification/Llama_Boot.thy ===== *)
theory Llama_Boot
  imports Cs4237 Emc2303 Speaker Output
begin

text \<open>
  The board's start-up, \<open>seabios/src/llama/llama_boot.c\<close>: it reports the processor and the memory,
  applies the cache and serial-clock settings, and initialises the audio codec, the fans and the
  boot tune. \<open>LegacyRamSize\<close> is a variable of \<open>malloc.c\<close>.
\<close>

section \<open>Frequency and memory\<close>

text \<open>The unsigned division of the frequency raises the divide error for a zero divisor (\<open>None\<close>).\<close>

definition cpu_freq_of_strap :: "u32 \<Rightarrow> u32 option" where
  "cpu_freq_of_strap strapreg2 =
     (let cdiv = drop_bit 12 strapreg2 AND 0x03;
          cms = drop_bit 8 strapreg2 AND 0x03;
          cns = strapreg2 AND 0xFF;
          crs = drop_bit 10 strapreg2 AND 0x03;
          divisor = cms * push_bit (unat crs) 1 * (cdiv + 2)
      in if divisor = 0 then None else Some (25 * cns div divisor))"

definition get_current_cpu_freq :: "'w io \<Rightarrow> ('w, 'z) mach_scheme \<Rightarrow>
    (u32 \<times> ('w, 'z) mach_scheme) option" where
  "get_current_cpu_freq io s =
     (case llama_nbsb_read32 io vx86ex_nb vx86ex_nbsb_func0 0x64 s of (strapreg2, s) \<Rightarrow>
        map_option (\<lambda>freq. (freq, s)) (cpu_freq_of_strap strapreg2))"

definition get_current_ram_size :: "u32 \<Rightarrow> u32" where
  "get_current_ram_size LegacyRamSize =
     (let ram_size_kb = LegacyRamSize div 1024;
          ram_size_mb = ram_size_kb div 1024
      in if ram_size_mb > 1800 then 2048
         else if ram_size_mb > 800 then 1024
         else if ram_size_mb > 450 then 512
         else if ram_size_mb > 200 then 256
         else if ram_size_mb > 100 then 128
         else if ram_size_mb > 50 then 64
         else if ram_size_mb > 20 then 32
         else if ram_size_mb > 10 then 16
         else 8)"

section \<open>Caches and serial clocks\<close>

definition apply_l1_cache :: "'w io \<Rightarrow> llama_bios_settings \<Rightarrow> ('w, 'z) mach_scheme \<Rightarrow>
    ('w, 'z) mach_scheme" where
  "apply_l1_cache io lbs s =
     (if se_value (l1_cache lbs) = 0
      then (let cr0 = io_cr0 io (wd s);
                s = s\<lparr>wd := io_setcr0 io (cr0 OR (push_bit 30 1 OR push_bit 29 1)) (wd s)\<rparr>
            in s\<lparr>wd := io_wbinvd io (wd s)\<rparr>)
      else s)"

definition apply_l2_cache :: "'w io \<Rightarrow> llama_bios_settings \<Rightarrow> ('w, 'z) mach_scheme \<Rightarrow>
    ('w, 'z) mach_scheme" where
  "apply_l2_cache io lbs s =
     (if se_value (l2_cache lbs) = 0
      then (case llama_nbsb_read8 io vx86ex_nb vx86ex_nbsb_func1 0xE8 s of (nb1_e8, s) \<Rightarrow>
            llama_nbsb_write8 io vx86ex_nb vx86ex_nbsb_func1 0xE8 (nb1_e8 AND NOT 0x03) s)
      else s)"

definition set_sbclk :: "'w io \<Rightarrow> ('w, 'z) mach_scheme \<Rightarrow> ('w, 'z) mach_scheme" where
  "set_sbclk io s =
     (case inl io 0x0cfc (outl io 0x800038c0 0x0cf8 s) of (c0, s) \<Rightarrow>
      outl io (c0 OR push_bit 31 1) 0x0cfc s)"

definition uart_clock_bits :: "u8 \<Rightarrow> u32 \<Rightarrow> u32" where
  "uart_clock_bits index cntr =
     (let cntr = cntr OR push_bit 22 1
      in if index > 1 then cntr OR push_bit 20 1 else cntr)"

definition set_uart_clock :: "'w io \<Rightarrow> u8 \<Rightarrow> u16 \<Rightarrow> ('w, 'z) mach_scheme \<Rightarrow> ('w, 'z) mach_scheme" where
  "set_uart_clock io index port s =
     (if index > 0
      then (case inl io port s of (cntr, s) \<Rightarrow> outl io (uart_clock_bits index cntr) port s)
      else s)"

section \<open>The report on the screen\<close>

definition enabled_text :: "u8 \<Rightarrow> string" where
  "enabled_text v = (if v \<noteq> 0 then ''Enabled'' else ''Disabled'')"

definition newline :: string where "newline = [CHR 0x0A]"

definition print_all :: "'w io \<Rightarrow> (string \<times> printf_arg list) list \<Rightarrow> ('w, 'z) mach_scheme \<Rightarrow>
    ('w, 'z) mach_scheme option" where
  "print_all io = for_each (\<lambda>(fmt, args). printf io fmt args)"

definition print_report :: "'w io \<Rightarrow> llama_bios_settings \<Rightarrow> u32 \<Rightarrow> u32 \<Rightarrow> ('w, 'z) mach_scheme \<Rightarrow>
    ('w, 'z) mach_scheme option" where
  "print_report io lbs cpu_freq ram_size =
     print_all io
       ([(newline, []),
         (''CPU: DMP Vortex86EX     '', [])] @
        (if cpu_freq < 100 then [('' '', [])] else []) @
        [(''%d MHz'' @ newline, [PInt cpu_freq]),
         (''RAM: DDR3              '', [])] @
        (if ram_size < 1000 then [('' '', [])] else []) @
        [(''%d MB'' @ newline, [PInt ram_size]),
         (''L1 Cache: '', []),
         (enabled_text (se_value (l1_cache lbs)), []),
         (newline, []),
         (''L2 Cache: '', []),
         (enabled_text (se_value (l2_cache lbs)), [])])"

section \<open>The devices\<close>

definition init_audio :: "'w io \<Rightarrow> llama_bios_settings \<Rightarrow> ('w, 'z) mach_scheme \<Rightarrow>
    (llama_bios_settings \<times> ('w, 'z) mach_scheme) option" where
  "init_audio io lbs s =
     do {
       s \<leftarrow> cs4237_hostload io lbs 1 s;
       s \<leftarrow> cs4237_slam_configuration io lbs s;
       (present, s) \<leftarrow> cs4237_test_opl3 io lbs s;
       let lbs = lbs\<lparr>cs4237_ext_fm_present := present\<rparr>;
       s \<leftarrow> (if se_value (cs4237_ext_fm lbs) = 0 \<or> cs4237_ext_fm_present lbs = 0
             then do {
               s \<leftarrow> cs4237_hostload io lbs 0 s;
               cs4237_slam_configuration io lbs s
             }
             else Some s);
       s \<leftarrow> cs4237_setup_mixer io lbs s;
       s \<leftarrow> (if se_value (cs4237_digital lbs) \<noteq> 0 then cs4237_enable_digital_output io lbs s
             else Some s);
       Some (lbs, s)
     }"

definition print_audio :: "'w io \<Rightarrow> llama_bios_settings \<Rightarrow> ('w, 'z) mach_scheme \<Rightarrow>
    ('w, 'z) mach_scheme option" where
  "print_audio io lbs =
     print_all io
       [(newline @ newline @ ''Crystal CS4237 Initialized'' @ newline @
           ''FM Synthesizer:        '', []),
        (if se_value (cs4237_ext_fm lbs) \<noteq> 0 \<and> cs4237_ext_fm_present lbs \<noteq> 0
         then ''OPL3 module'' else ''Internal'', []),
        (newline @ ''Digital S/PDIF output: '', []),
        (enabled_text (se_value (cs4237_digital lbs)), []),
        (newline @ newline @ ''EMC2303 Fan Controller '', [])]"

definition init_fans :: "'w io \<Rightarrow> llama_bios_settings \<Rightarrow> ('w, 'z) mach_scheme \<Rightarrow>
    ('w, 'z) mach_scheme option" where
  "init_fans io lbs s =
     do {
       (product, s) \<leftarrow> llama_get_emc_product_id_reg io s;
       s \<leftarrow> (if product = 0x35
             then do {
               s \<leftarrow> printf io ''initialized'' [] s;
               (_, s) \<leftarrow> llama_set_fan1_target_rpm io (se_value (fan1_target_rpm lbs)) s;
               (_, s) \<leftarrow> llama_set_fan2_target_rpm io (se_value (fan2_target_rpm lbs)) s;
               (_, s) \<leftarrow> llama_set_fan3_target_rpm io (se_value (fan3_target_rpm lbs)) s;
               Some s
             }
             else printf io ''not found'' [] s);
       printf io (newline @ newline) [] s
     }"

definition play_boot_tune :: "'w io \<Rightarrow> llama_bios_settings \<Rightarrow> ('w, 'z) mach_scheme \<Rightarrow>
    ('w, 'z) mach_scheme option" where
  "play_boot_tune io lbs s =
     (if se_value (boot_tune_index lbs) = 1 then llama_play_ducks_tune io s
      else if se_value (boot_tune_index lbs) = 2 then llama_play_mushroom_tune io s
      else Some s)"

definition llama_boot :: "'w io \<Rightarrow> u32 \<Rightarrow> llama_bios_settings \<Rightarrow> ('w, 'z) mach_scheme \<Rightarrow>
    (llama_bios_settings \<times> ('w, 'z) mach_scheme) option" where
  "llama_boot io LegacyRamSize lbs s =
     do {
       (cpu_freq, s) \<leftarrow> get_current_cpu_freq io s;
       let ram_size = get_current_ram_size LegacyRamSize;
       let s = apply_l1_cache io lbs s;
       let s = apply_l2_cache io lbs s;
       let s = set_sbclk io s;
       let s = set_uart_clock io (se_value (com1_base_clock_index lbs)) 0x0c00 s;
       let s = set_uart_clock io (se_value (com2_base_clock_index lbs)) 0x0c04 s;
       s \<leftarrow> print_report io lbs cpu_freq ram_size s;
       (lbs, s) \<leftarrow> init_audio io lbs s;
       s \<leftarrow> print_audio io lbs s;
       s \<leftarrow> init_fans io lbs s;
       s \<leftarrow> play_boot_tune io lbs s;
       Some (lbs, s)
     }"

section \<open>The start-up ends\<close>

context timed_machine
begin

lemma printf_ok [runs]:
  assumes "ok s" "bvprintf fmt args = Some out"
  shows "returns ok (printf io fmt args s)"
proof -
  have "ok (screen_putc io c s)" if "ok s" for c s
    using that by (simp add: screen_putc_def screenc_def Let_def)
  then have "ok (fold (screen_putc io) cs s)" if "ok s" for cs s
    using that by (induction cs arbitrary: s) simp_all
  then show ?thesis using assms by (simp add: printf_def returns_def)
qed

lemma print_all_returns:
  "ok s \<Longrightarrow> \<forall>(fmt, args) \<in> set ps. bvprintf fmt args \<noteq> None \<Longrightarrow> returns ok (print_all io ps s)"
  unfolding print_all_def
proof (induction ps arbitrary: s)
  case (Cons p ps)
  obtain fmt args out where p: "p = (fmt, args)" "bvprintf fmt args = Some out"
    using Cons.prems(2) by (cases p) auto
  show ?case
    unfolding for_each.simps p(1) prod.case
    using Cons p by (intro returns_bind [OF printf_ok [OF Cons.prems(1) p(2)]]) auto
qed (simp add: returns_Some)

lemma print_report_returns [runs]: "ok s \<Longrightarrow> returns ok (print_report io lbs f r s)"
  unfolding print_report_def
  by (rule print_all_returns)
    (auto simp: newline_def enabled_text_def bvprintf_literal 
        bvprintf_d [of "'' MHz'' @ newline", unfolded newline_def, simplified]
        bvprintf_d [of "'' MB'' @ newline", unfolded newline_def, simplified])

lemma print_audio_returns [runs]: "ok s \<Longrightarrow> returns ok (print_audio io lbs s)"
  unfolding print_audio_def
  by (rule print_all_returns) (auto simp: newline_def enabled_text_def bvprintf_literal)

lemma apply_caches_ok [simp]:
  "ok s \<Longrightarrow> ok (apply_l1_cache io lbs s)" "ok s \<Longrightarrow> ok (apply_l2_cache io lbs s)"
  "ok s \<Longrightarrow> ok (set_sbclk io s)" "ok s \<Longrightarrow> ok (set_uart_clock io index port s)"
  by (simp_all add: apply_l1_cache_def apply_l2_cache_def set_sbclk_def set_uart_clock_def Let_def
      llama_nbsb_read8_def llama_nbsb_write8_def pci_in8_def pci_out8_def inl_def outl_def world
      split: prod.splits)

lemma init_audio_returns [runs]:
  "ok s \<Longrightarrow> returns (\<lambda>(lbs', s). ok s \<and> (\<exists>p. lbs' = lbs\<lparr>cs4237_ext_fm_present := p\<rparr>)) (init_audio io lbs s)"
  unfolding init_audio_def Let_def
  by (assumption | rule runs returns_prod | (auto; fail))+

lemma init_fans_returns [runs]: "ok s \<Longrightarrow> returns ok (init_fans io lbs s)"
  unfolding init_fans_def
  by (assumption | rule runs returns_prod | (simp add: bvprintf_literal newline_def; fail))+

lemma play_boot_tune_returns [runs]: "ok s \<Longrightarrow> returns ok (play_boot_tune io lbs s)"
  unfolding play_boot_tune_def by (assumption | rule runs | (simp; fail))+

lemma llama_boot_returns:
  assumes "ok s" "get_current_cpu_freq io s \<noteq> None"
  shows "returns (\<lambda>(lbs', s). ok s \<and> (\<exists>p. lbs' = lbs\<lparr>cs4237_ext_fm_present := p\<rparr>))
    (llama_boot io ram lbs s)"
proof -
  obtain f s1 where f: "get_current_cpu_freq io s = Some (f, s1)" using assms(2) by auto
  then have ok1: "ok s1"
    using assms(1) by (auto simp: get_current_cpu_freq_def llama_nbsb_read32_def pci_in32_def
        inl_def outl_def world split: prod.splits)
  show ?thesis
    unfolding llama_boot_def Let_def f bind.bind_lunit prod.case
    by (assumption | rule runs returns_prod | (auto simp: ok1; fail))+
qed

end

section \<open>Properties\<close>

text \<open>
  C23. The start-up always ends: with the time-stamp counter as the clock and a strap register that
  gives a frequency, \<open>llama_boot\<close> returns, whatever the audio codec, the I2C controller, the
  fan controller, the OPL3 ports and the video BIOS answer; of the settings it changes nothing but the flag of
  the detected FM synthesizer.
\<close>

theorem llama_boot_ends:
  assumes "tsc_timer io cyc k s" "get_current_cpu_freq io s \<noteq> None"
  shows "\<exists>s' p. llama_boot io LegacyRamSize lbs s = Some (lbs\<lparr>cs4237_ext_fm_present := p\<rparr>, s') \<and>
    tsc_timer io cyc k s'"
  using tsc.llama_boot_returns [OF assms, of lbs LegacyRamSize] by (auto simp: returns_def)

text \<open>The clock of \<open>clock_sim\<close>, with a strap register that stands for 500 MHz.\<close>

definition boot_sim :: "nat io" where
  "boot_sim = clock_sim\<lparr>io_inl := (\<lambda>port w. (0x5278, w + 400))\<rparr>"

lemma boot_sim_tsc: "tsc_clock boot_sim id"
  using clock_sim_tsc by (simp add: tsc_clock_def boot_sim_def clock_sim_def)

theorem llama_boot_ends_witness:
  "\<exists>s' p. llama_boot boot_sim 0x1F000000 llama_bios_settings_default
     \<lparr>TimerKHz = 5000, TimerPort = 0, ShiftTSC = 5, TimerLast = 0, wd = 0\<rparr> =
     Some (llama_bios_settings_default\<lparr>cs4237_ext_fm_present := p\<rparr>, s')"
proof -
  let ?s = "\<lparr>TimerKHz = 5000, TimerPort = 0, ShiftTSC = 5, TimerLast = 0, wd = 0 :: nat\<rparr>"
  have "tsc_timer boot_sim id 5 ?s"
    by (simp add: tsc_timer_def boot_sim_tsc KHZ_MAX_def)
  moreover have "get_current_cpu_freq boot_sim ?s \<noteq> None"
    by (simp add: get_current_cpu_freq_def llama_nbsb_read32_def pci_in32_def inl_def outl_def boot_sim_def
        clock_sim_def cpu_freq_of_strap_def Let_def)
  ultimately show ?thesis
    using llama_boot_ends [of boot_sim id 5 ?s] by blast
qed

end
