(* ===== verification/Leds.thy ===== *)
theory Leds
  imports I2c
begin

text \<open>
  The controller of the status LEDs and of the disk clicker, an I2C slave:
  \<open>seabios/src/llama/llama_leds.c\<close>.
\<close>

definition LEDS_ADDR :: u8 where "LEDS_ADDR = 0x20"
definition LEDS_LED_ENABLED_REG :: u8 where "LEDS_LED_ENABLED_REG = 0x01"
definition LEDS_LED_INTENSITY_REG :: u8 where "LEDS_LED_INTENSITY_REG = 0x02"
definition LEDS_CLICK_ENABLED_REG :: u8 where "LEDS_CLICK_ENABLED_REG = 0x11"

definition leds_get_reg_byte :: "'w io \<Rightarrow> u8 \<Rightarrow> ('w, 'z) mach_scheme \<Rightarrow>
    (u8 \<times> ('w, 'z) mach_scheme) option" where
  "leds_get_reg_byte io reg s =
     do {
       (ok, s) \<leftarrow> andalso (i2c_start io LEDS_ADDR 0) (i2c_write io [reg]) s;
       if \<not> ok then Some (0, s)
       else do {
         s \<leftarrow> mdelay io 5 s;
         (ok, s) \<leftarrow> i2c_start io LEDS_ADDR 1 s;
         if \<not> ok then Some (0, s)
         else do {
           (ok, data, s) \<leftarrow> i2c_read io 1 s;
           Some (if ok then hd data else 0, s)
         }
       }
     }"

definition leds_set_reg_byte :: "'w io \<Rightarrow> u8 \<Rightarrow> u8 \<Rightarrow> ('w, 'z) mach_scheme \<Rightarrow>
    (bool \<times> ('w, 'z) mach_scheme) option" where
  "leds_set_reg_byte io reg reg_value s =
     do {
       (ok, s) \<leftarrow> andalso (i2c_start io LEDS_ADDR 0) (i2c_write io [reg]) s;
       if \<not> ok then Some (False, s)
       else do {
         s \<leftarrow> mdelay io 5 s;
         andalso (i2c_start io LEDS_ADDR 0) (i2c_write io [reg_value]) s
       }
     }"

definition llama_set_leds_enabled :: "'w io \<Rightarrow> u8 \<Rightarrow> ('w, 'z) mach_scheme \<Rightarrow>
    ('w, 'z) mach_scheme option" where
  "llama_set_leds_enabled io leds_enabled s =
     map_option snd (leds_set_reg_byte io LEDS_LED_ENABLED_REG leds_enabled s)"

definition llama_get_leds_enabled :: "'w io \<Rightarrow> ('w, 'z) mach_scheme \<Rightarrow>
    (u8 \<times> ('w, 'z) mach_scheme) option" where
  "llama_get_leds_enabled io = leds_get_reg_byte io LEDS_LED_ENABLED_REG"

definition llama_set_leds_intensity :: "'w io \<Rightarrow> u8 \<Rightarrow> ('w, 'z) mach_scheme \<Rightarrow>
    ('w, 'z) mach_scheme option" where
  "llama_set_leds_intensity io leds_intensity s =
     map_option snd (leds_set_reg_byte io LEDS_LED_INTENSITY_REG leds_intensity s)"

definition llama_get_leds_intensity :: "'w io \<Rightarrow> ('w, 'z) mach_scheme \<Rightarrow>
    (u8 \<times> ('w, 'z) mach_scheme) option" where
  "llama_get_leds_intensity io = leds_get_reg_byte io LEDS_LED_INTENSITY_REG"

definition llama_set_click_enabled :: "'w io \<Rightarrow> u8 \<Rightarrow> ('w, 'z) mach_scheme \<Rightarrow>
    ('w, 'z) mach_scheme option" where
  "llama_set_click_enabled io click_enabled s =
     map_option snd (leds_set_reg_byte io LEDS_CLICK_ENABLED_REG click_enabled s)"

definition llama_get_click_enabled :: "'w io \<Rightarrow> ('w, 'z) mach_scheme \<Rightarrow>
    (u8 \<times> ('w, 'z) mach_scheme) option" where
  "llama_get_click_enabled io = leds_get_reg_byte io LEDS_CLICK_ENABLED_REG"

section \<open>Every access ends\<close>

context timed_machine
begin

lemma leds_get_reg_byte_returns [runs]: "ok s \<Longrightarrow> returns (\<lambda>(v, s). ok s) (leds_get_reg_byte io reg s)"
  unfolding leds_get_reg_byte_def
  by (assumption | rule runs returns_prod | (simp add: DELAY_MAX_def; fail))+

lemma leds_set_reg_byte_returns [runs]: "ok s \<Longrightarrow> returns (\<lambda>(b, s). ok s) (leds_set_reg_byte io reg v s)"
  unfolding leds_set_reg_byte_def
  by (assumption | rule runs returns_prod | (simp add: DELAY_MAX_def; fail))+

end

end
