(* ===== verification/Handlers.thy ===== *)
theory Handlers
  imports Settings Leds Emc2303
begin

text \<open>
  The functions that the setup menu calls to read and change an option:
  \<open>seabios/src/llama/llama_bios_menu_handlers.c\<close>. The options of the settings structure are changed
  in memory and mark it as changed; a fan speed is also sent to the fan controller; the LEDs and the
  clicker have no copy in the structure, their controller holds the state.
\<close>

section \<open>Reading and changing a field\<close>

definition get_setting :: "(llama_bios_settings \<Rightarrow> 'v::len word setting_entry) \<Rightarrow> llama_bios_settings \<Rightarrow>
    's \<Rightarrow> (u16 \<times> 's) option" where
  "get_setting sel lbs s = Some (ucast (se_value (sel lbs)), s)"

definition set_setting :: "(llama_bios_settings \<Rightarrow> 'v setting_entry) \<Rightarrow>
    (('v setting_entry \<Rightarrow> 'v setting_entry) \<Rightarrow> llama_bios_settings \<Rightarrow> llama_bios_settings) \<Rightarrow>
    'v \<Rightarrow> llama_bios_settings \<Rightarrow> llama_bios_settings" where
  "set_setting sel upd val lbs =
     (if val \<noteq> se_value (sel lbs)
      then (upd (\<lambda>e. e\<lparr>se_value := val\<rparr>) lbs)\<lparr>has_changes := 1\<rparr>
      else lbs)"

definition set_fan_setting :: "(llama_bios_settings \<Rightarrow> u16 setting_entry) \<Rightarrow>
    ((u16 setting_entry \<Rightarrow> u16 setting_entry) \<Rightarrow> llama_bios_settings \<Rightarrow> llama_bios_settings) \<Rightarrow>
    (u16 \<Rightarrow> 's \<Rightarrow> (bool \<times> 's) option) \<Rightarrow> llama_bios_settings \<Rightarrow> u16 \<Rightarrow> 's \<Rightarrow>
    (llama_bios_settings \<times> 's) option" where
  "set_fan_setting sel upd set_target lbs value s =
     (if value \<noteq> se_value (sel lbs)
      then do {
        (ok, s) \<leftarrow> set_target value s;
        Some (set_setting sel upd value lbs, s)
      }
      else Some (lbs, s))"

section \<open>Getters\<close>

definition handler_get_cpu_freq_index :: "'w io \<Rightarrow> llama_bios_settings \<Rightarrow> ('w, 'z) mach_scheme \<Rightarrow>
    (u16 \<times> ('w, 'z) mach_scheme) option" where
  "handler_get_cpu_freq_index io = get_setting cpu_freq_index"

definition handler_get_l1_cache :: "'w io \<Rightarrow> llama_bios_settings \<Rightarrow> ('w, 'z) mach_scheme \<Rightarrow>
    (u16 \<times> ('w, 'z) mach_scheme) option" where
  "handler_get_l1_cache io = get_setting l1_cache"

definition handler_get_l2_cache :: "'w io \<Rightarrow> llama_bios_settings \<Rightarrow> ('w, 'z) mach_scheme \<Rightarrow>
    (u16 \<times> ('w, 'z) mach_scheme) option" where
  "handler_get_l2_cache io = get_setting l2_cache"

definition handler_get_boot_order_index :: "'w io \<Rightarrow> llama_bios_settings \<Rightarrow> ('w, 'z) mach_scheme \<Rightarrow>
    (u16 \<times> ('w, 'z) mach_scheme) option" where
  "handler_get_boot_order_index io = get_setting boot_order_index"

definition handler_get_usb_as_fixed_disks :: "'w io \<Rightarrow> llama_bios_settings \<Rightarrow> ('w, 'z) mach_scheme \<Rightarrow>
    (u16 \<times> ('w, 'z) mach_scheme) option" where
  "handler_get_usb_as_fixed_disks io = get_setting usb_as_fixed_disks"

definition handler_get_com1_base_clock_index :: "'w io \<Rightarrow> llama_bios_settings \<Rightarrow> ('w, 'z) mach_scheme \<Rightarrow>
    (u16 \<times> ('w, 'z) mach_scheme) option" where
  "handler_get_com1_base_clock_index io = get_setting com1_base_clock_index"

definition handler_get_com2_base_clock_index :: "'w io \<Rightarrow> llama_bios_settings \<Rightarrow> ('w, 'z) mach_scheme \<Rightarrow>
    (u16 \<times> ('w, 'z) mach_scheme) option" where
  "handler_get_com2_base_clock_index io = get_setting com2_base_clock_index"

definition handler_get_cs4237_wss_port :: "'w io \<Rightarrow> llama_bios_settings \<Rightarrow> ('w, 'z) mach_scheme \<Rightarrow>
    (u16 \<times> ('w, 'z) mach_scheme) option" where
  "handler_get_cs4237_wss_port io = get_setting cs4237_wss_port"

definition handler_get_cs4237_syn_port :: "'w io \<Rightarrow> llama_bios_settings \<Rightarrow> ('w, 'z) mach_scheme \<Rightarrow>
    (u16 \<times> ('w, 'z) mach_scheme) option" where
  "handler_get_cs4237_syn_port io = get_setting cs4237_syn_port"

definition handler_get_cs4237_sb_port :: "'w io \<Rightarrow> llama_bios_settings \<Rightarrow> ('w, 'z) mach_scheme \<Rightarrow>
    (u16 \<times> ('w, 'z) mach_scheme) option" where
  "handler_get_cs4237_sb_port io = get_setting cs4237_sb_port"

definition handler_get_cs4237_gamepad_port :: "'w io \<Rightarrow> llama_bios_settings \<Rightarrow> ('w, 'z) mach_scheme \<Rightarrow>
    (u16 \<times> ('w, 'z) mach_scheme) option" where
  "handler_get_cs4237_gamepad_port io = get_setting cs4237_gamepad_port"

definition handler_get_cs4237_mpu_port :: "'w io \<Rightarrow> llama_bios_settings \<Rightarrow> ('w, 'z) mach_scheme \<Rightarrow>
    (u16 \<times> ('w, 'z) mach_scheme) option" where
  "handler_get_cs4237_mpu_port io = get_setting cs4237_mpu_port"

definition handler_get_cs4237_ext_fm :: "'w io \<Rightarrow> llama_bios_settings \<Rightarrow> ('w, 'z) mach_scheme \<Rightarrow>
    (u16 \<times> ('w, 'z) mach_scheme) option" where
  "handler_get_cs4237_ext_fm io = get_setting cs4237_ext_fm"

definition handler_get_cs4237_digital :: "'w io \<Rightarrow> llama_bios_settings \<Rightarrow> ('w, 'z) mach_scheme \<Rightarrow>
    (u16 \<times> ('w, 'z) mach_scheme) option" where
  "handler_get_cs4237_digital io = get_setting cs4237_digital"

definition handler_get_mac_address_index :: "'w io \<Rightarrow> llama_bios_settings \<Rightarrow> ('w, 'z) mach_scheme \<Rightarrow>
    (u16 \<times> ('w, 'z) mach_scheme) option" where
  "handler_get_mac_address_index io = get_setting mac_address_index"

definition handler_get_fan1_target_rpm :: "'w io \<Rightarrow> llama_bios_settings \<Rightarrow> ('w, 'z) mach_scheme \<Rightarrow>
    (u16 \<times> ('w, 'z) mach_scheme) option" where
  "handler_get_fan1_target_rpm io = get_setting fan1_target_rpm"

definition handler_get_fan2_target_rpm :: "'w io \<Rightarrow> llama_bios_settings \<Rightarrow> ('w, 'z) mach_scheme \<Rightarrow>
    (u16 \<times> ('w, 'z) mach_scheme) option" where
  "handler_get_fan2_target_rpm io = get_setting fan2_target_rpm"

definition handler_get_fan3_target_rpm :: "'w io \<Rightarrow> llama_bios_settings \<Rightarrow> ('w, 'z) mach_scheme \<Rightarrow>
    (u16 \<times> ('w, 'z) mach_scheme) option" where
  "handler_get_fan3_target_rpm io = get_setting fan3_target_rpm"

definition handler_get_boot_tune_index :: "'w io \<Rightarrow> llama_bios_settings \<Rightarrow> ('w, 'z) mach_scheme \<Rightarrow>
    (u16 \<times> ('w, 'z) mach_scheme) option" where
  "handler_get_boot_tune_index io = get_setting boot_tune_index"

definition handler_get_leds_enabled :: "'w io \<Rightarrow> llama_bios_settings \<Rightarrow> ('w, 'z) mach_scheme \<Rightarrow>
    (u16 \<times> ('w, 'z) mach_scheme) option" where
  "handler_get_leds_enabled io lbs s = do { (v, s) \<leftarrow> llama_get_leds_enabled io s; Some (ucast v, s) }"

definition handler_get_leds_intensity :: "'w io \<Rightarrow> llama_bios_settings \<Rightarrow> ('w, 'z) mach_scheme \<Rightarrow>
    (u16 \<times> ('w, 'z) mach_scheme) option" where
  "handler_get_leds_intensity io lbs s = do { (v, s) \<leftarrow> llama_get_leds_intensity io s; Some (ucast v, s) }"

definition handler_get_click_enabled :: "'w io \<Rightarrow> llama_bios_settings \<Rightarrow> ('w, 'z) mach_scheme \<Rightarrow>
    (u16 \<times> ('w, 'z) mach_scheme) option" where
  "handler_get_click_enabled io lbs s = do { (v, s) \<leftarrow> llama_get_click_enabled io s; Some (ucast v, s) }"

section \<open>Setters\<close>

definition handler_set_cpu_freq_index :: "'w io \<Rightarrow> llama_bios_settings \<Rightarrow> u16 \<Rightarrow> ('w, 'z) mach_scheme \<Rightarrow>
    (llama_bios_settings \<times> ('w, 'z) mach_scheme) option" where
  "handler_set_cpu_freq_index io lbs value s =
     Some (set_setting cpu_freq_index cpu_freq_index_update (lo8 value) lbs, s)"

definition handler_set_l1_cache :: "'w io \<Rightarrow> llama_bios_settings \<Rightarrow> u16 \<Rightarrow> ('w, 'z) mach_scheme \<Rightarrow>
    (llama_bios_settings \<times> ('w, 'z) mach_scheme) option" where
  "handler_set_l1_cache io lbs value s =
     Some (set_setting l1_cache l1_cache_update (lo8 value) lbs, s)"

definition handler_set_l2_cache :: "'w io \<Rightarrow> llama_bios_settings \<Rightarrow> u16 \<Rightarrow> ('w, 'z) mach_scheme \<Rightarrow>
    (llama_bios_settings \<times> ('w, 'z) mach_scheme) option" where
  "handler_set_l2_cache io lbs value s =
     Some (set_setting l2_cache l2_cache_update (lo8 value) lbs, s)"

definition handler_set_boot_order_index :: "'w io \<Rightarrow> llama_bios_settings \<Rightarrow> u16 \<Rightarrow> ('w, 'z) mach_scheme \<Rightarrow>
    (llama_bios_settings \<times> ('w, 'z) mach_scheme) option" where
  "handler_set_boot_order_index io lbs value s =
     Some (set_setting boot_order_index boot_order_index_update (lo8 value) lbs, s)"

definition handler_set_usb_as_fixed_disks :: "'w io \<Rightarrow> llama_bios_settings \<Rightarrow> u16 \<Rightarrow> ('w, 'z) mach_scheme \<Rightarrow>
    (llama_bios_settings \<times> ('w, 'z) mach_scheme) option" where
  "handler_set_usb_as_fixed_disks io lbs value s =
     Some (set_setting usb_as_fixed_disks usb_as_fixed_disks_update (lo8 value) lbs, s)"

definition handler_set_com1_base_clock_index :: "'w io \<Rightarrow> llama_bios_settings \<Rightarrow> u16 \<Rightarrow> ('w, 'z) mach_scheme \<Rightarrow>
    (llama_bios_settings \<times> ('w, 'z) mach_scheme) option" where
  "handler_set_com1_base_clock_index io lbs value s =
     Some (set_setting com1_base_clock_index com1_base_clock_index_update (lo8 value) lbs, s)"

definition handler_set_com2_base_clock_index :: "'w io \<Rightarrow> llama_bios_settings \<Rightarrow> u16 \<Rightarrow> ('w, 'z) mach_scheme \<Rightarrow>
    (llama_bios_settings \<times> ('w, 'z) mach_scheme) option" where
  "handler_set_com2_base_clock_index io lbs value s =
     Some (set_setting com2_base_clock_index com2_base_clock_index_update (lo8 value) lbs, s)"

definition handler_set_cs4237_wss_port :: "'w io \<Rightarrow> llama_bios_settings \<Rightarrow> u16 \<Rightarrow> ('w, 'z) mach_scheme \<Rightarrow>
    (llama_bios_settings \<times> ('w, 'z) mach_scheme) option" where
  "handler_set_cs4237_wss_port io lbs value s =
     Some (set_setting cs4237_wss_port cs4237_wss_port_update value lbs, s)"

definition handler_set_cs4237_syn_port :: "'w io \<Rightarrow> llama_bios_settings \<Rightarrow> u16 \<Rightarrow> ('w, 'z) mach_scheme \<Rightarrow>
    (llama_bios_settings \<times> ('w, 'z) mach_scheme) option" where
  "handler_set_cs4237_syn_port io lbs value s =
     Some (set_setting cs4237_syn_port cs4237_syn_port_update value lbs, s)"

definition handler_set_cs4237_sb_port :: "'w io \<Rightarrow> llama_bios_settings \<Rightarrow> u16 \<Rightarrow> ('w, 'z) mach_scheme \<Rightarrow>
    (llama_bios_settings \<times> ('w, 'z) mach_scheme) option" where
  "handler_set_cs4237_sb_port io lbs value s =
     Some (set_setting cs4237_sb_port cs4237_sb_port_update value lbs, s)"

definition handler_set_cs4237_gamepad_port :: "'w io \<Rightarrow> llama_bios_settings \<Rightarrow> u16 \<Rightarrow> ('w, 'z) mach_scheme \<Rightarrow>
    (llama_bios_settings \<times> ('w, 'z) mach_scheme) option" where
  "handler_set_cs4237_gamepad_port io lbs value s =
     Some (set_setting cs4237_gamepad_port cs4237_gamepad_port_update value lbs, s)"

definition handler_set_cs4237_mpu_port :: "'w io \<Rightarrow> llama_bios_settings \<Rightarrow> u16 \<Rightarrow> ('w, 'z) mach_scheme \<Rightarrow>
    (llama_bios_settings \<times> ('w, 'z) mach_scheme) option" where
  "handler_set_cs4237_mpu_port io lbs value s =
     Some (set_setting cs4237_mpu_port cs4237_mpu_port_update value lbs, s)"

definition handler_set_cs4237_ext_fm :: "'w io \<Rightarrow> llama_bios_settings \<Rightarrow> u16 \<Rightarrow> ('w, 'z) mach_scheme \<Rightarrow>
    (llama_bios_settings \<times> ('w, 'z) mach_scheme) option" where
  "handler_set_cs4237_ext_fm io lbs value s =
     Some (set_setting cs4237_ext_fm cs4237_ext_fm_update (lo8 value) lbs, s)"

definition handler_set_cs4237_digital :: "'w io \<Rightarrow> llama_bios_settings \<Rightarrow> u16 \<Rightarrow> ('w, 'z) mach_scheme \<Rightarrow>
    (llama_bios_settings \<times> ('w, 'z) mach_scheme) option" where
  "handler_set_cs4237_digital io lbs value s =
     Some (set_setting cs4237_digital cs4237_digital_update (lo8 value) lbs, s)"

definition handler_set_mac_address_index :: "'w io \<Rightarrow> llama_bios_settings \<Rightarrow> u16 \<Rightarrow> ('w, 'z) mach_scheme \<Rightarrow>
    (llama_bios_settings \<times> ('w, 'z) mach_scheme) option" where
  "handler_set_mac_address_index io lbs value s =
     Some (set_setting mac_address_index mac_address_index_update (lo8 value) lbs, s)"

definition handler_set_fan1_target_rpm :: "'w io \<Rightarrow> llama_bios_settings \<Rightarrow> u16 \<Rightarrow> ('w, 'z) mach_scheme \<Rightarrow>
    (llama_bios_settings \<times> ('w, 'z) mach_scheme) option" where
  "handler_set_fan1_target_rpm io =
     set_fan_setting fan1_target_rpm fan1_target_rpm_update (llama_set_fan1_target_rpm io)"

definition handler_set_fan2_target_rpm :: "'w io \<Rightarrow> llama_bios_settings \<Rightarrow> u16 \<Rightarrow> ('w, 'z) mach_scheme \<Rightarrow>
    (llama_bios_settings \<times> ('w, 'z) mach_scheme) option" where
  "handler_set_fan2_target_rpm io =
     set_fan_setting fan2_target_rpm fan2_target_rpm_update (llama_set_fan2_target_rpm io)"

definition handler_set_fan3_target_rpm :: "'w io \<Rightarrow> llama_bios_settings \<Rightarrow> u16 \<Rightarrow> ('w, 'z) mach_scheme \<Rightarrow>
    (llama_bios_settings \<times> ('w, 'z) mach_scheme) option" where
  "handler_set_fan3_target_rpm io =
     set_fan_setting fan3_target_rpm fan3_target_rpm_update (llama_set_fan3_target_rpm io)"

definition handler_set_boot_tune_index :: "'w io \<Rightarrow> llama_bios_settings \<Rightarrow> u16 \<Rightarrow> ('w, 'z) mach_scheme \<Rightarrow>
    (llama_bios_settings \<times> ('w, 'z) mach_scheme) option" where
  "handler_set_boot_tune_index io lbs value s =
     Some (set_setting boot_tune_index boot_tune_index_update (lo8 value) lbs, s)"

definition handler_set_leds_enabled :: "'w io \<Rightarrow> llama_bios_settings \<Rightarrow> u16 \<Rightarrow> ('w, 'z) mach_scheme \<Rightarrow>
    (llama_bios_settings \<times> ('w, 'z) mach_scheme) option" where
  "handler_set_leds_enabled io lbs value s = do { s \<leftarrow> llama_set_leds_enabled io (lo8 value) s; Some (lbs, s) }"

definition handler_set_leds_intensity :: "'w io \<Rightarrow> llama_bios_settings \<Rightarrow> u16 \<Rightarrow> ('w, 'z) mach_scheme \<Rightarrow>
    (llama_bios_settings \<times> ('w, 'z) mach_scheme) option" where
  "handler_set_leds_intensity io lbs value s = do { s \<leftarrow> llama_set_leds_intensity io (lo8 value) s; Some (lbs, s) }"

definition handler_set_click_enabled :: "'w io \<Rightarrow> llama_bios_settings \<Rightarrow> u16 \<Rightarrow> ('w, 'z) mach_scheme \<Rightarrow>
    (llama_bios_settings \<times> ('w, 'z) mach_scheme) option" where
  "handler_set_click_enabled io lbs value s = do { s \<leftarrow> llama_set_click_enabled io (lo8 value) s; Some (lbs, s) }"

section \<open>What a setter stores\<close>

text \<open>The settings that live in the record only, with the width of their field.\<close>

definition getters :: "'w io \<Rightarrow> (llama_bios_settings \<Rightarrow> ('w, 'z) mach_scheme \<Rightarrow>
    (u16 \<times> ('w, 'z) mach_scheme) option) list" where
  "getters io =
     [handler_get_cpu_freq_index io, handler_get_l1_cache io, handler_get_l2_cache io,
      handler_get_boot_order_index io, handler_get_usb_as_fixed_disks io, handler_get_com1_base_clock_index io,
      handler_get_com2_base_clock_index io, handler_get_cs4237_wss_port io, handler_get_cs4237_syn_port io,
      handler_get_cs4237_sb_port io, handler_get_cs4237_gamepad_port io, handler_get_cs4237_mpu_port io,
      handler_get_cs4237_ext_fm io, handler_get_cs4237_digital io, handler_get_mac_address_index io,
      handler_get_boot_tune_index io]"

definition setters :: "'w io \<Rightarrow> (llama_bios_settings \<Rightarrow> u16 \<Rightarrow> ('w, 'z) mach_scheme \<Rightarrow>
    (llama_bios_settings \<times> ('w, 'z) mach_scheme) option) list" where
  "setters io =
     [handler_set_cpu_freq_index io, handler_set_l1_cache io, handler_set_l2_cache io,
      handler_set_boot_order_index io, handler_set_usb_as_fixed_disks io, handler_set_com1_base_clock_index io,
      handler_set_com2_base_clock_index io, handler_set_cs4237_wss_port io, handler_set_cs4237_syn_port io,
      handler_set_cs4237_sb_port io, handler_set_cs4237_gamepad_port io, handler_set_cs4237_mpu_port io,
      handler_set_cs4237_ext_fm io, handler_set_cs4237_digital io, handler_set_mac_address_index io,
      handler_set_boot_tune_index io]"

definition setting_widths :: "nat list" where
  "setting_widths = [8, 8, 8, 8, 8, 8, 8, 16, 16, 16, 16, 16, 8, 8, 8, 8]"

lemma lo8_ucast: "lo8 (ucast (x :: u8)) = x"
proof (rule bit_word_eqI)
  fix n assume n: "n < LENGTH(8)"
  have ff: "(0xFF :: u16) = mask 8" by (simp add: mask_eq_decr_exp)
  show "bit (lo8 (ucast x)) n = bit x n" using n unfolding ff by (simp add: bit_simps)
qed

lemma lo8_small:
  assumes "unat v < 256"
  shows "(ucast (lo8 v) :: u16) = v"
proof -
  have t: "take_bit 8 v = v"
    using assms by (simp add: word_unat_eq_iff unsigned_take_bit_eq take_bit_nat_eq_self)
  have ff: "(0xFF :: u16) = mask 8" by (simp add: mask_eq_decr_exp)
  have "(ucast (lo8 v) :: u16) = take_bit 8 v"
    unfolding ff by (rule bit_word_eqI) (auto simp: bit_simps)
  then show ?thesis unfolding t .
qed

lemma ucast_eq_lo8: "unat v < 256 \<Longrightarrow> ucast (x :: u8) = v \<longleftrightarrow> x = lo8 v"
  using lo8_small lo8_ucast by metis

lemmas getter_defs = handler_get_cpu_freq_index_def handler_get_l1_cache_def handler_get_l2_cache_def handler_get_boot_order_index_def handler_get_usb_as_fixed_disks_def handler_get_com1_base_clock_index_def handler_get_com2_base_clock_index_def handler_get_cs4237_wss_port_def handler_get_cs4237_syn_port_def handler_get_cs4237_sb_port_def handler_get_cs4237_gamepad_port_def handler_get_cs4237_mpu_port_def handler_get_cs4237_ext_fm_def handler_get_cs4237_digital_def handler_get_mac_address_index_def handler_get_boot_tune_index_def

lemmas setter_defs = handler_set_cpu_freq_index_def handler_set_l1_cache_def handler_set_l2_cache_def handler_set_boot_order_index_def handler_set_usb_as_fixed_disks_def handler_set_com1_base_clock_index_def handler_set_com2_base_clock_index_def handler_set_cs4237_wss_port_def handler_set_cs4237_syn_port_def handler_set_cs4237_sb_port_def handler_set_cs4237_gamepad_port_def handler_set_cs4237_mpu_port_def handler_set_cs4237_ext_fm_def handler_set_cs4237_digital_def handler_set_mac_address_index_def handler_set_boot_tune_index_def

section \<open>Properties\<close>

text \<open>
  What a menu handler stores is what it reads back, and nothing else: after the setter of a setting
  every getter answers as before, but the one of that setting with the new value; and the settings are marked as
  changed exactly when the value is a new one.
\<close>

theorem handler_roundtrip:
  assumes "i < length (setters io)" "unat v < 2 ^ (setting_widths ! i)"
  shows "\<exists>lbs'. (setters io ! i) lbs v s = Some (lbs', s) \<and>
    map (\<lambda>g. g lbs' s) (getters io) = (map (\<lambda>g. g lbs s) (getters io))[i := Some (v, s)] \<and>
    has_changes lbs' = (if (getters io ! i) lbs s = Some (v, s) then has_changes lbs else 1)"
proof -
  consider "i = 0" | "i = 1" | "i = 2" | "i = 3" | "i = 4" | "i = 5" | "i = 6" | "i = 7" | "i = 8" | "i = 9" | "i = 10" | "i = 11" | "i = 12" | "i = 13" | "i = 14" | "i = 15"
    using assms(1) by (auto simp: setters_def less_Suc_eq)
  then show ?thesis
    using assms(2)
    by cases (auto simp: setters_def getters_def setting_widths_def getter_defs setter_defs set_setting_def
      get_setting_def lo8_small ucast_eq_lo8)
qed

theorem handler_roundtrip_witness:
  "\<exists>lbs'. handler_set_cpu_freq_index pci_sim llama_bios_settings_default 3 (mach_init (0, \<lambda>_. 0)) =
       Some (lbs', mach_init (0, \<lambda>_. 0)) \<and>
     handler_get_cpu_freq_index pci_sim lbs' (mach_init (0, \<lambda>_. 0)) = Some (3, mach_init (0, \<lambda>_. 0))"
  using handler_roundtrip [of 0 pci_sim 3 llama_bios_settings_default "mach_init (0, \<lambda>_. 0)"]
  by (auto simp: setters_def getters_def setting_widths_def)

end
