(* ===== verification/Fonts.thy ===== *)
theory Fonts
  imports Machine
begin

text \<open>
  The characters of the setup screen: \<open>seabios/src/llama/llama_fonts.h\<close> and \<open>llama_fonts.c\<close>.
  Twelve glyphs of 8 x 16 pixels are loaded over codes of the video BIOS's character set.
\<close>

abbreviation DOUBLE_LINES_TOP_LEFT_CORNER :: u8 where "DOUBLE_LINES_TOP_LEFT_CORNER \<equiv> 0xC9"
abbreviation DOUBLE_LINES_TOP_RIGHT_CORNER :: u8 where "DOUBLE_LINES_TOP_RIGHT_CORNER \<equiv> 0xBB"
abbreviation DOUBLE_LINES_BOTTOM_LEFT_CORNER :: u8 where "DOUBLE_LINES_BOTTOM_LEFT_CORNER \<equiv> 0xC8"
abbreviation DOUBLE_LINES_BOTTOM_RIGHT_CORNER :: u8 where "DOUBLE_LINES_BOTTOM_RIGHT_CORNER \<equiv> 0xBC"
abbreviation DOUBLE_LINES_HORIZONTAL :: u8 where "DOUBLE_LINES_HORIZONTAL \<equiv> 0xCD"
abbreviation DOUBLE_LINES_VERTICAL :: u8 where "DOUBLE_LINES_VERTICAL \<equiv> 0xBA"
abbreviation DOUBLE_LINES_VERTICAL_DL_RIGHT :: u8 where "DOUBLE_LINES_VERTICAL_DL_RIGHT \<equiv> 0xCC"
abbreviation DOUBLE_LINES_VERTICAL_DL_LEFT :: u8 where "DOUBLE_LINES_VERTICAL_DL_LEFT \<equiv> 0xB9"
abbreviation DOUBLE_LINES_HORIZONTAL_SL_DOWN :: u8 where "DOUBLE_LINES_HORIZONTAL_SL_DOWN \<equiv> 0xD1"
abbreviation DOUBLE_LINES_VERTICAL_SL_RIGHT :: u8 where "DOUBLE_LINES_VERTICAL_SL_RIGHT \<equiv> 0xC7"
abbreviation DOUBLE_LINES_VERTICAL_SL_LEFT :: u8 where "DOUBLE_LINES_VERTICAL_SL_LEFT \<equiv> 0xB6"
abbreviation SINGLE_LINE_TOP_LEFT_CORNER :: u8 where "SINGLE_LINE_TOP_LEFT_CORNER \<equiv> 0xDA"
abbreviation SINGLE_LINE_TOP_RIGHT_CORNER :: u8 where "SINGLE_LINE_TOP_RIGHT_CORNER \<equiv> 0xBF"
abbreviation SINGLE_LINE_BOTTOM_LEFT_CORNER :: u8 where "SINGLE_LINE_BOTTOM_LEFT_CORNER \<equiv> 0xC0"
abbreviation SINGLE_LINE_BOTTOM_RIGHT_CORNER :: u8 where "SINGLE_LINE_BOTTOM_RIGHT_CORNER \<equiv> 0xD9"
abbreviation SINGLE_LINE_HORIZONTAL :: u8 where "SINGLE_LINE_HORIZONTAL \<equiv> 0xC4"
abbreviation SINGLE_LINE_HORIZONTAL_SL_UP :: u8 where "SINGLE_LINE_HORIZONTAL_SL_UP \<equiv> 0xC1"
abbreviation SINGLE_LINE_VERTICAL :: u8 where "SINGLE_LINE_VERTICAL \<equiv> 0xB3"
abbreviation SINGLE_LINE_CROSS :: u8 where "SINGLE_LINE_CROSS \<equiv> 0xC5"
abbreviation BLOCK_FULL :: u8 where "BLOCK_FULL \<equiv> 0xDB"
abbreviation LLAMA_FONT_0 :: u8 where "LLAMA_FONT_0 \<equiv> 0xD0"
abbreviation LLAMA_FONT_1 :: u8 where "LLAMA_FONT_1 \<equiv> 0xD2"
abbreviation LLAMA_FONT_UP_ARROW :: u8 where "LLAMA_FONT_UP_ARROW \<equiv> 0xE0"
abbreviation LLAMA_FONT_DOWN_ARROW :: u8 where "LLAMA_FONT_DOWN_ARROW \<equiv> 0xE1"
abbreviation LLAMA_FONT_LEFT_ARROW :: u8 where "LLAMA_FONT_LEFT_ARROW \<equiv> 0xE2"
abbreviation LLAMA_FONT_RIGHT_ARROW :: u8 where "LLAMA_FONT_RIGHT_ARROW \<equiv> 0xE3"
abbreviation LLAMA_FONT_0_ARRAY_POS :: nat where "LLAMA_FONT_0_ARRAY_POS \<equiv> 16 * 0"
abbreviation LLAMA_FONT_1_ARRAY_POS :: nat where "LLAMA_FONT_1_ARRAY_POS \<equiv> 16 * 1"
abbreviation LLAMA_FONT_UP_ARROW_ARRAY_POS :: nat where "LLAMA_FONT_UP_ARROW_ARRAY_POS \<equiv> 16 * 8"

definition llama_fonts :: "u8 list" where
  "llama_fonts =
     [0x04, 0x06, 0x0F, 0x07, 0x0F, 0x1F, 0x3F, 0x1F, 0x03, 0x01, 0x01, 0x01, 0x01, 0x01, 0x01, 0x01,
      0x00, 0x00, 0x00, 0x00, 0x80, 0x80, 0x80, 0x80, 0x80, 0xC0, 0xC0, 0xFC, 0xFF, 0xFF, 0xFF, 0xFF,
      0x00, 0x00, 0x00, 0x00, 0x00, 0x00, 0x00, 0x00, 0x00, 0x01, 0x03, 0x1F, 0xFF, 0xFF, 0xFF, 0xFF,
      0x00, 0x00, 0x00, 0x00, 0x00, 0x00, 0x00, 0x00, 0x00, 0x00, 0xC0, 0xE0, 0xF0, 0xF0, 0xF0, 0xF0,
      0x01, 0x01, 0x00, 0x00, 0x00, 0x00, 0x00, 0x00, 0x00, 0x00, 0x00, 0x00, 0x00, 0x00, 0x00, 0x00,
      0xFF, 0xFF, 0xFF, 0xFF, 0x7F, 0x3F, 0x1E, 0x1E, 0x1E, 0x1E, 0x1E, 0x1E, 0x0E, 0x3E, 0x3E, 0x0C,
      0xFF, 0xFF, 0xFF, 0xFF, 0xFF, 0xE7, 0x03, 0x03, 0x03, 0x06, 0x06, 0x0C, 0x1C, 0x19, 0x01, 0x00,
      0xE0, 0xE0, 0xC0, 0xC0, 0xC0, 0xC0, 0xC0, 0xC0, 0xC0, 0xC0, 0xC0, 0xC0, 0xC0, 0x80, 0x00, 0x00,
      0x00, 0x00, 0x30, 0x78, 0xFC, 0x30, 0x30, 0x30, 0x30, 0x30, 0x30, 0x30, 0x00, 0x00, 0x00, 0x00,
      0x00, 0x00, 0x30, 0x30, 0x30, 0x30, 0x30, 0x30, 0x30, 0xFC, 0x78, 0x30, 0x00, 0x00, 0x00, 0x00,
      0x00, 0x00, 0x00, 0x00, 0x20, 0x60, 0xFF, 0xFF, 0x60, 0x20, 0x00, 0x00, 0x00, 0x00, 0x00, 0x00,
      0x00, 0x00, 0x00, 0x00, 0x04, 0x06, 0xFF, 0xFF, 0x06, 0x04, 0x00, 0x00, 0x00, 0x00, 0x00, 0x00]"

text \<open>
  The pointer argument is the array from \<open>font_ptr\<close> on; the registers \<open>ES:BP\<close> point to it.
\<close>

definition load_custom_fonts_call :: "u8 list \<Rightarrow> u16 \<Rightarrow> u16 \<Rightarrow> bregs" where
  "load_custom_fonts_call font_ptr ascii_position count =
     (let br = set_ax 0x1110 (bregs_zero\<lparr>br_flags := F_IF\<rparr>);
          br = set_cx count (br\<lparr>br_bh := 16, br_bl := 0\<rparr>)
      in (set_dx ascii_position br)\<lparr>es_bp := font_ptr\<rparr>)"

definition load_custom_fonts :: "'w io \<Rightarrow> u8 list \<Rightarrow> u16 \<Rightarrow> u16 \<Rightarrow> ('w, 'z) mach_scheme \<Rightarrow>
    ('w, 'z) mach_scheme" where
  "load_custom_fonts io font_ptr ascii_position count s =
     snd (call16_int io 0x10 (load_custom_fonts_call font_ptr ascii_position count) s)"

end
