(* ===== verification/Llama_Strings.thy ===== *)
theory Llama_Strings
  imports Prelude
begin

text \<open>
  The texts of the setup menu and the editing of its number field:
  \<open>seabios/src/llama/llama_strings.h\<close> and \<open>llama_strings.c\<close>. A C string is a \<open>string\<close>
  without its terminating NUL. The number field is the buffer \<open>char input[5]\<close>: \<open>len\<close> characters
  and a NUL.
\<close>

section \<open>Identifiers\<close>

abbreviation STRING_MAIN_CPU_SETTINGS :: u16 where "STRING_MAIN_CPU_SETTINGS \<equiv> 101"
abbreviation STRING_NAME_CPU_FREQ :: u16 where "STRING_NAME_CPU_FREQ \<equiv> 111"
abbreviation STRING_DESC_CPU_FREQ_1 :: u16 where "STRING_DESC_CPU_FREQ_1 \<equiv> 112"
abbreviation STRING_DESC_CPU_FREQ_2 :: u16 where "STRING_DESC_CPU_FREQ_2 \<equiv> 113"
abbreviation STRING_DESC_CPU_FREQ_3 :: u16 where "STRING_DESC_CPU_FREQ_3 \<equiv> 114"
abbreviation STRING_NAME_L1_CACHE :: u16 where "STRING_NAME_L1_CACHE \<equiv> 121"
abbreviation STRING_DESC_L1_CACHE_1 :: u16 where "STRING_DESC_L1_CACHE_1 \<equiv> 122"
abbreviation STRING_DESC_L1_CACHE_2 :: u16 where "STRING_DESC_L1_CACHE_2 \<equiv> 123"
abbreviation STRING_DESC_L1_CACHE_3 :: u16 where "STRING_DESC_L1_CACHE_3 \<equiv> 124"
abbreviation STRING_NAME_L2_CACHE :: u16 where "STRING_NAME_L2_CACHE \<equiv> 131"
abbreviation STRING_DESC_L2_CACHE_1 :: u16 where "STRING_DESC_L2_CACHE_1 \<equiv> 132"
abbreviation STRING_DESC_L2_CACHE_2 :: u16 where "STRING_DESC_L2_CACHE_2 \<equiv> 133"
abbreviation STRING_DESC_L2_CACHE_3 :: u16 where "STRING_DESC_L2_CACHE_3 \<equiv> 134"
abbreviation STRING_MAIN_DISK_SETTINGS :: u16 where "STRING_MAIN_DISK_SETTINGS \<equiv> 201"
abbreviation STRING_NAME_BOOT_ORDER :: u16 where "STRING_NAME_BOOT_ORDER \<equiv> 211"
abbreviation STRING_DESC_BOOT_ORDER_1 :: u16 where "STRING_DESC_BOOT_ORDER_1 \<equiv> 212"
abbreviation STRING_DESC_BOOT_ORDER_2 :: u16 where "STRING_DESC_BOOT_ORDER_2 \<equiv> 213"
abbreviation STRING_DESC_BOOT_ORDER_3 :: u16 where "STRING_DESC_BOOT_ORDER_3 \<equiv> 214"
abbreviation STRING_NAME_USB_AS_FIXED_DISKS :: u16 where "STRING_NAME_USB_AS_FIXED_DISKS \<equiv> 221"
abbreviation STRING_DESC_USB_AS_FIXED_DISKS_1 :: u16 where "STRING_DESC_USB_AS_FIXED_DISKS_1 \<equiv> 222"
abbreviation STRING_DESC_USB_AS_FIXED_DISKS_2 :: u16 where "STRING_DESC_USB_AS_FIXED_DISKS_2 \<equiv> 223"
abbreviation STRING_DESC_USB_AS_FIXED_DISKS_3 :: u16 where "STRING_DESC_USB_AS_FIXED_DISKS_3 \<equiv> 224"
abbreviation STRING_MAIN_COM_SETTINGS :: u16 where "STRING_MAIN_COM_SETTINGS \<equiv> 301"
abbreviation STRING_NAME_COM1_BASE_CLOCK :: u16 where "STRING_NAME_COM1_BASE_CLOCK \<equiv> 311"
abbreviation STRING_DESC_COM1_BASE_CLOCK_1 :: u16 where "STRING_DESC_COM1_BASE_CLOCK_1 \<equiv> 312"
abbreviation STRING_DESC_COM1_BASE_CLOCK_2 :: u16 where "STRING_DESC_COM1_BASE_CLOCK_2 \<equiv> 313"
abbreviation STRING_DESC_COM1_BASE_CLOCK_3 :: u16 where "STRING_DESC_COM1_BASE_CLOCK_3 \<equiv> 314"
abbreviation STRING_NAME_COM2_BASE_CLOCK :: u16 where "STRING_NAME_COM2_BASE_CLOCK \<equiv> 321"
abbreviation STRING_DESC_COM2_BASE_CLOCK_1 :: u16 where "STRING_DESC_COM2_BASE_CLOCK_1 \<equiv> 322"
abbreviation STRING_DESC_COM2_BASE_CLOCK_2 :: u16 where "STRING_DESC_COM2_BASE_CLOCK_2 \<equiv> 323"
abbreviation STRING_DESC_COM2_BASE_CLOCK_3 :: u16 where "STRING_DESC_COM2_BASE_CLOCK_3 \<equiv> 324"
abbreviation STRING_MAIN_AUDIO_SETTINGS :: u16 where "STRING_MAIN_AUDIO_SETTINGS \<equiv> 401"
abbreviation STRING_NAME_WSS_PORT :: u16 where "STRING_NAME_WSS_PORT \<equiv> 411"
abbreviation STRING_DESC_WSS_PORT_1 :: u16 where "STRING_DESC_WSS_PORT_1 \<equiv> 412"
abbreviation STRING_DESC_WSS_PORT_2 :: u16 where "STRING_DESC_WSS_PORT_2 \<equiv> 413"
abbreviation STRING_DESC_WSS_PORT_3 :: u16 where "STRING_DESC_WSS_PORT_3 \<equiv> 414"
abbreviation STRING_NAME_SYN_PORT :: u16 where "STRING_NAME_SYN_PORT \<equiv> 421"
abbreviation STRING_DESC_SYN_PORT_1 :: u16 where "STRING_DESC_SYN_PORT_1 \<equiv> 422"
abbreviation STRING_DESC_SYN_PORT_2 :: u16 where "STRING_DESC_SYN_PORT_2 \<equiv> 423"
abbreviation STRING_DESC_SYN_PORT_3 :: u16 where "STRING_DESC_SYN_PORT_3 \<equiv> 424"
abbreviation STRING_NAME_SB_PORT :: u16 where "STRING_NAME_SB_PORT \<equiv> 431"
abbreviation STRING_DESC_SB_PORT_1 :: u16 where "STRING_DESC_SB_PORT_1 \<equiv> 432"
abbreviation STRING_DESC_SB_PORT_2 :: u16 where "STRING_DESC_SB_PORT_2 \<equiv> 433"
abbreviation STRING_DESC_SB_PORT_3 :: u16 where "STRING_DESC_SB_PORT_3 \<equiv> 434"
abbreviation STRING_NAME_GAMEPAD_PORT :: u16 where "STRING_NAME_GAMEPAD_PORT \<equiv> 441"
abbreviation STRING_DESC_GAMEPAD_PORT_1 :: u16 where "STRING_DESC_GAMEPAD_PORT_1 \<equiv> 442"
abbreviation STRING_DESC_GAMEPAD_PORT_2 :: u16 where "STRING_DESC_GAMEPAD_PORT_2 \<equiv> 443"
abbreviation STRING_DESC_GAMEPAD_PORT_3 :: u16 where "STRING_DESC_GAMEPAD_PORT_3 \<equiv> 444"
abbreviation STRING_NAME_MPU_PORT :: u16 where "STRING_NAME_MPU_PORT \<equiv> 451"
abbreviation STRING_DESC_MPU_PORT_1 :: u16 where "STRING_DESC_MPU_PORT_1 \<equiv> 452"
abbreviation STRING_DESC_MPU_PORT_2 :: u16 where "STRING_DESC_MPU_PORT_2 \<equiv> 453"
abbreviation STRING_DESC_MPU_PORT_3 :: u16 where "STRING_DESC_MPU_PORT_3 \<equiv> 454"
abbreviation STRING_NAME_EXT_FM :: u16 where "STRING_NAME_EXT_FM \<equiv> 461"
abbreviation STRING_DESC_EXT_FM_1 :: u16 where "STRING_DESC_EXT_FM_1 \<equiv> 462"
abbreviation STRING_DESC_EXT_FM_2 :: u16 where "STRING_DESC_EXT_FM_2 \<equiv> 463"
abbreviation STRING_DESC_EXT_FM_3 :: u16 where "STRING_DESC_EXT_FM_3 \<equiv> 464"
abbreviation STRING_NAME_DIGITAL :: u16 where "STRING_NAME_DIGITAL \<equiv> 471"
abbreviation STRING_DESC_DIGITAL_1 :: u16 where "STRING_DESC_DIGITAL_1 \<equiv> 472"
abbreviation STRING_DESC_DIGITAL_2 :: u16 where "STRING_DESC_DIGITAL_2 \<equiv> 473"
abbreviation STRING_DESC_DIGITAL_3 :: u16 where "STRING_DESC_DIGITAL_3 \<equiv> 474"
abbreviation STRING_MAIN_ETHERNET_SETTINGS :: u16 where "STRING_MAIN_ETHERNET_SETTINGS \<equiv> 501"
abbreviation STRING_NAME_MAC_ADDRESS :: u16 where "STRING_NAME_MAC_ADDRESS \<equiv> 511"
abbreviation STRING_DESC_MAC_ADDRESS_1 :: u16 where "STRING_DESC_MAC_ADDRESS_1 \<equiv> 512"
abbreviation STRING_DESC_MAC_ADDRESS_2 :: u16 where "STRING_DESC_MAC_ADDRESS_2 \<equiv> 513"
abbreviation STRING_DESC_MAC_ADDRESS_3 :: u16 where "STRING_DESC_MAC_ADDRESS_3 \<equiv> 514"
abbreviation STRING_MAIN_FAN_CONTROL :: u16 where "STRING_MAIN_FAN_CONTROL \<equiv> 601"
abbreviation STRING_NAME_FAN1_TARGET_RPM :: u16 where "STRING_NAME_FAN1_TARGET_RPM \<equiv> 611"
abbreviation STRING_DESC_FAN1_TARGET_RPM_1 :: u16 where "STRING_DESC_FAN1_TARGET_RPM_1 \<equiv> 612"
abbreviation STRING_DESC_FAN1_TARGET_RPM_2 :: u16 where "STRING_DESC_FAN1_TARGET_RPM_2 \<equiv> 613"
abbreviation STRING_DESC_FAN1_TARGET_RPM_3 :: u16 where "STRING_DESC_FAN1_TARGET_RPM_3 \<equiv> 614"
abbreviation STRING_NAME_FAN2_TARGET_RPM :: u16 where "STRING_NAME_FAN2_TARGET_RPM \<equiv> 621"
abbreviation STRING_DESC_FAN2_TARGET_RPM_1 :: u16 where "STRING_DESC_FAN2_TARGET_RPM_1 \<equiv> 622"
abbreviation STRING_DESC_FAN2_TARGET_RPM_2 :: u16 where "STRING_DESC_FAN2_TARGET_RPM_2 \<equiv> 623"
abbreviation STRING_DESC_FAN2_TARGET_RPM_3 :: u16 where "STRING_DESC_FAN2_TARGET_RPM_3 \<equiv> 624"
abbreviation STRING_NAME_FAN3_TARGET_RPM :: u16 where "STRING_NAME_FAN3_TARGET_RPM \<equiv> 631"
abbreviation STRING_DESC_FAN3_TARGET_RPM_1 :: u16 where "STRING_DESC_FAN3_TARGET_RPM_1 \<equiv> 632"
abbreviation STRING_DESC_FAN3_TARGET_RPM_2 :: u16 where "STRING_DESC_FAN3_TARGET_RPM_2 \<equiv> 633"
abbreviation STRING_DESC_FAN3_TARGET_RPM_3 :: u16 where "STRING_DESC_FAN3_TARGET_RPM_3 \<equiv> 634"
abbreviation STRING_MAIN_MISC_SETTINGS :: u16 where "STRING_MAIN_MISC_SETTINGS \<equiv> 701"
abbreviation STRING_NAME_BOOT_TUNE :: u16 where "STRING_NAME_BOOT_TUNE \<equiv> 711"
abbreviation STRING_DESC_BOOT_TUNE_1 :: u16 where "STRING_DESC_BOOT_TUNE_1 \<equiv> 712"
abbreviation STRING_DESC_BOOT_TUNE_2 :: u16 where "STRING_DESC_BOOT_TUNE_2 \<equiv> 713"
abbreviation STRING_DESC_BOOT_TUNE_3 :: u16 where "STRING_DESC_BOOT_TUNE_3 \<equiv> 714"
abbreviation STRING_NAME_LEDS_ENABLED :: u16 where "STRING_NAME_LEDS_ENABLED \<equiv> 721"
abbreviation STRING_DESC_LEDS_ENABLED_1 :: u16 where "STRING_DESC_LEDS_ENABLED_1 \<equiv> 722"
abbreviation STRING_DESC_LEDS_ENABLED_2 :: u16 where "STRING_DESC_LEDS_ENABLED_2 \<equiv> 723"
abbreviation STRING_DESC_LEDS_ENABLED_3 :: u16 where "STRING_DESC_LEDS_ENABLED_3 \<equiv> 724"
abbreviation STRING_NAME_LEDS_INTENSITY :: u16 where "STRING_NAME_LEDS_INTENSITY \<equiv> 731"
abbreviation STRING_DESC_LEDS_INTENSITY_1 :: u16 where "STRING_DESC_LEDS_INTENSITY_1 \<equiv> 732"
abbreviation STRING_DESC_LEDS_INTENSITY_2 :: u16 where "STRING_DESC_LEDS_INTENSITY_2 \<equiv> 733"
abbreviation STRING_DESC_LEDS_INTENSITY_3 :: u16 where "STRING_DESC_LEDS_INTENSITY_3 \<equiv> 734"
abbreviation STRING_NAME_CLICK_ENABLED :: u16 where "STRING_NAME_CLICK_ENABLED \<equiv> 741"
abbreviation STRING_DESC_CLICK_ENABLED_1 :: u16 where "STRING_DESC_CLICK_ENABLED_1 \<equiv> 742"
abbreviation STRING_DESC_CLICK_ENABLED_2 :: u16 where "STRING_DESC_CLICK_ENABLED_2 \<equiv> 743"
abbreviation STRING_DESC_CLICK_ENABLED_3 :: u16 where "STRING_DESC_CLICK_ENABLED_3 \<equiv> 744"
abbreviation STRING_NAME_QUIT :: u16 where "STRING_NAME_QUIT \<equiv> 990"
abbreviation STRING_DESC_QUIT_1 :: u16 where "STRING_DESC_QUIT_1 \<equiv> 991"
abbreviation STRING_DESC_QUIT_2 :: u16 where "STRING_DESC_QUIT_2 \<equiv> 992"
abbreviation STRING_DESC_QUIT_3 :: u16 where "STRING_DESC_QUIT_3 \<equiv> 993"

section \<open>Texts\<close>

text \<open>The cases of the switch of \<open>get_string\<close>, in its order.\<close>

definition string_cases_1 :: "(u16 list \<times> string) list" where
  \<open>string_cases_1 =
     [([STRING_MAIN_CPU_SETTINGS],
       ''CPU Settings''),
      ([STRING_NAME_CPU_FREQ],
       ''CPU Frequency''),
      ([STRING_DESC_CPU_FREQ_1],
       ''A low CPU frequency makes sense for use with early''),
      ([STRING_DESC_CPU_FREQ_2],
       ''80s programs and games - and draws less power.''),
      ([STRING_DESC_CPU_FREQ_3],
       ''A high frequency runs hotter and requires active cooling.''),
      ([STRING_NAME_L1_CACHE],
       ''L1 Cache''),
      ([STRING_DESC_L1_CACHE_1],
       ''Disabling the CPU L1 Cache slows down the system significantly.''),
      ([STRING_DESC_L1_CACHE_2, STRING_DESC_L2_CACHE_2],
       ''Only use this setting if you require 286-like performance for''),
      ([STRING_DESC_L1_CACHE_3, STRING_DESC_L2_CACHE_3],
       ''speed-sensitive, early 80s games.''),
      ([STRING_NAME_L2_CACHE],
       ''L2 Cache''),
      ([STRING_DESC_L2_CACHE_1],
       ''Disabling the CPU L2 Cache slows down the system significantly.''),
      ([STRING_MAIN_DISK_SETTINGS],
       ''Disk Settings''),
      ([STRING_NAME_BOOT_ORDER],
       ''Boot Order''),
      ([STRING_DESC_BOOT_ORDER_1],
       ''Select the order in which the system tries to boot from the''),
      ([STRING_DESC_BOOT_ORDER_2],
       ''available boot devices. Pressing ESC during boot lets you''),
      ([STRING_DESC_BOOT_ORDER_3],
       ''select a device manually.''),
      ([STRING_NAME_USB_AS_FIXED_DISKS],
       ''USB as Fixed Disks''),
      ([STRING_DESC_USB_AS_FIXED_DISKS_1],
       ''Enabling this setting makes USB storage devices appear as fixed''),
      ([STRING_DESC_USB_AS_FIXED_DISKS_2],
       ''disks to the system. Needed to boot from USB devices.''),
      ([STRING_MAIN_COM_SETTINGS],
       ''COM Settings''),
      ([STRING_NAME_COM1_BASE_CLOCK],
       ''COM1 Base Clock''),
      ([STRING_DESC_COM1_BASE_CLOCK_1, STRING_DESC_COM2_BASE_CLOCK_1],
       ''A baud rate of 115200 has a divider of 1. 57600 = 2, 38400 = 3, etc.''),
      ([STRING_DESC_COM1_BASE_CLOCK_2, STRING_DESC_COM2_BASE_CLOCK_2],
       ''For example, setting your baud rate to 19200 with a base clock of 3 MHz''),
      ([STRING_DESC_COM1_BASE_CLOCK_3, STRING_DESC_COM2_BASE_CLOCK_3],
       ''gives you an actual baud rate of 3 MHz / 6 = 500000 baud''),
      ([STRING_NAME_COM2_BASE_CLOCK],
       ''COM2 Base Clock'')]\<close>

definition string_cases_2 :: "(u16 list \<times> string) list" where
  \<open>string_cases_2 =
     [([STRING_MAIN_AUDIO_SETTINGS],
       ''Audio Settings''),
      ([STRING_NAME_WSS_PORT],
       ''WSS Port Address''),
      ([STRING_DESC_WSS_PORT_1],
       ''Port address for the CS4237 Windows Sound System Codec.''),
      ([STRING_DESC_WSS_PORT_2, STRING_DESC_SYN_PORT_2, STRING_DESC_SB_PORT_2,
        STRING_DESC_GAMEPAD_PORT_2, STRING_DESC_MPU_PORT_2],
       ''As a general rule, you don't need to change this.''),
      ([STRING_NAME_SYN_PORT],
       ''FM Synth Port Address''),
      ([STRING_DESC_SYN_PORT_1],
       ''Port address for the CS4237 FM Synthesizer.''),
      ([STRING_NAME_SB_PORT],
       ''Sound Blaster Port Address''),
      ([STRING_DESC_SB_PORT_1],
       ''Port address for the CS4237 Sound Blaster.''),
      ([STRING_NAME_GAMEPAD_PORT],
       ''Gamepad Port Address''),
      ([STRING_DESC_GAMEPAD_PORT_1],
       ''Port address for the CS4237 Gamepad/Joystick.''),
      ([STRING_NAME_MPU_PORT],
       ''MPU-401 Port Address''),
      ([STRING_DESC_MPU_PORT_1],
       ''Port address for the CS4237 MPU-401.''),
      ([STRING_NAME_EXT_FM],
       ''External FM Synthesizer''),
      ([STRING_DESC_EXT_FM_1],
       ''Use the "Llama OPL-3 module" external FM Synthesizer''),
      ([STRING_DESC_EXT_FM_2],
       ''instead of the built-in FM synth on the CS4237.''),
      ([STRING_DESC_EXT_FM_3],
       ''Not selectable if the module is not installed.''),
      ([STRING_NAME_DIGITAL],
       ''S/PDIF Digital Output''),
      ([STRING_DESC_DIGITAL_2],
       ''Enabling this setting turns on the digital optical output.''),
      ([STRING_MAIN_ETHERNET_SETTINGS],
       ''Ethernet Settings''),
      ([STRING_NAME_MAC_ADDRESS],
       ''MAC Address''),
      ([STRING_DESC_MAC_ADDRESS_2],
       ''Select the MAC address to use for the Ethernet adapter.'')]\<close>

definition string_cases_3 :: "(u16 list \<times> string) list" where
  \<open>string_cases_3 =
     [([STRING_MAIN_FAN_CONTROL],
       ''Fan Control''),
      ([STRING_NAME_FAN1_TARGET_RPM],
       ''Fan 1 Target RPM''),
      ([STRING_DESC_FAN1_TARGET_RPM_1, STRING_DESC_FAN2_TARGET_RPM_1,
        STRING_DESC_FAN3_TARGET_RPM_1],
       ''Set the target RPM for the fans. Note that setting this''),
      ([STRING_DESC_FAN1_TARGET_RPM_2, STRING_DESC_FAN2_TARGET_RPM_2,
        STRING_DESC_FAN3_TARGET_RPM_2],
       ''too low may cause the fan to stall and oscillate.''),
      ([STRING_NAME_FAN2_TARGET_RPM],
       ''Fan 2 Target RPM''),
      ([STRING_NAME_FAN3_TARGET_RPM],
       ''Fan 3 Target RPM''),
      ([STRING_MAIN_MISC_SETTINGS],
       ''Misc Settings''),
      ([STRING_NAME_BOOT_TUNE],
       ''Boot Tune''),
      ([STRING_DESC_BOOT_TUNE_2],
       ''Select or disable playing a short tune when booting the system.''),
      ([STRING_NAME_LEDS_ENABLED],
       ''LEDs Enabled''),
      ([STRING_DESC_LEDS_ENABLED_2],
       ''Enable or disable the standby-, power- and HDD activity LEDs.''),
      ([STRING_NAME_LEDS_INTENSITY],
       ''LEDs Intensity''),
      ([STRING_DESC_LEDS_INTENSITY_2],
       ''Set the intensity of the LEDs.''),
      ([STRING_NAME_CLICK_ENABLED],
       ''Clicker Enabled''),
      ([STRING_DESC_CLICK_ENABLED_1],
       ''Enable or disable a clicking sound on SD activity''),
      ([STRING_DESC_CLICK_ENABLED_2],
       ''that emulates the sound of a mechincal hard drive.''),
      ([STRING_NAME_QUIT],
       ''Quit Without Saving?''),
      ([STRING_DESC_USB_AS_FIXED_DISKS_3, STRING_DESC_WSS_PORT_3,
        STRING_DESC_SB_PORT_3, STRING_DESC_GAMEPAD_PORT_3, STRING_DESC_MPU_PORT_3,
        STRING_DESC_DIGITAL_1, STRING_DESC_DIGITAL_3, STRING_DESC_MAC_ADDRESS_1,
        STRING_DESC_MAC_ADDRESS_3, STRING_DESC_FAN1_TARGET_RPM_3,
        STRING_DESC_FAN2_TARGET_RPM_3, STRING_DESC_FAN3_TARGET_RPM_3,
        STRING_DESC_BOOT_TUNE_1, STRING_DESC_BOOT_TUNE_3, STRING_DESC_LEDS_ENABLED_1,
        STRING_DESC_LEDS_ENABLED_3, STRING_DESC_LEDS_INTENSITY_1,
        STRING_DESC_LEDS_INTENSITY_3, STRING_DESC_CLICK_ENABLED_3, STRING_DESC_QUIT_1,
        STRING_DESC_QUIT_2, STRING_DESC_QUIT_3],
       '''')]\<close>

definition string_cases :: "(u16 list \<times> string) list" where
  "string_cases = string_cases_1 @ string_cases_2 @ string_cases_3"

definition get_string :: "u16 \<Rightarrow> string" where
  "get_string sid =
     (case find (\<lambda>(ids, text). sid \<in> set ids) string_cases of
        Some (ids, text) \<Rightarrow> text
      | None \<Rightarrow> ''Unknown String'')"

section \<open>Numbers\<close>

abbreviation digit_char :: "u16 \<Rightarrow> char" where
  "digit_char d \<equiv> char_of (unat d + 48)"

definition is_digit :: "char \<Rightarrow> bool" where
  "is_digit c \<longleftrightarrow> 48 \<le> (of_char c :: nat) \<and> (of_char c :: nat) \<le> 57"

definition string_to_u16 :: "string \<Rightarrow> u16" where
  "string_to_u16 str =
     foldl (\<lambda>num c. if is_digit c then num * 10 + of_nat (of_char c - 48) else num) 0 str"

function num_digits_loop :: "u16 \<Rightarrow> u8 \<Rightarrow> u8" where
  "num_digits_loop num digits =
     (if num = 0 then digits else num_digits_loop (num div 10) (digits + 1))"
  by pat_completeness auto
termination
  by (relation "measure (\<lambda>(num, digits). unat num)") (auto simp: unat_div unat_gt_0)

declare num_digits_loop.simps [simp del]

definition num_digits :: "u16 \<Rightarrow> u8" where
  "num_digits num = num_digits_loop num 0"

text \<open>
  \<open>u16_to_string\<close> fills \<open>str[len - 1]\<close> down to \<open>str[0]\<close>: digits first, then blanks. The list
  built here is the buffer from index 0, without the NUL that follows at \<open>str[len]\<close>.
\<close>

function u16_to_string_loop :: "nat \<Rightarrow> nat \<Rightarrow> nat \<Rightarrow> u16 \<Rightarrow> string \<Rightarrow> string" where
  "u16_to_string_loop i len l num str =
     (if len \<le> i then str
      else if l \<le> i then u16_to_string_loop (i + 1) len l num (CHR '' '' # str)
      else u16_to_string_loop (i + 1) len l (num div 10) (digit_char (num mod 10) # str))"
  by pat_completeness auto
termination
  by (relation "measure (\<lambda>(i, len, l, num, str). len - i)") auto

declare u16_to_string_loop.simps [simp del]

definition u16_to_string :: "u16 \<Rightarrow> nat \<Rightarrow> string" where
  "u16_to_string num len =
     (let str = u16_to_string_loop 0 len (unat (num_digits num)) num []
      in if num = 0 then str[len - 1 := CHR ''0''] else str)"

definition add_char_to_end :: "string \<Rightarrow> nat \<Rightarrow> char \<Rightarrow> string" where
  "add_char_to_end str len c =
     (let digits = unat (num_digits (string_to_u16 str))
      in if digits = len then str
         else if digits = 0 then str[len - 1 := c]
         else map (\<lambda>i. if i = len - 1 then c else str ! (i + 1)) [0..<len])"

definition del_char_at_end :: "string \<Rightarrow> nat \<Rightarrow> string" where
  "del_char_at_end str len =
     (let str = map (\<lambda>i. if i = 0 then CHR '' '' else str ! (i - 1)) [0..<len]
      in if str ! (len - 1) = CHR '' '' then str[len - 1 := CHR ''0''] else str)"

section \<open>What the number field shows\<close>

text \<open>
  The contract of the four routines: the field shows a number when its digits stand at the right end, after
  blanks; zero is one digit.
\<close>

fun digs :: "nat \<Rightarrow> string" where
  "digs n = (if n = 0 then [] else digs (n div 10) @ [char_of (n mod 10 + 48)])"

declare digs.simps [simp del]

definition field :: "nat \<Rightarrow> nat \<Rightarrow> string" where
  "field len n = (if n = 0 then replicate (len - 1) (CHR '' '') @ ''0''
                  else replicate (len - length (digs n)) (CHR '' '') @ digs n)"

lemma digs_0 [simp]: "digs 0 = []" by (simp add: digs.simps)

lemma digs_snoc: "0 < n \<Longrightarrow> digs n = digs (n div 10) @ [char_of (n mod 10 + 48)]"
  by (simp add: digs.simps [of n])

lemma digs_Nil [simp]: "digs n = [] \<longleftrightarrow> n = 0"
  by (cases "n = 0") (simp_all add: digs_snoc)

lemma length_digs_le: "length (digs n) \<le> k \<longleftrightarrow> n < 10 ^ k"
proof (induction k arbitrary: n)
  case (Suc k)
  show ?case
  proof (cases "n = 0")
    case False
    then have "length (digs n) \<le> Suc k \<longleftrightarrow> n div 10 < 10 ^ k" using Suc by (simp add: digs_snoc)
    also have "\<dots> \<longleftrightarrow> n < 10 ^ Suc k" by (simp add: div_less_iff_less_mult mult.commute)
    finally show ?thesis .
  qed simp
qed auto

lemma length_digs_less: "length (digs n) < k \<longleftrightarrow> 0 < k \<and> n < 10 ^ (k - 1)"
  using length_digs_le [of n "k - 1"] by (cases k) (auto simp: less_Suc_eq_le)

lemma of_char_digit [simp]: "(d :: nat) < 10 \<Longrightarrow> (of_char (char_of (d + 48) :: char) :: nat) = d + 48"
  by (simp add: of_char_of)

lemma is_digit_digit [simp]: "(d :: nat) < 10 \<Longrightarrow> is_digit (char_of (d + 48))"
  by (simp add: is_digit_def)

lemma not_digit_blank [simp]: "\<not> is_digit (CHR '' '')"
  by (simp add: is_digit_def)

lemma char_of_digits [simp]:
  "char_of (48 :: nat) = CHR ''0''" "char_of (49 :: nat) = CHR ''1''" "char_of (50 :: nat) = CHR ''2''"
  "char_of (55 :: nat) = CHR ''7''"
  using char_of_char [of "CHR ''0''", where 'a = nat] char_of_char [of "CHR ''1''", where 'a = nat]
    char_of_char [of "CHR ''2''", where 'a = nat] char_of_char [of "CHR ''7''", where 'a = nat]
  by simp_all

lemma num_digits_loop_digs: "num_digits_loop num d = d + of_nat (length (digs (unat num)))"
proof (induction num d rule: num_digits_loop.induct)
  case (1 num d)
  show ?case
  proof (cases "num = 0")
    case True
    then show ?thesis by (simp add: num_digits_loop.simps)
  next
    case False
    then have "0 < unat num" by (simp add: unat_gt_0)
    then show ?thesis
      using 1 [OF False] False
      by (simp add: num_digits_loop.simps [of num] digs_snoc [of "unat num"] unat_div)
  qed
qed

lemma length_digs_u16: "length (digs (unat (num :: u16))) \<le> 5"
  using u16_unat_lt [of num] by (simp add: length_digs_le)

lemma num_digits_digs: "unat (num_digits num) = length (digs (unat num))"
  using length_digs_u16 [of num]
  by (simp add: num_digits_def num_digits_loop_digs unsigned_of_nat take_bit_nat_eq_self)

lemma foldl_digs:
  "foldl (\<lambda>num c. if is_digit c then num * 10 + of_nat (of_char c - 48) else num) (a :: u16) (digs n) =
     a * 10 ^ length (digs n) + of_nat n"
proof (induction n rule: digs.induct)
  case (1 n)
  show ?case
  proof (cases "n = 0")
    case False
    have "(of_nat (n div 10) :: u16) * 10 + of_nat (n mod 10) = of_nat n"
      by (metis div_mult_mod_eq of_nat_add of_nat_mult of_nat_numeral)
    moreover have "foldl (\<lambda>num c. if is_digit c then num * 10 + of_nat (of_char c - 48) else num) a (digs n) =
        (a * 10 ^ length (digs (n div 10)) + of_nat (n div 10)) * 10 + of_nat (n mod 10)"
      using 1 [OF False] False by (simp add: digs_snoc)
    ultimately show ?thesis using False by (simp add: digs_snoc algebra_simps)
  qed simp
qed

lemma string_to_u16_field [simp]: "string_to_u16 (field len n) = of_nat n"
proof -
  have d: "\<not> is_digit (CHR '' '')" "is_digit (CHR ''0'')" by (simp_all add: is_digit_def)
  have blanks: "foldl (\<lambda>num c. if is_digit c then num * 10 + of_nat (of_char c - 48) else num) (0 :: u16)
      (replicate k (CHR '' '')) = 0" for k
    by (induction k) (simp_all add: d)
  show ?thesis
    by (simp add: string_to_u16_def field_def blanks foldl_digs d)
qed

lemma u16_to_string_loop_digs:
  assumes "i \<le> len" "l = i + length (digs (unat num)) \<or> num = 0 \<and> l \<le> i"
    "i + length (digs (unat num)) \<le> len"
  shows "u16_to_string_loop i len l num str =
    replicate (len - i - length (digs (unat num))) (CHR '' '') @ digs (unat num) @ str"
  using assms
proof (induction i len l num str rule: u16_to_string_loop.induct)
  case (1 i len l num str)
  show ?case
  proof (cases "len \<le> i")
    case True
    then show ?thesis using 1(3-5) by (simp add: u16_to_string_loop.simps [of i])
  next
    case False
    show ?thesis
    proof (cases "num = 0")
      case True
      then have "l \<le> i" using 1(4) by auto
      then have "u16_to_string_loop i len l num str = u16_to_string_loop (i + 1) len l num (CHR '' '' # str)"
        using False by (simp add: u16_to_string_loop.simps [of i])
      also have "\<dots> = replicate (len - (i + 1)) (CHR '' '') @ CHR '' '' # str"
        using 1(1) [OF False \<open>l \<le> i\<close>] False True \<open>l \<le> i\<close> by simp
      also have "\<dots> = replicate (len - i) (CHR '' '') @ str"
        using False replicate_append_same [of "len - (i + 1)" "CHR '' ''"]
        by (simp add: Suc_diff_Suc flip: replicate_Suc append_Cons)
      finally show ?thesis using True by simp
    next
      case nz: False
      then have n: "0 < unat num" by (simp add: unat_gt_0)
      have l: "\<not> l \<le> i" using 1(4) n nz by (auto simp: digs_snoc)
      have "u16_to_string_loop i len l num str =
          u16_to_string_loop (i + 1) len l (num div 10) (digit_char (num mod 10) # str)"
        using False l by (simp add: u16_to_string_loop.simps [of i])
      also have "\<dots> = replicate (len - (i + 1) - length (digs (unat num div 10))) (CHR '' '') @
          digs (unat num div 10) @ digit_char (num mod 10) # str"
        using 1(2) [OF False l] 1(3-5) n nz False by (simp add: digs_snoc unat_div)
      finally show ?thesis using n by (simp add: digs_snoc [of "unat num"] unat_mod)
    qed
  qed
qed

lemma u16_to_string_field:
  assumes "0 < len" "unat num < 10 ^ len"
  shows "u16_to_string num len = field len (unat num)"
proof -
  have "u16_to_string_loop 0 len (unat (num_digits num)) num [] =
      replicate (len - length (digs (unat num))) (CHR '' '') @ digs (unat num)"
    using assms by (subst u16_to_string_loop_digs) (auto simp: num_digits_digs length_digs_le)
  moreover have "(replicate len c)[len - 1 := d] = replicate (len - 1) c @ [d]" for c d :: char
    using assms(1) by (cases len) (simp_all add: replicate_append_same [symmetric] list_update_append)
  ultimately show ?thesis
    by (cases "num = 0") (simp_all add: u16_to_string_def field_def Let_def unat_eq_0)
qed

lemma length_field: "0 < len \<Longrightarrow> n < 10 ^ len \<Longrightarrow> length (field len n) = len"
  using length_digs_le [of n len] by (auto simp: field_def)

lemma shift_left: "length xs = len \<Longrightarrow> 0 < len \<Longrightarrow>
    map (\<lambda>i. if i = len - 1 then c else xs ! (i + 1)) [0..<len] = tl xs @ [c]"
  by (rule nth_equalityI) (auto simp: nth_append nth_tl)

lemma shift_right: "length xs = len \<Longrightarrow> 0 < len \<Longrightarrow>
    map (\<lambda>i. if i = 0 then c else xs ! (i - 1)) [0..<len] = c # butlast xs"
  by (rule nth_equalityI) (auto simp: nth_Cons nth_butlast split: nat.split)

lemma digs_push: "0 < n \<Longrightarrow> d < 10 \<Longrightarrow> digs (10 * n + d) = digs n @ [char_of (d + 48)]"
  by (subst digs_snoc) auto

lemma field_digit: "0 < len \<Longrightarrow> d < 10 \<Longrightarrow> (field len 0)[len - 1 := char_of (d + 48)] = field len d"
  by (cases "d = 0") (auto simp: field_def list_update_append digs_snoc [of d])

lemma add_char_field:
  assumes "0 < len" "len \<le> 4" "n < 10 ^ len" "d < 10"
  shows "add_char_to_end (field len n) len (char_of (d + 48)) =
    field len (if n < 10 ^ (len - 1) then 10 * n + d else n)"
proof -
  have "(10 :: nat) ^ len \<le> 10 ^ 4" using assms(2) by (intro power_increasing) auto
  then have n: "unat (of_nat n :: u16) = n" using assms(3) by (simp add: unsigned_of_nat take_bit_nat_eq_self)
  have len: "length (field len n) = len" using assms(1,3) by (rule length_field)
  have digits: "unat (num_digits (string_to_u16 (field len n))) = length (digs n)"
    by (simp add: num_digits_digs n)
  consider "length (digs n) = len" | "n = 0" | "0 < n" "length (digs n) < len"
    using length_digs_le [of n len] assms(3) by fastforce
  then show ?thesis
  proof cases
    case 1
    then have "\<not> n < 10 ^ (len - 1)" using length_digs_less [of n len] assms(1) by auto
    then show ?thesis using 1 digits by (simp add: add_char_to_end_def)
  next
    case 2
    then show ?thesis
      using digits assms(1,4) field_digit [OF assms(1,4)] by (simp add: add_char_to_end_def)
  next
    case 3
    then have small: "n < 10 ^ (len - 1)" using length_digs_less [of n len] by simp
    have "add_char_to_end (field len n) len (char_of (d + 48)) = tl (field len n) @ [char_of (d + 48)]"
      using 3 digits shift_left [OF len assms(1)] by (simp add: add_char_to_end_def)
    also have "tl (field len n) = replicate (len - 1 - length (digs n)) (CHR '' '') @ digs n"
      using 3 by (cases "len - length (digs n)") (auto simp: field_def)
    finally show ?thesis
      using 3 small assms(4) by (simp add: field_def digs_push)
  qed
qed

lemma del_char_field:
  assumes "0 < len" "n < 10 ^ len"
  shows "del_char_at_end (field len n) len = field len (n div 10)"
proof -
  have len: "length (field len n) = len" using assms by (rule length_field)
  have del: "del_char_at_end (field len n) len =
      (let str = CHR '' '' # butlast (field len n)
       in if str ! (len - 1) = CHR '' '' then str[len - 1 := CHR ''0''] else str)"
    unfolding del_char_at_end_def shift_right [OF len assms(1)] ..
  show ?thesis
  proof (cases "n < 10")
    case True
    then have "CHR '' '' # butlast (field len n) = replicate len (CHR '' '')"
      using assms(1) by (cases len) (auto simp: field_def digs_snoc butlast_append)
    moreover have "(replicate len (CHR '' ''))[len - 1 := CHR ''0''] = field len 0"
      using assms(1) by (cases len) (simp_all add: field_def replicate_append_same [symmetric] list_update_append)
    ultimately show ?thesis
      using del assms(1) True by (simp add: Let_def)
  next
    case False
    then have n: "0 < n" "0 < n div 10" by (auto simp: div_greater_zero_iff)
    have l: "length (digs n) \<le> len" using assms(2) by (simp add: length_digs_le)
    have eq: "CHR '' '' # butlast (field len n) = field len (n div 10)"
      using n l by (simp add: field_def digs_snoc [of n] butlast_append Suc_diff_le flip: replicate_Suc append_Cons)
    have "last (field len (n div 10)) = char_of (n div 10 mod 10 + 48)"
      using n by (simp add: field_def digs_snoc [of "n div 10"])
    moreover have "char_of (n div 10 mod 10 + 48) \<noteq> CHR '' ''"
      using is_digit_digit [of "n div 10 mod 10"] not_digit_blank by (metis mod_less_divisor zero_less_numeral)
    moreover have "length (field len (n div 10)) = len"
      using assms by (intro length_field) (auto intro: le_less_trans [of _ n])
    ultimately have "field len (n div 10) ! (len - 1) \<noteq> CHR '' ''"
      using assms(1) by (metis last_conv_nth length_0_conv less_numeral_extra(3))
    then show ?thesis unfolding del eq by (simp add: Let_def)
  qed
qed

section \<open>Properties\<close>

text \<open>
  A number survives the field: \<open>u16_to_string\<close> shows any number of at most \<open>len\<close> digits
  right-aligned, and \<open>string_to_u16\<close> reads it back.
\<close>

theorem number_roundtrip:
  assumes "0 < len" "unat num < 10 ^ len"
  shows "u16_to_string num len = field len (unat num) \<and> string_to_u16 (u16_to_string num len) = num"
  using u16_to_string_field [OF assms] by simp

theorem number_roundtrip_witness:
  "u16_to_string 1207 4 = ''1207'' \<and> string_to_u16 (u16_to_string 305 4) = 305"
proof -
  have "field 4 1207 = ''1207''" by (simp add: field_def digs.simps)
  then show ?thesis
    using number_roundtrip [of 4 1207] number_roundtrip [of 4 305] by simp
qed

text \<open>
  Typing a digit and erasing one are arithmetic on the number shown: a digit key makes 10 n + d of n
  when there is room and changes nothing when the field is full, and backspace divides by ten; the field stays
  well formed for the next key.
\<close>

theorem number_editing:
  assumes "0 < len" "len \<le> 4" "n < 10 ^ len" "d < 10"
  shows "add_char_to_end (field len n) len (char_of (d + 48)) =
      field len (if n < 10 ^ (len - 1) then 10 * n + d else n) \<and>
    del_char_at_end (field len n) len = field len (n div 10)"
  using add_char_field [OF assms] del_char_field [OF assms(1,3)] by blast

theorem number_editing_witness:
  "add_char_to_end (field 4 120) 4 (CHR ''7'') = field 4 1207 \<and>
   del_char_at_end (field 4 120) 4 = field 4 12"
  using number_editing [of 4 120 7] by simp

end
