(* ===== verification/Menu_Ui.thy ===== *)
theory Menu_Ui
  imports Handlers Fonts Llama_Strings Output
begin

text \<open>
  The entries of the setup menu (\<open>seabios/src/llama/llama_bios_menu.h\<close>) and the drawing of its
  screen (\<open>llama_bios_menu_ui.c\<close>).

  Drawing is a sequence of calls to the video BIOS, interrupt 10h, whose results the code never
  looks at. A drawing function that reads no device is modelled as the list of the register sets it
  calls with, in order; \<open>video\<close> performs such a list.
\<close>

section \<open>Menu entries\<close>

text \<open>
  A null function pointer is \<open>None\<close>. The arrays in an entry have ten elements; an initialiser
  with fewer leaves the rest zero.
\<close>

record change_entry =
  ce_name :: string
  ce_value :: u16

record 's submenu_entry =
  name_id :: u16
  description1_id :: u16
  description2_id :: u16
  description3_id :: u16
  num_change_entries :: int
  change_entries_init :: "change_entry list"
  get_selection_value :: "(llama_bios_settings \<Rightarrow> 's \<Rightarrow> (u16 \<times> 's) option) option"
  set_selection_value :: "(llama_bios_settings \<Rightarrow> u16 \<Rightarrow> 's \<Rightarrow> (llama_bios_settings \<times> 's) option) option"
  input_unit :: string
  get_input_value :: "(llama_bios_settings \<Rightarrow> 's \<Rightarrow> (u16 \<times> 's) option) option"
  set_input_value :: "(llama_bios_settings \<Rightarrow> u16 \<Rightarrow> 's \<Rightarrow> (llama_bios_settings \<times> 's) option) option"
  get_enabled :: "(llama_bios_settings \<Rightarrow> 's \<Rightarrow> (u8 \<times> 's) option) option"

record 's main_menu_entry =
  main_name_id :: u16
  num_submenus :: int
  submenus_init :: "'s submenu_entry list"
  update_loop :: "(u8 \<Rightarrow> 's \<Rightarrow> 's option) option"

abbreviation change_entry :: "string \<Rightarrow> u16 \<Rightarrow> change_entry" where
  "change_entry name value \<equiv> \<lparr>ce_name = name, ce_value = value\<rparr>"

definition change_entries :: "'s submenu_entry \<Rightarrow> change_entry list" where
  "change_entries e = padded 10 (change_entry '''' 0) (change_entries_init e)"

definition submenu_zero :: "'s submenu_entry" where
  "submenu_zero =
     \<lparr>name_id = 0, description1_id = 0, description2_id = 0, description3_id = 0,
      num_change_entries = 0, change_entries_init = [],
      get_selection_value = None, set_selection_value = None, input_unit = '''',
      get_input_value = None, set_input_value = None, get_enabled = None\<rparr>"

definition submenus :: "'s main_menu_entry \<Rightarrow> 's submenu_entry list" where
  "submenus m = padded 10 submenu_zero (submenus_init m)"

text \<open>A call through a function pointer; calling a null pointer is undefined.\<close>

definition call_ptr :: "'f option \<Rightarrow> ('f \<Rightarrow> 'r option) \<Rightarrow> 'r option" where
  "call_ptr p k = Option.bind p k"

section \<open>Colours\<close>

definition COLOR :: "u8 \<Rightarrow> u8 \<Rightarrow> u8" where
  "COLOR foreground background = (foreground AND 0x0F) OR push_bit 4 (background AND 0x0F)"

abbreviation BLACK :: u8 where "BLACK \<equiv> 0x00"
abbreviation BLUE :: u8 where "BLUE \<equiv> 0x01"
abbreviation RED :: u8 where "RED \<equiv> 0x04"
abbreviation LIGHT_GRAY :: u8 where "LIGHT_GRAY \<equiv> 0x07"
abbreviation YELLOW :: u8 where "YELLOW \<equiv> 0x0E"
abbreviation WHITE :: u8 where "WHITE \<equiv> 0x0F"
abbreviation BACKGROUND :: u8 where "BACKGROUND \<equiv> BLUE"
abbreviation ACTIVE_BACKGROUND :: u8 where "ACTIVE_BACKGROUND \<equiv> RED"
abbreviation PASSIVE_BACKGROUND :: u8 where "PASSIVE_BACKGROUND \<equiv> LIGHT_GRAY"
abbreviation PASSIVE_TEXT :: u8 where "PASSIVE_TEXT \<equiv> WHITE"
abbreviation ACTIVE_TEXT :: u8 where "ACTIVE_TEXT \<equiv> YELLOW"

section \<open>Calls to the video BIOS\<close>

definition video :: "'w io \<Rightarrow> bregs list \<Rightarrow> ('w, 'z) mach_scheme \<Rightarrow> ('w, 'z) mach_scheme" where
  "video io brs s = fold (\<lambda>br s. snd (call16_int io 0x10 br s)) brs s"

abbreviation br_irq :: bregs where
  "br_irq \<equiv> bregs_zero\<lparr>br_flags := F_IF\<rparr>"

definition set_cursor_position :: "u8 \<Rightarrow> u8 \<Rightarrow> bregs list" where
  "set_cursor_position row col = [br_irq\<lparr>br_ah := 0x02, br_dh := row, br_dl := col\<rparr>]"

definition print_color_char :: "u8 \<Rightarrow> u8 \<Rightarrow> u16 \<Rightarrow> bregs list" where
  "print_color_char c color repeat =
     [set_cx repeat (br_irq\<lparr>br_ah := 0x09, br_al := c, br_bl := color\<rparr>)]"

definition string_bytes :: "string \<Rightarrow> u8 list" where
  "string_bytes str = map of_char str"

definition print_color_string :: "string \<Rightarrow> u8 \<Rightarrow> u8 \<Rightarrow> u8 \<Rightarrow> bregs list" where
  "print_color_string str color row col =
     (case snprintf 80 ''%s'' [PStr str] of
        None \<Rightarrow> []
      | Some (string, _) \<Rightarrow>
          [(set_cx (of_nat (length string)) (br_irq\<lparr>br_ah := 0x13, br_al := 0, br_bl := color\<rparr>))
             \<lparr>br_dh := row, br_dl := col, es_bp := string_bytes string\<rparr>])"

definition centered_col :: "u8 \<Rightarrow> u8" where
  "centered_col len = of_int ((80 - uint len) sdiv 2)"

definition print_centered_color_string :: "string \<Rightarrow> u8 \<Rightarrow> u8 \<Rightarrow> bregs list" where
  "print_centered_color_string str color row =
     print_color_string str color row (centered_col (of_nat (length str)))"

definition print_name_and_value :: "string \<Rightarrow> string \<Rightarrow> u8 \<Rightarrow> u8 \<Rightarrow> u8 \<Rightarrow> bregs list" where
  "print_name_and_value name value color row col =
     (case snprintf 40 ''%s: %s'' [PStr name, PStr value] of
        None \<Rightarrow> []
      | Some (string, _) \<Rightarrow> print_color_string string color row col)"

definition clear_screen :: "u8 \<Rightarrow> bregs list" where
  "clear_screen color =
     [br_irq\<lparr>br_ah := 0x06, br_al := 0, br_bh := color, br_ch := 0, br_cl := 0,
        br_dh := 24, br_dl := 79\<rparr>]"

definition hide_cursor :: "bregs list" where
  "hide_cursor = [br_irq\<lparr>br_ah := 0x01, br_ch := 0x26, br_cl := 0x07\<rparr>]"

definition clear_area :: "u8 \<Rightarrow> u8 \<Rightarrow> u8 \<Rightarrow> u8 \<Rightarrow> bregs list" where
  "clear_area row col width height =
     concat (map (\<lambda>i. set_cursor_position (of_nat i) col @
                      print_color_char 0x20 (COLOR PASSIVE_TEXT BACKGROUND) (ucast width))
                 [unat row ..< unat row + unat height])"

definition draw_bottom_text :: "'s submenu_entry \<Rightarrow> bregs list" where
  "draw_bottom_text e =
     (let color = COLOR PASSIVE_TEXT BACKGROUND;
          col = (\<lambda>string. ucast ((80 - of_nat (length string) :: u32) div 2))
      in clear_area 21 1 78 3 @
         (let string = get_string (description1_id e)
          in print_color_string string color 21 (col string)) @
         (let string = get_string (description2_id e)
          in print_color_string string color 22 (col string)) @
         (let string = get_string (description3_id e)
          in print_color_string string color 23 (col string)))"

section \<open>The background\<close>

definition background_row :: "u8 \<Rightarrow> nat \<Rightarrow> bregs list" where
  "background_row passive_color row =
     (let at = (\<lambda>col. set_cursor_position (of_nat row) col);
          put = (\<lambda>c. print_color_char c passive_color)
      in if row = 0 then
           put DOUBLE_LINES_TOP_LEFT_CORNER 1 @
           at 1 @ put DOUBLE_LINES_HORIZONTAL 78 @
           at 79 @ put DOUBLE_LINES_TOP_RIGHT_CORNER 1
         else if row \<in> {1, 2, 18, 19, 21, 22, 23} then
           put DOUBLE_LINES_VERTICAL 1 @
           at 79 @ put DOUBLE_LINES_VERTICAL 1
         else if row = 3 then
           put DOUBLE_LINES_VERTICAL_DL_RIGHT 1 @
           at 1 @ put DOUBLE_LINES_HORIZONTAL 38 @
           at 39 @ put DOUBLE_LINES_HORIZONTAL_SL_DOWN 1 @
           at 40 @ put DOUBLE_LINES_HORIZONTAL 39 @
           at 79 @ put DOUBLE_LINES_VERTICAL_DL_LEFT 1
         else if row = 4 \<or> 6 \<le> row \<and> row \<le> 16 then
           put DOUBLE_LINES_VERTICAL 1 @
           at 39 @ put SINGLE_LINE_VERTICAL 1 @
           at 79 @ put DOUBLE_LINES_VERTICAL 1
         else if row = 5 then
           put DOUBLE_LINES_VERTICAL_SL_RIGHT 1 @
           at 1 @ put SINGLE_LINE_HORIZONTAL 38 @
           at 39 @ put SINGLE_LINE_CROSS 1 @
           at 40 @ put SINGLE_LINE_HORIZONTAL 39 @
           at 79 @ put DOUBLE_LINES_VERTICAL_SL_LEFT 1
         else if row = 17 then
           put DOUBLE_LINES_VERTICAL_SL_RIGHT 1 @
           at 1 @ put SINGLE_LINE_HORIZONTAL 38 @
           at 39 @ put SINGLE_LINE_HORIZONTAL_SL_UP 1 @
           at 40 @ put SINGLE_LINE_HORIZONTAL 39 @
           at 79 @ put DOUBLE_LINES_VERTICAL_SL_LEFT 1
         else if row = 20 then
           put DOUBLE_LINES_VERTICAL_SL_RIGHT 1 @
           at 1 @ put SINGLE_LINE_HORIZONTAL 78 @
           at 79 @ put DOUBLE_LINES_VERTICAL_SL_LEFT 1
         else if row = 24 then
           put DOUBLE_LINES_BOTTOM_LEFT_CORNER 1 @
           at 1 @ put DOUBLE_LINES_HORIZONTAL 78 @
           at 79 @ put DOUBLE_LINES_BOTTOM_RIGHT_CORNER 1
         else [])"

definition background_logo :: "u8 \<Rightarrow> bregs list" where
  "background_logo passive_color =
     (let put = (\<lambda>row col c. set_cursor_position row col @ print_color_char c passive_color 1)
      in put 1 74 LLAMA_FONT_0 @
         put 1 75 LLAMA_FONT_1 @
         put 1 76 (LLAMA_FONT_1 + 1) @
         put 1 77 (LLAMA_FONT_1 + 2) @
         put 2 74 (LLAMA_FONT_1 + 3) @
         put 2 75 (LLAMA_FONT_1 + 4) @
         put 2 76 (LLAMA_FONT_1 + 5) @
         put 2 77 (LLAMA_FONT_1 + 6))"

definition background_help :: "u8 \<Rightarrow> bregs list" where
  "background_help passive_color =
     print_color_string ''ESC : Quit'' passive_color 18 4 @
     (case snprintf 29 ''%c %c %c %c : Move Between Items''
             [PInt (ucast LLAMA_FONT_UP_ARROW), PInt (ucast LLAMA_FONT_DOWN_ARROW),
              PInt (ucast LLAMA_FONT_LEFT_ARROW), PInt (ucast LLAMA_FONT_RIGHT_ARROW)] of
        None \<Rightarrow> []
      | Some (move_str, _) \<Rightarrow> print_color_string move_str passive_color 18 43) @
     print_color_string ''F10 : Save & Quit'' passive_color 19 4 @
     print_color_string ''ENTER   : Select Item'' passive_color 19 43"

definition draw_background :: "bregs list" where
  "draw_background =
     (let passive_color = COLOR PASSIVE_TEXT BACKGROUND;
          active_color = COLOR ACTIVE_TEXT BACKGROUND
      in clear_screen passive_color @
         concat (map (\<lambda>row. set_cursor_position (of_nat row) 0 @ background_row passive_color row)
                     [0..<25]) @
         print_color_string ''MAIN MENU'' passive_color 4 4 @
         print_color_string ''DETAILS'' passive_color 4 43 @
         print_centered_color_string ''ITX-Llama BIOS Setup'' active_color 1 @
         print_centered_color_string ''(C) 2023 Eivind Bohler'' passive_color 2 @
         background_logo passive_color @
         background_help passive_color)"

section \<open>The popups\<close>

text \<open>
  Sizes and positions are \<open>u16\<close> variables. The two popups draw the same title line; a position is
  cut to the \<open>u8\<close> parameter of the call.
\<close>

definition half_screen :: "int \<Rightarrow> u16 \<Rightarrow> u16" where
  "half_screen size_of used = of_int ((size_of - uint used) sdiv 2)"

definition popup_title :: "string \<Rightarrow> u8 \<Rightarrow> u16 \<Rightarrow> u16 \<Rightarrow> u16 \<Rightarrow> bregs list" where
  "popup_title title color popup_row popup_col popup_width =
     (let title_length = of_nat (length title);
          title_left_padding = (popup_width - title_length) div 2;
          title_right_padding = popup_width - title_left_padding - title_length;
          at = (\<lambda>col. set_cursor_position (ucast popup_row) (ucast (popup_col + col)));
          put = (\<lambda>c. print_color_char c color)
      in at 0 @ put SINGLE_LINE_TOP_LEFT_CORNER 1 @
         at 1 @ put SINGLE_LINE_HORIZONTAL (title_left_padding - 2) @
         at (title_left_padding - 1) @ put 0x20 1 @
         print_color_string title color (ucast popup_row) (ucast (popup_col + title_left_padding)) @
         at (title_left_padding + title_length) @ put 0x20 1 @
         at (title_left_padding + title_length + 1) @
         put SINGLE_LINE_HORIZONTAL (title_right_padding - 2) @
         at (popup_width - 1) @ put SINGLE_LINE_TOP_RIGHT_CORNER 1)"

definition popup_middle :: "u8 \<Rightarrow> u16 \<Rightarrow> u16 \<Rightarrow> u16 \<Rightarrow> bregs list" where
  "popup_middle color row popup_col popup_width =
     (let at = (\<lambda>col. set_cursor_position (ucast row) (ucast (popup_col + col)));
          put = (\<lambda>c. print_color_char c color)
      in at 0 @ put SINGLE_LINE_VERTICAL 1 @
         at 1 @ put 0x20 (popup_width - 2) @
         at (popup_width - 1) @ put SINGLE_LINE_VERTICAL 1 @
         at popup_width @ print_color_char BLOCK_FULL (COLOR BLACK BLACK) 2)"

definition popup_bottom :: "u8 \<Rightarrow> u16 \<Rightarrow> u16 \<Rightarrow> u16 \<Rightarrow> bregs list" where
  "popup_bottom color row popup_col popup_width =
     (let at = (\<lambda>col. set_cursor_position (ucast row) (ucast (popup_col + col)));
          put = (\<lambda>c. print_color_char c color)
      in at 0 @ put SINGLE_LINE_BOTTOM_LEFT_CORNER 1 @
         at 1 @ put SINGLE_LINE_HORIZONTAL (popup_width - 2) @
         at (popup_width - 1) @ put SINGLE_LINE_BOTTOM_RIGHT_CORNER 1 @
         at popup_width @ print_color_char BLOCK_FULL (COLOR BLACK BLACK) 2 @
         set_cursor_position (ucast (row + 1)) (ucast (popup_col + 2)) @
         print_color_char BLOCK_FULL (COLOR BLACK BLACK) popup_width)"

definition max_name_length :: "u16 \<Rightarrow> change_entry list \<Rightarrow> u16" where
  "max_name_length max_length es =
     foldl (\<lambda>m e. if of_nat (length (ce_name e)) > m then of_nat (length (ce_name e)) else m)
       max_length es"

definition selection_popup_width :: "'s submenu_entry \<Rightarrow> u16" where
  "selection_popup_width e =
     (let title_length = of_nat (length (get_string (name_id e)));
          max_length = max_name_length title_length
                         (take (nat (num_change_entries e)) (change_entries e));
          w = max_length + 6
      in if w < 23 then 23 else w)"

definition draw_selection_popup :: "'s submenu_entry \<Rightarrow> int \<Rightarrow> bregs list" where
  "draw_selection_popup e selected_change_entry =
     (let title = get_string (name_id e);
          n = of_int (num_change_entries e) :: u16;
          popup_width = selection_popup_width e;
          popup_height = n + 2;
          popup_row = half_screen 25 popup_height;
          popup_col = half_screen 80 popup_width;
          color = COLOR BACKGROUND PASSIVE_BACKGROUND
      in popup_title title color popup_row popup_col popup_width @
         concat (map (\<lambda>i.
             (let row = popup_row + 1 + of_nat i;
                  value_color = (if int i = selected_change_entry
                                 then COLOR PASSIVE_TEXT BACKGROUND else color)
              in popup_middle color row popup_col popup_width @
                 print_color_string (ce_name (change_entries e ! i)) value_color
                   (ucast row) (ucast (popup_col + 3))))
           [0..<nat (num_change_entries e)]) @
         popup_bottom color (popup_row + 1 + n) popup_col popup_width)"

definition input_popup_width :: "string \<Rightarrow> string \<Rightarrow> string \<Rightarrow> u16" where
  "input_popup_width title unit_title input =
     (let title_length = of_nat (length title) :: u16;
          input_total = of_nat (length input) + 1 + of_nat (length unit_title);
          max_length = (if input_total > title_length then input_total else title_length);
          w = max_length + 6
      in if w < 23 then 23 else w)"

definition draw_input_popup :: "string \<Rightarrow> string \<Rightarrow> string \<Rightarrow> bregs list" where
  "draw_input_popup title unit_title input =
     (let input_length = of_nat (length input) :: u16;
          popup_width = input_popup_width title unit_title input;
          popup_height = 5;
          popup_row = half_screen 25 popup_height;
          popup_col = half_screen 80 popup_width;
          color = COLOR BACKGROUND PASSIVE_BACKGROUND;
          input_color = COLOR PASSIVE_TEXT ACTIVE_BACKGROUND
      in popup_title title color popup_row popup_col popup_width @
         concat (map (\<lambda>i. popup_middle color (popup_row + 1 + of_nat i) popup_col popup_width)
                     [0..<3]) @
         popup_bottom color (popup_row + 4) popup_col popup_width @
         print_color_string input input_color (ucast (popup_row + 2)) (ucast (popup_col + 3)) @
         print_color_string unit_title color (ucast (popup_row + 2))
           (ucast (popup_col + 3 + input_length + 1)) @
         set_cursor_position (ucast (popup_row + 2)) (ucast (popup_col + 3 + input_length - 1)))"

section \<open>The menus\<close>

definition get_change_entry :: "change_entry list \<Rightarrow> int \<Rightarrow> u16 \<Rightarrow> change_entry" where
  "get_change_entry entries num value =
     (if num < 1 then change_entry ''ERROR'' 0
      else case find (\<lambda>e. ce_value e = value) (take (nat num) entries) of
             Some e \<Rightarrow> e
           | None \<Rightarrow> entries ! 0)"

definition main_entry_color :: "int \<Rightarrow> int \<Rightarrow> int \<Rightarrow> u8" where
  "main_entry_color i selected_main_entry selected_sub_entry =
     (if selected_main_entry = i
      then if selected_sub_entry \<noteq> - 1 then COLOR PASSIVE_TEXT PASSIVE_BACKGROUND
           else COLOR PASSIVE_TEXT ACTIVE_BACKGROUND
      else COLOR ACTIVE_TEXT BACKGROUND)"

text \<open>One turn of the inner loop of \<open>draw_menus\<close>: the row of submenu \<open>j\<close>.\<close>

definition draw_submenu_row :: "'w io \<Rightarrow> llama_bios_settings \<Rightarrow>
    (('w, 'z) mach_scheme) main_menu_entry \<Rightarrow> int \<Rightarrow> int \<Rightarrow> int \<Rightarrow> string option \<Rightarrow> nat \<Rightarrow>
    ('w, 'z) mach_scheme \<Rightarrow> ('w, 'z) mach_scheme option" where
  "draw_submenu_row io lbs m selected_sub_entry selected_change_entry selected_quit_entry input j s =
     do {
       e \<leftarrow> arr_get (submenus m) (int j);
       let color =
         (if selected_sub_entry = int j
          then if selected_change_entry \<noteq> - 1 \<or> input \<noteq> None \<or> selected_quit_entry \<noteq> - 1
               then COLOR PASSIVE_TEXT PASSIVE_BACKGROUND
               else COLOR PASSIVE_TEXT ACTIVE_BACKGROUND
          else COLOR ACTIVE_TEXT BACKGROUND);
       (color, s) \<leftarrow>
         (case get_enabled e of
            None \<Rightarrow> Some (color, s)
          | Some enabled \<Rightarrow> do {
              (v, s) \<leftarrow> enabled lbs s;
              Some (if v = 0 then COLOR PASSIVE_TEXT PASSIVE_BACKGROUND else color, s)
            });
       case get_input_value e of
         Some get_input \<Rightarrow> do {
           (num_value, s) \<leftarrow> get_input lbs s;
           (string_value, _) \<leftarrow> snprintf 10 ''  %4d'' [PInt (ucast num_value)];
           Some (video io (print_name_and_value (get_string (name_id e)) string_value color
                             (6 + of_nat j) 43) s)
         }
       | None \<Rightarrow> do {
           (value, s) \<leftarrow> call_ptr (get_selection_value e) (\<lambda>get. get lbs s);
           let ce = get_change_entry (change_entries e) (num_change_entries e) value;
           Some (video io (print_name_and_value (get_string (name_id e)) (ce_name ce) color
                             (6 + of_nat j) 43) s)
         }
     }"

definition draw_main_row :: "'w io \<Rightarrow> llama_bios_settings \<Rightarrow>
    (('w, 'z) mach_scheme) main_menu_entry list \<Rightarrow> int \<Rightarrow> int \<Rightarrow> int \<Rightarrow> int \<Rightarrow> string option \<Rightarrow> nat \<Rightarrow>
    ('w, 'z) mach_scheme \<Rightarrow> ('w, 'z) mach_scheme option" where
  "draw_main_row io lbs entries selected_main_entry selected_sub_entry selected_change_entry
     selected_quit_entry input i s =
     do {
       m \<leftarrow> arr_get entries (int i);
       let s = video io (print_color_string (get_string (main_name_id m))
                 (main_entry_color (int i) selected_main_entry selected_sub_entry)
                 (6 + of_nat i) 4) s;
       s \<leftarrow> (if selected_main_entry = int i
             then for_each (draw_submenu_row io lbs m selected_sub_entry selected_change_entry
                              selected_quit_entry input) [0..<nat (num_submenus m)] s
             else Some s);
       if selected_sub_entry \<noteq> - 1
       then do {
         m \<leftarrow> arr_get entries selected_main_entry;
         e \<leftarrow> arr_get (submenus m) selected_sub_entry;
         Some (video io (draw_bottom_text e) s)
       }
       else Some s
     }"

definition draw_menus :: "'w io \<Rightarrow> llama_bios_settings \<Rightarrow>
    (('w, 'z) mach_scheme) main_menu_entry list \<Rightarrow> (('w, 'z) mach_scheme) submenu_entry \<Rightarrow>
    int \<Rightarrow> int \<Rightarrow> int \<Rightarrow> int \<Rightarrow> int \<Rightarrow> string option \<Rightarrow>
    ('w, 'z) mach_scheme \<Rightarrow> ('w, 'z) mach_scheme option" where
  "draw_menus io lbs entries quit_entry num_main_entries selected_main_entry selected_sub_entry
     selected_change_entry selected_quit_entry input s =
     do {
       s \<leftarrow> for_each (draw_main_row io lbs entries selected_main_entry selected_sub_entry
                        selected_change_entry selected_quit_entry input)
               [0..<nat num_main_entries] s;
       s \<leftarrow> (if selected_main_entry \<noteq> - 1 \<and> selected_sub_entry \<noteq> - 1 \<and>
                 (selected_change_entry \<noteq> - 1 \<or> input \<noteq> None)
             then do {
               m \<leftarrow> arr_get entries selected_main_entry;
               e \<leftarrow> arr_get (submenus m) selected_sub_entry;
               if get_input_value e \<noteq> None
               then do {
                 text_in \<leftarrow> input;
                 Some (video io (draw_input_popup (get_string (name_id e)) (input_unit e) text_in) s)
               }
               else Some (video io (draw_selection_popup e selected_change_entry) s)
             }
             else Some s);
       let s = (if selected_quit_entry \<noteq> - 1
                then video io (draw_selection_popup quit_entry selected_quit_entry) s else s);
       Some (video io (set_cursor_position 25 0) s)
     }"

section \<open>The measured fan speeds\<close>

record 'w ui_mach = "'w spi_mach" +
  last_rpm_draw :: u32

definition draw_fan_rpm :: "'w io \<Rightarrow> u8 \<Rightarrow> (('w, 'z) mach_scheme \<Rightarrow> (u16 \<times> ('w, 'z) mach_scheme) option) \<Rightarrow>
    u8 \<Rightarrow> u8 \<Rightarrow> ('w, 'z) mach_scheme \<Rightarrow> ('w, 'z) mach_scheme option" where
  "draw_fan_rpm io fan_status get_tach_rpm color row s =
     (if fan_status AND 0x07 \<noteq> 0
      then Some (video io (print_color_string '' OFF'' color row 63) s)
      else do {
        (v, s) \<leftarrow> get_tach_rpm s;
        Some (video io (print_color_string (u16_to_string v 4) color row 63) s)
      })"

definition draw_fan_rpms :: "'w io \<Rightarrow> u8 \<Rightarrow> ('w, 'z) ui_mach_scheme \<Rightarrow> ('w, 'z) ui_mach_scheme option"
where
  "draw_fan_rpms io reset s =
     (if reset \<noteq> 0 then Some (s\<lparr>last_rpm_draw := 0\<rparr>)
      else case timer_check io (last_rpm_draw s) s of (due, s) \<Rightarrow>
        if \<not> due then Some s
        else case timer_calc io 500 s of (next_draw, s) \<Rightarrow>
          (let color = COLOR PASSIVE_TEXT BACKGROUND;
               s = s\<lparr>last_rpm_draw := next_draw\<rparr>;
               s = video io (print_color_string ''Fan 1 Measured RPM: '' color 10 43 @
                             print_color_string ''Fan 2 Measured RPM: '' color 11 43 @
                             print_color_string ''Fan 3 Measured RPM: '' color 12 43) s
           in do {
             ((fan1_status, fan2_status, fan3_status), s) \<leftarrow> llama_get_fan_statuses io s;
             s \<leftarrow> draw_fan_rpm io fan1_status (llama_get_fan1_tach_rpm io) color 10 s;
             s \<leftarrow> draw_fan_rpm io fan2_status (llama_get_fan2_tach_rpm io) color 11 s;
             draw_fan_rpm io fan3_status (llama_get_fan3_tach_rpm io) color 12 s
           }))"

end
