(* ===== verification/Menu_Tables.thy ===== *)
theory Menu_Tables
  imports Menu_Ui
begin

text \<open>
  The entries of the setup menu, the tables \<open>quit_menu_entry\<close> and \<open>main_menu_entries\<close> of
  \<open>seabios/src/llama/llama_bios_menu.c\<close>: one definition per main menu.
\<close>

text \<open>The two conditions under which an entry can be selected.\<close>

definition ext_fm_present :: "llama_bios_settings \<Rightarrow> 's \<Rightarrow> (u8 \<times> 's) option" where
  "ext_fm_present lbs s = Some (cs4237_ext_fm_present lbs, s)"

definition leds_enabled :: "'w io \<Rightarrow> llama_bios_settings \<Rightarrow> ('w, 'z) mach_scheme \<Rightarrow>
    (u8 \<times> ('w, 'z) mach_scheme) option" where
  "leds_enabled io lbs s = do { (v, s) \<leftarrow> handler_get_leds_enabled io lbs s; Some (ucast v, s) }"

definition quit_menu_entry :: "'s submenu_entry" where
  "quit_menu_entry =
     \<lparr>name_id = STRING_NAME_QUIT,
      description1_id = STRING_DESC_QUIT_1,
      description2_id = STRING_DESC_QUIT_2,
      description3_id = STRING_DESC_QUIT_3,
      num_change_entries = 2,
      change_entries_init = [change_entry ''Save & Quit'' 1, change_entry ''Just Quit'' 0],
      get_selection_value = None,
      set_selection_value = None,
      input_unit = '''',
      get_input_value = None,
      set_input_value = None,
      get_enabled = None\<rparr>"

definition cpu_menu :: "'w io \<Rightarrow> (('w, 'z) ui_mach_scheme) main_menu_entry" where
  \<open>cpu_menu io =
     \<lparr>main_name_id = STRING_MAIN_CPU_SETTINGS,
      num_submenus = 3,
      submenus_init =
       [
        \<lparr>name_id = STRING_NAME_CPU_FREQ,
         description1_id = STRING_DESC_CPU_FREQ_1,
         description2_id = STRING_DESC_CPU_FREQ_2,
         description3_id = STRING_DESC_CPU_FREQ_3,
         num_change_entries = 6,
         change_entries_init =
            [change_entry ''60 MHz'' 0,
             change_entry ''100 MHz'' 1,
             change_entry ''200 MHz'' 2,
             change_entry ''300 MHz'' 3,
             change_entry ''466 MHz'' 4,
             change_entry ''500 MHz'' 5],
         get_selection_value = (Some (handler_get_cpu_freq_index io)),
         set_selection_value = (Some (handler_set_cpu_freq_index io)),
         input_unit = '''',
         get_input_value = None,
         set_input_value = None,
         get_enabled = None\<rparr>,
        \<lparr>name_id = STRING_NAME_L1_CACHE,
         description1_id = STRING_DESC_L1_CACHE_1,
         description2_id = STRING_DESC_L1_CACHE_2,
         description3_id = STRING_DESC_L1_CACHE_3,
         num_change_entries = 2,
         change_entries_init =
            [change_entry ''Enabled'' 1,
             change_entry ''Disabled'' 0],
         get_selection_value = (Some (handler_get_l1_cache io)),
         set_selection_value = (Some (handler_set_l1_cache io)),
         input_unit = '''',
         get_input_value = None,
         set_input_value = None,
         get_enabled = None\<rparr>,
        \<lparr>name_id = STRING_NAME_L2_CACHE,
         description1_id = STRING_DESC_L2_CACHE_1,
         description2_id = STRING_DESC_L2_CACHE_2,
         description3_id = STRING_DESC_L2_CACHE_3,
         num_change_entries = 2,
         change_entries_init =
            [change_entry ''Enabled'' 1,
             change_entry ''Disabled'' 0],
         get_selection_value = (Some (handler_get_l2_cache io)),
         set_selection_value = (Some (handler_set_l2_cache io)),
         input_unit = '''',
         get_input_value = None,
         set_input_value = None,
         get_enabled = None\<rparr>],
      update_loop = None\<rparr>\<close>

definition disk_menu :: "'w io \<Rightarrow> (('w, 'z) ui_mach_scheme) main_menu_entry" where
  \<open>disk_menu io =
     \<lparr>main_name_id = STRING_MAIN_DISK_SETTINGS,
      num_submenus = 2,
      submenus_init =
       [
        \<lparr>name_id = STRING_NAME_BOOT_ORDER,
         description1_id = STRING_DESC_BOOT_ORDER_1,
         description2_id = STRING_DESC_BOOT_ORDER_2,
         description3_id = STRING_DESC_BOOT_ORDER_3,
         num_change_entries = 6,
         change_entries_init =
            [change_entry ''SATA, SD, USB, VFloppy'' 0,
             change_entry ''SATA, USB, SD, VFloppy'' 1,
             change_entry ''SD, SATA, USB, VFloppy'' 2,
             change_entry ''SD, USB, SATA, VFloppy'' 3,
             change_entry ''USB, SATA, SD, VFloppy'' 4,
             change_entry ''USB, SD, SATA, VFloppy'' 5],
         get_selection_value = (Some (handler_get_boot_order_index io)),
         set_selection_value = (Some (handler_set_boot_order_index io)),
         input_unit = '''',
         get_input_value = None,
         set_input_value = None,
         get_enabled = None\<rparr>,
        \<lparr>name_id = STRING_NAME_USB_AS_FIXED_DISKS,
         description1_id = STRING_DESC_USB_AS_FIXED_DISKS_1,
         description2_id = STRING_DESC_USB_AS_FIXED_DISKS_2,
         description3_id = STRING_DESC_USB_AS_FIXED_DISKS_3,
         num_change_entries = 2,
         change_entries_init =
            [change_entry ''Enabled'' 1,
             change_entry ''Disabled'' 0],
         get_selection_value = (Some (handler_get_usb_as_fixed_disks io)),
         set_selection_value = (Some (handler_set_usb_as_fixed_disks io)),
         input_unit = '''',
         get_input_value = None,
         set_input_value = None,
         get_enabled = None\<rparr>],
      update_loop = None\<rparr>\<close>

definition com_menu :: "'w io \<Rightarrow> (('w, 'z) ui_mach_scheme) main_menu_entry" where
  \<open>com_menu io =
     \<lparr>main_name_id = STRING_MAIN_COM_SETTINGS,
      num_submenus = 2,
      submenus_init =
       [
        \<lparr>name_id = STRING_NAME_COM1_BASE_CLOCK,
         description1_id = STRING_DESC_COM1_BASE_CLOCK_1,
         description2_id = STRING_DESC_COM1_BASE_CLOCK_2,
         description3_id = STRING_DESC_COM1_BASE_CLOCK_3,
         num_change_entries = 3,
         change_entries_init =
            [change_entry ''115.2 kHz'' 0,
             change_entry ''3 MHz'' 1,
             change_entry ''6 MHz'' 2],
         get_selection_value = (Some (handler_get_com1_base_clock_index io)),
         set_selection_value = (Some (handler_set_com1_base_clock_index io)),
         input_unit = '''',
         get_input_value = None,
         set_input_value = None,
         get_enabled = None\<rparr>,
        \<lparr>name_id = STRING_NAME_COM2_BASE_CLOCK,
         description1_id = STRING_DESC_COM2_BASE_CLOCK_1,
         description2_id = STRING_DESC_COM2_BASE_CLOCK_2,
         description3_id = STRING_DESC_COM2_BASE_CLOCK_3,
         num_change_entries = 3,
         change_entries_init =
            [change_entry ''115.2 kHz'' 0,
             change_entry ''3 MHz'' 1,
             change_entry ''6 Mhz'' 2],
         get_selection_value = (Some (handler_get_com2_base_clock_index io)),
         set_selection_value = (Some (handler_set_com2_base_clock_index io)),
         input_unit = '''',
         get_input_value = None,
         set_input_value = None,
         get_enabled = None\<rparr>],
      update_loop = None\<rparr>\<close>

definition audio_menu :: "'w io \<Rightarrow> (('w, 'z) ui_mach_scheme) main_menu_entry" where
  \<open>audio_menu io =
     \<lparr>main_name_id = STRING_MAIN_AUDIO_SETTINGS,
      num_submenus = 7,
      submenus_init =
       [
        \<lparr>name_id = STRING_NAME_WSS_PORT,
         description1_id = STRING_DESC_WSS_PORT_1,
         description2_id = STRING_DESC_WSS_PORT_2,
         description3_id = STRING_DESC_WSS_PORT_3,
         num_change_entries = 3,
         change_entries_init =
            [change_entry ''0x534'' 0x534,
             change_entry ''0x540'' 0x540,
             change_entry ''0x604'' 0x604],
         get_selection_value = (Some (handler_get_cs4237_wss_port io)),
         set_selection_value = (Some (handler_set_cs4237_wss_port io)),
         input_unit = '''',
         get_input_value = None,
         set_input_value = None,
         get_enabled = None\<rparr>,
        \<lparr>name_id = STRING_NAME_SYN_PORT,
         description1_id = STRING_DESC_SYN_PORT_1,
         description2_id = STRING_DESC_SYN_PORT_2,
         description3_id = STRING_DESC_SYN_PORT_3,
         num_change_entries = 2,
         change_entries_init =
            [change_entry ''0x388'' 0x388,
             change_entry ''0x3F8'' 0x3F8],
         get_selection_value = (Some (handler_get_cs4237_syn_port io)),
         set_selection_value = (Some (handler_set_cs4237_syn_port io)),
         input_unit = '''',
         get_input_value = None,
         set_input_value = None,
         get_enabled = None\<rparr>,
        \<lparr>name_id = STRING_NAME_SB_PORT,
         description1_id = STRING_DESC_SB_PORT_1,
         description2_id = STRING_DESC_SB_PORT_2,
         description3_id = STRING_DESC_SB_PORT_3,
         num_change_entries = 2,
         change_entries_init =
            [change_entry ''0x220'' 0x220,
             change_entry ''0x240'' 0x240],
         get_selection_value = (Some (handler_get_cs4237_sb_port io)),
         set_selection_value = (Some (handler_set_cs4237_sb_port io)),
         input_unit = '''',
         get_input_value = None,
         set_input_value = None,
         get_enabled = None\<rparr>,
        \<lparr>name_id = STRING_NAME_GAMEPAD_PORT,
         description1_id = STRING_DESC_GAMEPAD_PORT_1,
         description2_id = STRING_DESC_GAMEPAD_PORT_2,
         description3_id = STRING_DESC_GAMEPAD_PORT_3,
         num_change_entries = 2,
         change_entries_init =
            [change_entry ''0x200'' 0x200,
             change_entry ''0x208'' 0x208],
         get_selection_value = (Some (handler_get_cs4237_gamepad_port io)),
         set_selection_value = (Some (handler_set_cs4237_gamepad_port io)),
         input_unit = '''',
         get_input_value = None,
         set_input_value = None,
         get_enabled = None\<rparr>,
        \<lparr>name_id = STRING_NAME_MPU_PORT,
         description1_id = STRING_DESC_MPU_PORT_1,
         description2_id = STRING_DESC_MPU_PORT_2,
         description3_id = STRING_DESC_MPU_PORT_3,
         num_change_entries = 2,
         change_entries_init =
            [change_entry ''0x330'' 0x330,
             change_entry ''0x300'' 0x300],
         get_selection_value = (Some (handler_get_cs4237_mpu_port io)),
         set_selection_value = (Some (handler_set_cs4237_mpu_port io)),
         input_unit = '''',
         get_input_value = None,
         set_input_value = None,
         get_enabled = None\<rparr>,
        \<lparr>name_id = STRING_NAME_EXT_FM,
         description1_id = STRING_DESC_EXT_FM_1,
         description2_id = STRING_DESC_EXT_FM_2,
         description3_id = STRING_DESC_EXT_FM_3,
         num_change_entries = 2,
         change_entries_init =
            [change_entry ''Enabled'' 1,
             change_entry ''Disabled'' 0],
         get_selection_value = (Some (handler_get_cs4237_ext_fm io)),
         set_selection_value = (Some (handler_set_cs4237_ext_fm io)),
         input_unit = '''',
         get_input_value = None,
         set_input_value = None,
         get_enabled = (Some ext_fm_present)\<rparr>,
        \<lparr>name_id = STRING_NAME_DIGITAL,
         description1_id = STRING_DESC_DIGITAL_1,
         description2_id = STRING_DESC_DIGITAL_2,
         description3_id = STRING_DESC_DIGITAL_3,
         num_change_entries = 2,
         change_entries_init =
            [change_entry ''Enabled'' 1,
             change_entry ''Disabled'' 0],
         get_selection_value = (Some (handler_get_cs4237_digital io)),
         set_selection_value = (Some (handler_set_cs4237_digital io)),
         input_unit = '''',
         get_input_value = None,
         set_input_value = None,
         get_enabled = None\<rparr>],
      update_loop = None\<rparr>\<close>

definition ethernet_menu :: "'w io \<Rightarrow> (('w, 'z) ui_mach_scheme) main_menu_entry" where
  \<open>ethernet_menu io =
     \<lparr>main_name_id = STRING_MAIN_ETHERNET_SETTINGS,
      num_submenus = 1,
      submenus_init =
       [
        \<lparr>name_id = STRING_NAME_MAC_ADDRESS,
         description1_id = STRING_DESC_MAC_ADDRESS_1,
         description2_id = STRING_DESC_MAC_ADDRESS_2,
         description3_id = STRING_DESC_MAC_ADDRESS_3,
         num_change_entries = 6,
         change_entries_init =
            [change_entry ''00:0B:B4:00:00:01'' 0,
             change_entry ''00:0B:B4:00:00:02'' 1,
             change_entry ''00:0B:B4:00:00:03'' 2,
             change_entry ''00:0B:B4:00:00:04'' 3,
             change_entry ''00:0B:B4:00:00:05'' 4,
             change_entry ''00:0B:B4:00:00:06'' 5],
         get_selection_value = (Some (handler_get_mac_address_index io)),
         set_selection_value = (Some (handler_set_mac_address_index io)),
         input_unit = '''',
         get_input_value = None,
         set_input_value = None,
         get_enabled = None\<rparr>],
      update_loop = None\<rparr>\<close>

definition fan_menu :: "'w io \<Rightarrow> (('w, 'z) ui_mach_scheme) main_menu_entry" where
  \<open>fan_menu io =
     \<lparr>main_name_id = STRING_MAIN_FAN_CONTROL,
      num_submenus = 3,
      submenus_init =
       [
        \<lparr>name_id = STRING_NAME_FAN1_TARGET_RPM,
         description1_id = STRING_DESC_FAN1_TARGET_RPM_1,
         description2_id = STRING_DESC_FAN1_TARGET_RPM_2,
         description3_id = STRING_DESC_FAN1_TARGET_RPM_3,
         num_change_entries = 0,
         change_entries_init =
            [],
         get_selection_value = None,
         set_selection_value = None,
         input_unit = ''RPM'',
         get_input_value = (Some (handler_get_fan1_target_rpm io)),
         set_input_value = (Some (handler_set_fan1_target_rpm io)),
         get_enabled = None\<rparr>,
        \<lparr>name_id = STRING_NAME_FAN2_TARGET_RPM,
         description1_id = STRING_DESC_FAN2_TARGET_RPM_1,
         description2_id = STRING_DESC_FAN2_TARGET_RPM_2,
         description3_id = STRING_DESC_FAN2_TARGET_RPM_3,
         num_change_entries = 0,
         change_entries_init =
            [],
         get_selection_value = None,
         set_selection_value = None,
         input_unit = ''RPM'',
         get_input_value = (Some (handler_get_fan2_target_rpm io)),
         set_input_value = (Some (handler_set_fan2_target_rpm io)),
         get_enabled = None\<rparr>,
        \<lparr>name_id = STRING_NAME_FAN3_TARGET_RPM,
         description1_id = STRING_DESC_FAN3_TARGET_RPM_1,
         description2_id = STRING_DESC_FAN3_TARGET_RPM_2,
         description3_id = STRING_DESC_FAN3_TARGET_RPM_3,
         num_change_entries = 0,
         change_entries_init =
            [],
         get_selection_value = None,
         set_selection_value = None,
         input_unit = ''RPM'',
         get_input_value = (Some (handler_get_fan3_target_rpm io)),
         set_input_value = (Some (handler_set_fan3_target_rpm io)),
         get_enabled = None\<rparr>],
      update_loop = (Some (draw_fan_rpms io))\<rparr>\<close>

definition misc_menu :: "'w io \<Rightarrow> (('w, 'z) ui_mach_scheme) main_menu_entry" where
  \<open>misc_menu io =
     \<lparr>main_name_id = STRING_MAIN_MISC_SETTINGS,
      num_submenus = 4,
      submenus_init =
       [
        \<lparr>name_id = STRING_NAME_BOOT_TUNE,
         description1_id = STRING_DESC_BOOT_TUNE_1,
         description2_id = STRING_DESC_BOOT_TUNE_2,
         description3_id = STRING_DESC_BOOT_TUNE_3,
         num_change_entries = 3,
         change_entries_init =
            [change_entry ''None'' 0,
             change_entry ''Ducks'' 1,
             change_entry ''Mushroom'' 2],
         get_selection_value = (Some (handler_get_boot_tune_index io)),
         set_selection_value = (Some (handler_set_boot_tune_index io)),
         input_unit = '''',
         get_input_value = None,
         set_input_value = None,
         get_enabled = None\<rparr>,
        \<lparr>name_id = STRING_NAME_LEDS_ENABLED,
         description1_id = STRING_DESC_LEDS_ENABLED_1,
         description2_id = STRING_DESC_LEDS_ENABLED_2,
         description3_id = STRING_DESC_LEDS_ENABLED_3,
         num_change_entries = 2,
         change_entries_init =
            [change_entry ''Enabled'' 1,
             change_entry ''Disabled'' 0],
         get_selection_value = (Some (handler_get_leds_enabled io)),
         set_selection_value = (Some (handler_set_leds_enabled io)),
         input_unit = '''',
         get_input_value = None,
         set_input_value = None,
         get_enabled = None\<rparr>,
        \<lparr>name_id = STRING_NAME_LEDS_INTENSITY,
         description1_id = STRING_DESC_LEDS_INTENSITY_1,
         description2_id = STRING_DESC_LEDS_INTENSITY_2,
         description3_id = STRING_DESC_LEDS_INTENSITY_3,
         num_change_entries = 6,
         change_entries_init =
            [change_entry ''5%'' 13,
             change_entry ''10%'' 26,
             change_entry ''25%'' 64,
             change_entry ''50%'' 128,
             change_entry ''75%'' 191,
             change_entry ''100%'' 254],
         get_selection_value = (Some (handler_get_leds_intensity io)),
         set_selection_value = (Some (handler_set_leds_intensity io)),
         input_unit = '''',
         get_input_value = None,
         set_input_value = None,
         get_enabled = (Some (leds_enabled io))\<rparr>,
        \<lparr>name_id = STRING_NAME_CLICK_ENABLED,
         description1_id = STRING_DESC_CLICK_ENABLED_1,
         description2_id = STRING_DESC_CLICK_ENABLED_2,
         description3_id = STRING_DESC_CLICK_ENABLED_3,
         num_change_entries = 2,
         change_entries_init =
            [change_entry ''Enabled'' 1,
             change_entry ''Disabled'' 0],
         get_selection_value = (Some (handler_get_click_enabled io)),
         set_selection_value = (Some (handler_set_click_enabled io)),
         input_unit = '''',
         get_input_value = None,
         set_input_value = None,
         get_enabled = None\<rparr>],
      update_loop = None\<rparr>\<close>

abbreviation NUM_MAIN_MENU_ENTRIES :: int where
  "NUM_MAIN_MENU_ENTRIES \<equiv> 7"

definition main_menu_entries :: "'w io \<Rightarrow> (('w, 'z) ui_mach_scheme) main_menu_entry list" where
  "main_menu_entries io =
     [cpu_menu io, disk_menu io, com_menu io, audio_menu io, ethernet_menu io, fan_menu io,
      misc_menu io]"

end
