(* ===== verification/Keys.thy ===== *)
theory Keys
  imports Clock
begin

text \<open>
  Waiting for a key: the interrupt-driven timer of \<open>seabios/src/clock.c\<close> and the keyboard calls of
  \<open>seabios/src/kbd_input.c\<close>. A key code has the scan code in its upper byte and the ASCII code in
  its lower byte; -1 is a timeout.
\<close>

section \<open>The interrupt timer\<close>

definition TICKS_PER_DAY :: u32 where
  "TICKS_PER_DAY = 0x1800B0"

definition irqtimer_calc_ticks :: "'w io \<Rightarrow> u32 \<Rightarrow> ('w, 'z) mach_scheme \<Rightarrow> u32" where
  "irqtimer_calc_ticks io count s = (io_timer_counter io (wd s) + count + 1) mod TICKS_PER_DAY"

definition irqtimer_calc :: "'w io \<Rightarrow> u32 \<Rightarrow> ('w, 'z) mach_scheme \<Rightarrow> u32" where
  "irqtimer_calc io msecs s =
     (if msecs = 0 then io_timer_counter io (wd s)
      else irqtimer_calc_ticks io (ticks_from_ms msecs) s)"

definition irqtimer_check :: "'w io \<Rightarrow> u32 \<Rightarrow> ('w, 'z) mach_scheme \<Rightarrow> bool" where
  "irqtimer_check io end s \<longleftrightarrow>
     (io_timer_counter io (wd s) + TICKS_PER_DAY - end) mod TICKS_PER_DAY < TICKS_PER_DAY div 2"

section \<open>Keyboard calls\<close>

definition check_for_keystroke :: "'w io \<Rightarrow> ('w, 'z) mach_scheme \<Rightarrow> bool \<times> ('w, 'z) mach_scheme" where
  "check_for_keystroke io s =
     (let br = bregs_zero\<lparr>br_flags := F_IF OR F_ZF, br_ah := 1\<rparr>
      in case call16_int io 0x16 br s of (br, s) \<Rightarrow> (br_flags br AND F_ZF = 0, s))"

definition get_raw_keystroke :: "'w io \<Rightarrow> ('w, 'z) mach_scheme \<Rightarrow> int \<times> ('w, 'z) mach_scheme" where
  "get_raw_keystroke io s =
     (case call16_int io 0x16 (bregs_zero\<lparr>br_flags := F_IF\<rparr>) s of (br, s) \<Rightarrow> (uint (get_ax br), s))"

partial_function (option) keystroke_loop ::
    "'w io \<Rightarrow> u32 \<Rightarrow> ('w, 'z) mach_scheme \<Rightarrow> (int \<times> ('w, 'z) mach_scheme) option" where
  "keystroke_loop io end s =
     (case check_for_keystroke io s of (pending, s) \<Rightarrow>
        if pending then Some (get_raw_keystroke io s)
        else if irqtimer_check io end s then Some (- 1, s)
        else keystroke_loop io end (yield_toirq io s))"

definition get_keystroke_full :: "'w io \<Rightarrow> u32 \<Rightarrow> ('w, 'z) mach_scheme \<Rightarrow>
    (int \<times> ('w, 'z) mach_scheme) option" where
  "get_keystroke_full io msec s = keystroke_loop io (irqtimer_calc io msec s) s"

definition get_keystroke :: "'w io \<Rightarrow> u32 \<Rightarrow> ('w, 'z) mach_scheme \<Rightarrow>
    (int \<times> ('w, 'z) mach_scheme) option" where
  "get_keystroke io msec s =
     do {
       (keystroke, s) \<leftarrow> get_keystroke_full io msec s;
       if keystroke < 0 then Some (keystroke, s) else Some (drop_bit 8 keystroke, s)
     }"

section \<open>Properties\<close>

text \<open>
  A deadline of the interrupt timer is met across midnight, when the tick count of the BIOS data
  area starts again from zero: after \<open>d\<close> ticks, up to half a day, the deadline is reached exactly when
  more than \<open>count\<close> of them have passed.
\<close>

theorem irqtimer_deadline:
  assumes "irqtimer_calc_ticks io count s = fin"
    and "unat (io_timer_counter io (wd s)) = t" "t < unat TICKS_PER_DAY" "unat count < unat TICKS_PER_DAY div 2"
    and "unat (io_timer_counter io (wd s')) = (t + d) mod unat TICKS_PER_DAY" "d < unat TICKS_PER_DAY div 2"
  shows "irqtimer_check io fin s' \<longleftrightarrow> unat count < d"
proof -
  let ?D = "0x1800B0 :: nat" and ?c = "unat count"
  have D: "unat TICKS_PER_DAY = ?D" by (simp add: TICKS_PER_DAY_def)
  have "unat (io_timer_counter io (wd s) + count + 1) = t + ?c + 1"
    using assms(2-4) unfolding D by (simp add: unat_word_ariths)
  then have fin: "unat fin = (t + ?c + 1) mod ?D"
    using assms(1) by (auto simp: irqtimer_calc_ticks_def unat_mod D)
  have "unat (io_timer_counter io (wd s') + TICKS_PER_DAY - fin) = (t + d) mod ?D + ?D - (t + ?c + 1) mod ?D"
  proof -
    have "unat (io_timer_counter io (wd s') + TICKS_PER_DAY) = (t + d) mod ?D + ?D"
      using assms(5) unfolding D by (simp add: unat_word_ariths D)
    moreover have "(t + ?c + 1) mod ?D \<le> (t + d) mod ?D + ?D"
      using mod_less_divisor [of ?D "t + ?c + 1"] by simp
    ultimately show ?thesis using fin by (simp add: unat_sub word_le_nat_alt)
  qed
  then have "irqtimer_check io fin s' \<longleftrightarrow> ((t + d) mod ?D + ?D - (t + ?c + 1) mod ?D) mod ?D < ?D div 2"
    by (simp add: irqtimer_check_def word_less_nat_alt unat_mod unat_div D)
  also have "\<dots> \<longleftrightarrow> ?c < d"
  proof -
    have w: "x mod ?D = (if x < ?D then x else x - ?D)" if "x < 2 * ?D" for x
      using that by (simp add: le_mod_geq)
    have less: "t < ?D" "?c < ?D div 2" "d < ?D div 2" using assms(3,4,6) unfolding D by simp_all
    define A B where "A = (t + d) mod ?D" and "B = (t + ?c + 1) mod ?D"
    have A: "A < ?D" "A = t + d \<or> A + ?D = t + d" and B: "B < ?D" "B = t + ?c + 1 \<or> B + ?D = t + ?c + 1"
      using less w [of "t + d"] w [of "t + ?c + 1"] by (auto simp: A_def B_def split: if_splits)
    have "(A + ?D - B) mod ?D = (if A + ?D - B < ?D then A + ?D - B else A + ?D - B - ?D)"
      using A(1) by (intro w) simp
    then have "(A + ?D - B) mod ?D = (if A < B then A + ?D - B else A - B)" using B(1) by auto
    then have "(A + ?D - B) mod ?D < ?D div 2 \<longleftrightarrow> ?c < d"
      using A B less by (cases "A < B") (simp_all, linarith+)
    then show ?thesis by (simp only: A_def B_def)
  qed
  finally show ?thesis .
qed

text \<open>Five ticks before midnight a deadline of 18 ticks is set; it is reached 20 ticks later.\<close>

theorem irqtimer_deadline_witness:
  "let io = clock_sim\<lparr>io_timer_counter := of_nat\<rparr>;
       at = (\<lambda>w. \<lparr>TimerKHz = 0, TimerPort = 0, ShiftTSC = 0, TimerLast = 0, wd = w\<rparr>)
   in irqtimer_check io (irqtimer_calc_ticks io 18 (at 0x1800AB)) (at 15)"
proof -
  let ?io = "clock_sim\<lparr>io_timer_counter := of_nat\<rparr>"
  let ?at = "\<lambda>w :: nat. \<lparr>TimerKHz = 0, TimerPort = 0, ShiftTSC = 0, TimerLast = 0, wd = w\<rparr>"
  have "irqtimer_check ?io (irqtimer_calc_ticks ?io 18 (?at 0x1800AB)) (?at 15) \<longleftrightarrow> unat (18 :: u32) < (20 :: nat)"
    by (rule irqtimer_deadline [OF refl, where t = 1573035 and d = 20]) (simp_all add: TICKS_PER_DAY_def)
  then show ?thesis by (simp add: Let_def)
qed

end
