(* ===== verification/Menu.thy ===== *)
theory Menu
  imports Menu_Tables Keys
begin

text \<open>
  The loops of the setup menu, \<open>seabios/src/llama/llama_bios_menu.c\<close>. The four selections are
  global variables of the program. A loop of the menu ends in one of two ways: it returns to its
  caller, or the machine is reset, after which no code of the menu runs.
\<close>

record 'w menu_mach = "'w ui_mach" +
  main_menu_selection :: int
  submenu_selection :: int
  change_selection :: int
  quit_menu_selection :: int

datatype 's menu_exit = Return llama_bios_settings 's | Reboot 's

text \<open>\<open>reboot\<close> jumps to the reset vector and does not come back.\<close>

definition reboot :: "'s \<Rightarrow> 's menu_exit option" where
  "reboot s = Some (Reboot s)"

definition save_and_reboot :: "'w io \<Rightarrow> llama_bios_settings \<Rightarrow> ('w, 'z) spi_mach_scheme \<Rightarrow>
    ('w, 'z) spi_mach_scheme menu_exit option" where
  "save_and_reboot io lbs s = do { s \<leftarrow> llama_save_bios_settings io lbs s; reboot s }"

section \<open>Keys\<close>

datatype keyboard_action =
  KEYBOARD_ACTION_UP | KEYBOARD_ACTION_DOWN | KEYBOARD_ACTION_LEFT | KEYBOARD_ACTION_RIGHT |
  KEYBOARD_ACTION_TAB | KEYBOARD_ACTION_SHIFT_TAB | KEYBOARD_ACTION_ENTER | KEYBOARD_ACTION_ESC |
  KEYBOARD_ACTION_F10

definition get_scancode :: "'w io \<Rightarrow> ('w, 'z) mach_scheme \<Rightarrow> (int \<times> ('w, 'z) mach_scheme) option" where
  "get_scancode io =
     loop (\<lambda>s. do {
       (scancode, s) \<leftarrow> get_keystroke_full io 500 s;
       Some (if scancode = - 1 then Again s else Finish (drop_bit 8 scancode, s))
     })"

definition key_action :: "int \<Rightarrow> keyboard_action option" where
  "key_action scancode =
     (let code = drop_bit 8 scancode
      in if code = 0x48 then Some KEYBOARD_ACTION_UP
         else if code = 0x50 then Some KEYBOARD_ACTION_DOWN
         else if code = 0x4B then Some KEYBOARD_ACTION_LEFT
         else if code = 0x4D then Some KEYBOARD_ACTION_RIGHT
         else if code = 0x0F then
           Some (if scancode AND 0x0F = 0x09 then KEYBOARD_ACTION_TAB else KEYBOARD_ACTION_SHIFT_TAB)
         else if code = 0x1C \<or> code = 0xE0 then Some KEYBOARD_ACTION_ENTER
         else if code = 0x01 then Some KEYBOARD_ACTION_ESC
         else if code = 0x44 then Some KEYBOARD_ACTION_F10
         else None)"

definition get_input_turn :: "'w io \<Rightarrow> (u8 \<Rightarrow> ('w, 'z) mach_scheme \<Rightarrow> ('w, 'z) mach_scheme option) option \<Rightarrow>
    u8 \<Rightarrow> ('w, 'z) mach_scheme \<Rightarrow>
    (('w, 'z) mach_scheme, keyboard_action \<times> ('w, 'z) mach_scheme) turn option" where
  "get_input_turn io callback param s =
     do {
       s \<leftarrow> (case callback of None \<Rightarrow> Some s | Some f \<Rightarrow> f param s);
       (scancode, s) \<leftarrow> get_keystroke_full io 500 s;
       if scancode = - 1 then Some (Again s)
       else case key_action scancode of
              None \<Rightarrow> Some (Again s)
            | Some action \<Rightarrow> Some (Finish (action, s))
     }"

definition get_input :: "'w io \<Rightarrow> (u8 \<Rightarrow> ('w, 'z) mach_scheme \<Rightarrow> ('w, 'z) mach_scheme option) option \<Rightarrow>
    u8 \<Rightarrow> ('w, 'z) mach_scheme \<Rightarrow> (keyboard_action \<times> ('w, 'z) mach_scheme) option" where
  "get_input io callback param = loop (get_input_turn io callback param)"

section \<open>Moving a selection\<close>

definition menu_forward :: "int \<Rightarrow> int \<Rightarrow> int" where
  "menu_forward num_entries selection =
     (let selection = selection + 1 in if selection = num_entries then 0 else selection)"

definition menu_backward :: "int \<Rightarrow> int \<Rightarrow> int" where
  "menu_backward num_entries selection =
     (let selection = selection - 1 in if selection < 0 then num_entries - 1 else selection)"

fun index_from :: "int \<Rightarrow> change_entry list \<Rightarrow> u16 \<Rightarrow> int" where
  "index_from i [] value = 0"
| "index_from i (e # es) value = (if ce_value e = value then i else index_from (i + 1) es value)"

definition get_index :: "change_entry list \<Rightarrow> int \<Rightarrow> u16 \<Rightarrow> int" where
  "get_index entries num_entries value = index_from 0 (take (nat num_entries) entries) value"

text \<open>
  The inner loop of \<open>submenu_loop\<close>: it moves on from entries that cannot be selected, until it is
  back at the entry it came from.
\<close>

definition can_select :: "'s submenu_entry \<Rightarrow> llama_bios_settings \<Rightarrow> 's \<Rightarrow> (bool \<times> 's) option" where
  "can_select e lbs s =
     (case get_enabled e of
        None \<Rightarrow> Some (True, s)
      | Some enabled \<Rightarrow> do { (v, s) \<leftarrow> enabled lbs s; Some (v \<noteq> 0, s) })"

definition skip_turn :: "(int \<Rightarrow> int \<Rightarrow> int) \<Rightarrow> 's main_menu_entry \<Rightarrow> llama_bios_settings \<Rightarrow> int \<Rightarrow>
    int \<times> 's \<Rightarrow> (int \<times> 's, int \<times> 's) turn option" where
  "skip_turn move m lbs orig_selection = (\<lambda>(selection, s).
     do {
       e \<leftarrow> arr_get (submenus m) selection;
       if selection = orig_selection then Some (Finish (selection, s))
       else do {
         (ok, s) \<leftarrow> can_select e lbs s;
         if ok then Some (Finish (selection, s))
         else Some (Again (move (num_submenus m) selection, s))
       }
     })"

definition move_submenu :: "(int \<Rightarrow> int \<Rightarrow> int) \<Rightarrow> 's main_menu_entry \<Rightarrow> llama_bios_settings \<Rightarrow> int \<Rightarrow> 's \<Rightarrow>
    (int \<times> 's) option" where
  "move_submenu move m lbs selection s =
     loop (skip_turn move m lbs selection) (move (num_submenus m) selection, s)"

section \<open>Changing an option\<close>

definition draw_all :: "'w io \<Rightarrow> llama_bios_settings \<Rightarrow> string option \<Rightarrow> ('w, 'z) menu_mach_scheme \<Rightarrow>
    ('w, 'z) menu_mach_scheme option" where
  "draw_all io lbs input s =
     draw_menus io lbs (main_menu_entries io) quit_menu_entry NUM_MAIN_MENU_ENTRIES
       (main_menu_selection s) (submenu_selection s) (change_selection s) (quit_menu_selection s)
       input s"

definition change_turn :: "'w io \<Rightarrow> (('w, 'z) menu_mach_scheme) submenu_entry \<Rightarrow>
    llama_bios_settings \<times> ('w, 'z) menu_mach_scheme \<Rightarrow>
    (llama_bios_settings \<times> ('w, 'z) menu_mach_scheme, llama_bios_settings \<times> ('w, 'z) menu_mach_scheme)
      turn option" where
  "change_turn io e = (\<lambda>(lbs, s).
     do {
       s \<leftarrow> draw_all io lbs None s;
       ce \<leftarrow> arr_get (change_entries e) (change_selection s);
       (action, s) \<leftarrow> get_input io None 0 s;
       let n = num_change_entries e;
       case action of
         KEYBOARD_ACTION_UP \<Rightarrow>
           Some (Again (lbs, s\<lparr>change_selection := menu_backward n (change_selection s)\<rparr>))
       | KEYBOARD_ACTION_SHIFT_TAB \<Rightarrow>
           Some (Again (lbs, s\<lparr>change_selection := menu_backward n (change_selection s)\<rparr>))
       | KEYBOARD_ACTION_DOWN \<Rightarrow>
           Some (Again (lbs, s\<lparr>change_selection := menu_forward n (change_selection s)\<rparr>))
       | KEYBOARD_ACTION_TAB \<Rightarrow>
           Some (Again (lbs, s\<lparr>change_selection := menu_forward n (change_selection s)\<rparr>))
       | KEYBOARD_ACTION_LEFT \<Rightarrow> Some (Again (lbs, s))
       | KEYBOARD_ACTION_RIGHT \<Rightarrow> Some (Again (lbs, s))
       | KEYBOARD_ACTION_F10 \<Rightarrow> Some (Again (lbs, s))
       | KEYBOARD_ACTION_ENTER \<Rightarrow> do {
           (lbs, s) \<leftarrow> call_ptr (set_selection_value e) (\<lambda>set. set lbs (ce_value ce) s);
           Some (Finish (lbs, s\<lparr>change_selection := - 1\<rparr>))
         }
       | KEYBOARD_ACTION_ESC \<Rightarrow> Some (Finish (lbs, s\<lparr>change_selection := - 1\<rparr>))
     })"

definition change_loop :: "'w io \<Rightarrow> llama_bios_settings \<Rightarrow> ('w, 'z) menu_mach_scheme \<Rightarrow>
    (llama_bios_settings \<times> ('w, 'z) menu_mach_scheme) option" where
  "change_loop io lbs s =
     do {
       m \<leftarrow> arr_get (main_menu_entries io) (main_menu_selection s);
       e \<leftarrow> arr_get (submenus m) (submenu_selection s);
       (value, s) \<leftarrow> call_ptr (get_selection_value e) (\<lambda>get. get lbs s);
       let s = s\<lparr>change_selection := get_index (change_entries e) (num_change_entries e) value\<rparr>;
       loop (change_turn io e) (lbs, s)
     }"

definition input_max_length :: nat where "input_max_length = 4"

definition input_turn :: "'w io \<Rightarrow> (('w, 'z) menu_mach_scheme) submenu_entry \<Rightarrow> llama_bios_settings \<Rightarrow>
    string \<times> ('w, 'z) menu_mach_scheme \<Rightarrow>
    (string \<times> ('w, 'z) menu_mach_scheme, llama_bios_settings \<times> ('w, 'z) menu_mach_scheme) turn option"
where
  "input_turn io e lbs = (\<lambda>(input, s).
     do {
       s \<leftarrow> draw_all io lbs (Some input) s;
       (scancode, s) \<leftarrow> get_scancode io s;
       if 0x02 \<le> scancode \<and> scancode \<le> 0x0B then
         (let ch = ''1234567890'' ! nat (scancode - 0x02)
          in Some (Again (add_char_to_end input input_max_length ch, s)))
       else if scancode = 0x0E then
         Some (Again (del_char_at_end input input_max_length, s))
       else if scancode = 0x1C \<or> scancode = 0xE0 then do {
         (lbs, s) \<leftarrow> call_ptr (set_input_value e) (\<lambda>set. set lbs (string_to_u16 input) s);
         Some (Finish (lbs, s))
       }
       else if scancode = 0x01 then Some (Finish (lbs, s))
       else Some (Again (input, s))
     })"

definition input_loop :: "'w io \<Rightarrow> (('w, 'z) menu_mach_scheme) submenu_entry \<Rightarrow> llama_bios_settings \<Rightarrow>
    ('w, 'z) menu_mach_scheme \<Rightarrow> (llama_bios_settings \<times> ('w, 'z) menu_mach_scheme) option" where
  "input_loop io e lbs s =
     do {
       (input_value, s) \<leftarrow> call_ptr (get_input_value e) (\<lambda>get. get lbs s);
       loop (input_turn io e lbs) (u16_to_string input_value input_max_length, s)
     }"

section \<open>Leaving the menu\<close>

definition quit_turn :: "'w io \<Rightarrow> llama_bios_settings \<Rightarrow> ('w, 'z) menu_mach_scheme \<Rightarrow>
    (('w, 'z) menu_mach_scheme, ('w, 'z) menu_mach_scheme menu_exit) turn option" where
  "quit_turn io lbs s =
     do {
       s \<leftarrow> draw_all io lbs None s;
       (action, s) \<leftarrow> get_input io None 0 s;
       let n = num_change_entries (quit_menu_entry :: (('w, 'z) menu_mach_scheme) submenu_entry);
       case action of
         KEYBOARD_ACTION_UP \<Rightarrow>
           Some (Again (s\<lparr>quit_menu_selection := menu_backward n (quit_menu_selection s)\<rparr>))
       | KEYBOARD_ACTION_SHIFT_TAB \<Rightarrow>
           Some (Again (s\<lparr>quit_menu_selection := menu_backward n (quit_menu_selection s)\<rparr>))
       | KEYBOARD_ACTION_DOWN \<Rightarrow>
           Some (Again (s\<lparr>quit_menu_selection := menu_forward n (quit_menu_selection s)\<rparr>))
       | KEYBOARD_ACTION_TAB \<Rightarrow>
           Some (Again (s\<lparr>quit_menu_selection := menu_forward n (quit_menu_selection s)\<rparr>))
       | KEYBOARD_ACTION_LEFT \<Rightarrow> Some (Again s)
       | KEYBOARD_ACTION_RIGHT \<Rightarrow> Some (Again s)
       | KEYBOARD_ACTION_F10 \<Rightarrow> Some (Again s)
       | KEYBOARD_ACTION_ENTER \<Rightarrow>
           map_option Finish (if quit_menu_selection s = 0 then save_and_reboot io lbs s else reboot s)
       | KEYBOARD_ACTION_ESC \<Rightarrow> Some (Finish (Return lbs (s\<lparr>quit_menu_selection := - 1\<rparr>)))
     }"

definition quit_menu_loop :: "'w io \<Rightarrow> llama_bios_settings \<Rightarrow> ('w, 'z) menu_mach_scheme \<Rightarrow>
    ('w, 'z) menu_mach_scheme menu_exit option" where
  "quit_menu_loop io lbs s = loop (quit_turn io lbs) (s\<lparr>quit_menu_selection := 0\<rparr>)"

text \<open>
  The ESC key of the two outer loops: with unsaved changes the quit menu opens, and the background is
  drawn again when it was left with ESC; without changes the machine reboots at once.
\<close>

definition esc_pressed :: "'w io \<Rightarrow> llama_bios_settings \<Rightarrow> ('w, 'z) menu_mach_scheme \<Rightarrow>
    ('w, 'z) menu_mach_scheme menu_exit option" where
  "esc_pressed io lbs s =
     (if has_changes lbs \<noteq> 0
      then do {
        r \<leftarrow> quit_menu_loop io lbs s;
        case r of
          Return lbs s \<Rightarrow> Some (Return lbs (video io draw_background s))
        | Reboot s \<Rightarrow> Some (Reboot s)
      }
      else reboot s)"

section \<open>The submenu\<close>

type_synonym 's sub_state = "bool \<times> llama_bios_settings \<times> 's"

definition submenu_turn :: "'w io \<Rightarrow> (('w, 'z) menu_mach_scheme) sub_state \<Rightarrow>
    ((('w, 'z) menu_mach_scheme) sub_state, ('w, 'z) menu_mach_scheme menu_exit) turn option" where
  "submenu_turn io = (\<lambda>(need_redraw, lbs, s).
     do {
       let s = (if need_redraw then video io draw_background s else s);
       s \<leftarrow> draw_all io lbs None s;
       m \<leftarrow> arr_get (main_menu_entries io) (main_menu_selection s);
       (action, s) \<leftarrow> get_input io (update_loop m) 0 s;
       let backward = do {
         (selection, s) \<leftarrow> move_submenu menu_backward m lbs (submenu_selection s) s;
         Some (Again (False, lbs, s\<lparr>submenu_selection := selection\<rparr>))
       };
       let forward = do {
         (selection, s) \<leftarrow> move_submenu menu_forward m lbs (submenu_selection s) s;
         Some (Again (False, lbs, s\<lparr>submenu_selection := selection\<rparr>))
       };
       case action of
         KEYBOARD_ACTION_UP \<Rightarrow> backward
       | KEYBOARD_ACTION_SHIFT_TAB \<Rightarrow> backward
       | KEYBOARD_ACTION_DOWN \<Rightarrow> forward
       | KEYBOARD_ACTION_TAB \<Rightarrow> forward
       | KEYBOARD_ACTION_RIGHT \<Rightarrow> Some (Again (False, lbs, s))
       | KEYBOARD_ACTION_ENTER \<Rightarrow> do {
           e \<leftarrow> arr_get (submenus m) (submenu_selection s);
           (ok, s) \<leftarrow> can_select e lbs s;
           if \<not> ok then Some (Again (False, lbs, s))
           else do {
             (lbs, s) \<leftarrow> (if get_input_value e \<noteq> None then input_loop io e lbs s
                          else change_loop io lbs s);
             Some (Again (True, lbs, s))
           }
         }
       | KEYBOARD_ACTION_LEFT \<Rightarrow> Some (Finish (Return lbs (s\<lparr>submenu_selection := - 1\<rparr>)))
       | KEYBOARD_ACTION_ESC \<Rightarrow> do {
           r \<leftarrow> esc_pressed io lbs s;
           case r of
             Return lbs s \<Rightarrow> Some (Again (False, lbs, s))
           | Reboot s \<Rightarrow> Some (Finish (Reboot s))
         }
       | KEYBOARD_ACTION_F10 \<Rightarrow> map_option Finish (save_and_reboot io lbs s)
     })"

definition submenu_loop :: "'w io \<Rightarrow> llama_bios_settings \<Rightarrow> ('w, 'z) menu_mach_scheme \<Rightarrow>
    ('w, 'z) menu_mach_scheme menu_exit option" where
  "submenu_loop io lbs s = loop (submenu_turn io) (False, lbs, s\<lparr>submenu_selection := 0\<rparr>)"

section \<open>The main menu\<close>

definition main_menu_turn :: "'w io \<Rightarrow> llama_bios_settings \<times> ('w, 'z) menu_mach_scheme \<Rightarrow>
    (llama_bios_settings \<times> ('w, 'z) menu_mach_scheme, ('w, 'z) menu_mach_scheme menu_exit)
      turn option" where
  "main_menu_turn io = (\<lambda>(lbs, s).
     do {
       let s = video io (clear_area 6 43 36 11 @ clear_area 21 1 78 3) s;
       s \<leftarrow> draw_all io lbs None s;
       m \<leftarrow> arr_get (main_menu_entries io) (main_menu_selection s);
       (action, s) \<leftarrow> get_input io (update_loop m) 1 s;
       let again = (\<lambda>r. case r of
                      Return lbs s \<Rightarrow> Again (lbs, s)
                    | Reboot s \<Rightarrow> Finish (Reboot s));
       let n = NUM_MAIN_MENU_ENTRIES;
       case action of
         KEYBOARD_ACTION_UP \<Rightarrow>
           Some (Again (lbs, s\<lparr>main_menu_selection := menu_backward n (main_menu_selection s)\<rparr>))
       | KEYBOARD_ACTION_SHIFT_TAB \<Rightarrow>
           Some (Again (lbs, s\<lparr>main_menu_selection := menu_backward n (main_menu_selection s)\<rparr>))
       | KEYBOARD_ACTION_DOWN \<Rightarrow>
           Some (Again (lbs, s\<lparr>main_menu_selection := menu_forward n (main_menu_selection s)\<rparr>))
       | KEYBOARD_ACTION_TAB \<Rightarrow>
           Some (Again (lbs, s\<lparr>main_menu_selection := menu_forward n (main_menu_selection s)\<rparr>))
       | KEYBOARD_ACTION_LEFT \<Rightarrow> Some (Again (lbs, s))
       | KEYBOARD_ACTION_ENTER \<Rightarrow> Some (Again (lbs, s))
       | KEYBOARD_ACTION_RIGHT \<Rightarrow> map_option again (submenu_loop io lbs s)
       | KEYBOARD_ACTION_ESC \<Rightarrow> map_option again (esc_pressed io lbs s)
       | KEYBOARD_ACTION_F10 \<Rightarrow> map_option Finish (save_and_reboot io lbs s)
     })"

definition main_menu_loop :: "'w io \<Rightarrow> llama_bios_settings \<Rightarrow> ('w, 'z) menu_mach_scheme \<Rightarrow>
    ('w, 'z) menu_mach_scheme menu_exit option" where
  "main_menu_loop io lbs s = loop (main_menu_turn io) (lbs, video io draw_background s)"

definition llama_bios_menu :: "'w io \<Rightarrow> llama_bios_settings \<Rightarrow> ('w, 'z) menu_mach_scheme \<Rightarrow>
    ('w, 'z) menu_mach_scheme menu_exit option" where
  "llama_bios_menu io lbs s =
     (let s = video io hide_cursor s;
          s = load_custom_fonts io (drop LLAMA_FONT_0_ARRAY_POS llama_fonts) (ucast LLAMA_FONT_0) 1 s;
          s = load_custom_fonts io (drop LLAMA_FONT_1_ARRAY_POS llama_fonts) (ucast LLAMA_FONT_1) 7 s;
          s = load_custom_fonts io (drop LLAMA_FONT_UP_ARROW_ARRAY_POS llama_fonts)
                (ucast LLAMA_FONT_UP_ARROW) 4 s
      in main_menu_loop io lbs s)"

end
