(* ===== verification/Screen.thy ===== *)
theory Screen
  imports Menu
begin

text \<open>
  Where the drawing calls of the setup menu put characters: a reading of the video BIOS calls as
  rectangles of a text screen of 25 rows and 80 columns, and the theorem that everything the menu draws
  stays on that screen.
\<close>

text \<open>
  The calls the menu makes: 02h moves the cursor, 09h writes the character \<open>CX\<close> times from the cursor
  on, 13h writes the string at \<open>DH, DL\<close>, 06h clears the rectangle from \<open>CH, CL\<close> to \<open>DH, DL\<close>, 01h
  sets the shape of the cursor. \<open>on_screen\<close> follows the cursor through a list of calls.
\<close>

fun on_screen :: "nat \<times> nat \<Rightarrow> bregs list \<Rightarrow> bool" where
  "on_screen cur [] \<longleftrightarrow> True"
| "on_screen (row, col) (br # brs) \<longleftrightarrow>
     (if br_ah br = 0x02 then on_screen (unat (br_dh br), unat (br_dl br)) brs
      else if br_ah br = 0x09 then row < 25 \<and> col + unat (get_cx br) \<le> 80 \<and> on_screen (row, col) brs
      else if br_ah br = 0x13 then
        unat (br_dh br) < 25 \<and> unat (br_dl br) + unat (get_cx br) \<le> 80 \<and>
        length (es_bp br) = unat (get_cx br) \<and> on_screen (row, col) brs
      else if br_ah br = 0x06 then
        unat (br_ch br) \<le> unat (br_dh br) \<and> unat (br_dh br) < 25 \<and>
        unat (br_cl br) \<le> unat (br_dl br) \<and> unat (br_dl br) < 80 \<and> on_screen (row, col) brs
      else br_ah br = 0x01 \<and> on_screen (row, col) brs)"

text \<open>The colour of a call, in \<open>BL\<close>, does not matter for the position.\<close>

abbreviation colourless :: "bregs \<Rightarrow> bregs" where
  "colourless br \<equiv> br\<lparr>br_bl := 0\<rparr>"

lemma on_screen_colourless: "on_screen cur (map colourless brs) = on_screen cur brs"
  by (induction cur brs rule: on_screen.induct) (simp_all add: get_cx_def)

lemma colourless_calls [simp]:
  "map colourless (set_cursor_position row col) = set_cursor_position row col"
  "map colourless (print_color_char ch color n) = print_color_char ch 0 n"
  "map colourless (print_color_string str color row col) = print_color_string str 0 row col"
  by (simp_all add: set_cursor_position_def print_color_char_def print_color_string_def bregs_zero_def set_cx_def
      split: option.splits)

lemma on_screen_selection:
  "on_screen cur (draw_selection_popup e i) = on_screen cur (draw_selection_popup e 0)"
proof -
  have "map colourless (draw_selection_popup e i) = map colourless (draw_selection_popup e 0)"
    by (simp add: draw_selection_popup_def Let_def map_concat comp_def)
  then show ?thesis by (metis on_screen_colourless)
qed

text \<open>
  What the menu draws for one entry: its description, and the popup in which it is changed, for a
  number field with any four characters in it.
\<close>

definition entry_on_screen :: "nat \<times> nat \<Rightarrow> char list \<Rightarrow> int \<Rightarrow> 's submenu_entry \<Rightarrow> bool" where
  "entry_on_screen cur input i e \<longleftrightarrow>
     on_screen cur (draw_bottom_text e) \<and>
     (if get_input_value e = None then on_screen cur (draw_selection_popup e i)
      else on_screen cur (draw_input_popup (get_string (name_id e)) (input_unit e) input))"

lemma entry_on_screen_0:
  "entry_on_screen cur input i = entry_on_screen cur input 0"
  by (rule ext) (simp add: entry_on_screen_def on_screen_selection [of _ _ i])

lemma list_all_take_drop:
  "list_all P xs \<longleftrightarrow> list_all P (take 2 xs) \<and> list_all P (take 2 (drop 2 xs)) \<and> list_all P (drop 4 xs)"
  by (subst append_take_drop_id [of 2 xs, symmetric], subst append_take_drop_id [of 2 "drop 2 xs", symmetric])
    (simp only: list_all_append drop_drop, simp)

lemma cpu_menu_on_screen:
  "list_all (entry_on_screen (r, c) [w, x, y, z] 0) (submenus_init (cpu_menu io))"
  by code_simp

lemma disk_menu_on_screen:
  "list_all (entry_on_screen (r, c) [w, x, y, z] 0) (submenus_init (disk_menu io))"
  by code_simp

lemma com_menu_on_screen:
  "list_all (entry_on_screen (r, c) [w, x, y, z] 0) (submenus_init (com_menu io))"
  by code_simp

lemma audio_menu_on_screen:
  "list_all (entry_on_screen (r, c) [w, x, y, z] 0) (submenus_init (audio_menu io))"
proof -
  have "list_all (entry_on_screen (r, c) [w, x, y, z] 0) (take 2 (submenus_init (audio_menu io)))"
    by code_simp
  moreover have "list_all (entry_on_screen (r, c) [w, x, y, z] 0) (take 2 (drop 2 (submenus_init (audio_menu io))))"
    by code_simp
  moreover have "list_all (entry_on_screen (r, c) [w, x, y, z] 0) (drop 4 (submenus_init (audio_menu io)))"
    by code_simp
  ultimately show ?thesis by (simp only: list_all_take_drop [of _ "submenus_init (audio_menu io)"])
qed

lemma ethernet_menu_on_screen:
  "list_all (entry_on_screen (r, c) [w, x, y, z] 0) (submenus_init (ethernet_menu io))"
  by code_simp

lemma fan_menu_on_screen:
  "list_all (entry_on_screen (r, c) [w, x, y, z] 0) (submenus_init (fan_menu io))"
  by code_simp

lemma misc_menu_on_screen:
  "list_all (entry_on_screen (r, c) [w, x, y, z] 0) (submenus_init (misc_menu io))"
proof -
  have "list_all (entry_on_screen (r, c) [w, x, y, z] 0) (take 2 (submenus_init (misc_menu io)))"
    by code_simp
  moreover have "list_all (entry_on_screen (r, c) [w, x, y, z] 0) (take 2 (drop 2 (submenus_init (misc_menu io))))"
    by code_simp
  moreover have "list_all (entry_on_screen (r, c) [w, x, y, z] 0) (drop 4 (submenus_init (misc_menu io)))"
    by code_simp
  ultimately show ?thesis by (simp only: list_all_take_drop [of _ "submenus_init (misc_menu io)"])
qed

lemma quit_on_screen: "on_screen (r, c) (draw_selection_popup (quit_menu_entry :: 's submenu_entry) 0)"
  by code_simp

section \<open>Properties\<close>

text \<open>
  Nothing the menu draws leaves the screen: the background, and for every entry of every menu its
  description and its popup, for every selection and every content of the number field, stay within the 25 rows
  and 80 columns, wherever the cursor was; so does the quit menu.
\<close>

theorem menu_on_screen:
  "on_screen (0, 0) draw_background \<and>
   list_all (\<lambda>m. list_all (entry_on_screen (r, c) [w, x, y, z] i) (submenus_init m))
     (main_menu_entries (io :: 'w io) :: (('w, 'z) ui_mach_scheme) main_menu_entry list) \<and>
   on_screen (r, c) (draw_selection_popup (quit_menu_entry :: 's submenu_entry) i)"
proof (intro conjI)
  show "on_screen (0, 0) draw_background" by code_simp
  show "on_screen (r, c) (draw_selection_popup (quit_menu_entry :: 's submenu_entry) i)"
    using quit_on_screen by (subst on_screen_selection)
  show "list_all (\<lambda>m. list_all (entry_on_screen (r, c) [w, x, y, z] i) (submenus_init m))
      (main_menu_entries (io :: 'w io) :: (('w, 'z) ui_mach_scheme) main_menu_entry list)"
    by (simp add: main_menu_entries_def entry_on_screen_0 [of _ _ i] cpu_menu_on_screen disk_menu_on_screen com_menu_on_screen
        audio_menu_on_screen ethernet_menu_on_screen fan_menu_on_screen misc_menu_on_screen)
qed

end
