(* ===== verification/Menu_Exit.thy ===== *)
theory Menu_Exit
  imports Menu Clock
begin

text \<open>
  What the keys of the setup menu do to the flash chip. \<open>dialogue\<close> says in a few lines what is meant while the page of the processor
  is selected: where the input goes, which option gets which value, when the settings are saved. \<open>action_follows\<close> shows for every point
  of it that the loops of the menu (\<open>main_menu_turn\<close>, \<open>submenu_turn\<close>, \<open>change_turn\<close>, \<open>quit_turn\<close>) take the step of the dialogue, and
  \<open>run_dialogue\<close> puts the steps together to the run of \<open>llama_bios_menu\<close> from its call to the reset of the machine. The video and
  keyboard services of the BIOS are described by \<open>pc_bios\<close>, the chip by \<open>spi_board\<close>.
\<close>

section \<open>The BIOS services\<close>

text \<open>
  \<open>kq\<close> are the keystrokes that wait in the keyboard buffer. Interrupt 16h reports whether there is
  one and takes the first; neither it nor the video service touches the flash chip.
\<close>

definition pc_bios :: "'w io \<Rightarrow> 'w spi_view \<Rightarrow> ('w \<Rightarrow> u16 list) \<Rightarrow> bool" where
  "pc_bios io V kq \<longleftrightarrow>
     (\<forall>nr br w. same_chip V w (snd (io_call16 io nr br w)) \<and> same_cfg V w (snd (io_call16 io nr br w))) \<and>
     (\<forall>br w. kq (snd (io_call16 io 0x10 br w)) = kq w) \<and>
     (\<forall>br w. kq w \<noteq> [] \<and> br_ah br = 1 \<longrightarrow>
        br_flags (fst (io_call16 io 0x16 br w)) AND F_ZF = 0 \<and> kq (snd (io_call16 io 0x16 br w)) = kq w) \<and>
     (\<forall>br w. kq w \<noteq> [] \<and> br_ah br = 0 \<longrightarrow>
        get_ax (fst (io_call16 io 0x16 br w)) = hd (kq w) \<and> kq (snd (io_call16 io 0x16 br w)) = tl (kq w))"

text \<open>Only the world has moved on: the chip is as it was, and \<open>ks\<close> are the waiting keys.\<close>

definition quiet :: "'w spi_view \<Rightarrow> ('w \<Rightarrow> u16 list) \<Rightarrow> u16 list \<Rightarrow>
    ('w, 'z) mach_scheme \<Rightarrow> ('w, 'z) mach_scheme \<Rightarrow> bool" where
  "quiet V kq ks s s' \<longleftrightarrow> (\<exists>w. s' = s\<lparr>wd := w\<rparr> \<and> same_chip V (wd s) w \<and> same_cfg V (wd s) w \<and> kq w = ks)"

lemma quiet_refl: "kq (wd s) = ks \<Longrightarrow> quiet V kq ks s s"
  by (auto simp: quiet_def same_chip_def same_cfg_def intro!: exI [of _ "wd s"])

lemma quiet_trans: "quiet V kq ks s t \<Longrightarrow> quiet V kq ks' t u \<Longrightarrow> quiet V kq ks' s u"
  by (auto simp: quiet_def same_chip_def same_cfg_def)

lemma quiet_call16:
  assumes "pc_bios io V kq" "quiet V kq ks s t"
  shows "quiet V kq ks s (snd (call16_int io 0x10 br t))"
proof -
  obtain v w where "io_call16 io 0x10 br (wd t) = (v, w)" by fastforce
  moreover from this have "same_chip V (wd t) w" "same_cfg V (wd t) w" "kq w = kq (wd t)"
    using assms(1) unfolding pc_bios_def by (metis snd_conv)+
  ultimately show ?thesis
    using assms(2) by (auto simp: quiet_def call16_int_def same_chip_def same_cfg_def)
qed

lemma quiet_video:
  assumes "pc_bios io V kq" "quiet V kq ks s t"
  shows "quiet V kq ks s (video io brs t)"
  unfolding video_def using assms(2)
  by (induction brs arbitrary: t) (auto intro: quiet_call16 [OF assms(1)])

lemma quiet_spi_ok:
  assumes "quiet V kq ks s s'" "spi_ok io base V s"
  shows "spi_ok io base V s'" "flash_of V s' = flash_of V s"
  using assms by (auto simp: quiet_def spi_ok_def idle_def chip_id_of_def flash_of_def same_chip_def same_cfg_def)

lemma pc_bios_keyboard:
  assumes "pc_bios io V kq" "kq w = k # ks" "io_call16 io 0x16 br w = (r, w')"
  shows "same_chip V w w'" "same_cfg V w w'"
    and "br_ah br = 1 \<Longrightarrow> br_flags r AND F_ZF = 0 \<and> kq w' = k # ks"
    and "br_ah br = 0 \<Longrightarrow> get_ax r = k \<and> kq w' = ks"
proof -
  have ne: "kq w \<noteq> []" using assms(2) by simp
  show "same_chip V w w'" "same_cfg V w w'"
    using assms(1,3) unfolding pc_bios_def by (metis snd_conv)+
  show "br_ah br = 1 \<Longrightarrow> br_flags r AND F_ZF = 0 \<and> kq w' = k # ks"
    using assms ne unfolding pc_bios_def by (metis fst_conv snd_conv)
  show "br_ah br = 0 \<Longrightarrow> get_ax r = k \<and> kq w' = ks"
    using assms ne unfolding pc_bios_def by (metis fst_conv snd_conv list.sel(1,3))
qed

lemma keystroke_quiet:
  assumes "pc_bios io V kq" "quiet V kq (k # ks) s t"
  shows "\<exists>u. get_keystroke_full io msec t = Some (uint k, u) \<and> quiet V kq ks s u"
proof -
  have t: "kq (wd t) = k # ks" using assms(2) by (auto simp: quiet_def)
  define br1 where "br1 = bregs_zero\<lparr>br_flags := F_IF OR F_ZF, br_ah := 1\<rparr>"
  define br0 where "br0 = bregs_zero\<lparr>br_flags := F_IF\<rparr>"
  obtain r1 w1 where 1: "io_call16 io 0x16 br1 (wd t) = (r1, w1)" by fastforce
  have c1: "same_chip V (wd t) w1" "same_cfg V (wd t) w1" "br_flags r1 AND F_ZF = 0" "kq w1 = k # ks"
    using pc_bios_keyboard [OF assms(1) t 1] by (auto simp: br1_def)
  obtain r0 w0 where 0: "io_call16 io 0x16 br0 w1 = (r0, w0)" by fastforce
  have c0: "same_chip V w1 w0" "same_cfg V w1 w0" "get_ax r0 = k" "kq w0 = ks"
    using pc_bios_keyboard [OF assms(1) c1(4) 0] by (auto simp: br0_def bregs_zero_def)
  have "get_keystroke_full io msec t = Some (uint k, t\<lparr>wd := w0\<rparr>)"
    using 1 0 c1(3) c0(3)
    by (simp add: get_keystroke_full_def keystroke_loop.simps [of io _ t] check_for_keystroke_def
        get_raw_keystroke_def call16_int_def flip: br1_def br0_def)
  moreover have "quiet V kq ks s (t\<lparr>wd := w0\<rparr>)"
    using assms(2) c1 c0 by (auto simp: quiet_def same_chip_def same_cfg_def)
  ultimately show ?thesis by blast
qed

section \<open>Drawing\<close>

lemma for_each_returns:
  assumes "\<And>x s. x \<in> set xs \<Longrightarrow> P s \<Longrightarrow> returns P (f x s)" "P s"
  shows "returns P (for_each f xs s)"
  using assms
proof (induction xs arbitrary: s)
  case (Cons x xs)
  show ?case
    unfolding for_each.simps
    by (rule returns_bind [where R = P]) (use Cons in auto)
qed (simp add: returns_Some)

text \<open>The processor's options are read from the settings: their rows can be drawn on any machine.\<close>

lemma cpu_row_quiet:
  assumes "pc_bios io V kq" "quiet V kq ks s t" "j < 3"
  shows "returns (quiet V kq ks s) (draw_submenu_row io lbs (cpu_menu io) sub change quit input j t)"
proof -
  consider "j = 0" | "j = 1" | "j = 2" using assms(3) by linarith
  then show ?thesis
    by cases (simp_all add: draw_submenu_row_def cpu_menu_def submenus_def padded_def arr_get_def call_ptr_def
      getter_defs get_setting_def returns_def quiet_video [OF assms(1,2)] Let_def)
qed

lemma cpu_entries:
  "arr_get (submenus (cpu_menu io)) 0 = Some (submenus_init (cpu_menu io) ! 0)" "arr_get (submenus (cpu_menu io)) 1 = Some (submenus_init (cpu_menu io) ! 1)"
  "arr_get (submenus (cpu_menu io)) 2 = Some (submenus_init (cpu_menu io) ! 2)"
  "i \<in> {0, 1, 2} \<Longrightarrow> get_input_value (submenus_init (cpu_menu io) ! nat i) = None"
  "i \<in> {0, 1, 2} \<Longrightarrow> get_enabled (submenus_init (cpu_menu io) ! nat i) = None"
  by (auto simp: arr_get_def cpu_menu_def submenus_def padded_def)

lemma cpu_entry: "i \<in> {0, 1, 2} \<Longrightarrow> arr_get (submenus (cpu_menu io)) i = Some (submenus_init (cpu_menu io) ! nat i)"
  using cpu_entries(1-3) [of io] by auto

lemma cpu_page: "arr_get (main_menu_entries io) 0 = Some (cpu_menu io)"
  by (simp add: arr_get_def main_menu_entries_def)

lemma main_row_quiet:
  assumes "pc_bios io V kq" "quiet V kq ks s t" "i < 7" "sub \<in> {- 1, 0, 1, 2}"
  shows "returns (quiet V kq ks s)
    (draw_main_row io lbs (main_menu_entries io) 0 sub change quit input i t)"
proof -
  let ?m = "main_menu_entries io ! i"
  have m: "arr_get (main_menu_entries io) (int i) = Some ?m"
    using assms(3) by (simp add: arr_get_def main_menu_entries_def)
  have c: "i = 0 \<Longrightarrow> ?m = cpu_menu io" by (simp add: main_menu_entries_def)
  have n: "nat (num_submenus (cpu_menu io)) = 3" by (simp add: cpu_menu_def)
  note v = quiet_video [OF assms(1)]
  have rows: "returns (quiet V kq ks s) (if 0 = int i
      then for_each (draw_submenu_row io lbs ?m sub change quit input) [0..<nat (num_submenus ?m)] u else Some u)"
    if "quiet V kq ks s u" for u
  proof (cases "i = 0")
    case True
    with that show ?thesis
      unfolding c [OF True] n by (auto intro!: for_each_returns intro: cpu_row_quiet [OF assms(1)])
  qed (use that in \<open>simp add: returns_Some\<close>)
  have bottom: "returns (quiet V kq ks s) (if sub \<noteq> - 1
      then do {
        m \<leftarrow> arr_get (main_menu_entries io) 0;
        e \<leftarrow> arr_get (submenus m) sub;
        Some (video io (draw_bottom_text e) u)
      } else Some u)" if "quiet V kq ks s u" for u
  proof (cases "sub = - 1")
    case False
    then have "sub \<in> {0, 1, 2}" using assms(4) by blast
    then show ?thesis using v [OF that] by (simp add: cpu_page cpu_entry returns_Some False)
  qed (use that in \<open>simp add: returns_Some\<close>)
  show ?thesis
    unfolding draw_main_row_def m Option.bind.simps Let_def
    by (rule returns_bind [OF rows bottom]) (rule v [OF assms(2)])
qed

lemma draw_all_quiet:
  assumes "pc_bios io V kq" "quiet V kq ks s t"
    and "main_menu_selection t = 0" "submenu_selection t \<in> {- 1, 0, 1, 2}"
  shows "returns (quiet V kq ks s) (draw_all io lbs None t)"
proof -
  let ?sub = "submenu_selection t" and ?change = "change_selection t"
  have rows: "returns (quiet V kq ks s)
      (for_each (draw_main_row io lbs (main_menu_entries io) 0 ?sub ?change q None) [0..<nat NUM_MAIN_MENU_ENTRIES] t)" for q
    using assms(2) by (intro for_each_returns) (auto intro: main_row_quiet [OF assms(1) _ _ assms(4)])
  have popup: "returns (quiet V kq ks s) (if (0 :: int) \<noteq> - 1 \<and> ?sub \<noteq> - 1 \<and> (?change \<noteq> - 1 \<or> (None :: string option) \<noteq> None)
      then do {
        m \<leftarrow> arr_get (main_menu_entries io) 0;
        e \<leftarrow> arr_get (submenus m) ?sub;
        if get_input_value e \<noteq> None
        then do {
          text_in \<leftarrow> None;
          Some (video io (draw_input_popup (get_string (name_id e)) (input_unit e) text_in) u)
        }
        else Some (video io (draw_selection_popup e ?change) u)
      } else Some u)" if "quiet V kq ks s u" for u
  proof (cases "?sub = - 1 \<or> ?change = - 1")
    case False
    then have "?sub \<in> {0, 1, 2}" using assms(4) by blast
    then show ?thesis using quiet_video [OF assms(1) that] False by (simp add: cpu_page cpu_entry cpu_entries(4) returns_Some)
  qed (use that in \<open>auto simp: returns_Some\<close>)
  show ?thesis
    unfolding draw_all_def draw_menus_def assms(3)
    by (rule returns_bind [OF rows], rule returns_bind [OF popup], assumption)
      (simp add: Let_def returns_def quiet_video [OF assms(1)])
qed

section \<open>The dialogue\<close>

text \<open>
  What the keys are meant to do while the first page of the menu, the settings of the processor, is selected: where the input
  goes, and how an action moves it. \<open>In_Sub i\<close> is option \<open>i\<close> of the page, \<open>In_Change i j\<close> the list of its values with entry \<open>j\<close>
  selected, \<open>In_Quit f q\<close> the quit menu that was opened in \<open>f\<close>. An action asks for the settings to be saved, leaves the menu without
  that, or goes on; moves to other pages are not followed.
\<close>

datatype focus = In_Main | In_Sub int | In_Change int int | In_Quit focus int

datatype reaction = Next focus llama_bios_settings | Save | Leave | Elsewhere

text \<open>The options of the page: their values in the order of the list, the current one, and the settings with another one.\<close>

definition cpu_values :: "int \<Rightarrow> u16 list" where
  "cpu_values i = (if i = 0 then [0, 1, 2, 3, 4, 5] else [1, 0])"

definition cpu_value :: "int \<Rightarrow> llama_bios_settings \<Rightarrow> u8" where
  "cpu_value i lbs = se_value (if i = 0 then cpu_freq_index lbs else if i = 1 then l1_cache lbs else l2_cache lbs)"

definition cpu_choose :: "int \<Rightarrow> u8 \<Rightarrow> llama_bios_settings \<Rightarrow> llama_bios_settings" where
  "cpu_choose i v lbs =
     (if v = cpu_value i lbs then lbs
      else (if i = 0 then lbs\<lparr>cpu_freq_index := (cpu_freq_index lbs)\<lparr>se_value := v\<rparr>\<rparr>
            else if i = 1 then lbs\<lparr>l1_cache := (l1_cache lbs)\<lparr>se_value := v\<rparr>\<rparr>
            else lbs\<lparr>l2_cache := (l2_cache lbs)\<lparr>se_value := v\<rparr>\<rparr>)\<lparr>has_changes := 1\<rparr>)"

fun position :: "'a \<Rightarrow> 'a list \<Rightarrow> int" where
  "position x [] = 0"
| "position x (y # ys) = (if x = y then 0 else 1 + position x ys)"

text \<open>The steps up and down in a list of \<open>n\<close> entries, around its ends.\<close>

definition moved :: "keyboard_action \<Rightarrow> int \<Rightarrow> int \<Rightarrow> int option" where
  "moved a n i =
     (if a \<in> {KEYBOARD_ACTION_UP, KEYBOARD_ACTION_SHIFT_TAB} then Some (if i = 0 then n - 1 else i - 1)
      else if a \<in> {KEYBOARD_ACTION_DOWN, KEYBOARD_ACTION_TAB} then Some (if i + 1 = n then 0 else i + 1) else None)"

text \<open>ESC outside of the lists: without changes the menu is left, with changes it asks.\<close>

definition ask :: "focus \<Rightarrow> llama_bios_settings \<Rightarrow> reaction" where
  "ask f lbs = (if has_changes lbs = 0 then Leave else Next (In_Quit f 0) lbs)"

fun react :: "focus \<Rightarrow> llama_bios_settings \<Rightarrow> keyboard_action \<Rightarrow> reaction" where
  "react In_Main lbs a =
     (if a = KEYBOARD_ACTION_ESC then ask In_Main lbs
      else if a = KEYBOARD_ACTION_F10 then Save
      else if a = KEYBOARD_ACTION_RIGHT then Next (In_Sub 0) lbs
      else if a \<in> {KEYBOARD_ACTION_LEFT, KEYBOARD_ACTION_ENTER} then Next In_Main lbs
      else Elsewhere)"
| "react (In_Sub i) lbs a =
     (case moved a 3 i of
        Some i' \<Rightarrow> Next (In_Sub i') lbs
      | None \<Rightarrow>
          if a = KEYBOARD_ACTION_ESC then ask (In_Sub i) lbs
          else if a = KEYBOARD_ACTION_F10 then Save
          else if a = KEYBOARD_ACTION_LEFT then Next In_Main lbs
          else if a = KEYBOARD_ACTION_RIGHT then Next (In_Sub i) lbs
          else if ucast (cpu_value i lbs) \<in> set (cpu_values i) then Next (In_Change i (position (ucast (cpu_value i lbs)) (cpu_values i))) lbs
          else Elsewhere)"
| "react (In_Change i j) lbs a =
     (case moved a (int (length (cpu_values i))) j of
        Some j' \<Rightarrow> Next (In_Change i j') lbs
      | None \<Rightarrow>
          if a = KEYBOARD_ACTION_ESC then Next (In_Sub i) lbs
          else if a = KEYBOARD_ACTION_ENTER then Next (In_Sub i) (cpu_choose i (ucast (cpu_values i ! nat j)) lbs)
          else Next (In_Change i j) lbs)"
| "react (In_Quit f q) lbs a =
     (case moved a 2 q of
        Some q' \<Rightarrow> Next (In_Quit f q') lbs
      | None \<Rightarrow>
          if a = KEYBOARD_ACTION_ESC then Next f lbs
          else if a = KEYBOARD_ACTION_ENTER then (if q = 0 then Save else Leave)
          else Next (In_Quit f q) lbs)"

text \<open>
  The outcome of a list of actions: the settings that are saved, none when the menu is left without saving. Without an outcome the menu
  waits for more, or the dialogue has gone to another page.
\<close>

fun dialogue :: "focus \<Rightarrow> llama_bios_settings \<Rightarrow> keyboard_action list \<Rightarrow> llama_bios_settings option option" where
  "dialogue f lbs [] = None"
| "dialogue f lbs (a # as) =
     (case react f lbs a of Next f lbs \<Rightarrow> dialogue f lbs as | Save \<Rightarrow> Some (Some lbs) | Leave \<Rightarrow> Some None | Elsewhere \<Rightarrow> None)"

text \<open>The keys that mean something.\<close>

fun actions :: "u16 list \<Rightarrow> keyboard_action list" where
  "actions [] = []"
| "actions (k # ks) = (case key_action (uint k) of None \<Rightarrow> actions ks | Some a \<Rightarrow> a # actions ks)"

text \<open>Without F10 and Enter nothing is saved, and what is saved is valid.\<close>

fun valid_focus :: "focus \<Rightarrow> bool" where
  "valid_focus In_Main = True"
| "valid_focus (In_Sub i) = (i \<in> {0, 1, 2})"
| "valid_focus (In_Change i j) = (i \<in> {0, 1, 2} \<and> 0 \<le> j \<and> j < int (length (cpu_values i)))"
| "valid_focus (In_Quit f q) = (q \<in> {0, 1} \<and> (f = In_Main \<or> (\<exists>i\<in>{0, 1, 2}. f = In_Sub i)))"

lemma position_bounds: "x \<in> set xs \<Longrightarrow> 0 \<le> position x xs \<and> position x xs < int (length xs)"
  by (induction xs) auto

lemma react_valid:
  assumes "valid_focus f" "react f lbs a = Next f' lbs'"
  shows "valid_focus f'"
  using assms
proof (cases f)
  case (In_Sub i)
  then show ?thesis using assms position_bounds [of "ucast (cpu_value i lbs)" "cpu_values i"]
    by (auto simp: moved_def ask_def split: if_splits)
next
  case (In_Change i j)
  then show ?thesis using assms by (auto simp: moved_def split: if_splits)
next
  case (In_Quit g q)
  then show ?thesis using assms by (auto simp: moved_def split: if_splits)
qed (auto simp: ask_def split: if_splits)

lemma cpu_choose_valid:
  assumes "settings_valid lbs" "i = 0 \<longrightarrow> v < 6"
  shows "settings_valid (cpu_choose i v lbs)"
  using assms by (simp add: settings_valid_def settings_layout_def cpu_choose_def)

lemma cpu_values_small: "0 \<le> j \<Longrightarrow> j < 6 \<Longrightarrow> (ucast (cpu_values 0 ! nat j) :: u8) < 6"
proof -
  assume "0 \<le> j" "j < 6"
  then consider "nat j = 0" | "nat j = 1" | "nat j = 2" | "nat j = 3" | "nat j = 4" | "nat j = 5" by linarith
  then show ?thesis by cases (simp_all add: cpu_values_def)
qed

lemma react_settings:
  assumes "valid_focus f" "react f lbs a = Next f' lbs'" "settings_valid lbs"
  shows "settings_valid lbs'"
  using assms
proof (cases f)
  case (In_Change i j)
  then have "i = 0 \<longrightarrow> (ucast (cpu_values i ! nat j) :: u8) < 6" using assms(1) cpu_values_small by (auto simp: cpu_values_def)
  then show ?thesis using assms In_Change cpu_choose_valid [OF assms(3)] by (auto split: option.splits if_splits)
qed (auto simp: ask_def moved_def split: if_splits)

text \<open>Without F10 and Enter nothing is saved.\<close>

lemma unasked:
  assumes "KEYBOARD_ACTION_F10 \<notin> set as" "KEYBOARD_ACTION_ENTER \<notin> set as" "dialogue f lbs as = Some r"
  shows "r = None"
  using assms
proof (induction as arbitrary: f lbs)
  case (Cons a as)
  have "react f lbs a \<noteq> Save" using Cons.prems(1,2) by (cases f) (auto simp: ask_def split: option.splits)
  then show ?case using Cons by (auto split: reaction.splits)
qed simp

section \<open>The menu follows the dialogue\<close>

text \<open>The input in the variables of the menu, and the machine at a point of the dialogue with the actions that wait.\<close>

fun menu_sub :: "focus \<Rightarrow> int" where
  "menu_sub In_Main = - 1" | "menu_sub (In_Sub i) = i" | "menu_sub (In_Change i j) = i" | "menu_sub (In_Quit f q) = menu_sub f"

definition menu_change :: "focus \<Rightarrow> int" where
  "menu_change f = (case f of In_Change i j \<Rightarrow> j | _ \<Rightarrow> - 1)"

definition menu_quit :: "focus \<Rightarrow> int" where
  "menu_quit f = (case f of In_Quit g q \<Rightarrow> q | _ \<Rightarrow> - 1)"

definition menu_at :: "'w io \<Rightarrow> u16 \<Rightarrow> 'w spi_view \<Rightarrow> ('w \<Rightarrow> u16 list) \<Rightarrow> (u32 \<Rightarrow> u8) \<Rightarrow> focus \<Rightarrow> keyboard_action list \<Rightarrow>
    ('w, 'z) menu_mach_scheme \<Rightarrow> bool" where
  "menu_at io base V kq M f as s \<longleftrightarrow> valid_focus f \<and> main_menu_selection s = 0 \<and> submenu_selection s = menu_sub f \<and>
     change_selection s = menu_change f \<and> quit_menu_selection s = menu_quit f \<and>
     spi_ok io base V s \<and> flash_of V s = M \<and> actions (kq (wd s)) = as"

lemma menu_at_quiet:
  assumes "menu_at io base V kq M f as s" "quiet V kq ks s t" "actions ks = as'"
  shows "menu_at io base V kq M f as' t"
  using assms quiet_spi_ok [OF assms(2), of io base] by (auto simp: menu_at_def quiet_def)

lemma menu_at_video:
  assumes "pc_bios io V kq" "menu_at io base V kq M f as s"
  shows "menu_at io base V kq M f as (video io brs s)"
  by (rule menu_at_quiet [OF assms(2) quiet_video [OF assms(1) quiet_refl [OF refl]]]) (use assms(2) in \<open>simp add: menu_at_def\<close>)

lemma spi_ok_selections [simp]:
  "spi_ok io base V (s\<lparr>quit_menu_selection := q\<rparr>) = spi_ok io base V s" "flash_of V (s\<lparr>quit_menu_selection := q\<rparr>) = flash_of V s"
  "spi_ok io base V (s\<lparr>submenu_selection := q\<rparr>) = spi_ok io base V s" "flash_of V (s\<lparr>submenu_selection := q\<rparr>) = flash_of V s"
  "spi_ok io base V (s\<lparr>change_selection := q\<rparr>) = spi_ok io base V s" "flash_of V (s\<lparr>change_selection := q\<rparr>) = flash_of V s"
  by (simp_all add: spi_ok_def idle_def chip_id_of_def flash_of_def)

text \<open>Reading an action: keys without a meaning are skipped.\<close>

lemma get_input_quiet:
  assumes "pc_bios io V kq" "quiet V kq ks s t" "actions ks = a # as"
  shows "\<exists>u ks'. get_input io None p t = Some (a, u) \<and> quiet V kq ks' s u \<and> actions ks' = as"
  using assms(2,3)
proof (induction ks arbitrary: t)
  case (Cons k ks)
  obtain u where u: "get_keystroke_full io 500 t = Some (uint k, u)" "quiet V kq ks s u"
    using keystroke_quiet [OF assms(1) Cons.prems(1)] by blast
  have k: "uint k \<noteq> - 1" using uint_ge_0 [of k] by linarith
  show ?case
  proof (cases "key_action (uint k)")
    case None
    then have "get_input_turn io None p t = Some (Again u)" using u(1) k by (simp add: get_input_turn_def)
    then have "get_input io None p t = get_input io None p u" by (simp add: get_input_def loop_unfold_Again)
    then show ?thesis using Cons.IH [OF u(2)] Cons.prems(2) None by simp
  next
    case (Some b)
    then have "get_input_turn io None p t = Some (Finish (b, u))" using u(1) k by (simp add: get_input_turn_def)
    then show ?thesis using u(2) Cons.prems(2) Some by (auto simp: get_input_def loop_unfold_Finish)
  qed
qed simp

lemma menu_reads:
  assumes "pc_bios io V kq" "menu_at io base V kq M f (a # as) s"
  obtains u v where "draw_all io lbs None s = Some u" "get_input io None p u = Some (a, v)" "menu_at io base V kq M f as v"
    "menu_at io base V kq M f (a # as) u"
proof -
  have sel: "main_menu_selection s = 0" "submenu_selection s \<in> {- 1, 0, 1, 2}" "actions (kq (wd s)) = a # as"
    using assms(2) by (cases f; auto simp: menu_at_def)+
  obtain u where u: "draw_all io lbs None s = Some u" "quiet V kq (kq (wd s)) s u"
    using draw_all_quiet [OF assms(1) quiet_refl [OF refl] sel(1,2)] by (auto simp: returns_def)
  obtain v ks' where v: "get_input io None p u = Some (a, v)" "quiet V kq ks' s v" "actions ks' = as"
    using get_input_quiet [OF assms(1) u(2) sel(3)] by blast
  show thesis by (rule that [OF u(1) v(1)]) (use menu_at_quiet [OF assms(2)] u(2) v(2,3) sel(3) in auto)
qed

text \<open>
  The rest of a run: the loops that are open at a point of the dialogue. \<open>redraw\<close> is the flag of the loop of the page.
\<close>

definition run_main :: "'w io \<Rightarrow> llama_bios_settings \<Rightarrow> ('w, 'z) menu_mach_scheme \<Rightarrow> ('w, 'z) menu_mach_scheme menu_exit option" where
  "run_main io lbs s = loop (main_menu_turn io) (lbs, s)"

definition run_sub :: "'w io \<Rightarrow> bool \<Rightarrow> llama_bios_settings \<Rightarrow> ('w, 'z) menu_mach_scheme \<Rightarrow> ('w, 'z) menu_mach_scheme menu_exit option" where
  "run_sub io redraw lbs s =
     do {
       r \<leftarrow> loop (submenu_turn io) (redraw, lbs, s);
       case r of Return lbs s \<Rightarrow> run_main io lbs s | Reboot s \<Rightarrow> Some (Reboot s)
     }"

fun run :: "'w io \<Rightarrow> bool \<Rightarrow> focus \<Rightarrow> llama_bios_settings \<Rightarrow> ('w, 'z) menu_mach_scheme \<Rightarrow> ('w, 'z) menu_mach_scheme menu_exit option" where
  "run io redraw In_Main lbs s = run_main io lbs s"
| "run io redraw (In_Sub i) lbs s = run_sub io redraw lbs s"
| "run io redraw (In_Change i j) lbs s =
     do {
       (lbs, s) \<leftarrow> loop (change_turn io (submenus_init (cpu_menu io) ! nat i)) (lbs, s);
       run_sub io True lbs s
     }"
| "run io redraw (In_Quit f q) lbs s =
     do {
       r \<leftarrow> loop (quit_turn io lbs) s;
       case r of
         Return lbs s \<Rightarrow> (if f = In_Main then run_main io lbs (video io draw_background s) else run_sub io False lbs (video io draw_background s))
       | Reboot s \<Rightarrow> Some (Reboot s)
     }"

lemma loop_turn: "loop body x = Option.bind (body x) (\<lambda>t. case t of Again y \<Rightarrow> loop body y | Finish z \<Rightarrow> Some z)"
  by (rule loop.simps)

text \<open>ESC outside of the lists.\<close>

lemma esc_run:
  "Option.bind (esc_pressed io lbs s) (\<lambda>r. case r of Return lbs s \<Rightarrow> k lbs s | Reboot s \<Rightarrow> Some (Reboot s)) =
     (if has_changes lbs = 0 then Some (Reboot s)
      else Option.bind (loop (quit_turn io lbs) (s\<lparr>quit_menu_selection := 0\<rparr>))
        (\<lambda>r. case r of Return lbs s \<Rightarrow> k lbs (video io draw_background s) | Reboot s \<Rightarrow> Some (Reboot s)))"
  by (cases "loop (quit_turn io lbs) (s\<lparr>quit_menu_selection := 0\<rparr>)")
    (auto simp: esc_pressed_def reboot_def quit_menu_loop_def split: menu_exit.splits)

lemma again_bind:
  "Option.bind (map_option (\<lambda>r. case r of Return lbs s \<Rightarrow> Again (g lbs s) | Reboot s \<Rightarrow> Finish (Reboot s)) m)
     (\<lambda>t. case t of Again y \<Rightarrow> l y | Finish z \<Rightarrow> Some z) =
   Option.bind m (\<lambda>r. case r of Return lbs s \<Rightarrow> l (g lbs s) | Reboot s \<Rightarrow> Some (Reboot s))"
  by (cases m) (auto split: menu_exit.splits)

text \<open>One action: the run goes on at the next point of the dialogue, or it ends.\<close>

definition follows :: "'w io \<Rightarrow> u16 \<Rightarrow> 'w spi_view \<Rightarrow> ('w \<Rightarrow> u16 list) \<Rightarrow> (u32 \<Rightarrow> u8) \<Rightarrow> llama_bios_settings \<Rightarrow> keyboard_action list \<Rightarrow> reaction \<Rightarrow>
    ('w, 'z) menu_mach_scheme menu_exit option \<Rightarrow> bool" where
  "follows io base V kq M lbs as r result \<longleftrightarrow> (case r of
       Next f lbs' \<Rightarrow> \<exists>redraw s'. result = run io redraw f lbs' s' \<and> menu_at io base V kq M f as s'
     | Save \<Rightarrow> \<exists>s'. spi_ok io base V s' \<and> flash_of V s' = M \<and> result = save_and_reboot io lbs s'
     | Leave \<Rightarrow> \<exists>s'. flash_of V s' = M \<and> result = Some (Reboot s')
     | Elsewhere \<Rightarrow> True)"

lemma follows_ask:
  assumes "menu_at io base V kq M f as s" "f = In_Main \<or> (\<exists>i. f = In_Sub i)"
    "result = Option.bind (esc_pressed io lbs s) (\<lambda>r. case r of Return lbs s \<Rightarrow> (if f = In_Main then run_main io lbs s else run_sub io False lbs s)
       | Reboot s \<Rightarrow> Some (Reboot s))"
  shows "follows io base V kq M lbs as (ask f lbs) result"
proof (cases "has_changes lbs = 0")
  case True
  then show ?thesis using assms(1) unfolding assms(3) esc_run by (auto simp: follows_def ask_def menu_at_def)
next
  case False
  then have "result = run io True (In_Quit f 0) lbs (s\<lparr>quit_menu_selection := 0\<rparr>)" unfolding assms(3) esc_run by simp
  moreover have "menu_at io base V kq M (In_Quit f 0) as (s\<lparr>quit_menu_selection := 0\<rparr>)"
    using assms(1,2) by (auto simp: menu_at_def menu_change_def menu_quit_def)
  ultimately show ?thesis using False unfolding follows_def ask_def by auto
qed

lemma main_follows:
  assumes "pc_bios io V kq" "menu_at io base V kq M In_Main (a # as) s"
  shows "follows io base V kq M lbs as (react In_Main lbs a) (run io redraw In_Main lbs s)"
proof -
  let ?s = "video io (clear_area 6 43 36 11 @ clear_area 21 1 78 3) s"
  obtain u v where uv: "draw_all io lbs None ?s = Some u" "get_input io None 1 u = Some (a, v)"
      "menu_at io base V kq M In_Main as v" "menu_at io base V kq M In_Main (a # as) u"
    using menu_reads [OF assms(1) menu_at_video [OF assms]] by blast
  have m: "main_menu_selection u = 0" using uv(4) by (simp add: menu_at_def)
  have l: "update_loop (cpu_menu io) = None" by (simp add: cpu_menu_def)
  note turn = main_menu_turn_def uv(1,2) m l cpu_page
  show ?thesis
  proof (cases a)
    case KEYBOARD_ACTION_ESC
    have "run io redraw In_Main lbs s = Option.bind (esc_pressed io lbs v) (\<lambda>r. case r of Return lbs s \<Rightarrow> run_main io lbs s | Reboot s \<Rightarrow> Some (Reboot s))"
      unfolding run.simps run_main_def by (subst loop_turn) (simp add: turn KEYBOARD_ACTION_ESC again_bind Let_def)
    then show ?thesis using follows_ask [OF uv(3), of "run io redraw In_Main lbs s" lbs] KEYBOARD_ACTION_ESC by simp
  next
    case KEYBOARD_ACTION_F10
    have "run io redraw In_Main lbs s = save_and_reboot io lbs v"
      unfolding run.simps run_main_def by (subst loop_turn) (simp add: turn KEYBOARD_ACTION_F10 Let_def bind_map_option comp_def)
    then show ?thesis using uv(3) KEYBOARD_ACTION_F10 by (auto simp: follows_def menu_at_def)
  next
    case KEYBOARD_ACTION_RIGHT
    have "run io redraw In_Main lbs s = run io False (In_Sub 0) lbs (v\<lparr>submenu_selection := 0\<rparr>)"
      unfolding run.simps run_main_def run_sub_def
      by (subst loop_turn) (simp add: turn KEYBOARD_ACTION_RIGHT again_bind Let_def submenu_loop_def)
    moreover have "menu_at io base V kq M (In_Sub 0) as (v\<lparr>submenu_selection := 0\<rparr>)"
      using uv(3) by (simp add: menu_at_def menu_change_def menu_quit_def)
    ultimately show ?thesis using KEYBOARD_ACTION_RIGHT unfolding follows_def by auto
  next
    case KEYBOARD_ACTION_LEFT
    have "run io redraw In_Main lbs s = run io False In_Main lbs v"
      unfolding run.simps run_main_def by (subst loop_turn) (simp add: turn KEYBOARD_ACTION_LEFT Let_def)
    then show ?thesis using uv(3) KEYBOARD_ACTION_LEFT unfolding follows_def by auto
  next
    case KEYBOARD_ACTION_ENTER
    have "run io redraw In_Main lbs s = run io False In_Main lbs v"
      unfolding run.simps run_main_def by (subst loop_turn) (simp add: turn KEYBOARD_ACTION_ENTER Let_def)
    then show ?thesis using uv(3) KEYBOARD_ACTION_ENTER unfolding follows_def by auto
  qed (simp_all add: follows_def)
qed

lemma cpu_move:
  assumes "i \<in> {0, 1, 2}"
  shows "move_submenu menu_forward (cpu_menu io) lbs i s = Some (if i + 1 = 3 then 0 else i + 1, s)"
    "move_submenu menu_backward (cpu_menu io) lbs i s = Some (if i = 0 then 2 else i - 1, s)"
proof -
  have n: "num_submenus (cpu_menu io) = 3" by (simp add: cpu_menu_def)
  have "skip_turn move (cpu_menu io) lbs orig (j, s) = Some (Finish (j, s))" if "j \<in> {0, 1, 2}" for move orig j
    using that by (simp add: skip_turn_def cpu_entry can_select_def cpu_entries(5))
  then have stop: "j \<in> {0, 1, 2} \<Longrightarrow> loop (skip_turn move (cpu_menu io) lbs orig) (j, s) = Some (j, s)" for move orig j
    by (simp add: loop_unfold_Finish)
  have steps: "menu_forward 3 i = (if i + 1 = 3 then 0 else i + 1)" "menu_backward 3 i = (if i = 0 then 2 else i - 1)"
    using assms by (auto simp: menu_forward_def menu_backward_def)
  show "move_submenu menu_forward (cpu_menu io) lbs i s = Some (if i + 1 = 3 then 0 else i + 1, s)"
    unfolding move_submenu_def n steps by (rule stop) (use assms in auto)
  show "move_submenu menu_backward (cpu_menu io) lbs i s = Some (if i = 0 then 2 else i - 1, s)"
    unfolding move_submenu_def n steps by (rule stop) (use assms in auto)
qed

lemma cpu_getter:
  assumes "i \<in> {0, 1, 2}"
  shows "call_ptr (get_selection_value (submenus_init (cpu_menu io) ! nat i)) (\<lambda>get. get lbs s) = Some (ucast (cpu_value i lbs), s)"
  using assms by (auto simp: cpu_menu_def call_ptr_def getter_defs get_setting_def cpu_value_def)

lemma lo8_eq_ucast: "lo8 v = ucast v"
proof -
  have ff: "(0xFF :: u16) = mask 8" by (simp add: mask_eq_exp_minus_1)
  show ?thesis unfolding ff by (intro bit_word_eqI) (auto simp: bit_simps)
qed

lemma cpu_setter:
  assumes "i \<in> {0, 1, 2}"
  shows "call_ptr (set_selection_value (submenus_init (cpu_menu io) ! nat i)) (\<lambda>set. set lbs v s) = Some (cpu_choose i (ucast v) lbs, s)"
proof -
  consider "i = 0" | "i = 1" | "i = 2" using assms by blast
  then show ?thesis
    by cases (simp_all add: cpu_menu_def call_ptr_def handler_set_cpu_freq_index_def handler_set_l1_cache_def handler_set_l2_cache_def
      set_setting_def cpu_choose_def cpu_value_def lo8_eq_ucast)
qed

lemma change_list:
  assumes "map ce_value (change_entries_init e) = vs" "length vs \<le> 10"
  shows "v \<in> set vs \<Longrightarrow> get_index (change_entries e) (int (length vs)) v = position v vs"
    "0 \<le> j \<Longrightarrow> j < int (length vs) \<Longrightarrow> \<exists>ce. arr_get (change_entries e) j = Some ce \<and> ce_value ce = vs ! nat j"
proof -
  let ?es = "change_entries_init e"
  have len: "length ?es = length vs" using assms(1) by (metis length_map)
  have idx: "w \<in> ce_value ` set es \<Longrightarrow> index_from k es w = k + position w (map ce_value es)" for k es w
    by (induction es arbitrary: k) auto
  have t: "take (length vs) (change_entries e) = ?es"
    using assms(2) len by (simp add: change_entries_def padded_def)
  show "get_index (change_entries e) (int (length vs)) v = position v vs" if "v \<in> set vs"
    using that assms(1) idx [of v ?es 0] t by (auto simp: get_index_def)
  assume j: "0 \<le> j" "j < int (length vs)"
  then have "arr_get (change_entries e) j = Some (?es ! nat j)"
    using assms(2) len by (auto simp: arr_get_def change_entries_def padded_def nth_append)
  moreover have "ce_value (?es ! nat j) = vs ! nat j"
    using j len assms(1) by (metis nat_less_iff nth_map)
  ultimately show "\<exists>ce. arr_get (change_entries e) j = Some ce \<and> ce_value ce = vs ! nat j" by blast
qed

lemma cpu_list:
  assumes "i \<in> {0, 1, 2}"
  shows "num_change_entries (submenus_init (cpu_menu io) ! nat i) = int (length (cpu_values i))"
    "v \<in> set (cpu_values i) \<Longrightarrow> get_index (change_entries (submenus_init (cpu_menu io) ! nat i)) (int (length (cpu_values i))) v = position v (cpu_values i)"
    "0 \<le> j \<Longrightarrow> j < int (length (cpu_values i)) \<Longrightarrow> \<exists>ce. arr_get (change_entries (submenus_init (cpu_menu io) ! nat i)) j = Some ce \<and> ce_value ce = cpu_values i ! nat j"
proof -
  show "num_change_entries (submenus_init (cpu_menu io) ! nat i) = int (length (cpu_values i))" using assms by (auto simp: cpu_menu_def cpu_values_def)
  show "v \<in> set (cpu_values i) \<Longrightarrow> get_index (change_entries (submenus_init (cpu_menu io) ! nat i)) (int (length (cpu_values i))) v = position v (cpu_values i)"
    using assms by (intro change_list(1)) (auto simp: cpu_menu_def cpu_values_def)
  show "0 \<le> j \<Longrightarrow> j < int (length (cpu_values i)) \<Longrightarrow> \<exists>ce. arr_get (change_entries (submenus_init (cpu_menu io) ! nat i)) j = Some ce \<and> ce_value ce = cpu_values i ! nat j"
    using assms by (intro change_list(2)) (auto simp: cpu_menu_def cpu_values_def)
qed

lemma sub_follows:
  assumes "pc_bios io V kq" "menu_at io base V kq M (In_Sub i) (a # as) s"
  shows "follows io base V kq M lbs as (react (In_Sub i) lbs a) (run io redraw (In_Sub i) lbs s)"
proof -
  let ?s = "if redraw then video io draw_background s else s"
  have "menu_at io base V kq M (In_Sub i) (a # as) ?s" using assms(2) menu_at_video [OF assms] by simp
  then obtain u v where uv: "draw_all io lbs None ?s = Some u" "get_input io None 0 u = Some (a, v)"
      "menu_at io base V kq M (In_Sub i) as v" "menu_at io base V kq M (In_Sub i) (a # as) u"
    using menu_reads [OF assms(1)] by blast
  have i: "i \<in> {0, 1, 2}" using assms(2) by (simp add: menu_at_def)
  have m: "main_menu_selection u = 0" "main_menu_selection v = 0" "submenu_selection v = i" using uv(3,4) by (simp_all add: menu_at_def)
  have l: "update_loop (cpu_menu io) = None" by (simp add: cpu_menu_def)
  note turn = submenu_turn_def uv(1,2) m l cpu_page cpu_move [OF i] Let_def
  have stay: ?thesis if "submenu_turn io (redraw, lbs, s) = Some (Again (False, lbs, v\<lparr>submenu_selection := i'\<rparr>))"
    "react (In_Sub i) lbs a = Next (In_Sub i') lbs" "i' \<in> {0, 1, 2}" for i'
  proof -
    have "run io redraw (In_Sub i) lbs s = run io False (In_Sub i') lbs (v\<lparr>submenu_selection := i'\<rparr>)"
      unfolding run.simps run_sub_def by (subst loop_turn) (simp add: that(1))
    moreover have "menu_at io base V kq M (In_Sub i') as (v\<lparr>submenu_selection := i'\<rparr>)"
      using uv(3) that(3) by (simp add: menu_at_def menu_change_def menu_quit_def)
    ultimately show ?thesis unfolding that(2) follows_def by auto
  qed
  have same: "v\<lparr>submenu_selection := i\<rparr> = v" using m(3) by simp
  show ?thesis
  proof (cases a)
    case KEYBOARD_ACTION_UP
    show ?thesis by (rule stay [of "if i = 0 then 2 else i - 1"]) (use i in \<open>simp_all add: turn KEYBOARD_ACTION_UP moved_def, auto\<close>)
  next
    case KEYBOARD_ACTION_SHIFT_TAB
    show ?thesis by (rule stay [of "if i = 0 then 2 else i - 1"]) (use i in \<open>simp_all add: turn KEYBOARD_ACTION_SHIFT_TAB moved_def, auto\<close>)
  next
    case KEYBOARD_ACTION_DOWN
    show ?thesis by (rule stay [of "if i + 1 = 3 then 0 else i + 1"]) (use i in \<open>simp_all add: turn KEYBOARD_ACTION_DOWN moved_def, auto\<close>)
  next
    case KEYBOARD_ACTION_TAB
    show ?thesis by (rule stay [of "if i + 1 = 3 then 0 else i + 1"]) (use i in \<open>simp_all add: turn KEYBOARD_ACTION_TAB moved_def, auto\<close>)
  next
    case KEYBOARD_ACTION_RIGHT
    show ?thesis by (rule stay [of i]) (use i in \<open>simp_all add: turn KEYBOARD_ACTION_RIGHT moved_def same\<close>)
  next
    case KEYBOARD_ACTION_LEFT
    have "run io redraw (In_Sub i) lbs s = run io False In_Main lbs (v\<lparr>submenu_selection := - 1\<rparr>)"
      unfolding run.simps run_sub_def by (subst loop_turn) (simp add: turn KEYBOARD_ACTION_LEFT)
    moreover have "menu_at io base V kq M In_Main as (v\<lparr>submenu_selection := - 1\<rparr>)"
      using uv(3) by (simp add: menu_at_def menu_change_def menu_quit_def)
    ultimately show ?thesis unfolding follows_def by (auto simp: KEYBOARD_ACTION_LEFT moved_def)
  next
    case KEYBOARD_ACTION_F10
    have "run io redraw (In_Sub i) lbs s = save_and_reboot io lbs v"
      unfolding run.simps run_sub_def
      by (subst loop_turn) (cases "llama_save_bios_settings io lbs v"; simp add: turn KEYBOARD_ACTION_F10 save_and_reboot_def reboot_def)
    then show ?thesis using uv(3) by (auto simp: follows_def menu_at_def KEYBOARD_ACTION_F10 moved_def)
  next
    case KEYBOARD_ACTION_ESC
    have "run io redraw (In_Sub i) lbs s = Option.bind (esc_pressed io lbs v) (\<lambda>r. case r of Return lbs s \<Rightarrow> run_sub io False lbs s | Reboot s \<Rightarrow> Some (Reboot s))"
      unfolding run.simps run_sub_def [of io redraw]
      by (subst loop_turn) (cases "esc_pressed io lbs v"; simp add: turn KEYBOARD_ACTION_ESC run_sub_def split: menu_exit.splits)
    then show ?thesis using follows_ask [OF uv(3), of "run io redraw (In_Sub i) lbs s" lbs] by (simp add: KEYBOARD_ACTION_ESC moved_def)
  next
    case KEYBOARD_ACTION_ENTER
    show ?thesis
    proof (cases "ucast (cpu_value i lbs) \<in> set (cpu_values i)")
      case True
      let ?j = "position (ucast (cpu_value i lbs)) (cpu_values i)"
      let ?v = "v\<lparr>change_selection := ?j\<rparr>"
      have c: "change_loop io lbs v = loop (change_turn io (submenus_init (cpu_menu io) ! nat i)) (lbs, ?v)"
        by (simp add: change_loop_def m cpu_page cpu_entry [OF i] cpu_getter [OF i] cpu_list(1,2) [OF i] True)
      have "run io redraw (In_Sub i) lbs s = run io False (In_Change i ?j) lbs ?v"
        unfolding run.simps run_sub_def [of io redraw]
        by (subst loop_turn) (cases "loop (change_turn io (submenus_init (cpu_menu io) ! nat i)) (lbs, ?v)";
          simp add: turn KEYBOARD_ACTION_ENTER cpu_entry [OF i] can_select_def cpu_entries(4,5) [OF i] c run_sub_def split_beta)
      moreover have "menu_at io base V kq M (In_Change i ?j) as ?v"
        using uv(3) position_bounds [OF True] by (simp add: menu_at_def menu_change_def menu_quit_def)
      ultimately show ?thesis using True unfolding follows_def by (auto simp: KEYBOARD_ACTION_ENTER moved_def)
    qed (simp add: KEYBOARD_ACTION_ENTER moved_def follows_def)
  qed
qed

lemma change_follows:
  fixes io :: "'w io" and s :: "('w, 'z) menu_mach_scheme"
  assumes "pc_bios io V kq" "menu_at io base V kq M (In_Change i j) (a # as) s"
  shows "follows io base V kq M lbs as (react (In_Change i j) lbs a) (run io redraw (In_Change i j) lbs s)"
proof -
  let ?e = "submenus_init (cpu_menu io :: (('w, 'z) menu_mach_scheme) main_menu_entry) ! nat i" and ?n = "int (length (cpu_values i))"
  obtain u v where uv: "draw_all io lbs None s = Some u" "get_input io None 0 u = Some (a, v)"
      "menu_at io base V kq M (In_Change i j) as v" "menu_at io base V kq M (In_Change i j) (a # as) u"
    using menu_reads [OF assms] by blast
  have i: "i \<in> {0, 1, 2}" and j: "0 \<le> j" "j < ?n" using assms(2) by (simp_all add: menu_at_def)
  have sel: "change_selection u = j" "change_selection v = j" using uv(3,4) by (simp_all add: menu_at_def menu_change_def)
  obtain ce where ce: "arr_get (change_entries ?e) j = Some ce" "ce_value ce = cpu_values i ! nat j"
    using cpu_list(3) [OF i j] by blast
  note turn = change_turn_def uv(1,2) sel ce cpu_list(1) [OF i] cpu_setter [OF i] Let_def
  have steps: "menu_forward ?n j = (if j + 1 = ?n then 0 else j + 1)" "menu_backward ?n j = (if j = 0 then ?n - 1 else j - 1)"
    using j by (auto simp: menu_forward_def menu_backward_def)
  have stay: ?thesis if "change_turn io ?e (lbs, s) = Some (Again (lbs, v\<lparr>change_selection := j'\<rparr>))"
    "react (In_Change i j) lbs a = Next (In_Change i j') lbs" "0 \<le> j'" "j' < ?n" for j'
  proof -
    have "run io redraw (In_Change i j) lbs s = run io False (In_Change i j') lbs (v\<lparr>change_selection := j'\<rparr>)"
      unfolding run.simps by (subst loop_turn) (simp add: that(1))
    moreover have "menu_at io base V kq M (In_Change i j') as (v\<lparr>change_selection := j'\<rparr>)"
      using uv(3) that(3,4) by (simp add: menu_at_def menu_change_def menu_quit_def)
    ultimately show ?thesis unfolding that(2) follows_def by auto
  qed
  have closed: ?thesis if "change_turn io ?e (lbs, s) = Some (Finish (lbs', v\<lparr>change_selection := - 1\<rparr>))"
    "react (In_Change i j) lbs a = Next (In_Sub i) lbs'" for lbs'
  proof -
    have "run io redraw (In_Change i j) lbs s = run io True (In_Sub i) lbs' (v\<lparr>change_selection := - 1\<rparr>)"
      unfolding run.simps by (subst loop_turn) (simp add: that(1))
    moreover have "menu_at io base V kq M (In_Sub i) as (v\<lparr>change_selection := - 1\<rparr>)"
      using uv(3) by (simp add: menu_at_def menu_change_def menu_quit_def)
    ultimately show ?thesis unfolding that(2) follows_def by auto
  qed
  have same: "v\<lparr>change_selection := j\<rparr> = v" using sel by simp
  show ?thesis
  proof (cases a)
    case KEYBOARD_ACTION_UP
    show ?thesis by (rule stay [of "menu_backward ?n j"]) (use j in \<open>simp_all add: turn KEYBOARD_ACTION_UP moved_def, auto simp: menu_forward_def menu_backward_def Let_def\<close>)
  next
    case KEYBOARD_ACTION_SHIFT_TAB
    show ?thesis by (rule stay [of "menu_backward ?n j"]) (use j in \<open>simp_all add: turn KEYBOARD_ACTION_SHIFT_TAB moved_def, auto simp: menu_forward_def menu_backward_def Let_def\<close>)
  next
    case KEYBOARD_ACTION_DOWN
    show ?thesis by (rule stay [of "menu_forward ?n j"]) (use j in \<open>simp_all add: turn KEYBOARD_ACTION_DOWN moved_def, auto simp: menu_forward_def menu_backward_def Let_def\<close>)
  next
    case KEYBOARD_ACTION_TAB
    show ?thesis by (rule stay [of "menu_forward ?n j"]) (use j in \<open>simp_all add: turn KEYBOARD_ACTION_TAB moved_def, auto simp: menu_forward_def menu_backward_def Let_def\<close>)
  next
    case KEYBOARD_ACTION_LEFT
    show ?thesis by (rule stay [of j]) (use j in \<open>simp_all add: turn same KEYBOARD_ACTION_LEFT moved_def\<close>)
  next
    case KEYBOARD_ACTION_RIGHT
    show ?thesis by (rule stay [of j]) (use j in \<open>simp_all add: turn same KEYBOARD_ACTION_RIGHT moved_def\<close>)
  next
    case KEYBOARD_ACTION_F10
    show ?thesis by (rule stay [of j]) (use j in \<open>simp_all add: turn same KEYBOARD_ACTION_F10 moved_def\<close>)
  next
    case KEYBOARD_ACTION_ESC
    show ?thesis by (rule closed) (simp_all add: turn KEYBOARD_ACTION_ESC moved_def)
  next
    case KEYBOARD_ACTION_ENTER
    show ?thesis by (rule closed) (simp_all add: turn KEYBOARD_ACTION_ENTER moved_def)
  qed
qed

lemma quit_follows:
  assumes "pc_bios io V kq" "menu_at io base V kq M (In_Quit f q) (a # as) s"
  shows "follows io base V kq M lbs as (react (In_Quit f q) lbs a) (run io redraw (In_Quit f q) lbs s)"
proof -
  obtain u v where uv: "draw_all io lbs None s = Some u" "get_input io None 0 u = Some (a, v)"
      "menu_at io base V kq M (In_Quit f q) as v"
    using menu_reads [OF assms] by blast
  have q: "q \<in> {0, 1}" and f: "f = In_Main \<or> (\<exists>i\<in>{0, 1, 2}. f = In_Sub i)" using assms(2) by (simp_all add: menu_at_def)
  have sel: "quit_menu_selection v = q" using uv(3) by (simp add: menu_at_def menu_quit_def)
  have n: "num_change_entries quit_menu_entry = 2" by (simp add: quit_menu_entry_def)
  note turn = quit_turn_def uv(1,2) sel n Let_def
  have steps: "menu_forward 2 q = (if q + 1 = 2 then 0 else q + 1)" "menu_backward 2 q = (if q = 0 then 1 else q - 1)"
    using q by (auto simp: menu_forward_def menu_backward_def)
  have stay: ?thesis if "quit_turn io lbs s = Some (Again (v\<lparr>quit_menu_selection := q'\<rparr>))"
    "react (In_Quit f q) lbs a = Next (In_Quit f q') lbs" "q' \<in> {0, 1}" for q'
  proof -
    have "run io redraw (In_Quit f q) lbs s = run io False (In_Quit f q') lbs (v\<lparr>quit_menu_selection := q'\<rparr>)"
      unfolding run.simps by (subst loop_turn) (simp add: that(1))
    moreover have "menu_at io base V kq M (In_Quit f q') as (v\<lparr>quit_menu_selection := q'\<rparr>)"
      using uv(3) that(3) by (simp add: menu_at_def menu_change_def menu_quit_def)
    ultimately show ?thesis unfolding that(2) follows_def by auto
  qed
  have same: "v\<lparr>quit_menu_selection := q\<rparr> = v" using sel by simp
  show ?thesis
  proof (cases a)
    case KEYBOARD_ACTION_UP
    show ?thesis by (rule stay [of "if q = 0 then 1 else q - 1"]) (use q in \<open>simp_all add: turn steps KEYBOARD_ACTION_UP moved_def, auto\<close>)
  next
    case KEYBOARD_ACTION_SHIFT_TAB
    show ?thesis by (rule stay [of "if q = 0 then 1 else q - 1"]) (use q in \<open>simp_all add: turn steps KEYBOARD_ACTION_SHIFT_TAB moved_def, auto\<close>)
  next
    case KEYBOARD_ACTION_DOWN
    show ?thesis by (rule stay [of "if q + 1 = 2 then 0 else q + 1"]) (use q in \<open>simp_all add: turn steps KEYBOARD_ACTION_DOWN moved_def, auto\<close>)
  next
    case KEYBOARD_ACTION_TAB
    show ?thesis by (rule stay [of "if q + 1 = 2 then 0 else q + 1"]) (use q in \<open>simp_all add: turn steps KEYBOARD_ACTION_TAB moved_def, auto\<close>)
  next
    case KEYBOARD_ACTION_LEFT
    show ?thesis by (rule stay [of q]) (use q in \<open>simp_all add: turn same KEYBOARD_ACTION_LEFT moved_def\<close>)
  next
    case KEYBOARD_ACTION_RIGHT
    show ?thesis by (rule stay [of q]) (use q in \<open>simp_all add: turn same KEYBOARD_ACTION_RIGHT moved_def\<close>)
  next
    case KEYBOARD_ACTION_F10
    show ?thesis by (rule stay [of q]) (use q in \<open>simp_all add: turn same KEYBOARD_ACTION_F10 moved_def\<close>)
  next
    case KEYBOARD_ACTION_ESC
    let ?v = "video io draw_background (v\<lparr>quit_menu_selection := - 1\<rparr>)"
    have "run io redraw (In_Quit f q) lbs s = run io False f lbs ?v"
      unfolding run.simps by (subst loop_turn) (use f in \<open>auto simp: turn KEYBOARD_ACTION_ESC\<close>)
    moreover have "menu_at io base V kq M f as ?v"
    proof (rule menu_at_video [OF assms(1)])
      show "menu_at io base V kq M f as (v\<lparr>quit_menu_selection := - 1\<rparr>)"
        using uv(3) f by (auto simp: menu_at_def menu_change_def menu_quit_def)
    qed
    ultimately show ?thesis unfolding follows_def by (auto simp: KEYBOARD_ACTION_ESC moved_def)
  next
    case KEYBOARD_ACTION_ENTER
    show ?thesis
    proof (cases "q = 0")
      case True
      have "run io redraw (In_Quit f q) lbs s = save_and_reboot io lbs v"
        unfolding run.simps
        by (subst loop_turn) (cases "llama_save_bios_settings io lbs v"; simp add: turn KEYBOARD_ACTION_ENTER True save_and_reboot_def reboot_def)
      then show ?thesis using uv(3) True by (auto simp: follows_def menu_at_def KEYBOARD_ACTION_ENTER moved_def)
    next
      case False
      have "run io redraw (In_Quit f q) lbs s = Some (Reboot v)"
        unfolding run.simps by (subst loop_turn) (simp add: turn KEYBOARD_ACTION_ENTER False reboot_def)
      then show ?thesis using uv(3) False by (auto simp: follows_def menu_at_def KEYBOARD_ACTION_ENTER moved_def)
    qed
  qed
qed

lemma action_follows:
  assumes "pc_bios io V kq" "menu_at io base V kq M f (a # as) s"
  shows "follows io base V kq M lbs as (react f lbs a) (run io redraw f lbs s)"
proof (cases f)
  case In_Main
  show ?thesis unfolding In_Main by (rule main_follows [OF assms(1) assms(2) [unfolded In_Main]])
next
  case (In_Sub i)
  show ?thesis unfolding In_Sub by (rule sub_follows [OF assms(1) assms(2) [unfolded In_Sub]])
next
  case (In_Change i j)
  show ?thesis unfolding In_Change by (rule change_follows [OF assms(1) assms(2) [unfolded In_Change]])
next
  case (In_Quit g q)
  show ?thesis unfolding In_Quit by (rule quit_follows [OF assms(1) assms(2) [unfolded In_Quit]])
qed

lemma save_and_reboot_saves:
  assumes "spi_ok io base V s" "settings_valid lbs"
  shows "\<exists>s'. save_and_reboot io lbs s = Some (Reboot s') \<and> flash_of V s' = saved_flash lbs (flash_of V s)"
  using spi.save_spec [OF assms]
  by (auto simp: save_and_reboot_def llama_save_bios_settings_def reboot_def)

text \<open>All actions.\<close>

lemma run_dialogue:
  assumes "pc_bios io V kq" "menu_at io base V kq M f as s" "settings_valid lbs" "dialogue f lbs as = Some oc"
  shows "\<exists>s'. run io redraw f lbs s = Some (Reboot s') \<and>
    flash_of V s' = (case oc of None \<Rightarrow> M | Some lbs' \<Rightarrow> saved_flash lbs' M)"
  using assms(2-)
proof (induction as arbitrary: f lbs s redraw)
  case (Cons a as)
  note step = action_follows [OF assms(1) Cons.prems(1), of lbs redraw, unfolded follows_def]
  show ?case
  proof (cases "react f lbs a")
    case (Next f' lbs')
    then obtain redraw' t where t: "run io redraw f lbs s = run io redraw' f' lbs' t" "menu_at io base V kq M f' as t"
      using step by auto
    have "valid_focus f" using Cons.prems(1) by (simp add: menu_at_def)
    then have "settings_valid lbs'" by (rule react_settings [OF _ Next Cons.prems(2)])
    then show ?thesis unfolding t(1) by (rule Cons.IH [OF t(2)]) (use Cons.prems(3) Next in simp)
  next
    case Save
    then obtain t where t: "spi_ok io base V t" "flash_of V t = M" "run io redraw f lbs s = save_and_reboot io lbs t"
      using step by auto
    then show ?thesis using save_and_reboot_saves [OF t(1) Cons.prems(2)] Cons.prems(3) Save by auto
  qed (use step Cons.prems(3) in auto)
qed simp

text \<open>The call of the menu, in the state in which it is entered.\<close>

definition menu_start :: "('w, 'z) menu_mach_scheme \<Rightarrow> bool" where
  "menu_start s \<longleftrightarrow> main_menu_selection s = 0 \<and> submenu_selection s = - 1 \<and> change_selection s = - 1 \<and>
     quit_menu_selection s = - 1"

lemma quiet_entry:
  assumes "pc_bios io V kq" "kq (wd s) = ks"
  shows "\<exists>t. quiet V kq ks s t \<and> llama_bios_menu io lbs s = loop (main_menu_turn io) (lbs, t)"
  unfolding llama_bios_menu_def main_menu_loop_def load_custom_fonts_def Let_def
  by (rule exI, rule conjI [rotated], rule refl)
    (intro quiet_video [OF assms(1)] quiet_call16 [OF assms(1)] quiet_refl assms(2))

lemma menu_dialogue:
  assumes "spi_ok io base V s" "pc_bios io V kq" "menu_start s" "settings_valid lbs"
    and "dialogue In_Main lbs (actions (kq (wd s))) = Some oc"
  shows "\<exists>s'. llama_bios_menu io lbs s = Some (Reboot s') \<and>
    flash_of V s' = (case oc of None \<Rightarrow> flash_of V s | Some lbs' \<Rightarrow> saved_flash lbs' (flash_of V s))"
proof -
  have start: "menu_at io base V kq (flash_of V s) In_Main (actions (kq (wd s))) s"
    using assms(1,3) by (simp add: menu_at_def menu_start_def menu_change_def menu_quit_def)
  obtain t where t: "quiet V kq (kq (wd s)) s t" "llama_bios_menu io lbs s = run io True In_Main lbs t"
    using quiet_entry [OF assms(2) refl, of s lbs] by (auto simp: run_main_def)
  show ?thesis unfolding t(2) by (rule run_dialogue [OF assms(2) menu_at_quiet [OF start t(1) refl] assms(4,5)])
qed

text \<open>A turn that moves on to the next page.\<close>

lemma main_turn_down:
  assumes "pc_bios io V kq" "menu_at io base V kq M In_Main (KEYBOARD_ACTION_DOWN # as) s"
  shows "\<exists>t. main_menu_turn io (lbs, s) = Some (Again (lbs, t))"
proof -
  let ?s = "video io (clear_area 6 43 36 11 @ clear_area 21 1 78 3) s"
  obtain u v where uv: "draw_all io lbs None ?s = Some u" "get_input io None 1 u = Some (KEYBOARD_ACTION_DOWN, v)"
      "menu_at io base V kq M In_Main (KEYBOARD_ACTION_DOWN # as) u"
    using menu_reads [OF assms(1) menu_at_video [OF assms]] by blast
  have m: "main_menu_selection u = 0" using uv(3) by (simp add: menu_at_def)
  have l: "update_loop (cpu_menu io) = None" by (simp add: cpu_menu_def)
  show ?thesis by (simp add: main_menu_turn_def uv(1,2) m l cpu_page Let_def)
qed

section \<open>A simulated board with a keyboard\<close>

text \<open>
  The board of \<open>Spi_Chip\<close> with a keyboard buffer beside it: interrupt 16h reads the buffer, every other
  service leaves the registers as they are.
\<close>

definition keyboard_call :: "u8 \<Rightarrow> bregs \<Rightarrow> u16 list \<Rightarrow> bregs \<times> u16 list" where
  "keyboard_call nr br ks =
     (if nr \<noteq> 0x16 then (br, ks)
      else if br_ah br = 1 then (br\<lparr>br_flags := if ks = [] then F_ZF else 0\<rparr>, ks)
      else case ks of [] \<Rightarrow> (br, []) | k # ks' \<Rightarrow> (set_ax k br, ks'))"

definition pc_sim :: "(spi_world \<times> u16 list) io" where
  "pc_sim =
     \<lparr>io_inb = (\<lambda>port (w, ks). (fst (io_inb spi_sim port w), w, ks)),
      io_inl = (\<lambda>port (w, ks). (fst (io_inl spi_sim port w), w, ks)),
      io_outb = (\<lambda>v port (w, ks). (io_outb spi_sim v port w, ks)),
      io_outl = (\<lambda>v port (w, ks). (io_outl spi_sim v port w, ks)),
      io_rdtsc = (\<lambda>w. (0, w)), io_cr0 = (\<lambda>w. 0), io_setcr0 = (\<lambda>v w. w), io_wbinvd = (\<lambda>w. w),
      io_yield = (\<lambda>w. w), io_yield_toirq = (\<lambda>w. w), io_timer_counter = (\<lambda>w. 0),
      io_call16 = (\<lambda>nr br (w, ks). case keyboard_call nr br ks of (br', ks') \<Rightarrow> (br', w, ks'))\<rparr>"

definition pc_view :: "(spi_world \<times> u16 list) spi_view" where
  "pc_view =
     \<lparr>chip = fst \<circ> fst, tx_busy = (\<lambda>w. 0), rx_busy = (\<lambda>w. 0), busy = (\<lambda>w. 0),
      pci_latch = fst \<circ> snd \<circ> fst, pci_cfg = snd \<circ> snd \<circ> fst\<rparr>"

definition pc_mach :: "u16 list \<Rightarrow> (u32 \<Rightarrow> u8) \<Rightarrow> (spi_world \<times> u16 list) menu_mach" where
  "pc_mach ks m =
     \<lparr>TimerKHz = 0, TimerPort = 0, ShiftTSC = 0, TimerLast = 0, wd = (wd (sim_mach m), ks),
      reg_sb_c4 = 0, reg_nb_40 = 0, spi_ctrl_reg = 0, spi_base = 0, last_rpm_draw = 0,
      main_menu_selection = 0, submenu_selection = - 1, change_selection = - 1, quit_menu_selection = - 1\<rparr>"

lemma spi_board_pc: "spi_board pc_sim sim_base pc_view"
  using sim_clock
  by (auto simp: spi_board_def pci_config_ports_def pc_sim_def spi_sim_def pc_view_def same_chip_def
      same_cfg_def sim_outb_def sim_base_def Let_def)

lemma spi_ok_pc: "spi_ok pc_sim sim_base pc_view (pc_mach ks m)"
  using spi_board_pc
  by (simp add: spi_ok_def idle_def idle_chip_def pc_view_def pc_mach_def sim_mach_def sim_base_def
      chip_id_of_def get_flash_info_def flash_info_table_def)

lemma pc_bios_pc: "pc_bios pc_sim pc_view snd"
  by (auto simp: pc_bios_def pc_sim_def pc_view_def keyboard_call_def same_chip_def same_cfg_def
      split: list.splits)

lemma pc_start: "menu_start (pc_mach ks m)" "snd (wd (pc_mach ks m)) = ks"
    "flash_of pc_view (pc_mach ks m) = m"
  by (simp_all add: menu_start_def pc_mach_def flash_of_def pc_view_def sim_mach_def)

section \<open>Properties\<close>

text \<open>
  C4. F10 in the main menu saves: from the call of the menu on, whatever the video BIOS does, the
  menu is drawn, the key is read, the settings are written to the chip and the machine is reset; the chip
  then holds the image of the settings.
\<close>

theorem f10_saves:
  assumes "spi_ok io base V s" "pc_bios io V kq" "menu_start s" "settings_valid lbs" "kq (wd s) = [0x4400]"
  shows "\<exists>s'. llama_bios_menu io lbs s = Some (Reboot s') \<and> flash_of V s' = saved_flash lbs (flash_of V s)"
proof -
  have "dialogue In_Main lbs (actions (kq (wd s))) = Some (Some lbs)"
    unfolding assms(5) by (simp add: key_action_def Let_def)
  from menu_dialogue [OF assms(1-4) this] show ?thesis by simp
qed

theorem f10_saves_witness:
  "\<exists>s'. llama_bios_menu pc_sim llama_bios_settings_default (pc_mach [0x4400] (\<lambda>_. 0)) = Some (Reboot s') \<and>
     flash_of pc_view s' = saved_flash llama_bios_settings_default (\<lambda>_. 0)"
  using f10_saves [OF spi_ok_pc pc_bios_pc pc_start(1) settings_valid_default pc_start(2), of "\<lambda>_. 0"]
  by (simp add: pc_start)

text \<open>
  C5. The setup menu writes what it was asked to and nothing else. While the page of the processor is selected, whatever keys are
  typed in the menu, in the page, in its lists of values and in the quit menu, in any order, the run of the menu ends as \<open>dialogue\<close>
  says: it saves, to the byte, the settings with the values that were chosen with Enter, or it leaves the chip as it was. The chip is
  written only when F10 is pressed outside of a list, or Enter on the first entry of the quit menu; ESC closes a list or the quit menu,
  leaves the menu when nothing was changed, and asks when something was. Without F10 and Enter the chip stays as it was.
\<close>

theorem esc_asks:
  assumes "spi_ok io base V s" "pc_bios io V kq" "menu_start s" "settings_valid lbs"
    and "dialogue In_Main lbs (actions (kq (wd s))) = Some oc"
  shows "\<exists>s'. llama_bios_menu io lbs s = Some (Reboot s') \<and>
    flash_of V s' = (case oc of None \<Rightarrow> flash_of V s | Some lbs' \<Rightarrow> saved_flash lbs' (flash_of V s)) \<and>
    (KEYBOARD_ACTION_F10 \<notin> set (actions (kq (wd s))) \<and> KEYBOARD_ACTION_ENTER \<notin> set (actions (kq (wd s))) \<longrightarrow>
       flash_of V s' = flash_of V s)"
  using menu_dialogue [OF assms] unasked [OF _ _ assms(5)] by (auto split: option.splits)

text \<open>
  Right, Enter, Down, Enter: the second frequency is chosen. ESC: the quit menu asks. ESC, ESC: it is closed and opened again. Down,
  Enter: the menu is left without saving.
\<close>

theorem esc_asks_witness:
  "\<exists>s'. llama_bios_menu pc_sim llama_bios_settings_default
       (pc_mach [0x4D00, 0x1C0D, 0x5000, 0x1C0D, 0x011B, 0x011B, 0x011B, 0x5000, 0x1C0D] (\<lambda>_. 7)) = Some (Reboot s') \<and>
     flash_of pc_view s' = (\<lambda>_. 7)"
proof -
  let ?ks = "[0x4D00, 0x1C0D, 0x5000, 0x1C0D, 0x011B, 0x011B, 0x011B, 0x5000, 0x1C0D] :: u16 list"
  have "actions ?ks = [KEYBOARD_ACTION_RIGHT, KEYBOARD_ACTION_ENTER, KEYBOARD_ACTION_DOWN, KEYBOARD_ACTION_ENTER,
      KEYBOARD_ACTION_ESC, KEYBOARD_ACTION_ESC, KEYBOARD_ACTION_ESC, KEYBOARD_ACTION_DOWN, KEYBOARD_ACTION_ENTER]"
    by (simp add: key_action_def Let_def)
  then have "dialogue In_Main llama_bios_settings_default (actions (snd (wd (pc_mach ?ks (\<lambda>_. 7))))) = Some None"
    by (simp add: pc_start moved_def ask_def cpu_values_def cpu_value_def cpu_choose_def llama_bios_settings_default_def)
  from esc_asks [OF spi_ok_pc pc_bios_pc pc_start(1) settings_valid_default this]
  show ?thesis unfolding pc_start option.case by blast
qed

end
