(* ===== verification/Menu_Facts.thy ===== *)
theory Menu_Facts
  imports Menu I2c Handlers Leds
begin

text \<open>
  What holds of the whole setup menu: its tables are consistent with each other and with the handlers'
  settings, the search for the current value finds it, the movement over entries that cannot be selected
  ends in range, and the menu is left by a reset only.
\<close>

section \<open>The tables\<close>

text \<open>
  An entry either offers choices, with distinct values, or asks for a number; it has the functions to read and
  write the value it shows. A menu fills at most the ten places of its array, and its first entry can
  always be selected.
\<close>

definition choices_ok :: "change_entry list \<Rightarrow> int \<Rightarrow> bool" where
  "choices_ok es n \<longleftrightarrow> n = int (length es) \<and> length es \<le> 10 \<and> distinct (map ce_value es)"

definition submenu_ok :: "'s submenu_entry \<Rightarrow> bool" where
  "submenu_ok e \<longleftrightarrow> choices_ok (change_entries_init e) (num_change_entries e) \<and>
     (if get_input_value e = None
      then change_entries_init e \<noteq> [] \<and> get_selection_value e \<noteq> None \<and> set_selection_value e \<noteq> None
      else change_entries_init e = [] \<and> set_input_value e \<noteq> None \<and> input_unit e \<noteq> '''')"

definition menu_ok :: "'s main_menu_entry \<Rightarrow> bool" where
  "menu_ok m \<longleftrightarrow> num_submenus m = int (length (submenus_init m)) \<and> submenus_init m \<noteq> [] \<and>
     length (submenus_init m) \<le> 10 \<and> list_all submenu_ok (submenus_init m) \<and>
     get_enabled (submenus_init m ! 0) = None"

lemmas menu_defs = cpu_menu_def disk_menu_def com_menu_def audio_menu_def ethernet_menu_def fan_menu_def
  misc_menu_def

lemma main_menus_ok [simp]:
  "menu_ok (cpu_menu io)" "menu_ok (disk_menu io)" "menu_ok (com_menu io)" "menu_ok (audio_menu io)"
  "menu_ok (ethernet_menu io)" "menu_ok (fan_menu io)" "menu_ok (misc_menu io)"
  by (simp_all add: menu_defs menu_ok_def submenu_ok_def choices_ok_def)

lemma menu_okD:
  assumes "menu_ok m" "0 \<le> i" "i < num_submenus m"
  shows "arr_get (submenus m) i = Some (submenus_init m ! nat i)" "nat i < length (submenus_init m)"
    "submenu_ok (submenus_init m ! nat i)"
  using assms by (auto simp: menu_ok_def arr_get_def submenus_def padded_def nth_append list_all_length)

lemma misc_menu_entry: "misc_menu io \<in> set (main_menu_entries io)" "num_submenus (misc_menu io) = 4"
  by (simp_all add: main_menu_entries_def misc_menu_def)

section \<open>The current choice\<close>

lemma index_from_nth:
  "distinct (map ce_value es) \<Longrightarrow> i < length es \<Longrightarrow> index_from k es (ce_value (es ! i)) = k + int i"
proof (induction es arbitrary: k i)
  case (Cons e es)
  then show ?case by (cases i) (auto simp: nth_Cons' dest: nth_mem)
qed simp

lemma get_index_choice:
  assumes "choices_ok (change_entries_init e) (num_change_entries e)" "i < length (change_entries_init e)"
  shows "get_index (change_entries e) (num_change_entries e) (ce_value (change_entries e ! i)) = int i"
proof -
  have "take (nat (num_change_entries e)) (change_entries e) = change_entries_init e"
    using assms(1) by (simp add: choices_ok_def change_entries_def padded_def)
  moreover have "change_entries e ! i = change_entries_init e ! i"
    using assms by (simp add: choices_ok_def change_entries_def padded_def nth_append)
  ultimately show ?thesis
    using assms index_from_nth [of "change_entries_init e" i 0] by (simp add: get_index_def choices_ok_def)
qed

section \<open>Moving over entries that cannot be selected\<close>

text \<open>\<open>steps\<close> describes a direction: modulo the number of entries it adds \<open>\<delta>\<close>.\<close>

definition steps :: "(int \<Rightarrow> int \<Rightarrow> int) \<Rightarrow> int \<Rightarrow> bool" where
  "steps move \<delta> \<longleftrightarrow> (\<forall>n c. 0 \<le> c \<and> c < n \<longrightarrow> move n c = (c + \<delta>) mod n)"

lemma steps_forward: "steps menu_forward 1"
  by (auto simp: steps_def menu_forward_def Let_def)

lemma steps_backward: "steps menu_backward (- 1)"
proof -
  have "menu_backward n c = (c - 1) mod n" if "0 \<le> c" "c < n" for n c
    using that by (cases "c = 0") (auto simp: menu_backward_def Let_def zmod_minus1)
  then show ?thesis by (simp add: steps_def)
qed

lemma move_submenu_ends:
  assumes "steps move \<delta>" "menu_ok m" "0 \<le> sel" "sel < num_submenus m" "P s"
    and enabled: "\<And>i s. i < length (submenus_init m) \<Longrightarrow> P s \<Longrightarrow>
      returns (\<lambda>(ok, s). P s) (can_select (submenus_init m ! i) lbs s)"
  shows "returns (\<lambda>(sel', s). 0 \<le> sel' \<and> sel' < num_submenus m \<and> P s) (move_submenu move m lbs sel s)"
proof -
  let ?n = "num_submenus m"
  have n: "0 < ?n" using assms(3,4) by linarith
  have "returns (\<lambda>(sel', s). 0 \<le> sel' \<and> sel' < ?n \<and> P s)
      (loop (skip_turn move m lbs sel) ((sel - \<delta> * int d) mod ?n, s))" if "P s" for d s
    using that
  proof (induction d arbitrary: s)
    case 0
    then show ?case
      using assms(2-4) menu_okD(1) [OF assms(2-4)]
      by (simp add: loop_unfold_Finish skip_turn_def returns_def)
  next
    case (Suc d)
    let ?c = "(sel - \<delta> * int (Suc d)) mod ?n"
    have c: "0 \<le> ?c" "?c < ?n" using n by simp_all
    show ?case
    proof (cases "?c = sel")
      case True
      then show ?thesis
        using assms(3,4) menu_okD(1) [OF assms(2) c] Suc.prems
        by (simp add: loop_unfold_Finish skip_turn_def returns_def)
    next
      case False
      obtain ok s' where can: "can_select (submenus_init m ! nat ?c) lbs s = Some (ok, s')" "P s'"
        using enabled [OF menu_okD(2) [OF assms(2) c] Suc.prems] by (auto simp: returns_def)
      have "(?c + \<delta>) mod ?n = (sel - \<delta> * int d) mod ?n"
        by (simp add: mod_simps algebra_simps)
      then have turn: "move ?n ?c = (sel - \<delta> * int d) mod ?n"
        using assms(1) c by (simp add: steps_def)
      show ?thesis
      proof (cases ok)
        case True
        then show ?thesis
          using can c False menu_okD(1) [OF assms(2) c]
          by (simp add: loop_unfold_Finish skip_turn_def returns_def)
      next
        case no: False
        then have "skip_turn move m lbs sel (?c, s) = Some (Again ((sel - \<delta> * int d) mod ?n, s'))"
          using can False menu_okD(1) [OF assms(2) c] turn by (simp add: skip_turn_def)
        then show ?thesis using Suc.IH [OF can(2)] by (simp add: loop_unfold_Again)
      qed
    qed
  qed
  note walk = this [OF assms(5), of "nat (?n - 1)"]
  have "(sel - \<delta> * int (nat (?n - 1))) mod ?n = (sel + \<delta> - \<delta> * ?n) mod ?n"
    using n by (simp add: algebra_simps)
  also have "\<dots> = (sel + \<delta>) mod ?n" using mod_mult_self2 [of "sel + \<delta>" "?n" "- \<delta>"] by (simp add: algebra_simps)
  also have "\<dots> = move ?n sel" using assms(1,3,4) by (simp add: steps_def)
  finally show ?thesis using walk by (simp add: move_submenu_def)
qed

lemma leds_enabled_returns:
  assumes "tsc_timer io cyc k s"
  shows "returns (\<lambda>(v, s). tsc_timer io cyc k s) (leds_enabled io lbs s)"
  using tsc.leds_get_reg_byte_returns [OF assms, of LEDS_LED_ENABLED_REG]
  by (auto simp: leds_enabled_def handler_get_leds_enabled_def llama_get_leds_enabled_def returns_def)

text \<open>Every entry of the menus can be asked whether it can be selected.\<close>

definition askable :: "llama_bios_settings \<Rightarrow> ('s \<Rightarrow> bool) \<Rightarrow> 's main_menu_entry \<Rightarrow> bool" where
  "askable lbs P m \<longleftrightarrow> (\<forall>e\<in>set (submenus_init m). \<forall>s. P s \<longrightarrow> returns (\<lambda>(ok, s). P s) (can_select e lbs s))"

lemma menus_askable:
  assumes "m \<in> set (main_menu_entries io)"
  shows "askable lbs (tsc_timer io cyc k) m"
proof -
  have "returns (\<lambda>(ok, s). tsc_timer io cyc k s) (can_select e lbs s)"
    if "get_enabled e \<in> {None, Some ext_fm_present, Some (leds_enabled io)}" "tsc_timer io cyc k s" for e s
    using that(1)
  proof (elim insertE emptyE)
    assume "get_enabled e = Some (leds_enabled io)"
    then show ?thesis
      using leds_enabled_returns [OF that(2), of lbs] by (auto simp: can_select_def returns_def)
  qed (use that(2) in \<open>auto simp: can_select_def returns_def ext_fm_present_def\<close>)
  moreover have "\<forall>e\<in>set (submenus_init m). get_enabled e \<in> {None, Some ext_fm_present, Some (leds_enabled io)}"
    using assms by (auto simp: main_menu_entries_def menu_defs)
  ultimately show ?thesis unfolding askable_def by blast
qed

section \<open>Properties\<close>

text \<open>
  The tables of the setup menu are consistent: every count is the number of entries that the table lists
  and fits the array of ten; the choices of an option have distinct values; every option has the functions that the
  menu calls for it, and the first option of each menu can always be selected.
\<close>

theorem menu_tables_consistent:
  "length (main_menu_entries io) = nat NUM_MAIN_MENU_ENTRIES \<and> list_all menu_ok (main_menu_entries io)"
  by (simp add: main_menu_entries_def)

text \<open>
  The list of choices opens on the current value: for every choice of every option of the setup menu, the search
  for its value ends at that choice.
\<close>

theorem choice_found:
  assumes "m < length (main_menu_entries io)" "main = main_menu_entries io ! m"
    and "e < length (submenus_init main)" "sub = submenus_init main ! e"
    and "i < length (change_entries_init sub)"
  shows "get_index (change_entries sub) (num_change_entries sub) (ce_value (change_entries sub ! i)) = int i"
proof -
  have "menu_ok main" using assms(1,2) by (auto simp: main_menu_entries_def less_Suc_eq)
  then have "submenu_ok sub" using assms(3,4) by (auto simp: menu_ok_def list_all_length)
  then show ?thesis using get_index_choice assms(5) by (auto simp: submenu_ok_def)
qed

theorem choice_found_witness:
  "get_index (change_entries (submenus_init (misc_menu clock_sim) ! 2)) 6 64 = 2"
  using choice_found [of 6 clock_sim "misc_menu clock_sim" 2 "submenus_init (misc_menu clock_sim) ! 2" 2]
  by (simp add: main_menu_entries_def misc_menu_def change_entries_def padded_def)

text \<open>
  Moving the selection of a submenu ends, whatever the LED controller answers: the selection comes to an
  entry of the menu, in both directions, from every menu and every entry.
\<close>

theorem selection_moves:
  assumes "tsc_timer io cyc k s" "m \<in> set (main_menu_entries io)" "0 \<le> sel" "sel < num_submenus m"
  shows "(\<exists>sel' s'. move_submenu menu_forward m lbs sel s = Some (sel', s') \<and>
      0 \<le> sel' \<and> sel' < num_submenus m \<and> tsc_timer io cyc k s') \<and>
    (\<exists>sel' s'. move_submenu menu_backward m lbs sel s = Some (sel', s') \<and>
      0 \<le> sel' \<and> sel' < num_submenus m \<and> tsc_timer io cyc k s')"
proof -
  have "menu_ok m" using assms(2) by (auto simp: main_menu_entries_def)
  then have "returns (\<lambda>(sel', s). 0 \<le> sel' \<and> sel' < num_submenus m \<and> tsc_timer io cyc k s)
      (move_submenu move m lbs sel s)" if "steps move \<delta>" for move \<delta>
    using assms menus_askable [OF assms(2)]
    by (intro move_submenu_ends [where P = "tsc_timer io cyc k", OF that]) (simp_all add: askable_def)
  from this [OF steps_forward] this [OF steps_backward] show ?thesis
    by (auto simp: returns_def)
qed

theorem selection_moves_witness:
  "\<exists>sel s'. move_submenu menu_forward (misc_menu clock_sim) llama_bios_settings_default 1
     \<lparr>TimerKHz = 5000, TimerPort = 0, ShiftTSC = 5, TimerLast = 0, wd = 0,
      reg_sb_c4 = 0, reg_nb_40 = 0, spi_ctrl_reg = 0, spi_base = 0, last_rpm_draw = 0\<rparr> = Some (sel, s') \<and>
     0 \<le> sel \<and> sel < 4"
proof -
  let ?s = "\<lparr>TimerKHz = 5000, TimerPort = 0, ShiftTSC = 5, TimerLast = 0, wd = 0 :: nat,
      reg_sb_c4 = 0, reg_nb_40 = 0, spi_ctrl_reg = 0, spi_base = 0, last_rpm_draw = 0\<rparr>"
  have "tsc_timer clock_sim id 5 ?s" by (simp add: tsc_timer_def clock_sim_tsc KHZ_MAX_def)
  then show ?thesis
    using selection_moves [of clock_sim id 5 ?s "misc_menu clock_sim" 1 llama_bios_settings_default]
    by (simp add: misc_menu_entry) blast
qed

text \<open>
  The setup menu is left by a reset only: whatever keys come, \<open>llama_bios_menu\<close> does not come back to
  its caller.
\<close>

theorem menu_resets: "llama_bios_menu io lbs s \<noteq> Some (Return lbs' s')"
proof
  assume "llama_bios_menu io lbs s = Some (Return lbs' s')"
  then obtain x where run: "loop (main_menu_turn io) x = Some (Return lbs' s')"
    by (auto simp: llama_bios_menu_def main_menu_loop_def Let_def)
  have reset: "\<exists>s''. z = Reboot s''" if "main_menu_turn io x = Some (Finish z)" for x z
    using that
    by (cases x)
      (auto simp: main_menu_turn_def save_and_reboot_def reboot_def Let_def bind_eq_Some_conv
          split: keyboard_action.splits menu_exit.splits; metis keyboard_action.exhaust menu_exit.exhaust)
  have "\<exists>s''. Return lbs' s' = Reboot s''"
    by (rule loop_invariant [where I = "\<lambda>_. True" and Q = "\<lambda>z. \<exists>s. z = Reboot s", OF run])
      (use reset in blast)+
  then show False by simp
qed

end
