(* ===== verification/Menu_Invariant.thy ===== *)
theory Menu_Invariant
  imports Menu_Facts Menu_Exit
begin

text \<open>
  The invariant of the settings while the setup menu runs: whatever is chosen or typed, the settings
  stay ones that \<open>llama_save_bios_settings\<close> can write, \<open>settings_valid\<close>. The table indices it looks up are those
  the menu offers.
\<close>

section \<open>The setters\<close>

abbreviation lbs_valid :: "llama_bios_settings \<times> 's \<Rightarrow> bool" where
  "lbs_valid r \<equiv> settings_valid (fst r)"

definition setter_keeps :: "(llama_bios_settings \<Rightarrow> u16 \<Rightarrow> 's \<Rightarrow> (llama_bios_settings \<times> 's) option) \<Rightarrow>
    u16 set \<Rightarrow> bool" where
  "setter_keeps f vs \<longleftrightarrow>
     (\<forall>v\<in>vs. \<forall>lbs s. settings_valid lbs \<longrightarrow> yields lbs_valid (f lbs v s))"

text \<open>What the menu may do with an option: choose one of its values, or enter any number.\<close>

definition keeps_valid :: "'s submenu_entry \<Rightarrow> bool" where
  "keeps_valid e \<longleftrightarrow>
     (case set_selection_value e of None \<Rightarrow> True | Some f \<Rightarrow> setter_keeps f (ce_value ` set (change_entries e))) \<and>
     (case set_input_value e of None \<Rightarrow> True | Some f \<Rightarrow> setter_keeps f UNIV)"

lemmas valid_defs = settings_valid_def settings_layout_def set_setting_def

lemma setters_keep [simp]:
  "setter_keeps (handler_set_l1_cache io) vs" "setter_keeps (handler_set_l2_cache io) vs"
  "setter_keeps (handler_set_boot_order_index io) vs" "setter_keeps (handler_set_usb_as_fixed_disks io) vs"
  "setter_keeps (handler_set_com1_base_clock_index io) vs" "setter_keeps (handler_set_com2_base_clock_index io) vs"
  "setter_keeps (handler_set_cs4237_wss_port io) vs" "setter_keeps (handler_set_cs4237_syn_port io) vs"
  "setter_keeps (handler_set_cs4237_sb_port io) vs" "setter_keeps (handler_set_cs4237_gamepad_port io) vs"
  "setter_keeps (handler_set_cs4237_mpu_port io) vs" "setter_keeps (handler_set_cs4237_ext_fm io) vs"
  "setter_keeps (handler_set_cs4237_digital io) vs" "setter_keeps (handler_set_boot_tune_index io) vs"
  by (simp_all add: setter_keeps_def setter_defs valid_defs)

lemma hardware_setters_keep [simp]:
  "setter_keeps (handler_set_leds_enabled io) vs" "setter_keeps (handler_set_leds_intensity io) vs"
  "setter_keeps (handler_set_click_enabled io) vs"
  by (auto simp: setter_keeps_def handler_set_leds_enabled_def handler_set_leds_intensity_def
      handler_set_click_enabled_def intro!: yields_bind)

lemma fan_setters_keep [simp]:
  "setter_keeps (handler_set_fan1_target_rpm io) vs" "setter_keeps (handler_set_fan2_target_rpm io) vs"
  "setter_keeps (handler_set_fan3_target_rpm io) vs"
  by (auto simp: setter_keeps_def handler_set_fan1_target_rpm_def handler_set_fan2_target_rpm_def
      handler_set_fan3_target_rpm_def set_fan_setting_def valid_defs intro!: yields_bind)

lemma index_setters_keep [simp]:
  "\<forall>v\<in>vs. lo8 v < 6 \<Longrightarrow> setter_keeps (handler_set_cpu_freq_index io) vs"
  "\<forall>v\<in>vs. lo8 v < 6 \<Longrightarrow> setter_keeps (handler_set_mac_address_index io) vs"
  by (auto simp: setter_keeps_def setter_defs valid_defs)

lemma set_padded:
  "length xs \<le> n \<Longrightarrow> set (padded n z xs) = set xs \<union> (if length xs < n then {z} else {})"
  by (auto simp: padded_def)

lemma menus_keep_valid:
  assumes "m \<in> set (main_menu_entries io)" "e \<in> set (submenus m)"
  shows "keeps_valid e"
proof -
  have "list_all keeps_valid (submenu_zero # submenus_init m)"
    using assms(1)
    by (auto simp: main_menu_entries_def menu_defs keeps_valid_def submenu_zero_def change_entries_def set_padded)
  moreover have "set (submenus m) \<subseteq> set (submenu_zero # submenus_init m)"
    by (auto simp: submenus_def padded_def dest!: in_set_takeD)
  ultimately show ?thesis using assms(2) by (auto simp: list_all_iff)
qed

section \<open>The loops\<close>

lemma call_setter:
  "keeps_valid e \<Longrightarrow> ce \<in> set (change_entries e) \<Longrightarrow> settings_valid lbs \<Longrightarrow>
    yields lbs_valid (call_ptr (set_selection_value e) (\<lambda>set. set lbs (ce_value ce) s))"
  "keeps_valid e \<Longrightarrow> settings_valid lbs \<Longrightarrow>
    yields lbs_valid (call_ptr (set_input_value e) (\<lambda>set. set lbs v s))"
  by (simp_all add: keeps_valid_def setter_keeps_def call_ptr_def split: option.splits)

lemma change_turn_valid:
  assumes "keeps_valid e" "lbs_valid x"
  shows "yields (case_turn lbs_valid lbs_valid) (change_turn io e x)"
proof -
  obtain lbs s where x: "x = (lbs, s)" by fastforce
  have "yields (case_turn lbs_valid lbs_valid)
      (Option.bind (call_ptr (set_selection_value e) (\<lambda>set. set lbs (ce_value ce) s))
         (\<lambda>(lbs, s). Some (Finish (lbs, s\<lparr>change_selection := - 1\<rparr>))))"
    if "ce \<in> set (change_entries e)" for ce s
    by (rule yields_bind_of [OF call_setter(1) [OF assms(1) that]]) (use assms(2) in \<open>auto simp: x\<close>)
  then show ?thesis
    using assms(2) unfolding change_turn_def x Let_def prod.case
    by (intro yields_bind yields_bind_of [OF arr_get_yields]) (auto split: keyboard_action.split)
qed

lemma change_loop_valid:
  assumes "settings_valid lbs"
  shows "yields lbs_valid (change_loop io lbs s)"
proof -
  have "yields lbs_valid (loop (change_turn io e) (lbs, t))" if "keeps_valid e" for e t
    by (rule yields_loop [where I = lbs_valid]) (use assms change_turn_valid [OF that] in auto)
  then show ?thesis
    unfolding change_loop_def Let_def
    by (intro yields_bind_of [OF arr_get_yields] yields_bind)
      (auto dest: menus_keep_valid)
qed

lemma input_turn_valid:
  assumes "keeps_valid e" "settings_valid lbs"
  shows "yields (case_turn (\<lambda>_. True) lbs_valid) (input_turn io e lbs x)"
proof -
  have "settings_valid lbs'" if "call_ptr (set_input_value e) (\<lambda>set. set lbs v s) = Some (lbs', s')" for v s lbs' s'
    using yieldsD [OF call_setter(2) [OF assms] that] by simp
  then show ?thesis
    using assms(2) unfolding input_turn_def Let_def
    by (cases x) (auto intro!: yields_bind)
qed

lemma input_loop_valid:
  assumes "keeps_valid e" "settings_valid lbs"
  shows "yields lbs_valid (input_loop io e lbs s)"
proof -
  have "yields lbs_valid (loop (input_turn io e lbs) t)" for t
    by (rule yields_loop [where I = "\<lambda>_. True"]) (use input_turn_valid [OF assms] in auto)
  then show ?thesis unfolding input_loop_def by (auto intro!: yields_bind)
qed

text \<open>Where the settings are handed on: with the next turn of a loop, or with the return to the caller.\<close>

definition exit_valid :: "'s menu_exit \<Rightarrow> bool" where
  "exit_valid r \<longleftrightarrow> (case r of Return lbs s \<Rightarrow> settings_valid lbs | Reboot s \<Rightarrow> True)"

lemma exit_valid_simps [simp]: "exit_valid (Return lbs s) = settings_valid lbs" "exit_valid (Reboot s)"
  by (simp_all add: exit_valid_def)

lemma save_and_reboot_exit: "yields exit_valid (save_and_reboot io lbs s)"
  by (auto simp: save_and_reboot_def reboot_def intro!: yields_bind)

lemma quit_menu_loop_valid:
  assumes "settings_valid lbs"
  shows "yields exit_valid (quit_menu_loop io lbs s)"
proof -
  have "yields (case_turn (\<lambda>_. True) exit_valid) (quit_turn io lbs x)" for x
    using assms save_and_reboot_exit unfolding quit_turn_def Let_def
    by (auto intro!: yields_bind simp: reboot_def split: keyboard_action.split)
  then show ?thesis
    unfolding quit_menu_loop_def by (intro yields_loop [where I = "\<lambda>_. True"]) auto
qed

lemma esc_pressed_valid:
  assumes "settings_valid lbs"
  shows "yields exit_valid (esc_pressed io lbs s)"
  unfolding esc_pressed_def
  by (auto simp: reboot_def intro!: yields_bind_of [OF quit_menu_loop_valid [OF assms]] split: menu_exit.split)

abbreviation sub_valid :: "'s sub_state \<Rightarrow> bool" where
  "sub_valid r \<equiv> settings_valid (fst (snd r))"

lemma enter_valid:
  assumes "m \<in> set (main_menu_entries io)" "settings_valid lbs"
  shows "yields (case_turn sub_valid exit_valid)
    (do {
       e \<leftarrow> arr_get (submenus m) i;
       (ok, s) \<leftarrow> can_select e lbs s;
       if \<not> ok then Some (Again (False, lbs, s))
       else do {
         (lbs, s) \<leftarrow> (if get_input_value e \<noteq> None then input_loop io e lbs s else change_loop io lbs s);
         Some (Again (True, lbs, s))
       }
     })"
proof -
  have "yields (case_turn sub_valid exit_valid)
      (Option.bind (input_loop io e lbs s) (\<lambda>(lbs, s). Some (Again (True, lbs, s))))"
    and "yields (case_turn sub_valid exit_valid)
      (Option.bind (change_loop io lbs s) (\<lambda>(lbs, s). Some (Again (True, lbs, s))))"
    if "e \<in> set (submenus m)" for e s
    by (rule yields_bind_of [OF input_loop_valid [OF menus_keep_valid [OF assms(1) that] assms(2)]]
        yields_bind_of [OF change_loop_valid [OF assms(2)]]; auto)+
  then show ?thesis
    using assms(2) by (intro yields_bind_of [OF arr_get_yields] yields_bind) auto
qed

lemma submenu_turn_valid:
  assumes "sub_valid x"
  shows "yields (case_turn sub_valid exit_valid) (submenu_turn io x)"
proof -
  obtain b lbs s where x: "x = (b, lbs, s)" "settings_valid lbs" using assms by (cases x) auto
  have esc: "yields (case_turn sub_valid exit_valid)
      (do { r \<leftarrow> esc_pressed io lbs s;
            case r of Return lbs s \<Rightarrow> Some (Again (False, lbs, s)) | Reboot s \<Rightarrow> Some (Finish (Reboot s)) })" for s
    by (rule yields_bind_of [OF esc_pressed_valid [OF x(2)]]) (auto split: menu_exit.split)
  have move: "yields (case_turn sub_valid exit_valid)
      (do { (selection, s) \<leftarrow> move_submenu move m lbs i s; Some (Again (False, lbs, f selection s)) })" for move m i s f
    using x(2) by (auto intro!: yields_bind)
  show ?thesis
    unfolding submenu_turn_def x(1) Let_def prod.case
    by (intro yields_bind yields_bind_of [OF arr_get_yields])
      (use x(2) esc move enter_valid [OF _ x(2)] save_and_reboot_exit in \<open>auto split: keyboard_action.split\<close>)
qed

lemma submenu_loop_valid:
  assumes "settings_valid lbs"
  shows "yields exit_valid (submenu_loop io lbs s)"
  unfolding submenu_loop_def
  by (rule yields_loop [where I = sub_valid]) (use assms submenu_turn_valid in auto)

text \<open>
  C6. The setup menu never has settings that cannot be written: with every turn of its main loop, whatever keys
  come and whatever the devices answer, the offsets of the options stay those of the layout and the
  indices of the frequency and the MAC address stay within the tables.
\<close>

theorem menu_keeps_settings_valid:
  assumes "settings_valid lbs" "main_menu_turn io (lbs, s) = Some (Again (lbs', s'))"
  shows "settings_valid lbs'"
proof -
  have again: "yields (case_turn lbs_valid (\<lambda>_. True))
      (map_option (\<lambda>r. case r of Return lbs s \<Rightarrow> Again (lbs, s) | Reboot s \<Rightarrow> Finish (Reboot s)) m)"
    if "yields exit_valid m" for m
    using that by (auto intro: yields_mono split: menu_exit.split)
  have "yields (case_turn lbs_valid (\<lambda>_. True)) (main_menu_turn io (lbs, s))"
    unfolding main_menu_turn_def Let_def prod.case
    by (intro yields_bind)
      (use assms(1) again [OF submenu_loop_valid [OF assms(1)]] again [OF esc_pressed_valid [OF assms(1)]]
        in \<open>auto simp: save_and_reboot_def reboot_def intro!: yields_bind split: keyboard_action.split\<close>)
  from yieldsD [OF this assms(2)] show ?thesis by simp
qed

theorem menu_keeps_settings_valid_witness:
  "\<exists>s'. main_menu_turn pc_sim (llama_bios_settings_default, pc_mach [0x5000] (\<lambda>_. 0)) =
       Some (Again (llama_bios_settings_default, s')) \<and>
     settings_valid llama_bios_settings_default"
proof -
  have "menu_at pc_sim sim_base pc_view snd (\<lambda>_. 0) In_Main [KEYBOARD_ACTION_DOWN] (pc_mach [0x5000] (\<lambda>_. 0))"
    using spi_ok_pc [of "[0x5000]" "\<lambda>_. 0"] pc_start [of "[0x5000]" "\<lambda>_. 0"]
    by (simp add: menu_at_def menu_start_def menu_change_def menu_quit_def key_action_def Let_def)
  then obtain s' where s': "main_menu_turn pc_sim (llama_bios_settings_default, pc_mach [0x5000] (\<lambda>_. 0)) =
      Some (Again (llama_bios_settings_default, s'))"
    using main_turn_down [OF pc_bios_pc] by blast
  with menu_keeps_settings_valid [OF settings_valid_default s'] show ?thesis by blast
qed

end
