(* ===== verification/Cstring.thy ===== *)
theory Cstring
  imports Clock
begin

text \<open>
  The string and memory functions of \<open>seabios/src/string.c\<close>. The memory is an explicit store of bytes,
  so that overlapping regions are what they are for the code; lengths are \<open>size_t\<close> read as natural numbers.
  C strings are \<open>string\<close> values without the terminating NUL; \<open>char\<close> is signed, as for the compiler of the
  firmware.
\<close>

type_synonym mem = "u32 \<Rightarrow> u8"

section \<open>Memory\<close>

text \<open>\<open>checksum_far\<close> with the loop over the bytes of the area.\<close>

fun checksum_loop :: "mem \<Rightarrow> u32 \<Rightarrow> nat \<Rightarrow> u8 \<Rightarrow> u8" where
  "checksum_loop m buf 0 acc = acc"
| "checksum_loop m buf (Suc n) acc = checksum_loop m (buf + 1) n (acc + m buf)"

definition checksum :: "mem \<Rightarrow> u32 \<Rightarrow> nat \<Rightarrow> u8" where
  "checksum m buf len = checksum_loop m buf len 0"

fun memcmp :: "mem \<Rightarrow> u32 \<Rightarrow> u32 \<Rightarrow> nat \<Rightarrow> int" where
  "memcmp m s1 s2 0 = 0"
| "memcmp m s1 s2 (Suc n) =
     (if m s1 \<noteq> m s2 then (if m s1 < m s2 then - 1 else 1) else memcmp m (s1 + 1) (s2 + 1) n)"

fun memset :: "mem \<Rightarrow> u32 \<Rightarrow> u8 \<Rightarrow> nat \<Rightarrow> mem" where
  "memset m s c 0 = m"
| "memset m s c (Suc n) = memset (m(s + of_nat n := c)) s c n"

text \<open>The string instructions \<open>rep movsb\<close> and \<open>rep movsl\<close>, with the direction flag clear.\<close>

fun movsb :: "mem \<Rightarrow> u32 \<Rightarrow> u32 \<Rightarrow> nat \<Rightarrow> mem" where
  "movsb m d s 0 = m"
| "movsb m d s (Suc n) = movsb (m(d := m s)) (d + 1) (s + 1) n"

fun movsl :: "mem \<Rightarrow> u32 \<Rightarrow> u32 \<Rightarrow> nat \<Rightarrow> mem" where
  "movsl m d s 0 = m"
| "movsl m d s (Suc n) =
     movsl (m(d := m s, d + 1 := m (s + 1), d + 2 := m (s + 2), d + 3 := m (s + 3))) (d + 4) (s + 4) n"

definition memcpy :: "mem \<Rightarrow> u32 \<Rightarrow> u32 \<Rightarrow> nat \<Rightarrow> mem" where
  "memcpy m d s len =
     (if (d OR s OR of_nat len) AND 3 \<noteq> 0 then movsb m d s len else movsl m d s (len div 4))"

text \<open>The value is the memory and the pointer that is returned.\<close>

fun memmove_loop :: "mem \<Rightarrow> u32 \<Rightarrow> u32 \<Rightarrow> nat \<Rightarrow> mem \<times> u32" where
  "memmove_loop m d s 0 = (m, d)"
| "memmove_loop m d s (Suc n) = memmove_loop (m(d := m s)) (d - 1) (s - 1) n"

definition memmove :: "mem \<Rightarrow> u32 \<Rightarrow> u32 \<Rightarrow> nat \<Rightarrow> mem \<times> u32" where
  "memmove m d s len =
     (if d \<le> s then (memcpy m d s len, d)
      else memmove_loop m (d + of_nat len - 1) (s + of_nat len - 1) len)"

text \<open>The copy to memory-mapped devices: chunks of 2048 bytes, with a \<open>yield\<close> after each.\<close>

function iomemcpy_loop :: "'w io \<Rightarrow> mem \<times> ('w, 'z) mach_scheme \<Rightarrow> u32 \<Rightarrow> u32 \<Rightarrow> nat \<Rightarrow>
    mem \<times> ('w, 'z) mach_scheme" where
  "iomemcpy_loop io (m, st) d s len =
     (if 3 < len
      then (let copylen = (if 2048 < len then 2048 else len) div 4
            in iomemcpy_loop io (movsl m d s copylen, yield io st)
                 (d + of_nat (4 * copylen)) (s + of_nat (4 * copylen)) (len - copylen * 4))
      else (if len \<noteq> 0 then (memcpy m d s len, st) else (m, st)))"
  by pat_completeness auto
termination
  by (relation "measure (\<lambda>(io, p, d, s, len). len)") auto

definition iomemcpy :: "'w io \<Rightarrow> mem \<times> ('w, 'z) mach_scheme \<Rightarrow> u32 \<Rightarrow> u32 \<Rightarrow> nat \<Rightarrow>
    mem \<times> ('w, 'z) mach_scheme" where
  "iomemcpy io p d s len = (case p of (m, st) \<Rightarrow> iomemcpy_loop io (m, yield io st) d s len)"

section \<open>Strings\<close>

abbreviation schar :: "char \<Rightarrow> int" where
  "schar c \<equiv> sint (of_char c :: u8)"

fun strcmp :: "string \<Rightarrow> string \<Rightarrow> int" where
  "strcmp [] [] = 0"
| "strcmp [] (b # bs) = (if 0 < schar b then - 1 else 1)"
| "strcmp (a # as) [] = (if schar a < 0 then - 1 else 1)"
| "strcmp (a # as) (b # bs) =
     (if a \<noteq> b then (if schar a < schar b then - 1 else 1) else strcmp as bs)"

text \<open>The counter is a \<open>size_t\<close> that is decremented before the test.\<close>

fun strtcpy :: "string \<Rightarrow> u32 \<Rightarrow> string" where
  "strtcpy [] len = []"
| "strtcpy (c # cs) len = (if len - 1 \<noteq> 0 then c # strtcpy cs (len - 1) else [])"

text \<open>The rest of the string from the found character on.\<close>

fun strchr :: "string \<Rightarrow> char \<Rightarrow> string option" where
  "strchr [] c = None"
| "strchr (x # xs) c = (if x = c then Some (x # xs) else strchr xs c)"

definition blank :: "char \<Rightarrow> bool" where
  "blank c \<longleftrightarrow> schar c \<le> 0x20"

definition nullTrailingSpace :: "string \<Rightarrow> string" where
  "nullTrailingSpace buf = dropWhile blank (rev (dropWhile blank (rev buf)))"

section \<open>What the copies do\<close>

text \<open>The memory in which \<open>len\<close> bytes from \<open>s\<close> on are also at \<open>d\<close>.\<close>

definition copied :: "mem \<Rightarrow> u32 \<Rightarrow> u32 \<Rightarrow> nat \<Rightarrow> mem" where
  "copied m d s len = (\<lambda>a. if unat (a - d) < len then m (s + (a - d)) else m a)"

text \<open>A copy in ascending order does not read what it has written.\<close>

definition ascending_ok :: "u32 \<Rightarrow> u32 \<Rightarrow> nat \<Rightarrow> bool" where
  "ascending_ok d s len \<longleftrightarrow> len < 2 ^ 32 \<and> (d = s \<or> len \<le> unat (d - s))"

lemma copied_0 [simp]: "copied m d s 0 = m"
  by (simp add: copied_def)

lemma copied_same [simp]: "copied m d d n = m"
  by (auto simp: copied_def)

lemma u32_unat_lt: "unat (x :: u32) < 2 ^ 32"
  using unsigned_less [of x] by simp

lemma unat_minus_of_nat:
  assumes "j < 2 ^ 32"
  shows "unat (x - of_nat j :: u32) = (if j \<le> unat x then unat x - j else 2 ^ 32 + unat x - j)"
proof -
  have "unat (of_nat j :: u32) = j" using assms by (simp add: unsigned_of_nat take_bit_nat_eq_self)
  then show ?thesis using assms by (auto simp: unat_sub_if_size word_size)
qed

lemma copied_append:
  assumes "ascending_ok d s (j + n)"
  shows "copied (copied m d s j) (d + of_nat j) (s + of_nat j) n = copied m d s (j + n)"
proof (cases "d = s")
  case False
  then have D: "j + n \<le> unat (d - s)" "j + n < 2 ^ 32" using assms by (auto simp: ascending_ok_def)
  show ?thesis
  proof
    fix a
    let ?off = "unat (a - d)"
    have off: "unat (a - (d + of_nat j)) = (if j \<le> ?off then ?off - j else 2 ^ 32 + ?off - j)"
      using unat_minus_of_nat [of j "a - d"] D(2) by (simp add: algebra_simps)
    have read: "s + of_nat j + (a - (d + of_nat j)) = s + (a - d)" by (simp add: algebra_simps)
    have keep: "\<not> unat (s + (a - d) - d) < j" if "j \<le> ?off" "?off < j + n"
    proof -
      have eq: "s + (a - d) - d = (a - d) - of_nat (unat (d - s))" by (simp add: algebra_simps)
      have "unat (s + (a - d) - d) = 2 ^ 32 + ?off - unat (d - s)"
        using unat_minus_of_nat [OF u32_unat_lt [of "d - s"], of "a - d"] that D(1) unfolding eq by simp
      then show ?thesis using that(1) u32_unat_lt [of "d - s"] by simp
    qed
    show "copied (copied m d s j) (d + of_nat j) (s + of_nat j) n a = copied m d s (j + n) a"
      using off keep D(2) by (auto simp: copied_def read)
  qed
qed simp

lemma copied_step:
  "m(d := m s) = copied m d s 1"
  "m(d := m s, d + 1 := m (s + 1), d + 2 := m (s + 2), d + 3 := m (s + 3)) = copied m d s 4"
proof -
  have lt: "unat x < 4 \<longleftrightarrow> x = 0 \<or> x = 1 \<or> x = 2 \<or> x = 3" "unat x = 0 \<longleftrightarrow> x = 0" for x :: u32
    by (auto simp: word_unat_eq_iff)
  have add: "a = d + k \<longleftrightarrow> a - d = k" for a k by (auto simp: algebra_simps)
  show "m(d := m s) = copied m d s 1"
    using add [of _ 0] by (auto simp: copied_def lt fun_upd_def)
  show "m(d := m s, d + 1 := m (s + 1), d + 2 := m (s + 2), d + 3 := m (s + 3)) = copied m d s 4"
    using add [of _ 0] by (auto simp: copied_def lt fun_upd_def add)
qed

lemma ascending_rest: "ascending_ok d s (j + n) \<Longrightarrow> ascending_ok (d + of_nat j) (s + of_nat j) n"
  by (auto simp: ascending_ok_def)

lemma movsb_copied: "ascending_ok d s n \<Longrightarrow> movsb m d s n = copied m d s n"
proof (induction n arbitrary: m d s)
  case (Suc n)
  show ?case
    using Suc.IH [of "d + 1" "s + 1"] copied_append [of d s 1 n m] ascending_rest [of d s 1 n] Suc.prems
    by (simp add: copied_step)
qed simp

lemma movsl_copied: "ascending_ok d s (4 * n) \<Longrightarrow> movsl m d s n = copied m d s (4 * n)"
proof (induction n arbitrary: m d s)
  case (Suc n)
  have "movsl m d s (Suc n) = movsl (copied m d s 4) (d + 4) (s + 4) n"
    by (simp only: movsl.simps copied_step(2))
  also have "\<dots> = copied (copied m d s 4) (d + 4) (s + 4) (4 * n)"
    using Suc.IH [of "d + 4" "s + 4"] ascending_rest [of d s 4 "4 * n"] Suc.prems by simp
  also have "\<dots> = copied m d s (4 * Suc n)"
    using copied_append [of d s 4 "4 * n" m] Suc.prems by simp
  finally show ?case .
qed simp

lemma and_3_of_nat:
  assumes "(x OR of_nat len :: u32) AND 3 = 0"
  shows "len mod 4 = 0"
proof -
  have "(of_nat len :: u32) AND 3 = 0"
    using assms by (simp add: bit.conj_disj_distrib2 or_eq_0_iff)
  then have "take_bit 2 (of_nat len :: u32) = 0"
    by (simp add: take_bit_eq_mask mask_numeral)
  then have "unat (take_bit 2 (of_nat len :: u32)) = 0" by simp
  then have "take_bit 2 (take_bit 32 len) = 0"
    by (simp add: unsigned_take_bit_eq unsigned_of_nat)
  then show ?thesis by (simp add: take_bit_eq_mod mod_mod_cancel)
qed

lemma memcpy_copied:
  assumes "ascending_ok d s len"
  shows "memcpy m d s len = copied m d s len"
proof (cases "(d OR s OR of_nat len) AND 3 = 0")
  case True
  then have "4 * (len div 4) = len"
    using and_3_of_nat [of "d OR s" len] by (simp add: or.assoc) presburger
  with movsl_copied [of d s "len div 4" m] assms show ?thesis
    using True by (simp add: memcpy_def)
qed (simp add: memcpy_def movsb_copied [OF assms])

lemma memmove_loop_copied:
  assumes "unat (d - s) + n \<le> 2 ^ 32"
  shows "memmove_loop m (d + of_nat n - 1) (s + of_nat n - 1) n = (copied m d s n, d - 1)"
  using assms
proof (induction n arbitrary: m)
  case (Suc n)
  have "copied (m(d + of_nat n := m (s + of_nat n))) d s n = copied m d s (Suc n)"
  proof
    fix a
    have n: "unat (of_nat n :: u32) = n" using Suc.prems by (simp add: unsigned_of_nat take_bit_nat_eq_self)
    have last: "unat (a - d) = n \<longleftrightarrow> a = d + of_nat n"
      using n word_unat_eq_iff [of "a - d" "of_nat n"] by (auto simp: algebra_simps)
    have "s + (a - d) \<noteq> d + of_nat n" if "unat (a - d) < n"
    proof
      assume "s + (a - d) = d + of_nat n"
      then have eq: "d - s = (a - d) - of_nat n" by (simp add: algebra_simps)
      have "unat (d - s) = 2 ^ 32 + unat (a - d) - n"
        unfolding eq using that Suc.prems by (subst unat_minus_of_nat) auto
      then show False using Suc.prems that by simp
    qed
    then show "copied (m(d + of_nat n := m (s + of_nat n))) d s n a = copied m d s (Suc n) a"
      using last by (auto simp: copied_def less_Suc_eq)
  qed
  then show ?case using Suc by (simp add: algebra_simps)
qed simp

lemma iomemcpy_loop_copied:
  "ascending_ok d s len \<Longrightarrow> fst (iomemcpy_loop io (m, st) d s len) = copied m d s len"
proof (induction io "(m, st)" d s len arbitrary: m st rule: iomemcpy_loop.induct)
  case (1 io m st d s len)
  show ?case
  proof (cases "3 < len")
    case True
    define c where "c = (if 2048 < len then 2048 else len) div 4"
    have c: "4 * c + (len - c * 4) = len" by (auto simp: c_def)
    have ok: "ascending_ok d s (4 * c + (len - c * 4))" using "1.prems" by (simp only: c)
    have ok4: "ascending_ok d s (4 * c)" using ok by (auto simp: ascending_ok_def)
    have "fst (iomemcpy_loop io (m, st) d s len) = fst (iomemcpy_loop io (movsl m d s c, yield io st)
        (d + of_nat (4 * c)) (s + of_nat (4 * c)) (len - c * 4))"
      using True by (simp add: Let_def flip: c_def)
    also have "\<dots> = copied (movsl m d s c) (d + of_nat (4 * c)) (s + of_nat (4 * c)) (len - c * 4)"
      using "1.hyps" [OF True c_def] ascending_rest [OF ok] by simp
    also have "\<dots> = copied m d s (4 * c + (len - c * 4))"
      using copied_append [OF ok, of m] movsl_copied [OF ok4] by simp
    finally show ?thesis by (simp only: c)
  next
    case False
    then show ?thesis using memcpy_copied [OF "1.prems"] by simp
  qed
qed

declare iomemcpy_loop.simps [simp del]

lemma memcmp_eq_0: "memcmp m s1 s2 n = 0 \<longleftrightarrow> (\<forall>i<n. m (s1 + of_nat i) = m (s2 + of_nat i))"
  by (induction n arbitrary: s1 s2) (auto simp: All_less_Suc2 algebra_simps)

lemma checksum_loop_sum:
  "checksum_loop m buf n acc = acc + (\<Sum>i<n. m (buf + of_nat i))"
  by (induction n arbitrary: buf acc) (simp_all add: sum.lessThan_Suc_shift algebra_simps del: sum.lessThan_Suc)

section \<open>Properties\<close>

text \<open>
  \<open>memmove\<close> moves overlapping regions: for any two regions that do not wrap around the address space, the
  bytes of the source are afterwards at the destination and nothing else has changed. The pointer it returns is the
  destination only when the copy is an ascending one; otherwise it is one byte below it.
\<close>

theorem memmove_moves:
  assumes "unat d + len \<le> 2 ^ 32" "unat s + len \<le> 2 ^ 32" "len < 2 ^ 32"
  shows "memmove m d s len = (copied m d s len, if d \<le> s then d else d - 1)"
proof (cases "d \<le> s")
  case True
  have "d = s \<or> len \<le> unat (d - s)"
  proof (cases "d = s")
    case False
    then have "unat d < unat s" using True by (simp add: word_less_nat_alt order_le_less)
    then have "unat (d - s) = 2 ^ 32 + unat d - unat s"
      using unat_minus_of_nat [OF u32_unat_lt [of s], of d] by simp
    then have "len \<le> unat (d - s)" using assms by linarith
    then show ?thesis ..
  qed simp
  then have "ascending_ok d s len" using assms(3) by (simp add: ascending_ok_def)
  then show ?thesis using True memcpy_copied by (simp add: memmove_def)
next
  case False
  then have "unat (d - s) = unat d - unat s"
    by (simp add: unat_sub word_le_nat_alt)
  then have "unat (d - s) + len \<le> 2 ^ 32" using assms(1) by simp
  with memmove_loop_copied [of d s len m] False show ?thesis by (simp add: memmove_def)
qed

theorem memmove_moves_witness:
  "fst (memmove (\<lambda>a. ucast a) 0x101 0x100 4) 0x103 = 2 \<and> snd (memmove (\<lambda>a. ucast a) 0x101 0x100 4) = 0x100"
  using memmove_moves [of "0x101" 4 "0x100" "\<lambda>a. ucast a"] by (simp add: copied_def)

text \<open>
  The copy to a device in chunks is the copy: for regions that an ascending copy can handle, \<open>iomemcpy\<close>
  leaves the memory that a single \<open>memcpy\<close> leaves, for every length and alignment.
\<close>

theorem iomemcpy_memcpy:
  assumes "ascending_ok d s len"
  shows "fst (iomemcpy io (m, st) d s len) = memcpy m d s len"
  using iomemcpy_loop_copied [OF assms] memcpy_copied [OF assms] by (simp add: iomemcpy_def)

theorem iomemcpy_memcpy_witness:
  "fst (iomemcpy clock_sim (ucast, \<lparr>TimerKHz = 0, TimerPort = 0, ShiftTSC = 0, TimerLast = 0, wd = 0\<rparr>)
     0x102 0x200 0x1FFF) = memcpy ucast 0x102 0x200 0x1FFF"
  by (rule iomemcpy_memcpy) (simp add: ascending_ok_def)

text \<open>
  The checksum byte of a BIOS table: when the checksum of the table is subtracted from one of its bytes, the
  checksum of the whole is zero.
\<close>

theorem checksum_fixes:
  assumes "k < len" "len < 2 ^ 32"
  shows "checksum (m(buf + of_nat k := m (buf + of_nat k) - checksum m buf len)) buf len = 0"
proof -
  have inj: "(of_nat i :: u32) = of_nat k \<longleftrightarrow> i = k" if "i < len" for i
  proof -
    have "unat (of_nat i :: u32) = i" "unat (of_nat k :: u32) = k"
      using that assms by (simp_all add: unsigned_of_nat take_bit_nat_eq_self)
    then show ?thesis by metis
  qed
  have "(\<Sum>i<len. (m(buf + of_nat k := m (buf + of_nat k) - x)) (buf + of_nat i)) =
      (\<Sum>i<len. m (buf + of_nat i)) - x" for x
  proof -
    have "(\<Sum>i<len. (m(buf + of_nat k := m (buf + of_nat k) - x)) (buf + of_nat i)) =
        (\<Sum>i<len. m (buf + of_nat i) - (if i = k then x else 0))"
      by (rule sum.cong) (auto simp: inj)
    then show ?thesis using assms(1) by (simp add: sum_subtractf sum.delta)
  qed
  then show ?thesis by (simp add: checksum_def checksum_loop_sum)
qed

theorem checksum_fixes_witness:
  "checksum ((\<lambda>a. if a < 0x105 then 7 else 9)(0x108 :=
     9 - checksum (\<lambda>a. if a < 0x105 then 7 else 9) 0x100 20)) 0x100 20 = 0"
  using checksum_fixes [of 8 20 "\<lambda>a. if a < 0x105 then 7 else 9" "0x100"] by simp

end
