(* ===== verification/Boot_Order.thy ===== *)
theory Boot_Order
  imports Cstring Output Settings "HOL-Library.Sublist"
begin

text \<open>
  The boot order: the first part of \<open>seabios/src/boot.c\<close> and \<open>llama_boot_disk_strings.h\<close>. The
  selected order becomes a list of device patterns; the priority of a device is the position of the first pattern
  that its path matches, or -1.
\<close>

section \<open>Searching a text\<close>

text \<open>\<open>string\<close> and \<open>substring\<close> are what is left of the two texts, \<open>i\<close> is \<open>string_index\<close>.\<close>

fun string_contains_loop :: "string \<Rightarrow> string \<Rightarrow> int \<Rightarrow> int \<Rightarrow> int" where
  "string_contains_loop (x # xs) (y # ys) i substring_len =
     (let rest = (if x = y then ys else y # ys);
          i = i + 1
      in if rest = [] then i - substring_len + 1 else string_contains_loop xs rest i substring_len)"
| "string_contains_loop _ _ i substring_len = 0"

definition string_contains :: "string \<Rightarrow> string \<Rightarrow> int" where
  "string_contains string substring = string_contains_loop string substring 0 (int (length substring))"

section \<open>The list of patterns\<close>

definition newline_char :: char where "newline_char = CHR 0x0A"

definition llama_boot_disk_string_sd :: string where
  "llama_boot_disk_string_sd = ''/pci@i0cf8/*@c/drive@0/disk@0'' @ [newline_char]"

definition llama_boot_disk_string_usb :: string where
  "llama_boot_disk_string_usb =
     ''/pci@i0cf8/usb@a,1/storage@1/*@0/*@0,0'' @ [newline_char] @
     ''/pci@i0cf8/usb@a,1/usb-*@1'' @ [newline_char] @
     ''/pci@i0cf8/usb@a,1/storage@2/*@0/*@0,0'' @ [newline_char] @
     ''/pci@i0cf8/usb@a,1/usb-*@2'' @ [newline_char] @
     ''/pci@i0cf8/usb@a,1/hub@1/usb-*@1'' @ [newline_char] @
     ''/pci@i0cf8/usb@a,1/hub@1/usb-*@2'' @ [newline_char] @
     ''/pci@i0cf8/usb@a,1/hub@1/usb-*@3'' @ [newline_char] @
     ''/pci@i0cf8/usb@a,1/hub@1/usb-*@4'' @ [newline_char]"

definition llama_boot_disk_string_sata :: string where
  "llama_boot_disk_string_sata = ''/pci@i0cf8/*@c/drive@1/disk@0'' @ [newline_char]"

definition llama_boot_disk_string_vfloppy :: string where
  "llama_boot_disk_string_vfloppy = ''/rom@floppyimg/*'' @ [newline_char]"

text \<open>The \<open>sizeof\<close> of a string counts its NUL.\<close>

definition boot_order_size :: nat where
  "boot_order_size =
     length llama_boot_disk_string_sd + 1 + (length llama_boot_disk_string_usb + 1) +
     (length llama_boot_disk_string_sata + 1) + (length llama_boot_disk_string_vfloppy + 1)"

definition boot_order_strings :: "u8 \<Rightarrow> string list option" where
  "boot_order_strings index =
     (let sata = llama_boot_disk_string_sata; sd = llama_boot_disk_string_sd;
          usb = llama_boot_disk_string_usb; vfloppy = llama_boot_disk_string_vfloppy
      in if index = 0 then Some [sata, sd, usb, vfloppy]
         else if index = 1 then Some [sata, usb, sd, vfloppy]
         else if index = 2 then Some [sd, sata, usb, vfloppy]
         else if index = 3 then Some [sd, usb, sata, vfloppy]
         else if index = 4 then Some [usb, sata, sd, vfloppy]
         else if index = 5 then Some [usb, sd, sata, vfloppy]
         else None)"

text \<open>
  The buffer after the \<open>switch\<close>; in the default case it is what the allocation held, \<open>junk\<close>.
\<close>

definition boot_order_text :: "string \<Rightarrow> u8 \<Rightarrow> string option" where
  "boot_order_text junk index =
     (case boot_order_strings index of
        Some strs \<Rightarrow> map_option fst (snprintf boot_order_size ''%s%s%s%s'' (map PStr strs))
      | None \<Rightarrow> Some junk)"

text \<open>
  The loop that fills \<open>Bootorder\<close>: \<open>lines\<close> are the entries filled so far, \<open>count\<close> is the length of the
  allocated array; writing past it is undefined (\<open>None\<close>).
\<close>

function order_lines :: "string \<Rightarrow> string list \<Rightarrow> nat \<Rightarrow> string list option" where
  "order_lines f lines count =
     (if count \<le> length lines then None
      else (let lines = lines @ [nullTrailingSpace (takeWhile (\<lambda>c. c \<noteq> newline_char) f)]
            in case strchr f newline_char of
                 None \<Rightarrow> Some lines
               | Some f \<Rightarrow> order_lines (tl f) lines count))"
  by pat_completeness auto
termination
  by (relation "measure (\<lambda>(f, lines, count). count - length lines)") auto

declare order_lines.simps [simp del]

text \<open>
  \<open>f_ok\<close> and \<open>order_ok\<close> say whether the two allocations succeed. The first is not checked, and a NULL
  buffer is written to.
\<close>

definition loadBootOrder :: "bool \<Rightarrow> bool \<Rightarrow> string \<Rightarrow> llama_bios_settings \<Rightarrow> string list option" where
  "loadBootOrder f_ok order_ok junk lbs =
     (if \<not> f_ok then None
      else do {
        f \<leftarrow> boot_order_text junk (se_value (boot_order_index lbs));
        let BootorderCount = 1 + length (filter (\<lambda>c. c = newline_char) f);
        if \<not> order_ok then Some []
        else order_lines f [] BootorderCount
      })"

section \<open>Matching a path\<close>

text \<open>The value is the rest of \<open>str\<close>; the end of a C string is the NUL, here the end of the list.\<close>

fun glob_prefix :: "string \<Rightarrow> string \<Rightarrow> string option" where
  "glob_prefix [] [] = Some []"
| "glob_prefix [] (s # ss) = (if s = CHR ''/'' then Some (s # ss) else None)"
| "glob_prefix (g # gs) [] = (if g = CHR ''*'' then glob_prefix gs [] else None)"
| "glob_prefix (g # gs) (s # ss) =
     (if g = CHR ''*''
      then (if s = CHR ''/'' \<or> gs \<noteq> [] \<and> s = hd gs then glob_prefix gs (s # ss)
            else glob_prefix (g # gs) ss)
      else if g \<noteq> s then None
      else glob_prefix gs ss)"

fun find_prio_loop :: "string list \<Rightarrow> string \<Rightarrow> int \<Rightarrow> int" where
  "find_prio_loop [] glob i = - 1"
| "find_prio_loop (b # bs) glob i =
     (if glob_prefix glob b \<noteq> None then i + 1 else find_prio_loop bs glob (i + 1))"

definition find_prio :: "string list \<Rightarrow> string \<Rightarrow> int" where
  "find_prio Bootorder glob = find_prio_loop Bootorder glob 0"

section \<open>Device paths\<close>

datatype pci_device = Pci_device (pci_bdf: u16) (pci_rootbus: u8) (pci_parent: "pci_device option")

datatype usbhub = Usbhub (hub_usbdev: "usbdevice option") (cntl_pci: pci_device)
     and usbdevice = Usbdevice (usb_hub: usbhub) (usb_port: u32)

definition pci_bdf_to_dev :: "u16 \<Rightarrow> u8" where
  "pci_bdf_to_dev bdf = ucast (drop_bit 3 bdf AND 0x1f)"

definition pci_bdf_to_fn :: "u16 \<Rightarrow> u8" where
  "pci_bdf_to_fn bdf = ucast (bdf AND 0x07)"

text \<open>
  \<open>p += snprintf(p, buf + max - p, ...)\<close>, where \<open>p\<close> is the end of the text in the buffer \<open>buf\<close>.
\<close>

definition append_fmt :: "nat \<Rightarrow> string \<Rightarrow> string \<Rightarrow> printf_arg list \<Rightarrow> string option" where
  "append_fmt sz buf fmt args =
     do { (out, _) \<leftarrow> snprintf (sz - length buf) fmt args; Some (buf @ out) }"

definition FW_PCI_DOMAIN :: string where "FW_PCI_DOMAIN = ''/pci@i0cf8''"

fun build_pci_path :: "nat \<Rightarrow> string \<Rightarrow> pci_device \<Rightarrow> string option" where
  "build_pci_path sz devname (Pci_device bdf rootbus parent) =
     do {
       p \<leftarrow> (case parent of
              Some pci \<Rightarrow> build_pci_path sz ''pci-bridge'' pci
            | None \<Rightarrow> do {
                p \<leftarrow> (if rootbus \<noteq> 0 then append_fmt sz '''' ''/pci-root@%x'' [PInt (ucast rootbus)]
                     else Some '''');
                append_fmt sz p ''%s'' [PStr FW_PCI_DOMAIN]
              });
       p \<leftarrow> append_fmt sz p ''/%s@%x'' [PStr devname, PInt (ucast (pci_bdf_to_dev bdf))];
       if pci_bdf_to_fn bdf \<noteq> 0 then append_fmt sz p '',%x'' [PInt (ucast (pci_bdf_to_fn bdf))]
       else Some p
     }"

fun build_usb_path :: "nat \<Rightarrow> string \<Rightarrow> usbhub \<Rightarrow> string option" where
  "build_usb_path sz buf (Usbhub None pci) = Some buf"
| "build_usb_path sz buf (Usbhub (Some (Usbdevice hub port)) pci) =
     do {
       p \<leftarrow> build_usb_path sz buf hub;
       append_fmt sz p ''/hub@%x'' [PInt (port + 1)]
     }"

definition bootprio_find_pci_device :: "string list \<Rightarrow> pci_device \<Rightarrow> int option" where
  "bootprio_find_pci_device Bootorder pci =
     map_option (find_prio Bootorder) (build_pci_path 256 ''*'' pci)"

definition bootprio_find_scsi_device :: "string list \<Rightarrow> pci_device option \<Rightarrow> u32 \<Rightarrow> u32 \<Rightarrow> int option" where
  "bootprio_find_scsi_device Bootorder pci target lun =
     (case pci of
        None \<Rightarrow> Some (- 1)
      | Some pci \<Rightarrow> do {
          p \<leftarrow> build_pci_path 256 ''*'' pci;
          desc \<leftarrow> append_fmt 256 p ''/*@0/*@%d,%d'' [PInt target, PInt lun];
          Some (find_prio Bootorder desc)
        })"

definition bootprio_find_ata_device :: "string list \<Rightarrow> pci_device option \<Rightarrow> u32 \<Rightarrow> u32 \<Rightarrow> int option" where
  "bootprio_find_ata_device Bootorder pci chanid slave =
     (case pci of
        None \<Rightarrow> Some (- 1)
      | Some pci \<Rightarrow> do {
          p \<leftarrow> build_pci_path 256 ''*'' pci;
          desc \<leftarrow> append_fmt 256 p ''/drive@%x/disk@%x'' [PInt chanid, PInt slave];
          Some (find_prio Bootorder desc)
        })"

definition bootprio_find_fdc_device :: "string list \<Rightarrow> pci_device option \<Rightarrow> u32 \<Rightarrow> u32 \<Rightarrow> int option" where
  "bootprio_find_fdc_device Bootorder pci port fdid =
     (case pci of
        None \<Rightarrow> Some (- 1)
      | Some pci \<Rightarrow> do {
          p \<leftarrow> build_pci_path 256 ''isa'' pci;
          desc \<leftarrow> append_fmt 256 p ''/fdc@%04x/floppy@%x'' [PInt port, PInt fdid];
          Some (find_prio Bootorder desc)
        })"

definition bootprio_find_pci_rom :: "string list \<Rightarrow> pci_device \<Rightarrow> u32 \<Rightarrow> int option" where
  "bootprio_find_pci_rom Bootorder pci inst =
     do {
       p \<leftarrow> build_pci_path 256 ''*'' pci;
       desc \<leftarrow> (if inst \<noteq> 0 then append_fmt 256 p '':rom%d'' [PInt inst] else Some p);
       Some (find_prio Bootorder desc)
     }"

definition bootprio_find_named_rom :: "string list \<Rightarrow> string \<Rightarrow> u32 \<Rightarrow> int option" where
  "bootprio_find_named_rom Bootorder name inst =
     do {
       p \<leftarrow> append_fmt 256 '''' ''/rom@%s'' [PStr name];
       desc \<leftarrow> (if inst \<noteq> 0 then append_fmt 256 p '':rom%d'' [PInt inst] else Some p);
       Some (find_prio Bootorder desc)
     }"

definition bootprio_find_usb :: "string list \<Rightarrow> usbdevice \<Rightarrow> u32 \<Rightarrow> int option" where
  "bootprio_find_usb Bootorder usbdev lun =
     do {
       p \<leftarrow> build_pci_path 256 ''usb'' (cntl_pci (usb_hub usbdev));
       p \<leftarrow> build_usb_path 256 p (usb_hub usbdev);
       desc \<leftarrow> append_fmt 256 p ''/storage@%x/*@0/*@0,%d'' [PInt (usb_port usbdev + 1), PInt lun];
       let ret = find_prio Bootorder desc;
       if 0 \<le> ret then Some ret
       else do {
         desc \<leftarrow> append_fmt 256 p ''/usb-*@%x'' [PInt (usb_port usbdev + 1)];
         Some (find_prio Bootorder desc)
       }
     }"

section \<open>Facts\<close>

lemma string_contains_loop_subseq:
  assumes "t \<noteq> ''''" "n \<le> i + int (length t)"
  shows "0 < string_contains_loop s t i n \<longleftrightarrow> subseq t s"
  using assms
proof (induction s t i n rule: string_contains_loop.induct)
  case (1 x xs y ys i n)
  show ?case
  proof (cases "x = y")
    case True
    then show ?thesis using 1 by (cases ys) (auto simp: Let_def)
  next
    case False
    then show ?thesis using 1 by (auto simp: Let_def)
  qed
qed auto

lemma bvprintf_s:
  "bvprintf (''%s'' @ rest) (PStr t # args) = map_option (\<lambda>out. t @ out) (bvprintf rest args)"
  by (simp add: bvprintf.simps isdigit_def skip_long_def bvprintf_conv_def)

text \<open>The patterns of a device, one by one.\<close>

definition sata_patterns :: "string list" where
  "sata_patterns = [''/pci@i0cf8/*@c/drive@1/disk@0'']"

definition sd_patterns :: "string list" where
  "sd_patterns = [''/pci@i0cf8/*@c/drive@0/disk@0'']"

definition usb_patterns :: "string list" where
  "usb_patterns =
     [''/pci@i0cf8/usb@a,1/storage@1/*@0/*@0,0'', ''/pci@i0cf8/usb@a,1/usb-*@1'',
      ''/pci@i0cf8/usb@a,1/storage@2/*@0/*@0,0'', ''/pci@i0cf8/usb@a,1/usb-*@2'',
      ''/pci@i0cf8/usb@a,1/hub@1/usb-*@1'', ''/pci@i0cf8/usb@a,1/hub@1/usb-*@2'',
      ''/pci@i0cf8/usb@a,1/hub@1/usb-*@3'', ''/pci@i0cf8/usb@a,1/hub@1/usb-*@4'']"

definition vfloppy_patterns :: "string list" where
  "vfloppy_patterns = [''/rom@floppyimg/*'', '''']"

definition boot_order_lines :: "u8 \<Rightarrow> string list" where
  "boot_order_lines index =
     (if index = 0 then sata_patterns @ sd_patterns @ usb_patterns
      else if index = 1 then sata_patterns @ usb_patterns @ sd_patterns
      else if index = 2 then sd_patterns @ sata_patterns @ usb_patterns
      else if index = 3 then sd_patterns @ usb_patterns @ sata_patterns
      else if index = 4 then usb_patterns @ sata_patterns @ sd_patterns
      else usb_patterns @ sd_patterns @ sata_patterns) @ vfloppy_patterns"

definition load_index :: "string \<Rightarrow> u8 \<Rightarrow> string list option" where
  "load_index junk index =
     do {
       f \<leftarrow> boot_order_text junk index;
       order_lines f [] (1 + length (filter (\<lambda>c. c = newline_char) f))
     }"

lemma loadBootOrder_index:
  "loadBootOrder True True junk lbs = load_index junk (se_value (boot_order_index lbs))"
  by (simp add: loadBootOrder_def load_index_def)

lemma load_index_lines:
  "list_all (\<lambda>i. load_index junk i = Some (boot_order_lines i)) [0, 1, 2, 3, 4, 5]"
  by code_simp

lemma order_lines_fill:
  "count = length lines + 1 + length (filter (\<lambda>c. c = newline_char) f) \<Longrightarrow>
   \<exists>ls. order_lines f lines count = Some ls \<and> length ls = count"
proof (induction f lines count rule: order_lines.induct)
  case (1 f lines count)
  show ?case
  proof (cases "strchr f newline_char")
    case None
    then have "filter (\<lambda>c. c = newline_char) f = []"
      by (induction f) (auto split: if_splits)
    then show ?thesis using 1 None by (simp add: order_lines.simps [of f])
  next
    case (Some r)
    then have "filter (\<lambda>c. c = newline_char) f = newline_char # filter (\<lambda>c. c = newline_char) (tl r)"
      by (induction f) (auto split: if_splits)
    then show ?thesis using 1 Some by (simp add: order_lines.simps [of f])
  qed
qed

text \<open>
  The board's devices: SATA and SD card are the two drives of the controller at device 0Ch, the USB ports are those
  of the root hub of the controller at device 0Ah, function 1.
\<close>

definition ide_controller :: pci_device where "ide_controller = Pci_device 0x60 0 None"

definition usb_device :: "u32 \<Rightarrow> usbdevice" where
  "usb_device port = Usbdevice (Usbhub None (Pci_device 0x51 0 None)) port"

text \<open>A drive behind a hub in the first port of that root hub.\<close>

definition usb_behind_hub :: "u32 \<Rightarrow> usbdevice" where
  "usb_behind_hub port = Usbdevice (Usbhub (Some (usb_device 0)) (Pci_device 0x51 0 None)) port"

definition usb_places :: "usbdevice list" where
  "usb_places = [usb_device 0, usb_device 1, usb_behind_hub 0, usb_behind_hub 1, usb_behind_hub 2, usb_behind_hub 3]"

datatype board_device = Sata_disk | Sd_card | Usb_drive usbdevice | Floppy_image string

text \<open>What the drivers look up before they register a drive, and the name in the labels of the menu.\<close>

fun device_prio :: "string list \<Rightarrow> board_device \<Rightarrow> int option" where
  "device_prio Bootorder Sata_disk = bootprio_find_ata_device Bootorder (Some ide_controller) 1 0"
| "device_prio Bootorder Sd_card = bootprio_find_ata_device Bootorder (Some ide_controller) 0 0"
| "device_prio Bootorder (Usb_drive usbdev) = bootprio_find_usb Bootorder usbdev 0"
| "device_prio Bootorder (Floppy_image name) = bootprio_find_named_rom Bootorder (''floppyimg/'' @ name) 0"

fun device_name :: "board_device \<Rightarrow> string" where
  "device_name Sata_disk = ''SATA''"
| "device_name Sd_card = ''SD''"
| "device_name (Usb_drive usbdev) = ''USB''"
| "device_name (Floppy_image name) = ''VFloppy''"

fun on_board :: "board_device \<Rightarrow> bool" where
  "on_board (Usb_drive usbdev) = (usbdev \<in> set usb_places)"
| "on_board (Floppy_image name) = (name \<noteq> '''' \<and> hd name \<noteq> CHR ''*'')"
| "on_board d = True"

lemma device_prios:
  "map (\<lambda>i. map (device_prio (boot_order_lines i)) (Sata_disk # Sd_card # map Usb_drive usb_places)) [0, 1, 2, 3, 4, 5] =
    [[Some 1, Some 2, Some 3, Some 5, Some 7, Some 8, Some 9, Some 10],
     [Some 1, Some 10, Some 2, Some 4, Some 6, Some 7, Some 8, Some 9],
     [Some 2, Some 1, Some 3, Some 5, Some 7, Some 8, Some 9, Some 10],
     [Some 10, Some 1, Some 2, Some 4, Some 6, Some 7, Some 8, Some 9],
     [Some 9, Some 10, Some 1, Some 3, Some 5, Some 6, Some 7, Some 8],
     [Some 10, Some 9, Some 1, Some 3, Some 5, Some 6, Some 7, Some 8]]"
  by code_simp

section \<open>Paths fit their buffer\<close>

lemma bvprintf_x:
  "bvprintf (''%x'' @ rest) (PInt v # args) =
    map_option (\<lambda>out. putprettyhex v 0 CHR '' '' @ out) (bvprintf rest args)"
  by (simp add: bvprintf.simps isdigit_def skip_long_def bvprintf_conv_def skip_second_def)

lemma bvprintf_skip: "CHR ''%'' \<noteq> c \<Longrightarrow> bvprintf (c # s) args = map_option (\<lambda>out. c # out) (bvprintf s args)"
  by (simp add: bvprintf.simps)

lemmas bvprintf_parts = bvprintf_s [of "''@%x''", simplified] bvprintf_s [of "[]", simplified]
  bvprintf_x [of "[]", simplified]

text \<open>\<open>fits sz m\<close>: the text is built, and leaves room for its NUL in a buffer of \<open>sz\<close> bytes.\<close>

definition fits :: "nat \<Rightarrow> string option \<Rightarrow> bool" where
  "fits sz m \<longleftrightarrow> (\<exists>p. m = Some p \<and> length p < sz)"

lemma fits_append:
  "length buf < sz \<Longrightarrow> bvprintf fmt args \<noteq> None \<Longrightarrow> fits sz (append_fmt sz buf fmt args)"
  by (auto simp: fits_def append_fmt_def snprintf_spec)

lemma fits_Some [simp]: "fits sz (Some p) \<longleftrightarrow> length p < sz"
  by (simp add: fits_def)

lemma fits_bind: "fits sz m \<Longrightarrow> (\<And>p. length p < sz \<Longrightarrow> fits sz (f p)) \<Longrightarrow> fits sz (Option.bind m f)"
  by (auto simp: fits_def)

lemma path_formats:
  "bvprintf ''/pci-root@%x'' [PInt v] \<noteq> None" "bvprintf ''%s'' [PStr t] \<noteq> None"
  "bvprintf ''/%s@%x'' [PStr t, PInt v] \<noteq> None" "bvprintf '',%x'' [PInt v] \<noteq> None"
  "bvprintf ''/hub@%x'' [PInt v] \<noteq> None"
  by (simp_all add: bvprintf_skip bvprintf_parts bvprintf.simps(1))

lemma build_pci_path_fits: "0 < sz \<Longrightarrow> fits sz (build_pci_path sz devname pci)"
proof (induction sz devname pci rule: build_pci_path.induct)
  case (1 sz devname bdf rootbus parent)
  have "fits sz (case parent of
              Some pci \<Rightarrow> build_pci_path sz ''pci-bridge'' pci
            | None \<Rightarrow> do {
                p \<leftarrow> (if rootbus \<noteq> 0 then append_fmt sz '''' ''/pci-root@%x'' [PInt (ucast rootbus)]
                     else Some '''');
                append_fmt sz p ''%s'' [PStr FW_PCI_DOMAIN]
              })"
  proof (cases parent)
    case None
    then show ?thesis using "1.prems" by (auto intro!: fits_bind fits_append path_formats)
  next
    case (Some pci)
    then show ?thesis using "1.IH" [OF Some] "1.prems" by simp
  qed
  then show ?case
    unfolding build_pci_path.simps
    by (intro fits_bind) (auto intro!: fits_append path_formats)
qed

lemma build_usb_path_fits: "length buf < sz \<Longrightarrow> fits sz (build_usb_path sz buf hub)"
  by (induction sz buf hub rule: build_usb_path.induct)
    (auto intro!: fits_bind fits_append path_formats)

section \<open>Properties\<close>

text \<open>
  The search for a text in a drive's description is one for a subsequence: \<open>string_contains\<close> succeeds whenever
  the characters occur in order, with anything between them. So \<open>boot_add_hd\<close>, which drops USB
  drives by it, would drop this SATA disk.
\<close>

theorem string_contains_subsequence:
  "(0 < string_contains string substring \<longleftrightarrow> substring \<noteq> '''' \<and> subseq substring string) \<and>
   0 < string_contains ''ata1-0: SanDisk U100 SSD 16GB mSATA Model SC1 ATA-8 Hard-Disk'' ''USB MSC''"
proof
  show "0 < string_contains string substring \<longleftrightarrow> substring \<noteq> '''' \<and> subseq substring string"
    using string_contains_loop_subseq [of substring "int (length substring)" 0 string]
    by (cases substring) (auto simp: string_contains_def)
qed code_simp

text \<open>
  The table of boot patterns holds exactly the patterns: when the allocations succeed, \<open>loadBootOrder\<close> ends
  without writing past the array it has allocated, and fills all of it, whatever the setting is and
  whatever the buffer holds for a setting that is none of the six.
\<close>

theorem boot_order_fills:
  "\<exists>order. loadBootOrder True True junk lbs = Some order \<and>
     Some (length order) = map_option (\<lambda>f. 1 + length (filter (\<lambda>c. c = newline_char) f))
       (boot_order_text junk (se_value (boot_order_index lbs)))"
proof -
  have s: "bvprintf ''%s%s%s%s'' [PStr a, PStr b, PStr c, PStr d] \<noteq> None" for a b c d
    using bvprintf_s [of "''%s%s%s''"] bvprintf_s [of "''%s%s''"] bvprintf_s [of "''%s''"] bvprintf_s [of "[]"]
    by (simp add: bvprintf.simps(1))
  then have "boot_order_text junk index \<noteq> None" for index
    by (auto simp: boot_order_text_def boot_order_strings_def snprintf_spec Let_def)
  then obtain f where f: "boot_order_text junk (se_value (boot_order_index lbs)) = Some f" by blast
  then show ?thesis
    using order_lines_fill [of "1 + length (filter (\<lambda>c. c = newline_char) f)" "[]" f]
    by (auto simp: loadBootOrder_def Let_def)
qed

text \<open>
  Device paths never overrun their buffer: for every chain of bridges and hubs, however long, the path is
  built and leaves room for its NUL; what does not fit is cut off.
\<close>

theorem device_paths_fit:
  assumes "0 < sz"
  shows "\<exists>p q. build_pci_path sz devname pci = Some p \<and> length p < sz \<and>
    build_usb_path sz p hub = Some q \<and> length q < sz"
  using build_pci_path_fits [OF assms, of devname pci] build_usb_path_fits [of _ sz hub]
  unfolding fits_def by blast

theorem device_paths_fit_witness:
  "\<exists>p q. build_pci_path 256 ''usb'' (Pci_device 0x51 1 (Some ide_controller)) = Some p \<and> length p < 256 \<and>
    build_usb_path 256 p (usb_hub (usb_device 3)) = Some q \<and> length q < 256"
  by (rule device_paths_fit) simp

text \<open>
  The virtual floppy of the boot order is never found: its pattern has the wildcard on the side where it is an
  ordinary character, so that an image file gets the priority -1 with every boot order.
\<close>

theorem vfloppy_not_found:
  assumes "index \<in> {0, 1, 2, 3, 4, 5}" "name \<noteq> ''''" "hd name \<noteq> CHR ''*''"
  shows "bootprio_find_named_rom (boot_order_lines index) (''floppyimg/'' @ name) 0 = Some (- 1)"
proof -
  obtain c cs where name: "name = c # cs" "c \<noteq> CHR ''*''" using assms(2,3) by (cases name) auto
  have "append_fmt 256 '''' ''/rom@%s'' [PStr (''floppyimg/'' @ name)] =
      Some (''/rom@floppyimg/'' @ c # take 239 cs)"
    by (simp add: append_fmt_def snprintf_spec bvprintf_skip bvprintf_parts bvprintf.simps(1) name)
  moreover have "find_prio (boot_order_lines index) (''/rom@floppyimg/'' @ c # ds) = - 1" for ds
    using assms(1) name(2)
    by (auto simp: find_prio_def boot_order_lines_def sata_patterns_def sd_patterns_def usb_patterns_def
        vfloppy_patterns_def)
  ultimately show ?thesis by (simp add: bootprio_find_named_rom_def)
qed

theorem vfloppy_not_found_witness:
  "bootprio_find_named_rom (boot_order_lines 5) ''floppyimg/dos.img'' 0 = Some (- 1)"
  using vfloppy_not_found [of 5 "''dos.img''"] by simp

end
