(* ===== verification/Hlist.thy ===== *)
theory Hlist
  imports Prelude
begin

text \<open>
  The linked lists of the firmware, \<open>seabios/src/list.h\<close>, on an explicit store of pointers. A \<open>cell\<close> is the
  place of a pointer to a node: the head of the list or the \<open>next\<close> field of a node; \<open>pprev\<close> of a node is the
  address of such a place. A node is named by its address.
\<close>

datatype 'n cell = First | Next 'n

record 'n hstore =
  ptr :: "'n cell \<Rightarrow> 'n option"
  pprev :: "'n \<Rightarrow> 'n cell"

section \<open>The operations\<close>

definition hlist_empty :: "'n hstore \<Rightarrow> bool" where
  "hlist_empty h \<longleftrightarrow> ptr h First = None"

definition set_pprev :: "'n option \<Rightarrow> 'n cell \<Rightarrow> 'n hstore \<Rightarrow> 'n hstore" where
  "set_pprev next c h = (case next of None \<Rightarrow> h | Some m \<Rightarrow> h\<lparr>pprev := (pprev h)(m := c)\<rparr>)"

definition hlist_del :: "'n \<Rightarrow> 'n hstore \<Rightarrow> 'n hstore" where
  "hlist_del n h =
     (let next = ptr h (Next n);
          c = pprev h n;
          h = h\<lparr>ptr := (ptr h)(c := next)\<rparr>
      in set_pprev next c h)"

definition hlist_add :: "'n \<Rightarrow> 'n cell \<Rightarrow> 'n hstore \<Rightarrow> 'n hstore" where
  "hlist_add n c h =
     (let next = ptr h c;
          h = h\<lparr>pprev := (pprev h)(n := c)\<rparr>;
          h = h\<lparr>ptr := (ptr h)(Next n := next)\<rparr>;
          h = set_pprev next (Next n) h
      in h\<lparr>ptr := (ptr h)(c := Some n)\<rparr>)"

definition hlist_add_head :: "'n \<Rightarrow> 'n hstore \<Rightarrow> 'n hstore" where
  "hlist_add_head n = hlist_add n First"

definition hlist_add_before :: "'n \<Rightarrow> 'n \<Rightarrow> 'n hstore \<Rightarrow> 'n hstore" where
  "hlist_add_before n next h = hlist_add n (pprev h next) h"

definition hlist_add_after :: "'n \<Rightarrow> 'n \<Rightarrow> 'n hstore \<Rightarrow> 'n hstore" where
  "hlist_add_after n prev h = hlist_add n (Next prev) h"

text \<open>
  The two walks: over the nodes, with \<open>step\<close> as the body of the loop, and over the cells until the body
  breaks at a node; the second gives the cell at which the walk has stopped.
\<close>

definition hlist_for_each_entry :: "('n \<Rightarrow> 'a \<Rightarrow> 'a) \<Rightarrow> 'n hstore \<Rightarrow> 'a \<Rightarrow> 'a option" where
  "hlist_for_each_entry step h a =
     loop (\<lambda>(pos, a). Some (case pos of
        None \<Rightarrow> Finish a
      | Some n \<Rightarrow> Again (ptr h (Next n), step n a))) (ptr h First, a)"

definition hlist_find_pprev :: "('n \<Rightarrow> bool) \<Rightarrow> 'n hstore \<Rightarrow> 'n cell option" where
  "hlist_find_pprev breaks h =
     loop (\<lambda>c. Some (case ptr h c of
        None \<Rightarrow> Finish c
      | Some n \<Rightarrow> if breaks n then Finish c else Again (Next n))) First"

section \<open>The list in the store\<close>

fun chain :: "'n hstore \<Rightarrow> 'n cell \<Rightarrow> 'n list \<Rightarrow> bool" where
  "chain h c [] \<longleftrightarrow> ptr h c = None"
| "chain h c (n # ns) \<longleftrightarrow> ptr h c = Some n \<and> pprev h n = c \<and> chain h (Next n) ns"

definition hlist :: "'n hstore \<Rightarrow> 'n list \<Rightarrow> bool" where
  "hlist h ns \<longleftrightarrow> chain h First ns \<and> distinct ns"

fun last_cell :: "'n cell \<Rightarrow> 'n list \<Rightarrow> 'n cell" where
  "last_cell c [] = c"
| "last_cell c (n # ns) = last_cell (Next n) ns"

lemma last_cell_cases: "last_cell c ns = c \<and> ns = [] \<or> (\<exists>n\<in>set ns. last_cell c ns = Next n)"
  by (induction ns arbitrary: c) auto

text \<open>A chain depends on its own cells and nodes only.\<close>

lemma chain_cong:
  assumes "chain h c ns" "ptr h' c = ptr h c" "\<And>n. n \<in> set ns \<Longrightarrow> ptr h' (Next n) = ptr h (Next n) \<and> pprev h' n = pprev h n"
  shows "chain h' c ns"
  using assms by (induction ns arbitrary: c) auto

text \<open>The cell where a list starts is not in one of its nodes.\<close>

definition outside :: "'n cell \<Rightarrow> 'n list \<Rightarrow> bool" where
  "outside c ns \<longleftrightarrow> (\<forall>m\<in>set ns. c \<noteq> Next m) \<and> distinct ns"

lemma outside_simps [simp]:
  "outside c [] " "outside First ns \<longleftrightarrow> distinct ns"
  "outside (Next m) ns \<longleftrightarrow> m \<notin> set ns \<and> distinct ns"
  by (auto simp: outside_def)

lemma outside_Cons: "outside c (n # ns) \<longleftrightarrow> c \<noteq> Next n \<and> n \<notin> set ns \<and> outside c ns"
  by (auto simp: outside_def)

lemma last_cell_outside: "outside c (x # xs @ ys) \<Longrightarrow> last_cell (Next x) xs \<noteq> c \<and> (\<forall>y\<in>set ys. last_cell (Next x) xs \<noteq> Next y)"
  using last_cell_cases [of "Next x" xs] by (auto simp: outside_def)

lemma chain_ptr:
  "chain h c (xs @ ys) \<Longrightarrow> ptr h (last_cell c xs) \<in> insert None (Some ` set ys)"
proof (induction xs arbitrary: c)
  case Nil
  then show ?case by (cases ys) auto
qed simp

lemma last_cell_snoc [simp]: "last_cell c (xs @ [n]) = Next n"
  by (induction xs arbitrary: c) auto

lemma chain_add:
  "chain h c (xs @ ys) \<Longrightarrow> outside c (n # xs @ ys) \<Longrightarrow> chain (hlist_add n (last_cell c xs) h) c (xs @ n # ys)"
proof (induction xs arbitrary: c)
  case Nil
  show ?case
  proof (cases ys)
    case Nil
    then show ?thesis using Nil.prems by (simp add: hlist_add_def set_pprev_def outside_Cons)
  next
    case (Cons y zs)
    then show ?thesis
      using Nil.prems
      by (auto simp: hlist_add_def set_pprev_def Let_def outside_def intro!: chain_cong [of h "Next y" zs])
  qed
next
  case (Cons x xs)
  have c: "last_cell (Next x) xs \<noteq> c"
    using last_cell_outside [of c x xs ys] Cons.prems(2) by (auto simp: outside_def)
  have "chain (hlist_add n (last_cell (Next x) xs) h) (Next x) (xs @ n # ys)"
    using Cons.IH [of "Next x"] Cons.prems by (auto simp: outside_def)
  moreover have "ptr (hlist_add n (last_cell (Next x) xs) h) c = Some x"
    "pprev (hlist_add n (last_cell (Next x) xs) h) x = c"
    using Cons.prems c chain_ptr [of h c "x # xs" ys] by (auto simp: hlist_add_def set_pprev_def Let_def outside_def split: option.splits)
  ultimately show ?case by simp
qed

lemma chain_del:
  "chain h c (xs @ n # ys) \<Longrightarrow> outside c (xs @ n # ys) \<Longrightarrow>
   pprev h n = last_cell c xs \<and> chain (hlist_del n h) c (xs @ ys)"
proof (induction xs arbitrary: c)
  case Nil
  show ?case
  proof (cases ys)
    case Nil
    then show ?thesis using Nil.prems by (simp add: hlist_del_def set_pprev_def Let_def)
  next
    case (Cons y zs)
    then show ?thesis
      using Nil.prems
      by (auto simp: hlist_del_def set_pprev_def Let_def outside_def intro!: chain_cong [of h "Next y" zs])
  qed
next
  case (Cons x xs)
  have IH: "pprev h n = last_cell (Next x) xs" "chain (hlist_del n h) (Next x) (xs @ ys)"
    using Cons.IH [of "Next x"] Cons.prems by (auto simp: outside_def)
  have c: "last_cell (Next x) xs \<noteq> c"
    using last_cell_outside [of c x xs "n # ys"] Cons.prems(2) by auto
  have "ptr (hlist_del n h) c = Some x" "pprev (hlist_del n h) x = c"
    using Cons.prems c IH(1) chain_ptr [of h c "x # xs @ [n]" ys]
    by (auto simp: hlist_del_def set_pprev_def Let_def outside_def split: option.splits)
  then show ?case using IH by simp
qed

section \<open>The walks\<close>

lemma for_each_chain:
  "chain h c ns \<Longrightarrow> loop (\<lambda>(pos, a). Some (case pos of
        None \<Rightarrow> Finish a | Some n \<Rightarrow> Again (ptr h (Next n), step n a))) (ptr h c, a) = Some (fold step ns a)"
  by (induction ns arbitrary: c a) (simp_all add: loop_unfold_Finish loop_unfold_Again)

lemma find_pprev_chain:
  "chain h c ns \<Longrightarrow> loop (\<lambda>c. Some (case ptr h c of
        None \<Rightarrow> Finish c | Some n \<Rightarrow> if breaks n then Finish c else Again (Next n))) c =
     Some (last_cell c (takeWhile (\<lambda>n. \<not> breaks n) ns))"
  by (induction ns arbitrary: c) (simp_all add: loop_unfold_Finish loop_unfold_Again)

lemma hlist_add_at:
  assumes "hlist h (us @ vs)" "n \<notin> set (us @ vs)"
  shows "hlist (hlist_add n (last_cell First us) h) (us @ n # vs)"
  using assms chain_add [of h First us vs n] by (auto simp: hlist_def)

text \<open>A node that is put where a walk stops.\<close>

lemma hlist_insert_walk:
  assumes "hlist h ns" "n \<notin> set ns"
  shows "\<exists>c. hlist_find_pprev breaks h = Some c \<and>
    hlist (hlist_add n c h) (takeWhile (\<lambda>x. \<not> breaks x) ns @ n # dropWhile (\<lambda>x. \<not> breaks x) ns)"
  using find_pprev_chain [of h First ns breaks] hlist_add_at [of h "takeWhile (\<lambda>x. \<not> breaks x) ns"
      "dropWhile (\<lambda>x. \<not> breaks x) ns" n] assms
  by (auto simp: hlist_find_pprev_def hlist_def)

section \<open>Properties\<close>

text \<open>
  C22. The pointer operations are the list operations: on a store that holds the list \<open>xs @ n # ys\<close>, deleting
  \<open>n\<close> leaves \<open>xs @ ys\<close>, and on one that holds \<open>xs @ ys\<close> a new node goes to the front, behind or before
  a given node, or to the place where a walk over the cells has stopped; a walk over the nodes meets them in order.
\<close>

theorem hlist_refines_list:
  assumes "hlist h (xs @ ys)" "n \<notin> set (xs @ ys)"
  shows "hlist (hlist_add_head n h) (n # xs @ ys) \<and>
    (ys \<noteq> [] \<longrightarrow> hlist (hlist_add_before n (hd ys) h) (xs @ n # ys)) \<and>
    (xs \<noteq> [] \<longrightarrow> hlist (hlist_add_after n (last xs) h) (xs @ n # ys)) \<and>
    (xs \<noteq> [] \<longrightarrow> hlist (hlist_del (last xs) h) (butlast xs @ ys)) \<and>
    (\<exists>c. hlist_find_pprev breaks h = Some c \<and>
       hlist (hlist_add n c h) (takeWhile (\<lambda>x. \<not> breaks x) (xs @ ys) @ n # dropWhile (\<lambda>x. \<not> breaks x) (xs @ ys))) \<and>
    hlist_for_each_entry step h a = Some (fold step (xs @ ys) a) \<and>
    (hlist_empty h \<longleftrightarrow> xs @ ys = [])"
proof (intro conjI impI)
  have ch: "chain h First (xs @ ys)" and d: "distinct (n # xs @ ys)" using assms by (auto simp: hlist_def)
  have add: "hlist (hlist_add n (last_cell First us) h) (us @ n # vs)" if "us @ vs = xs @ ys" for us vs
    by (rule hlist_add_at) (simp_all only: that assms not_False_eq_True)
  show "hlist (hlist_add_head n h) (n # xs @ ys)"
    using add [of "[]"] by (simp add: hlist_add_head_def)
  show "hlist (hlist_add_before n (hd ys) h) (xs @ n # ys)" if "ys \<noteq> []"
  proof -
    have "pprev h (hd ys) = last_cell First xs"
      using chain_del [of h First xs "hd ys" "tl ys"] ch d that by auto
    then show ?thesis using add [of xs ys] by (simp add: hlist_add_before_def)
  qed
  show "hlist (hlist_add_after n (last xs) h) (xs @ n # ys)" if "xs \<noteq> []"
  proof -
    have "last_cell c xs = Next (last xs)" for c using that by (induction xs arbitrary: c) auto
    then show ?thesis using add [of xs ys] by (simp add: hlist_add_after_def)
  qed
  show "hlist (hlist_del (last xs) h) (butlast xs @ ys)" if "xs \<noteq> []"
  proof -
    have xs: "xs = butlast xs @ [last xs]" using that by simp
    then have "chain h First (butlast xs @ last xs # ys)" "distinct (butlast xs @ last xs # ys)"
      using ch d by (metis append.assoc append_Cons append_Nil, metis append.assoc append_Cons append_Nil distinct.simps(2))
    then show ?thesis using chain_del [of h First "butlast xs" "last xs" ys] by (auto simp: hlist_def)
  qed
  show "\<exists>c. hlist_find_pprev breaks h = Some c \<and>
       hlist (hlist_add n c h) (takeWhile (\<lambda>x. \<not> breaks x) (xs @ ys) @ n # dropWhile (\<lambda>x. \<not> breaks x) (xs @ ys))"
    by (rule hlist_insert_walk [OF assms])
  show "hlist_for_each_entry step h a = Some (fold step (xs @ ys) a)"
    unfolding hlist_for_each_entry_def by (rule for_each_chain [OF ch])
  show "hlist_empty h \<longleftrightarrow> xs @ ys = []"
    using ch unfolding hlist_empty_def by (cases "xs @ ys") auto
qed

text \<open>A list of the nodes 1, 2, 3; node 7 is put in front of the first even one.\<close>

definition hlist_sim :: "nat hstore" where
  "hlist_sim = fold hlist_add_head [3, 2, 1] \<lparr>ptr = (\<lambda>_. None), pprev = (\<lambda>_. First)\<rparr>"

lemma hlist_sim: "hlist hlist_sim [1, 2, 3]"
  by (simp add: hlist_sim_def hlist_def hlist_add_head_def hlist_add_def set_pprev_def Let_def)

theorem hlist_refines_list_witness:
  "\<exists>c. hlist_find_pprev even hlist_sim = Some c \<and> hlist (hlist_add 7 c hlist_sim) [1, 7, 2, 3]"
  using hlist_refines_list [of hlist_sim "[1]" "[2, 3]" 7 even "\<lambda>_ _. ()" "()"] hlist_sim by simp

end
