(* ===== verification/Bda.thy ===== *)
theory Bda
  imports Machine
begin

text \<open>
  The BIOS data area, \<open>seabios/src/std/bda.h\<close>: the segment 0x40 as a store of bytes, the offsets of the fields that
  the services use, and \<open>GET_BDA\<close> and \<open>SET_BDA\<close> of \<open>biosvar.h\<close>. A field is named by its offset; its type
  chooses the accessor.
\<close>

type_synonym bda = "u16 \<Rightarrow> u8"

section \<open>Fields\<close>

abbreviation ebda_seg :: u16 where "ebda_seg \<equiv> 0x0e"
abbreviation equipment_list_flags :: u16 where "equipment_list_flags \<equiv> 0x10"
abbreviation mem_size_kb :: u16 where "mem_size_kb \<equiv> 0x13"
abbreviation kbd_flag0 :: u16 where "kbd_flag0 \<equiv> 0x17"
abbreviation kbd_flag1 :: u16 where "kbd_flag1 \<equiv> 0x18"
abbreviation kbd_buf_head :: u16 where "kbd_buf_head \<equiv> 0x1a"
abbreviation kbd_buf_tail :: u16 where "kbd_buf_tail \<equiv> 0x1c"
abbreviation kbd_buf :: u16 where "kbd_buf \<equiv> 0x1e"
abbreviation floppy_last_status :: u16 where "floppy_last_status \<equiv> 0x41"
abbreviation timer_counter :: u16 where "timer_counter \<equiv> 0x6c"
abbreviation timer_rollover :: u16 where "timer_rollover \<equiv> 0x70"
abbreviation soft_reset_flag :: u16 where "soft_reset_flag \<equiv> 0x72"
abbreviation disk_last_status :: u16 where "disk_last_status \<equiv> 0x74"
abbreviation hdcount :: u16 where "hdcount \<equiv> 0x75"
abbreviation kbd_buf_start_offset :: u16 where "kbd_buf_start_offset \<equiv> 0x80"
abbreviation kbd_buf_end_offset :: u16 where "kbd_buf_end_offset \<equiv> 0x82"
abbreviation disk_interrupt_flag :: u16 where "disk_interrupt_flag \<equiv> 0x8e"
abbreviation floppy_harddisk_info :: u16 where "floppy_harddisk_info \<equiv> 0x8f"
abbreviation kbd_flag2 :: u16 where "kbd_flag2 \<equiv> 0x96"
abbreviation kbd_led :: u16 where "kbd_led \<equiv> 0x97"
abbreviation user_wait_complete_flag :: u16 where "user_wait_complete_flag \<equiv> 0x98"
abbreviation user_wait_timeout :: u16 where "user_wait_timeout \<equiv> 0x9c"
abbreviation rtc_wait_flag :: u16 where "rtc_wait_flag \<equiv> 0xa0"

section \<open>Accessors\<close>

definition get16 :: "bda \<Rightarrow> u16 \<Rightarrow> u16" where
  "get16 b f = le16 (b f) (b (f + 1))"

definition set16 :: "u16 \<Rightarrow> u16 \<Rightarrow> bda \<Rightarrow> bda" where
  "set16 f v b = b(f := lo8 v, f + 1 := hi8 v)"

definition get32 :: "bda \<Rightarrow> u16 \<Rightarrow> u32" where
  "get32 b f = ucast (get16 b f) OR push_bit 16 (ucast (get16 b (f + 2)))"

definition set32 :: "u16 \<Rightarrow> u32 \<Rightarrow> bda \<Rightarrow> bda" where
  "set32 f v b = set16 (f + 2) (ucast (drop_bit 16 v)) (set16 f (ucast v) b)"

text \<open>What is read back, and what a store leaves alone.\<close>

lemma plus_1_neq [simp]: "(f :: u16) + 1 \<noteq> f" "f \<noteq> f + 1"
  by simp_all

lemma get16_set16 [simp]: "get16 (set16 f v b) f = v"
  by (simp add: get16_def set16_def)

lemma set16_other: "a \<noteq> f \<Longrightarrow> a \<noteq> f + 1 \<Longrightarrow> set16 f v b a = b a"
  by (simp add: set16_def)

lemma get16_cong: "b f = b' f \<Longrightarrow> b (f + 1) = b' (f + 1) \<Longrightarrow> get16 b f = get16 b' f"
  by (simp add: get16_def)

lemma get16_upd_other: "a \<noteq> f \<Longrightarrow> a \<noteq> f + 1 \<Longrightarrow> get16 (b(a := v)) f = get16 b f"
  by (simp add: get16_def)

lemma get16_set16_other: "g \<noteq> f \<Longrightarrow> g \<noteq> f + 1 \<Longrightarrow> g + 1 \<noteq> f \<Longrightarrow> get16 (set16 f v b) g = get16 b g"
  by (simp add: get16_def set16_def)

end
