(* ===== verification/Lowmem.thy ===== *)
theory Lowmem
  imports Bda
begin

text \<open>
  The memory below 1 MB that the services share, as a part of the world: \<open>farptr.h\<close> and \<open>biosvar.h\<close> of
  SeaBIOS. Threads, interrupt handlers and interrupts that are called may change it like everything else of the
  world. The variables that the code declares as \<open>VARLOW\<close> live there too; they are fields of their own.
\<close>

record 'v low =
  ram :: "u32 \<Rightarrow> u8"
  Century :: u8
  RTCusers :: u32
  int1c_reentry :: u8
  dev :: 'v

section \<open>Far pointers\<close>

definition SEG_IVT :: u16 where "SEG_IVT = 0x0000"
definition SEG_BDA :: u16 where "SEG_BDA = 0x0040"

definition seg_addr :: "u16 \<Rightarrow> u16 \<Rightarrow> u32" where
  "seg_addr seg off = push_bit 4 (ucast seg) + ucast off"

definition GET_FARVAR :: "u16 \<Rightarrow> u16 \<Rightarrow> ('v low, 'z) mach_scheme \<Rightarrow> u8" where
  "GET_FARVAR seg off s = ram (wd s) (seg_addr seg off)"

definition SET_FARVAR :: "u16 \<Rightarrow> u16 \<Rightarrow> u8 \<Rightarrow> ('v low, 'z) mach_scheme \<Rightarrow> ('v low, 'z) mach_scheme" where
  "SET_FARVAR seg off v s = s\<lparr>wd := (wd s)\<lparr>ram := (ram (wd s))(seg_addr seg off := v)\<rparr>\<rparr>"

section \<open>The interrupt vectors\<close>

text \<open>\<open>SET_IVT\<close>: a vector is the offset and the segment of its handler.\<close>

definition SET_IVT :: "u8 \<Rightarrow> u16 \<times> u16 \<Rightarrow> ('v low, 'z) mach_scheme \<Rightarrow> ('v low, 'z) mach_scheme" where
  "SET_IVT vector func s =
     (let off = 4 * ucast vector; s = SET_FARVAR SEG_IVT off (lo8 (snd func)) s;
          s = SET_FARVAR SEG_IVT (off + 1) (hi8 (snd func)) s; s = SET_FARVAR SEG_IVT (off + 2) (lo8 (fst func)) s
      in SET_FARVAR SEG_IVT (off + 3) (hi8 (fst func)) s)"

definition GET_IVT :: "u8 \<Rightarrow> ('v low, 'z) mach_scheme \<Rightarrow> u16 \<times> u16" where
  "GET_IVT vector s =
     (let off = 4 * ucast vector in (le16 (GET_FARVAR SEG_IVT (off + 2) s) (GET_FARVAR SEG_IVT (off + 3) s),
        le16 (GET_FARVAR SEG_IVT off s) (GET_FARVAR SEG_IVT (off + 1) s)))"

section \<open>The BIOS data area in memory\<close>

definition bda_of :: "'v low \<Rightarrow> bda" where
  "bda_of w = (\<lambda>f. ram w (seg_addr SEG_BDA f))"

definition upd_bda :: "(bda \<Rightarrow> bda) \<Rightarrow> ('v low, 'z) mach_scheme \<Rightarrow> ('v low, 'z) mach_scheme" where
  "upd_bda g s = s\<lparr>wd := (wd s)\<lparr>ram :=
     (\<lambda>a. if a - 0x400 < 0x10000 then g (bda_of (wd s)) (ucast (a - 0x400)) else ram (wd s) a)\<rparr>\<rparr>"

abbreviation bda8 :: "u16 \<Rightarrow> ('v low, 'z) mach_scheme \<Rightarrow> u8" where "bda8 f s \<equiv> bda_of (wd s) f"
abbreviation bda32 :: "u16 \<Rightarrow> ('v low, 'z) mach_scheme \<Rightarrow> u32" where "bda32 f s \<equiv> get32 (bda_of (wd s)) f"
abbreviation set_bda8 :: "u16 \<Rightarrow> u8 \<Rightarrow> ('v low, 'z) mach_scheme \<Rightarrow> ('v low, 'z) mach_scheme" where
  "set_bda8 f v \<equiv> upd_bda (\<lambda>b. b(f := v))"
abbreviation set_bda32 :: "u16 \<Rightarrow> u32 \<Rightarrow> ('v low, 'z) mach_scheme \<Rightarrow> ('v low, 'z) mach_scheme" where
  "set_bda32 f v \<equiv> upd_bda (set32 f v)"

lemma bda_address: "seg_addr SEG_BDA f - 0x400 < 0x10000" "ucast (seg_addr SEG_BDA f - 0x400) = f"
proof -
  have "seg_addr SEG_BDA f - 0x400 = (ucast f :: u32)" by (simp add: seg_addr_def SEG_BDA_def)
  moreover have lt: "unat f < 65536"
  proof -
    have "unat f < 2 ^ LENGTH(16)" by (rule unsigned_less)
    then show ?thesis by simp
  qed
  moreover from lt have "take_bit 32 (unat f) = unat f" "take_bit 16 (unat f) = unat f" by (simp_all add: take_bit_nat_eq_self)
  ultimately show "seg_addr SEG_BDA f - 0x400 < 0x10000" "ucast (seg_addr SEG_BDA f - 0x400) = f"
    by (simp_all add: word_less_nat_alt unsigned_ucast_eq word_unat_eq_iff)
qed

lemma bda_upd [simp]: "bda_of (wd (upd_bda g s)) = g (bda_of (wd s))"
proof (rule ext)
  fix f
  show "bda_of (wd (upd_bda g s)) f = g (bda_of (wd s)) f"
    unfolding bda_of_def [of "wd (upd_bda g s)"] by (simp add: upd_bda_def bda_address)
qed

lemma upd_bda_frame [simp]:
  "Century (wd (upd_bda g s)) = Century (wd s)" "RTCusers (wd (upd_bda g s)) = RTCusers (wd s)"
  "int1c_reentry (wd (upd_bda g s)) = int1c_reentry (wd s)" "dev (wd (upd_bda g s)) = dev (wd s)"
  "TimerKHz (upd_bda g s) = TimerKHz s" "TimerPort (upd_bda g s) = TimerPort s" "ShiftTSC (upd_bda g s) = ShiftTSC s"
  by (simp_all add: upd_bda_def)

section \<open>Results in the registers\<close>

text \<open>\<open>bregs.h\<close>; the variants with debug output of \<open>output.c\<close> set the same registers.\<close>

definition set_cf :: "bool \<Rightarrow> 'r bregs_scheme \<Rightarrow> 'r bregs_scheme" where
  "set_cf c r = r\<lparr>br_flags := (if c then br_flags r OR F_CF else br_flags r AND NOT F_CF)\<rparr>"

definition RET_EUNSUPPORTED :: u8 where "RET_EUNSUPPORTED = 0x86"

definition set_success :: "'r bregs_scheme \<Rightarrow> 'r bregs_scheme" where
  "set_success r = set_cf False r"

definition set_code_success :: "'r bregs_scheme \<Rightarrow> 'r bregs_scheme" where
  "set_code_success r = set_cf False (r\<lparr>br_ah := 0\<rparr>)"

definition set_invalid :: "'r bregs_scheme \<Rightarrow> 'r bregs_scheme" where
  "set_invalid r = set_cf True r"

definition set_unimplemented :: "'r bregs_scheme \<Rightarrow> 'r bregs_scheme" where
  "set_unimplemented r = set_cf True r"

definition set_code_invalid :: "u8 \<Rightarrow> 'r bregs_scheme \<Rightarrow> 'r bregs_scheme" where
  "set_code_invalid code r = set_cf True (r\<lparr>br_ah := code\<rparr>)"

definition set_code_unimplemented :: "u8 \<Rightarrow> 'r bregs_scheme \<Rightarrow> 'r bregs_scheme" where
  "set_code_unimplemented code r = set_cf True (r\<lparr>br_ah := code\<rparr>)"

lemma cf_simps [simp]:
  "(br_flags (set_cf c r) AND F_CF \<noteq> 0) = c" "br_al (set_cf c r) = br_al r" "br_ah (set_cf c r) = br_ah r"
  "br_ch (set_cf c r) = br_ch r" "br_cl (set_cf c r) = br_cl r" "br_dh (set_cf c r) = br_dh r" "br_dl (set_cf c r) = br_dl r"
proof -
  have "(f AND NOT F_CF) AND F_CF = 0" "(f OR F_CF) AND F_CF \<noteq> 0" for f
    by (auto simp: F_CF_def and.assoc bit.conj_disj_distrib2)
  then show "(br_flags (set_cf c r) AND F_CF \<noteq> 0) = c" by (simp add: set_cf_def)
qed (simp_all add: set_cf_def)

end
