(* ===== verification/Block.thy ===== *)
theory Block
  imports Lowmem Cstring
begin

text \<open>
  Drives, \<open>seabios/src/block.c\<close> and the emulation of a disk by a CD, \<open>cdrom.c\<close>: geometry, the tables of
  drives, the parameters that the extended interface reports, and the passing of requests to the drivers. A pointer
  to a drive is its address, 0 is none; \<open>drives\<close> is the memory behind the pointers. The drivers are the parameter
  \<open>drv\<close>: what a request returns (status, sectors done, state). \<open>None\<close> is an access out of an array, or a call
  that does not return.
\<close>

section \<open>Data\<close>

record chs_s =
  head :: u16
  cylinder :: u16
  sector :: u16

record drive_s =
  drive_type :: u8
  floppy_type :: u8
  lchs :: chs_s
  drive_sectors :: u64
  cntl_id :: u32
  removable :: u8
  translation :: u8
  blksize :: u16
  pchs :: chs_s

record disk_op_s =
  op_lba :: u64
  buf_fl :: u32
  op_drive :: u32
  op_count :: u16
  op_command :: u8

record eltorito_s =
  media :: u8
  emulated_drive :: u8
  controller_index :: u8
  ilba :: u32
  device_spec :: u16
  buffer_segment :: u16
  load_segment :: u16
  sector_count :: u16
  chs_heads :: u8
  chs_sptcyl :: u8
  chs_cyllow :: u8

record 'w disk_mach = "'w mach" +
  drives :: "u32 \<Rightarrow> drive_s"
  IDMap :: "u32 list list"
  FloppyCount :: u8
  CDCount :: u8
  bounce_buf_fl :: u32
  CDEmu :: eltorito_s
  emulated_drive_gf :: u32
  cdemu_drive_gf :: u32
  CDRom_locks :: "u8 list"

text \<open>What \<open>container_of\<close> finds around an ATA drive, and the drivers.\<close>

record ata_port =
  slave :: u8
  iobase1 :: u16
  iobase2 :: u16
  ata_irq :: u8
  pci_bdf :: int
  chanid :: u8

type_synonym 's driver = "disk_op_s \<Rightarrow> 's \<Rightarrow> int \<times> u16 \<times> 's"

record 's drivers =
  floppy_op :: "'s driver"
  ata_op :: "'s driver"
  ramdisk_op :: "'s driver"
  virtio_blk_op :: "'s driver"
  ahci_op :: "'s driver"
  atapi_cmd_data :: "u8 list \<Rightarrow> u16 \<Rightarrow> 's driver"
  usb_cmd_data :: "u8 list \<Rightarrow> u16 \<Rightarrow> 's driver"
  uas_cmd_data :: "u8 list \<Rightarrow> u16 \<Rightarrow> 's driver"
  virtio_scsi_cmd_data :: "u8 list \<Rightarrow> u16 \<Rightarrow> 's driver"
  lsi_scsi_cmd_data :: "u8 list \<Rightarrow> u16 \<Rightarrow> 's driver"
  esp_scsi_cmd_data :: "u8 list \<Rightarrow> u16 \<Rightarrow> 's driver"
  megasas_cmd_data :: "u8 list \<Rightarrow> u16 \<Rightarrow> 's driver"
  pvscsi_cmd_data :: "u8 list \<Rightarrow> u16 \<Rightarrow> 's driver"
  ahci_cmd_data :: "u8 list \<Rightarrow> u16 \<Rightarrow> 's driver"

section \<open>Constants\<close>

definition CMD_RESET :: u8 where "CMD_RESET = 0x00"
definition CMD_READ :: u8 where "CMD_READ = 0x02"
definition CMD_WRITE :: u8 where "CMD_WRITE = 0x03"
definition CMD_VERIFY :: u8 where "CMD_VERIFY = 0x04"
definition CMD_FORMAT :: u8 where "CMD_FORMAT = 0x05"
definition CMD_SEEK :: u8 where "CMD_SEEK = 0x07"
definition CMD_ISREADY :: u8 where "CMD_ISREADY = 0x10"

definition DTYPE_FLOPPY :: u8 where "DTYPE_FLOPPY = 0x10"
definition DTYPE_ATA :: u8 where "DTYPE_ATA = 0x20"
definition DTYPE_ATA_ATAPI :: u8 where "DTYPE_ATA_ATAPI = 0x21"
definition DTYPE_RAMDISK :: u8 where "DTYPE_RAMDISK = 0x30"
definition DTYPE_CDEMU :: u8 where "DTYPE_CDEMU = 0x40"
definition DTYPE_AHCI :: u8 where "DTYPE_AHCI = 0x50"
definition DTYPE_AHCI_ATAPI :: u8 where "DTYPE_AHCI_ATAPI = 0x51"
definition DTYPE_VIRTIO_SCSI :: u8 where "DTYPE_VIRTIO_SCSI = 0x60"
definition DTYPE_VIRTIO_BLK :: u8 where "DTYPE_VIRTIO_BLK = 0x61"
definition DTYPE_USB :: u8 where "DTYPE_USB = 0x70"
definition DTYPE_USB_32 :: u8 where "DTYPE_USB_32 = 0x71"
definition DTYPE_UAS :: u8 where "DTYPE_UAS = 0x72"
definition DTYPE_UAS_32 :: u8 where "DTYPE_UAS_32 = 0x73"
definition DTYPE_LSI_SCSI :: u8 where "DTYPE_LSI_SCSI = 0x80"
definition DTYPE_ESP_SCSI :: u8 where "DTYPE_ESP_SCSI = 0x81"
definition DTYPE_MEGASAS :: u8 where "DTYPE_MEGASAS = 0x82"
definition DTYPE_PVSCSI :: u8 where "DTYPE_PVSCSI = 0x83"

definition TRANSLATION_NONE :: u8 where "TRANSLATION_NONE = 0"
definition TRANSLATION_LBA :: u8 where "TRANSLATION_LBA = 1"
definition TRANSLATION_LARGE :: u8 where "TRANSLATION_LARGE = 2"
definition TRANSLATION_RECHS :: u8 where "TRANSLATION_RECHS = 3"

definition EXTTYPE_FLOPPY :: nat where "EXTTYPE_FLOPPY = 0"
definition EXTTYPE_HD :: nat where "EXTTYPE_HD = 1"
definition EXTTYPE_CD :: nat where "EXTTYPE_CD = 2"
definition EXTSTART_HD :: u8 where "EXTSTART_HD = 0x80"
definition EXTSTART_CD :: u8 where "EXTSTART_CD = 0xE0"
definition BUILD_MAX_EXTDRIVE :: nat where "BUILD_MAX_EXTDRIVE = 16"

definition DISK_RET_SUCCESS :: int where "DISK_RET_SUCCESS = 0x00"
definition DISK_RET_EPARAM :: int where "DISK_RET_EPARAM = 0x01"
definition DISK_RET_EWRITEPROTECT :: int where "DISK_RET_EWRITEPROTECT = 0x03"

text \<open>The fields of a drive that has just been allocated.\<close>

definition no_drive :: drive_s where
  "no_drive = \<lparr>drive_type = 0, floppy_type = 0, lchs = \<lparr>head = 0, cylinder = 0, sector = 0\<rparr>, drive_sectors = 0, cntl_id = 0,
     removable = 0, translation = 0, blksize = 0, pchs = \<lparr>head = 0, cylinder = 0, sector = 0\<rparr>\<rparr>"

section \<open>The tables of drives\<close>

definition getDrive :: "nat \<Rightarrow> u8 \<Rightarrow> ('w, 'z) disk_mach_scheme \<Rightarrow> u32 option" where
  "getDrive exttype off s =
     (if BUILD_MAX_EXTDRIVE \<le> unat off then Some 0
      else do { row \<leftarrow> arr_get (IDMap s) (int exttype); arr_get row (uint off) })"

fun getDriveId_loop :: "nat \<Rightarrow> u32 \<Rightarrow> nat \<Rightarrow> nat \<Rightarrow> ('w, 'z) disk_mach_scheme \<Rightarrow> int option" where
  "getDriveId_loop exttype drive i 0 s = Some (- 1)"
| "getDriveId_loop exttype drive i (Suc n) s =
     do { d \<leftarrow> getDrive exttype (of_nat i) s;
          if d = drive then Some (int i) else getDriveId_loop exttype drive (i + 1) n s }"

definition getDriveId :: "nat \<Rightarrow> u32 \<Rightarrow> ('w, 'z) disk_mach_scheme \<Rightarrow> int option" where
  "getDriveId exttype drive s = getDriveId_loop exttype drive 0 BUILD_MAX_EXTDRIVE s"

text \<open>\<open>add_drive\<close> on one row of the table and its count.\<close>

definition add_drive :: "u32 list \<Rightarrow> u8 \<Rightarrow> u32 \<Rightarrow> u32 list \<times> u8" where
  "add_drive idmap count drive =
     (if BUILD_MAX_EXTDRIVE \<le> unat count then (idmap, count) else (idmap[unat count := drive], count + 1))"

section \<open>Geometry\<close>

definition get_translation :: "drive_s \<Rightarrow> u8" where
  "get_translation drive =
     (let heads = head (pchs drive); cylinders = cylinder (pchs drive); spt = sector (pchs drive);
          psectors = ucast heads * ucast cylinders * ucast spt :: u64
      in if heads = 0 \<or> cylinders = 0 \<or> spt = 0 \<or> drive_sectors drive < psectors then TRANSLATION_LBA
         else if cylinders \<le> 1024 \<and> heads \<le> 16 \<and> spt \<le> 63 then TRANSLATION_NONE
         else if sint (ucast cylinders * ucast heads :: 32 word) \<le> 131072 then TRANSLATION_LARGE
         else TRANSLATION_LBA)"

text \<open>The bit shift process: the number of halvings is at most 16.\<close>

function large_loop :: "u16 \<Rightarrow> u16 \<Rightarrow> u16 \<times> u16" where
  "large_loop cylinders heads =
     (if 1024 < cylinders
      then (let cylinders = drop_bit 1 cylinders; heads = push_bit 1 heads
            in if 127 < heads then (cylinders, heads) else large_loop cylinders heads)
      else (cylinders, heads))"
  by pat_completeness auto
termination
  by (relation "measure (\<lambda>(c, h). unat c)") (auto simp: word_less_nat_alt drop_bit_eq_div unat_div)

declare large_loop.simps [simp del]

definition lba_heads :: "u16 \<Rightarrow> u16" where
  "lba_heads heads = (if 128 < heads then 255 else if 64 < heads then 128 else if 32 < heads then 64 else if 16 < heads then 32 else 16)"

definition translate :: "u8 \<Rightarrow> u64 \<Rightarrow> chs_s \<Rightarrow> u16 \<times> u16 \<times> u16" where
  "translate tr nsectors p =
     (let heads = head p; cylinders = cylinder p; spt = sector p
      in if tr = TRANSLATION_LBA
         then (if 63 * 255 * 1024 < nsectors then (1024, 255, 63)
               else (let sect = (ucast nsectors :: u32) div 63; heads = lba_heads (ucast (sect div 1024))
                     in (ucast (sect div ucast heads), heads, 63)))
         else if tr = TRANSLATION_RECHS \<or> tr = TRANSLATION_LARGE
         then (let (cylinders, heads) =
                     (if tr = TRANSLATION_RECHS \<and> heads = 16
                      then (let cylinders = (if 61439 < cylinders then 61439 else cylinders)
                            in (ucast (ucast cylinders * 16 div 15 :: u32), 15))
                      else (cylinders, heads));
                   (cylinders, heads) = large_loop cylinders heads
               in (cylinders, heads, spt))
         else (cylinders, heads, spt))"

definition setup_translation :: "drive_s \<Rightarrow> drive_s" where
  "setup_translation drive =
     (let tr = get_translation drive;
          (cylinders, heads, spt) = translate tr (drive_sectors drive) (pchs drive);
          cylinders = (if 1024 < cylinders then 1024 else cylinders)
      in drive\<lparr>translation := tr, lchs := \<lparr>head = heads, cylinder = cylinders, sector = spt\<rparr>\<rparr>)"

section \<open>Memory\<close>

definition put_far :: "u16 \<Rightarrow> u16 \<Rightarrow> u8 list \<Rightarrow> ('v low, 'z) mach_scheme \<Rightarrow> ('v low, 'z) mach_scheme" where
  "put_far seg off bs s = fold (\<lambda>(i, b). SET_FARVAR seg (off + of_nat i) b) (enumerate 0 bs) s"

definition get_far16 :: "u16 \<Rightarrow> u16 \<Rightarrow> ('v low, 'z) mach_scheme \<Rightarrow> u16" where
  "get_far16 seg off s = le16 (GET_FARVAR seg off s) (GET_FARVAR seg (off + 1) s)"

definition get_far32 :: "u16 \<Rightarrow> u16 \<Rightarrow> ('v low, 'z) mach_scheme \<Rightarrow> u32" where
  "get_far32 seg off s = ucast (get_far16 seg off s) OR push_bit 16 (ucast (get_far16 seg (off + 2) s))"

definition get_far64 :: "u16 \<Rightarrow> u16 \<Rightarrow> ('v low, 'z) mach_scheme \<Rightarrow> u64" where
  "get_far64 seg off s = ucast (get_far32 seg off s) OR push_bit 32 (ucast (get_far32 seg (off + 4) s))"

definition bytes16 :: "u16 \<Rightarrow> u8 list" where "bytes16 v = [lo8 v, hi8 v]"
definition bytes32 :: "u32 \<Rightarrow> u8 list" where "bytes32 v = bytes16 (ucast v) @ bytes16 (ucast (drop_bit 16 v))"
definition bytes64 :: "u64 \<Rightarrow> u8 list" where "bytes64 v = bytes32 (ucast v) @ bytes32 (ucast (drop_bit 32 v))"

definition MAKE_FLATPTR :: "u16 \<Rightarrow> u16 \<Rightarrow> u32" where
  "MAKE_FLATPTR seg off = seg_addr seg off"

text \<open>\<open>checksum_far\<close>, with an offset that does not wrap around, and \<open>memcpy_fl\<close>.\<close>

definition checksum_far :: "u16 \<Rightarrow> u16 \<Rightarrow> nat \<Rightarrow> ('v low, 'z) mach_scheme \<Rightarrow> u8" where
  "checksum_far seg off len s = fold (\<lambda>i acc. acc + GET_FARVAR seg (off + of_nat i) s) [0..<len] 0"

definition memcpy_fl :: "u32 \<Rightarrow> u32 \<Rightarrow> nat \<Rightarrow> ('v low, 'z) mach_scheme \<Rightarrow> ('v low, 'z) mach_scheme" where
  "memcpy_fl d src len s = s\<lparr>wd := (wd s)\<lparr>ram := movsb (ram (wd s)) d src len\<rparr>\<rparr>"

section \<open>Mapping\<close>

definition get_ebda_seg :: "('v low, 'z) mach_scheme \<Rightarrow> u16" where
  "get_ebda_seg s = get16 (bda_of (wd s)) ebda_seg"

definition set_equipment_flags :: "u16 \<Rightarrow> u16 \<Rightarrow> ('v low, 'z) mach_scheme \<Rightarrow> ('v low, 'z) mach_scheme" where
  "set_equipment_flags clear on s =
     (let eqf = get16 (bda_of (wd s)) equipment_list_flags
      in upd_bda (set16 equipment_list_flags ((eqf AND NOT clear) OR on)) s)"

text \<open>The fixed disk parameter table: \<open>f\<close> is its offset in the extended data area.\<close>

definition fdpt_extended :: "drive_s \<Rightarrow> bool" where
  "fdpt_extended drive \<longleftrightarrow> cylinder (lchs drive) \<noteq> cylinder (pchs drive) \<or> head (lchs drive) \<noteq> head (pchs drive) \<or>
     sector (lchs drive) \<noteq> sector (pchs drive)"

definition fill_fdpt_fields :: "drive_s \<Rightarrow> u16 \<Rightarrow> u16 \<Rightarrow> ('v low, 'z) mach_scheme \<Rightarrow> ('v low, 'z) mach_scheme" where
  "fill_fdpt_fields drive seg f s =
     (let l = lchs drive; p = pchs drive;
          s = put_far seg (f + 5) (bytes16 0xffff) s;
          s = SET_FARVAR seg (f + 8) (0xc0 OR (if 8 < head p then 8 else 0)) s;
          s = put_far seg (f + 12) (bytes16 (cylinder p)) s;
          s = put_far seg f (bytes16 (cylinder l)) s;
          s = SET_FARVAR seg (f + 2) (ucast (head l)) s;
          s = SET_FARVAR seg (f + 14) (ucast (sector l)) s
      in if fdpt_extended drive
         then (let s = put_far seg (f + 9) (bytes16 (cylinder p)) s;
                   s = SET_FARVAR seg (f + 11) (ucast (head p)) s;
                   s = SET_FARVAR seg (f + 4) (ucast (sector p)) s;
                   s = SET_FARVAR seg (f + 3) 0xa0 s
               in SET_FARVAR seg (f + 15) (GET_FARVAR seg (f + 15) s - checksum_far seg f 16 s) s)
         else s)"

definition fill_fdpt :: "drive_s \<Rightarrow> nat \<Rightarrow> ('v low, 'z) mach_scheme \<Rightarrow> ('v low, 'z) mach_scheme" where
  "fill_fdpt drive hdid s =
     (if 1 < hdid then s
      else (let seg = get_ebda_seg s; f = 0x3d + 16 * of_nat hdid; s = fill_fdpt_fields drive seg f s
            in SET_IVT (if hdid = 0 then 0x41 else 0x46) (seg, f) s))"

definition map_row :: "nat \<Rightarrow> u8 \<Rightarrow> u32 \<Rightarrow> ('w, 'z) disk_mach_scheme \<Rightarrow> (u8 \<times> ('w, 'z) disk_mach_scheme) option" where
  "map_row exttype count drive s =
     do {
       row \<leftarrow> arr_get (IDMap s) (int exttype);
       let (row, count) = add_drive row count drive;
       Some (count, s\<lparr>IDMap := (IDMap s)[exttype := row]\<rparr>)
     }"

definition map_hd_drive :: "u32 \<Rightarrow> ('v low, 'z) disk_mach_scheme \<Rightarrow> ('v low, 'z) disk_mach_scheme option" where
  "map_hd_drive drive s =
     do {
       let hdid = bda8 hdcount s;
       (count, s) \<leftarrow> map_row EXTTYPE_HD hdid drive s;
       let s = set_bda8 hdcount count s;
       let s = s\<lparr>drives := (drives s)(drive := setup_translation (drives s drive))\<rparr>;
       Some (fill_fdpt (drives s drive) (unat hdid) s)
     }"

definition map_cd_drive :: "u32 \<Rightarrow> ('v low, 'z) disk_mach_scheme \<Rightarrow> ('v low, 'z) disk_mach_scheme option" where
  "map_cd_drive drive s =
     do { (count, s) \<leftarrow> map_row EXTTYPE_CD (CDCount s) drive s; Some (s\<lparr>CDCount := count\<rparr>) }"

definition map_floppy_drive :: "u32 \<Rightarrow> ('v low, 'z) disk_mach_scheme \<Rightarrow> ('v low, 'z) disk_mach_scheme option" where
  "map_floppy_drive drive s =
     do {
       (count, s) \<leftarrow> map_row EXTTYPE_FLOPPY (FloppyCount s) drive s;
       let s = s\<lparr>FloppyCount := count\<rparr>;
       Some (if count = 1 then set_bda8 floppy_harddisk_info 0x07 (set_equipment_flags 0x41 0x01 s)
             else if 2 \<le> count then set_bda8 floppy_harddisk_info 0x77 (set_equipment_flags 0x41 0x41 s)
             else s)
     }"

section \<open>Drive parameters of the extended interface\<close>

text \<open>
  The caller's buffer is a \<open>struct int13dpt_s\<close> at \<open>seg:p\<close>. The addresses of \<open>DefaultDPTE\<close> and of the floppy table in
  the ROM, and the channel of an ATA drive, are constants \<open>k\<close>.
\<close>

record disk_consts =
  dpte_at :: "u16 \<times> u16"
  diskette_param_table2 :: u16
  ata_port_of :: "u32 \<Rightarrow> ata_port"

definition ATA_CB_DC :: u16 where "ATA_CB_DC = 2"
definition ATA_CB_DH_DEV0 :: u8 where "ATA_CB_DH_DEV0 = 0xa0"
definition ATA_CB_DH_DEV1 :: u8 where "ATA_CB_DH_DEV1 = 0xb0"
definition ATA_CB_DH_LBA :: u8 where "ATA_CB_DH_LBA = 0x40"

definition chars :: "string \<Rightarrow> u8 list" where
  "chars = map (\<lambda>c. of_nat (of_char c))"

definition edd_1 :: "u16 \<Rightarrow> u16 \<Rightarrow> drive_s \<Rightarrow> ('v low, 'z) mach_scheme \<Rightarrow> ('v low, 'z) mach_scheme" where
  "edd_1 seg p drive s =
     (let lba = drive_sectors drive; nps = sector (pchs drive); nph = head (pchs drive); npc = cylinder (pchs drive);
          s = put_far seg p (bytes16 26) s;
          s = (if lba = NOT 0
               then (let s = put_far seg (p + 2) (bytes16 0x74) s; s = put_far seg (p + 4) (bytes32 0xffffffff) s;
                         s = put_far seg (p + 8) (bytes32 0xffffffff) s
                     in put_far seg (p + 12) (bytes32 0xffffffff) s)
               else (let s = (if ucast nps * ucast nph * 0x3fff < lba
                              then put_far seg (p + 4) (bytes32 0x3fff) (put_far seg (p + 2) (bytes16 0x00) s)
                              else put_far seg (p + 4) (bytes32 (ucast npc)) (put_far seg (p + 2) (bytes16 0x02) s));
                         s = put_far seg (p + 8) (bytes32 (ucast nph)) s
                     in put_far seg (p + 12) (bytes32 (ucast nps)) s));
          s = put_far seg (p + 16) (bytes64 lba) s
      in put_far seg (p + 24) (bytes16 (blksize drive)) s)"

definition edd_path :: "bool \<Rightarrow> int \<Rightarrow> u8 \<Rightarrow> u32" where
  "edd_path t13 bdf channel =
     (let b = word_of_int bdf :: u16;
          path = ucast (drop_bit 8 b) OR push_bit 8 (ucast (drop_bit 3 b AND 0x1f)) OR push_bit 16 (ucast (b AND 7))
      in if t13 then path OR push_bit 24 (ucast channel) else path)"

definition edd_3 :: "u16 \<Rightarrow> u16 \<Rightarrow> bool \<Rightarrow> string \<Rightarrow> int \<Rightarrow> u8 \<Rightarrow> u16 \<Rightarrow> u64 \<Rightarrow> ('v low, 'z) mach_scheme \<Rightarrow> ('v low, 'z) mach_scheme" where
  "edd_3 seg p t13 iface_type bdf channel iobase device_path s =
     (let s = put_far seg (p + 30) (bytes16 0xbedd) s; s = SET_FARVAR seg (p + 32) (if t13 then 44 else 36) s;
          s = SET_FARVAR seg (p + 33) 0 s; s = put_far seg (p + 34) (bytes16 0) s;
          s = put_far seg (p + 40) (chars iface_type) s;
          s = (if bdf \<noteq> - 1
               then put_far seg (p + 48) (bytes64 (ucast (edd_path t13 bdf channel))) (put_far seg (p + 36) (chars ''PCI '') s)
               else put_far seg (p + 48) (bytes64 (ucast iobase)) (put_far seg (p + 36) (chars ''ISA '') s))
      in if t13
         then (let s = put_far seg (p + 56) (bytes64 device_path) s; s = put_far seg (p + 64) (bytes64 0) s
               in SET_FARVAR seg (p + 73) (- checksum_far seg (p + 30) 43 s) s)
         else (let s = put_far seg (p + 56) (bytes64 device_path) s
               in SET_FARVAR seg (p + 65) (- checksum_far seg (p + 30) 35 s) s))"

definition fill_generic_edd :: "u16 \<Rightarrow> u16 \<Rightarrow> drive_s \<Rightarrow> u32 \<Rightarrow> string option \<Rightarrow> int \<Rightarrow> u8 \<Rightarrow> u16 \<Rightarrow> u64 \<Rightarrow>
    ('v low, 'z) mach_scheme \<Rightarrow> int \<times> ('v low, 'z) mach_scheme" where
  "fill_generic_edd seg p drive dpte_so iface_type bdf channel iobase device_path s =
     (let sz = get_far16 seg p s
      in if sz < 26 then (DISK_RET_EPARAM, s)
         else (let s = edd_1 seg p drive s
               in if sz < 30 \<or> dpte_so = 0 then (DISK_RET_SUCCESS, s)
                  else (let s = put_far seg p (bytes16 30) s; s = put_far seg (p + 26) (bytes32 dpte_so) s
                        in case iface_type of
                             None \<Rightarrow> (DISK_RET_SUCCESS, s)
                           | Some t \<Rightarrow>
                               if sz < 66 then (DISK_RET_SUCCESS, s)
                               else (DISK_RET_SUCCESS, edd_3 seg p (sz = 74) t bdf channel iobase device_path s))))"

definition ata_options :: "drive_s \<Rightarrow> u16" where
  "ata_options drive =
     (let tr = translation drive;
          o1 = (if drive_type drive = DTYPE_ATA
                then if tr \<noteq> TRANSLATION_NONE
                     then 0x8 OR (if tr = TRANSLATION_LBA then 0x200 else 0) OR (if tr = TRANSLATION_RECHS then 0x600 else 0)
                     else 0
                else 0x20 OR 0x40)
      in o1 OR 0x10 OR 0x80)"

definition fill_dpte :: "u16 \<times> u16 \<Rightarrow> ata_port \<Rightarrow> drive_s \<Rightarrow> ('v low, 'z) mach_scheme \<Rightarrow> ('v low, 'z) mach_scheme" where
  "fill_dpte d a drive s =
     (let (seg, p) = d;
          s = put_far seg p (bytes16 (iobase1 a)) s; s = put_far seg (p + 2) (bytes16 (iobase2 a + ATA_CB_DC)) s;
          s = SET_FARVAR seg (p + 4) ((if slave a \<noteq> 0 then ATA_CB_DH_DEV1 else ATA_CB_DH_DEV0) OR ATA_CB_DH_LBA) s;
          s = SET_FARVAR seg (p + 5) 0xcb s; s = SET_FARVAR seg (p + 6) (ata_irq a) s; s = SET_FARVAR seg (p + 7) 1 s;
          s = SET_FARVAR seg (p + 8) 0 s; s = SET_FARVAR seg (p + 9) 0 s; s = put_far seg (p + 10) (bytes16 (ata_options drive)) s;
          s = put_far seg (p + 12) (bytes16 0) s; s = SET_FARVAR seg (p + 14) 0x11 s
      in SET_FARVAR seg (p + 15) (- checksum_far seg p 15 s) s)"

definition fill_ata_edd :: "disk_consts \<Rightarrow> u16 \<Rightarrow> u16 \<Rightarrow> u32 \<Rightarrow> ('v low, 'z) disk_mach_scheme \<Rightarrow> int \<times> ('v low, 'z) disk_mach_scheme" where
  "fill_ata_edd k seg p d s =
     (let a = ata_port_of k d; drive = drives s d; s = fill_dpte (dpte_at k) a drive s
      in fill_generic_edd seg p drive (push_bit 16 (ucast (fst (dpte_at k))) OR ucast (snd (dpte_at k)))
           (Some ''ATA     '') (pci_bdf a) (chanid a) (iobase1 a) (ucast (slave a)) s)"

definition fill_edd :: "disk_consts \<Rightarrow> u16 \<Rightarrow> u16 \<Rightarrow> u32 \<Rightarrow> ('v low, 'z) disk_mach_scheme \<Rightarrow> int \<times> ('v low, 'z) disk_mach_scheme" where
  "fill_edd k seg p d s =
     (let drive = drives s d; t = drive_type drive
      in if t = DTYPE_ATA \<or> t = DTYPE_ATA_ATAPI then fill_ata_edd k seg p d s
         else if t = DTYPE_VIRTIO_BLK \<or> t = DTYPE_VIRTIO_SCSI
         then fill_generic_edd seg p drive 0xffffffff (Some ''SCSI    '') (sint (cntl_id drive)) 0 0 0 s
         else fill_generic_edd seg p drive 0 None 0 0 0 0 s)"

section \<open>Reading and writing with SCSI commands\<close>

text \<open>
  The commands of \<open>hw/blockcmd.c\<close> are sequences of bytes; the drivers get them with the size of a block. \<open>m\<close> is
  \<open>MODESEGMENT\<close>: the code is compiled for 16-bit and for 32-bit mode, and some drivers exist only in the latter.
\<close>

definition swab16 :: "u16 \<Rightarrow> u16" where
  "swab16 v = push_bit 8 v OR drop_bit 8 v"

definition swab32 :: "u32 \<Rightarrow> u32" where
  "swab32 v = push_bit 24 v OR push_bit 8 (v AND 0xff00) OR drop_bit 8 (v AND 0xff0000) OR drop_bit 24 v"

definition CDB_CMD_READ_10 :: u8 where "CDB_CMD_READ_10 = 0x28"
definition CDB_CMD_WRITE_10 :: u8 where "CDB_CMD_WRITE_10 = 0x2a"

definition cdb_rwdata_10 :: "u8 \<Rightarrow> u32 \<Rightarrow> u16 \<Rightarrow> u8 list" where
  "cdb_rwdata_10 command lba count = [command, 0] @ bytes32 lba @ [0] @ bytes16 count @ replicate 7 0"

definition cdb_cmd_data :: "bool \<Rightarrow> ('v low, 'z) disk_mach_scheme drivers \<Rightarrow> u8 list \<Rightarrow> u16 \<Rightarrow> ('v low, 'z) disk_mach_scheme driver" where
  "cdb_cmd_data m drv cmd bs op s =
     (let t = drive_type (drives s (op_drive op))
      in if t = DTYPE_ATA_ATAPI then atapi_cmd_data drv cmd bs op s
         else if t = DTYPE_USB then usb_cmd_data drv cmd bs op s
         else if t = DTYPE_UAS then uas_cmd_data drv cmd bs op s
         else if t = DTYPE_VIRTIO_SCSI then virtio_scsi_cmd_data drv cmd bs op s
         else if t = DTYPE_LSI_SCSI then lsi_scsi_cmd_data drv cmd bs op s
         else if t = DTYPE_ESP_SCSI then esp_scsi_cmd_data drv cmd bs op s
         else if t = DTYPE_MEGASAS then megasas_cmd_data drv cmd bs op s
         else if t = DTYPE_USB_32 \<and> \<not> m then usb_cmd_data drv cmd bs op s
         else if t = DTYPE_UAS_32 \<and> \<not> m then uas_cmd_data drv cmd bs op s
         else if t = DTYPE_PVSCSI \<and> \<not> m then pvscsi_cmd_data drv cmd bs op s
         else if t = DTYPE_AHCI_ATAPI \<and> \<not> m then ahci_cmd_data drv cmd bs op s
         else (DISK_RET_EPARAM, op_count op, s))"

definition cdb_is_read :: "u8 list \<Rightarrow> u16 \<Rightarrow> bool" where
  "cdb_is_read cmd bs \<longleftrightarrow> bs \<noteq> 0 \<and> cmd ! 0 \<noteq> CDB_CMD_WRITE_10"

definition cdb_read :: "bool \<Rightarrow> ('v low, 'z) disk_mach_scheme drivers \<Rightarrow> ('v low, 'z) disk_mach_scheme driver" where
  "cdb_read m drv op s =
     cdb_cmd_data m drv (cdb_rwdata_10 CDB_CMD_READ_10 (swab32 (ucast (op_lba op))) (swab16 (op_count op)))
       (blksize (drives s (op_drive op))) op s"

definition cdb_write :: "bool \<Rightarrow> ('v low, 'z) disk_mach_scheme drivers \<Rightarrow> ('v low, 'z) disk_mach_scheme driver" where
  "cdb_write m drv op s =
     cdb_cmd_data m drv (cdb_rwdata_10 CDB_CMD_WRITE_10 (swab32 (ucast (op_lba op))) (swab16 (op_count op)))
       (blksize (drives s (op_drive op))) op s"

section \<open>Requests\<close>

definition process_scsi_op :: "bool \<Rightarrow> ('v low, 'z) disk_mach_scheme drivers \<Rightarrow> ('v low, 'z) disk_mach_scheme driver" where
  "process_scsi_op m drv op s =
     (if op_command op = CMD_READ then cdb_read m drv op s
      else if op_command op = CMD_WRITE then cdb_write m drv op s
      else if op_command op \<in> {CMD_FORMAT, CMD_RESET, CMD_ISREADY, CMD_VERIFY, CMD_SEEK}
      then (DISK_RET_SUCCESS, op_count op, s)
      else (DISK_RET_EPARAM, op_count op, s))"

definition process_atapi_op :: "bool \<Rightarrow> ('v low, 'z) disk_mach_scheme drivers \<Rightarrow> ('v low, 'z) disk_mach_scheme driver" where
  "process_atapi_op m drv op s =
     (if op_command op = CMD_WRITE \<or> op_command op = CMD_FORMAT then (DISK_RET_EWRITEPROTECT, op_count op, s)
      else process_scsi_op m drv op s)"

text \<open>A failed request that left the count alone has transferred nothing.\<close>

definition done_count :: "u16 \<Rightarrow> int \<times> u16 \<times> 's \<Rightarrow> int \<times> u16 \<times> 's" where
  "done_count orig r = (case r of (ret, count, s) \<Rightarrow> (ret, if ret \<noteq> 0 \<and> count = orig then 0 else count, s))"

text \<open>
  Requests to real drives. An emulated drive that is emulated in turn would call itself for ever.
\<close>

definition device_op :: "('v low, 'z) disk_mach_scheme drivers \<Rightarrow> disk_op_s \<Rightarrow> ('v low, 'z) disk_mach_scheme \<Rightarrow>
    (int \<times> u16 \<times> ('v low, 'z) disk_mach_scheme) option" where
  "device_op drv op s =
     (let t = drive_type (drives s (op_drive op))
      in if t = DTYPE_CDEMU then None
         else Some (done_count (op_count op)
           (if t = DTYPE_FLOPPY then floppy_op drv op s
            else if t = DTYPE_ATA then ata_op drv op s
            else if t = DTYPE_RAMDISK then ramdisk_op drv op s
            else if t = DTYPE_VIRTIO_BLK then virtio_blk_op drv op s
            else if t = DTYPE_AHCI then ahci_op drv op s
            else if t = DTYPE_ATA_ATAPI then process_atapi_op True drv op s
            else if t = DTYPE_AHCI_ATAPI then process_atapi_op False drv op s
            else if t \<in> {DTYPE_USB, DTYPE_UAS, DTYPE_VIRTIO_SCSI, DTYPE_LSI_SCSI, DTYPE_ESP_SCSI, DTYPE_MEGASAS}
            then process_scsi_op True drv op s
            else if t \<in> {DTYPE_USB_32, DTYPE_UAS_32, DTYPE_PVSCSI} then process_scsi_op False drv op s
            else (DISK_RET_EPARAM, op_count op, s))))"

section \<open>A disk on a CD\<close>

text \<open>The three parts of a read: \<open>dop\<close> is the request to the drive, \<open>count\<close> what is left, \<open>buf\<close> where it goes.\<close>

definition cd_first :: "('v low, 'z) disk_mach_scheme drivers \<Rightarrow> u64 \<Rightarrow> disk_op_s \<Rightarrow> int \<Rightarrow> u32 \<Rightarrow> ('v low, 'z) disk_mach_scheme \<Rightarrow>
    (int \<times> disk_op_s \<times> int \<times> u32 \<times> u16 \<times> ('v low, 'z) disk_mach_scheme) option" where
  "cd_first drv lba dop count buf s =
     (if lba AND 3 = 0 then Some (0, dop, count, buf, 0, s)
      else do {
        let cdbuf_fl = bounce_buf_fl s;
        (ret, _, s) \<leftarrow> device_op drv (dop\<lparr>op_count := 1, buf_fl := cdbuf_fl\<rparr>) s;
        if ret \<noteq> 0 then Some (ret, dop, count, buf, 0, s)
        else (let thiscount = min (4 - uint (lba AND 3)) count;
                  s = memcpy_fl buf (cdbuf_fl + ucast (lba AND 3) * 512) (nat thiscount * 512) s
              in Some (0, dop\<lparr>op_lba := op_lba dop + 1\<rparr>, count - thiscount, buf + word_of_int thiscount * 512,
                       word_of_int thiscount, s))
      })"

definition cd_blocks :: "('v low, 'z) disk_mach_scheme drivers \<Rightarrow> disk_op_s \<Rightarrow> int \<Rightarrow> u32 \<Rightarrow> ('v low, 'z) disk_mach_scheme \<Rightarrow>
    (int \<times> disk_op_s \<times> int \<times> u32 \<times> u16 \<times> ('v low, 'z) disk_mach_scheme) option" where
  "cd_blocks drv dop count buf s =
     (if count \<le> 3 then Some (0, dop, count, buf, 0, s)
      else do {
        (ret, n, s) \<leftarrow> device_op drv (dop\<lparr>op_count := word_of_int (count div 4), buf_fl := buf\<rparr>) s;
        if ret \<noteq> 0 then Some (ret, dop, count, buf, n * 4, s)
        else (let thiscount = word_of_int (count - count mod 4) :: u8
              in Some (0, dop\<lparr>op_lba := op_lba dop + ucast (thiscount div 4)\<rparr>, count mod 4, buf + ucast thiscount * 512, n * 4, s))
      })"

definition cd_last :: "('v low, 'z) disk_mach_scheme drivers \<Rightarrow> disk_op_s \<Rightarrow> int \<Rightarrow> u32 \<Rightarrow> ('v low, 'z) disk_mach_scheme \<Rightarrow>
    (int \<times> u16 \<times> ('v low, 'z) disk_mach_scheme) option" where
  "cd_last drv dop count buf s =
     (if count = 0 then Some (DISK_RET_SUCCESS, 0, s)
      else do {
        let cdbuf_fl = bounce_buf_fl s;
        (ret, _, s) \<leftarrow> device_op drv (dop\<lparr>op_count := 1, buf_fl := cdbuf_fl\<rparr>) s;
        if ret \<noteq> 0 then Some (ret, 0, s)
        else (let thiscount = word_of_int count :: u8
              in Some (DISK_RET_SUCCESS, ucast thiscount, memcpy_fl buf cdbuf_fl (unat thiscount * 512) s))
      })"

definition cdemu_read :: "('v low, 'z) disk_mach_scheme drivers \<Rightarrow> disk_op_s \<Rightarrow> ('v low, 'z) disk_mach_scheme \<Rightarrow>
    (int \<times> u16 \<times> ('v low, 'z) disk_mach_scheme) option" where
  "cdemu_read drv op s =
     do {
       let dop = op\<lparr>op_drive := emulated_drive_gf s, op_lba := ucast (ilba (CDEmu s)) + op_lba op div 4\<rparr>;
       (ret, dop, count, buf, n1, s) \<leftarrow> cd_first drv (op_lba op) dop (uint (op_count op)) (buf_fl op) s;
       if ret \<noteq> 0 then Some (ret, n1, s)
       else do {
         (ret, dop, count, buf, n2, s) \<leftarrow> cd_blocks drv dop count buf s;
         if ret \<noteq> 0 then Some (ret, n1 + n2, s)
         else do {
           (ret, n3, s) \<leftarrow> cd_last drv dop count buf s;
           Some (ret, n1 + n2 + n3, s)
         }
       }
     }"

definition process_cdemu_op :: "('v low, 'z) disk_mach_scheme drivers \<Rightarrow> disk_op_s \<Rightarrow> ('v low, 'z) disk_mach_scheme \<Rightarrow>
    (int \<times> u16 \<times> ('v low, 'z) disk_mach_scheme) option" where
  "process_cdemu_op drv op s =
     (if op_command op = CMD_READ then cdemu_read drv op s
      else if op_command op = CMD_WRITE \<or> op_command op = CMD_FORMAT then Some (DISK_RET_EWRITEPROTECT, op_count op, s)
      else if op_command op \<in> {CMD_VERIFY, CMD_RESET, CMD_SEEK, CMD_ISREADY} then Some (DISK_RET_SUCCESS, op_count op, s)
      else Some (DISK_RET_EPARAM, op_count op, s))"

definition process_op :: "('v low, 'z) disk_mach_scheme drivers \<Rightarrow> disk_op_s \<Rightarrow> ('v low, 'z) disk_mach_scheme \<Rightarrow>
    (int \<times> u16 \<times> ('v low, 'z) disk_mach_scheme) option" where
  "process_op drv op s =
     (if drive_type (drives s (op_drive op)) = DTYPE_CDEMU
      then map_option (done_count (op_count op)) (process_cdemu_op drv op s)
      else device_op drv op s)"

text \<open>\<open>send_disk_op\<close> runs this on the extra stack.\<close>

definition send_disk_op :: "('v low, 'z) disk_mach_scheme drivers \<Rightarrow> disk_op_s \<Rightarrow> ('v low, 'z) disk_mach_scheme \<Rightarrow>
    (int \<times> u16 \<times> ('v low, 'z) disk_mach_scheme) option" where
  "send_disk_op drv op s = process_op drv op s"

end
