(* ===== verification/Boot.thy ===== *)
theory Boot
  imports Boot_Order Llama_Boot Menu Hlist Keys Block "HOL-Library.Product_Lexorder" "HOL-Library.Multiset"
begin

text \<open>
  Booting: the second part of \<open>seabios/src/boot.c\<close>. Drives and option ROMs are registered in
  \<open>BootList\<close>, in the order of their priorities; \<open>interactive_bootmenu\<close> lets the user choose;
  \<open>bcv_prepboot\<close> turns the list into the table \<open>BEV\<close>; interrupts 19h and 18h try the entries of the table.

  \<open>BootList\<close> is a list here; \<open>Hlist\<close> has the pointers. The disk, option-ROM and CBFS services that the
  code calls are the record \<open>boot_env\<close>: what a call does to the world. Code that is jumped to either keeps the
  control (\<open>Inl\<close>) or comes back (\<open>Inr\<close>).
\<close>

section \<open>State\<close>

record bootentry_s =
  be_type :: int
  be_data :: u32
  be_priority :: int
  be_description :: string

record bev_s =
  bev_type :: int
  bev_vector :: u32

record boot_state =
  Bootorder :: "string list"
  boot_lbs :: llama_bios_settings
  BootRetryTime :: u32
  CheckFloppySig :: bool
  DefaultFloppyPrio :: int
  DefaultCDPrio :: int
  DefaultHDPrio :: int
  DefaultBEVPrio :: int
  BootList :: "bootentry_s list"
  BEV :: "bev_s list"
  HaveHDBoot :: int
  HaveFDBoot :: int
  BootSequence :: int

record 'w boot_env =
  env_drive :: "u32 \<Rightarrow> drive_s"
  env_text :: "u16 \<Rightarrow> u16 \<Rightarrow> string"
  env_have_threads :: "'w \<Rightarrow> bool"
  env_call_bcv :: "u16 \<Rightarrow> u16 \<Rightarrow> 'w \<Rightarrow> 'w"
  env_map_floppy_drive :: "u32 \<Rightarrow> 'w \<Rightarrow> 'w"
  env_map_hd_drive :: "u32 \<Rightarrow> 'w \<Rightarrow> 'w"
  env_map_cd_drive :: "u32 \<Rightarrow> 'w \<Rightarrow> 'w"
  env_get_farvar16 :: "u16 \<Rightarrow> u16 \<Rightarrow> 'w \<Rightarrow> u16"
  env_cdrom_boot :: "u32 \<Rightarrow> 'w \<Rightarrow> u32 \<times> 'w"
  env_CDEmu :: "'w \<Rightarrow> u8 \<times> u16"
  env_farcall16 :: "u16 \<Rightarrow> u16 \<Rightarrow> bregs \<Rightarrow> 'w \<Rightarrow> 'w + 'w"
  env_cbfs_run_payload :: "u32 \<Rightarrow> 'w \<Rightarrow> 'w + 'w"

definition DEFAULT_PRIO :: int where "DEFAULT_PRIO = 9999"

definition IPL_TYPE_FLOPPY :: int where "IPL_TYPE_FLOPPY = 0x01"
definition IPL_TYPE_HARDDISK :: int where "IPL_TYPE_HARDDISK = 0x02"
definition IPL_TYPE_CDROM :: int where "IPL_TYPE_CDROM = 0x03"
definition IPL_TYPE_CBFS :: int where "IPL_TYPE_CBFS = 0x20"
definition IPL_TYPE_BEV :: int where "IPL_TYPE_BEV = 0x80"
definition IPL_TYPE_BCV :: int where "IPL_TYPE_BCV = 0x81"
definition IPL_TYPE_HALT :: int where "IPL_TYPE_HALT = 0xf0"

lemmas ipl_defs = IPL_TYPE_FLOPPY_def IPL_TYPE_HARDDISK_def IPL_TYPE_CDROM_def IPL_TYPE_CBFS_def
  IPL_TYPE_BEV_def IPL_TYPE_BCV_def IPL_TYPE_HALT_def

text \<open>The initial values of the static variables.\<close>

definition boot_statics :: boot_state where
  "boot_statics =
     \<lparr>Bootorder = [], boot_lbs = llama_bios_settings_default, BootRetryTime = 0, CheckFloppySig = True,
      DefaultFloppyPrio = 101, DefaultCDPrio = 102, DefaultHDPrio = 103, DefaultBEVPrio = 104,
      BootList = [], BEV = [], HaveHDBoot = 0, HaveFDBoot = 0, BootSequence = - 1\<rparr>"

section \<open>Setup\<close>

text \<open>
  \<open>retry\<close> is the value of the CBFS file \<open>etc/boot-fail-wait\<close>, 60000 when there is none;
  \<open>f_ok\<close>, \<open>order_ok\<close> and \<open>junk\<close> are those of \<open>loadBootOrder\<close>.
\<close>

definition boot_init :: "'w io \<Rightarrow> u32 \<Rightarrow> bool \<Rightarrow> bool \<Rightarrow> string \<Rightarrow> boot_state \<times> ('w, 'z) spi_mach_scheme \<Rightarrow>
    (boot_state \<times> ('w, 'z) spi_mach_scheme) option" where
  "boot_init io retry f_ok order_ok junk = (\<lambda>(b, s).
     do {
       let b = b\<lparr>boot_lbs := llama_bios_settings_default\<rparr>;
       (lbs, s) \<leftarrow> llama_load_bios_settings io (boot_lbs b) s;
       let b = b\<lparr>boot_lbs := lbs, BootRetryTime := retry\<rparr>;
       order \<leftarrow> loadBootOrder f_ok order_ok junk (boot_lbs b);
       Some (b\<lparr>Bootorder := order\<rparr>, s)
     })"

section \<open>The list of boot entries\<close>

text \<open>The breaks of the search for the place of a new entry.\<close>

definition goes_before :: "(u32 \<Rightarrow> drive_s) \<Rightarrow> bootentry_s \<Rightarrow> bootentry_s \<Rightarrow> bool" where
  "goes_before drv be pos =
     (if be_priority be < be_priority pos then True
      else if be_priority be > be_priority pos then False
      else if be_type be < be_type pos then True
      else if be_type be > be_type pos then False
      else be_type be \<le> IPL_TYPE_CDROM \<and>
        (drive_type (drv (be_data be)) < drive_type (drv (be_data pos)) \<or>
         drive_type (drv (be_data be)) = drive_type (drv (be_data pos)) \<and>
           cntl_id (drv (be_data be)) < cntl_id (drv (be_data pos))))"

fun insert_entry :: "(u32 \<Rightarrow> drive_s) \<Rightarrow> bootentry_s \<Rightarrow> bootentry_s list \<Rightarrow> bootentry_s list" where
  "insert_entry drv be [] = [be]"
| "insert_entry drv be (pos # rest) =
     (if goes_before drv be pos then be # pos # rest else pos # insert_entry drv be rest)"

text \<open>\<open>ok\<close> says whether the allocation of the entry succeeds.\<close>

definition bootentry_add :: "(u32 \<Rightarrow> drive_s) \<Rightarrow> bool \<Rightarrow> int \<Rightarrow> int \<Rightarrow> u32 \<Rightarrow> string option \<Rightarrow>
    boot_state \<Rightarrow> boot_state" where
  "bootentry_add drv ok typ prio data desc b =
     (if \<not> ok then b
      else (let be = \<lparr>be_type = typ, be_data = data, be_priority = prio,
                      be_description = (case desc of None \<Rightarrow> ''?'' | Some d \<Rightarrow> d)\<rparr>
            in b\<lparr>BootList := insert_entry drv be (BootList b)\<rparr>))"

definition defPrio :: "int \<Rightarrow> int \<Rightarrow> int" where
  "defPrio priority defaultprio = (if priority < 0 then defaultprio else priority)"

definition SEGOFF :: "u16 \<Rightarrow> u16 \<Rightarrow> u32" where
  "SEGOFF s off = push_bit 16 (ucast s) OR ucast off"

definition so_seg :: "u32 \<Rightarrow> u16" where "so_seg v = ucast (drop_bit 16 v)"
definition so_offset :: "u32 \<Rightarrow> u16" where "so_offset v = ucast v"

definition boot_add_bev :: "'w boot_env \<Rightarrow> bool \<Rightarrow> u16 \<Rightarrow> u16 \<Rightarrow> u16 \<Rightarrow> int \<Rightarrow> boot_state \<Rightarrow> boot_state" where
  "boot_add_bev env ok seg bev desc prio b =
     (let b = bootentry_add (env_drive env) ok IPL_TYPE_BEV (defPrio prio (DefaultBEVPrio b)) (SEGOFF seg bev)
                (Some (if desc \<noteq> 0 then env_text env seg desc else ''Unknown'')) b
      in b\<lparr>DefaultBEVPrio := DEFAULT_PRIO\<rparr>)"

definition boot_add_bcv :: "'w boot_env \<Rightarrow> bool \<Rightarrow> u16 \<Rightarrow> u16 \<Rightarrow> u16 \<Rightarrow> int \<Rightarrow> boot_state \<Rightarrow> boot_state" where
  "boot_add_bcv env ok seg ip desc prio b =
     bootentry_add (env_drive env) ok IPL_TYPE_BCV (defPrio prio (DefaultHDPrio b)) (SEGOFF seg ip)
       (Some (if desc \<noteq> 0 then env_text env seg desc else ''Legacy option rom'')) b"

definition boot_add_floppy :: "'w boot_env \<Rightarrow> bool \<Rightarrow> u32 \<Rightarrow> string option \<Rightarrow> int \<Rightarrow> boot_state \<Rightarrow> boot_state" where
  "boot_add_floppy env ok drive_g desc prio b =
     bootentry_add (env_drive env) ok IPL_TYPE_FLOPPY (defPrio prio (DefaultFloppyPrio b)) drive_g desc b"

text \<open>The search in a description that is NULL reads at address 0 (\<open>None\<close>).\<close>

definition boot_add_hd :: "'w boot_env \<Rightarrow> bool \<Rightarrow> u32 \<Rightarrow> string option \<Rightarrow> int \<Rightarrow> boot_state \<Rightarrow> boot_state option" where
  "boot_add_hd env ok drive_g desc prio b =
     do {
       skip \<leftarrow> (if se_value (usb_as_fixed_disks (boot_lbs b)) = 0
                then map_option (\<lambda>d. string_contains d ''USB MSC'' \<noteq> 0) desc
                else Some False);
       Some (if skip then b
             else bootentry_add (env_drive env) ok IPL_TYPE_HARDDISK (defPrio prio (DefaultHDPrio b)) drive_g desc b)
     }"

definition boot_add_cd :: "'w boot_env \<Rightarrow> bool \<Rightarrow> u32 \<Rightarrow> string option \<Rightarrow> int \<Rightarrow> boot_state \<Rightarrow> boot_state" where
  "boot_add_cd env ok drive_g desc prio b =
     bootentry_add (env_drive env) ok IPL_TYPE_CDROM (defPrio prio (DefaultCDPrio b)) drive_g desc b"

definition boot_add_cbfs :: "'w boot_env \<Rightarrow> bool \<Rightarrow> u32 \<Rightarrow> string option \<Rightarrow> int \<Rightarrow> boot_state \<Rightarrow> boot_state" where
  "boot_add_cbfs env ok data desc prio b =
     bootentry_add (env_drive env) ok IPL_TYPE_CBFS (defPrio prio DEFAULT_PRIO) data desc b"

section \<open>The boot menu\<close>

definition drain_keys :: "'w io \<Rightarrow> ('w, 'z) mach_scheme \<Rightarrow> ('w, 'z) mach_scheme option" where
  "drain_keys io =
     loop (\<lambda>s. do {
       (key, s) \<leftarrow> get_keystroke io 0 s;
       Some (if 0 \<le> key then Again s else Finish s)
     })"

definition wait_threads :: "'w io \<Rightarrow> 'w boot_env \<Rightarrow> ('w, 'z) mach_scheme \<Rightarrow> ('w, 'z) mach_scheme option" where
  "wait_threads io env =
     loop (\<lambda>s. Some (if env_have_threads env (wd s) then Again (yield io s) else Finish s))"

fun show_items :: "'w io \<Rightarrow> u32 \<Rightarrow> bootentry_s list \<Rightarrow> ('w, 'z) mach_scheme \<Rightarrow> ('w, 'z) mach_scheme option" where
  "show_items io maxmenu [] s = Some s"
| "show_items io maxmenu (pos # rest) s =
     do {
       s \<leftarrow> printf io (''%d. %s'' @ newline) [PInt (maxmenu + 1), PStr (strtcpy (be_description pos) 60)] s;
       show_items io (maxmenu + 1) rest s
     }"

definition choose_item :: "'w io \<Rightarrow> int \<Rightarrow> ('w, 'z) mach_scheme \<Rightarrow> (int \<times> ('w, 'z) mach_scheme) option" where
  "choose_item io maxmenu =
     loop (\<lambda>s. do {
       (scan_code, s) \<leftarrow> get_keystroke io 1000 s;
       Some (if 1 \<le> scan_code \<and> scan_code \<le> maxmenu + 1 then Finish (scan_code, s) else Again s)
     })"

text \<open>
  The search \<open>if (! --choice) break\<close>, with the list around the entry it stops at; running off the end of the
  list is undefined.
\<close>

fun find_choice :: "int \<Rightarrow> 'e list \<Rightarrow> ('e list \<times> 'e \<times> 'e list) option" where
  "find_choice choice [] = None"
| "find_choice choice (pos # rest) =
     (if choice - 1 = 0 then Some ([], pos, rest)
      else map_option (\<lambda>(before, e, after). (pos # before, e, after)) (find_choice (choice - 1) rest))"

text \<open>\<open>hlist_del\<close>, the new priority and \<open>hlist_add_head\<close>.\<close>

definition make_first :: "int \<Rightarrow> boot_state \<Rightarrow> boot_state option" where
  "make_first scan_code b =
     do {
       (before, pos, after) \<leftarrow> find_choice (scan_code - 1) (BootList b);
       Some (b\<lparr>BootList := pos\<lparr>be_priority := 0\<rparr> # before @ after\<rparr>)
     }"

datatype 'a boot_run = Goes_on 'a | Resets 'a

text \<open>
  \<open>menu_time\<close> is the value of the CBFS file \<open>etc/boot-menu-wait\<close>, 2500 when there is none. Should
  \<open>llama_bios_menu\<close> come back, \<open>interactive_bootmenu\<close> would return.
\<close>

definition device_menu :: "'w io \<Rightarrow> 'w boot_env \<Rightarrow> boot_state \<times> ('w, 'z) menu_mach_scheme \<Rightarrow>
    (boot_state \<times> ('w, 'z) menu_mach_scheme) boot_run option" where
  "device_menu io env = (\<lambda>(b, s).
     do {
       s \<leftarrow> printf io (newline @ ''Select Boot Device:'' @ newline @ newline) [] s;
       s \<leftarrow> wait_threads io env s;
       s \<leftarrow> show_items io 0 (BootList b) s;
       (scan_code, s) \<leftarrow> choose_item io (int (length (BootList b))) s;
       s \<leftarrow> printf io newline [] s;
       if scan_code = 0x01 then Some (Goes_on (b, s))
       else map_option (\<lambda>b. Goes_on (b, s)) (make_first scan_code b)
     })"

definition interactive_bootmenu :: "'w io \<Rightarrow> 'w boot_env \<Rightarrow> u32 \<Rightarrow> u32 \<Rightarrow> boot_state \<times> ('w, 'z) menu_mach_scheme \<Rightarrow>
    (boot_state \<times> ('w, 'z) menu_mach_scheme) boot_run option" where
  "interactive_bootmenu io env LegacyRamSize menu_time = (\<lambda>(b, s).
     do {
       (lbs, s) \<leftarrow> llama_boot io LegacyRamSize (boot_lbs b) s;
       let b = b\<lparr>boot_lbs := lbs\<rparr>;
       s \<leftarrow> drain_keys io s;
       let setup_menu_key = 0x3B;
       let boot_menu_key = 0x01;
       s \<leftarrow> printf io (newline @ ''Press F1 for Setup, ESC for Boot Menu'' @ newline) [] s;
       (scan_code, s) \<leftarrow> get_keystroke io menu_time s;
       if scan_code \<noteq> setup_menu_key \<and> scan_code \<noteq> boot_menu_key then Some (Goes_on (b, s))
       else do {
         s \<leftarrow> drain_keys io s;
         if scan_code = setup_menu_key
         then map_option (\<lambda>r. case r of
                 Return lbs s \<Rightarrow> Goes_on (b\<lparr>boot_lbs := lbs\<rparr>, s)
               | Reboot s \<Rightarrow> Resets (b, s)) (llama_bios_menu io (boot_lbs b) s)
         else device_menu io env (b, s)
       }
     })"

section \<open>The boot table\<close>

abbreviation BEV_SIZE :: nat where "BEV_SIZE \<equiv> 20"

definition add_bev :: "int \<Rightarrow> u32 \<Rightarrow> boot_state \<Rightarrow> boot_state" where
  "add_bev typ vector b =
     (let hd = HaveHDBoot b; fd = HaveFDBoot b;
          b = (if typ = IPL_TYPE_HARDDISK then b\<lparr>HaveHDBoot := hd + 1\<rparr> else b)
      in if typ = IPL_TYPE_HARDDISK \<and> hd \<noteq> 0 then b
         else (let b = (if typ = IPL_TYPE_FLOPPY then b\<lparr>HaveFDBoot := fd + 1\<rparr> else b)
               in if typ = IPL_TYPE_FLOPPY \<and> fd \<noteq> 0 then b
                  else if BEV_SIZE \<le> length (BEV b) then b
                  else b\<lparr>BEV := BEV b @ [\<lparr>bev_type = typ, bev_vector = vector\<rparr>]\<rparr>))"

definition prepboot_entry :: "'w boot_env \<Rightarrow> bootentry_s \<Rightarrow> boot_state \<times> ('w, 'z) mach_scheme \<Rightarrow>
    boot_state \<times> ('w, 'z) mach_scheme" where
  "prepboot_entry env pos = (\<lambda>(b, s).
     (if be_type pos = IPL_TYPE_BCV then
        (let s = s\<lparr>wd := env_call_bcv env (so_seg (be_data pos)) (so_offset (be_data pos)) (wd s)\<rparr>
         in (add_bev IPL_TYPE_HARDDISK 0 b, s))
      else if be_type pos = IPL_TYPE_FLOPPY then
        (add_bev IPL_TYPE_FLOPPY 0 b, s\<lparr>wd := env_map_floppy_drive env (be_data pos) (wd s)\<rparr>)
      else if be_type pos = IPL_TYPE_HARDDISK then
        (add_bev IPL_TYPE_HARDDISK 0 b, s\<lparr>wd := env_map_hd_drive env (be_data pos) (wd s)\<rparr>)
      else if be_type pos = IPL_TYPE_CDROM then
        (add_bev (be_type pos) (be_data pos) b, s\<lparr>wd := env_map_cd_drive env (be_data pos) (wd s)\<rparr>)
      else (add_bev (be_type pos) (be_data pos) b, s)))"

definition bcv_prepboot :: "'w boot_env \<Rightarrow> bool \<Rightarrow> boot_state \<times> ('w, 'z) mach_scheme \<Rightarrow>
    boot_state \<times> ('w, 'z) mach_scheme" where
  "bcv_prepboot env ok = (\<lambda>(b, s).
     (let haltprio = find_prio (Bootorder b) ''HALT'';
          b = (if 0 \<le> haltprio
               then bootentry_add (env_drive env) ok IPL_TYPE_HALT haltprio 0 (Some ''HALT'') b else b)
      in case fold (prepboot_entry env) (BootList b) (b, s) of (b, s) \<Rightarrow>
           (add_bev IPL_TYPE_HARDDISK 0 (add_bev IPL_TYPE_FLOPPY 0 b), s)))"

section \<open>Boot attempts\<close>

text \<open>
  An attempt ends with the control at a booted entry point (its address, the registers it was entered with), with
  the reset of the machine, or it fails and the next device is tried (\<open>Inr\<close>).
\<close>

datatype 's boot_end = Booted u16 u16 bregs 's | Ran_payload u32 's | Reset_vector 's

type_synonym 's attempt = "'s boot_end + 's"

definition call_boot_entry :: "'w boot_env \<Rightarrow> u16 \<Rightarrow> u16 \<Rightarrow> u8 \<Rightarrow> ('w, 'z) mach_scheme \<Rightarrow>
    (('w, 'z) mach_scheme) attempt" where
  "call_boot_entry env seg ip bootdrv s =
     (let br = set_ax 0xaa55 (bregs_zero\<lparr>br_flags := F_IF, br_dl := bootdrv\<rparr>)
      in case env_farcall16 env seg ip br (wd s) of
           Inl w \<Rightarrow> Inl (Booted seg ip br (s\<lparr>wd := w\<rparr>))
         | Inr w \<Rightarrow> Inr (s\<lparr>wd := w\<rparr>))"

definition MBR_SIGNATURE :: u16 where "MBR_SIGNATURE = 0xaa55"

text \<open>\<open>0x1fe\<close> is the offset of \<open>signature\<close> in \<open>struct mbr_s\<close>.\<close>

definition boot_disk :: "'w io \<Rightarrow> 'w boot_env \<Rightarrow> u8 \<Rightarrow> bool \<Rightarrow> ('w, 'z) mach_scheme \<Rightarrow>
    (('w, 'z) mach_scheme) attempt option" where
  "boot_disk io env bootdrv checksig s =
     (let bootseg = 0x07c0;
          br = bregs_zero\<lparr>br_flags := F_IF, br_dl := bootdrv, br_es := bootseg, br_ah := 2, br_al := 1, br_cl := 1\<rparr>
      in case call16_int io 0x13 br s of (br, s) \<Rightarrow>
         if br_flags br AND F_CF \<noteq> 0
         then map_option Inr (printf io (''Boot failed: could not read the boot disk'' @ newline @ newline) [] s)
         else if checksig \<and> env_get_farvar16 env bootseg 0x1fe (wd s) \<noteq> MBR_SIGNATURE
         then map_option Inr (printf io (''Boot failed: not a bootable disk'' @ newline @ newline) [] s)
         else (let bootip = push_bit 4 (bootseg AND 0x0fff);
                   bootseg = bootseg AND 0xf000
               in Some (call_boot_entry env bootseg bootip bootdrv s)))"

definition boot_cdrom :: "'w io \<Rightarrow> 'w boot_env \<Rightarrow> u32 \<Rightarrow> ('w, 'z) mach_scheme \<Rightarrow>
    (('w, 'z) mach_scheme) attempt option" where
  "boot_cdrom io env drive_g s =
     do {
       s \<leftarrow> printf io (''Booting from DVD/CD...'' @ newline) [] s;
       let (status, w) = env_cdrom_boot env drive_g (wd s);
       let s = s\<lparr>wd := w\<rparr>;
       if status \<noteq> 0
       then map_option Inr
              (printf io (''Boot failed: Could not read from CDROM (code %04x)'' @ newline) [PInt status] s)
       else (case env_CDEmu env (wd s) of (bootdrv, bootseg) \<Rightarrow>
             let bootip = push_bit 4 (bootseg AND 0x0fff);
                 bootseg = bootseg AND 0xf000
             in Some (call_boot_entry env bootseg bootip bootdrv s))
     }"

definition boot_cbfs :: "'w io \<Rightarrow> 'w boot_env \<Rightarrow> u32 \<Rightarrow> ('w, 'z) mach_scheme \<Rightarrow>
    (('w, 'z) mach_scheme) attempt option" where
  "boot_cbfs io env file s =
     do {
       s \<leftarrow> printf io (''Booting from CBFS...'' @ newline) [] s;
       Some (case env_cbfs_run_payload env file (wd s) of
               Inl w \<Rightarrow> Inl (Ran_payload file (s\<lparr>wd := w\<rparr>))
             | Inr w \<Rightarrow> Inr (s\<lparr>wd := w\<rparr>))
     }"

definition boot_rom :: "'w io \<Rightarrow> 'w boot_env \<Rightarrow> u32 \<Rightarrow> ('w, 'z) mach_scheme \<Rightarrow>
    (('w, 'z) mach_scheme) attempt option" where
  "boot_rom io env vector s =
     do {
       s \<leftarrow> printf io (''Booting from ROM...'' @ newline) [] s;
       Some (call_boot_entry env (so_seg vector) (so_offset vector) 0 s)
     }"

text \<open>A retry time of -1 waits for ever.\<close>

definition boot_fail_loop :: "'w io \<Rightarrow> u32 \<Rightarrow> u32 \<Rightarrow> ('w, 'z) mach_scheme \<Rightarrow> ('w, 'z) mach_scheme option" where
  "boot_fail_loop io retry end =
     loop (\<lambda>s. Some (if retry \<noteq> - 1 \<and> irqtimer_check io end s then Finish s else Again (yield_toirq io s)))"

definition boot_fail :: "'w io \<Rightarrow> boot_state \<Rightarrow> ('w, 'z) mach_scheme \<Rightarrow> (('w, 'z) mach_scheme) boot_end option" where
  "boot_fail io b s =
     do {
       s \<leftarrow> (if BootRetryTime b = - 1 then printf io (''No bootable device.'' @ newline) [] s
             else printf io (''No bootable device.  Retrying in %d seconds.'' @ newline)
                    [PInt (of_int (sint (BootRetryTime b) sdiv 1000))] s);
       let end = irqtimer_calc io (BootRetryTime b) s;
       s \<leftarrow> boot_fail_loop io (BootRetryTime b) end s;
       s \<leftarrow> printf io (''Rebooting.'' @ newline) [] s;
       Some (Reset_vector s)
     }"

definition boot_attempt :: "'w io \<Rightarrow> 'w boot_env \<Rightarrow> boot_state \<Rightarrow> bev_s \<Rightarrow> ('w, 'z) mach_scheme \<Rightarrow>
    (('w, 'z) mach_scheme) attempt option" where
  "boot_attempt io env b ie s =
     (if bev_type ie = IPL_TYPE_FLOPPY then do {
        s \<leftarrow> printf io (''Booting from Floppy...'' @ newline) [] s;
        boot_disk io env 0x00 (CheckFloppySig b) s
      }
      else if bev_type ie = IPL_TYPE_HARDDISK then do {
        s \<leftarrow> printf io (''Booting from Hard Disk...'' @ newline) [] s;
        boot_disk io env 0x80 True s
      }
      else if bev_type ie = IPL_TYPE_CDROM then boot_cdrom io env (bev_vector ie) s
      else if bev_type ie = IPL_TYPE_CBFS then boot_cbfs io env (bev_vector ie) s
      else if bev_type ie = IPL_TYPE_BEV then boot_rom io env (bev_vector ie) s
      else if bev_type ie = IPL_TYPE_HALT then map_option Inl (boot_fail io b s)
      else Some (Inr s))"

text \<open>
  A failed attempt raises interrupt 18h, whose handler is \<open>handle_18\<close>: it takes the next number and calls
  \<open>do_boot\<close> again.
\<close>

function do_boot :: "'w io \<Rightarrow> 'w boot_env \<Rightarrow> int \<Rightarrow> boot_state \<times> ('w, 'z) mach_scheme \<Rightarrow>
    (boot_state \<times> (('w, 'z) mach_scheme) boot_end) option" where
  "do_boot io env seq_nr (b, s) =
     (if int (length (BEV b)) \<le> seq_nr then map_option (\<lambda>e. (b, e)) (boot_fail io b s)
      else do {
        ie \<leftarrow> arr_get (BEV b) seq_nr;
        r \<leftarrow> boot_attempt io env b ie s;
        case r of
          Inl e \<Rightarrow> Some (b, e)
        | Inr s \<Rightarrow> (let seq = BootSequence b + 1
                    in do_boot io env seq (b\<lparr>BootSequence := seq\<rparr>, s))
      })"
  by pat_completeness auto
termination
  by (relation "measure (\<lambda>(io, env, seq_nr, b, s). if int (length (BEV b)) \<le> seq_nr then 0
      else Suc (nat (int (length (BEV b)) - BootSequence b)))") (auto simp: Let_def split: if_splits)

declare do_boot.simps [simp del]

definition handle_18 :: "'w io \<Rightarrow> 'w boot_env \<Rightarrow> boot_state \<times> ('w, 'z) mach_scheme \<Rightarrow>
    (boot_state \<times> (('w, 'z) mach_scheme) boot_end) option" where
  "handle_18 io env = (\<lambda>(b, s).
     (let seq = BootSequence b + 1 in do_boot io env seq (b\<lparr>BootSequence := seq\<rparr>, s)))"

definition handle_19 :: "'w io \<Rightarrow> 'w boot_env \<Rightarrow> boot_state \<times> ('w, 'z) mach_scheme \<Rightarrow>
    (boot_state \<times> (('w, 'z) mach_scheme) boot_end) option" where
  "handle_19 io env = (\<lambda>(b, s). do_boot io env 0 (b\<lparr>BootSequence := 0\<rparr>, s))"

end
