(* ===== verification/Boot_Facts.thy ===== *)
theory Boot_Facts
  imports Boot
begin

text \<open>
  What the boot code guarantees: the order of the boot list, the contents of the boot table, the choice in the boot
  menu, the sequence of the attempts, and what has been checked before control goes to a boot sector.
\<close>

section \<open>The order of the boot list\<close>

text \<open>The key: priority and type; drives are also told apart by the type of their driver and their number.\<close>

definition entry_key :: "(u32 \<Rightarrow> drive_s) \<Rightarrow> bootentry_s \<Rightarrow> int \<times> int \<times> nat \<times> nat" where
  "entry_key drv be =
     (be_priority be, be_type be,
      if be_type be \<le> IPL_TYPE_CDROM
      then (unat (drive_type (drv (be_data be))), unat (cntl_id (drv (be_data be)))) else (0, 0))"

lemma goes_before_key: "goes_before drv be pos \<longleftrightarrow> entry_key drv be < entry_key drv pos"
  by (auto simp: goes_before_def entry_key_def less_prod_def word_less_nat_alt word_unat_eq_iff)

definition boot_list_sorted :: "(u32 \<Rightarrow> drive_s) \<Rightarrow> bootentry_s list \<Rightarrow> bool" where
  "boot_list_sorted drv l \<longleftrightarrow> sorted (map (entry_key drv) l)"

lemma insert_entry_mset: "mset (insert_entry drv be l) = add_mset be (mset l)"
  by (induction l) auto

lemma insert_entry_set [simp]: "set (insert_entry drv be l) = insert be (set l)"
  by (induction l) auto

lemma insert_entry_sorted: "boot_list_sorted drv l \<Longrightarrow> boot_list_sorted drv (insert_entry drv be l)"
  by (induction l) (auto simp: boot_list_sorted_def goes_before_key)

text \<open>A new entry comes behind those of its own key.\<close>

lemma insert_entry_filter:
  "boot_list_sorted drv l \<Longrightarrow>
   filter (\<lambda>x. entry_key drv x = k) (insert_entry drv be l) =
     filter (\<lambda>x. entry_key drv x = k) l @ (if entry_key drv be = k then [be] else [])"
proof (induction l)
  case (Cons pos rest)
  show ?case
  proof (cases "goes_before drv be pos")
    case True
    then have "entry_key drv be < entry_key drv x" if "x \<in> set (pos # rest)" for x
      using Cons.prems that by (auto simp: boot_list_sorted_def goes_before_key)
    then have "filter (\<lambda>x. entry_key drv x = k) (pos # rest) = []" if "entry_key drv be = k"
      using that by (fastforce simp: filter_empty_conv)
    then show ?thesis using True by auto
  next
    case False
    then show ?thesis using Cons by (simp add: boot_list_sorted_def)
  qed
qed simp

lemma insert_entry_sort:
  assumes "l = sort_key (entry_key drv) es"
  shows "insert_entry drv be l = sort_key (entry_key drv) (es @ [be])"
proof -
  have sorted: "boot_list_sorted drv l" by (simp add: assms boot_list_sorted_def)
  show ?thesis
  proof (rule properties_for_sort_key [symmetric])
    show "mset (insert_entry drv be l) = mset (es @ [be])"
      by (simp add: insert_entry_mset assms)
    show "sorted (map (entry_key drv) (insert_entry drv be l))"
      using insert_entry_sorted [OF sorted] by (simp add: boot_list_sorted_def)
    fix x
    have "filter (\<lambda>y. entry_key drv y = entry_key drv x) (insert_entry drv be l) =
        filter (\<lambda>y. entry_key drv y = entry_key drv x) (es @ [be])"
      unfolding insert_entry_filter [OF sorted] by (simp add: assms sort_key_stable)
    then show "filter (\<lambda>y. entry_key drv x = entry_key drv y) (insert_entry drv be l) =
        filter (\<lambda>y. entry_key drv x = entry_key drv y) (es @ [be])"
      by (simp only: eq_commute [of "entry_key drv x"])
  qed
qed

text \<open>The place of a new entry, as the walk over the list finds it.\<close>

lemma insert_entry_walk:
  "insert_entry drv be l =
     takeWhile (\<lambda>pos. \<not> goes_before drv be pos) l @ be # dropWhile (\<lambda>pos. \<not> goes_before drv be pos) l"
  by (induction l) auto

text \<open>A sequence of registrations, each with the type, the priority, the data and the description of its entry.\<close>

definition register_all :: "(u32 \<Rightarrow> drive_s) \<Rightarrow> (int \<times> int \<times> u32 \<times> string) list \<Rightarrow> boot_state \<Rightarrow> boot_state" where
  "register_all drv = fold (\<lambda>(typ, prio, data, desc). bootentry_add drv True typ prio data (Some desc))"

definition entry_of :: "int \<times> int \<times> u32 \<times> string \<Rightarrow> bootentry_s" where
  "entry_of = (\<lambda>(typ, prio, data, desc).
     \<lparr>be_type = typ, be_data = data, be_priority = prio, be_description = desc\<rparr>)"

lemma register_all_sort:
  "BootList b = sort_key (entry_key drv) es \<Longrightarrow>
   BootList (register_all drv rs b) = sort_key (entry_key drv) (es @ map entry_of rs)"
proof (induction rs arbitrary: b es)
  case (Cons r rs)
  obtain ty prio data desc where r: "r = (ty, prio, data, desc)" by (cases r)
  have "BootList (bootentry_add drv True ty prio data (Some desc) b) = sort_key (entry_key drv) (es @ [entry_of r])"
    using insert_entry_sort [OF Cons.prems] by (simp add: bootentry_add_def entry_of_def r Let_def)
  from Cons.IH [OF this] show ?case by (simp add: register_all_def r)
qed (simp add: register_all_def)

section \<open>The order of the label\<close>

text \<open>A list that is sorted by the places of its elements in \<open>ws\<close> has them in groups, in the order of \<open>ws\<close>.\<close>

fun place :: "'a list \<Rightarrow> 'a \<Rightarrow> nat" where
  "place [] x = 0"
| "place (w # ws) x = (if w = x then 0 else Suc (place ws x))"

lemma grouped:
  assumes "sorted (map (place ws) xs)" "set xs \<subseteq> set ws" "distinct ws"
  shows "remdups_adj xs = filter (\<lambda>w. w \<in> set xs) ws"
  using assms
proof (induction ws arbitrary: xs)
  case (Cons w ws)
  have rest: "remdups_adj zs = filter (\<lambda>v. v \<in> set zs) ws" if "sorted (map (place (w # ws)) zs)" "set zs \<subseteq> set (w # ws)" "w \<notin> set zs" for zs
  proof (rule Cons.IH)
    have "map (place (w # ws)) zs = map Suc (map (place ws) zs)" using that(3) by auto
    then have "sorted (map Suc (map (place ws) zs))" using that(1) by metis
    then show "sorted (map (place ws) zs)" by (simp add: sorted_wrt_map)
  qed (use that Cons.prems(3) in auto)
  show ?case
  proof (cases xs)
    case (Cons x ys)
    let ?zs = "dropWhile (\<lambda>y. y = x) ys"
    have after: "w \<notin> set zs" if "sorted (map (place (w # ws)) (z # zs))" "z \<noteq> w" for z zs
      using that by (auto simp: Ball_def)
    show ?thesis
    proof (cases "x = w")
      case True
      have "sorted_wrt (\<lambda>a b. place (w # ws) a \<le> place (w # ws) b) ys"
        using Cons.prems(1) unfolding Cons by (simp only: sorted_wrt_map list.map sorted_wrt.simps)
      then have sub: "sorted (map (place (w # ws)) ?zs)" "set ?zs \<subseteq> set ys"
        by (simp_all only: sorted_wrt_map sorted_wrt_dropWhile subsetI set_dropWhileD)
      have "w \<notin> set ?zs"
      proof (cases ?zs)
        case (Cons z zs)
        then have "z \<noteq> w" using True hd_dropWhile [of "\<lambda>y. y = x" ys] by (metis list.discI list.sel(1))
        then show ?thesis unfolding Cons using after [OF sub(1) [unfolded Cons]] by simp
      qed (simp only: list.set(1) empty_iff not_False_eq_True)
      moreover have "v \<in> set ?zs" if "v \<in> set ys" "v \<noteq> w" for v
      proof -
        have "v \<in> set (takeWhile (\<lambda>y. y = x) ys) \<union> set ?zs"
          using that(1) unfolding set_append [symmetric] takeWhile_dropWhile_id .
        then show ?thesis using that(2) True by (auto dest: set_takeWhileD)
      qed
      ultimately have same: "v \<in> set xs \<longleftrightarrow> v \<in> set ?zs" if "v \<in> set ws" for v
        using that True Cons.prems(3) sub(2) unfolding Cons by auto
      have "remdups_adj xs = w # filter (\<lambda>v. v \<in> set ?zs) ws"
        using rest [of ?zs] sub \<open>w \<notin> set ?zs\<close> Cons.prems(2) unfolding Cons True by (auto simp: remdups_adj_Cons')
      then show ?thesis using same True unfolding Cons by (auto cong: filter_cong)
    next
      case False
      then have "w \<notin> set xs" using after [OF Cons.prems(1) [unfolded Cons]] unfolding Cons by simp
      then show ?thesis using rest [OF Cons.prems(1,2)] by simp
    qed
  qed simp
qed simp

fun label_text :: "string list \<Rightarrow> string" where
  "label_text [] = ''''"
| "label_text [n] = n"
| "label_text (n # ns) = n @ '', '' @ label_text ns"

definition label_names :: "u8 \<Rightarrow> string list" where
  "label_names index =
     (if index = 0 then [''SATA'', ''SD'', ''USB'', ''VFloppy''] else if index = 1 then [''SATA'', ''USB'', ''SD'', ''VFloppy'']
      else if index = 2 then [''SD'', ''SATA'', ''USB'', ''VFloppy''] else if index = 3 then [''SD'', ''USB'', ''SATA'', ''VFloppy'']
      else if index = 4 then [''USB'', ''SATA'', ''SD'', ''VFloppy''] else [''USB'', ''SD'', ''SATA'', ''VFloppy''])"

text \<open>
  The drivers' registrations: \<open>device\<close> and \<open>desc\<close> give the device and the description of the drive at an address.
\<close>

definition add_device :: "'w boot_env \<Rightarrow> (u32 \<Rightarrow> board_device) \<Rightarrow> (u32 \<Rightarrow> string) \<Rightarrow> u32 \<Rightarrow> boot_state \<Rightarrow> boot_state option" where
  "add_device env device desc a b =
     do {
       prio \<leftarrow> device_prio (Bootorder b) (device a);
       case device a of
         Floppy_image name \<Rightarrow> Some (boot_add_floppy env True a (Some (desc a)) prio b)
       | _ \<Rightarrow> boot_add_hd env True a (Some (desc a)) prio b
     }"

fun add_devices :: "'w boot_env \<Rightarrow> (u32 \<Rightarrow> board_device) \<Rightarrow> (u32 \<Rightarrow> string) \<Rightarrow> u32 list \<Rightarrow> boot_state \<Rightarrow> boot_state option" where
  "add_devices env device desc [] b = Some b"
| "add_devices env device desc (a # as) b = do { b \<leftarrow> add_device env device desc a b; add_devices env device desc as b }"

text \<open>The priority that a device of the board gets. It follows the places of the label.\<close>

definition board_prio :: "u8 \<Rightarrow> board_device \<Rightarrow> int" where
  "board_prio index d = (case device_prio (boot_order_lines index) d of None \<Rightarrow> 0 | Some p \<Rightarrow> defPrio p 101)"

lemma board_device_prio:
  assumes "index \<in> {0, 1, 2, 3, 4, 5}" "on_board d"
  shows "\<exists>p. device_prio (boot_order_lines index) d = Some p \<and> (p < 0 \<longleftrightarrow> (\<exists>name. d = Floppy_image name))"
proof (cases d)
  case (Usb_drive u)
  then show ?thesis using assms device_prios by (auto simp: usb_places_def)
next
  case (Floppy_image name)
  then show ?thesis using vfloppy_not_found [OF assms(1), of name] assms(2) by auto
qed (use assms(1) device_prios in auto)

lemma board_prio_place:
  assumes "index \<in> {0, 1, 2, 3, 4, 5}" "on_board c" "on_board d" "board_prio index c \<le> board_prio index d"
  shows "place (label_names index) (device_name c) \<le> place (label_names index) (device_name d)"
proof -
  have floppy: "board_prio index e = 101" if "on_board e" "e = Floppy_image name" for e name
    using that vfloppy_not_found [OF assms(1), of name] by (auto simp: board_prio_def defPrio_def)
  have others: "e \<in> set (Sata_disk # Sd_card # map Usb_drive usb_places)" if "on_board e" "\<forall>name. e \<noteq> Floppy_image name" for e
    using that by (cases e) auto
  have prios: "map (board_prio index) (Sata_disk # Sd_card # map Usb_drive usb_places) =
    (if index = 0 then [1, 2, 3, 5, 7, 8, 9, 10] else if index = 1 then [1, 10, 2, 4, 6, 7, 8, 9]
     else if index = 2 then [2, 1, 3, 5, 7, 8, 9, 10] else if index = 3 then [10, 1, 2, 4, 6, 7, 8, 9]
     else if index = 4 then [9, 10, 1, 3, 5, 6, 7, 8] else [10, 9, 1, 3, 5, 6, 7, 8])"
    using device_prios assms(1) by (auto simp: board_prio_def defPrio_def usb_places_def)
  show ?thesis
    using assms floppy others [of c] others [of d] prios
    by (cases c; cases d) (auto simp: label_names_def usb_places_def split: if_splits)
qed

text \<open>What holds of the boot state when the devices at the addresses \<open>as\<close> have been registered.\<close>

definition registered :: "'w boot_env \<Rightarrow> llama_bios_settings \<Rightarrow> u8 \<Rightarrow> (u32 \<Rightarrow> board_device) \<Rightarrow> u32 list \<Rightarrow> boot_state \<Rightarrow> bool" where
  "registered env lbs index device as b \<longleftrightarrow>
     boot_lbs b = lbs \<and> Bootorder b = boot_order_lines index \<and> DefaultFloppyPrio b = 101 \<and> boot_list_sorted (env_drive env) (BootList b) \<and>
     (\<forall>e\<in>set (BootList b). be_data e \<in> set as \<and> be_priority e = board_prio index (device (be_data e))) \<and>
     (se_value (usb_as_fixed_disks lbs) \<noteq> 0 \<longrightarrow> mset (map be_data (BootList b)) = mset as)"

lemma bootentry_added:
  assumes "registered env lbs index device as b" "prio = board_prio index (device a)"
  shows "registered env lbs index device (as @ [a]) (bootentry_add (env_drive env) True typ prio a desc b)"
proof -
  define be where "be = \<lparr>be_type = typ, be_data = a, be_priority = prio, be_description = (case desc of None \<Rightarrow> ''?'' | Some d \<Rightarrow> d)\<rparr>"
  have be: "be_data be = a" "be_priority be = prio"
    "bootentry_add (env_drive env) True typ prio a desc b = b\<lparr>BootList := insert_entry (env_drive env) be (BootList b)\<rparr>"
    by (simp_all add: bootentry_add_def be_def Let_def)
  show ?thesis
    unfolding be(3) using assms be(1,2) insert_entry_sorted [of "env_drive env" "BootList b" be] insert_entry_mset [of "env_drive env" be "BootList b"]
    by (auto simp: registered_def)
qed

lemma device_added:
  assumes "registered env lbs index device as b" "index \<in> {0, 1, 2, 3, 4, 5}" "on_board (device a)"
  shows "\<exists>b'. add_device env device desc a b = Some b' \<and> registered env lbs index device (as @ [a]) b'"
proof -
  obtain p where p: "device_prio (boot_order_lines index) (device a) = Some p" "p < 0 \<longleftrightarrow> (\<exists>name. device a = Floppy_image name)"
    using board_device_prio [OF assms(2,3)] by blast
  have order: "Bootorder b = boot_order_lines index" "DefaultFloppyPrio b = 101" using assms(1) by (simp_all add: registered_def)
  have prio: "defPrio p (if p < 0 then 101 else x) = board_prio index (device a)" for x
    using p(1) by (simp add: board_prio_def defPrio_def)
  note added = bootentry_added [OF assms(1)]
  show ?thesis
  proof (cases "p < 0")
    case True
    then obtain name where name: "device a = Floppy_image name" using p(2) by blast
    have "add_device env device desc a b = Some (bootentry_add (env_drive env) True IPL_TYPE_FLOPPY (defPrio p 101) a (Some (desc a)) b)"
      using p(1) order by (simp add: add_device_def boot_add_floppy_def name del: device_prio.simps)
    then show ?thesis using added [of "defPrio p 101"] prio True by simp
  next
    case False
    then have pr: "defPrio p x = board_prio index (device a)" for x using prio [of x] by (simp add: defPrio_def)
    have "add_device env device desc a b = boot_add_hd env True a (Some (desc a)) p b"
      using False p order by (cases "device a") (auto simp: add_device_def)
    moreover have "registered env lbs index device (as @ [a]) b" if "se_value (usb_as_fixed_disks (boot_lbs b)) = 0"
      using assms(1) that by (auto simp: registered_def)
    ultimately show ?thesis using added pr by (auto simp: boot_add_hd_def)
  qed
qed

lemma devices_added:
  assumes "registered env lbs index device as b" "index \<in> {0, 1, 2, 3, 4, 5}" "\<forall>a\<in>set as'. on_board (device a)"
  shows "\<exists>b'. add_devices env device desc as' b = Some b' \<and> registered env lbs index device (as @ as') b'"
  using assms(1,3)
proof (induction as' arbitrary: as b)
  case (Cons a as')
  obtain b1 where b1: "add_device env device desc a b = Some b1" "registered env lbs index device (as @ [a]) b1"
    using device_added [OF Cons.prems(1) assms(2), where desc = desc and a = a] Cons.prems(2) by auto
  then show ?case using Cons.IH [OF b1(2)] Cons.prems(2) by simp
qed simp

lemma boot_list_places:
  assumes "registered env lbs index device as b" "index \<in> {0, 1, 2, 3, 4, 5}" "\<forall>a\<in>set as. on_board (device a)"
  shows "sorted (map (place (label_names index)) (map (\<lambda>e. device_name (device (be_data e))) (BootList b)))"
proof -
  let ?l = "BootList b"
  have on: "on_board (device (be_data e))" "be_priority e = board_prio index (device (be_data e))" if "e \<in> set ?l" for e
    using that assms(1,3) by (auto simp: registered_def)
  have "sorted_wrt (\<lambda>c d. entry_key (env_drive env) c \<le> entry_key (env_drive env) d) ?l"
    using assms(1) by (simp add: registered_def boot_list_sorted_def sorted_wrt_map)
  then have "sorted_wrt (\<lambda>c d. place (label_names index) (device_name (device (be_data c))) \<le>
      place (label_names index) (device_name (device (be_data d)))) ?l"
  proof (rule sorted_wrt_mono_rel [rotated])
    fix c d assume cd: "c \<in> set ?l" "d \<in> set ?l" "entry_key (env_drive env) c \<le> entry_key (env_drive env) d"
    then have "board_prio index (device (be_data c)) \<le> board_prio index (device (be_data d))"
      using on(2) [OF cd(1)] on(2) [OF cd(2)] by (auto simp: entry_key_def less_eq_prod_def)
    then show "place (label_names index) (device_name (device (be_data c))) \<le> place (label_names index) (device_name (device (be_data d)))"
      by (rule board_prio_place [OF assms(2) on(1) [OF cd(1)] on(1) [OF cd(2)]])
  qed
  then show ?thesis by (simp add: sorted_wrt_map)
qed

section \<open>The boot table\<close>

text \<open>The first hard-disk and the first floppy entry are kept, all entries of the other types.\<close>

fun firsts :: "bool \<Rightarrow> bool \<Rightarrow> bev_s list \<Rightarrow> bev_s list" where
  "firsts h f [] = []"
| "firsts h f (e # es) =
     (if bev_type e = IPL_TYPE_HARDDISK then (if h then firsts h f es else e # firsts True f es)
      else if bev_type e = IPL_TYPE_FLOPPY then (if f then firsts h f es else e # firsts h True es)
      else e # firsts h f es)"

definition bev_of :: "bootentry_s \<Rightarrow> bev_s" where
  "bev_of pos =
     (if be_type pos = IPL_TYPE_BCV \<or> be_type pos = IPL_TYPE_HARDDISK
      then \<lparr>bev_type = IPL_TYPE_HARDDISK, bev_vector = 0\<rparr>
      else if be_type pos = IPL_TYPE_FLOPPY then \<lparr>bev_type = IPL_TYPE_FLOPPY, bev_vector = 0\<rparr>
      else \<lparr>bev_type = be_type pos, bev_vector = be_data pos\<rparr>)"

definition add_bev_of :: "bev_s \<Rightarrow> boot_state \<Rightarrow> boot_state" where
  "add_bev_of e = add_bev (bev_type e) (bev_vector e)"

lemma add_bev_of_simps:
  "HaveHDBoot (add_bev_of e b) = (if bev_type e = IPL_TYPE_HARDDISK then HaveHDBoot b + 1 else HaveHDBoot b)"
  "HaveFDBoot (add_bev_of e b) = (if bev_type e = IPL_TYPE_FLOPPY then HaveFDBoot b + 1 else HaveFDBoot b)"
  "BEV (add_bev_of e b) =
     (if bev_type e = IPL_TYPE_HARDDISK \<and> HaveHDBoot b \<noteq> 0 \<or> bev_type e = IPL_TYPE_FLOPPY \<and> HaveFDBoot b \<noteq> 0 \<or>
        BEV_SIZE \<le> length (BEV b) then BEV b else BEV b @ [e])"
  by (cases e; auto simp: add_bev_of_def add_bev_def Let_def ipl_defs)+

lemma fold_add_bev:
  assumes "0 \<le> HaveHDBoot b" "0 \<le> HaveFDBoot b" "length (BEV b) \<le> BEV_SIZE"
  shows "BEV (fold add_bev_of es b) =
    take BEV_SIZE (BEV b @ firsts (HaveHDBoot b \<noteq> 0) (HaveFDBoot b \<noteq> 0) es)"
  using assms
proof (induction es arbitrary: b)
  case (Cons e es)
  have "0 \<le> HaveHDBoot (add_bev_of e b)" "0 \<le> HaveFDBoot (add_bev_of e b)" "length (BEV (add_bev_of e b)) \<le> BEV_SIZE"
    using Cons.prems by (auto simp: add_bev_of_simps)
  from Cons.IH [OF this] show ?case
    using Cons.prems by (auto simp: add_bev_of_simps ipl_defs take_Cons')
qed simp

lemma prepboot_entry_bev: "fst (prepboot_entry env pos (b, s)) = add_bev_of (bev_of pos) b"
  by (auto simp: prepboot_entry_def bev_of_def add_bev_of_def Let_def ipl_defs)

lemma fold_prepboot: "fst (fold (prepboot_entry env) l (b, s)) = fold add_bev_of (map bev_of l) b"
proof (induction l arbitrary: b s)
  case (Cons pos l)
  have "fold (prepboot_entry env) (pos # l) (b, s) =
      fold (prepboot_entry env) l (fst (prepboot_entry env pos (b, s)), snd (prepboot_entry env pos (b, s)))"
    by simp
  then show ?case using Cons.IH by (simp add: prepboot_entry_bev)
qed simp

section \<open>The choice in the boot menu\<close>

lemma find_choice_nth:
  "1 \<le> choice \<Longrightarrow> choice \<le> int (length l) \<Longrightarrow>
   find_choice choice l = Some (take (nat (choice - 1)) l, l ! nat (choice - 1), drop (nat choice) l)"
proof (induction l arbitrary: choice)
  case (Cons pos rest)
  show ?case
  proof (cases "choice = 1")
    case False
    then have "nat (choice - 1) = Suc (nat (choice - 2))" "nat choice = Suc (nat (choice - 1))"
      using Cons.prems by auto
    then show ?thesis using Cons False by simp
  qed simp
qed simp

section \<open>The sequence of the attempts\<close>

text \<open>Every device of a list in turn, and the failure message after the last.\<close>

fun try_all :: "'w io \<Rightarrow> 'w boot_env \<Rightarrow> boot_state \<Rightarrow> bev_s list \<Rightarrow> ('w, 'z) mach_scheme \<Rightarrow>
    (('w, 'z) mach_scheme) boot_end option" where
  "try_all io env b [] s = boot_fail io b s"
| "try_all io env b (ie # rest) s =
     do {
       r \<leftarrow> boot_attempt io env b ie s;
       case r of Inl e \<Rightarrow> Some e | Inr s \<Rightarrow> try_all io env b rest s
     }"

lemma boot_fail_sequence [simp]: "boot_fail io (b\<lparr>BootSequence := n\<rparr>) s = boot_fail io b s"
  by (simp add: boot_fail_def)

lemma boot_attempt_sequence [simp]: "boot_attempt io env (b\<lparr>BootSequence := n\<rparr>) ie s = boot_attempt io env b ie s"
  by (simp add: boot_attempt_def)

lemma do_boot_all:
  assumes "k \<le> length (BEV b)"
  shows "map_option snd (do_boot io env (int k) (b\<lparr>BootSequence := int k\<rparr>, s)) = try_all io env b (drop k (BEV b)) s"
  using assms
proof (induction k arbitrary: s rule: inc_induct)
  case base
  show ?case by (simp add: do_boot.simps option.map_comp comp_def option.map_ident)
next
  case (step k)
  have d: "drop k (BEV b) = BEV b ! k # drop (Suc k) (BEV b)" using step.hyps by (simp add: Cons_nth_drop_Suc)
  have g: "arr_get (BEV b) (int k) = Some (BEV b ! k)" using step.hyps by (simp add: arr_get_def)
  show ?case
  proof (cases "boot_attempt io env b (BEV b ! k) s")
    case None
    then show ?thesis using step.hyps g by (simp add: do_boot.simps [of io env "int k"] d)
  next
    case (Some r)
    then show ?thesis
      using step.hyps g step.IH
      by (cases r) (simp_all add: do_boot.simps [of io env "int k"] d Let_def add.commute)
  qed
qed

section \<open>A simulated environment\<close>

text \<open>Every drive has a boot sector with the signature, and the code in it does not come back.\<close>

definition env_sim :: "nat boot_env" where
  "env_sim =
     \<lparr>env_drive = (\<lambda>d. no_drive\<lparr>drive_type := 0x20, cntl_id := d\<rparr>), env_text = (\<lambda>seg off. ''ROM''),
      env_have_threads = (\<lambda>w. False), env_call_bcv = (\<lambda>seg off w. w), env_map_floppy_drive = (\<lambda>d w. w),
      env_map_hd_drive = (\<lambda>d w. w), env_map_cd_drive = (\<lambda>d w. w), env_get_farvar16 = (\<lambda>seg off w. 0xaa55),
      env_cdrom_boot = (\<lambda>d w. (1, w)), env_CDEmu = (\<lambda>w. (0, 0)),
      env_farcall16 = (\<lambda>seg ip br w. Inl (w + 1)), env_cbfs_run_payload = (\<lambda>file w. Inr w)\<rparr>"

abbreviation sim_entry :: "int \<Rightarrow> u32 \<Rightarrow> int \<Rightarrow> bootentry_s" where
  "sim_entry ty data prio \<equiv> \<lparr>be_type = ty, be_data = data, be_priority = prio, be_description = ''sim''\<rparr>"

definition sim_list :: "bootentry_s list" where
  "sim_list = [sim_entry IPL_TYPE_HARDDISK 1 2, sim_entry IPL_TYPE_HARDDISK 2 2, sim_entry IPL_TYPE_CDROM 3 102]"

abbreviation sim_machine :: "nat mach" where
  "sim_machine \<equiv> \<lparr>TimerKHz = 0, TimerPort = 0, ShiftTSC = 0, TimerLast = 0, wd = 0\<rparr>"

section \<open>Properties\<close>

text \<open>
  C7. The boot list is sorted, and stable: after any sequence of registrations it is the stable sort of the registered
  entries by priority, type, driver and number, so that devices of equal rank boot in the order
  they were found in.
\<close>

theorem boot_list_sorts:
  "BootList (register_all drv rs (b\<lparr>BootList := []\<rparr>)) = sort_key (entry_key drv) (map entry_of rs)"
  using register_all_sort [of "b\<lparr>BootList := []\<rparr>" drv "[]" rs] by simp

text \<open>
  The pointers do what the list does: in a store where \<open>BootList\<close> is linked in the nodes \<open>ns\<close>, and
  \<open>ent\<close> gives the entry of a node, the walk of \<open>bootentry_add\<close> and the link of the new node make the list in
  which the new entry has been inserted.
\<close>

theorem boot_list_pointers:
  assumes "hlist h ns" "n \<notin> set ns" "map ent ns = BootList b" "ent n = \<lparr>be_type = ty, be_data = data, be_priority = prio, be_description = desc\<rparr>"
  shows "\<exists>c ns'. hlist_find_pprev (\<lambda>m. goes_before drv (ent n) (ent m)) h = Some c \<and>
    hlist (hlist_add n c h) ns' \<and> map ent ns' = BootList (bootentry_add drv True ty prio data (Some desc) b)"
proof -
  let ?breaks = "\<lambda>m. goes_before drv (ent n) (ent m)"
  obtain c where c: "hlist_find_pprev ?breaks h = Some c"
    "hlist (hlist_add n c h) (takeWhile (\<lambda>x. \<not> ?breaks x) ns @ n # dropWhile (\<lambda>x. \<not> ?breaks x) ns)"
    using hlist_insert_walk [OF assms(1,2)] by blast
  moreover have "map ent (takeWhile (\<lambda>x. \<not> ?breaks x) ns @ n # dropWhile (\<lambda>x. \<not> ?breaks x) ns) =
      BootList (bootentry_add drv True ty prio data (Some desc) b)"
    using assms(4) by (simp add: bootentry_add_def Let_def insert_entry_walk takeWhile_map dropWhile_map comp_def flip: assms(3))
  ultimately show ?thesis by blast
qed

theorem boot_list_pointers_witness:
  "\<exists>c ns'. hlist_find_pprev (\<lambda>m. goes_before (env_drive env_sim) (sim_entry 2 0 50) ((sim_list @ [sim_entry 2 0 50]) ! (m - 1)))
      hlist_sim = Some c \<and> hlist (hlist_add 4 c hlist_sim) ns' \<and>
    map (\<lambda>m. (sim_list @ [sim_entry 2 0 50]) ! (m - 1)) ns' =
      BootList (bootentry_add (env_drive env_sim) True 2 50 0 (Some ''sim'') (boot_statics\<lparr>BootList := sim_list\<rparr>))"
  using boot_list_pointers [of hlist_sim "[1, 2, 3]" 4 "\<lambda>m. (sim_list @ [sim_entry 2 0 50]) ! (m - 1)"
      "boot_statics\<lparr>BootList := sim_list\<rparr>" 2 0 50 "''sim''" "env_drive env_sim"] hlist_sim
  by (simp add: sim_list_def)

text \<open>
  C11. The boot table has at most twenty entries, in the order of the boot list: the first hard disk stands for all
  hard disks and the first floppy for all floppies, and both are there even if the list has none, as long as the
  table is not full.
\<close>

theorem boot_table:
  assumes "BEV b = []" "HaveHDBoot b = 0" "HaveFDBoot b = 0" "find_prio (Bootorder b) ''HALT'' < 0"
  shows "BEV (fst (bcv_prepboot env ok (b, s))) =
    take 20 (firsts False False (map bev_of (BootList b) @
      [\<lparr>bev_type = IPL_TYPE_FLOPPY, bev_vector = 0\<rparr>, \<lparr>bev_type = IPL_TYPE_HARDDISK, bev_vector = 0\<rparr>]))"
proof -
  have "fst (bcv_prepboot env ok (b, s)) = fold add_bev_of (map bev_of (BootList b) @
      [\<lparr>bev_type = IPL_TYPE_FLOPPY, bev_vector = 0\<rparr>, \<lparr>bev_type = IPL_TYPE_HARDDISK, bev_vector = 0\<rparr>]) b"
    using assms(4) fold_prepboot [of env "BootList b" b s]
    by (cases "fold (prepboot_entry env) (BootList b) (b, s)") (simp add: bcv_prepboot_def Let_def add_bev_of_def)
  moreover have "BEV (fold add_bev_of es b) = take BEV_SIZE (firsts False False es)" for es
    using fold_add_bev [of b es] assms(1-3) by simp
  ultimately show ?thesis by (simp only:)
qed

theorem boot_table_witness:
  "BEV (fst (bcv_prepboot env_sim True (boot_statics\<lparr>BootList := sim_list\<rparr>, sim_machine))) =
     [\<lparr>bev_type = IPL_TYPE_HARDDISK, bev_vector = 0\<rparr>, \<lparr>bev_type = IPL_TYPE_CDROM, bev_vector = 3\<rparr>,
      \<lparr>bev_type = IPL_TYPE_FLOPPY, bev_vector = 0\<rparr>]"
  using boot_table [of "boot_statics\<lparr>BootList := sim_list\<rparr>" env_sim True sim_machine]
  by (simp add: boot_statics_def find_prio_def sim_list_def bev_of_def ipl_defs)

text \<open>
  The choice of the boot menu boots first: for every scan code that the menu accepts, other than ESC, the entry
  with that number goes to the front with priority 0 and the others keep their order; the list stays sorted, as no
  other entry has priority 0.
\<close>

theorem menu_choice_first:
  assumes "1 < scan_code" "scan_code \<le> int (length (BootList b)) + 1"
    and "boot_list_sorted drv (BootList b)" "\<forall>be\<in>set (BootList b). 0 < be_priority be"
  shows "let i = nat (scan_code - 2); l = (BootList b ! i)\<lparr>be_priority := 0\<rparr> # take i (BootList b) @ drop (Suc i) (BootList b)
    in make_first scan_code b = Some (b\<lparr>BootList := l\<rparr>) \<and> boot_list_sorted drv l"
proof -
  define i where "i = nat (scan_code - 2)"
  have i: "nat (scan_code - 1 - 1) = i" "nat (scan_code - 1) = Suc i" "i < length (BootList b)"
    using assms(1,2) by (auto simp: i_def)
  have "make_first scan_code b = Some (b\<lparr>BootList := (BootList b ! i)\<lparr>be_priority := 0\<rparr> #
      take i (BootList b) @ drop (Suc i) (BootList b)\<rparr>)"
    using find_choice_nth [of "scan_code - 1" "BootList b"] assms(1,2) i
    by (simp add: make_first_def)
  moreover have "boot_list_sorted drv ((BootList b ! i)\<lparr>be_priority := 0\<rparr> # take i (BootList b) @ drop (Suc i) (BootList b))"
  proof -
    have "boot_list_sorted drv (xs @ x # ys) \<Longrightarrow> boot_list_sorted drv (xs @ ys)" for xs ys x
      by (auto simp: boot_list_sorted_def sorted_append)
    from this [of "take i (BootList b)" "BootList b ! i"]
    have "boot_list_sorted drv (take i (BootList b) @ drop (Suc i) (BootList b))"
      using assms(3) by (simp only: id_take_nth_drop [OF i(3), symmetric])
    moreover have "entry_key drv ((BootList b ! i)\<lparr>be_priority := 0\<rparr>) \<le> entry_key drv be" if "be \<in> set (BootList b)" for be
      using assms(4) that by (simp add: entry_key_def less_eq_prod_def)
    ultimately show ?thesis
      by (auto simp: boot_list_sorted_def dest: in_set_takeD in_set_dropD)
  qed
  ultimately show ?thesis by (simp add: i_def [symmetric] Let_def)
qed

theorem menu_choice_first_witness:
  "make_first 3 (boot_statics\<lparr>BootList := sim_list\<rparr>) = Some (boot_statics\<lparr>BootList :=
     [sim_entry IPL_TYPE_HARDDISK 2 0, sim_entry IPL_TYPE_HARDDISK 1 2, sim_entry IPL_TYPE_CDROM 3 102]\<rparr>)"
  using menu_choice_first [of 3 "boot_statics\<lparr>BootList := sim_list\<rparr>" "env_drive env_sim"]
  by (auto simp: sim_list_def boot_list_sorted_def entry_key_def env_sim_def ipl_defs Let_def)

text \<open>
  C10. Interrupts 19h and 18h try the boot table: as long as attempts fail, the entries of the table are tried one after
  the other, each once, and after the last comes the message that there is no bootable device. With the
  retry time -1 the machine then waits for ever.
\<close>

theorem boot_sequence:
  "map_option snd (handle_19 io env (b, s)) = try_all io env b (BEV b) s \<and>
   boot_fail io (b\<lparr>BootRetryTime := - 1\<rparr>) s = None"
proof
  show "map_option snd (handle_19 io env (b, s)) = try_all io env b (BEV b) s"
    using do_boot_all [of 0 b io env s] by (simp add: handle_19_def)
  have "boot_fail_loop io (- 1) end s = None" for "end" s
  proof (rule ccontr)
    assume "boot_fail_loop io (- 1) end s \<noteq> None"
    then obtain z where "boot_fail_loop io (- 1) end s = Some z" by blast
    then have "False"
      unfolding boot_fail_loop_def by (rule loop_invariant [where I = "\<lambda>_. True"]) auto
    then show False .
  qed
  then show "boot_fail io (b\<lparr>BootRetryTime := - 1\<rparr>) s = None"
    by (auto simp: boot_fail_def Let_def bind_eq_None_conv)
qed

text \<open>
  C8. No jump into an unchecked sector: when the hard-disk entry boots, the first sector of drive 80h has been read
  without an error and carries the signature AA55h, and control goes to 0000:7C00 with the drive number in
  DL.
\<close>

theorem hard_disk_checked:
  assumes "bev_type ie = IPL_TYPE_HARDDISK" "boot_attempt io env b ie s = Some (Inl e)"
  shows "\<exists>w0 w br out s'. io_call16 io 0x13
       (bregs_zero\<lparr>br_flags := F_IF, br_dl := 0x80, br_es := 0x07c0, br_ah := 2, br_al := 1, br_cl := 1\<rparr>) w0 = (br, w) \<and>
     br_flags br AND F_CF = 0 \<and> env_get_farvar16 env 0x07c0 0x1fe w = 0xaa55 \<and>
     e = Booted 0x0000 0x7c00 out s' \<and> br_dl out = 0x80 \<and> get_ax out = 0xaa55"
proof -
  obtain t where t: "boot_disk io env 0x80 True t = Some (Inl e)"
    using assms by (auto simp: boot_attempt_def ipl_defs bind_eq_Some_conv)
  obtain br w where call: "io_call16 io 0x13
      (bregs_zero\<lparr>br_flags := F_IF, br_dl := 0x80, br_es := 0x07c0, br_ah := 2, br_al := 1, br_cl := 1\<rparr>) (wd t) = (br, w)"
    by fastforce
  have "br_flags br AND F_CF = 0 \<and> env_get_farvar16 env 0x07c0 0x1fe w = 0xaa55 \<and>
      call_boot_entry env 0 0x7c00 0x80 (t\<lparr>wd := w\<rparr>) = Inl e"
    using t call by (auto simp: boot_disk_def Let_def call16_int_def MBR_SIGNATURE_def split: if_splits)
  moreover from this have "\<exists>out s'. e = Booted 0x0000 0x7c00 out s' \<and> br_dl out = 0x80 \<and> get_ax out = 0xaa55"
    by (auto simp: call_boot_entry_def Let_def split: sum.splits) (simp add: set_ax_def)
  ultimately show ?thesis using call by blast
qed

theorem hard_disk_checked_witness:
  "\<exists>out s'. boot_attempt clock_sim env_sim boot_statics \<lparr>bev_type = IPL_TYPE_HARDDISK, bev_vector = 0\<rparr> sim_machine =
     Some (Inl (Booted 0x0000 0x7c00 out s')) \<and> br_dl out = 0x80"
proof -
  have "bvprintf (''Booting from Hard Disk...'' @ newline) [] = Some (''Booting from Hard Disk...'' @ newline)"
    by (rule bvprintf_literal) (simp add: newline_def)
  then obtain e where e: "boot_attempt clock_sim env_sim boot_statics
      \<lparr>bev_type = IPL_TYPE_HARDDISK, bev_vector = 0\<rparr> sim_machine = Some (Inl e)"
    by (auto simp: boot_attempt_def ipl_defs printf_def boot_disk_def call16_int_def clock_sim_def F_CF_def F_IF_def
        env_sim_def MBR_SIGNATURE_def call_boot_entry_def Let_def split: prod.splits)
  with hard_disk_checked [OF _ e] show ?thesis by auto
qed


text \<open>
  Order 3, \<open>SD, USB, SATA, VFloppy\<close>: a floppy image, the SATA disk, two USB drives and the SD card, in this sequence.
\<close>

definition five_devices :: "u32 \<Rightarrow> board_device" where
  "five_devices a =
     (if a = 0 then Floppy_image ''dos.img'' else if a = 1 then Sata_disk else if a = 2 then Usb_drive (usb_behind_hub 1)
      else if a = 3 then Usb_drive (usb_device 1) else Sd_card)"


end
