(* ===== verification/Memmap.thy ===== *)
theory Memmap
  imports Prelude
begin

text \<open>
  The memory map that the firmware reports to operating systems, \<open>seabios/src/memmap.c\<close>. The used part of the
  array \<open>e820_list\<close>, its first \<open>e820_count\<close> elements, is a list; the sizes and ends are \<open>u64\<close>
  values that wrap around.
\<close>

record e820entry =
  e_start :: u64
  e_size :: u64
  e_type :: u32

definition E820_RAM :: u32 where "E820_RAM = 1"
definition E820_RESERVED :: u32 where "E820_RESERVED = 2"
definition E820_ACPI :: u32 where "E820_ACPI = 3"
definition E820_NVS :: u32 where "E820_NVS = 4"
definition E820_UNUSABLE :: u32 where "E820_UNUSABLE = 5"
definition E820_HOLE :: u32 where "E820_HOLE = - 1"

abbreviation (input) BUILD_MAX_E820 :: nat where "BUILD_MAX_E820 \<equiv> 32"

abbreviation e_end :: "e820entry \<Rightarrow> u64" where
  "e_end e \<equiv> e_start e + e_size e"

section \<open>Operations\<close>

definition remove_e820 :: "nat \<Rightarrow> e820entry list \<Rightarrow> e820entry list" where
  "remove_e820 i l = take i l @ drop (Suc i) l"

text \<open>A full array is left as it is, with a warning.\<close>

definition insert_e820 :: "nat \<Rightarrow> u64 \<Rightarrow> u64 \<Rightarrow> u32 \<Rightarrow> e820entry list \<Rightarrow> e820entry list" where
  "insert_e820 i start sz typ l =
     (if BUILD_MAX_E820 \<le> length l then l
      else take i l @ \<lparr>e_start = start, e_size = sz, e_type = typ\<rparr> # drop i l)"

text \<open>
  The loop that finds the position of the new item, from index \<open>i\<close> on: the index, the start and the sz of the
  new item, which grow when it is merged with an item below, and the list, where an item may have been split.
\<close>

function find_position :: "nat \<Rightarrow> u64 \<Rightarrow> u64 \<Rightarrow> u64 \<Rightarrow> u32 \<Rightarrow> e820entry list \<Rightarrow>
    nat \<times> u64 \<times> u64 \<times> e820entry list" where
  "find_position i start sz end typ l =
     (if i < length l
      then (let e = l ! i; e_end = e_end e
            in if e_end < start then find_position (i + 1) start sz end typ l
               else if e_start e < start
               then (if typ = e_type e then (i, e_start e, sz + (start - e_start e), l)
                     else (let l = l[i := e\<lparr>e_size := start - e_start e\<rparr>]
                           in (i + 1, start, sz,
                               if end < e_end then insert_e820 (i + 1) end (e_end - end) (e_type e) l else l)))
               else (i, start, sz, l))
      else (i, start, sz, l))"
  by pat_completeness auto
termination
  by (relation "measure (\<lambda>(i, start, sz, end, typ, l). length l - i)") auto

text \<open>The loop that removes and adjusts the items that the new one overlaps: its size and the list.\<close>

function remove_overlaps :: "nat \<Rightarrow> u64 \<Rightarrow> u64 \<Rightarrow> u32 \<Rightarrow> e820entry list \<Rightarrow> u64 \<times> e820entry list" where
  "remove_overlaps i sz end typ l =
     (if i < length l
      then (let e = l ! i
            in if end < e_start e then (sz, l)
               else if e_end e \<le> end then remove_overlaps i sz end typ (remove_e820 i l)
               else (let e' = e\<lparr>e_start := end, e_size := e_end e - end\<rparr>; l = l[i := e']
                     in if typ = e_type e then (sz + e_size e', remove_e820 i l) else (sz, l)))
      else (sz, l))"
  by pat_completeness auto
termination
  by (relation "measure (\<lambda>(i, sz, end, typ, l). length l)") (auto simp: remove_e820_def)

declare find_position.simps [simp del] remove_overlaps.simps [simp del]

definition add_e820 :: "u64 \<Rightarrow> u64 \<Rightarrow> u32 \<Rightarrow> e820entry list \<Rightarrow> e820entry list" where
  "add_e820 start sz typ l =
     (if sz = 0 then l
      else (let end = start + sz;
                (i, start, sz, l) = find_position 0 start sz end typ l;
                (sz, l) = remove_overlaps i sz end typ l
            in if typ \<noteq> E820_HOLE then insert_e820 i start sz typ l else l))"

section \<open>What the map says of an address\<close>

definition covers :: "e820entry \<Rightarrow> u64 \<Rightarrow> bool" where
  "covers e a \<longleftrightarrow> e_start e \<le> a \<and> a < e_end e"

fun type_at :: "e820entry list \<Rightarrow> u64 \<Rightarrow> u32 option" where
  "type_at [] a = None"
| "type_at (e # es) a = (if covers e a then Some (e_type e) else type_at es a)"

definition entry_ok :: "e820entry \<Rightarrow> bool" where
  "entry_ok e \<longleftrightarrow> e_start e < e_end e \<and> e_type e \<noteq> E820_HOLE"

text \<open>Items in ascending order that do not overlap, and are of different types where they touch.\<close>

definition apart :: "e820entry \<Rightarrow> e820entry \<Rightarrow> bool" where
  "apart e f \<longleftrightarrow> e_end e < e_start f \<or> e_end e = e_start f \<and> e_type e \<noteq> e_type f"

definition e820_ok :: "e820entry list \<Rightarrow> bool" where
  "e820_ok l \<longleftrightarrow> sorted_wrt apart l \<and> list_all entry_ok l"

lemma e820_ok_simps [simp]:
  "e820_ok []"
  "e820_ok (e # es) \<longleftrightarrow> entry_ok e \<and> (\<forall>f\<in>set es. apart e f) \<and> e820_ok es"
  by (auto simp: e820_ok_def)

lemma e820_ok_append:
  "e820_ok (xs @ ys) \<longleftrightarrow> e820_ok xs \<and> e820_ok ys \<and> (\<forall>e\<in>set xs. \<forall>f\<in>set ys. apart e f)"
  by (induction xs) auto

lemma type_at_append:
  "type_at (xs @ ys) a = (case type_at xs a of None \<Rightarrow> type_at ys a | Some t \<Rightarrow> Some t)"
  by (induction xs) auto

lemma type_at_None: "(\<And>e. e \<in> set es \<Longrightarrow> \<not> covers e a) \<Longrightarrow> type_at es a = None"
  by (induction es) auto

text \<open>What the second loop leaves of the items from its index on, and by how much the size grows.\<close>

fun strip :: "u64 \<Rightarrow> u32 \<Rightarrow> e820entry list \<Rightarrow> u64 \<times> e820entry list" where
  "strip end typ [] = (0, [])"
| "strip end typ (e # es) =
     (if end < e_start e then (0, e # es)
      else if e_end e \<le> end then strip end typ es
      else if typ = e_type e then (e_end e - end, es)
      else (0, e\<lparr>e_start := end, e_size := e_end e - end\<rparr> # es))"

lemma remove_overlaps_strip:
  "remove_overlaps (length xs) sz end typ (xs @ ys) =
     (sz + fst (strip end typ ys), xs @ snd (strip end typ ys))"
  by (induction ys)
    (simp_all add: remove_overlaps.simps [of "length xs"] remove_e820_def Let_def)


lemma find_position_skip:
  assumes "i < length l" "e_end (l ! i) < start"
  shows "find_position i start sz end typ l = find_position (i + 1) start sz end typ l"
  by (rule find_position.simps [THEN trans]) (simp only: assms if_True Let_def)

lemma find_position_split:
  assumes "\<forall>e\<in>set xs. e_end e < start"
  shows "find_position 0 start sz end typ (xs @ ys) = find_position (length xs) start sz end typ (xs @ ys)"
proof -
  have walk: "find_position i start sz end typ (xs @ ys) = find_position (length xs) start sz end typ (xs @ ys)"
    if "i \<le> length xs" for i
    using that
  proof (induction "length xs - i" arbitrary: i)
    case (Suc n)
    then have i: "i < length xs" by simp
    then have lt: "i < length (xs @ ys)" and below: "e_end ((xs @ ys) ! i) < start"
      using assms(1) nth_mem [OF i] by (simp, simp add: nth_append)
    have "find_position (i + 1) start sz end typ (xs @ ys) = find_position (length xs) start sz end typ (xs @ ys)"
      by (rule Suc.hyps(1)) (use Suc.hyps(2) i in simp_all)
    then show ?case by (rule find_position_skip [OF lt below, THEN trans])
  qed simp
  show ?thesis by (rule walk) simp
qed

text \<open>The end and the type decide: an item is after the new one when it is apart from it.\<close>

lemma apart_end: "apart e f \<Longrightarrow> e_end e \<le> e_start f"
  by (auto simp: apart_def)

lemma apart_start: "entry_ok e \<Longrightarrow> apart e f \<Longrightarrow> e_start e < e_start f"
  by (auto simp: apart_def entry_ok_def)

lemma strip_grows:
  assumes "e820_ok ys" "strip end typ ys = (g, zs)"
  shows "end \<le> end + g \<and> (typ = E820_HOLE \<longrightarrow> g = 0) \<and> e820_ok zs \<and>
    (\<forall>f\<in>set zs. end + g < e_start f \<or> end + g = e_start f \<and> typ \<noteq> e_type f) \<and>
    (\<forall>a. end \<le> a \<longrightarrow> type_at ys a = (if a < end + g then Some typ else type_at zs a))"
  using assms
proof (induction ys)
  case (Cons e es)
  have ok: "entry_ok e" "\<forall>f\<in>set es. apart e f" "e820_ok es" using Cons.prems(1) by auto
  consider "end < e_start e" | "\<not> end < e_start e" "e_end e \<le> end"
    | "\<not> end < e_start e" "\<not> e_end e \<le> end" "typ = e_type e"
    | "\<not> end < e_start e" "\<not> e_end e \<le> end" "typ \<noteq> e_type e" by blast
  then show ?case
  proof cases
    case 1
    have "end < e_start f" if "f \<in> set es" for f
      using 1 ok that apart_end [of e f] by (auto simp: entry_ok_def)
    then show ?thesis using 1 Cons.prems ok by auto
  next
    case 2
    then show ?thesis using Cons.prems ok Cons.IH by (auto simp: covers_def)
  next
    case 3
    then show ?thesis using Cons.prems ok
      by (auto simp: entry_ok_def apart_def covers_def)
  next
    case 4
    have "end < e_start f" if "f \<in> set es" for f
      using 4 ok that apart_end [of e f] by (auto simp: entry_ok_def)
    then show ?thesis using 4 Cons.prems ok
      by (auto simp: entry_ok_def apart_def covers_def)
  qed
qed auto


text \<open>The new item with what is left around it.\<close>

lemma strip_compose:
  assumes xs: "e820_ok xs" "\<forall>e\<in>set xs. e_end e < s \<or> e_end e = s \<and> e_type e \<noteq> typ"
    and ys: "e820_ok ys" "strip end typ ys = (g, zs)"
    and new: "s \<le> start" "start < end" "typ \<noteq> E820_HOLE" "e_start n = s" "e_end n = end + g" "e_type n = typ"
    and orig: "\<And>a. a < s \<Longrightarrow> type_at l a = type_at xs a" "\<And>a. s \<le> a \<Longrightarrow> a < start \<Longrightarrow> type_at l a = Some typ"
      "\<And>a. end \<le> a \<Longrightarrow> type_at l a = type_at ys a"
  shows "e820_ok (xs @ n # zs) \<and>
    type_at (xs @ n # zs) a = (if start \<le> a \<and> a < end then Some typ else type_at l a)"
proof -
  note z = strip_grows [OF ys]
  have below: "type_at xs a = None" if "s \<le> a" for a
    using xs(2) that by (intro type_at_None) (auto simp: covers_def)
  have above: "type_at zs a = None" if "a < end + g" for a
    using z that by (intro type_at_None) (auto simp: covers_def)
  have "apart e f" if "e \<in> set xs" "f \<in> set zs" for e f
    using bspec [OF xs(2) that(1)] z that(2) new(1,2) by (fastforce simp: apart_def)
  then have "e820_ok (xs @ n # zs)"
    using xs z new by (auto simp: e820_ok_append entry_ok_def apart_def)
  moreover have "type_at (xs @ n # zs) a = (if start \<le> a \<and> a < end then Some typ else type_at l a)"
    using below [of a] above [of a] z new orig [of a]
    by (cases "a < s"; cases "a < end"; cases "a < end + g") (auto simp: type_at_append covers_def split: option.splits)
  ultimately show ?thesis ..
qed


lemma strip_hole:
  assumes xs: "e820_ok xs" "\<forall>e\<in>set xs. e_end e \<le> start"
    and ys: "e820_ok ys" "strip end E820_HOLE ys = (g, zs)" "start < end"
    and orig: "\<And>a. a < start \<Longrightarrow> type_at l a = type_at xs a" "\<And>a. end \<le> a \<Longrightarrow> type_at l a = type_at ys a"
  shows "e820_ok (xs @ zs) \<and> type_at (xs @ zs) a = (if start \<le> a \<and> a < end then None else type_at l a)"
proof -
  note z = strip_grows [OF ys(1,2)]
  have below: "type_at xs a = None" if "start \<le> a" for a
    using xs(2) that by (intro type_at_None) (auto simp: covers_def)
  have above: "type_at zs a = None" if "a < end" for a
    using z that by (intro type_at_None) (auto simp: covers_def)
  have "apart e f" if "e \<in> set xs" "f \<in> set zs" for e f
    using bspec [OF xs(2) that(1)] z that(2) ys(3) by (fastforce simp: apart_def)
  then have "e820_ok (xs @ zs)" using xs z by (auto simp: e820_ok_append)
  moreover have "type_at (xs @ zs) a = (if start \<le> a \<and> a < end then None else type_at l a)"
    using below [of a] above [of a] z ys(3) orig [of a]
    by (cases "a < start"; cases "a < end") (auto simp: type_at_append split: option.splits)
  ultimately show ?thesis ..
qed

lemma strip_length: "length (snd (strip end typ ys)) \<le> length ys"
  by (induction ys) auto

text \<open>
  The two loops in one form: the new item is to be put between \<open>us\<close> and what is stripped of \<open>vs\<close>.
\<close>

definition placed :: "u64 \<Rightarrow> u64 \<Rightarrow> u32 \<Rightarrow> e820entry list \<Rightarrow> e820entry list \<Rightarrow> u64 \<Rightarrow> e820entry list \<Rightarrow> bool" where
  "placed start end typ l us s vs \<longleftrightarrow>
     e820_ok us \<and> e820_ok vs \<and> length us + length vs \<le> length l + 1 \<and> s \<le> start \<and> (typ = E820_HOLE \<longrightarrow> s = start) \<and>
     (\<forall>e\<in>set us. e_end e < s \<or> e_end e = s \<and> e_type e \<noteq> typ) \<and>
     (\<forall>a. a < s \<longrightarrow> type_at l a = type_at us a) \<and> (\<forall>a. s \<le> a \<longrightarrow> a < start \<longrightarrow> type_at l a = Some typ) \<and>
     (\<forall>a. end \<le> a \<longrightarrow> type_at l a = type_at vs a)"

lemma find_position_placed:
  assumes ok: "e820_ok l" and room: "length l < BUILD_MAX_E820" and new: "start < end"
  shows "\<exists>us s vs. find_position 0 start sz end typ l = (length us, s, sz + (start - s), us @ vs) \<and>
    placed start end typ l us s vs"
proof -
  define us where "us = takeWhile (\<lambda>e. e_end e < start) l"
  define vs where "vs = dropWhile (\<lambda>e. e_end e < start) l"
  have l: "l = us @ vs" by (simp add: us_def vs_def)
  have us: "\<forall>e\<in>set us. e_end e < start" by (auto simp: us_def dest: set_takeWhileD)
  have ok': "e820_ok us" "e820_ok vs" "\<forall>e\<in>set us. \<forall>f\<in>set vs. apart e f"
    using ok by (auto simp: l e820_ok_append)
  have us_None: "type_at us a = None" if "start \<le> a" for a
    using us that by (intro type_at_None) (auto simp: covers_def)
  have hd_vs: "start \<le> e_end (hd vs)" if "vs \<noteq> []"
    using hd_dropWhile [of "\<lambda>e. e_end e < start" l] that by (simp add: vs_def)
  have find: "find_position 0 start sz end typ l = find_position (length us) start sz end typ l"
    unfolding l by (rule find_position_split [OF us])
  show ?thesis
  proof (cases "vs = [] \<or> start \<le> e_start (hd vs)")
    case True
    have vs_None: "type_at vs a = None" if "a < start" for a
    proof (intro type_at_None)
      fix f assume "f \<in> set vs"
      then have "e_start (hd vs) \<le> e_start f"
        using ok'(2) \<open>f \<in> set vs\<close> by (cases vs) (auto dest: apart_start)
      then show "\<not> covers f a" using True \<open>f \<in> set vs\<close> that by (auto simp: covers_def)
    qed
    have "find_position (length us) start sz end typ l = (length us, start, sz, us @ vs)"
      using True hd_vs by (subst find_position.simps) (cases vs; auto simp: l Let_def)
    moreover have "placed start end typ l us start vs"
      using ok' us vs_None us_None new by (auto simp: placed_def l type_at_append split: option.splits)
    ultimately show ?thesis using find by (intro exI [of _ us] exI [of _ start] exI [of _ vs]) simp
  next
    case False
    then obtain e es where vs': "vs = e # es" "e_start e < start" by (cases vs) auto
    have e: "entry_ok e" "start \<le> e_end e" "e820_ok es" "\<forall>f\<in>set es. apart e f"
      using ok'(2) hd_vs by (auto simp: vs')
    have us_e: "\<forall>x\<in>set us. apart x e" using ok'(3) by (simp add: vs')
    have i: "length us < length l" "l ! length us = e" by (simp_all add: l vs')
    have us_low: "type_at us a = None" if "e_start e \<le> a" for a
      using us_e that by (intro type_at_None) (auto simp: covers_def dest!: bspec apart_end)
    have es_None: "type_at es a = None" if "a < e_end e" for a
      using e(4) that by (intro type_at_None) (auto simp: covers_def dest!: bspec apart_end)
    show ?thesis
    proof (cases "typ = e_type e")
      case True
      have "find_position (length us) start sz end typ l = (length us, e_start e, sz + (start - e_start e), us @ vs)"
        using i vs'(2) leD [OF e(2)] True by (subst find_position.simps) (simp add: Let_def l [symmetric])
      moreover have "placed start end typ l us (e_start e) vs"
        using ok' us_e us_low us_None es_None vs'(2) e new True
        by (auto simp: placed_def l vs'(1) type_at_append covers_def entry_ok_def apart_def split: option.splits)
      ultimately show ?thesis using find by (intro exI [of _ us] exI [of _ "e_start e"] exI [of _ vs]) simp
    next
      case False
      define e' where "e' = e\<lparr>e_size := start - e_start e\<rparr>"
      define ws where "ws = (if end < e_end e then \<lparr>e_start = end, e_size = e_end e - end, e_type = e_type e\<rparr> # es else es)"
      have "find_position (length us) start sz end typ l = (length (us @ [e']), start, sz, (us @ [e']) @ ws)"
        using i vs'(2) leD [OF e(2)] False room
        by (subst find_position.simps) (simp add: Let_def insert_e820_def l vs' e'_def ws_def)
      moreover have "placed start end typ l (us @ [e']) start ws"
        using ok' us_e us_low us_None es_None vs'(2) e new False
        by (auto simp: placed_def e'_def ws_def l vs'(1) e820_ok_append type_at_append covers_def entry_ok_def apart_def
            split: option.splits)
      ultimately show ?thesis using find by (intro exI [of _ "us @ [e']"] exI [of _ start] exI [of _ ws]) simp
    qed
  qed
qed


lemma add_e820_placed:
  assumes find: "find_position 0 start sz (start + sz) typ l = (length us, s, sz + (start - s), us @ vs)"
    and p: "placed start (start + sz) typ l us s vs" and room: "length l < BUILD_MAX_E820 - 1" and new: "start < start + sz"
  shows "e820_ok (add_e820 start sz typ l) \<and>
    type_at (add_e820 start sz typ l) a =
      (if start \<le> a \<and> a < start + sz then (if typ = E820_HOLE then None else Some typ) else type_at l a)"
proof -
  obtain g zs where g: "strip (start + sz) typ vs = (g, zs)" by (cases "strip (start + sz) typ vs") auto
  have len: "length us + length zs < BUILD_MAX_E820"
    using p room strip_length [of "start + sz" "typ" vs] by (auto simp: placed_def g)
  have "sz \<noteq> 0" using new by auto
  then have add: "add_e820 start sz typ l =
      (if typ \<noteq> E820_HOLE then us @ \<lparr>e_start = s, e_size = sz + (start - s) + g, e_type = typ\<rparr> # zs else us @ zs)"
    using len by (simp add: add_e820_def find remove_overlaps_strip g insert_e820_def)
  show ?thesis
  proof (cases "typ = E820_HOLE")
    case True
    have "\<forall>e\<in>set us. e_end e \<le> start" using p True by (auto simp: placed_def)
    then have "e820_ok (us @ zs) \<and> type_at (us @ zs) a =
        (if start \<le> a \<and> a < start + sz then None else type_at l a)"
      using p new g True by (intro strip_hole [of us start vs "start + sz" g zs l a]) (auto simp: placed_def)
    then show ?thesis using add True by simp
  next
    case False
    then show ?thesis
      using p new g strip_compose [of us s "typ" vs "start + sz" g zs start "\<lparr>e_start = s, e_size = sz + (start - s) + g, e_type = typ\<rparr>" l a]
      by (auto simp: add placed_def algebra_simps)
  qed
qed

lemma add_e820_updates:
  assumes "e820_ok l" "length l \<le> 30" "start < start + sz"
  shows "e820_ok (add_e820 start sz typ l) \<and>
    type_at (add_e820 start sz typ l) a =
      (if start \<le> a \<and> a < start + sz then (if typ = E820_HOLE then None else Some typ) else type_at l a)"
proof -
  obtain us s vs where "find_position 0 start sz (start + sz) typ l = (length us, s, sz + (start - s), us @ vs)"
    "placed start (start + sz) typ l us s vs"
    using find_position_placed [of l start "start + sz" sz "typ"] assms by auto
  then show ?thesis using add_e820_placed assms(2,3) by auto
qed

lemma add_e820_length: "length (add_e820 start sz typ l) \<le> length l + 2"
proof -
  have ins: "length (insert_e820 i s z t l) \<le> length l + 1" for i s z t l
    by (auto simp: insert_e820_def min_def)
  have find: "length (snd (snd (snd (find_position i s z e t l)))) \<le> length l + 1" for i s z e t l
  proof (induction i s z e t l rule: find_position.induct)
    case (1 i s z e t l)
    then show ?case using ins by (subst find_position.simps) (auto simp: Let_def intro: order_trans [OF ins])
  qed
  have rem: "length (snd (remove_overlaps i z e t l)) \<le> length l" for i z e t l
  proof (induction i z e t l rule: remove_overlaps.induct)
    case (1 i z e t l)
    then show ?case by (subst remove_overlaps.simps) (auto simp: Let_def remove_e820_def)
  qed
  obtain i s z l' where f: "find_position 0 start sz (start + sz) typ l = (i, s, z, l')" by (metis prod_cases4)
  obtain z' l'' where r: "remove_overlaps i z (start + sz) typ l' = (z', l'')" by (metis prod.exhaust)
  have "length l'' \<le> length l + 1"
    using find [of 0 start sz "start + sz" "typ" l] rem [of i z "start + sz" "typ" l'] by (simp add: f r)
  then show ?thesis using ins [of i s z' "typ" l''] by (simp add: add_e820_def f r)
qed

text \<open>
  C16. The memory map says what was added last: while the array has room, adding a region keeps the map sorted,
  without overlaps and with neighbours of equal type merged, and changes the type of exactly the addresses of the
  region; the type \<open>E820_HOLE\<close> removes them.
\<close>

theorem e820_map_updates:
  assumes "e820_ok l" "length l \<le> 30" "start < start + sz"
  shows "e820_ok (add_e820 start sz typ l) \<and>
    type_at (add_e820 start sz typ l) a =
      (if start \<le> a \<and> a < start + sz then (if typ = E820_HOLE then None else Some typ) else type_at l a)"
  using assms by (rule add_e820_updates)

text \<open>A megabyte of memory in which the map of \<open>malloc_preinit\<close> puts the hole of the adapters.\<close>

theorem e820_map_updates_witness:
  "let l = add_e820 0xa0000 0x50000 E820_HOLE [\<lparr>e_start = 0, e_size = 0x100000, e_type = E820_RAM\<rparr>]
   in e820_ok l \<and> type_at l 0xb0000 = None"
  using e820_map_updates [of "[\<lparr>e_start = 0, e_size = 0x100000, e_type = E820_RAM\<rparr>]" "0xa0000" "0x50000" E820_HOLE "0xb0000"]
  by (simp add: entry_ok_def E820_RAM_def E820_HOLE_def)

end
