(* ===== verification/Malloc.thy ===== *)
theory Malloc
  imports Memmap Cstring
begin

text \<open>
  The memory allocator of the firmware, \<open>seabios/src/malloc.c\<close>. A zone is a linked list of
  \<open>allocinfo_s\<close> nodes, named by their addresses, in descending order: a node owns the range from \<open>data\<close> to
  \<open>allocend\<close>, uses it up to \<open>dataend\<close>, and what is above is free. \<open>Hlist\<close> justifies the list for the
  pointers. No zone contains address 0, so that a null pointer is \<open>None\<close>. The contents of nodes are the map \<open>info_at\<close>, the bytes of the memory \<open>ram\<close>.

  Allocation with \<open>CONFIG_MALLOC_UPPERMEMORY\<close>, as it is configured: \<open>zonelow_expand\<close> is not compiled in.
\<close>

record allocinfo_s =
  ai_data :: u32
  ai_dataend :: u32
  ai_allocend :: u32

datatype zone_s = ZoneTmpLow | ZoneLow | ZoneFSeg | ZoneTmpHigh | ZoneHigh

definition Zones :: "zone_s list" where
  "Zones = [ZoneTmpLow, ZoneLow, ZoneFSeg, ZoneTmpHigh, ZoneHigh]"

text \<open>
  \<open>handle_at\<close> is the field \<open>handle\<close> of the \<open>allocdetail_s\<close> at an address; the nodes \<open>detailinfo\<close> and
  \<open>datainfo\<close> of that structure are at its offsets 0 and 20, its size is 44.
\<close>

record malloc_state =
  zone_head :: "zone_s \<Rightarrow> u32 list"
  info_at :: "u32 \<Rightarrow> allocinfo_s"
  handle_at :: "u32 \<Rightarrow> u32"
  RomEnd :: u32
  RomBase :: u32
  e820_list :: "e820entry list"
  LegacyRamSize :: u32
  ram :: mem

abbreviation DETAIL_SIZE :: u32 where "DETAIL_SIZE \<equiv> 44"
abbreviation datainfo :: "u32 \<Rightarrow> u32" where "datainfo detail \<equiv> detail + 20"

definition MALLOC_DEFAULT_HANDLE :: u32 where "MALLOC_DEFAULT_HANDLE = 0xFFFFFFFF"
definition MALLOC_MIN_ALIGN :: u32 where "MALLOC_MIN_ALIGN = 16"

section \<open>Memory reservations\<close>

text \<open>The walk of \<open>allocSpace\<close>: the node with enough space, and the start of the new block.\<close>

fun find_space :: "(u32 \<Rightarrow> allocinfo_s) \<Rightarrow> u32 \<Rightarrow> u32 \<Rightarrow> u32 list \<Rightarrow> (u32 \<times> u32) option" where
  "find_space at sz align [] = None"
| "find_space at sz align (info # rest) =
     (let dataend = ai_dataend (at info); allocend = ai_allocend (at info);
          newallocend = ALIGN_DOWN (allocend - sz) align
      in if dataend \<le> newallocend \<and> newallocend \<le> allocend then Some (info, newallocend)
         else find_space at sz align rest)"

text \<open>\<open>hlist_add_before\<close>.\<close>

fun add_before :: "u32 \<Rightarrow> u32 \<Rightarrow> u32 list \<Rightarrow> u32 list" where
  "add_before n m [] = []"
| "add_before n m (x # xs) = (if x = m then n # x # xs else x # add_before n m xs)"

text \<open>Without a node \<open>fill\<close> the new node is put into the new block.\<close>

definition allocSpace :: "zone_s \<Rightarrow> u32 \<Rightarrow> u32 \<Rightarrow> u32 option \<Rightarrow> malloc_state \<Rightarrow> (u32 \<times> malloc_state) option" where
  "allocSpace zone sz align fill st =
     (case find_space (info_at st) sz align (zone_head st zone) of
        None \<Rightarrow> None
      | Some (info, newallocend) \<Rightarrow>
          (let allocend = ai_allocend (info_at st info);
               fill = (case fill of None \<Rightarrow> newallocend | Some f \<Rightarrow> f);
               at = (info_at st)(fill := \<lparr>ai_data = newallocend, ai_dataend = newallocend + sz, ai_allocend = allocend\<rparr>);
               at = at(info := (at info)\<lparr>ai_allocend := newallocend\<rparr>)
           in Some (newallocend, st\<lparr>info_at := at,
                zone_head := (zone_head st)(zone := add_before fill info (zone_head st zone))\<rparr>)))"

text \<open>The node that \<open>node.next\<close> points to.\<close>

fun next_in :: "u32 \<Rightarrow> u32 list \<Rightarrow> u32 option" where
  "next_in n [] = None"
| "next_in n (x # xs) = (if x = n then (case xs of [] \<Rightarrow> None | y # _ \<Rightarrow> Some y) else next_in n xs)"

definition node_next :: "malloc_state \<Rightarrow> u32 \<Rightarrow> u32 option" where
  "node_next st n = Option.bind (find (\<lambda>z. n \<in> set (zone_head st z)) Zones) (\<lambda>z. next_in n (zone_head st z))"

definition freeSpace :: "u32 \<Rightarrow> malloc_state \<Rightarrow> malloc_state" where
  "freeSpace info st =
     (let at = info_at st;
          at = (case node_next st info of
                  None \<Rightarrow> at
                | Some next \<Rightarrow>
                    if ai_allocend (at next) = ai_data (at info)
                    then at(next := (at next)\<lparr>ai_allocend := ai_allocend (at info)\<rparr>) else at)
      in st\<lparr>info_at := at, zone_head := (\<lambda>z. remove1 info (zone_head st z))\<rparr>)"

text \<open>The bookkeeping structure of an allocation.\<close>

definition alloc_detail :: "malloc_state \<Rightarrow> (u32 \<times> malloc_state) option" where
  "alloc_detail st =
     (case allocSpace ZoneTmpHigh DETAIL_SIZE MALLOC_MIN_ALIGN None st of
        None \<Rightarrow> allocSpace ZoneTmpLow DETAIL_SIZE MALLOC_MIN_ALIGN None st
      | r \<Rightarrow> r)"

text \<open>\<open>tmp\<close> is the address of the temporary node, a variable on the stack.\<close>

definition addSpace :: "u32 \<Rightarrow> zone_s \<Rightarrow> u32 \<Rightarrow> u32 \<Rightarrow> malloc_state \<Rightarrow> malloc_state" where
  "addSpace tmp zone start end st =
     (let l = zone_head st zone;
          above = (\<lambda>n. start \<le> ai_data (info_at st n));
          st = st\<lparr>info_at := (info_at st)(tmp := \<lparr>ai_data = start, ai_dataend = start, ai_allocend = end\<rparr>),
                  zone_head := (zone_head st)(zone := takeWhile above l @ tmp # dropWhile above l)\<rparr>
      in case alloc_detail st of
           None \<Rightarrow> st\<lparr>zone_head := (zone_head st)(zone := remove1 tmp (zone_head st zone))\<rparr>
         | Some (detail, st) \<Rightarrow>
             st\<lparr>info_at := (info_at st)(datainfo detail := info_at st tmp),
                handle_at := (handle_at st)(detail := MALLOC_DEFAULT_HANDLE),
                zone_head := (zone_head st)(zone := map (\<lambda>n. if n = tmp then datainfo detail else n) (zone_head st zone))\<rparr>)"

definition findAlloc :: "malloc_state \<Rightarrow> u32 \<Rightarrow> u32 option" where
  "findAlloc st data = find (\<lambda>n. ai_data (info_at st n) = data) (concat (map (zone_head st) Zones))"

definition findLast :: "malloc_state \<Rightarrow> zone_s \<Rightarrow> u32 option" where
  "findLast st zone = (if zone_head st zone = [] then None else Some (last (zone_head st zone)))"

section \<open>Tracked allocations\<close>

definition malloc :: "zone_s \<Rightarrow> u32 \<Rightarrow> u32 \<Rightarrow> malloc_state \<Rightarrow> u32 option \<times> malloc_state" where
  "malloc zone sz align st =
     (if sz = 0 then (None, st)
      else case alloc_detail st of
        None \<Rightarrow> (None, st)
      | Some (detail, st) \<Rightarrow>
          (let st = st\<lparr>handle_at := (handle_at st)(detail := MALLOC_DEFAULT_HANDLE)\<rparr>
           in case allocSpace zone sz align (Some (datainfo detail)) st of
                None \<Rightarrow> (None, freeSpace detail st)
              | Some (data, st) \<Rightarrow> (Some data, st)))"

text \<open>A block found by its address, unless it is a bookkeeping structure or an end of a zone.\<close>

definition tracked :: "malloc_state \<Rightarrow> u32 \<Rightarrow> u32 option" where
  "tracked st data =
     (case findAlloc st data of
        None \<Rightarrow> None
      | Some info \<Rightarrow> if data = info \<or> data = ai_dataend (info_at st info) then None else Some info)"

definition free :: "u32 \<Rightarrow> malloc_state \<Rightarrow> int \<times> malloc_state" where
  "free data st =
     (case tracked st data of
        None \<Rightarrow> (- 1, st)
      | Some info \<Rightarrow> (let detail = info - 20 in (0, freeSpace detail (freeSpace info st))))"

definition malloc_getspace :: "zone_s \<Rightarrow> malloc_state \<Rightarrow> u32" where
  "malloc_getspace zone st =
     (let maxspace = fold (\<lambda>info maxspace.
            let space = ai_allocend (info_at st info) - ai_dataend (info_at st info)
            in if maxspace < space then space else maxspace) (zone_head st zone) 0
      in if zone \<noteq> ZoneTmpHigh \<and> zone \<noteq> ZoneTmpLow then maxspace
         else (let reserve = ALIGN DETAIL_SIZE MALLOC_MIN_ALIGN
               in if maxspace \<le> reserve then 0 else maxspace - reserve))"

definition malloc_sethandle :: "u32 \<Rightarrow> u32 \<Rightarrow> malloc_state \<Rightarrow> malloc_state" where
  "malloc_sethandle data handle st =
     (case tracked st data of
        None \<Rightarrow> st
      | Some info \<Rightarrow> (let detail = info - 20 in st\<lparr>handle_at := (handle_at st)(detail := handle)\<rparr>))"

definition malloc_findhandle :: "u32 \<Rightarrow> malloc_state \<Rightarrow> u32" where
  "malloc_findhandle handle st =
     (case find (\<lambda>info. ai_data (info_at st info) = info \<and> handle_at st info = handle)
             (concat (map (zone_head st) Zones)) of
        None \<Rightarrow> 0
      | Some detail \<Rightarrow> ai_data (info_at st (datainfo detail)))"

section \<open>Option ROMs\<close>

text \<open>\<open>RomBase\<close> is the last node of \<open>ZoneLow\<close>, 0 for the null pointer.\<close>

definition OPROM_HEADER_RESERVE :: u32 where "OPROM_HEADER_RESERVE = 16"
definition OPTION_ROM_ALIGN :: u32 where "OPTION_ROM_ALIGN = 2048"

definition rom_get_max :: "malloc_state \<Rightarrow> u32" where
  "rom_get_max st = ALIGN_DOWN (ai_allocend (info_at st (RomBase st)) - OPROM_HEADER_RESERVE) OPTION_ROM_ALIGN"

definition rom_get_last :: "malloc_state \<Rightarrow> u32" where
  "rom_get_last st = RomEnd st"

text \<open>\<open>zonelow_base\<close> is an address from the linker.\<close>

definition rom_reserve :: "u32 \<Rightarrow> u32 \<Rightarrow> malloc_state \<Rightarrow> u32 option \<times> malloc_state" where
  "rom_reserve zonelow_base sz st =
     (let newend = ALIGN (RomEnd st + sz) OPTION_ROM_ALIGN
      in if rom_get_max st < newend then (None, st)
         else (let newend = (if newend < zonelow_base then zonelow_base else newend);
                   e = newend + OPROM_HEADER_RESERVE
               in (Some (RomEnd st), st\<lparr>info_at := (info_at st)(RomBase st :=
                     (info_at st (RomBase st))\<lparr>ai_data := e, ai_dataend := e\<rparr>)\<rparr>)))"

definition rom_confirm :: "u32 \<Rightarrow> u32 \<Rightarrow> malloc_state \<Rightarrow> int \<times> malloc_state" where
  "rom_confirm zonelow_base sz st =
     (case rom_reserve zonelow_base sz st of
        (None, st) \<Rightarrow> (- 1, st)
      | (Some _, st) \<Rightarrow> (0, st\<lparr>RomEnd := ALIGN (RomEnd st + sz) OPTION_ROM_ALIGN\<rparr>))"

section \<open>Setup\<close>

definition BUILD_STACK_ADDR :: u32 where "BUILD_STACK_ADDR = 0x7000"
definition BUILD_EBDA_MINIMUM :: u32 where "BUILD_EBDA_MINIMUM = 0x90000"
definition BUILD_LOWRAM_END :: u32 where "BUILD_LOWRAM_END = 0xa0000"
definition BUILD_BIOS_ADDR :: u32 where "BUILD_BIOS_ADDR = 0xf0000"
definition BUILD_BIOS_SIZE :: u32 where "BUILD_BIOS_SIZE = 0x10000"
definition BUILD_MAX_HIGHTABLE :: u32 where "BUILD_MAX_HIGHTABLE = 256 * 1024"
definition PAGE_SIZE :: u32 where "PAGE_SIZE = 4096"

lemmas build_defs = BUILD_STACK_ADDR_def BUILD_EBDA_MINIMUM_def BUILD_LOWRAM_END_def BUILD_BIOS_ADDR_def
  BUILD_BIOS_SIZE_def BUILD_MAX_HIGHTABLE_def PAGE_SIZE_def MALLOC_MIN_ALIGN_def MALLOC_DEFAULT_HANDLE_def
  OPROM_HEADER_RESERVE_def OPTION_ROM_ALIGN_def

text \<open>The walk over the memory map, from the last entry down; the value is \<open>highram\<close>, 0 when it is not set.\<close>

fun preinit_loop :: "u32 \<Rightarrow> e820entry list \<Rightarrow> u32 \<Rightarrow> malloc_state \<Rightarrow> u32 \<times> malloc_state" where
  "preinit_loop tmp [] highram st = (highram, st)"
| "preinit_loop tmp (en # rest) highram st =
     (let end = e_end en
      in if end < 1024 * 1024 then (highram, st)
         else if e_type en \<noteq> E820_RAM \<or> 0xffffffff < end then preinit_loop tmp rest highram st
         else (let s = ucast (e_start en); e = ucast end;
                   newe = ALIGN_DOWN (e - BUILD_MAX_HIGHTABLE) MALLOC_MIN_ALIGN;
                   (highram, e) = (if highram = 0 \<and> newe \<le> e \<and> s \<le> newe then (newe, newe) else (highram, e))
               in preinit_loop tmp rest highram (addSpace tmp ZoneTmpHigh s e st)))"

definition malloc_preinit :: "u32 \<Rightarrow> malloc_state \<Rightarrow> malloc_state" where
  "malloc_preinit tmp st =
     (let st = st\<lparr>e820_list := add_e820 (ucast BUILD_LOWRAM_END) (ucast (BUILD_BIOS_ADDR - BUILD_LOWRAM_END)) E820_HOLE
                 (e820_list st)\<rparr>;
          st = st\<lparr>e820_list := add_e820 (ucast BUILD_BIOS_ADDR) (ucast BUILD_BIOS_SIZE) E820_RESERVED (e820_list st)\<rparr>;
          (highram, st) = preinit_loop tmp (rev (e820_list st)) 0 st;
          st = addSpace tmp ZoneTmpLow BUILD_STACK_ADDR BUILD_EBDA_MINIMUM st
      in if highram \<noteq> 0
         then (let st = addSpace tmp ZoneHigh highram (highram + BUILD_MAX_HIGHTABLE) st
               in st\<lparr>e820_list := add_e820 (ucast highram) (ucast BUILD_MAX_HIGHTABLE) E820_RESERVED (e820_list st)\<rparr>)
         else st)"

text \<open>The search from the last entry down for the end of the memory below 4 GB.\<close>

fun ram_top :: "e820entry list \<Rightarrow> u32" where
  "ram_top [] = 0"
| "ram_top (en # rest) =
     (let end = e_end en
      in if end \<le> 0xffffffff \<and> (e_type en = E820_ACPI \<or> e_type en = E820_RAM) then ucast end else ram_top rest)"

definition calcRamSize :: "malloc_state \<Rightarrow> malloc_state" where
  "calcRamSize st =
     (let rs = ram_top (rev (e820_list st))
      in st\<lparr>LegacyRamSize := (if 1024 * 1024 \<le> rs then rs else 1024 * 1024)\<rparr>)"

text \<open>The addresses that the linker defines.\<close>

record linker =
  zonelow_base :: u32
  varlow_start :: u32
  varlow_end :: u32
  final_varlow_start :: u32
  zonefseg_start :: u32
  zonefseg_end :: u32

text \<open>
  The repair of the back pointers after the relocation of the code restores the linked lists, which are lists here.
\<close>

definition malloc_init :: "linker \<Rightarrow> u32 \<Rightarrow> malloc_state \<Rightarrow> malloc_state" where
  "malloc_init ld tmp st =
     (let st = st\<lparr>ram := fst (memmove (ram st) (final_varlow_start ld) (varlow_start ld)
                              (unat (varlow_end ld - varlow_start ld)))\<rparr>;
          st = addSpace tmp ZoneLow (zonelow_base ld + OPROM_HEADER_RESERVE) (final_varlow_start ld) st;
          st = st\<lparr>RomBase := (case findLast st ZoneLow of None \<Rightarrow> 0 | Some n \<Rightarrow> n)\<rparr>;
          st = st\<lparr>ram := memset (ram st) (zonefseg_start ld) 0 (unat (zonefseg_end ld - zonefseg_start ld))\<rparr>;
          st = addSpace tmp ZoneFSeg (zonefseg_start ld) (zonefseg_end ld) st
      in calcRamSize st)"

text \<open>
  \<open>mem_size_kb\<close> is the field of the BIOS data area. The signature and the length byte of a ROM header are its first
  three bytes. Without a node in \<open>ZoneFSeg\<close> the code reads through a null pointer (\<open>None\<close>).
\<close>

definition malloc_prepboot :: "u16 \<Rightarrow> malloc_state \<Rightarrow> malloc_state option" where
  "malloc_prepboot mem_size_kb st =
     do {
       let base = rom_get_max st;
       let m = memset (ram st) (RomEnd st) 0 (unat (base - RomEnd st));
       let sz = (BUILD_BIOS_ADDR - base) div 512;
       let m = m(base := 0x55, base + 1 := 0xaa);
       let m = m(base + 2 := (if 255 < sz then 255 else ucast sz));
       let endlow = ucast mem_size_kb * 1024;
       let st = st\<lparr>ram := m, e820_list := add_e820 (ucast endlow) (ucast (BUILD_LOWRAM_END - endlow)) E820_RESERVED
                     (e820_list st)\<rparr>;
       n \<leftarrow> findLast st ZoneFSeg;
       let info = info_at st n;
       let st = st\<lparr>ram := memset (ram st) (ai_dataend info) 0 (unat (ai_allocend info - ai_dataend info))\<rparr>;
       let st = (case findLast st ZoneHigh of
                   None \<Rightarrow> st
                 | Some n \<Rightarrow>
                     (let info = info_at st n;
                          giveback = ALIGN_DOWN (ai_allocend info - ai_dataend info) PAGE_SIZE
                      in st\<lparr>e820_list := add_e820 (ucast (ai_dataend info)) (ucast giveback) E820_RAM (e820_list st)\<rparr>));
       Some (calcRamSize st)
     }"

end
