(* ===== verification/Malloc_Facts.thy ===== *)
theory Malloc_Facts
  imports Malloc
begin

text \<open>
  What the allocator guarantees: the blocks in use never overlap, a new block comes from free space, and freeing it
  restores the zones.
\<close>

section \<open>Alignment\<close>

lemma unat_ALIGN_DOWN: "unat (ALIGN_DOWN x (2 ^ k) :: u32) = unat x - unat x mod 2 ^ k"
proof -
  have "(x AND mask k) + (x AND NOT (mask k)) = (x AND mask k) OR (x AND NOT (mask k))"
    by (rule disjunctive_add) (simp add: bit_simps)
  also have "\<dots> = x" by (rule bit_eqI) (auto simp: bit_simps)
  finally have "x AND NOT (mask k) = x - take_bit k x"
    by (simp add: take_bit_eq_mask algebra_simps)
  then have "ALIGN_DOWN x (2 ^ k) = x - take_bit k x"
    by (simp add: ALIGN_DOWN_def mask_eq_exp_minus_1)
  moreover have mod: "unat (take_bit k x) = unat x mod 2 ^ k"
    using unsigned_take_bit_eq [of k x, where ?'a = nat] by (simp add: take_bit_eq_mod [of k "unat x"])
  moreover have "take_bit k x \<le> x"
    unfolding word_le_nat_alt mod by simp
  ultimately show ?thesis by (simp add: unat_sub)
qed

lemma ALIGN_DOWN_fits:
  assumes le: "ALIGN_DOWN (e - sz) (2 ^ k) \<le> (e :: u32)" and room: "unat sz + 2 ^ k \<le> 2 ^ 32"
  shows "unat (ALIGN_DOWN (e - sz) (2 ^ k)) + unat sz \<le> unat e"
proof -
  let ?n = "ALIGN_DOWN (e - sz) (2 ^ k)"
  have n: "unat ?n = unat (e - sz) - unat (e - sz) mod 2 ^ k" "unat ?n \<le> unat e"
    using le by (simp_all add: unat_ALIGN_DOWN word_le_nat_alt)
  have pos: "unat (e - sz) mod 2 ^ k < 2 ^ k" by simp
  show ?thesis
  proof (cases "sz \<le> e")
    case True
    then have "unat (e - sz) + unat sz = unat e" by (simp add: unat_sub word_le_nat_alt)
    then show ?thesis using n(1) by linarith
  next
    case False
    then have "unat (e - sz) = 2 ^ 32 + unat e - unat sz"
      by (simp add: unat_sub_if_size word_size word_le_nat_alt)
    then show ?thesis using n pos room by linarith
  qed
qed

lemma ALIGN_DOWN_aligned: "ALIGN_DOWN x (2 ^ k) AND (2 ^ k - 1) = (0 :: u32)"
  by (simp add: ALIGN_DOWN_def and.assoc)

section \<open>The invariant of the zones\<close>

abbreviation live :: "malloc_state \<Rightarrow> u32 \<Rightarrow> bool" where
  "live st n \<equiv> \<exists>z. n \<in> set (zone_head st z)"

definition node_ok :: "allocinfo_s \<Rightarrow> bool" where
  "node_ok i \<longleftrightarrow> ai_data i \<le> ai_dataend i \<and> ai_dataend i \<le> ai_allocend i"

text \<open>A range that ends at or before the start of the other, without sharing the start with it.\<close>

definition parted :: "allocinfo_s \<Rightarrow> allocinfo_s \<Rightarrow> bool" where
  "parted i j \<longleftrightarrow> ai_allocend i \<le> ai_data j \<and> ai_data i < ai_data j"


definition heap_ok :: "malloc_state \<Rightarrow> bool" where
  "heap_ok st \<longleftrightarrow>
     (\<forall>z. distinct (zone_head st z) \<and> (\<forall>n\<in>set (zone_head st z). node_ok (info_at st n)) \<and>
        sorted_wrt (\<lambda>n m. ai_allocend (info_at st m) \<le> ai_data (info_at st n)) (zone_head st z)) \<and>
     (\<forall>z z' n m. z \<noteq> z' \<longrightarrow> n \<in> set (zone_head st z) \<longrightarrow> m \<in> set (zone_head st z') \<longrightarrow>
        parted (info_at st n) (info_at st m) \<or> parted (info_at st m) (info_at st n))"

lemma zone_unique: "heap_ok st \<Longrightarrow> n \<in> set (zone_head st z) \<Longrightarrow> n \<in> set (zone_head st z') \<Longrightarrow> z = z'"
  unfolding heap_ok_def parted_def by (metis less_irrefl)

text \<open>What a node of the zone splits into.\<close>

lemma find_space_split:
  "find_space at sz align l = Some (info, n) \<Longrightarrow>
   \<exists>us vs. l = us @ info # vs \<and> n = ALIGN_DOWN (ai_allocend (at info) - sz) align \<and>
     ai_dataend (at info) \<le> n \<and> n \<le> ai_allocend (at info)"
proof (induction at sz align l rule: find_space.induct)
  case (2 at sz align x rest)
  let ?new = "ALIGN_DOWN (ai_allocend (at x) - sz) align"
  show ?case
  proof (cases "ai_dataend (at x) \<le> ?new \<and> ?new \<le> ai_allocend (at x)")
    case True
    then show ?thesis using "2.prems" by (auto simp: Let_def intro: exI [of _ "[]"])
  next
    case False
    then have found: "find_space at sz align rest = Some (info, n)" using "2.prems" by (auto simp: Let_def)
    from "2.IH" [OF refl refl refl False found] obtain us vs where
      "rest = us @ info # vs" "n = ALIGN_DOWN (ai_allocend (at info) - sz) align"
      "ai_dataend (at info) \<le> n" "n \<le> ai_allocend (at info)" by blast
    then show ?thesis by (intro exI [of _ "x # us"] exI [of _ vs]) simp
  qed
qed simp

lemma add_before_split: "m \<notin> set us \<Longrightarrow> add_before n m (us @ m # vs) = us @ n # m # vs"
  by (induction us) auto

text \<open>A block at \<open>p\<close> in the free space of a node of the zone.\<close>

definition gap :: "zone_s \<Rightarrow> u32 \<Rightarrow> u32 \<Rightarrow> u32 \<Rightarrow> malloc_state \<Rightarrow> bool" where
  "gap zone sz p info st \<longleftrightarrow> info \<in> set (zone_head st zone) \<and>
     ai_dataend (info_at st info) \<le> p \<and> p \<le> p + sz \<and> p + sz \<le> ai_allocend (info_at st info) \<and>
     unat p + unat sz < 2 ^ 32"

text \<open>A reservation: the node \<open>info\<close> gives the block to the new node \<open>f\<close>.\<close>

definition reserved :: "zone_s \<Rightarrow> u32 \<Rightarrow> u32 \<Rightarrow> u32 \<Rightarrow> u32 \<Rightarrow> malloc_state \<Rightarrow> malloc_state \<Rightarrow> bool" where
  "reserved zone sz p f info st st' \<longleftrightarrow> gap zone sz p info st \<and> (\<exists>us vs.
     zone_head st zone = us @ info # vs \<and>
     st' = st\<lparr>info_at := (info_at st)
         (f := \<lparr>ai_data = p, ai_dataend = p + sz, ai_allocend = ai_allocend (info_at st info)\<rparr>,
          info := (info_at st info)\<lparr>ai_allocend := p\<rparr>),
       zone_head := (zone_head st)(zone := us @ f # info # vs)\<rparr>)"

lemma allocSpace_gap:
  assumes "allocSpace zone sz (2 ^ k) fill st = Some (p, st')" "unat sz + 2 ^ k \<le> 2 ^ 32"
  shows "p AND (2 ^ k - 1) = 0 \<and>
    (\<exists>info. find_space (info_at st) sz (2 ^ k) (zone_head st zone) = Some (info, p) \<and> gap zone sz p info st)"
proof -
  obtain info where info: "find_space (info_at st) sz (2 ^ k) (zone_head st zone) = Some (info, p)"
    using assms(1) by (auto simp: allocSpace_def Let_def split: option.splits)
  from find_space_split [OF this] have "info \<in> set (zone_head st zone)"
    and p: "p = ALIGN_DOWN (ai_allocend (info_at st info) - sz) (2 ^ k)"
      "ai_dataend (info_at st info) \<le> p" "p \<le> ai_allocend (info_at st info)" by auto
  moreover have sum: "unat p + unat sz \<le> unat (ai_allocend (info_at st info))"
    using ALIGN_DOWN_fits p(3) assms(2) unfolding p(1) by blast
  moreover have lt: "unat p + unat sz < 2 ^ 32" using sum u32_unat_lt [of "ai_allocend (info_at st info)"] by linarith
  moreover have "unat (p + sz) = unat p + unat sz" using lt by (simp add: unat_word_ariths)
  ultimately have "gap zone sz p info st" by (auto simp: gap_def word_le_nat_alt)
  then show ?thesis using ALIGN_DOWN_aligned p(1) info by auto
qed

lemma allocSpace_reserved:
  assumes "allocSpace zone sz (2 ^ k) fill st = Some (p, st')" "heap_ok st" "unat sz + 2 ^ k \<le> 2 ^ 32"
    and f: "f = (case fill of None \<Rightarrow> p | Some f \<Rightarrow> f)" "\<not> live st f"
  shows "p AND (2 ^ k - 1) = 0 \<and> (\<exists>info. reserved zone sz p f info st st')"
proof -
  obtain info where a: "p AND (2 ^ k - 1) = 0" and info: "find_space (info_at st) sz (2 ^ k) (zone_head st zone) = Some (info, p)"
    and g: "gap zone sz p info st" using allocSpace_gap [OF assms(1,3)] by blast
  from find_space_split [OF info] obtain us vs where zl: "zone_head st zone = us @ info # vs" by blast
  then have new: "info \<noteq> f" "info \<notin> set us" using f(2) assms(2) by (auto simp: heap_ok_def dest!: spec [of _ zone])
  have "st' = st\<lparr>info_at := (info_at st)
         (f := \<lparr>ai_data = p, ai_dataend = p + sz, ai_allocend = ai_allocend (info_at st info)\<rparr>,
          info := (info_at st info)\<lparr>ai_allocend := p\<rparr>),
       zone_head := (zone_head st)(zone := us @ f # info # vs)\<rparr>"
    using assms(1) new by (auto simp: allocSpace_def info [unfolded zl] Let_def zl add_before_split f(1) split: option.splits)
  then show ?thesis using a g zl by (auto simp: reserved_def)
qed

text \<open>A gap is apart from every block in use.\<close>

lemma gap_used:
  assumes ok: "heap_ok st" and g: "gap zone sz p info st" and n: "n \<in> set (zone_head st y)"
  shows "p + sz \<le> ai_data (info_at st n) \<or> ai_dataend (info_at st n) \<le> p"
proof -
  have info: "info \<in> set (zone_head st zone)" "ai_dataend (info_at st info) \<le> p" "p + sz \<le> ai_allocend (info_at st info)"
    using g by (auto simp: gap_def)
  have nok: "node_ok (info_at st n)" "node_ok (info_at st info)" using ok n info(1) by (auto simp: heap_ok_def)
  show ?thesis
  proof (cases "y = zone")
    case False
    then have "parted (info_at st n) (info_at st info) \<or> parted (info_at st info) (info_at st n)"
      using ok n info(1) by (auto simp: heap_ok_def)
    then show ?thesis using nok info by (auto simp: parted_def node_ok_def)
  next
    case True
    obtain us vs where zl: "zone_head st zone = us @ info # vs" using info(1) by (meson split_list)
    have "sorted_wrt (\<lambda>n m. ai_allocend (info_at st m) \<le> ai_data (info_at st n)) (us @ info # vs)"
      using ok unfolding heap_ok_def by (metis zl)
    moreover have "n = info \<or> n \<in> set us \<or> n \<in> set vs" using n True zl by auto
    ultimately show ?thesis using nok info by (fastforce simp: sorted_wrt_append node_ok_def)
  qed
qed

section \<open>Operations keep the invariant\<close>

text \<open>A range inside of another one, which keeps it apart from everything else.\<close>

definition within :: "allocinfo_s \<Rightarrow> allocinfo_s \<Rightarrow> bool" where
  "within j i \<longleftrightarrow> ai_data i \<le> ai_data j \<and> ai_allocend j \<le> ai_allocend i \<and>
     (ai_data j = ai_data i \<or> ai_data j < ai_allocend i)"

lemma within_refl [simp]: "within i i"
  by (simp add: within_def)

lemma parted_within: "within i' i \<Longrightarrow> within j' j \<Longrightarrow> parted i j \<Longrightarrow> parted i' j'"
  by (auto simp: within_def parted_def)

lemma heap_ok_cross:
  assumes "heap_ok st" "z \<noteq> z'"
    and "within i (info_at st n)" "n \<in> set (zone_head st z)" "within j (info_at st m)" "m \<in> set (zone_head st z')"
  shows "parted i j \<or> parted j i"
proof -
  have "parted (info_at st n) (info_at st m) \<or> parted (info_at st m) (info_at st n)"
    using assms(1,2,4,6) unfolding heap_ok_def by blast
  then show ?thesis using assms(3,5) by (blast intro: parted_within)
qed

lemma reserved_within:
  assumes r: "reserved zone sz p f info st st'" and ok: "heap_ok st" and f: "\<not> live st f" and sz: "sz \<noteq> 0"
    and n: "n \<in> set (zone_head st' y)"
  shows "\<exists>o'. within (info_at st' n) (info_at st o') \<and> o' \<in> set (zone_head st y)"
proof -
  obtain us vs where zl: "zone_head st zone = us @ info # vs"
    and p: "ai_dataend (info_at st info) \<le> p" "p \<le> p + sz" "p + sz \<le> ai_allocend (info_at st info)"
    and st': "st' = st\<lparr>info_at := (info_at st)
         (f := \<lparr>ai_data = p, ai_dataend = p + sz, ai_allocend = ai_allocend (info_at st info)\<rparr>,
          info := (info_at st info)\<lparr>ai_allocend := p\<rparr>),
       zone_head := (zone_head st)(zone := us @ f # info # vs)\<rparr>"
    using r unfolding reserved_def gap_def by blast
  show ?thesis
  proof (cases "y = zone \<and> (n = f \<or> n = info)")
    case True
    have "node_ok (info_at st info)" "info \<noteq> f" using ok zl f by (auto simp: heap_ok_def dest!: spec [of _ zone])
    moreover have "p < p + sz" using p(2) sz by (simp add: order_less_le)
    ultimately have "within (info_at st' n) (info_at st info)"
      using True p by (auto simp: st' within_def node_ok_def)
    then show ?thesis using True zl by (intro exI [of _ info]) simp
  next
    case False
    then have "n \<in> set (zone_head st y)" using n zl by (auto simp: st' split: if_splits)
    moreover have "n \<noteq> f" "n \<noteq> info"
      using False f calculation zone_unique [OF ok, of n y zone] zl by auto
    ultimately show ?thesis by (intro exI [of _ n]) (simp add: st')
  qed
qed

lemma reserved_ok:
  assumes r: "reserved zone sz p f info st st'" and ok: "heap_ok st" and f: "\<not> live st f" and sz: "sz \<noteq> 0"
  shows "heap_ok st'"
proof -
  obtain us vs where zl: "zone_head st zone = us @ info # vs"
    and p: "ai_dataend (info_at st info) \<le> p" "p \<le> p + sz" "p + sz \<le> ai_allocend (info_at st info)"
    and st': "st' = st\<lparr>info_at := (info_at st)
         (f := \<lparr>ai_data = p, ai_dataend = p + sz, ai_allocend = ai_allocend (info_at st info)\<rparr>,
          info := (info_at st info)\<lparr>ai_allocend := p\<rparr>),
       zone_head := (zone_head st)(zone := us @ f # info # vs)\<rparr>"
    using r unfolding reserved_def gap_def by blast
  have z: "distinct (us @ info # vs)" "\<forall>n\<in>set (us @ info # vs). node_ok (info_at st n)"
    "sorted_wrt (\<lambda>n m. ai_allocend (info_at st m) \<le> ai_data (info_at st n)) (us @ info # vs)"
    using ok unfolding heap_ok_def by (metis zl)+
  have fresh: "f \<notin> set (us @ info # vs)" using f zl by metis
  have p': "ai_data (info_at st info) \<le> p" "p < ai_allocend (info_at st info)" "p < p + sz"
    using z(2) p sz by (auto simp: node_ok_def order_less_le)
  have old: "\<exists>o'. within (info_at st' n) (info_at st o') \<and> o' \<in> set (zone_head st y)"
    if "n \<in> set (zone_head st' y)" for n y
    by (rule reserved_within [OF r ok f sz that])
  have "distinct (zone_head st' y) \<and> (\<forall>n\<in>set (zone_head st' y). node_ok (info_at st' n)) \<and>
      sorted_wrt (\<lambda>n m. ai_allocend (info_at st' m) \<le> ai_data (info_at st' n)) (zone_head st' y)" for y
  proof (cases "y = zone")
    case True
    have same: "info_at st' n = info_at st n" if "n \<in> set us \<union> set vs" for n
      using that z(1) fresh by (auto simp: st')
    have "sorted_wrt (\<lambda>n m. ai_allocend (info_at st' m) \<le> ai_data (info_at st' n)) us"
      "sorted_wrt (\<lambda>n m. ai_allocend (info_at st' m) \<le> ai_data (info_at st' n)) vs"
      using z(3) by (auto simp: sorted_wrt_append same elim!: sorted_wrt_mono_rel [rotated])
    then show ?thesis
      using True z p p' fresh same
      by (auto simp: st' sorted_wrt_append node_ok_def)
  next
    case False
    have same: "info_at st' n = info_at st n" if "n \<in> set (zone_head st y)" for n
      using that False f zone_unique [OF ok, of n y zone] zl by (auto simp: st')
    have "sorted_wrt (\<lambda>n m. ai_allocend (info_at st m) \<le> ai_data (info_at st n)) (zone_head st y)"
      "distinct (zone_head st y)" "\<forall>n\<in>set (zone_head st y). node_ok (info_at st n)"
      using ok unfolding heap_ok_def by metis+
    moreover have "zone_head st' y = zone_head st y" using False by (simp add: st')
    ultimately show ?thesis using same by (auto elim!: sorted_wrt_mono_rel [rotated])
  qed
  moreover have "parted (info_at st' n) (info_at st' m) \<or> parted (info_at st' m) (info_at st' n)"
    if "y \<noteq> y'" "n \<in> set (zone_head st' y)" "m \<in> set (zone_head st' y')" for y y' n m
    using old [OF that(2)] old [OF that(3)] heap_ok_cross [OF ok that(1)] by blast
  ultimately show ?thesis unfolding heap_ok_def by blast
qed


lemma in_Zones [simp]: "z \<in> set Zones"
  by (cases z) (simp_all add: Zones_def)

lemma find_unique:
  assumes "x \<in> set xs" "P x" "\<And>y. P y \<Longrightarrow> y = x"
  shows "find P xs = Some x"
proof -
  have "P = (\<lambda>y. y = x)" using assms(2,3) by blast
  then show ?thesis using assms(1) by (induction xs) auto
qed

lemma next_in_split: "n \<notin> set us \<Longrightarrow> next_in n (us @ n # vs) = (case vs of [] \<Rightarrow> None | y # _ \<Rightarrow> Some y)"
  by (induction us) auto

lemma node_next_split:
  assumes "heap_ok st" "zone_head st zone = us @ n # vs"
  shows "node_next st n = (case vs of [] \<Rightarrow> None | y # _ \<Rightarrow> Some y)"
proof -
  have "find (\<lambda>z. n \<in> set (zone_head st z)) Zones = Some zone"
    using assms zone_unique [OF assms(1), of n _ zone] by (intro find_unique) auto
  moreover have "distinct (us @ n # vs)" using assms unfolding heap_ok_def by metis
  ultimately show ?thesis by (simp add: node_next_def assms(2) next_in_split)
qed

lemma freeSpace_split:
  assumes "heap_ok st" "zone_head st zone = us @ n # vs"
  shows "freeSpace n st = st\<lparr>info_at :=
      (case vs of [] \<Rightarrow> info_at st
       | y # _ \<Rightarrow> if ai_allocend (info_at st y) = ai_data (info_at st n)
                 then (info_at st)(y := (info_at st y)\<lparr>ai_allocend := ai_allocend (info_at st n)\<rparr>) else info_at st),
      zone_head := (zone_head st)(zone := us @ vs)\<rparr>"
proof -
  have "distinct (us @ n # vs)" using assms unfolding heap_ok_def by metis
  then have "(\<lambda>z. remove1 n (zone_head st z)) = (zone_head st)(zone := us @ vs)"
    using zone_unique [OF assms(1), of n _ zone]
    by (auto simp: fun_eq_iff assms(2) remove1_append intro!: remove1_idem)
  then show ?thesis by (cases vs) (simp_all add: freeSpace_def node_next_split [OF assms] Let_def)
qed

text \<open>The range of the next node when it takes over that of the freed one.\<close>

lemma parted_merge:
  assumes "parted i m \<or> parted m i" "parted j m \<or> parted m j" "ai_allocend j = ai_data i" "node_ok i" "node_ok j"
  shows "parted (j\<lparr>ai_allocend := ai_allocend i\<rparr>) m \<or> parted m (j\<lparr>ai_allocend := ai_allocend i\<rparr>)"
  using assms by (auto simp: parted_def node_ok_def)

lemma freeSpace_ok:
  assumes ok: "heap_ok st" and n: "n \<in> set (zone_head st zone)"
  shows "heap_ok (freeSpace n st)"
proof -
  obtain us vs where zl: "zone_head st zone = us @ n # vs" using n by (meson split_list)
  define st' where "st' = freeSpace n st"
  note st' = freeSpace_split [OF ok zl, folded st'_def]
  have z: "distinct (us @ n # vs)" "\<forall>m\<in>set (us @ n # vs). node_ok (info_at st m)"
    "sorted_wrt (\<lambda>n m. ai_allocend (info_at st m) \<le> ai_data (info_at st n)) (us @ n # vs)"
    using ok unfolding heap_ok_def by (metis zl)+
  text \<open>A node is as before, or is the one that has been merged.\<close>
  have cases: "info_at st' m = info_at st m \<or>
      y = zone \<and> (\<exists>ws. vs = m # ws) \<and> ai_allocend (info_at st m) = ai_data (info_at st n) \<and>
      info_at st' m = (info_at st m)\<lparr>ai_allocend := ai_allocend (info_at st n)\<rparr>"
    and kept: "m \<in> set (zone_head st y)" if "m \<in> set (zone_head st' y)" for m y
    using that zl zone_unique [OF ok, of m y zone] by (auto simp: st' split: list.splits if_splits)
  have head: "zone_head st' = (zone_head st)(zone := us @ vs)" by (simp add: st')
  have data: "ai_data (info_at st' m) = ai_data (info_at st m)" for m
    by (auto simp: st' split: list.split)
  have "distinct (zone_head st' y) \<and> (\<forall>m\<in>set (zone_head st' y). node_ok (info_at st' m)) \<and>
      sorted_wrt (\<lambda>n m. ai_allocend (info_at st' m) \<le> ai_data (info_at st' n)) (zone_head st' y)" for y
  proof (cases "y = zone")
    case True
    have "info_at st' m = info_at st m" if "m \<in> set us" for m
      using that z(1) by (auto simp: st' split: list.split)
    then have "sorted_wrt (\<lambda>n m. ai_allocend (info_at st' m) \<le> ai_data (info_at st n)) us"
      using z(3) by (auto simp: sorted_wrt_append elim!: sorted_wrt_mono_rel [rotated])
    moreover have "ai_allocend (info_at st' m) \<le> ai_data (info_at st u)" if "u \<in> set us" "m \<in> set vs" for m u
      using cases [of m zone] that z by (auto simp: head sorted_wrt_append)
    moreover have "sorted_wrt (\<lambda>n m. ai_allocend (info_at st' m) \<le> ai_data (info_at st n)) vs"
      using z(1,3) by (cases vs) (auto simp: st' sorted_wrt_append elim!: sorted_wrt_mono_rel [rotated])
    moreover have "node_ok (info_at st' m)" if "m \<in> set (us @ vs)" for m
    proof -
      have "m \<in> set (zone_head st' zone)" using that by (simp add: head)
      from cases [OF this] z(2) that show ?thesis by (auto simp: node_ok_def)
    qed
    ultimately show ?thesis using z(1) True by (auto simp: head data sorted_wrt_append)
  next
    case False
    then have "info_at st' m = info_at st m" if "m \<in> set (zone_head st y)" for m
      using cases [of m y] that by (simp add: head)
    moreover have "zone_head st' y = zone_head st y" using False by (simp add: head)
    moreover have "sorted_wrt (\<lambda>n m. ai_allocend (info_at st m) \<le> ai_data (info_at st n)) (zone_head st y)"
      "distinct (zone_head st y)" "\<forall>n\<in>set (zone_head st y). node_ok (info_at st n)"
      using ok unfolding heap_ok_def by metis+
    ultimately show ?thesis by (auto elim!: sorted_wrt_mono_rel [rotated])
  qed
  moreover have "parted (info_at st' a) (info_at st' b) \<or> parted (info_at st' b) (info_at st' a)"
    if ne: "y \<noteq> y'" and ab: "a \<in> set (zone_head st' y)" "b \<in> set (zone_head st' y')" for y y' a b
  proof -
    have old: "parted (info_at st c) (info_at st d) \<or> parted (info_at st d) (info_at st c)"
      if "c \<in> set (zone_head st x)" "d \<in> set (zone_head st x')" "x \<noteq> x'" for c d x x'
      using ok that unfolding heap_ok_def by blast
    note merge = parted_merge [of "info_at st n" _ "info_at st _"]
    have n': "n \<in> set (zone_head st zone)" "node_ok (info_at st n)" using n z(2) by auto
    show ?thesis
      using cases [OF ab(1)] cases [OF ab(2)]
    proof (elim disjE)
      assume "info_at st' a = info_at st a" "info_at st' b = info_at st b"
      then show ?thesis using old [OF kept [OF ab(1)] kept [OF ab(2)] ne] by simp
    next
      assume a: "y = zone \<and> (\<exists>ws. vs = a # ws) \<and> ai_allocend (info_at st a) = ai_data (info_at st n) \<and>
        info_at st' a = (info_at st a)\<lparr>ai_allocend := ai_allocend (info_at st n)\<rparr>" and b: "info_at st' b = info_at st b"
      have "node_ok (info_at st a)" using a z(2) by auto
      then show ?thesis
        using a b ne n' old [OF kept [OF ab(1)] kept [OF ab(2)] ne] old [OF n'(1) kept [OF ab(2)]]
          parted_merge [of "info_at st n" "info_at st b" "info_at st a"] by auto
    next
      assume b: "y' = zone \<and> (\<exists>ws. vs = b # ws) \<and> ai_allocend (info_at st b) = ai_data (info_at st n) \<and>
        info_at st' b = (info_at st b)\<lparr>ai_allocend := ai_allocend (info_at st n)\<rparr>" and a: "info_at st' a = info_at st a"
      have "node_ok (info_at st b)" using b z(2) by auto
      then show ?thesis
        using a b ne n' old [OF kept [OF ab(2)] kept [OF ab(1)]] old [OF n'(1) kept [OF ab(1)]]
          parted_merge [of "info_at st n" "info_at st a" "info_at st b"] by auto
    qed (use ne in auto)
  qed
  ultimately show ?thesis unfolding heap_ok_def st'_def by blast
qed


section \<open>Bookkeeping\<close>

text \<open>The two nodes of a bookkeeping structure: its own block, and the block or space it keeps.\<close>

definition detail_at :: "malloc_state \<Rightarrow> u32 \<Rightarrow> bool" where
  "detail_at st d \<longleftrightarrow> live st d \<and> live st (datainfo d) \<and> ai_data (info_at st d) = d \<and>
     ai_dataend (info_at st d) = d + DETAIL_SIZE \<and> d \<le> d + DETAIL_SIZE \<and> ai_data (info_at st (datainfo d)) \<noteq> datainfo d"

text \<open>\<open>T\<close> has the temporary nodes.\<close>

definition book_except :: "u32 set \<Rightarrow> malloc_state \<Rightarrow> bool" where
  "book_except T st \<longleftrightarrow> (\<forall>n. live st n \<longrightarrow> n \<in> T \<or> detail_at st n \<or> detail_at st (n - 20))"

definition book_ok :: "malloc_state \<Rightarrow> bool" where
  "book_ok st \<longleftrightarrow> (\<forall>n. live st n \<longrightarrow> detail_at st n \<or> detail_at st (n - 20))"

lemma book_except_empty: "book_except {} st = book_ok st"
  by (simp add: book_except_def book_ok_def)

definition heap_inv :: "malloc_state \<Rightarrow> bool" where
  "heap_inv st \<longleftrightarrow> heap_ok st \<and> book_ok st"

lemma heap_ok_handle [simp]: "heap_ok (st\<lparr>handle_at := h\<rparr>) = heap_ok st"
  by (simp add: heap_ok_def)

lemma detail_at_handle [simp]: "detail_at (st\<lparr>handle_at := h\<rparr>) d = detail_at st d"
  by (simp add: detail_at_def)

lemma book_ok_handle [simp]: "book_ok (st\<lparr>handle_at := h\<rparr>) = book_ok st"
  by (simp add: book_ok_def)

lemma reserved_live: "reserved zone sz p f info st st' \<Longrightarrow> live st' n \<longleftrightarrow> live st n \<or> n = f"
  by (force simp: reserved_def split: if_splits)

lemma reserved_info:
  assumes "reserved zone sz p f info st st'" "\<not> live st f"
  shows "ai_data (info_at st' f) = p" "ai_dataend (info_at st' f) = p + sz"
    "n \<noteq> f \<Longrightarrow> ai_data (info_at st' n) = ai_data (info_at st n)"
    "n \<noteq> f \<Longrightarrow> ai_dataend (info_at st' n) = ai_dataend (info_at st n)"
proof -
  have "info \<noteq> f" using assms by (auto simp: reserved_def gap_def)
  then show "ai_data (info_at st' f) = p" "ai_dataend (info_at st' f) = p + sz"
    "n \<noteq> f \<Longrightarrow> ai_data (info_at st' n) = ai_data (info_at st n)"
    "n \<noteq> f \<Longrightarrow> ai_dataend (info_at st' n) = ai_dataend (info_at st n)"
    using assms(1) by (auto simp: reserved_def)
qed

text \<open>A new bookkeeping structure has none of its nodes in use.\<close>

lemma detail_fresh:
  assumes inv: "heap_ok st" "book_except T st" and g: "gap zone DETAIL_SIZE p info st"
    and T: "\<forall>n\<in>T. n < p \<or> p + DETAIL_SIZE \<le> n"
  shows "\<not> live st p \<and> \<not> live st (datainfo p)"
proof -
  have "p + c \<noteq> n" if live: "live st n" and c: "c = 0 \<or> c = 20" for c n
  proof
    assume n: "p + c = n"
    have "n \<notin> T"
    proof
      assume "n \<in> T"
      then have "n < p \<or> p + DETAIL_SIZE \<le> n" using T by blast
      moreover have "unat (p + DETAIL_SIZE) = unat p + 44" "unat n = unat p + unat c"
        using g c n by (auto simp: gap_def unat_word_ariths)
      ultimately show False using c by (auto simp: word_less_nat_alt word_le_nat_alt)
    qed
    then obtain d where d: "detail_at st d" "n = d \<or> n = datainfo d"
      using inv(2) live by (auto simp: book_except_def)
    have apart: "p + DETAIL_SIZE \<le> d \<or> d + DETAIL_SIZE \<le> p"
      using d(1) gap_used [OF inv(1) g, of d] by (auto simp: detail_at_def)
    have p: "unat (p + DETAIL_SIZE) = unat p + 44" "unat p + 44 < 2 ^ 32" using g by (auto simp: gap_def unat_word_ariths)
    have d': "unat (d + DETAIL_SIZE) = unat d + 44"
      using d(1) no_olen_add_nat [of d DETAIL_SIZE] by (simp add: detail_at_def unat_word_ariths)
    have "unat (p + c) = unat p + unat c" using c p(2) by (auto simp: unat_word_ariths)
    moreover have "unat (datainfo d) = unat d + 20"
      using d' u32_unat_lt [of "d + DETAIL_SIZE"] by (simp add: unat_word_ariths)
    ultimately have "unat p + unat c = unat d \<or> unat p + unat c = unat d + 20" using n d(2) by auto
    then show False using apart p d' c by (auto simp: word_le_nat_alt)
  qed
  from this [of p 0] this [of "datainfo p" 20] show ?thesis by auto
qed


lemma alloc_detail_reserved_except:
  assumes "alloc_detail st = Some (d, st')" "heap_ok st" "book_except T st"
    and T: "\<forall>t\<in>T. \<forall>n. live st n \<longrightarrow> t < ai_data (info_at st n) \<or> ai_allocend (info_at st n) \<le> t"
  shows "\<not> live st d \<and> \<not> live st (datainfo d) \<and> (\<exists>zone info. reserved zone DETAIL_SIZE d d info st st')"
proof -
  obtain zone where a: "allocSpace zone DETAIL_SIZE (2 ^ 4) None st = Some (d, st')"
    using assms(1) by (auto simp: alloc_detail_def MALLOC_MIN_ALIGN_def split: option.splits)
  from allocSpace_gap [OF this] obtain info where g: "gap zone DETAIL_SIZE d info st" by auto
  have "\<forall>t\<in>T. t < d \<or> d + DETAIL_SIZE \<le> t"
  proof
    fix t assume "t \<in> T"
    have "info \<in> set (zone_head st zone)" using g by (simp add: gap_def)
    moreover have "node_ok (info_at st info)" using assms(2) calculation by (auto simp: heap_ok_def)
    moreover have "t < ai_data (info_at st info) \<or> ai_allocend (info_at st info) \<le> t"
      using T \<open>t \<in> T\<close> calculation(1) by blast
    ultimately show "t < d \<or> d + DETAIL_SIZE \<le> t" using g by (auto simp: gap_def node_ok_def)
  qed
  from detail_fresh [OF assms(2,3) g this] allocSpace_reserved [OF a assms(2), of d]
  show ?thesis by auto
qed

lemma alloc_detail_reserved:
  assumes "alloc_detail st = Some (d, st')" "heap_ok st" "book_ok st"
  shows "\<not> live st d \<and> \<not> live st (datainfo d) \<and> (\<exists>zone info. reserved zone DETAIL_SIZE d d info st st')"
  using alloc_detail_reserved_except [OF assms(1,2), of "{}"] assms(3) by (simp add: book_except_empty)

text \<open>What a successful allocation has done: reserved the bookkeeping structure \<open>d\<close>, then the block.\<close>

lemma malloc_steps:
  assumes m: "malloc zone sz (2 ^ k) st = (Some p, st')" and inv: "heap_inv st" and room: "unat sz + 2 ^ k \<le> 2 ^ 32"
  obtains d st1 z1 info1 info h where "sz \<noteq> 0" "p AND (2 ^ k - 1) = 0" "\<not> live st d" "\<not> live st (datainfo d)"
    "reserved z1 DETAIL_SIZE d d info1 st st1" "heap_ok st1" "\<not> live st1 (datainfo d)"
    "reserved zone sz p (datainfo d) info (st1\<lparr>handle_at := h\<rparr>) st'" "heap_ok st'" "p \<noteq> datainfo d"
proof -
  obtain d st1 where d: "alloc_detail st = Some (d, st1)" "sz \<noteq> 0"
    and a: "allocSpace zone sz (2 ^ k) (Some (datainfo d)) (st1\<lparr>handle_at := (handle_at st1)(d := MALLOC_DEFAULT_HANDLE)\<rparr>) = Some (p, st')"
    using m by (auto simp: malloc_def Let_def split: if_splits option.splits)
  obtain z1 info1 where r: "\<not> live st d" "\<not> live st (datainfo d)" "reserved z1 DETAIL_SIZE d d info1 st st1"
    using alloc_detail_reserved [OF d(1)] inv by (auto simp: heap_inv_def)
  have st1: "heap_ok st1" using reserved_ok [OF r(3) _ r(1)] inv by (simp add: heap_inv_def)
  have f: "\<not> live st1 (datainfo d)" using reserved_live [OF r(3)] r(2) by simp
  let ?st = "st1\<lparr>handle_at := (handle_at st1)(d := MALLOC_DEFAULT_HANDLE)\<rparr>"
  obtain info where r2: "p AND (2 ^ k - 1) = 0" "reserved zone sz p (datainfo d) info ?st st'"
    using allocSpace_reserved [OF a _ room, of "datainfo d"] st1 f by auto
  then have "heap_ok st'" using reserved_ok [OF r2(2)] st1 f d(2) by simp
  moreover have "p \<noteq> datainfo d"
  proof -
    have "unat d + 44 < 2 ^ 32" using r(3) by (auto simp: reserved_def gap_def)
    then have "datainfo d < d + DETAIL_SIZE" "d \<le> datainfo d"
      by (auto simp: word_less_nat_alt word_le_nat_alt unat_word_ariths)
    moreover have "gap zone sz p info st1" using r2 by (auto simp: reserved_def gap_def)
    from gap_used [OF st1 this, of d] have "p + sz \<le> d \<or> d + DETAIL_SIZE \<le> p"
      using reserved_info [OF r(3,1)] reserved_live [OF r(3), of d] by auto
    moreover have "p < p + sz" using r2 d(2) by (auto simp: reserved_def gap_def order_less_le)
    ultimately show ?thesis by auto
  qed
  ultimately show thesis using that d(2) r st1 f r2 by blast
qed

lemma malloc_inv:
  assumes "malloc zone sz (2 ^ k) st = (Some p, st')" "heap_inv st" "unat sz + 2 ^ k \<le> 2 ^ 32"
  shows "heap_inv st'"
  using assms
proof (rule malloc_steps)
  fix d st1 z1 info1 info h
  assume sz: "sz \<noteq> 0" and f: "\<not> live st d" "\<not> live st (datainfo d)" "\<not> live st1 (datainfo d)"
    and r1: "reserved z1 DETAIL_SIZE d d info1 st st1" and ok: "heap_ok st1" "heap_ok st'"
    and r2: "reserved zone sz p (datainfo d) info (st1\<lparr>handle_at := h\<rparr>) st'" and ne: "p \<noteq> datainfo d"
  have live': "live st' n \<longleftrightarrow> live st n \<or> n = d \<or> n = datainfo d" for n
    using reserved_live [OF r2, of n] reserved_live [OF r1, of n] by auto
  have data: "ai_data (info_at st' n) = ai_data (info_at st n)" "ai_dataend (info_at st' n) = ai_dataend (info_at st n)"
    if "live st n" for n
  proof -
    have "n \<noteq> d" "n \<noteq> datainfo d" using that f by metis+
    then show "ai_data (info_at st' n) = ai_data (info_at st n)" "ai_dataend (info_at st' n) = ai_dataend (info_at st n)"
      using reserved_info(3,4) [OF r1 f(1), of n] reserved_info(3,4) [OF r2, of n] f(3) by auto
  qed
  have d: "ai_data (info_at st' d) = d" "ai_dataend (info_at st' d) = d + DETAIL_SIZE" "ai_data (info_at st' (datainfo d)) = p"
    using reserved_info [OF r1 f(1)] reserved_info [OF r2] f(3) by auto
  have "detail_at st n \<Longrightarrow> detail_at st' n" for n
    unfolding detail_at_def live' using data by metis
  moreover have "detail_at st' d"
    using d r1 ne live' by (auto simp: detail_at_def reserved_def gap_def)
  ultimately have "book_ok st'"
    using assms(2) unfolding book_ok_def heap_inv_def live' by auto
  then show ?thesis using ok by (simp add: heap_inv_def)
qed


text \<open>Freeing a node that has just been reserved leaves its contents behind, and nothing else.\<close>

lemma freeSpace_undo:
  assumes "reserved zone sz p f info st st'" "heap_ok st'" "\<not> live st f"
  shows "\<exists>x. freeSpace f st' = st\<lparr>info_at := (info_at st)(f := x)\<rparr>"
proof -
  obtain us vs where zl: "zone_head st zone = us @ info # vs" and st': "st' = st\<lparr>info_at := (info_at st)
         (f := \<lparr>ai_data = p, ai_dataend = p + sz, ai_allocend = ai_allocend (info_at st info)\<rparr>,
          info := (info_at st info)\<lparr>ai_allocend := p\<rparr>),
       zone_head := (zone_head st)(zone := us @ f # info # vs)\<rparr>"
    using assms(1) unfolding reserved_def by blast
  have ne: "info \<noteq> f" using assms(3) zl by (metis in_set_conv_decomp)
  have "zone_head st' zone = us @ f # info # vs" by (simp add: st')
  note freeSpace_split [OF assms(2) this]
  moreover have "(zone_head st)(zone := us @ info # vs) = zone_head st" by (rule ext) (simp add: zl)
  ultimately show ?thesis using ne
    by (intro exI [of _ "info_at st' f"]) (simp add: st' fun_upd_twist [of f info])
qed

lemma freeSpace_frame:
  assumes "\<not> live st g" "n \<noteq> g"
  shows "freeSpace n (st\<lparr>info_at := (info_at st)(g := x)\<rparr>) =
    (freeSpace n st)\<lparr>info_at := (info_at (freeSpace n st))(g := x)\<rparr>"
proof -
  have "node_next st n \<noteq> Some g"
  proof
    assume "node_next st n = Some g"
    then obtain z where "next_in n (zone_head st z) = Some g" by (auto simp: node_next_def bind_eq_Some_conv)
    moreover have "next_in n l = Some g \<Longrightarrow> g \<in> set l" for l
      by (induction l) (auto split: if_splits list.splits)
    ultimately show False using assms(1) by blast
  qed
  moreover have "node_next (st\<lparr>info_at := at\<rparr>) n = node_next st n" for at by (simp add: node_next_def)
  ultimately show ?thesis using assms(2)
    by (auto simp: freeSpace_def Let_def fun_upd_twist split: option.splits)
qed

lemma heap_inv_frame:
  assumes "\<not> live st g"
  shows "heap_inv (st\<lparr>info_at := (info_at st)(g := x)\<rparr>) = heap_inv st"
proof -
  have same: "n \<in> set (zone_head st z) \<Longrightarrow> ((info_at st)(g := x)) n = info_at st n" for n z
    using assms by auto
  have ok: "heap_ok (st\<lparr>info_at := (info_at st)(g := x)\<rparr>) = heap_ok st"
  proof -
    have "sorted_wrt (\<lambda>n m. ai_allocend (((info_at st)(g := x)) m) \<le> ai_data (((info_at st)(g := x)) n)) (zone_head st z) =
        sorted_wrt (\<lambda>n m. ai_allocend (info_at st m) \<le> ai_data (info_at st n)) (zone_head st z)" for z
      using assms by (auto elim!: sorted_wrt_mono_rel [rotated])
    then show ?thesis using same unfolding heap_ok_def by simp
  qed
  have "detail_at (st\<lparr>info_at := (info_at st)(g := x)\<rparr>) d = detail_at st d" for d
    unfolding detail_at_def using assms by auto
  then show ?thesis using ok by (simp add: heap_inv_def book_ok_def)
qed

lemma malloc_fails:
  assumes m: "malloc zone sz align st = (None, st')" and inv: "heap_inv st"
  shows "zone_head st' = zone_head st \<and> heap_inv st' \<and> (\<forall>n. live st n \<longrightarrow> info_at st' n = info_at st n)"
proof (cases "sz = 0 \<or> alloc_detail st = None")
  case True
  then have "st' = st" using m by (cases "sz = 0") (auto simp: malloc_def)
  then show ?thesis using inv by simp
next
  case False
  then obtain d st1 where d: "alloc_detail st = Some (d, st1)" by auto
  let ?st = "st1\<lparr>handle_at := (handle_at st1)(d := MALLOC_DEFAULT_HANDLE)\<rparr>"
  have st': "st' = freeSpace d ?st" using m False d by (auto simp: malloc_def Let_def split: option.splits)
  obtain z1 info1 where r: "\<not> live st d" "reserved z1 DETAIL_SIZE d d info1 st st1"
    using alloc_detail_reserved [OF d] inv by (auto simp: heap_inv_def)
  have st1: "heap_ok st1" using reserved_ok [OF r(2) _ r(1)] inv by (simp add: heap_inv_def)
  obtain x where x: "freeSpace d st1 = st\<lparr>info_at := (info_at st)(d := x)\<rparr>"
    using freeSpace_undo [OF r(2) st1 r(1)] by blast
  have "freeSpace d ?st = (freeSpace d st1)\<lparr>handle_at := handle_at ?st\<rparr>"
    by (simp add: freeSpace_def node_next_def Let_def split: option.splits)
  then have st'': "st' = st\<lparr>info_at := (info_at st)(d := x), handle_at := handle_at ?st\<rparr>" by (simp add: st' x)
  have "heap_inv (s\<lparr>handle_at := h\<rparr>) = heap_inv s" for s h by (simp add: heap_inv_def)
  then show ?thesis using r(1) heap_inv_frame [OF r(1), of x] inv by (auto simp: st'')
qed


lemma freeSpace_data [simp]:
  "ai_data (info_at (freeSpace n st) m) = ai_data (info_at st m)"
  "ai_dataend (info_at (freeSpace n st) m) = ai_dataend (info_at st m)"
  by (simp_all add: freeSpace_def Let_def split: option.split)

lemma freeSpace_live:
  assumes "heap_ok st" "live st n"
  shows "live (freeSpace n st) m \<longleftrightarrow> live st m \<and> m \<noteq> n"
proof -
  have "zone_head (freeSpace n st) z = remove1 n (zone_head st z)" for z by (simp add: freeSpace_def Let_def)
  moreover have "distinct (zone_head st z)" for z using assms(1) by (simp add: heap_ok_def)
  ultimately show ?thesis by auto
qed

lemma find_SomeD: "find P xs = Some x \<Longrightarrow> x \<in> set xs \<and> P x"
  by (induction xs) (auto split: if_splits)

lemma tracked_detail:
  assumes "tracked st p = Some info" "heap_inv st"
  shows "live st info \<and> ai_data (info_at st info) = p \<and> detail_at st (info - 20)"
proof -
  have info: "live st info" "ai_data (info_at st info) = p" "info \<noteq> p"
    using assms(1) by (auto simp: tracked_def findAlloc_def dest!: find_SomeD split: option.splits if_splits)
  then have "\<not> detail_at st info" by (auto simp: detail_at_def)
  then show ?thesis using info assms(2) by (auto simp: heap_inv_def book_ok_def)
qed

lemma free_inv:
  assumes inv: "heap_inv st"
  shows "heap_inv (snd (free p st))"
proof (cases "tracked st p")
  case (Some info)
  define d where "d = info - 20"
  have info: "info = datainfo d" "ai_data (info_at st info) = p" and det: "detail_at st d"
    using tracked_detail [OF Some inv] by (auto simp: d_def)
  define st1 where "st1 = freeSpace info st"
  define st2 where "st2 = freeSpace d st1"
  have live: "live st d" "live st info" using det info by (auto simp: detail_at_def)
  have ok: "heap_ok st" "heap_ok st1" using inv live freeSpace_ok by (auto simp: heap_inv_def st1_def)
  have live1: "live st1 m \<longleftrightarrow> live st m \<and> m \<noteq> info" for m
    unfolding st1_def by (rule freeSpace_live [OF ok(1) live(2)])
  have ne: "d \<noteq> info" using info by auto
  have live_d: "live st1 d" using live1 [of d] live(1) ne by blast
  have live2: "live st2 m \<longleftrightarrow> live st m \<and> m \<noteq> info \<and> m \<noteq> d" for m
    unfolding st2_def using freeSpace_live [OF ok(2) live_d, of m] live1 [of m] by blast
  have "heap_ok st2" unfolding st2_def using freeSpace_ok [OF ok(2)] live_d by blast
  moreover have "detail_at st2 e" if e: "detail_at st e" "e \<noteq> d" for e
  proof -
    have "e \<noteq> info" "datainfo e \<noteq> d" "datainfo e \<noteq> info"
      using e det info by (auto simp: detail_at_def)
    then show ?thesis using e live2 by (simp add: detail_at_def) (simp add: st2_def st1_def)
  qed
  then have "book_ok st2"
    using inv info unfolding book_ok_def heap_inv_def live2 by (metis diff_add_cancel)
  ultimately show ?thesis using Some
    by (simp add: free_def heap_inv_def Let_def flip: d_def st1_def st2_def)
qed (simp add: free_def inv)


lemma find_append_first: "P x \<Longrightarrow> (\<And>y. y \<in> set us \<Longrightarrow> \<not> P y) \<Longrightarrow> find P (us @ x # vs) = Some x"
  by (induction us) auto

text \<open>The search over all zones finds the node of a block that has just been reserved.\<close>

lemma findAlloc_reserved:
  assumes r: "reserved zone sz p f info st st'" and ok: "heap_ok st'" and f: "\<not> live st f" and sz: "sz \<noteq> 0"
  shows "findAlloc st' p = Some f"
proof -
  obtain us vs where zl: "zone_head st' zone = us @ f # vs" using r by (auto simp: reserved_def)
  obtain pre post where Z: "Zones = pre @ zone # post" "zone \<notin> set pre"
    using split_list_first [OF in_Zones [of zone]] by blast
  have p: "ai_data (info_at st' f) = p" "ai_dataend (info_at st' f) = p + sz" "p < p + sz"
    using reserved_info [OF r f] r sz by (auto simp: reserved_def gap_def order_less_le)
  have f_in: "f \<in> set (zone_head st' zone)" by (simp add: zl)
  then have "node_ok (info_at st' f)" using ok unfolding heap_ok_def by blast
  then have alloc: "p < ai_allocend (info_at st' f)" using p by (auto simp: node_ok_def intro: order.strict_trans2)
  have "ai_data (info_at st' n) \<noteq> p" if "n \<in> set (zone_head st' z)" "z \<noteq> zone" for n z
  proof -
    from f_in have "parted (info_at st' n) (info_at st' f) \<or> parted (info_at st' f) (info_at st' n)"
      using ok that unfolding heap_ok_def by blast
    then show ?thesis using p by (auto simp: parted_def)
  qed
  moreover have "ai_data (info_at st' u) \<noteq> p" if "u \<in> set us" for u
  proof -
    have "sorted_wrt (\<lambda>n m. ai_allocend (info_at st' m) \<le> ai_data (info_at st' n)) (us @ f # vs)"
      using ok unfolding heap_ok_def by (metis zl)
    then show ?thesis using that alloc by (auto simp: sorted_wrt_append)
  qed
  ultimately have "find (\<lambda>n. ai_data (info_at st' n) = p) ((concat (map (zone_head st') pre) @ us) @ f # vs @ concat (map (zone_head st') post)) = Some f"
    using Z(2) p(1) by (intro find_append_first) auto
  then show ?thesis by (simp add: findAlloc_def Z(1) zl)
qed

lemma malloc_free:
  assumes m: "malloc zone sz (2 ^ k) st = (Some p, st')" and inv: "heap_inv st" and room: "unat sz + 2 ^ k \<le> 2 ^ 32"
  shows "\<exists>st''. free p st' = (0, st'') \<and> zone_head st'' = zone_head st \<and> (\<forall>n. live st n \<longrightarrow> info_at st'' n = info_at st n)"
  using assms
proof (rule malloc_steps)
  fix d and st1 :: malloc_state and z1 info1 info h
  let ?st1 = "st1\<lparr>handle_at := h\<rparr>"
  assume sz: "sz \<noteq> 0" and f: "\<not> live st d" "\<not> live st (datainfo d)" "\<not> live st1 (datainfo d)"
    and r1: "reserved z1 DETAIL_SIZE d d info1 st st1" and ok: "heap_ok st1" "heap_ok st'"
    and r2: "reserved zone sz p (datainfo d) info ?st1 st'" and ne: "p \<noteq> datainfo d"
  have "findAlloc st' p = Some (datainfo d)" using findAlloc_reserved [OF r2 ok(2)] f(3) sz by simp
  moreover have "ai_dataend (info_at st' (datainfo d)) = p + sz" using reserved_info(2) [OF r2] f(3) by simp
  ultimately have t: "tracked st' p = Some (datainfo d)" using ne sz by (simp add: tracked_def)
  obtain x where x: "freeSpace (datainfo d) st' = ?st1\<lparr>info_at := (info_at ?st1)(datainfo d := x)\<rparr>"
    using freeSpace_undo [OF r2 ok(2)] f(3) by auto
  obtain y where y: "freeSpace d st1 = st\<lparr>info_at := (info_at st)(d := y)\<rparr>"
    using freeSpace_undo [OF r1 ok(1) f(1)] by blast
  have "freeSpace d ?st1 = (freeSpace d st1)\<lparr>handle_at := h\<rparr>"
    by (simp add: freeSpace_def node_next_def Let_def split: option.splits)
  then have "freeSpace d (freeSpace (datainfo d) st') =
      st\<lparr>info_at := (info_at st)(d := y, datainfo d := x), handle_at := h\<rparr>"
    unfolding x using freeSpace_frame [where st = ?st1 and g = "datainfo d" and n = d and x = x] f(3) by (simp add: y)
  then have "free p st' = (0, st\<lparr>info_at := (info_at st)(d := y, datainfo d := x), handle_at := h\<rparr>)"
    by (simp add: free_def t)
  then show ?thesis using f by auto
qed

end
