(* ===== verification/Malloc_Init.thy ===== *)
theory Malloc_Init
  imports Malloc_Facts
begin

text \<open>
  Building the zones: \<open>addSpace\<close> keeps the allocator's invariant, and \<open>malloc_preinit\<close> establishes it from the memory map.
\<close>

section \<open>Adding space\<close>

text \<open>A region that is apart from all ranges of the zones.\<close>

definition region :: "u32 \<Rightarrow> u32 \<Rightarrow> allocinfo_s" where
  "region start end = \<lparr>ai_data = start, ai_dataend = start, ai_allocend = end\<rparr>"

definition apart_from_all :: "allocinfo_s \<Rightarrow> malloc_state \<Rightarrow> bool" where
  "apart_from_all i st \<longleftrightarrow> (\<forall>n. live st n \<longrightarrow> parted i (info_at st n) \<or> parted (info_at st n) i)"

lemma sorted_wrt_cong:
  "(\<And>n m. n \<in> set l \<Longrightarrow> m \<in> set l \<Longrightarrow> P n m = Q n m) \<Longrightarrow> sorted_wrt P l = sorted_wrt Q l"
  by (induction l) auto

text \<open>A new node in its place.\<close>

lemma heap_ok_insert:
  assumes ok: "heap_ok st" and zl: "zone_head st zone = us @ vs" and f: "\<not> live st f" and x: "node_ok x" "apart_from_all x st"
    and order: "\<forall>u\<in>set us. ai_allocend x \<le> ai_data (info_at st u)" "\<forall>v\<in>set vs. ai_allocend (info_at st v) \<le> ai_data x"
  shows "heap_ok (st\<lparr>info_at := (info_at st)(f := x), zone_head := (zone_head st)(zone := us @ f # vs)\<rparr>)" (is "heap_ok ?st")
proof -
  have old: "n \<noteq> f" if "n \<in> set (zone_head st z)" for n z using f that by blast
  have zone: "distinct (us @ vs)" "\<forall>m\<in>set (us @ vs). node_ok (info_at st m)"
    "sorted_wrt (\<lambda>n m. ai_allocend (info_at st m) \<le> ai_data (info_at st n)) (us @ vs)"
    using ok unfolding heap_ok_def by (metis zl)+
  have fresh: "f \<notin> set (us @ vs)" using f zl by metis
  have "distinct (zone_head ?st y) \<and> (\<forall>m\<in>set (zone_head ?st y). node_ok (info_at ?st m)) \<and>
      sorted_wrt (\<lambda>n m. ai_allocend (info_at ?st m) \<le> ai_data (info_at ?st n)) (zone_head ?st y)" for y
  proof (cases "y = zone")
    case True
    have "sorted_wrt (\<lambda>n m. ai_allocend (info_at ?st m) \<le> ai_data (info_at ?st n)) l =
        sorted_wrt (\<lambda>n m. ai_allocend (info_at st m) \<le> ai_data (info_at st n)) l" if "f \<notin> set l" for l
      using that by (intro sorted_wrt_cong) auto
    then show ?thesis using True zone fresh x(1) order by (auto simp: sorted_wrt_append)
  next
    case False
    have "sorted_wrt (\<lambda>n m. ai_allocend (info_at ?st m) \<le> ai_data (info_at ?st n)) (zone_head st y) =
        sorted_wrt (\<lambda>n m. ai_allocend (info_at st m) \<le> ai_data (info_at st n)) (zone_head st y)"
      using old by (intro sorted_wrt_cong) auto
    moreover have "sorted_wrt (\<lambda>n m. ai_allocend (info_at st m) \<le> ai_data (info_at st n)) (zone_head st y)"
      "distinct (zone_head st y)" "\<forall>n\<in>set (zone_head st y). node_ok (info_at st n)"
      using ok unfolding heap_ok_def by metis+
    ultimately show ?thesis using False old by auto
  qed
  moreover have "parted (info_at ?st n) (info_at ?st m) \<or> parted (info_at ?st m) (info_at ?st n)"
    if "y \<noteq> y'" "n \<in> set (zone_head ?st y)" "m \<in> set (zone_head ?st y')" for y y' n m
  proof -
    have n: "n = f \<and> y = zone \<or> n \<noteq> f \<and> n \<in> set (zone_head st y)"
      using that(2) zl old by (auto split: if_splits)
    have m: "m = f \<and> y' = zone \<or> m \<noteq> f \<and> m \<in> set (zone_head st y')"
      using that(3) zl old by (auto split: if_splits)
    have "parted (info_at st n) (info_at st m) \<or> parted (info_at st m) (info_at st n)"
      if "n \<in> set (zone_head st y)" "m \<in> set (zone_head st y')"
      using ok \<open>y \<noteq> y'\<close> that unfolding heap_ok_def by blast
    then show ?thesis using n m x(2) that(1) by (auto simp: apart_from_all_def)
  qed
  ultimately show ?thesis unfolding heap_ok_def by blast
qed

text \<open>A node that is replaced by another one with the same contents.\<close>

lemma heap_ok_map:
  assumes ok: "heap_ok st" and head: "\<And>y. zone_head st' y = map r (zone_head st y)"
    and info: "\<And>n y. n \<in> set (zone_head st y) \<Longrightarrow> info_at st' (r n) = info_at st n"
    and inj: "\<And>y. inj_on r (set (zone_head st y))"
  shows "heap_ok st'"
proof -
  have "sorted_wrt (\<lambda>n m. ai_allocend (info_at st' (r m)) \<le> ai_data (info_at st' (r n))) (zone_head st y) =
      sorted_wrt (\<lambda>n m. ai_allocend (info_at st m) \<le> ai_data (info_at st n)) (zone_head st y)" for y
    using info by (intro sorted_wrt_cong) auto
  then have "distinct (zone_head st' y) \<and> (\<forall>n\<in>set (zone_head st' y). node_ok (info_at st' n)) \<and>
      sorted_wrt (\<lambda>n m. ai_allocend (info_at st' m) \<le> ai_data (info_at st' n)) (zone_head st' y)" for y
    using ok info inj [of y] unfolding heap_ok_def by (simp add: head distinct_map sorted_wrt_map)
  moreover have "parted (info_at st' n) (info_at st' m) \<or> parted (info_at st' m) (info_at st' n)"
    if ne: "y \<noteq> y'" and n: "n \<in> set (zone_head st' y)" and m: "m \<in> set (zone_head st' y')" for y y' n m
  proof -
    obtain n' where n': "n = r n'" "n' \<in> set (zone_head st y)" using n unfolding head by auto
    obtain m' where m': "m = r m'" "m' \<in> set (zone_head st y')" using m unfolding head by auto
    have "parted (info_at st n') (info_at st m') \<or> parted (info_at st m') (info_at st n')"
      using ok ne n'(2) m'(2) unfolding heap_ok_def by blast
    then show ?thesis using info [OF n'(2)] info [OF m'(2)] n'(1) m'(1) by simp
  qed
  ultimately show ?thesis unfolding heap_ok_def by blast
qed

lemma heap_ok_rename:
  assumes ok: "heap_ok st" and f: "\<not> live st f" and t: "t \<in> set (zone_head st zone)"
  shows "heap_ok (st\<lparr>info_at := (info_at st)(f := info_at st t),
      zone_head := (zone_head st)(zone := map (\<lambda>n. if n = t then f else n) (zone_head st zone))\<rparr>)"
proof (rule heap_ok_map [OF ok, where r = "\<lambda>n. if n = t then f else n"])
  fix y
  show "zone_head (st\<lparr>info_at := (info_at st)(f := info_at st t),
      zone_head := (zone_head st)(zone := map (\<lambda>n. if n = t then f else n) (zone_head st zone))\<rparr>) y =
      map (\<lambda>n. if n = t then f else n) (zone_head st y)"
  proof (cases "y = zone")
    case False
    then have "t \<notin> set (zone_head st y)" using zone_unique [OF ok t] by blast
    then have "map (\<lambda>n. if n = t then f else n) (zone_head st y) = map id (zone_head st y)"
      by (intro map_cong) auto
    then show ?thesis using False by simp
  qed simp
qed (use f in \<open>auto simp: inj_on_def\<close>)

section \<open>addSpace\<close>

lemma alloc_detail_other_heads:
  "alloc_detail st = Some (d, st') \<Longrightarrow> e820_list st' = e820_list st \<and> handle_at st' = handle_at st"
  by (auto simp: alloc_detail_def allocSpace_def Let_def split: option.splits)

text \<open>All ranges are parts of ranges from before or of the region.\<close>

definition stems_from :: "u32 \<Rightarrow> u32 \<Rightarrow> malloc_state \<Rightarrow> malloc_state \<Rightarrow> bool" where
  "stems_from start end st st' \<longleftrightarrow> (\<forall>n. live st' n \<longrightarrow>
     within (info_at st' n) (region start end) \<or> (\<exists>o'. live st o' \<and> within (info_at st' n) (info_at st o')))"

lemma addSpace_inv:
  assumes inv: "heap_inv st" and lt: "start < end" and apart: "apart_from_all (region start end) st"
    and tmp: "\<not> live st tmp" "\<forall>n. live st n \<longrightarrow> tmp < ai_data (info_at st n)" "tmp < start"
  shows "heap_inv (addSpace tmp zone start end st) \<and> stems_from start end st (addSpace tmp zone start end st)"
proof -
  let ?above = "\<lambda>n. start \<le> ai_data (info_at st n)"
  let ?l = "zone_head st zone"
  define us where "us = takeWhile ?above ?l"
  define vs where "vs = dropWhile ?above ?l"
  define st1 where "st1 = st\<lparr>info_at := (info_at st)(tmp := region start end),
      zone_head := (zone_head st)(zone := us @ tmp # vs)\<rparr>"
  have ok: "heap_ok st" and book: "book_ok st" using inv by (auto simp: heap_inv_def)
  have zl: "?l = us @ vs" by (simp add: us_def vs_def)
  have part: "parted (region start end) (info_at st n) \<or> parted (info_at st n) (region start end)"
    if "n \<in> set ?l" for n using apart that by (auto simp: apart_from_all_def)
  have us: "end \<le> ai_data (info_at st u)" if "u \<in> set us" for u
  proof -
    have "start \<le> ai_data (info_at st u)" "u \<in> set ?l"
      using that unfolding us_def by (auto dest: set_takeWhileD)
    then show ?thesis using part [of u] by (auto simp: region_def parted_def)
  qed
  have vs: "ai_allocend (info_at st v) \<le> start" if "v \<in> set vs" for v
  proof (cases vs)
    case (Cons w ws)
    have w: "\<not> ?above w" using hd_dropWhile [of ?above ?l, folded vs_def] Cons by simp
    have "w \<in> set ?l" using zl Cons by simp
    with w have "ai_allocend (info_at st w) \<le> start"
      using part [of w] by (auto simp: region_def parted_def)
    moreover have "ai_allocend (info_at st v) \<le> ai_data (info_at st w)" if "v \<in> set ws" for v
      using ok zl Cons that unfolding heap_ok_def by (metis sorted_wrt.simps(2) sorted_wrt_append)
    ultimately show ?thesis using that Cons w by fastforce
  qed (use that in simp)
  have ok1: "heap_ok st1"
    unfolding st1_def using ok zl tmp(1) _ apart
    by (rule heap_ok_insert) (use lt us vs in \<open>auto simp: region_def node_ok_def\<close>)
  have live1: "live st1 n \<longleftrightarrow> live st n \<or> n = tmp" for n
  proof -
    have "n \<in> set (zone_head st1 z) \<longleftrightarrow> n \<in> set (zone_head st z) \<or> (z = zone \<and> n = tmp)" for z
      by (cases "z = zone") (auto simp: st1_def zl)
    then show ?thesis by (simp add: ex_disj_distrib)
  qed
  have same1: "info_at st1 n = info_at st n" if "n \<noteq> tmp" for n using that by (simp add: st1_def)
  have tmp1: "info_at st1 tmp = region start end" by (simp add: st1_def)
  have detail1: "detail_at st1 d" if "detail_at st d" for d
  proof -
    have "d \<noteq> tmp" "datainfo d \<noteq> tmp" using that tmp(1) unfolding detail_at_def by metis+
    then show ?thesis using that live1 same1 by (simp add: detail_at_def)
  qed
  have book1: "book_except {tmp} st1"
    using book detail1 unfolding book_except_def book_ok_def live1 by blast
  have below: "tmp < ai_data (info_at st1 n)" if "live st1 n" for n
    using that tmp(2,3) live1 [of n] same1 [of n] tmp1 by (cases "n = tmp") (auto simp: region_def)
  have add: "addSpace tmp zone start end st = (case alloc_detail st1 of
       None \<Rightarrow> st1\<lparr>zone_head := (zone_head st1)(zone := remove1 tmp (zone_head st1 zone))\<rparr>
     | Some (detail, st) \<Rightarrow>
         st\<lparr>info_at := (info_at st)(datainfo detail := info_at st tmp),
            handle_at := (handle_at st)(detail := MALLOC_DEFAULT_HANDLE),
            zone_head := (zone_head st)(zone := map (\<lambda>n. if n = tmp then datainfo detail else n) (zone_head st zone))\<rparr>)"
    by (simp only: addSpace_def Let_def region_def [symmetric] us_def [symmetric] vs_def [symmetric] st1_def [symmetric])
  show ?thesis
  proof (cases "alloc_detail st1")
    case None
    have "tmp \<notin> set us" using tmp(1) zl by (metis Un_iff set_append)
    then have "st1\<lparr>zone_head := (zone_head st1)(zone := remove1 tmp (zone_head st1 zone))\<rparr> =
        st\<lparr>info_at := (info_at st)(tmp := region start end)\<rparr>"
      by (simp add: st1_def remove1_append zl fun_upd_idem)
    moreover have "stems_from start end st (st\<lparr>info_at := (info_at st)(tmp := region start end)\<rparr>)"
      using tmp(1) by (auto simp: stems_from_def intro!: exI)
    ultimately show ?thesis using add None heap_inv_frame [OF tmp(1)] inv by simp
  next
    case (Some p)
    then obtain d st2 where d: "alloc_detail st1 = Some (d, st2)" by (cases p) auto
    obtain z1 info1 where f: "\<not> live st1 d" "\<not> live st1 (datainfo d)" and r: "reserved z1 DETAIL_SIZE d d info1 st1 st2"
      using alloc_detail_reserved_except [OF d ok1 book1] below by blast
    have ok2: "heap_ok st2" using reserved_ok [OF r ok1 f(1)] by simp
    have live2: "live st2 n \<longleftrightarrow> live st n \<or> n = tmp \<or> n = d" for n
      using reserved_live [OF r, of n] live1 [of n] by blast
    have tmp2: "tmp \<in> set (zone_head st2 zone)"
    proof -
      have "tmp \<in> set (zone_head st1 zone)" by (simp add: st1_def)
      then show ?thesis using r by (auto simp: reserved_def)
    qed
    have f2: "\<not> live st2 (datainfo d)" using f live1 [of "datainfo d"] live2 [of "datainfo d"] by auto
    define st3 where "st3 = st2\<lparr>info_at := (info_at st2)(datainfo d := info_at st2 tmp),
        zone_head := (zone_head st2)(zone := map (\<lambda>n. if n = tmp then datainfo d else n) (zone_head st2 zone))\<rparr>"
    have ok3: "heap_ok st3" unfolding st3_def by (rule heap_ok_rename [OF ok2 f2 tmp2])
    have live3: "live st3 n \<longleftrightarrow> live st n \<or> n = d \<or> n = datainfo d" for n
    proof -
      have "tmp \<in> set (zone_head st2 z) \<longleftrightarrow> z = zone" for z
        using tmp2 zone_unique [OF ok2 tmp2] by blast
      then have "n \<in> set (zone_head st3 z) \<longleftrightarrow> n \<in> set (zone_head st2 z) \<and> n \<noteq> tmp \<or> (z = zone \<and> n = datainfo d)" for z
        using tmp2 by (cases "z = zone") (auto simp: st3_def)
      then have "live st3 n \<longleftrightarrow> live st2 n \<and> n \<noteq> tmp \<or> n = datainfo d" by (simp add: ex_disj_distrib)
      moreover have "d \<noteq> tmp" using f(1) live1 [of d] by blast
      ultimately show ?thesis using live2 [of n] tmp(1) by metis
    qed
    have data3: "ai_data (info_at st3 n) = ai_data (info_at st n)" "ai_dataend (info_at st3 n) = ai_dataend (info_at st n)"
      if "live st n" for n
    proof -
      have "n \<noteq> tmp" "n \<noteq> d" "n \<noteq> datainfo d" using that tmp(1) f live1 by metis+
      then show "ai_data (info_at st3 n) = ai_data (info_at st n)" "ai_dataend (info_at st3 n) = ai_dataend (info_at st n)"
        using reserved_info(3,4) [OF r f(1), of n] same1 [of n] by (simp_all add: st3_def)
    qed
    have "detail_at st e \<Longrightarrow> detail_at st3 e" for e
      unfolding detail_at_def live3 using data3 by metis
    moreover have "detail_at st3 d"
    proof -
      have ne: "tmp \<noteq> d" using f(1) live1 by blast
      have d3: "ai_data (info_at st3 d) = d" "ai_dataend (info_at st3 d) = d + DETAIL_SIZE" "ai_data (info_at st3 (datainfo d)) = start"
        using reserved_info [OF r f(1)] ne tmp1 by (auto simp: st3_def region_def)
      have g: "gap z1 DETAIL_SIZE d info1 st1" using r by (simp add: reserved_def)
      have "tmp \<in> set (zone_head st1 zone)" by (simp add: st1_def)
      from gap_used [OF ok1 g this] have "d + DETAIL_SIZE \<le> start \<or> start \<le> d" using tmp1 by (simp add: region_def)
      moreover have "datainfo d < d + DETAIL_SIZE" "d < datainfo d" "d \<le> d + DETAIL_SIZE"
        using g by (auto simp: gap_def word_less_nat_alt word_le_nat_alt unat_word_ariths)
      ultimately have "start \<noteq> datainfo d" "d \<le> d + DETAIL_SIZE" by auto
      then show ?thesis using d3 live3 [of d] live3 [of "datainfo d"] by (auto simp: detail_at_def)
    qed
    ultimately have "book_ok st3" using book unfolding book_ok_def live3 by auto
    then have "heap_inv st3" using ok3 by (simp add: heap_inv_def)
    moreover have "stems_from start end st st3"
      unfolding stems_from_def
    proof (intro allI impI)
      fix n assume "live st3 n"
      have "\<exists>m. live st2 m \<and> info_at st3 n = info_at st2 m"
        using \<open>live st3 n\<close> live3 [of n] live2 [of n] live2 [of tmp]
        by (cases "n = datainfo d") (auto simp: st3_def)
      then obtain m z where m: "m \<in> set (zone_head st2 z)" "info_at st3 n = info_at st2 m" by blast
      have "DETAIL_SIZE \<noteq> 0" by simp
      from reserved_within [OF r ok1 f(1) this m(1)]
      obtain o' where "live st1 o'" "within (info_at st2 m) (info_at st1 o')" by blast
      then show "within (info_at st3 n) (region start end) \<or> (\<exists>o'. live st o' \<and> within (info_at st3 n) (info_at st o'))"
        using m(2) live1 [of o'] same1 [of o'] tmp1 by (cases "o' = tmp") auto
    qed
    ultimately show ?thesis
      using add d by (simp add: st3_def heap_inv_def heap_ok_def book_ok_def detail_at_def stems_from_def)
  qed
qed


section \<open>malloc_preinit\<close>

definition above :: "nat \<Rightarrow> malloc_state \<Rightarrow> bool" where
  "above b st \<longleftrightarrow> (\<forall>n. live st n \<longrightarrow> b \<le> unat (ai_data (info_at st n)))"

lemma stems_above:
  assumes "stems_from start end st st'" "above b st" "b \<le> unat start"
  shows "above b st'"
  unfolding above_def
proof (intro allI impI)
  fix n assume "live st' n"
  then consider "within (info_at st' n) (region start end)" | o' where "live st o'" "within (info_at st' n) (info_at st o')"
    using assms(1) unfolding stems_from_def by blast
  then show "b \<le> unat (ai_data (info_at st' n))"
  proof cases
    case 1
    then show ?thesis using assms(3) by (auto simp: within_def region_def word_le_nat_alt)
  next
    case 2
    then have "b \<le> unat (ai_data (info_at st o'))" using assms(2) by (auto simp: above_def)
    then show ?thesis using 2(2) by (auto simp: within_def word_le_nat_alt)
  qed
qed

lemma stems_apart:
  assumes "stems_from start end st st'" "apart_from_all x st" "parted x (region start end) \<or> parted (region start end) x"
  shows "apart_from_all x st'"
  unfolding apart_from_all_def
proof (intro allI impI)
  fix n assume "live st' n"
  then consider "within (info_at st' n) (region start end)" | o' where "live st o'" "within (info_at st' n) (info_at st o')"
    using assms(1) unfolding stems_from_def by blast
  then show "parted x (info_at st' n) \<or> parted (info_at st' n) x"
    using assms(2,3) parted_within [OF within_refl, of _ _ x] parted_within [OF _ within_refl, of _ _ x]
    by cases (auto simp: apart_from_all_def)
qed

text \<open>No node is below all blocks.\<close>

lemma below_not_live:
  assumes "heap_inv st" "\<forall>n. live st n \<longrightarrow> t < ai_data (info_at st n)"
  shows "\<not> live st t"
proof
  assume "live st t"
  then consider "detail_at st t" | "detail_at st (t - 20)" using assms(1) unfolding heap_inv_def book_ok_def by blast
  then show False
  proof cases
    case 1
    then show False using assms(2) by (auto simp: detail_at_def)
  next
    case 2
    define e where "e = t - 20"
    have e: "e + 20 < e" "e \<le> e + 44" using 2 assms(2) by (auto simp: detail_at_def e_def)
    have "unat (e + 44) = unat e + 44" using e(2) no_olen_add_nat [of e 44] by (simp add: unat_word_ariths)
    then have "unat (e + 20) = unat e + 20" using u32_unat_lt [of "e + 44"] by (simp add: unat_word_ariths)
    then show False using e(1) by (simp add: word_less_nat_alt)
  qed
qed

lemma addSpace_above:
  assumes inv: "heap_inv st" and lt: "start < end" and ab: "above b st" "0x7000 \<le> b" and s: "0x7000 \<le> start"
    and tmp: "tmp < 0x7000" and apart: "apart_from_all (region start end) st"
  shows "heap_inv (addSpace tmp zone start end st) \<and> stems_from start end st (addSpace tmp zone start end st)"
proof (rule addSpace_inv [OF inv lt apart])
  show t: "\<forall>n. live st n \<longrightarrow> tmp < ai_data (info_at st n)"
    using ab tmp unfolding above_def by (auto simp: word_less_nat_alt intro: less_le_trans)
  show "\<not> live st tmp" by (rule below_not_live [OF inv t])
  show "tmp < start" using tmp s by (rule order.strict_trans2)
qed


lemma u64_unat_lt: "unat (x :: u64) < 2 ^ 64"
  using unsigned_less [of x] by simp

lemma unat_u32_of_u64: "x \<le> (0xffffffff :: u64) \<Longrightarrow> unat (ucast x :: u32) = unat x"
  by (simp add: unsigned_ucast_eq word_le_nat_alt take_bit_nat_eq_self)

text \<open>
  The high table has been taken off a region: it is apart from all that has been added, and above what is to come.
\<close>

definition high_ok :: "u32 \<Rightarrow> e820entry list \<Rightarrow> malloc_state \<Rightarrow> bool" where
  "high_ok highram rs st \<longleftrightarrow> highram = 0 \<or>
     0x100000 \<le> highram \<and> unat highram + 0x40000 < 2 ^ 32 \<and> (\<forall>e\<in>set rs. unat (e_end e) \<le> unat highram) \<and>
     apart_from_all (region highram (highram + BUILD_MAX_HIGHTABLE)) st"

text \<open>A memory region starts above 1 MB, and the high table does not use it up exactly.\<close>

definition ram_ok :: "e820entry \<Rightarrow> bool" where
  "ram_ok e \<longleftrightarrow> (e_type e = E820_RAM \<longrightarrow> 0x100000 \<le> e_end e \<longrightarrow>
     0x100000 \<le> e_start e \<and> ALIGN_DOWN (ucast (e_end e) - BUILD_MAX_HIGHTABLE) MALLOC_MIN_ALIGN \<noteq> (ucast (e_start e) :: u32))"

lemma high_table:
  fixes s e :: u32
  defines "newe \<equiv> ALIGN_DOWN (e - BUILD_MAX_HIGHTABLE) MALLOC_MIN_ALIGN"
  assumes "newe \<le> e"
  shows "unat newe + 0x40000 \<le> unat e"
proof -
  have "MALLOC_MIN_ALIGN = 2 ^ 4" by (simp add: MALLOC_MIN_ALIGN_def)
  then show ?thesis
    using ALIGN_DOWN_fits [of e BUILD_MAX_HIGHTABLE 4] assms(2)
    by (simp add: newe_def BUILD_MAX_HIGHTABLE_def)
qed

lemma preinit_loop_inv:
  assumes "heap_inv st" "above b st" "above 0x100000 st" "tmp < 0x7000"
    and "sorted_wrt (\<lambda>e f. apart f e) rs" "list_all entry_ok rs" "list_all ram_ok rs"
    and "\<forall>e\<in>set rs. unat (e_end e) \<le> b" "high_ok highram rs st"
  shows "case preinit_loop tmp rs highram st of (highram', st') \<Rightarrow>
    heap_inv st' \<and> above 0x100000 st' \<and> high_ok highram' [] st'"
  using assms
proof (induction rs arbitrary: highram st b)
  case Nil
  then show ?case by simp
next
  case (Cons en rs)
  let ?fin = "e_end en"
  have ok: "entry_ok en" "ram_ok en" "\<forall>f\<in>set rs. apart f en" using Cons.prems by auto
  consider "?fin < 1024 * 1024" | "\<not> ?fin < 1024 * 1024" "e_type en \<noteq> E820_RAM \<or> 0xffffffff < ?fin"
    | "\<not> ?fin < 1024 * 1024" "e_type en = E820_RAM" "?fin \<le> 0xffffffff" by fastforce
  then show ?case
  proof cases
    case 1
    then show ?thesis using Cons.prems by (simp add: high_ok_def Let_def) (auto simp: high_ok_def)
  next
    case 2
    have "high_ok highram rs st" using Cons.prems(9) by (auto simp: high_ok_def)
    then show ?thesis using 2 Cons.IH [of st b highram] Cons.prems by (simp add: Let_def)
  next
    case 3
    define s :: u32 where "s = ucast (e_start en)"
    define e :: u32 where "e = ucast ?fin"
    define newe where "newe = ALIGN_DOWN (e - BUILD_MAX_HIGHTABLE) MALLOC_MIN_ALIGN"
    define fits where "fits \<longleftrightarrow> highram = 0 \<and> newe \<le> e \<and> s \<le> newe"
    define h where "h = (if fits then newe else highram)"
    define e' where "e' = (if fits then newe else e)"
    have loop: "preinit_loop tmp (en # rs) highram st = preinit_loop tmp rs h (addSpace tmp ZoneTmpHigh s e' st)"
      using 3(1,2) leD [OF 3(3)] by (simp add: Let_def s_def e_def newe_def fits_def h_def e'_def)
    have nat: "unat s = unat (e_start en)" "unat e = unat ?fin" "unat s < unat e"
      using 3(3) ok(1) unat_u32_of_u64 [of ?fin] unat_u32_of_u64 [of "e_start en"]
      by (auto simp: s_def e_def entry_ok_def word_less_nat_alt word_le_nat_alt)
    have "0x100000 \<le> ?fin" using 3(1) by (simp add: not_less)
    then have low: "0x100000 \<le> unat s" "newe \<noteq> s"
      using 3(2) ok(2) nat(1) by (auto simp: ram_ok_def newe_def e_def s_def word_le_nat_alt)
    have "s < e" using nat(3) by (simp add: word_less_nat_alt)
    then have lt: "s < e'" using low(2) by (auto simp: e'_def fits_def order_less_le)
    have table: "fits \<Longrightarrow> unat newe + 0x40000 \<le> unat e" using high_table [of e] by (simp add: fits_def newe_def)
    have "e' \<le> e" using table by (auto simp: e'_def fits_def)
    have below: "unat e \<le> b" using Cons.prems(8) nat(2) by simp
    have apart: "apart_from_all (region s x) st" if "x \<le> e" "s < x" for x
      unfolding apart_from_all_def
    proof (intro allI impI)
      fix n assume "live st n"
      then have "unat e \<le> unat (ai_data (info_at st n))" using Cons.prems(2) below by (auto simp: above_def)
      then show "parted (region s x) (info_at st n) \<or> parted (info_at st n) (region s x)"
        using that by (auto simp: parted_def region_def word_le_nat_alt word_less_nat_alt)
    qed
    define st' where "st' = addSpace tmp ZoneTmpHigh s e' st"
    have st': "heap_inv st'" "stems_from s e' st st'"
      using addSpace_above [OF Cons.prems(1) lt Cons.prems(3) _ _ Cons.prems(4) apart [OF \<open>e' \<le> e\<close> lt], of ZoneTmpHigh] low(1)
      by (simp_all add: st'_def word_le_nat_alt)
    have "above (unat s) st" using Cons.prems(2) below nat(3) by (auto simp: above_def intro: order_trans)
    then have "above (unat s) st'" "above 0x100000 st'"
      using stems_above [OF st'(2)] Cons.prems(3) low(1) by auto
    moreover have ends: "\<forall>f\<in>set rs. unat (e_end f) \<le> unat s"
      using ok(3) nat(1) by (auto dest!: bspec apart_end simp: word_le_nat_alt)
    moreover have "high_ok h rs st'"
    proof (cases fits)
      case True
      have sum: "unat (newe + BUILD_MAX_HIGHTABLE) = unat newe + 0x40000"
        using table [OF True] u32_unat_lt [of e] by (simp add: BUILD_MAX_HIGHTABLE_def unat_word_ariths)
      have "apart_from_all (region newe (newe + BUILD_MAX_HIGHTABLE)) st"
        unfolding apart_from_all_def
      proof (intro allI impI)
        fix n assume "live st n"
        then have "unat e \<le> unat (ai_data (info_at st n))" using Cons.prems(2) below by (auto simp: above_def)
        then show "parted (region newe (newe + BUILD_MAX_HIGHTABLE)) (info_at st n) \<or>
            parted (info_at st n) (region newe (newe + BUILD_MAX_HIGHTABLE))"
          using table [OF True] sum by (auto simp: parted_def region_def word_le_nat_alt word_less_nat_alt)
      qed
      moreover have "parted (region s e') (region newe (newe + BUILD_MAX_HIGHTABLE))"
        using True lt by (simp add: parted_def region_def e'_def)
      ultimately have "apart_from_all (region newe (newe + BUILD_MAX_HIGHTABLE)) st'"
        using stems_apart [OF st'(2)] by blast
      moreover have "unat s \<le> unat newe" using True by (simp add: fits_def word_le_nat_alt)
      ultimately show ?thesis
        using True ends low(1) table [OF True] u32_unat_lt [of e]
        by (auto simp: high_ok_def h_def word_le_nat_alt)
    next
      case False
      have "apart_from_all (region highram (highram + BUILD_MAX_HIGHTABLE)) st'" if "highram \<noteq> 0"
      proof (rule stems_apart [OF st'(2)])
        show "apart_from_all (region highram (highram + BUILD_MAX_HIGHTABLE)) st"
          using Cons.prems(9) that by (simp add: high_ok_def)
        have "unat e \<le> unat highram" using Cons.prems(9) that nat(2) by (simp add: high_ok_def)
        then show "parted (region highram (highram + BUILD_MAX_HIGHTABLE)) (region s e') \<or>
            parted (region s e') (region highram (highram + BUILD_MAX_HIGHTABLE))"
          using lt False by (auto simp: parted_def region_def e'_def word_le_nat_alt word_less_nat_alt)
      qed
      then show ?thesis using Cons.prems(9) False by (auto simp: high_ok_def h_def)
    qed
    ultimately show ?thesis
      unfolding loop st'_def [symmetric]
      using Cons.IH [of st' "unat s" h] Cons.prems(4,5,6,7) st'(1) by simp
  qed
qed


lemma addSpace_e820 [simp]: "e820_list (addSpace tmp zone start end st) = e820_list st"
  by (auto simp: addSpace_def Let_def dest: alloc_detail_other_heads split: option.split)

lemma preinit_loop_e820: "e820_list (snd (preinit_loop tmp rs highram st)) = e820_list st"
  by (induction rs arbitrary: highram st) (auto simp: Let_def split: prod.split)

lemma heap_inv_e820 [simp]: "heap_inv (st\<lparr>e820_list := l\<rparr>) = heap_inv st"
  by (simp add: heap_inv_def heap_ok_def book_ok_def detail_at_def)

lemma type_at_covers: "e820_ok l \<Longrightarrow> e \<in> set l \<Longrightarrow> covers e a \<Longrightarrow> type_at l a = Some (e_type e)"
proof (induction l)
  case (Cons f l)
  show ?case
  proof (cases "e = f")
    case False
    then have "apart f e" using Cons.prems by auto
    then have "\<not> covers f a" using Cons.prems(3) by (auto simp: covers_def dest: apart_end)
    then show ?thesis using Cons False by simp
  qed (use Cons in simp)
qed simp

text \<open>The memory map while the zones are built.\<close>

definition preinit_map :: "e820entry list \<Rightarrow> e820entry list" where
  "preinit_map l = add_e820 (ucast BUILD_BIOS_ADDR) (ucast BUILD_BIOS_SIZE) E820_RESERVED
     (add_e820 (ucast BUILD_LOWRAM_END) (ucast (BUILD_BIOS_ADDR - BUILD_LOWRAM_END)) E820_HOLE l)"

lemma preinit_map_ok:
  assumes "e820_ok l" "length l \<le> 26"
  shows "e820_ok (preinit_map l)" "length (preinit_map l) \<le> 30" "type_at (preinit_map l) 0xfffff = Some E820_RESERVED"
proof -
  let ?l = "add_e820 (ucast BUILD_LOWRAM_END) (ucast (BUILD_BIOS_ADDR - BUILD_LOWRAM_END)) E820_HOLE l"
  have 1: "e820_ok ?l" "length ?l \<le> 28"
    using add_e820_updates [of l "ucast BUILD_LOWRAM_END" "ucast (BUILD_BIOS_ADDR - BUILD_LOWRAM_END)" E820_HOLE] assms
      add_e820_length [of "ucast BUILD_LOWRAM_END" "ucast (BUILD_BIOS_ADDR - BUILD_LOWRAM_END)" E820_HOLE l]
    by (auto simp: build_defs)
  then show "e820_ok (preinit_map l)" "length (preinit_map l) \<le> 30" "type_at (preinit_map l) 0xfffff = Some E820_RESERVED"
    using add_e820_updates [of ?l "ucast BUILD_BIOS_ADDR" "ucast BUILD_BIOS_SIZE" E820_RESERVED "0xfffff"]
      add_e820_length [of "ucast BUILD_BIOS_ADDR" "ucast BUILD_BIOS_SIZE" E820_RESERVED ?l]
    by (auto simp: preinit_map_def build_defs E820_RESERVED_def E820_HOLE_def)
qed

lemma preinit_ram_ok:
  assumes "e820_ok l" "length l \<le> 26"
    and "\<forall>e\<in>set (preinit_map l). ALIGN_DOWN (ucast (e_end e) - BUILD_MAX_HIGHTABLE) MALLOC_MIN_ALIGN \<noteq> (ucast (e_start e) :: u32)"
  shows "list_all ram_ok (preinit_map l)"
  unfolding list_all_iff
proof
  note m = preinit_map_ok [OF assms(1,2)]
  fix e assume e: "e \<in> set (preinit_map l)"
  have "0x100000 \<le> e_start e" if "e_type e = E820_RAM" "0x100000 \<le> e_end e"
  proof (rule ccontr)
    assume "\<not> 0x100000 \<le> e_start e"
    then have "e_start e \<le> 0xfffff" by (simp add: word_le_nat_alt)
    moreover have "0xfffff < e_end e" using that(2) by (simp add: word_le_nat_alt word_less_nat_alt)
    ultimately have "covers e 0xfffff" by (simp add: covers_def)
    from type_at_covers [OF m(1) e this] that(1) m(3) show False by (simp add: E820_RAM_def E820_RESERVED_def)
  qed
  then show "ram_ok e" using assms(3) e by (auto simp: ram_ok_def)
qed

section \<open>The initial heap\<close>

lemma malloc_preinit_inv:
  assumes "e820_ok (e820_list st)" "length (e820_list st) \<le> 26" "\<forall>z. zone_head st z = []" "tmp < BUILD_STACK_ADDR"
    and "\<forall>e\<in>set (preinit_map (e820_list st)).
      ALIGN_DOWN (ucast (e_end e) - BUILD_MAX_HIGHTABLE) MALLOC_MIN_ALIGN \<noteq> (ucast (e_start e) :: u32)"
  shows "heap_inv (malloc_preinit tmp st) \<and> e820_ok (e820_list (malloc_preinit tmp st))"
proof -
  let ?m = "preinit_map (e820_list st)"
  note m = preinit_map_ok [OF assms(1,2)]
  define st1 where "st1 = st\<lparr>e820_list := ?m\<rparr>"
  have tmp: "tmp < 0x7000" using assms(4) by (simp add: BUILD_STACK_ADDR_def)
  have empty: "heap_inv st1" "above b st1" for b
    using assms(3) by (auto simp: st1_def heap_inv_def heap_ok_def book_ok_def above_def)
  obtain highram st2 where loop: "preinit_loop tmp (rev ?m) 0 st1 = (highram, st2)" by fastforce
  have "heap_inv st2 \<and> above 0x100000 st2 \<and> high_ok highram [] st2"
    using preinit_loop_inv [of st1 "2 ^ 64" tmp "rev ?m" 0] empty tmp m(1) preinit_ram_ok [OF assms(1,2,5)]
      u64_unat_lt
    by (auto simp: loop e820_ok_def sorted_wrt_rev high_ok_def less_imp_le)
  then have st2: "heap_inv st2" "above 0x100000 st2" "high_ok highram [] st2" by auto
  have e820: "e820_list st2 = ?m" using preinit_loop_e820 [of tmp "rev ?m" 0 st1, unfolded loop snd_conv] by (simp add: st1_def)
  define st3 where "st3 = addSpace tmp ZoneTmpLow BUILD_STACK_ADDR BUILD_EBDA_MINIMUM st2"
  have "apart_from_all (region BUILD_STACK_ADDR BUILD_EBDA_MINIMUM) st2"
    using st2(2) by (auto simp: apart_from_all_def above_def parted_def region_def build_defs word_le_nat_alt word_less_nat_alt)
  then have st3: "heap_inv st3" "stems_from BUILD_STACK_ADDR BUILD_EBDA_MINIMUM st2 st3"
    using addSpace_above [OF st2(1) _ st2(2), of BUILD_STACK_ADDR BUILD_EBDA_MINIMUM tmp ZoneTmpLow] tmp
    by (simp_all add: st3_def build_defs)
  have pre: "malloc_preinit tmp st = (if highram \<noteq> 0
      then (addSpace tmp ZoneHigh highram (highram + BUILD_MAX_HIGHTABLE) st3)
        \<lparr>e820_list := add_e820 (ucast highram) (ucast BUILD_MAX_HIGHTABLE) E820_RESERVED ?m\<rparr> else st3)"
    using loop by (simp add: malloc_preinit_def Let_def preinit_map_def st1_def st3_def e820)
  show ?thesis
  proof (cases "highram = 0")
    case True
    then show ?thesis using st3(1) m(1) e820 by (simp add: pre) (simp add: st3_def)
  next
    case False
    let ?H = "region highram (highram + BUILD_MAX_HIGHTABLE)"
    have h: "0x100000 \<le> highram" "unat highram + 0x40000 < 2 ^ 32" "apart_from_all ?H st2"
      using st2(3) False by (auto simp: high_ok_def)
    have sum: "unat (highram + BUILD_MAX_HIGHTABLE) = unat highram + 0x40000"
      using h(2) by (simp add: BUILD_MAX_HIGHTABLE_def unat_word_ariths)
    have lt: "highram < highram + BUILD_MAX_HIGHTABLE" using sum by (simp add: word_less_nat_alt)
    have "parted (region BUILD_STACK_ADDR BUILD_EBDA_MINIMUM) ?H"
      using h(1) by (auto simp: parted_def region_def build_defs word_le_nat_alt word_less_nat_alt)
    then have apart: "apart_from_all ?H st3" using stems_apart [OF st3(2) h(3)] by blast
    have "above 0x7000 st2" using st2(2) by (auto simp: above_def intro: order_trans [of _ "0x100000"])
    then have "above 0x7000 st3" by (rule stems_above [OF st3(2)]) (simp add: BUILD_STACK_ADDR_def)
    moreover have "0x7000 \<le> highram" using h(1) by (simp add: word_le_nat_alt)
    ultimately have "heap_inv (addSpace tmp ZoneHigh highram (highram + BUILD_MAX_HIGHTABLE) st3)"
      using addSpace_above [OF st3(1) lt _ _ _ tmp apart, of "0x7000" ZoneHigh] by simp
    moreover have "(ucast highram :: u64) < ucast highram + ucast BUILD_MAX_HIGHTABLE"
      using u32_unat_lt [of highram]
      by (simp add: word_less_nat_alt unat_word_ariths BUILD_MAX_HIGHTABLE_def unsigned_ucast_eq take_bit_nat_eq_self)
    ultimately show ?thesis
      using False add_e820_updates [OF m(1,2), of "ucast highram" "ucast BUILD_MAX_HIGHTABLE" E820_RESERVED]
      by (simp add: pre)
  qed
qed

text \<open>A board with 128 MB, of which the uppermost is reserved for the tables of coreboot.\<close>

definition malloc_sim :: malloc_state where
  "malloc_sim = \<lparr>zone_head = (\<lambda>_. []), info_at = (\<lambda>_. \<lparr>ai_data = 0, ai_dataend = 0, ai_allocend = 0\<rparr>), handle_at = (\<lambda>_. 0),
     RomEnd = 0xc0000, RomBase = 0,
     e820_list = [\<lparr>e_start = 0x1000, e_size = 0x9f000, e_type = E820_RAM\<rparr>, \<lparr>e_start = 0x100000, e_size = 0x7e00000, e_type = E820_RAM\<rparr>,
       \<lparr>e_start = 0x7f00000, e_size = 0x100000, e_type = E820_RESERVED\<rparr>],
     LegacyRamSize = 0, ram = (\<lambda>_. 0)\<rparr>"

lemma preinit_map_sim:
  "preinit_map (e820_list malloc_sim) =
      [\<lparr>e_start = 0x1000, e_size = 0x9f000, e_type = E820_RAM\<rparr>, \<lparr>e_start = 0xf0000, e_size = 0x10000, e_type = E820_RESERVED\<rparr>,
       \<lparr>e_start = 0x100000, e_size = 0x7e00000, e_type = E820_RAM\<rparr>, \<lparr>e_start = 0x7f00000, e_size = 0x100000, e_type = E820_RESERVED\<rparr>]"
  by code_simp

text \<open>The zone of one region, from 1 MB to 8 MB, as \<open>addSpace\<close> leaves it.\<close>

definition heap_sim :: malloc_state where
  "heap_sim = \<lparr>zone_head = (\<lambda>_. [])(ZoneTmpHigh := [0x7fffd0, 0x7fffe4]),
     info_at = (\<lambda>_. \<lparr>ai_data = 0, ai_dataend = 0, ai_allocend = 0\<rparr>)
       (0x7fffd0 := \<lparr>ai_data = 0x7fffd0, ai_dataend = 0x7ffffc, ai_allocend = 0x800000\<rparr>,
        0x7fffe4 := \<lparr>ai_data = 0x100000, ai_dataend = 0x100000, ai_allocend = 0x7fffd0\<rparr>),
     handle_at = (\<lambda>_. MALLOC_DEFAULT_HANDLE), RomEnd = 0xc0000, RomBase = 0, e820_list = [], LegacyRamSize = 0, ram = (\<lambda>_. 0)\<rparr>"

lemma heap_sim_inv: "heap_inv heap_sim"
  by (auto simp: heap_sim_def heap_inv_def heap_ok_def book_ok_def detail_at_def node_ok_def)

lemma heap_sim_block: "fst (malloc ZoneTmpHigh 0x100 (2 ^ 4) heap_sim) = Some 0x7ffea0"
  by code_simp

section \<open>Properties\<close>

text \<open>
  C14. The heap starts sound: from a well-formed memory map, \<open>malloc_preinit\<close> builds zones that satisfy the allocator's
  invariant, and leaves the map well-formed. Excluded is a region that the table at
  the top of the memory would fill exactly, which leaves an empty range.
\<close>

theorem malloc_preinit_sound:
  assumes "e820_ok (e820_list st)" "length (e820_list st) \<le> 26" "\<forall>z. zone_head st z = []" "tmp < BUILD_STACK_ADDR"
    and "\<forall>e\<in>set (preinit_map (e820_list st)).
      ALIGN_DOWN (ucast (e_end e) - BUILD_MAX_HIGHTABLE) MALLOC_MIN_ALIGN \<noteq> (ucast (e_start e) :: u32)"
  shows "heap_inv (malloc_preinit tmp st) \<and> e820_ok (e820_list (malloc_preinit tmp st))"
  using assms by (rule malloc_preinit_inv)

theorem malloc_preinit_sound_witness:
  "heap_inv (malloc_preinit 0x6f00 malloc_sim)"
  using malloc_preinit_sound [of malloc_sim "0x6f00"] preinit_map_sim
  by (simp add: malloc_sim_def entry_ok_def apart_def E820_RAM_def E820_RESERVED_def E820_HOLE_def build_defs ALIGN_DOWN_def)

text \<open>
  C12. A block that \<open>_malloc\<close> returns is aligned, does not wrap around and is free: nothing that was in use overlaps it,
  and everything that was in use still is, at the same place. The sizes exclude requests of nearly 4 GB, for which
  the test of \<open>allocSpace\<close> overflows.
\<close>

theorem malloc_gives_free_block:
  assumes "malloc zone sz (2 ^ k) st = (Some p, st')" "heap_inv st" "unat sz + 2 ^ k \<le> 2 ^ 32"
  shows "heap_inv st' \<and> p AND (2 ^ k - 1) = 0 \<and> unat p + unat sz < 2 ^ 32 \<and>
    (\<exists>f\<in>set (zone_head st' zone). \<not> live st f \<and> ai_data (info_at st' f) = p \<and> ai_dataend (info_at st' f) = p + sz) \<and>
    (\<forall>n. live st n \<longrightarrow> live st' n \<and> ai_data (info_at st' n) = ai_data (info_at st n) \<and>
      ai_dataend (info_at st' n) = ai_dataend (info_at st n) \<and>
      (p + sz \<le> ai_data (info_at st n) \<or> ai_dataend (info_at st n) \<le> p))"
  using assms
proof (rule malloc_steps)
  fix d and st1 :: malloc_state and z1 info1 info h
  assume a: "p AND (2 ^ k - 1) = 0" and f: "\<not> live st d" "\<not> live st (datainfo d)" "\<not> live st1 (datainfo d)"
    and r1: "reserved z1 DETAIL_SIZE d d info1 st st1" and ok: "heap_ok st1" "heap_ok st'"
    and r2: "reserved zone sz p (datainfo d) info (st1\<lparr>handle_at := h\<rparr>) st'"
  have g: "gap zone sz p info st1" and new: "datainfo d \<in> set (zone_head st' zone)"
    using r2 by (auto simp: reserved_def gap_def)
  have "live st' n \<and> ai_data (info_at st' n) = ai_data (info_at st n) \<and> ai_dataend (info_at st' n) = ai_dataend (info_at st n) \<and>
      (p + sz \<le> ai_data (info_at st n) \<or> ai_dataend (info_at st n) \<le> p)" if n: "live st n" for n
  proof -
    have ne: "n \<noteq> d" "n \<noteq> datainfo d" using n f by metis+
    have live1: "live st1 n" using reserved_live [OF r1, of n] n by blast
    then have "live st' n" using reserved_live [OF r2, of n] by simp
    moreover have "p + sz \<le> ai_data (info_at st1 n) \<or> ai_dataend (info_at st1 n) \<le> p"
      using gap_used [OF ok(1) g] live1 by blast
    ultimately show ?thesis
      using ne reserved_info(3,4) [OF r1 f(1), of n] reserved_info(3,4) [OF r2, of n] f(3) by simp
  qed
  then show ?thesis
    using malloc_inv [OF assms] a g new f reserved_info(1,2) [OF r2] by (auto simp: gap_def)
qed

theorem malloc_gives_free_block_witness:
  "\<exists>st'. malloc ZoneTmpHigh 0x100 (2 ^ 4) heap_sim = (Some 0x7ffea0, st') \<and> heap_inv st' \<and> live st' 0x7fffe4"
proof -
  obtain st' where r: "malloc ZoneTmpHigh 0x100 (2 ^ 4) heap_sim = (Some 0x7ffea0, st')"
    using heap_sim_block by (metis prod.collapse)
  have "live heap_sim 0x7fffe4" by (auto simp: heap_sim_def)
  then show ?thesis using malloc_gives_free_block [OF r heap_sim_inv] r by simp
qed

text \<open>
  C13. Freeing what has just been allocated restores the zones: \<open>_free\<close> succeeds, and the lists and the contents of
  all their nodes are those from before the allocation.
\<close>

theorem free_restores_zones:
  assumes "malloc zone sz (2 ^ k) st = (Some p, st')" "heap_inv st" "unat sz + 2 ^ k \<le> 2 ^ 32"
  shows "\<exists>st''. free p st' = (0, st'') \<and> zone_head st'' = zone_head st \<and> (\<forall>n. live st n \<longrightarrow> info_at st'' n = info_at st n)"
  using assms by (rule malloc_free)

theorem free_restores_zones_witness:
  "\<exists>st' st''. malloc ZoneTmpHigh 0x100 (2 ^ 4) heap_sim = (Some 0x7ffea0, st') \<and> free 0x7ffea0 st' = (0, st'') \<and>
     zone_head st'' ZoneTmpHigh = [0x7fffd0, 0x7fffe4]"
proof -
  obtain st' where r: "malloc ZoneTmpHigh 0x100 (2 ^ 4) heap_sim = (Some 0x7ffea0, st')"
    using heap_sim_block by (metis prod.collapse)
  then show ?thesis using free_restores_zones [OF r heap_sim_inv] by (auto simp: heap_sim_def)
qed

end
