(* ===== verification/Pmm.thy ===== *)
theory Pmm
  imports Malloc_Init
begin

text \<open>
  The memory manager calls of option ROMs, \<open>seabios/src/pmm.c\<close>, an interface to the allocator. \<open>args\<close> are the
  words on the caller's stack.
\<close>

definition arg32 :: "(nat \<Rightarrow> u16) \<Rightarrow> nat \<Rightarrow> u32" where
  "arg32 args i = ucast (args i) OR push_bit 16 (ucast (args (i + 1)))"

text \<open>The instruction \<open>bsf\<close>, for an argument that is not 0.\<close>

definition ffs :: "u32 \<Rightarrow> nat" where
  "ffs v = (case find (bit v) [0..<32] of None \<Rightarrow> 0 | Some n \<Rightarrow> n)"

definition PMM_FUNCTION_NOT_SUPPORTED :: u32 where "PMM_FUNCTION_NOT_SUPPORTED = 0xffffffff"

text \<open>The parts of the allocation call: the size request, the alignment and the choice of the zone.\<close>

definition pmm_getspace :: "u16 \<Rightarrow> zone_s \<Rightarrow> zone_s \<Rightarrow> malloc_state \<Rightarrow> u32" where
  "pmm_getspace flags lowzone highzone st =
     (if flags AND 3 = 1 then malloc_getspace lowzone st
      else if flags AND 3 = 2 then malloc_getspace highzone st
      else if flags AND 3 = 3
      then (let spacelow = malloc_getspace lowzone st; spacehigh = malloc_getspace highzone st
            in if spacehigh < spacelow then spacelow else spacehigh)
      else 0)"

definition pmm_align :: "u16 \<Rightarrow> u32 \<Rightarrow> u32" where
  "pmm_align flags sz =
     (if flags AND 4 \<noteq> 0
      then (let align = push_bit (ffs sz) 1
            in if align < MALLOC_MIN_ALIGN then MALLOC_MIN_ALIGN else align)
      else MALLOC_MIN_ALIGN)"

definition pmm_malloc :: "u16 \<Rightarrow> zone_s \<Rightarrow> zone_s \<Rightarrow> u32 \<Rightarrow> u32 \<Rightarrow> malloc_state \<Rightarrow> u32 option \<times> malloc_state" where
  "pmm_malloc flags lowzone highzone sz align st =
     (if flags AND 3 = 1 then malloc lowzone sz align st
      else if flags AND 3 = 2 then malloc highzone sz align st
      else if flags AND 3 = 3
      then (case malloc lowzone sz align st of
              (None, st) \<Rightarrow> malloc highzone sz align st
            | (Some data, st) \<Rightarrow> (Some data, st))
      else (None, st))"

definition handle_pmm00 :: "(nat \<Rightarrow> u16) \<Rightarrow> malloc_state \<Rightarrow> u32 \<times> malloc_state" where
  "handle_pmm00 args st =
     (let len = arg32 args 1; handle = arg32 args 3; flags = args 5;
          lowzone = (if flags AND 8 \<noteq> 0 then ZoneLow else ZoneTmpLow);
          highzone = (if flags AND 8 \<noteq> 0 then ZoneHigh else ZoneTmpHigh)
      in if len = 0 then (pmm_getspace flags lowzone highzone st, st)
         else (let sz = len * 16
               in if sint sz \<le> 0 then (0, st)
                  else (case pmm_malloc flags lowzone highzone sz (pmm_align flags sz) st of
                          (None, st) \<Rightarrow> (0, st)
                        | (Some data, st) \<Rightarrow>
                            (data, if handle \<noteq> MALLOC_DEFAULT_HANDLE then malloc_sethandle data handle st else st))))"

definition handle_pmm01 :: "(nat \<Rightarrow> u16) \<Rightarrow> malloc_state \<Rightarrow> u32 \<times> malloc_state" where
  "handle_pmm01 args st =
     (let handle = arg32 args 1
      in (if handle = MALLOC_DEFAULT_HANDLE then 0 else malloc_findhandle handle st, st))"

definition handle_pmm02 :: "(nat \<Rightarrow> u16) \<Rightarrow> malloc_state \<Rightarrow> u32 \<times> malloc_state" where
  "handle_pmm02 args st =
     (let buffer = arg32 args 1
      in case free buffer st of (ret, st) \<Rightarrow> (if ret \<noteq> 0 then 1 else 0, st))"

definition handle_pmmXX :: "(nat \<Rightarrow> u16) \<Rightarrow> malloc_state \<Rightarrow> u32 \<times> malloc_state" where
  "handle_pmmXX args st = (PMM_FUNCTION_NOT_SUPPORTED, st)"

definition handle_pmm :: "(nat \<Rightarrow> u16) \<Rightarrow> malloc_state \<Rightarrow> u32 \<times> malloc_state" where
  "handle_pmm args st =
     (let arg1 = args 0
      in if arg1 = 0x00 then handle_pmm00 args st
         else if arg1 = 0x01 then handle_pmm01 args st
         else if arg1 = 0x02 then handle_pmm02 args st
         else handle_pmmXX args st)"

section \<open>Facts\<close>

lemma heap_inv_handle [simp]: "heap_inv (st\<lparr>handle_at := h\<rparr>) = heap_inv st"
  by (simp add: heap_inv_def)

lemma malloc_sethandle_inv [simp]: "heap_inv (malloc_sethandle data handle st) = heap_inv st"
  by (simp add: malloc_sethandle_def Let_def split: option.split)

lemma ffs_less: "ffs v < 32"
  using find_SomeD [of "bit v" "[0..<32]"] by (auto simp: ffs_def split: option.split)

lemma malloc_keeps_inv:
  assumes "heap_inv st" "unat sz + 2 ^ k \<le> 2 ^ 32"
  shows "heap_inv (snd (malloc zone sz (2 ^ k) st))"
proof (cases "malloc zone sz (2 ^ k) st")
  case (Pair r st')
  then show ?thesis
    using malloc_inv [of zone sz k st _ st'] malloc_fails [of zone sz "2 ^ k" st st'] assms by (cases r) auto
qed

lemma sint_pos:
  assumes "0 < sint (x :: u32)"
  shows "unat x < 2 ^ 31"
proof -
  have "\<not> bit x 31" using assms bit_last_iff [of x] by simp
  moreover have "take_bit (Suc 31) (unat x) = 2 ^ 31 * of_bool (bit (unat x) 31) + take_bit 31 (unat x)"
    by (rule take_bit_Suc_from_most)
  moreover have "take_bit (Suc 31) (unat x) = unat x"
    using u32_unat_lt [of x] by (simp add: take_bit_nat_eq_self)
  ultimately have "unat x = take_bit 31 (unat x)" by (simp add: bit_simps)
  then show ?thesis using take_bit_nat_less_exp [of 31 "unat x"] by simp
qed

text \<open>The alignments and sizes that the calls ask for are in the range of the allocator's contract.\<close>

lemma pmm_request:
  assumes "0 < sint (sz :: u32)"
  shows "\<exists>k. pmm_align flags sz = 2 ^ k \<and> unat sz + 2 ^ k \<le> 2 ^ 32"
proof -
  have sz: "unat sz < 2 ^ 31" by (rule sint_pos [OF assms])
  have k: "(2 :: nat) ^ ffs sz \<le> 2 ^ 31" using ffs_less [of sz] by (intro power_increasing) auto
  have "MALLOC_MIN_ALIGN = 2 ^ 4" by (simp add: MALLOC_MIN_ALIGN_def)
  moreover have "push_bit (ffs sz) (1 :: u32) = 2 ^ ffs sz" by (simp add: push_bit_eq_mult)
  ultimately have "pmm_align flags sz = 2 ^ 4 \<or> pmm_align flags sz = 2 ^ ffs sz" by (simp add: pmm_align_def Let_def)
  then show ?thesis
  proof
    assume "pmm_align flags sz = 2 ^ 4"
    then show ?thesis using sz by (intro exI [of _ 4]) simp
  next
    assume "pmm_align flags sz = 2 ^ ffs sz"
    then show ?thesis using sz k by (intro exI [of _ "ffs sz"]) simp
  qed
qed

lemma pmm_malloc_inv:
  assumes "heap_inv st" "0 < sint sz"
  shows "heap_inv (snd (pmm_malloc flags lowzone highzone sz (pmm_align flags sz) st))"
proof -
  obtain k where k: "pmm_align flags sz = 2 ^ k" "unat sz + 2 ^ k \<le> 2 ^ 32" using pmm_request [OF assms(2)] by blast
  have m: "heap_inv (snd (malloc zone sz (2 ^ k) s))" if "heap_inv s" for zone s
    using malloc_keeps_inv [OF that k(2)] .
  show ?thesis
  proof (cases "malloc lowzone sz (2 ^ k) st")
    case (Pair r s)
    then show ?thesis using m [OF assms(1), of lowzone] m [OF assms(1), of highzone] m [of s highzone] assms(1)
      by (cases r) (simp_all add: pmm_malloc_def k(1))
  qed
qed

lemma pmm00_inv:
  assumes "heap_inv st"
  shows "heap_inv (snd (handle_pmm00 args st))"
proof -
  have alloc: "heap_inv (snd (case pmm_malloc flags lowzone highzone sz (pmm_align flags sz) st of
        (None, st) \<Rightarrow> (0, st) | (Some data, st) \<Rightarrow> (data, if h data then malloc_sethandle data (handle data) st else st)))"
    if "0 < sint sz" for flags lowzone highzone sz h handle
    using pmm_malloc_inv [OF assms that, of flags lowzone highzone]
    by (auto split: prod.split option.split)
  show ?thesis
    using alloc [of "arg32 args 1 * 16"] assms by (simp add: handle_pmm00_def Let_def not_le)
qed

text \<open>
  C15. No call of an option ROM can corrupt the heap: whatever the words on its stack are, \<open>handle_pmm\<close> keeps the
  invariant of the zones. The guard against sizes of 2 GB and more is what the allocator needs.
\<close>

theorem pmm_keeps_heap:
  assumes "heap_inv st"
  shows "heap_inv (snd (handle_pmm args st))"
  using pmm00_inv [OF assms, of args] free_inv [OF assms] assms
  by (auto simp: handle_pmm_def handle_pmm01_def handle_pmm02_def handle_pmmXX_def Let_def split: prod.split)
   (metis snd_conv)

theorem pmm_keeps_heap_witness:
  "heap_inv (snd (handle_pmm (\<lambda>i. if i = 1 then 0x10 else if i = 5 then 2 else 0) heap_sim))"
  by (rule pmm_keeps_heap) (rule heap_sim_inv)

end
