(* ===== verification/Kbd.thy ===== *)
theory Kbd
  imports Bda
begin

text \<open>
  The keyboard services, \<open>seabios/src/kbd.c\<close>: the key buffer in the BIOS data area, interrupt 16h, and the
  decoder of the scan codes that the keyboard interrupt delivers.

  The drivers of the keyboards, the other threads and interrupt 15h are the parameter \<open>env\<close>, functions on the
  BIOS data area and a world. A command returns its result, the bytes it leaves in the buffer, and the state.
\<close>

section \<open>Bits of the flags\<close>

definition KF0_RSHIFT :: u8 where "KF0_RSHIFT = 0x01"
definition KF0_LSHIFT :: u8 where "KF0_LSHIFT = 0x02"
definition KF0_CTRLACTIVE :: u8 where "KF0_CTRLACTIVE = 0x04"
definition KF0_ALTACTIVE :: u8 where "KF0_ALTACTIVE = 0x08"
definition KF0_SCROLLACTIVE :: u8 where "KF0_SCROLLACTIVE = 0x10"
definition KF0_NUMACTIVE :: u8 where "KF0_NUMACTIVE = 0x20"
definition KF0_CAPSACTIVE :: u8 where "KF0_CAPSACTIVE = 0x40"
definition KF1_LCTRL :: u8 where "KF1_LCTRL = 0x01"
definition KF1_LALT :: u8 where "KF1_LALT = 0x02"
definition KF1_SCROLL :: u8 where "KF1_SCROLL = 0x10"
definition KF1_NUM :: u8 where "KF1_NUM = 0x20"
definition KF1_CAPS :: u8 where "KF1_CAPS = 0x40"
definition KF2_LAST_E1 :: u8 where "KF2_LAST_E1 = 0x01"
definition KF2_LAST_E0 :: u8 where "KF2_LAST_E0 = 0x02"
definition KF2_RCTRL :: u8 where "KF2_RCTRL = 0x04"
definition KF2_RALT :: u8 where "KF2_RALT = 0x08"
definition KF2_101KBD :: u8 where "KF2_101KBD = 0x10"

lemmas kf_defs = KF0_RSHIFT_def KF0_LSHIFT_def KF0_CTRLACTIVE_def KF0_ALTACTIVE_def KF0_SCROLLACTIVE_def
  KF0_NUMACTIVE_def KF0_CAPSACTIVE_def KF1_LCTRL_def KF1_LALT_def KF1_SCROLL_def KF1_NUM_def KF1_CAPS_def
  KF2_LAST_E1_def KF2_LAST_E0_def KF2_RCTRL_def KF2_RALT_def KF2_101KBD_def

section \<open>The key buffer\<close>

definition kbd_init :: "bda \<Rightarrow> bda" where
  "kbd_init b =
     (let x = kbd_buf; b = b(kbd_flag2 := KF2_101KBD);
          b = set16 kbd_buf_head x b; b = set16 kbd_buf_tail x b;
          b = set16 kbd_buf_start_offset x b
      in set16 kbd_buf_end_offset (x + 32) b)"

definition enqueue_key :: "u8 \<Rightarrow> u8 \<Rightarrow> bda \<Rightarrow> u8 \<times> bda" where
  "enqueue_key scan_code ascii_code b =
     (let buffer_start = get16 b kbd_buf_start_offset;
          buffer_end = get16 b kbd_buf_end_offset;
          buffer_head = get16 b kbd_buf_head;
          temp_tail = get16 b kbd_buf_tail;
          buffer_tail = temp_tail + 2;
          buffer_tail = (if buffer_end \<le> buffer_tail then buffer_start else buffer_tail)
      in if buffer_tail = buffer_head then (0, b)
         else (let b = b(temp_tail := ascii_code); b = b(temp_tail + 1 := scan_code)
               in (1, set16 kbd_buf_tail buffer_tail b)))"

text \<open>The key at the head as a caller of interrupt 16h gets it.\<close>

definition key_at_head :: "bool \<Rightarrow> bda \<Rightarrow> u16" where
  "key_at_head extended b =
     (let buffer_head = get16 b kbd_buf_head;
          ascii_code = b buffer_head;
          scan_code = b (buffer_head + 1);
          ascii_code = (if (ascii_code = 0xF0 \<and> scan_code \<noteq> 0) \<or> (ascii_code = 0xE0 \<and> \<not> extended) then 0
                        else ascii_code)
      in push_bit 8 (ucast scan_code) OR ucast ascii_code)"

definition drop_key :: "bda \<Rightarrow> bda" where
  "drop_key b =
     (let buffer_start = get16 b kbd_buf_start_offset;
          buffer_end = get16 b kbd_buf_end_offset;
          buffer_head = get16 b kbd_buf_head + 2
      in set16 kbd_buf_head (if buffer_end \<le> buffer_head then buffer_start else buffer_head) b)"

record 'w kbd_env =
  env_yield :: "bda \<times> 'w \<Rightarrow> bda \<times> 'w"
  env_yield_toirq :: "bda \<times> 'w \<Rightarrow> bda \<times> 'w"
  env_usb_active :: "bda \<times> 'w \<Rightarrow> bool"
  env_usb_command :: "u16 \<Rightarrow> u8 list \<Rightarrow> bda \<times> 'w \<Rightarrow> (int \<times> u8 list \<times> bda \<times> 'w) option"
  env_ps2_command :: "u16 \<Rightarrow> u8 list \<Rightarrow> bda \<times> 'w \<Rightarrow> (int \<times> u8 list \<times> bda \<times> 'w) option"
  env_int15 :: "bregs \<Rightarrow> bda \<times> 'w \<Rightarrow> bregs \<times> bda \<times> 'w"

text \<open>The loop waits for an interrupt that brings a key, maybe for ever.\<close>

partial_function (option) dequeue_loop ::
    "'w kbd_env \<Rightarrow> bool \<Rightarrow> bool \<Rightarrow> bregs \<Rightarrow> bda \<times> 'w \<Rightarrow> (bregs \<times> bda \<times> 'w) option" where
  "dequeue_loop env incr extended regs s =
     (let buffer_head = get16 (fst s) kbd_buf_head; buffer_tail = get16 (fst s) kbd_buf_tail
      in if buffer_head \<noteq> buffer_tail
         then (let regs = set_ax (key_at_head extended (fst s)) regs
               in if \<not> incr then Some (regs\<lparr>br_flags := br_flags regs AND NOT F_ZF\<rparr>, s)
                  else Some (regs, drop_key (fst s), snd s))
         else if \<not> incr then Some (regs\<lparr>br_flags := br_flags regs OR F_ZF\<rparr>, s)
         else dequeue_loop env incr extended regs (env_yield_toirq env s))"

definition dequeue_key ::
    "'w kbd_env \<Rightarrow> bregs \<Rightarrow> bool \<Rightarrow> bool \<Rightarrow> bda \<times> 'w \<Rightarrow> (bregs \<times> bda \<times> 'w) option" where
  "dequeue_key env regs incr extended s = dequeue_loop env incr extended regs (env_yield env s)"

section \<open>Interrupt 16h\<close>

definition ATKBD_CMD_SETLEDS :: u16 where "ATKBD_CMD_SETLEDS = 0x10ed"
definition ATKBD_CMD_GETID :: u16 where "ATKBD_CMD_GETID = 0x02f2"
definition ATKBD_CMD_SETRATEDELAY :: u16 where "ATKBD_CMD_SETRATEDELAY = 0x10f3"

definition kbd_command :: "'w kbd_env \<Rightarrow> u16 \<Rightarrow> u8 list \<Rightarrow> bda \<times> 'w \<Rightarrow> (int \<times> u8 list \<times> bda \<times> 'w) option" where
  "kbd_command env command param s =
     (if env_usb_active env s then env_usb_command env command param s else env_ps2_command env command param s)"

definition handle_1600 :: "'w kbd_env \<Rightarrow> bregs \<Rightarrow> bda \<times> 'w \<Rightarrow> (bregs \<times> bda \<times> 'w) option" where
  "handle_1600 env regs s = dequeue_key env regs True False s"

definition handle_1601 :: "'w kbd_env \<Rightarrow> bregs \<Rightarrow> bda \<times> 'w \<Rightarrow> (bregs \<times> bda \<times> 'w) option" where
  "handle_1601 env regs s = dequeue_key env regs False False s"

definition handle_1602 :: "'w kbd_env \<Rightarrow> bregs \<Rightarrow> bda \<times> 'w \<Rightarrow> bregs \<times> bda \<times> 'w" where
  "handle_1602 env regs s = (let s = env_yield env s in (regs\<lparr>br_al := fst s kbd_flag0\<rparr>, s))"

definition handle_1603 :: "'w kbd_env \<Rightarrow> bregs \<Rightarrow> bda \<times> 'w \<Rightarrow> (bregs \<times> bda \<times> 'w) option" where
  "handle_1603 env regs s =
     (if br_al regs \<noteq> 0x05 then Some (regs, s)
      else do {
        let param = push_bit 5 (br_bh regs AND 0x03) OR (br_bl regs AND 0x05);
        (_, _, s) \<leftarrow> kbd_command env ATKBD_CMD_SETRATEDELAY [param] s;
        Some (regs, s)
      })"

definition handle_1605 :: "bregs \<Rightarrow> bda \<Rightarrow> bregs \<times> bda" where
  "handle_1605 regs b =
     (case enqueue_key (br_ch regs) (br_cl regs) b of
        (r, b) \<Rightarrow> (regs\<lparr>br_al := (if r = 0 then 1 else 0)\<rparr>, b))"

definition handle_1609 :: "bregs \<Rightarrow> bregs" where
  "handle_1609 regs = regs\<lparr>br_al := 0x30\<rparr>"

text \<open>\<open>junk\<close> is what the buffer holds before the driver fills it.\<close>

definition handle_160a :: "'w kbd_env \<Rightarrow> u8 \<times> u8 \<Rightarrow> bregs \<Rightarrow> bda \<times> 'w \<Rightarrow> (bregs \<times> bda \<times> 'w) option" where
  "handle_160a env junk regs s =
     do {
       (ret, param, s) \<leftarrow> kbd_command env ATKBD_CMD_GETID [fst junk, snd junk] s;
       if ret \<noteq> 0 then Some (regs\<lparr>br_bh := 0, br_bl := 0\<rparr>, s)
       else do {
         lo \<leftarrow> arr_get param 0;
         hi \<leftarrow> arr_get param 1;
         Some (regs\<lparr>br_bh := hi, br_bl := lo\<rparr>, s)
       }
     }"

definition handle_1610 :: "'w kbd_env \<Rightarrow> bregs \<Rightarrow> bda \<times> 'w \<Rightarrow> (bregs \<times> bda \<times> 'w) option" where
  "handle_1610 env regs s = dequeue_key env regs True True s"

definition handle_1611 :: "'w kbd_env \<Rightarrow> bregs \<Rightarrow> bda \<times> 'w \<Rightarrow> (bregs \<times> bda \<times> 'w) option" where
  "handle_1611 env regs s = dequeue_key env regs False True s"

definition handle_1612 :: "'w kbd_env \<Rightarrow> bregs \<Rightarrow> bda \<times> 'w \<Rightarrow> bregs \<times> bda \<times> 'w" where
  "handle_1612 env regs s =
     (let s = env_yield env s; b = fst s
      in (regs\<lparr>br_al := b kbd_flag0,
            br_ah := (b kbd_flag1 AND NOT (KF2_RCTRL OR KF2_RALT)) OR (b kbd_flag2 AND (KF2_RCTRL OR KF2_RALT))\<rparr>, s))"

definition handle_166f :: "bregs \<Rightarrow> bregs" where
  "handle_166f regs = (if br_al regs = 0x08 then regs\<lparr>br_ah := 2\<rparr> else regs)"

definition handle_1692 :: "bregs \<Rightarrow> bregs" where
  "handle_1692 regs = regs\<lparr>br_ah := 0x80\<rparr>"

definition handle_16a2 :: "bregs \<Rightarrow> bregs" where
  "handle_16a2 regs = regs"

definition handle_16XX :: "bregs \<Rightarrow> bregs" where
  "handle_16XX regs = regs"

definition set_leds :: "'w kbd_env \<Rightarrow> bda \<times> 'w \<Rightarrow> (bda \<times> 'w) option" where
  "set_leds env s =
     (let shift_flags = drop_bit 4 (fst s kbd_flag0) AND 0x07;
          led = fst s kbd_led;
          led_flags = led AND 0x07
      in if shift_flags = led_flags then Some s
         else do {
           (ret, _, s) \<leftarrow> kbd_command env ATKBD_CMD_SETLEDS [shift_flags] s;
           Some (if ret \<noteq> 0 then s else ((fst s)(kbd_led := (led AND NOT 0x07) OR shift_flags), snd s))
         })"

definition handle_16 :: "'w kbd_env \<Rightarrow> u8 \<times> u8 \<Rightarrow> bregs \<Rightarrow> bda \<times> 'w \<Rightarrow> (bregs \<times> bda \<times> 'w) option" where
  "handle_16 env junk regs s =
     do {
       s \<leftarrow> set_leds env s;
       let ah = br_ah regs;
       if ah = 0x00 then handle_1600 env regs s
       else if ah = 0x01 then handle_1601 env regs s
       else if ah = 0x02 then Some (handle_1602 env regs s)
       else if ah = 0x03 then handle_1603 env regs s
       else if ah = 0x05 then Some (case handle_1605 regs (fst s) of (regs, b) \<Rightarrow> (regs, b, snd s))
       else if ah = 0x09 then Some (handle_1609 regs, s)
       else if ah = 0x0a then handle_160a env junk regs s
       else if ah = 0x10 then handle_1610 env regs s
       else if ah = 0x11 then handle_1611 env regs s
       else if ah = 0x12 then Some (handle_1612 env regs s)
       else if ah = 0x92 then Some (handle_1692 regs, s)
       else if ah = 0xa2 then Some (handle_16a2 regs, s)
       else if ah = 0x6f then Some (handle_166f regs, s)
       else Some (handle_16XX regs, s)
     }"

section \<open>The decoder\<close>

record scaninfo =
  si_normal :: u16
  si_shift :: u16
  si_control :: u16
  si_alt :: u16
  si_lock_flags :: u8

definition MNUM :: u8 where "MNUM = KF0_NUMACTIVE"
definition MCAP :: u8 where "MCAP = KF0_CAPSACTIVE"

definition scan_to_scanascii :: "scaninfo list" where
  "scan_to_scanascii = map (\<lambda>(n, s, c, a, l). \<lparr>si_normal = n, si_shift = s, si_control = c, si_alt = a, si_lock_flags = l\<rparr>)
    [(0, 0, 0, 0, 0), (0x011b, 0x011b, 0x011b, 0x0100, 0), (0x0231, 0x0221, 0, 0x7800, 0),
     (0x0332, 0x0340, 0x0300, 0x7900, 0), (0x0433, 0x0423, 0, 0x7a00, 0), (0x0534, 0x0524, 0, 0x7b00, 0),
     (0x0635, 0x0625, 0, 0x7c00, 0), (0x0736, 0x075e, 0x071e, 0x7d00, 0), (0x0837, 0x0826, 0, 0x7e00, 0),
     (0x0938, 0x092a, 0, 0x7f00, 0), (0x0a39, 0x0a28, 0, 0x8000, 0), (0x0b30, 0x0b29, 0, 0x8100, 0),
     (0x0c2d, 0x0c5f, 0x0c1f, 0x8200, 0), (0x0d3d, 0x0d2b, 0, 0x8300, 0), (0x0e08, 0x0e08, 0x0e7f, 0, 0),
     (0x0f09, 0x0f00, 0, 0, 0), (0x1071, 0x1051, 0x1011, 0x1000, MCAP), (0x1177, 0x1157, 0x1117, 0x1100, MCAP),
     (0x1265, 0x1245, 0x1205, 0x1200, MCAP), (0x1372, 0x1352, 0x1312, 0x1300, MCAP), (0x1474, 0x1454, 0x1414, 0x1400, MCAP),
     (0x1579, 0x1559, 0x1519, 0x1500, MCAP), (0x1675, 0x1655, 0x1615, 0x1600, MCAP), (0x1769, 0x1749, 0x1709, 0x1700, MCAP),
     (0x186f, 0x184f, 0x180f, 0x1800, MCAP), (0x1970, 0x1950, 0x1910, 0x1900, MCAP), (0x1a5b, 0x1a7b, 0x1a1b, 0, 0),
     (0x1b5d, 0x1b7d, 0x1b1d, 0, 0), (0x1c0d, 0x1c0d, 0x1c0a, 0, 0), (0, 0, 0, 0, 0),
     (0x1e61, 0x1e41, 0x1e01, 0x1e00, MCAP), (0x1f73, 0x1f53, 0x1f13, 0x1f00, MCAP), (0x2064, 0x2044, 0x2004, 0x2000, MCAP),
     (0x2166, 0x2146, 0x2106, 0x2100, MCAP), (0x2267, 0x2247, 0x2207, 0x2200, MCAP), (0x2368, 0x2348, 0x2308, 0x2300, MCAP),
     (0x246a, 0x244a, 0x240a, 0x2400, MCAP), (0x256b, 0x254b, 0x250b, 0x2500, MCAP), (0x266c, 0x264c, 0x260c, 0x2600, MCAP),
     (0x273b, 0x273a, 0, 0, 0), (0x2827, 0x2822, 0, 0, 0), (0x2960, 0x297e, 0, 0, 0),
     (0, 0, 0, 0, 0), (0x2b5c, 0x2b7c, 0x2b1c, 0, 0), (0x2c7a, 0x2c5a, 0x2c1a, 0x2c00, MCAP),
     (0x2d78, 0x2d58, 0x2d18, 0x2d00, MCAP), (0x2e63, 0x2e43, 0x2e03, 0x2e00, MCAP), (0x2f76, 0x2f56, 0x2f16, 0x2f00, MCAP),
     (0x3062, 0x3042, 0x3002, 0x3000, MCAP), (0x316e, 0x314e, 0x310e, 0x3100, MCAP), (0x326d, 0x324d, 0x320d, 0x3200, MCAP),
     (0x332c, 0x333c, 0, 0, 0), (0x342e, 0x343e, 0, 0, 0), (0x352f, 0x353f, 0, 0, 0),
     (0, 0, 0, 0, 0), (0x372a, 0x372a, 0, 0, 0), (0, 0, 0, 0, 0),
     (0x3920, 0x3920, 0x3920, 0x3920, 0), (0, 0, 0, 0, 0), (0x3b00, 0x5400, 0x5e00, 0x6800, 0),
     (0x3c00, 0x5500, 0x5f00, 0x6900, 0), (0x3d00, 0x5600, 0x6000, 0x6a00, 0), (0x3e00, 0x5700, 0x6100, 0x6b00, 0),
     (0x3f00, 0x5800, 0x6200, 0x6c00, 0), (0x4000, 0x5900, 0x6300, 0x6d00, 0), (0x4100, 0x5a00, 0x6400, 0x6e00, 0),
     (0x4200, 0x5b00, 0x6500, 0x6f00, 0), (0x4300, 0x5c00, 0x6600, 0x7000, 0), (0x4400, 0x5d00, 0x6700, 0x7100, 0),
     (0, 0, 0, 0, 0), (0, 0, 0, 0, 0), (0x4700, 0x4737, 0x7700, 0, MNUM),
     (0x4800, 0x4838, 0, 0, MNUM), (0x4900, 0x4939, 0x8400, 0, MNUM), (0x4a2d, 0x4a2d, 0, 0, 0),
     (0x4b00, 0x4b34, 0x7300, 0, MNUM), (0x4c00, 0x4c35, 0, 0, MNUM), (0x4d00, 0x4d36, 0x7400, 0, MNUM),
     (0x4e2b, 0x4e2b, 0, 0, 0), (0x4f00, 0x4f31, 0x7500, 0, MNUM), (0x5000, 0x5032, 0, 0, MNUM),
     (0x5100, 0x5133, 0x7600, 0, MNUM), (0x5200, 0x5230, 0, 0, MNUM), (0x5300, 0x532e, 0, 0, MNUM),
     (0, 0, 0, 0, 0), (0, 0, 0, 0, 0), (0x565c, 0x567c, 0, 0, 0),
     (0x8500, 0x8700, 0x8900, 0x8b00, 0), (0x8600, 0x8800, 0x8a00, 0x8c00, 0)]"

text \<open>The value of a key in the state of the modifiers.\<close>

definition key_value :: "u8 \<Rightarrow> u8 \<Rightarrow> u8 \<Rightarrow> u16" where
  "key_value flags0 flags2 scancode =
     (let info = scan_to_scanascii ! unat scancode
      in if flags0 AND KF0_ALTACTIVE \<noteq> 0 then si_alt info
         else if flags0 AND KF0_CTRLACTIVE \<noteq> 0 then si_control info
         else if flags2 AND KF2_LAST_E0 \<noteq> 0 \<and> 0x47 \<le> scancode \<and> scancode \<le> 0x53
         then (si_normal info AND 0xff00) OR 0xe0
         else if flags0 AND (KF0_RSHIFT OR KF0_LSHIFT) \<noteq> 0
         then (if flags0 AND si_lock_flags info \<noteq> 0 then si_normal info else si_shift info)
         else (if flags0 AND si_lock_flags info \<noteq> 0 then si_shift info else si_normal info))"

text \<open>\<open>reset_vector\<close> does not return.\<close>

datatype key_result = Done bda | ResetVector bda

text \<open>
  The keys that change the flags, as cases of the \<open>switch\<close>: the new flags. The other keys give \<open>None\<close>.
\<close>

definition modifier_key :: "u8 \<Rightarrow> u8 \<Rightarrow> u8 \<Rightarrow> u8 \<Rightarrow> (u8 \<times> u8 \<times> u8) option" where
  "modifier_key flags0 flags1 flags2 scancode =
     (if scancode = 0x3a then Some (flags0 XOR KF0_CAPSACTIVE, flags1 OR KF1_CAPS, flags2)
      else if scancode = 0xba then Some (flags0, flags1 AND NOT KF1_CAPS, flags2)
      else if scancode = 0x2a then Some (flags0 OR KF0_LSHIFT, flags1, flags2)
      else if scancode = 0xaa then Some (flags0 AND NOT KF0_LSHIFT, flags1, flags2)
      else if scancode = 0x36 then Some (flags0 OR KF0_RSHIFT, flags1, flags2)
      else if scancode = 0xb6 then Some (flags0 AND NOT KF0_RSHIFT, flags1, flags2)
      else if scancode = 0x1d
      then (if flags2 AND KF2_LAST_E0 \<noteq> 0 then Some (flags0 OR KF0_CTRLACTIVE, flags1, flags2 OR KF2_RCTRL)
            else Some (flags0 OR KF0_CTRLACTIVE, flags1 OR KF1_LCTRL, flags2))
      else if scancode = 0x9d
      then (if flags2 AND KF2_LAST_E0 \<noteq> 0 then Some (flags0 AND NOT KF0_CTRLACTIVE, flags1, flags2 AND NOT KF2_RCTRL)
            else Some (flags0 AND NOT KF0_CTRLACTIVE, flags1 AND NOT KF1_LCTRL, flags2))
      else if scancode = 0x38
      then (if flags2 AND KF2_LAST_E0 \<noteq> 0 then Some (flags0 OR KF0_ALTACTIVE, flags1, flags2 OR KF2_RALT)
            else Some (flags0 OR KF0_ALTACTIVE, flags1 OR KF1_LALT, flags2))
      else if scancode = 0xb8
      then (if flags2 AND KF2_LAST_E0 \<noteq> 0 then Some (flags0 AND NOT KF0_ALTACTIVE, flags1, flags2 AND NOT KF2_RALT)
            else Some (flags0 AND NOT KF0_ALTACTIVE, flags1 AND NOT KF1_LALT, flags2))
      else if scancode = 0x45 then Some (flags0 XOR KF0_NUMACTIVE, flags1 OR KF1_NUM, flags2)
      else if scancode = 0xc5 then Some (flags0, flags1 AND NOT KF1_NUM, flags2)
      else if scancode = 0x46 then Some (flags0 XOR KF0_SCROLLACTIVE, flags1 OR KF1_SCROLL, flags2)
      else if scancode = 0xc6 then Some (flags0, flags1 AND NOT KF1_SCROLL, flags2)
      else if scancode = 0xe1 then Some (flags0, flags1, flags2 OR KF2_LAST_E1)
      else None)"

text \<open>The end of the function: the flags are stored.\<close>

definition store_flags :: "u8 \<Rightarrow> u8 \<Rightarrow> u8 \<Rightarrow> bda \<Rightarrow> bda" where
  "store_flags flags0 flags1 flags2 b =
     b(kbd_flag0 := flags0, kbd_flag1 := flags1, kbd_flag2 := flags2 AND NOT KF2_LAST_E0)"

text \<open>\<open>__process_key\<close>.\<close>

definition process_scancode :: "u8 \<Rightarrow> bda \<Rightarrow> key_result" where
  "process_scancode scancode b =
     (let flags0 = b kbd_flag0; flags1 = b kbd_flag1; flags2 = b kbd_flag2
      in if flags2 AND KF2_LAST_E1 \<noteq> 0
         then (if scancode AND NOT 0x80 = 0x1d then Done b
               else Done (b(kbd_flag2 := flags2 AND NOT KF2_LAST_E1)))
         else if scancode = 0x00 then Done b
         else if scancode = 0xe0 then Done (b(kbd_flag2 := flags2 OR KF2_LAST_E0))
         else (case modifier_key flags0 flags1 flags2 scancode of
                 Some (flags0, flags1, flags2) \<Rightarrow> Done (store_flags flags0 flags1 flags2 b)
               | None \<Rightarrow>
                   if scancode AND 0x80 \<noteq> 0 then Done (store_flags flags0 flags1 flags2 b)
                   else if scancode = 0x53 \<and> flags0 AND (KF0_CTRLACTIVE OR KF0_ALTACTIVE) = KF0_CTRLACTIVE OR KF0_ALTACTIVE
                   then ResetVector (set16 soft_reset_flag 0x1234 b)
                   else if length scan_to_scanascii \<le> unat scancode then Done b
                   else (let v = key_value flags0 flags2 scancode
                         in Done (store_flags flags0 flags1 flags2 (snd (enqueue_key (hi8 v) (lo8 v) b))))))"

text \<open>\<open>process_key\<close>: function 4Fh of interrupt 15h may change the key, or take it (carry clear).\<close>

definition process_key :: "'w kbd_env \<Rightarrow> u8 \<Rightarrow> bda \<times> 'w \<Rightarrow> key_result \<times> 'w" where
  "process_key env key s =
     (let br = bregs_zero\<lparr>br_ah := 0x4f, br_al := key, br_flags := F_IF OR F_CF\<rparr>
      in case env_int15 env br s of
           (br, s) \<Rightarrow>
             if br_flags br AND F_CF = 0 then (Done (fst s), snd s)
             else (process_scancode (br_al br) (fst s), snd s))"

end
