(* ===== verification/Kbd_Facts.thy ===== *)
theory Kbd_Facts
  imports Kbd
begin

text \<open>
  What the keyboard services promise. The interface of the key buffer is the locale \<open>key_queue\<close>: a bounded queue.
  The ring buffer in the BIOS data area implements it.
\<close>

section \<open>A bounded queue\<close>

locale key_queue =
  fixes enq :: "'k \<Rightarrow> 's \<Rightarrow> 's" and deq :: "'s \<Rightarrow> 's" and front :: "'s \<Rightarrow> 'k"
    and keys :: "'s \<Rightarrow> 'k list" and room :: "'s \<Rightarrow> nat" and invar :: "'s \<Rightarrow> bool"
  assumes enq_keys: "invar s \<Longrightarrow> keys (enq k s) = (if length (keys s) < room s then keys s @ [k] else keys s)"
    and deq_keys: "invar s \<Longrightarrow> keys s \<noteq> [] \<Longrightarrow> keys (deq s) = tl (keys s)"
    and front_keys: "invar s \<Longrightarrow> keys s \<noteq> [] \<Longrightarrow> front s = hd (keys s)"
    and bounded: "invar s \<Longrightarrow> length (keys s) \<le> room s"
    and keeps_room: "invar s \<Longrightarrow> room (enq k s) = room s" "invar s \<Longrightarrow> keys s \<noteq> [] \<Longrightarrow> room (deq s) = room s"
    and keeps: "invar s \<Longrightarrow> invar (enq k s)" "invar s \<Longrightarrow> keys s \<noteq> [] \<Longrightarrow> invar (deq s)"
begin

text \<open>Keys that find no room are lost, the others queue up.\<close>

lemma enq_all:
  "invar s \<Longrightarrow> invar (fold enq ks s) \<and> room (fold enq ks s) = room s \<and>
     keys (fold enq ks s) = keys s @ take (room s - length (keys s)) ks"
proof (induction ks arbitrary: s)
  case (Cons k ks)
  have "keys (enq k s) @ take (room s - length (keys (enq k s))) ks = keys s @ take (room s - length (keys s)) (k # ks)"
    using Cons.prems bounded [OF Cons.prems] by (auto simp: enq_keys take_Cons' diff_Suc split: nat.split)
  then show ?case using Cons.IH [of "enq k s"] Cons.prems by (simp add: keeps keeps_room)
qed simp

lemma deq_all:
  "invar s \<Longrightarrow> n \<le> length (keys s) \<Longrightarrow> invar ((deq ^^ n) s) \<and> keys ((deq ^^ n) s) = drop n (keys s)"
proof (induction n)
  case (Suc n)
  then have "keys ((deq ^^ n) s) \<noteq> []" by simp
  then show ?case using Suc by (simp add: deq_keys keeps drop_Suc tl_drop)
qed simp

theorem in_order:
  assumes "invar s" "keys s = []" "i < length ks" "i < room s"
  shows "front ((deq ^^ i) (fold enq ks s)) = ks ! i"
proof -
  have e: "invar (fold enq ks s)" "keys (fold enq ks s) = take (room s) ks" using enq_all [OF assms(1), of ks] assms(2) by auto
  then have "invar ((deq ^^ i) (fold enq ks s))" "keys ((deq ^^ i) (fold enq ks s)) = drop i (take (room s) ks)"
    using deq_all [OF e(1), of i] assms(3,4) by auto
  then show ?thesis using front_keys assms(3,4) by (simp add: hd_drop_conv_nth)
qed

end

section \<open>The ring buffer\<close>

text \<open>
  A buffer of \<open>n\<close> slots from offset \<open>s\<close>, with the cursors at slots \<open>h\<close> and \<open>t\<close>; it may be anywhere
  but over the fields that the services use.
\<close>

definition slot_addr :: "nat \<Rightarrow> nat \<Rightarrow> u16" where
  "slot_addr s i = of_nat (s + 2 * i)"

definition ring :: "nat \<Rightarrow> nat \<Rightarrow> nat \<Rightarrow> nat \<Rightarrow> bda \<Rightarrow> bool" where
  "ring s n h t b \<longleftrightarrow> get16 b kbd_buf_start_offset = slot_addr s 0 \<and> get16 b kbd_buf_end_offset = slot_addr s n \<and>
     get16 b kbd_buf_head = slot_addr s h \<and> get16 b kbd_buf_tail = slot_addr s t \<and> h < n \<and> t < n \<and>
     (30 \<le> s \<and> s + 2 * n \<le> 114 \<or> 152 \<le> s \<and> s + 2 * n < 65536)"

definition slot :: "nat \<Rightarrow> nat \<Rightarrow> bda \<Rightarrow> u8 \<times> u8" where
  "slot s i b = (b (slot_addr s i + 1), b (slot_addr s i))"

definition ring_keys :: "nat \<Rightarrow> nat \<Rightarrow> nat \<Rightarrow> nat \<Rightarrow> bda \<Rightarrow> (u8 \<times> u8) list" where
  "ring_keys s n h t b = map (\<lambda>i. slot s ((h + i) mod n) b) [0..<(t + n - h) mod n]"

definition ring_ok :: "bda \<Rightarrow> bool" where
  "ring_ok b \<longleftrightarrow> (\<exists>s n h t. ring s n h t b)"

text \<open>The keys in the buffer, each a scan code and an ASCII code, and the number of keys it can take.\<close>

definition buffer_room :: "bda \<Rightarrow> nat" where
  "buffer_room b = (unat (get16 b kbd_buf_end_offset) - unat (get16 b kbd_buf_start_offset)) div 2 - 1"

definition buffer_keys :: "bda \<Rightarrow> (u8 \<times> u8) list" where
  "buffer_keys b =
     (let s = unat (get16 b kbd_buf_start_offset); n = buffer_room b + 1
      in ring_keys s n ((unat (get16 b kbd_buf_head) - s) div 2) ((unat (get16 b kbd_buf_tail) - s) div 2) b)"

lemma unat_slot_addr:
  assumes "ring s n h t b" "i \<le> n"
  shows "unat (slot_addr s i) = s + 2 * i" and "i < n \<Longrightarrow> unat (slot_addr s i + 1) = s + 2 * i + 1"
proof -
  have "s + 2 * i < 65536" using assms by (auto simp: ring_def)
  then show a: "unat (slot_addr s i) = s + 2 * i"
    by (simp only: slot_addr_def) (simp only: unat_of_nat take_bit_nat_eq_self, simp)
  assume "i < n"
  then have "s + 2 * i + 1 < 65536" using assms by (auto simp: ring_def)
  then show "unat (slot_addr s i + 1) = s + 2 * i + 1" using a by (simp add: unat_word_ariths)
qed

lemma ring_keys_eq: "ring s n h t b \<Longrightarrow> buffer_keys b = ring_keys s n h t b"
  and ring_room: "ring s n h t b \<Longrightarrow> buffer_room b = n - 1"
proof -
  assume r: "ring s n h t b"
  then have n: "h < n" "t < n" "0 < n" by (auto simp: ring_def)
  with r have "unat (get16 b kbd_buf_start_offset) = s" "unat (get16 b kbd_buf_end_offset) = s + 2 * n"
    "unat (get16 b kbd_buf_head) = s + 2 * h" "unat (get16 b kbd_buf_tail) = s + 2 * t"
    using unat_slot_addr(1) [OF r] by (auto simp: ring_def)
  then show "buffer_room b = n - 1" "buffer_keys b = ring_keys s n h t b"
    using \<open>0 < n\<close> by (simp_all add: buffer_room_def buffer_keys_def)
qed

text \<open>The slots are apart from the fields, and from each other.\<close>

lemma slot_not_field:
  assumes "ring s n h t b" "i < n"
  shows "(30 \<le> unat (slot_addr s i) \<and> unat (slot_addr s i + 1) < 114) \<or> 152 \<le> unat (slot_addr s i)"
  using assms unat_slot_addr [OF assms(1), of i] by (auto simp: ring_def)

lemma slot_eq:
  assumes "ring s n h t b" "i < n" "j < n"
  shows "slot_addr s i = slot_addr s j \<longleftrightarrow> i = j" "slot_addr s i + 1 = slot_addr s j + 1 \<longleftrightarrow> i = j"
    "slot_addr s i + 1 \<noteq> slot_addr s j"
proof -
  note i = unat_slot_addr [OF assms(1), of i] and j = unat_slot_addr [OF assms(1), of j]
  have "unat (slot_addr s i) = s + 2 * i" "unat (slot_addr s j) = s + 2 * j" "unat (slot_addr s i + 1) = s + 2 * i + 1"
    "unat (slot_addr s j + 1) = s + 2 * j + 1" using i j assms by auto
  note u = this
  show "slot_addr s i = slot_addr s j \<longleftrightarrow> i = j" "slot_addr s i + 1 = slot_addr s j + 1 \<longleftrightarrow> i = j"
    "slot_addr s i + 1 \<noteq> slot_addr s j"
    unfolding word_unat_eq_iff u by presburger+
qed

definition next_slot :: "nat \<Rightarrow> nat \<Rightarrow> nat" where
  "next_slot n i = (if i + 1 = n then 0 else i + 1)"

lemma next_slot_less: "i < n \<Longrightarrow> next_slot n i < n"
  by (auto simp: next_slot_def)

lemma next_slot_mod: "i < n \<Longrightarrow> next_slot n i = (i + 1) mod n"
  by (auto simp: next_slot_def)

lemma slot_addr_Suc: "slot_addr s i + 2 = slot_addr s (Suc i)"
  by (simp add: slot_addr_def)

lemma advance:
  assumes "ring s n h t b" "i < n"
  shows "(if slot_addr s n \<le> slot_addr s (Suc i) then slot_addr s 0 else slot_addr s (Suc i)) = slot_addr s (next_slot n i)"
proof -
  have "slot_addr s n \<le> slot_addr s (Suc i) \<longleftrightarrow> Suc i = n"
    using assms(2) unat_slot_addr(1) [OF assms(1), of n] unat_slot_addr(1) [OF assms(1), of "Suc i"]
    by (auto simp: word_le_nat_alt)
  then show ?thesis by (simp add: next_slot_def)
qed

lemma ring_fields:
  assumes "ring s n h t b"
  shows "get16 b kbd_buf_start_offset = slot_addr s 0" "get16 b kbd_buf_end_offset = slot_addr s n"
    "get16 b kbd_buf_head = slot_addr s h" "get16 b kbd_buf_tail = slot_addr s t" "h < n" "t < n"
  using assms by (auto simp: ring_def)

abbreviation put_key :: "u16 \<Rightarrow> u8 \<Rightarrow> u8 \<Rightarrow> bda \<Rightarrow> bda" where
  "put_key a asc scan b \<equiv> b(a := asc, a + 1 := scan)"

lemma enqueue_ring:
  assumes "ring s n h t b"
  shows "enqueue_key scan asc b =
    (if next_slot n t = h then (0, b)
     else (1, set16 kbd_buf_tail (slot_addr s (next_slot n t)) (put_key (slot_addr s t) asc scan b)))"
proof -
  note f = ring_fields [OF assms]
  show ?thesis
    unfolding enqueue_key_def Let_def f(1-4) slot_addr_Suc advance [OF assms f(6)]
    using slot_eq(1) [OF assms next_slot_less [OF f(6)] f(5)] by simp
qed

lemma field_frame:
  assumes "ring s n h t b" "i < n"
  shows "f \<in> {0x1a, 0x1c, 0x72, 0x80, 0x82} \<Longrightarrow> get16 (put_key (slot_addr s i) x y b) f = get16 b f"
    "f \<in> {0x17, 0x18, 0x96, 0x97} \<Longrightarrow> put_key (slot_addr s i) x y b f = b f"
proof -
  have u: "unat (slot_addr s i + 1) = unat (slot_addr s i) + 1" using assms unat_slot_addr [OF assms(1), of i] by simp
  have ne: "\<forall>g\<in>{0x17, 0x18, 0x1a, 0x1b, 0x1c, 0x1d, 0x72, 0x73, 0x80, 0x81, 0x82, 0x83, 0x96, 0x97}. g \<noteq> slot_addr s i \<and> g \<noteq> slot_addr s i + 1"
    using slot_not_field [OF assms] u by auto
  show "get16 (put_key (slot_addr s i) x y b) f = get16 b f" if "f \<in> {0x1a, 0x1c, 0x72, 0x80, 0x82}"
    using ne that by (auto simp: get16_def)
  show "put_key (slot_addr s i) x y b f = b f" if "f \<in> {0x17, 0x18, 0x96, 0x97}"
    using ne that by auto
qed

lemma ring_put: "ring s n h t b \<Longrightarrow> ring s n h t (put_key (slot_addr s t) asc scan b)"
  using field_frame(1) [of s n h t b t] unfolding ring_def by simp

lemma ring_enqueued:
  assumes r: "ring s n h t b"
  shows "ring s n h (next_slot n t) (set16 kbd_buf_tail (slot_addr s (next_slot n t)) (put_key (slot_addr s t) asc scan b))"
  using r next_slot_less [OF ring_fields(6) [OF r]] field_frame(1) [OF r ring_fields(6) [OF r]]
  unfolding ring_def by (simp add: get16_set16_other)

lemma ring_dequeued:
  assumes r: "ring s n h t b"
  shows "drop_key b = set16 kbd_buf_head (slot_addr s (next_slot n h)) b" "ring s n (next_slot n h) t (drop_key b)"
proof -
  note f = ring_fields [OF r]
  show "drop_key b = set16 kbd_buf_head (slot_addr s (next_slot n h)) b"
    by (simp add: drop_key_def f(1-4) Let_def slot_addr_Suc advance [OF r f(5)] split del: if_split)
  then show "ring s n (next_slot n h) t (drop_key b)"
    using r next_slot_less [OF f(5)] unfolding ring_def by (simp add: get16_set16_other)
qed

section \<open>The ring buffer is a bounded queue\<close>

text \<open>The slots from \<open>h\<close> on, \<open>c\<close> of them.\<close>

definition slots :: "nat \<Rightarrow> nat \<Rightarrow> nat \<Rightarrow> nat \<Rightarrow> bda \<Rightarrow> (u8 \<times> u8) list" where
  "slots s n h c b = map (\<lambda>i. slot s ((h + i) mod n) b) [0..<c]"

lemma ring_keys_slots: "ring_keys s n h t b = slots s n h ((t + n - h) mod n) b"
  by (simp add: ring_keys_def slots_def)

lemma slots_Suc: "slots s n h (Suc c) b = slots s n h c b @ [slot s ((h + c) mod n) b]"
  by (simp add: slots_def)

lemma slots_Cons: "h < n \<Longrightarrow> slots s n h (Suc c) b = slot s h b # slots s n (next_slot n h) c b"
proof -
  assume h: "h < n"
  have "map (\<lambda>i. slot s ((h + i) mod n) b) [0..<Suc c] = slot s h b # map (\<lambda>i. slot s ((h + Suc i) mod n) b) [0..<c]"
    using h by (simp only: upt_conv_Cons [of 0 "Suc c"] zero_less_Suc map_Suc_upt [symmetric] list.map list.map_comp comp_def) simp
  then show ?thesis using h by (simp add: slots_def next_slot_mod mod_simps)
qed

text \<open>The number of keys, and how it changes.\<close>

lemma count_full:
  assumes "h < n" "t < n"
  shows "next_slot n t = h \<longleftrightarrow> (t + n - h) mod n = n - 1"
    and "next_slot n t \<noteq> h \<Longrightarrow> (next_slot n t + n - h) mod n = Suc ((t + n - h) mod n)"
    and "(h + (t + n - h) mod n) mod n = t"
    and "h \<noteq> t \<Longrightarrow> (t + n - h) mod n = Suc ((t + n - next_slot n h) mod n)"
proof -
  have c: "(t + n - h) mod n = (if h \<le> t then t - h else t + n - h)" if "h < n" "t < n" for h t
    using that by (auto simp: mod_if)
  show "next_slot n t = h \<longleftrightarrow> (t + n - h) mod n = n - 1"
    using assms c [OF assms] by (auto simp: next_slot_def)
  show "(next_slot n t + n - h) mod n = Suc ((t + n - h) mod n)" if "next_slot n t \<noteq> h"
    using assms c [OF assms] c [OF assms(1) next_slot_less [OF assms(2)]] that by (auto simp: next_slot_def split: if_splits)
  show "(h + (t + n - h) mod n) mod n = t" using assms c [OF assms] by auto
  show "(t + n - h) mod n = Suc ((t + n - next_slot n h) mod n)" if "h \<noteq> t"
    using assms c [OF assms] c [OF next_slot_less [OF assms(1)] assms(2)] that by (auto simp: next_slot_def split: if_splits)
qed

lemma add_mod_inj:
  assumes "h < n" "i < n" "j < n" "(h + i) mod n = (h + j) mod n"
  shows "i = (j :: nat)"
proof -
  have m: "(h + k) mod n = (if h + k < n then h + k else h + k - n)" if "k < n" for k
    using that assms(1) by (simp add: le_mod_geq)
  show ?thesis using assms(4) unfolding m [OF assms(2)] m [OF assms(3)] using assms(1-3) by (simp split: if_splits)
qed

lemma slots_frame:
  assumes "\<And>i. i < n \<Longrightarrow> i \<noteq> t \<Longrightarrow> slot s i b' = slot s i b" "\<And>i. i < c \<Longrightarrow> (h + i) mod n \<noteq> t" "0 < n"
  shows "slots s n h c b' = slots s n h c b"
  unfolding slots_def using assms by auto

lemma slot_frame:
  assumes "ring s n h t b" "i < n"
  shows "slot s i (set16 kbd_buf_tail v b) = slot s i b" "slot s i (set16 kbd_buf_head v b) = slot s i b"
    "j < n \<Longrightarrow> slot s i (put_key (slot_addr s j) asc scan b) = (if i = j then (scan, asc) else slot s i b)"
proof -
  have u: "unat (slot_addr s i + 1) = unat (slot_addr s i) + 1" using assms unat_slot_addr [OF assms(1), of i] by simp
  have "\<forall>g\<in>{0x1a, 0x1b, 0x1c, 0x1d}. slot_addr s i \<noteq> g \<and> slot_addr s i + 1 \<noteq> g"
    using slot_not_field [OF assms] u by auto
  then show "slot s i (set16 kbd_buf_tail v b) = slot s i b" "slot s i (set16 kbd_buf_head v b) = slot s i b"
    by (simp_all add: slot_def set16_def)
  show "slot s i (put_key (slot_addr s j) asc scan b) = (if i = j then (scan, asc) else slot s i b)" if "j < n"
    using slot_eq [OF assms that] slot_eq(3) [OF assms(1) that assms(2)] by (auto simp: slot_def)
qed

text \<open>What a store of a key leaves alone: everything but the tail and the buffer.\<close>

definition outside_buffer :: "bda \<Rightarrow> u16 \<Rightarrow> bool" where
  "outside_buffer b a \<longleftrightarrow> a \<noteq> kbd_buf_tail \<and> a \<noteq> kbd_buf_tail + 1 \<and>
     (a < get16 b kbd_buf_start_offset \<or> get16 b kbd_buf_end_offset \<le> a)"

lemma enqueue_buffer:
  assumes "ring_ok b" "enqueue_key scan asc b = (r, b')"
  shows "ring_ok b' \<and> buffer_room b' = buffer_room b \<and>
     (if length (buffer_keys b) < buffer_room b then r = 1 \<and> buffer_keys b' = buffer_keys b @ [(scan, asc)] else r = 0 \<and> b' = b) \<and>
     (\<forall>a. outside_buffer b a \<longrightarrow> b' a = b a)"
proof -
  obtain s n h t where r: "ring s n h t b" using assms(1) by (auto simp: ring_ok_def)
  note f = ring_fields [OF r] and e = assms(2) [unfolded enqueue_ring [OF r]]
  let ?c = "(t + n - h) mod n"
  have old: "buffer_keys b = slots s n h ?c b" "buffer_room b = n - 1"
    using ring_keys_eq [OF r] ring_room [OF r] by (simp_all add: ring_keys_slots)
  have len: "length (buffer_keys b) = ?c" by (simp add: old slots_def)
  show ?thesis
  proof (cases "next_slot n t = h")
    case True
    then show ?thesis using e assms(1) count_full(1) [OF f(5,6)] len old(2) by auto
  next
    case False
    then have b': "b' = set16 kbd_buf_tail (slot_addr s (next_slot n t)) (put_key (slot_addr s t) asc scan b)" "r = 1"
      using e by simp_all
    have c: "?c < n" "?c \<noteq> n - 1" using count_full(1) [OF f(5,6)] False f(5) by auto
    have r': "ring s n h (next_slot n t) b'" unfolding b' by (rule ring_enqueued [OF r])
    have same: "slot s i b' = (if i = t then (scan, asc) else slot s i b)" if "i < n" for i
      unfolding b' slot_frame(1) [OF ring_put [OF r] that] by (rule slot_frame(3) [OF r that f(6)])
    have "(h + i) mod n \<noteq> t" if "i < ?c" for i
    proof
      assume "(h + i) mod n = t"
      then have "(h + i) mod n = (h + ?c) mod n" by (simp only: count_full(3) [OF f(5,6)])
      from add_mod_inj [OF f(5) less_trans [OF that c(1)] c(1) this] that show False by simp
    qed
    then have "slots s n h ?c b' = slots s n h ?c b" using same f(5) by (intro slots_frame [where t = t]) auto
    then have "buffer_keys b' = buffer_keys b @ [(scan, asc)]"
      unfolding ring_keys_eq [OF r'] ring_keys_slots count_full(2) [OF f(5,6) False] slots_Suc old count_full(3) [OF f(5,6)]
      using same [OF f(6)] by simp
    moreover have "b' a = b a" if "outside_buffer b a" for a
    proof -
      have "a \<noteq> slot_addr s t" "a \<noteq> slot_addr s t + 1"
        using that unat_slot_addr [OF r, of t] unat_slot_addr(1) [OF r, of 0] unat_slot_addr(1) [OF r, of n] f(1,2,5,6)
        by (auto simp: outside_buffer_def word_le_nat_alt word_less_nat_alt)
      then show ?thesis using that by (simp add: b' set16_def outside_buffer_def)
    qed
    ultimately show ?thesis using r' ring_room [OF r'] old(2) len c b'(2) by (auto simp: ring_ok_def)
  qed
qed

lemma dequeue_buffer:
  assumes "ring_ok b" "buffer_keys b \<noteq> []"
  shows "ring_ok (drop_key b)" "buffer_room (drop_key b) = buffer_room b" "buffer_keys (drop_key b) = tl (buffer_keys b)"
    "hd (buffer_keys b) = (b (get16 b kbd_buf_head + 1), b (get16 b kbd_buf_head))"
proof -
  obtain s n h t where r: "ring s n h t b" using assms(1) by (auto simp: ring_ok_def)
  note f = ring_fields [OF r]
  have old: "buffer_keys b = slots s n h ((t + n - h) mod n) b" "buffer_room b = n - 1"
    using ring_keys_eq [OF r] ring_room [OF r] by (simp_all add: ring_keys_slots)
  have "h \<noteq> t" using assms(2) by (auto simp: old slots_def)
  then have c: "(t + n - h) mod n = Suc ((t + n - next_slot n h) mod n)" using count_full(4) [OF f(5,6)] by simp
  have r': "ring s n (next_slot n h) t (drop_key b)" by (rule ring_dequeued(2) [OF r])
  have "slots s n g m (drop_key b) = slots s n g m b" for g m
    using slot_frame(2) [OF r] f(5) by (simp add: ring_dequeued(1) [OF r] slots_def)
  then have "buffer_keys (drop_key b) = slots s n (next_slot n h) ((t + n - next_slot n h) mod n) b"
    using ring_keys_eq [OF r'] by (simp add: ring_keys_slots)
  then show "buffer_keys (drop_key b) = tl (buffer_keys b)"
    "hd (buffer_keys b) = (b (get16 b kbd_buf_head + 1), b (get16 b kbd_buf_head))"
    using f(3,5) by (simp_all add: old c slots_Cons slot_def)
  show "ring_ok (drop_key b)" "buffer_room (drop_key b) = buffer_room b"
    using r' ring_room [OF r'] old(2) by (auto simp: ring_ok_def)
qed

lemma buffer_empty:
  assumes "ring_ok b"
  shows "buffer_keys b = [] \<longleftrightarrow> get16 b kbd_buf_head = get16 b kbd_buf_tail" and "length (buffer_keys b) \<le> buffer_room b"
proof -
  obtain s n h t where r: "ring s n h t b" using assms by (auto simp: ring_ok_def)
  note f = ring_fields [OF r]
  have old: "buffer_keys b = slots s n h ((t + n - h) mod n) b" "buffer_room b = n - 1"
    using ring_keys_eq [OF r] ring_room [OF r] by (simp_all add: ring_keys_slots)
  have "(t + n - h) mod n < n" using f(5) by simp
  then show "length (buffer_keys b) \<le> buffer_room b" unfolding old by (simp add: slots_def)
  have "(t + n - h) mod n = 0 \<longleftrightarrow> h = t"
    using f(5,6) count_full(4) [OF f(5,6)] by (cases "h = t") auto
  then show "buffer_keys b = [] \<longleftrightarrow> get16 b kbd_buf_head = get16 b kbd_buf_tail"
    using slot_eq(1) [OF r f(5,6)] by (simp add: old slots_def f(3,4))
qed

abbreviation enqueue :: "u8 \<times> u8 \<Rightarrow> bda \<Rightarrow> bda" where
  "enqueue k b \<equiv> snd (enqueue_key (fst k) (snd k) b)"

abbreviation first_key :: "bda \<Rightarrow> u8 \<times> u8" where
  "first_key b \<equiv> (b (get16 b kbd_buf_head + 1), b (get16 b kbd_buf_head))"

interpretation kbd: key_queue enqueue drop_key first_key buffer_keys buffer_room ring_ok
proof unfold_locales
  fix b :: bda and k :: "u8 \<times> u8"
  assume ok: "ring_ok b"
  note e = enqueue_buffer [OF ok prod.collapse [symmetric, of "enqueue_key (fst k) (snd k) b"]]
  show "buffer_keys (enqueue k b) = (if length (buffer_keys b) < buffer_room b then buffer_keys b @ [k] else buffer_keys b)"
    "buffer_room (enqueue k b) = buffer_room b" "ring_ok (enqueue k b)"
    using e by (auto split: if_splits)
qed (simp_all add: dequeue_buffer buffer_empty(2))

section \<open>Reading keys\<close>

text \<open>The value that a caller of the extended functions gets for a key.\<close>

definition key_code :: "u8 \<times> u8 \<Rightarrow> u16" where
  "key_code k = (case k of (scan, asc) \<Rightarrow>
     push_bit 8 (ucast scan) OR ucast (if asc = 0xF0 \<and> scan \<noteq> 0 then 0 else asc))"

lemma key_at_head_code: "key_at_head True b = key_code (first_key b)"
  by (simp add: key_at_head_def key_code_def Let_def)

fun read_keys :: "'w kbd_env \<Rightarrow> nat \<Rightarrow> bda \<times> 'w \<Rightarrow> u16 list option" where
  "read_keys env 0 s = Some []"
| "read_keys env (Suc n) s =
     do {
       (regs, s) \<leftarrow> handle_16 env (0, 0) (bregs_zero\<lparr>br_ah := 0x10\<rparr>) s;
       ks \<leftarrow> read_keys env n s;
       Some (get_ax regs # ks)
     }"

text \<open>Nothing but the caller runs, and the keyboards' drivers do not touch the BIOS data area.\<close>

definition undisturbed :: "'w kbd_env \<Rightarrow> bool" where
  "undisturbed env \<longleftrightarrow> (\<forall>s. env_yield env s = s) \<and> (\<forall>c p s. \<exists>ret p' w. kbd_command env c p s = Some (ret, p', fst s, w))"

lemma undisturbedD:
  "undisturbed env \<Longrightarrow> env_yield env s = s"
  "undisturbed env \<Longrightarrow> \<exists>ret p' w. kbd_command env c p s = Some (ret, p', fst s, w)"
  unfolding undisturbed_def by blast+

lemma set_leds_undisturbed:
  assumes "undisturbed env"
  shows "\<exists>v w. set_leds env s = Some ((fst s)(kbd_led := v), w)"
proof -
  let ?shift = "drop_bit 4 (fst s kbd_flag0) AND 0x07"
  obtain ret p w where c: "kbd_command env ATKBD_CMD_SETLEDS [?shift] s = Some (ret, p, fst s, w)"
    using undisturbedD(2) [OF assms] by blast
  have "set_leds env s = Some ((fst s)(kbd_led :=
      if ?shift = fst s kbd_led AND 0x07 \<or> ret \<noteq> 0 then fst s kbd_led else (fst s kbd_led AND NOT 0x07) OR ?shift),
      if ?shift = fst s kbd_led AND 0x07 then snd s else w)"
    using c by (simp add: set_leds_def Let_def)
  then show ?thesis by blast
qed

text \<open>The flags and the state of the lights are not part of the buffer.\<close>

abbreviation flag_fields :: "u16 set" where "flag_fields \<equiv> {kbd_flag0, kbd_flag1, kbd_flag2, kbd_led}"

lemma ring_flag: "f \<in> flag_fields \<Longrightarrow> ring s n h t (b(f := v)) = ring s n h t b"
  unfolding ring_def by (auto simp: get16_def)

lemma ring_ok_flag: "f \<in> flag_fields \<Longrightarrow> ring_ok (b(f := v)) = ring_ok b"
  by (simp only: ring_ok_def ring_flag)

lemma buffer_flag:
  assumes "ring_ok b" "f \<in> flag_fields"
  shows "buffer_keys (b(f := v)) = buffer_keys b"
proof -
  obtain s n h t where r: "ring s n h t b" using assms by (auto simp: ring_ok_def)
  have "slot s i (b(f := v)) = slot s i b" if "i < n" for i
  proof -
    have "unat (slot_addr s i + 1) = unat (slot_addr s i) + 1" using that unat_slot_addr [OF r, of i] by simp
    then have "\<forall>g\<in>flag_fields. slot_addr s i \<noteq> g \<and> slot_addr s i + 1 \<noteq> g" using slot_not_field [OF r that] by auto
    then show ?thesis using assms(2) unfolding slot_def by (metis fun_upd_other)
  qed
  then have "ring_keys s n h t (b(f := v)) = ring_keys s n h t b"
    using ring_fields(5) [OF r] by (simp add: ring_keys_def)
  moreover have "ring s n h t (b(f := v))" using r assms(2) by (simp only: ring_flag)
  ultimately show ?thesis using ring_keys_eq [OF r] ring_keys_eq by metis
qed

lemma dequeue_ready:
  assumes "ring_ok (fst s)" "buffer_keys (fst s) \<noteq> []"
  shows "dequeue_loop env True extended regs s = Some (set_ax (key_at_head extended (fst s)) regs, drop_key (fst s), snd s)"
  using assms buffer_empty(1) [of "fst s"] by (subst dequeue_loop.simps) (simp add: Let_def)

lemma read_key:
  assumes "undisturbed env" "ring_ok (fst s)" "buffer_keys (fst s) \<noteq> []"
  shows "\<exists>s' regs. handle_16 env (0, 0) (bregs_zero\<lparr>br_ah := 0x10\<rparr>) s = Some (regs, s') \<and> get_ax regs = key_code (hd (buffer_keys (fst s))) \<and>
    ring_ok (fst s') \<and> buffer_keys (fst s') = tl (buffer_keys (fst s))"
proof -
  obtain v w where v: "set_leds env s = Some ((fst s)(kbd_led := v), w)" using set_leds_undisturbed [OF assms(1)] by blast
  define s1 where "s1 = ((fst s)(kbd_led := v), w)"
  have s1: "ring_ok (fst s1)" "buffer_keys (fst s1) = buffer_keys (fst s)"
    using assms(2) buffer_flag [OF assms(2)] by (simp_all add: s1_def ring_ok_flag)
  have ne: "buffer_keys (fst s1) \<noteq> []" using s1(2) assms(3) by simp
  have "handle_16 env (0, 0) (bregs_zero\<lparr>br_ah := 0x10\<rparr>) s =
      Some (set_ax (key_at_head True (fst s1)) (bregs_zero\<lparr>br_ah := 0x10\<rparr>), drop_key (fst s1), snd s1)"
    using undisturbedD(1) [OF assms(1)] dequeue_ready [OF s1(1) ne]
    by (simp add: handle_16_def v handle_1610_def dequeue_key_def s1_def [symmetric])
  then show ?thesis using dequeue_buffer [OF s1(1) ne] s1 by (simp add: key_at_head_code)
qed

lemma read_keys_buffer:
  assumes "undisturbed env"
  shows "ring_ok (fst s) \<Longrightarrow> n \<le> length (buffer_keys (fst s)) \<Longrightarrow>
    read_keys env n s = Some (map key_code (take n (buffer_keys (fst s))))"
proof (induction n arbitrary: s)
  case (Suc n)
  then have ne: "buffer_keys (fst s) \<noteq> []" by auto
  obtain s' regs where r: "handle_16 env (0, 0) (bregs_zero\<lparr>br_ah := 0x10\<rparr>) s = Some (regs, s')"
    "get_ax regs = key_code (hd (buffer_keys (fst s)))" "ring_ok (fst s')" "buffer_keys (fst s') = tl (buffer_keys (fst s))"
    using read_key [OF assms Suc.prems(1) ne] by blast
  have "read_keys env n s' = Some (map key_code (take n (tl (buffer_keys (fst s)))))"
    using Suc.IH [of s'] Suc.prems(2) r(3,4) by simp
  then show ?case using r(1,2) ne by (simp add: take_Suc)
qed simp

lemma kbd_init_ring:
  "ring_ok (kbd_init b)" "buffer_keys (kbd_init b) = []" "buffer_room (kbd_init b) = 15"
proof -
  have r: "ring 30 16 0 0 (kbd_init b)"
    by (simp add: ring_def kbd_init_def Let_def slot_addr_def get16_set16_other)
  then show "ring_ok (kbd_init b)" by (auto simp: ring_ok_def)
  show "buffer_keys (kbd_init b) = []" "buffer_room (kbd_init b) = 15"
    using ring_keys_eq [OF r] ring_room [OF r] by (simp_all add: ring_keys_def)
qed

section \<open>Waiting\<close>

text \<open>The state after \<open>n\<close> interrupts, and whether it has a key.\<close>

definition waited :: "'w kbd_env \<Rightarrow> nat \<Rightarrow> bda \<times> 'w \<Rightarrow> bda \<times> 'w" where
  "waited env n s = (env_yield_toirq env ^^ n) (env_yield env s)"

abbreviation key_there :: "bda \<Rightarrow> bool" where
  "key_there b \<equiv> get16 b kbd_buf_head \<noteq> get16 b kbd_buf_tail"

lemma dequeue_loop_waits:
  "(\<And>m. m < n \<Longrightarrow> \<not> key_there (fst ((env_yield_toirq env ^^ m) s))) \<Longrightarrow>
   dequeue_loop env True ext regs s = dequeue_loop env True ext regs ((env_yield_toirq env ^^ n) s)"
proof (induction n arbitrary: s)
  case (Suc n)
  have "\<not> key_there (fst s)" using Suc.prems [of 0] by simp
  then have "dequeue_loop env True ext regs s = dequeue_loop env True ext regs (env_yield_toirq env s)"
    by (subst dequeue_loop.simps) (simp add: Let_def)
  also have "\<dots> = dequeue_loop env True ext regs ((env_yield_toirq env ^^ n) (env_yield_toirq env s))"
    using Suc.prems [of "Suc m" for m] by (intro Suc.IH) (simp add: funpow_swap1)
  finally show ?case by (simp add: funpow_swap1)
qed simp

lemma dequeue_loop_key:
  assumes "dequeue_loop env True ext regs s = Some r"
  shows "\<exists>n. key_there (fst ((env_yield_toirq env ^^ n) s))"
  using _ assms
proof (rule dequeue_loop.raw_induct [where P = "\<lambda>env incr ext regs s r. incr \<longrightarrow> (\<exists>n. key_there (fst ((env_yield_toirq env ^^ n) s)))", THEN mp])
  fix loop :: "'a kbd_env \<Rightarrow> bool \<Rightarrow> bool \<Rightarrow> bregs \<Rightarrow> bda \<times> 'a \<Rightarrow> (bregs \<times> bda \<times> 'a) option"
    and env :: "'a kbd_env" and incr ext and regs :: bregs and s :: "bda \<times> 'a" and r
  assume IH: "\<And>env incr ext regs s r. loop env incr ext regs s = Some r \<Longrightarrow>
      incr \<longrightarrow> (\<exists>n. key_there (fst ((env_yield_toirq env ^^ n) s)))"
    and step: "(let buffer_head = get16 (fst s) kbd_buf_head; buffer_tail = get16 (fst s) kbd_buf_tail
      in if buffer_head \<noteq> buffer_tail
         then (let regs = set_ax (key_at_head ext (fst s)) regs
               in if \<not> incr then Some (regs\<lparr>br_flags := br_flags regs AND NOT F_ZF\<rparr>, s)
                  else Some (regs, drop_key (fst s), snd s))
         else if \<not> incr then Some (regs\<lparr>br_flags := br_flags regs OR F_ZF\<rparr>, s)
         else loop env incr ext regs (env_yield_toirq env s)) = Some r"
  show "incr \<longrightarrow> (\<exists>n. key_there (fst ((env_yield_toirq env ^^ n) s)))"
  proof (cases "key_there (fst s)")
    case True
    then have "key_there (fst ((env_yield_toirq env ^^ 0) s))" by simp
    then show ?thesis by blast
  next
    case False
    show ?thesis
    proof
      assume incr
      then obtain n where "key_there (fst ((env_yield_toirq env ^^ n) (env_yield_toirq env s)))"
        using IH [of env incr ext regs "env_yield_toirq env s" r] step False by (auto simp: Let_def)
      then have "key_there (fst ((env_yield_toirq env ^^ Suc n) s))" by (simp add: funpow_swap1)
      then show "\<exists>n. key_there (fst ((env_yield_toirq env ^^ n) s))" by blast
    qed
  qed
qed simp

section \<open>Properties of the buffer\<close>


definition kbd_sim :: "unit kbd_env" where
  "kbd_sim = \<lparr>env_yield = id, env_yield_toirq = (\<lambda>(b, w). (enqueue (0x1e, 0x61) b, w)), env_usb_active = (\<lambda>_. False),
     env_usb_command = (\<lambda>c p s. Some (- 1, p, s)), env_ps2_command = (\<lambda>c p s. Some (0, p, s)), env_int15 = (\<lambda>r s. (r, s))\<rparr>"

lemma one_key: "ring_ok (enqueue k (kbd_init b))" "buffer_keys (enqueue k (kbd_init b)) = [k]"
  using kbd.enq_all [OF kbd_init_ring(1), of "[k]" b] by (simp_all add: kbd_init_ring)

lemma kbd_sim_undisturbed: "undisturbed kbd_sim"
  by (simp add: undisturbed_def kbd_sim_def kbd_command_def)


text \<open>
  The buffer is a queue wherever it lies: a key is appended if there is room, with result 1; otherwise the result is 0
  and nothing changes. Nothing outside the buffer is written but the tail pointer, and the pointers stay good.
\<close>

theorem key_buffer_queue:
  assumes "ring_ok b" "enqueue_key scan asc b = (r, b')"
  shows "ring_ok b' \<and> buffer_room b' = buffer_room b \<and>
    (if length (buffer_keys b) < buffer_room b then r = 1 \<and> buffer_keys b' = buffer_keys b @ [(scan, asc)] else r = 0 \<and> b' = b) \<and>
    (\<forall>a. outside_buffer b a \<longrightarrow> b' a = b a)"
  by (rule enqueue_buffer [OF assms])

theorem key_buffer_queue_witness:
  "\<exists>r b'. enqueue_key 0x1e 0x61 (kbd_init (\<lambda>_. 0)) = (r, b') \<and> buffer_keys b' = [(0x1e, 0x61)] \<and> b' 0x17 = 0"
proof -
  obtain r b' where e: "enqueue_key 0x1e 0x61 (kbd_init (\<lambda>_. 0)) = (r, b')" by fastforce
  have "outside_buffer (kbd_init (\<lambda>_. 0)) 0x17"
    by (simp add: outside_buffer_def kbd_init_def Let_def get16_set16_other)
  then have "b' 0x17 = kbd_init (\<lambda>_. 0) 0x17" "buffer_keys b' = [(0x1e, 0x61)]"
    using key_buffer_queue [OF kbd_init_ring(1) e] by (simp_all add: kbd_init_ring)
  then show ?thesis using e by (simp add: kbd_init_def Let_def set16_def)
qed

text \<open>
  Reading a key returns exactly if a key is there or an interrupt brings one: then after the first such interrupt,
  with the key at the head of the buffer.
\<close>

theorem read_waits_for_key:
  "(handle_1600 env regs s \<noteq> None) = (\<exists>n. key_there (fst (waited env n s))) \<and>
   (key_there (fst (waited env n s)) \<and> (\<forall>m<n. \<not> key_there (fst (waited env m s))) \<longrightarrow>
     handle_1600 env regs s = Some (set_ax (key_at_head False (fst (waited env n s))) regs,
       drop_key (fst (waited env n s)), snd (waited env n s)))"
proof -
  have first: "handle_1600 env regs s = Some (set_ax (key_at_head False (fst (waited env n s))) regs,
      drop_key (fst (waited env n s)), snd (waited env n s))"
    if n: "key_there (fst (waited env n s))" "\<forall>m<n. \<not> key_there (fst (waited env m s))" for n
  proof -
    have "handle_1600 env regs s = dequeue_loop env True False regs (waited env n s)"
      using dequeue_loop_waits [of n env "env_yield env s" False regs] n(2)
      by (simp add: handle_1600_def dequeue_key_def waited_def)
    also have "\<dots> = Some (set_ax (key_at_head False (fst (waited env n s))) regs,
      drop_key (fst (waited env n s)), snd (waited env n s))"
      using n(1) by (subst dequeue_loop.simps) (simp add: Let_def)
    finally show ?thesis .
  qed
  moreover have "\<exists>n. key_there (fst (waited env n s))" if "handle_1600 env regs s \<noteq> None"
    using that dequeue_loop_key [of env False regs "env_yield env s"]
    by (auto simp: handle_1600_def dequeue_key_def waited_def)
  moreover have "handle_1600 env regs s \<noteq> None" if "key_there (fst (waited env n s))" for n
  proof -
    define k where "k = (LEAST n. key_there (fst (waited env n s)))"
    have "key_there (fst (waited env k s))" unfolding k_def by (rule LeastI [of "\<lambda>n. key_there (fst (waited env n s))", OF that])
    moreover have "\<forall>m<k. \<not> key_there (fst (waited env m s))" unfolding k_def using not_less_Least by blast
    ultimately show ?thesis using first by simp
  qed
  ultimately show ?thesis by blast
qed

theorem read_waits_for_key_witness:
  "handle_1600 kbd_sim bregs_zero (kbd_init (\<lambda>_. 0), ()) \<noteq> None"
proof -
  have "key_there (fst (waited kbd_sim 1 (kbd_init (\<lambda>_. 0), ())))"
    using one_key [of "(0x1e, 0x61)" "\<lambda>_. 0"] buffer_empty(1) [OF one_key(1), of "(0x1e, 0x61)" "\<lambda>_. 0"]
    by (simp add: waited_def kbd_sim_def)
  then show ?thesis using read_waits_for_key [of kbd_sim bregs_zero "(kbd_init (\<lambda>_. 0), ())" 1] by blast
qed

text \<open>
  Looking does not take: function 11h returns at once, leaves the buffer as it is, sets the zero flag exactly if
  there is no key, and shows the key that the next function 10h takes.
\<close>

theorem peek_shows_next:
  assumes "ring_ok (fst (env_yield env s))"
  shows "\<exists>r. handle_1611 env regs s = Some (r, env_yield env s) \<and>
    (br_flags r AND F_ZF \<noteq> 0) = (buffer_keys (fst (env_yield env s)) = []) \<and>
    (buffer_keys (fst (env_yield env s)) \<noteq> [] \<longrightarrow>
      get_ax r = key_code (hd (buffer_keys (fst (env_yield env s)))) \<and>
      handle_1610 env regs s = Some (set_ax (get_ax r) regs, drop_key (fst (env_yield env s)), snd (env_yield env s)))"
proof -
  let ?s = "env_yield env s"
  have zf: "(f AND NOT F_ZF) AND F_ZF = 0" "(f OR F_ZF) AND F_ZF \<noteq> 0" for f
    by (auto simp: F_ZF_def word_bw_lcs word_bw_assocs and.assoc bit.conj_disj_distrib2)
  show ?thesis
  proof (cases "buffer_keys (fst ?s) = []")
    case True
    then have "handle_1611 env regs s = Some (regs\<lparr>br_flags := br_flags regs OR F_ZF\<rparr>, ?s)"
      unfolding handle_1611_def dequeue_key_def using buffer_empty(1) [OF assms]
      by (subst dequeue_loop.simps) (simp add: Let_def)
    then show ?thesis using True zf(2) by simp
  next
    case False
    let ?r = "set_ax (key_at_head True (fst ?s)) regs"
    have "handle_1611 env regs s = Some (?r\<lparr>br_flags := br_flags ?r AND NOT F_ZF\<rparr>, ?s)"
      unfolding handle_1611_def dequeue_key_def using False buffer_empty(1) [OF assms]
      by (subst dequeue_loop.simps) (simp add: Let_def)
    moreover have "get_ax (?r\<lparr>br_flags := f\<rparr>) = key_at_head True (fst ?s)" for f
      using get_ax_set_ax [of "key_at_head True (fst ?s)" regs] by (simp add: get_ax_def)
    ultimately show ?thesis
      using False dequeue_ready [OF assms False] zf(1) dequeue_buffer(4) [OF assms False]
      by (simp add: handle_1610_def dequeue_key_def key_at_head_code)
  qed
qed

theorem peek_shows_next_witness:
  "\<exists>r. handle_1611 kbd_sim bregs_zero (enqueue (0x1e, 0x61) (kbd_init (\<lambda>_. 0)), ()) =
     Some (r, enqueue (0x1e, 0x61) (kbd_init (\<lambda>_. 0)), ()) \<and> get_ax r = 0x1e61"
  using peek_shows_next [of kbd_sim "(enqueue (0x1e, 0x61) (kbd_init (\<lambda>_. 0)), ())" bregs_zero]
    one_key [of "(0x1e, 0x61)" "\<lambda>_. 0"]
  by (simp add: undisturbedD(1) [OF kbd_sim_undisturbed] key_code_def) blast

end
