(* ===== verification/Kbd_Decode.thy ===== *)
theory Kbd_Decode
  imports Kbd_Facts
begin

text \<open>
  The decoder of scan codes: the keyboard's state as a transition system and its invariant, the reset keys, the letters,
  and the prefixes.
\<close>

section \<open>Bits\<close>

lemma flag_bits:
  "(x :: u8) AND 1 = 0 \<longleftrightarrow> \<not> bit x 0" "x AND 2 = 0 \<longleftrightarrow> \<not> bit x 1" "x AND 4 = 0 \<longleftrightarrow> \<not> bit x 2" "x AND 8 = 0 \<longleftrightarrow> \<not> bit x 3"
  "x AND 0x10 = 0 \<longleftrightarrow> \<not> bit x 4" "x AND 0x20 = 0 \<longleftrightarrow> \<not> bit x 5" "x AND 0x40 = 0 \<longleftrightarrow> \<not> bit x 6"
  using and_exp_eq_0_iff_not_bit [of x 0] and_exp_eq_0_iff_not_bit [of x 1] and_exp_eq_0_iff_not_bit [of x 2]
    and_exp_eq_0_iff_not_bit [of x 3] and_exp_eq_0_iff_not_bit [of x 4] and_exp_eq_0_iff_not_bit [of x 5]
    and_exp_eq_0_iff_not_bit [of x 6]
  by simp_all

section \<open>The invariant\<close>

text \<open>Ctrl and Alt are active only while one of the two keys is recorded as held.\<close>

definition mods_ok :: "u8 \<Rightarrow> u8 \<Rightarrow> u8 \<Rightarrow> bool" where
  "mods_ok f0 f1 f2 \<longleftrightarrow>
     (f0 AND KF0_CTRLACTIVE \<noteq> 0 \<longrightarrow> f1 AND KF1_LCTRL \<noteq> 0 \<or> f2 AND KF2_RCTRL \<noteq> 0) \<and>
     (f0 AND KF0_ALTACTIVE \<noteq> 0 \<longrightarrow> f1 AND KF1_LALT \<noteq> 0 \<or> f2 AND KF2_RALT \<noteq> 0)"

definition kbd_ok :: "bda \<Rightarrow> bool" where
  "kbd_ok b \<longleftrightarrow> ring_ok b \<and> mods_ok (b kbd_flag0) (b kbd_flag1) (b kbd_flag2)"

lemma modifier_key_ok:
  assumes "mods_ok f0 f1 f2" "modifier_key f0 f1 f2 sc = Some (g0, g1, g2)"
  shows "mods_ok g0 g1 g2"
  using assms unfolding modifier_key_def mods_ok_def kf_defs
  by (auto simp: flag_bits bit_or_iff bit_and_iff bit_not_iff bit_xor_iff possible_bit_word split: if_splits)

lemma mods_ok_prefix:
  "mods_ok f0 f1 (f2 AND NOT KF2_LAST_E0) = mods_ok f0 f1 f2" "mods_ok f0 f1 (f2 OR KF2_LAST_E0) = mods_ok f0 f1 f2"
  "mods_ok f0 f1 (f2 AND NOT KF2_LAST_E1) = mods_ok f0 f1 f2"
  unfolding mods_ok_def kf_defs
  by (auto simp: flag_bits bit_or_iff bit_and_iff bit_not_iff possible_bit_word)

lemma store_flags_ok:
  assumes "ring_ok b" "mods_ok f0 f1 f2"
  shows "kbd_ok (store_flags f0 f1 f2 b)" "buffer_keys (store_flags f0 f1 f2 b) = buffer_keys b"
  using assms by (simp_all add: kbd_ok_def store_flags_def mods_ok_prefix ring_ok_flag buffer_flag)

text \<open>The memory that the keyboard's state occupies, with the buffer where \<open>kbd_init\<close> puts it.\<close>

definition kbd_fields :: "u16 set" where
  "kbd_fields = {kbd_flag0, kbd_flag1, kbd_buf_head, 0x1b, kbd_buf_tail, 0x1d} \<union> {a. 0x1e \<le> a \<and> a < 0x3e} \<union> {kbd_flag2, kbd_led}"

definition default_buffer :: "bda \<Rightarrow> bool" where
  "default_buffer b \<longleftrightarrow> get16 b kbd_buf_start_offset = 0x1e \<and> get16 b kbd_buf_end_offset = 0x3e"

lemma process_scancode_steps:
  assumes ok: "kbd_ok b" and p: "process_scancode sc b = Done b'"
  shows "kbd_ok b'" "(\<exists>k. buffer_keys b' = buffer_keys (enqueue k b)) \<or> buffer_keys b' = buffer_keys b"
    "default_buffer b \<Longrightarrow> a \<notin> kbd_fields \<Longrightarrow> b' a = b a"
proof -
  have ring: "ring_ok b" and mods: "mods_ok (b kbd_flag0) (b kbd_flag1) (b kbd_flag2)" using ok by (auto simp: kbd_ok_def)
  consider (same) "b' = b"
    | (prefix) f where "b' = b(kbd_flag2 := f)" "mods_ok (b kbd_flag0) (b kbd_flag1) f"
    | (flags) f0 f1 f2 where "b' = store_flags f0 f1 f2 b" "mods_ok f0 f1 f2"
    | (key) k where "b' = store_flags (b kbd_flag0) (b kbd_flag1) (b kbd_flag2) (enqueue k b)"
    using p mods modifier_key_ok [OF mods, of sc] mods_ok_prefix
    unfolding process_scancode_def Let_def
    by (auto split: if_splits option.splits intro: that)
  then have "kbd_ok b' \<and> ((\<exists>k. buffer_keys b' = buffer_keys (enqueue k b)) \<or> buffer_keys b' = buffer_keys b) \<and>
      (default_buffer b \<longrightarrow> a \<notin> kbd_fields \<longrightarrow> b' a = b a)"
  proof cases
    case key
    have out: "outside_buffer b a" if "default_buffer b" "a \<notin> kbd_fields"
      using that by (auto simp: outside_buffer_def default_buffer_def kbd_fields_def not_le not_less)
    have "enqueue k b a = b a" if "default_buffer b" "a \<notin> kbd_fields"
      using enqueue_buffer [OF ring prod.collapse [symmetric, of "enqueue_key (fst k) (snd k) b"]] out [OF that] by blast
    moreover have "ring_ok (enqueue k b)" using kbd.keeps(1) [OF ring] by blast
    ultimately show ?thesis using store_flags_ok [OF _ mods, of "enqueue k b"] key
      by (auto simp: store_flags_def kbd_fields_def)
  qed (use ok ring in \<open>auto simp: kbd_ok_def ring_ok_flag buffer_flag store_flags_ok store_flags_def kbd_fields_def mods_ok_prefix\<close>)
  then show "kbd_ok b'" "(\<exists>k. buffer_keys b' = buffer_keys (enqueue k b)) \<or> buffer_keys b' = buffer_keys b"
    "default_buffer b \<Longrightarrow> a \<notin> kbd_fields \<Longrightarrow> b' a = b a" by blast+
qed

section \<open>The keyboard as a transition system\<close>

text \<open>
  What changes the keyboard's state: a scan code, a key taken or stored by a call of interrupt 16h, and the update
  of the lights.
\<close>

inductive kbd_step :: "bda \<Rightarrow> bda \<Rightarrow> bool" where
  scan: "process_scancode sc b = Done b' \<Longrightarrow> kbd_step b b'"
| take_key: "key_there b \<Longrightarrow> kbd_step b (drop_key b)"
| store_key: "kbd_step b (snd (handle_1605 regs b))"
| lights: "kbd_step b (b(kbd_led := v))"

lemma handle_1605_enqueue: "snd (handle_1605 regs b) = enqueue (br_ch regs, br_cl regs) b"
  by (simp add: handle_1605_def split: prod.split)

lemma enqueue_frame:
  assumes "ring_ok b" "default_buffer b" "a \<notin> kbd_fields"
  shows "enqueue k b a = b a"
proof -
  have "outside_buffer b a" using assms(2,3) by (auto simp: outside_buffer_def default_buffer_def kbd_fields_def not_le not_less)
  then show ?thesis using enqueue_buffer [OF assms(1) prod.collapse [symmetric, of "enqueue_key (fst k) (snd k) b"]] by blast
qed

lemma flags_enqueue:
  assumes "ring_ok b" "f \<in> flag_fields"
  shows "enqueue k b f = b f"
proof -
  obtain s n h t where r: "ring s n h t b" using assms(1) by (auto simp: ring_ok_def)
  show ?thesis
    using enqueue_ring [OF r, of "fst k" "snd k"] field_frame(2) [OF r ring_fields(6) [OF r], of f] assms(2)
    by (auto simp: set16_def)
qed

lemma kbd_step_inv:
  assumes "kbd_step b b'" "kbd_ok b" "default_buffer b"
  shows "kbd_ok b' \<and> (\<forall>a. a \<notin> kbd_fields \<longrightarrow> b' a = b a)"
  using assms(1)
proof cases
  case (scan sc)
  then show ?thesis using process_scancode_steps [OF assms(2), of sc b'] assms(3) by blast
next
  case take_key
  have ok: "ring_ok b" "buffer_keys b \<noteq> []" using assms(2) take_key buffer_empty(1) by (auto simp: kbd_ok_def)
  moreover have "drop_key b a = b a" if "a \<noteq> 0x1a" "a \<noteq> 0x1b" for a using that by (simp add: drop_key_def Let_def set16_def)
  ultimately show ?thesis using take_key assms(2) dequeue_buffer(1) [OF ok] by (simp add: kbd_ok_def kbd_fields_def)
next
  case (store_key regs)
  then show ?thesis
    using assms(2,3) enqueue_frame flags_enqueue kbd.keeps(1) unfolding handle_1605_enqueue kbd_ok_def by auto
next
  case (lights v)
  then show ?thesis using assms(2) by (auto simp: kbd_ok_def ring_ok_flag kbd_fields_def)
qed

lemma default_buffer_frame: "(\<And>a. a \<notin> kbd_fields \<Longrightarrow> b' a = b a) \<Longrightarrow> default_buffer b' = default_buffer b"
  by (simp add: default_buffer_def get16_def kbd_fields_def)

lemma kbd_init_ok: "b kbd_flag0 = 0 \<Longrightarrow> kbd_ok (kbd_init b)" "default_buffer (kbd_init b)"
proof -
  have "kbd_init b kbd_flag0 = b kbd_flag0" by (simp add: kbd_init_def Let_def set16_def)
  then show "b kbd_flag0 = 0 \<Longrightarrow> kbd_ok (kbd_init b)" by (simp add: kbd_ok_def kbd_init_ring mods_ok_def)
  show "default_buffer (kbd_init b)" by (simp add: default_buffer_def kbd_init_def Let_def get16_set16_other)
qed

lemma both_active:
  "f AND (KF0_CTRLACTIVE OR KF0_ALTACTIVE) = KF0_CTRLACTIVE OR KF0_ALTACTIVE \<longleftrightarrow>
    f AND KF0_CTRLACTIVE \<noteq> 0 \<and> f AND KF0_ALTACTIVE \<noteq> 0"
  unfolding kf_defs flag_bits
proof
  assume "f AND (4 OR 8) = 4 OR 8"
  then have "bit (f AND (4 OR 8)) n = bit (4 OR 8 :: u8) n" for n by simp
  from this [of 2] this [of 3] show "\<not> \<not> bit f 2 \<and> \<not> \<not> bit f 3" by (simp add: bit_and_iff bit_or_iff)
next
  assume f: "\<not> \<not> bit f 2 \<and> \<not> \<not> bit f 3"
  show "f AND (4 OR 8) = 4 OR 8"
  proof (rule bit_word_eqI)
    fix n assume "n < LENGTH(8)"
    then have "n = 0 \<or> n = 1 \<or> n = 2 \<or> n = 3 \<or> n = 4 \<or> n = 5 \<or> n = 6 \<or> n = 7" by auto
    then show "bit (f AND (4 OR 8)) n = bit (4 OR 8 :: u8) n"
      using f by (elim disjE) (simp_all add: bit_and_iff bit_or_iff)
  qed
qed

section \<open>Properties of the decoder\<close>

text \<open>
  C18. Whatever scan codes arrive and whatever callers do, in any order, from \<open>kbd_init\<close> on: the pointers of the buffer
  stay good, Ctrl and Alt are active only while one of their keys is recorded as held, and no byte of memory outside the
  keyboard's fields and its buffer is written.
\<close>

theorem keyboard_invariant:
  assumes "kbd_step\<^sup>*\<^sup>* (kbd_init b) b'" "b kbd_flag0 = 0"
  shows "kbd_ok b' \<and> (\<forall>a. a \<notin> kbd_fields \<longrightarrow> b' a = kbd_init b a)"
  using assms(1)
proof (induction rule: rtranclp_induct)
  case (step b1 b2)
  then have "default_buffer b1" using default_buffer_frame [of b1 "kbd_init b"] kbd_init_ok(2) by blast
  then show ?case using kbd_step_inv [OF step.hyps(2)] step.IH by simp
qed (use kbd_init_ok assms(2) in blast)

text \<open>
  C19. A scan code resets the machine exactly if it is that of Del, no pause sequence is open and the flags for an active Ctrl and an
  active Alt are both set; then a key of each is held, and the flag for a warm start is set. So nothing but Ctrl, Alt and Del resets.
  The converse does not hold: of two Ctrl keys that are held, the release of one clears the active flag.
\<close>

theorem reset_by_ctrl_alt_del:
  assumes "kbd_ok b"
  shows "((\<exists>b'. process_scancode sc b = ResetVector b') \<longleftrightarrow>
      sc = 0x53 \<and> b kbd_flag2 AND KF2_LAST_E1 = 0 \<and> b kbd_flag0 AND KF0_CTRLACTIVE \<noteq> 0 \<and> b kbd_flag0 AND KF0_ALTACTIVE \<noteq> 0) \<and>
    (\<forall>b'. process_scancode sc b = ResetVector b' \<longrightarrow>
      (b kbd_flag1 AND KF1_LCTRL \<noteq> 0 \<or> b kbd_flag2 AND KF2_RCTRL \<noteq> 0) \<and>
      (b kbd_flag1 AND KF1_LALT \<noteq> 0 \<or> b kbd_flag2 AND KF2_RALT \<noteq> 0) \<and> get16 b' soft_reset_flag = 0x1234)"
proof -
  have iff: "process_scancode sc b = ResetVector b' \<longleftrightarrow>
      sc = 0x53 \<and> b kbd_flag2 AND KF2_LAST_E1 = 0 \<and> b kbd_flag0 AND KF0_CTRLACTIVE \<noteq> 0 \<and> b kbd_flag0 AND KF0_ALTACTIVE \<noteq> 0 \<and>
      b' = set16 soft_reset_flag 0x1234 b" for b'
    unfolding process_scancode_def Let_def both_active
    by (auto simp: modifier_key_def split: if_splits option.splits)
  show ?thesis unfolding iff using assms by (auto simp: kbd_ok_def mods_ok_def)
qed

text \<open>A step with Ctrl and Alt held, and Del.\<close>

definition kbd_held :: bda where
  "kbd_held = (kbd_init (\<lambda>_. 0))(kbd_flag0 := KF0_CTRLACTIVE OR KF0_ALTACTIVE, kbd_flag1 := KF1_LCTRL OR KF1_LALT)"

lemma kbd_held_ok: "kbd_ok kbd_held" "kbd_held kbd_flag0 = 12" "kbd_held kbd_flag1 = 3" "kbd_held kbd_flag2 = KF2_101KBD"
  by (simp_all add: kbd_held_def kbd_ok_def ring_ok_flag kbd_init_ring mods_ok_def kf_defs)
     (simp add: kbd_init_def Let_def set16_def kf_defs)

theorem keyboard_invariant_witness: "kbd_ok (enqueue (0x1e, 0x61) (kbd_init (\<lambda>_. 0)))"
proof -
  have "kbd_step\<^sup>*\<^sup>* (kbd_init (\<lambda>_. 0)) (enqueue (0x1e, 0x61) (kbd_init (\<lambda>_. 0)))"
    using kbd_step.store_key [of "kbd_init (\<lambda>_. 0)" "bregs_zero\<lparr>br_ch := 0x1e, br_cl := 0x61\<rparr>"]
    by (simp add: handle_1605_enqueue)
  then show ?thesis using keyboard_invariant by blast
qed

theorem reset_by_ctrl_alt_del_witness: "\<exists>b'. process_scancode 0x53 kbd_held = ResetVector b' \<and> get16 b' soft_reset_flag = 0x1234"
  using reset_by_ctrl_alt_del [OF kbd_held_ok(1), of "0x53"] kbd_held_ok(2-4) by (auto simp: kf_defs)

text \<open>The keys that Caps Lock affects.\<close>

abbreviation caps_key :: "u8 \<Rightarrow> bool" where
  "caps_key sc \<equiv> unat sc < length scan_to_scanascii \<and> si_lock_flags (scan_to_scanascii ! unat sc) = MCAP"

lemma letter_rows:
  "list_all (\<lambda>n. let i = scan_to_scanascii ! n in si_lock_flags i = MCAP \<longrightarrow>
      n < 0x47 \<and> hi8 (si_normal i) = of_nat n \<and> hi8 (si_shift i) = of_nat n \<and>
      0x61 \<le> lo8 (si_normal i) \<and> lo8 (si_normal i) \<le> 0x7a \<and> lo8 (si_shift i) = lo8 (si_normal i) - 0x20 \<and>
      hi8 (si_control i) = of_nat n \<and> lo8 (si_control i) = lo8 (si_normal i) - 0x60 \<and>
      hi8 (si_alt i) = of_nat n \<and> lo8 (si_alt i) = 0)
    [0..<length scan_to_scanascii]"
  by code_simp

text \<open>
  The letters: for a key of the Caps Lock class the table holds the scan code and a letter from a to z. Without Ctrl and
  Alt the key gives that letter, and it is a capital one exactly if either Shift is held or Caps Lock is on, but not both; with Ctrl it gives the control
  character, with Alt no character. The prefix of the extended keys makes no difference.
\<close>

theorem letter_case:
  assumes "caps_key sc"
  shows "let letter = lo8 (si_normal (scan_to_scanascii ! unat sc)); shift = f0 AND (KF0_RSHIFT OR KF0_LSHIFT) \<noteq> 0;
      caps = f0 AND KF0_CAPSACTIVE \<noteq> 0; v = key_value f0 f2 sc in
    0x61 \<le> letter \<and> letter \<le> 0x7a \<and> hi8 v = sc \<and>
    lo8 v = (if f0 AND KF0_ALTACTIVE \<noteq> 0 then 0 else if f0 AND KF0_CTRLACTIVE \<noteq> 0 then letter - 0x60
             else if shift \<noteq> caps then letter - 0x20 else letter)"
proof -
  define i where "i = scan_to_scanascii ! unat sc"
  have mem: "unat sc \<in> set [0..<length scan_to_scanascii]" using assms by simp
  have lock: "si_lock_flags i = MCAP" using assms by (simp add: i_def)
  have "unat sc < 0x47 \<and> hi8 (si_normal i) = sc \<and> hi8 (si_shift i) = sc \<and>
      0x61 \<le> lo8 (si_normal i) \<and> lo8 (si_normal i) \<le> 0x7a \<and> lo8 (si_shift i) = lo8 (si_normal i) - 0x20 \<and>
      hi8 (si_control i) = sc \<and> lo8 (si_control i) = lo8 (si_normal i) - 0x60 \<and> hi8 (si_alt i) = sc \<and> lo8 (si_alt i) = 0"
    using bspec [OF letter_rows [unfolded list_all_iff] mem] lock unfolding Let_def i_def [symmetric] by simp
  note row = this
  have "\<not> (0x47 \<le> sc \<and> sc \<le> 0x53)" using row by (simp add: word_le_nat_alt)
  then have v: "key_value f0 f2 sc =
      (if f0 AND KF0_ALTACTIVE \<noteq> 0 then si_alt i else if f0 AND KF0_CTRLACTIVE \<noteq> 0 then si_control i
       else if (f0 AND (KF0_RSHIFT OR KF0_LSHIFT) \<noteq> 0) \<noteq> (f0 AND KF0_CAPSACTIVE \<noteq> 0) then si_shift i else si_normal i)"
    unfolding key_value_def Let_def i_def [symmetric] lock MCAP_def by auto
  show ?thesis
    unfolding Let_def i_def [symmetric] v using row by simp
qed

theorem letter_case_witness:
  "lo8 (key_value (KF0_LSHIFT OR KF0_CAPSACTIVE) 0 0x1e) = 0x61 \<and> lo8 (key_value KF0_CAPSACTIVE 0 0x1e) = 0x41"
proof -
  have row: "unat (0x1e :: u8) < length scan_to_scanascii" "si_lock_flags (scan_to_scanascii ! unat (0x1e :: u8)) = MCAP"
    "si_normal (scan_to_scanascii ! unat (0x1e :: u8)) = 0x1e61"
    by (simp_all add: scan_to_scanascii_def)
  show ?thesis
    using letter_case [of "0x1e" "KF0_LSHIFT OR KF0_CAPSACTIVE" 0] letter_case [of "0x1e" KF0_CAPSACTIVE 0] row
    by (simp add: Let_def kf_defs)
qed

text \<open>A sequence of scan codes, up to a reset.\<close>

fun run_keys :: "u8 list \<Rightarrow> bda \<Rightarrow> key_result" where
  "run_keys [] b = Done b"
| "run_keys (sc # scs) b = (case process_scancode sc b of Done b \<Rightarrow> run_keys scs b | r \<Rightarrow> r)"

text \<open>
  The Pause key, which sends e1 1d 45 e1 9d c5, leaves no trace: no key is stored, Ctrl and Num Lock stay as they are, and of the
  flags only the prefixes are cleared.
\<close>

theorem pause_ignored:
  assumes "b kbd_flag2 AND KF2_LAST_E1 = 0"
  shows "run_keys [0xe1, 0x1d, 0x45, 0xe1, 0x9d, 0xc5] b =
    Done (b(kbd_flag2 := b kbd_flag2 AND NOT (KF2_LAST_E0 OR KF2_LAST_E1)))"
proof -
  let ?f = "b kbd_flag2"
  have e1: "((g OR 1) AND NOT 2) AND 1 \<noteq> (0 :: u8)" for g :: u8
    by (simp add: flag_bits bit_or_iff bit_and_iff bit_not_iff possible_bit_word)
  have clear: "(((((?f OR 1) AND NOT 2) AND NOT 1) OR 1) AND NOT 2) AND NOT 1 = ?f AND NOT 3"
    "(((?f OR 1) AND NOT 2) AND NOT 1) AND 1 = 0"
    by (simp_all only: and.assoc bit.conj_disj_distrib bit.conj_disj_distrib2) simp_all
  show ?thesis
    using assms e1 clear
    by (simp add: process_scancode_def modifier_key_def store_flags_def kf_defs Let_def)
qed

theorem pause_ignored_witness:
  "run_keys [0xe1, 0x1d, 0x45, 0xe1, 0x9d, 0xc5] kbd_held =
   Done (kbd_held(kbd_flag2 := kbd_held kbd_flag2 AND NOT (KF2_LAST_E0 OR KF2_LAST_E1)))"
  by (rule pause_ignored) (simp add: kbd_held_ok kf_defs)

text \<open>
  A key without an entry in the table, such as the left Windows key (e0 5b), is dropped together with the clearing of
  its prefix: the next key is taken as an extended one. Left Ctrl is then recorded as right Ctrl; and the 8 of the keypad, with
  Num Lock on, is stored as the cursor key.
\<close>

theorem unknown_key_keeps_prefix:
  assumes "b kbd_flag2 AND KF2_LAST_E1 = 0" "unat sc \<ge> length scan_to_scanascii" "sc AND 0x80 = 0"
  shows "run_keys [0xe0, sc] b = Done (b(kbd_flag2 := b kbd_flag2 OR KF2_LAST_E0)) \<and>
    run_keys [0xe0, sc, 0x1d] b = Done (b(kbd_flag0 := b kbd_flag0 OR KF0_CTRLACTIVE,
      kbd_flag2 := (b kbd_flag2 OR KF2_LAST_E0 OR KF2_RCTRL) AND NOT KF2_LAST_E0)) \<and>
    (b kbd_flag0 = KF0_NUMACTIVE \<and> b kbd_flag2 AND KF2_LAST_E0 = 0 \<longrightarrow>
      key_value (b kbd_flag0) (b kbd_flag2) 0x48 = 0x4838 \<and> key_value (b kbd_flag0) (b kbd_flag2 OR KF2_LAST_E0) 0x48 = 0x48e0)"
proof -
  have len: "length scan_to_scanascii = 0x59" by (simp add: scan_to_scanascii_def)
  have ne: "sc \<noteq> 0" "sc \<noteq> 0x3a" "sc \<noteq> 0xba" "sc \<noteq> 0x2a" "sc \<noteq> 0xaa" "sc \<noteq> 0x36" "sc \<noteq> 0xb6" "sc \<noteq> 0x1d" "sc \<noteq> 0x9d"
    "sc \<noteq> 0x38" "sc \<noteq> 0xb8" "sc \<noteq> 0x45" "sc \<noteq> 0xc5" "sc \<noteq> 0x46" "sc \<noteq> 0xc6" "sc \<noteq> 0xe0" "sc \<noteq> 0xe1" "sc \<noteq> 0x53"
    using assms(2,3) by (auto simp: len)
  have e1: "(b kbd_flag2 OR 2) AND 1 = 0" "((b kbd_flag2 OR 2) AND 2) \<noteq> 0"
    using assms(1) by (auto simp: KF2_LAST_E1_def flag_bits bit_or_iff)
  have dropped: "run_keys [0xe0, sc] b = Done (b(kbd_flag2 := b kbd_flag2 OR KF2_LAST_E0))"
    using assms e1 ne by (simp add: process_scancode_def modifier_key_def kf_defs Let_def)
  have ctrl: "run_keys [0xe0, sc, 0x1d] b = Done (b(kbd_flag0 := b kbd_flag0 OR KF0_CTRLACTIVE,
      kbd_flag2 := (b kbd_flag2 OR KF2_LAST_E0 OR KF2_RCTRL) AND NOT KF2_LAST_E0))"
    using assms e1 ne
    by (simp add: process_scancode_def modifier_key_def store_flags_def kf_defs Let_def or.assoc)
       (simp add: fun_eq_iff)
  have "si_normal (scan_to_scanascii ! 0x48) = 0x4800" "si_shift (scan_to_scanascii ! 0x48) = 0x4838"
    "si_lock_flags (scan_to_scanascii ! 0x48) = MNUM"
    by (simp_all add: scan_to_scanascii_def)
  then show ?thesis using dropped ctrl e1 by (simp add: key_value_def Let_def kf_defs MNUM_def)
qed

theorem unknown_key_keeps_prefix_witness:
  "run_keys [0xe0, 0x5b] kbd_held = Done (kbd_held(kbd_flag2 := kbd_held kbd_flag2 OR KF2_LAST_E0))"
  using unknown_key_keeps_prefix [of kbd_held "0x5b"] kbd_held_ok(4)
  by (simp add: kf_defs scan_to_scanascii_def)

end
