(* ===== verification/Pic.thy ===== *)
theory Pic
  imports Lowmem
begin

text \<open>The interrupt controllers, \<open>seabios/src/hw/pic.c\<close> and \<open>pic.h\<close>.\<close>

definition PORT_PIC1_CMD :: u16 where "PORT_PIC1_CMD = 0x20"
definition PORT_PIC1_DATA :: u16 where "PORT_PIC1_DATA = 0x21"
definition PORT_PIC2_CMD :: u16 where "PORT_PIC2_CMD = 0xa0"
definition PORT_PIC2_DATA :: u16 where "PORT_PIC2_DATA = 0xa1"
definition PIC1_IRQ2 :: u16 where "PIC1_IRQ2 = 4"
definition PIC_IRQMASK_DEFAULT :: u16 where "PIC_IRQMASK_DEFAULT = NOT PIC1_IRQ2"
definition BIOS_HWIRQ0_VECTOR :: u8 where "BIOS_HWIRQ0_VECTOR = 0x08"
definition BIOS_HWIRQ8_VECTOR :: u8 where "BIOS_HWIRQ8_VECTOR = 0x70"

definition pic_eoi1 :: "'w io \<Rightarrow> ('w, 'z) mach_scheme \<Rightarrow> ('w, 'z) mach_scheme" where
  "pic_eoi1 io s = outb io 0x20 PORT_PIC1_CMD s"

definition pic_eoi2 :: "'w io \<Rightarrow> ('w, 'z) mach_scheme \<Rightarrow> ('w, 'z) mach_scheme" where
  "pic_eoi2 io s = pic_eoi1 io (outb io 0x20 PORT_PIC2_CMD s)"

definition pic_irqmask_read :: "'w io \<Rightarrow> ('w, 'z) mach_scheme \<Rightarrow> u16 \<times> ('w, 'z) mach_scheme" where
  "pic_irqmask_read io s =
     (case inb io PORT_PIC1_DATA s of (v1, s) \<Rightarrow> case inb io PORT_PIC2_DATA s of (v2, s) \<Rightarrow> (le16 v1 v2, s))"

definition pic_irqmask_write :: "'w io \<Rightarrow> u16 \<Rightarrow> ('w, 'z) mach_scheme \<Rightarrow> ('w, 'z) mach_scheme" where
  "pic_irqmask_write io m s = outb io (hi8 m) PORT_PIC2_DATA (outb io (lo8 m) PORT_PIC1_DATA s)"

definition pic_irqmask_mask :: "'w io \<Rightarrow> u16 \<Rightarrow> u16 \<Rightarrow> ('w, 'z) mach_scheme \<Rightarrow> ('w, 'z) mach_scheme" where
  "pic_irqmask_mask io off on s =
     (case inb io PORT_PIC1_DATA s of (v, s) \<Rightarrow>
      let s = outb io ((v AND NOT (lo8 off)) OR lo8 on) PORT_PIC1_DATA s
      in case inb io PORT_PIC2_DATA s of (v, s) \<Rightarrow> outb io ((v AND NOT (hi8 off)) OR hi8 on) PORT_PIC2_DATA s)"

definition pic_reset :: "'w io \<Rightarrow> u8 \<Rightarrow> u8 \<Rightarrow> ('w, 'z) mach_scheme \<Rightarrow> ('w, 'z) mach_scheme" where
  "pic_reset io irq0 irq8 s =
     (let s = outb io 0x11 PORT_PIC1_CMD s; s = outb io 0x11 PORT_PIC2_CMD s;
          s = outb io irq0 PORT_PIC1_DATA s; s = outb io irq8 PORT_PIC2_DATA s;
          s = outb io 0x04 PORT_PIC1_DATA s; s = outb io 0x02 PORT_PIC2_DATA s;
          s = outb io 0x01 PORT_PIC1_DATA s; s = outb io 0x01 PORT_PIC2_DATA s
      in pic_irqmask_write io PIC_IRQMASK_DEFAULT s)"

definition pic_setup :: "'w io \<Rightarrow> ('w, 'z) mach_scheme \<Rightarrow> ('w, 'z) mach_scheme" where
  "pic_setup io s = pic_reset io BIOS_HWIRQ0_VECTOR BIOS_HWIRQ8_VECTOR s"

definition enable_hwirq :: "('v low) io \<Rightarrow> nat \<Rightarrow> u16 \<times> u16 \<Rightarrow> ('v low, 'z) mach_scheme \<Rightarrow> ('v low, 'z) mach_scheme" where
  "enable_hwirq io hwirq func s =
     (let s = pic_irqmask_mask io (push_bit hwirq 1) 0 s;
          vector = (if hwirq < 8 then BIOS_HWIRQ0_VECTOR + of_nat hwirq else BIOS_HWIRQ8_VECTOR + of_nat hwirq - 8)
      in SET_IVT vector func s)"

definition pic_isr1_read :: "'w io \<Rightarrow> ('w, 'z) mach_scheme \<Rightarrow> u8 \<times> ('w, 'z) mach_scheme" where
  "pic_isr1_read io s = inb io PORT_PIC1_CMD (outb io 0x0b PORT_PIC1_CMD s)"

definition pic_isr2_read :: "'w io \<Rightarrow> ('w, 'z) mach_scheme \<Rightarrow> u8 \<times> ('w, 'z) mach_scheme" where
  "pic_isr2_read io s = inb io PORT_PIC2_CMD (outb io 0x0b PORT_PIC2_CMD s)"

text \<open>The debug output of these two, which alone reads the interrupt in service, is above the configured level.\<close>

definition handle_hwpic1 :: "'w io \<Rightarrow> ('w, 'z) mach_scheme \<Rightarrow> ('w, 'z) mach_scheme" where
  "handle_hwpic1 io s = pic_eoi1 io s"

definition handle_hwpic2 :: "'w io \<Rightarrow> ('w, 'z) mach_scheme \<Rightarrow> ('w, 'z) mach_scheme" where
  "handle_hwpic2 io s = pic_eoi2 io s"

end
