(* ===== verification/Ps2.thy ===== *)
theory Ps2
  imports Kbd Clock Pic
begin

text \<open>
  The PS/2 controller and the commands to keyboard and mouse, \<open>seabios/src/hw/ps2port.c\<close>. A result is 0 or -1 as
  in the code. The buffers of parameters are byte lists, read and written by index: \<open>None\<close> is an access
  out of the buffer, or waiting for ever.
\<close>

section \<open>Ports, commands and bits\<close>

definition PORT_PS2_DATA :: u16 where "PORT_PS2_DATA = 0x60"
definition PORT_PS2_STATUS :: u16 where "PORT_PS2_STATUS = 0x64"

definition I8042_CMD_CTL_WCTR :: u16 where "I8042_CMD_CTL_WCTR = 0x1060"
definition I8042_CMD_CTL_TEST :: u16 where "I8042_CMD_CTL_TEST = 0x01aa"
definition I8042_CMD_KBD_TEST :: u16 where "I8042_CMD_KBD_TEST = 0x01ab"
definition I8042_CMD_KBD_ENABLE :: u16 where "I8042_CMD_KBD_ENABLE = 0x00ae"
definition I8042_CMD_AUX_SEND :: u16 where "I8042_CMD_AUX_SEND = 0x10d4"

definition ATKBD_CMD_SSCANSET :: u16 where "ATKBD_CMD_SSCANSET = 0x10f0"
definition ATKBD_CMD_ENABLE :: u16 where "ATKBD_CMD_ENABLE = 0x00f4"
definition ATKBD_CMD_RESET_DIS :: u16 where "ATKBD_CMD_RESET_DIS = 0x00f5"
definition ATKBD_CMD_RESET_BAT :: u16 where "ATKBD_CMD_RESET_BAT = 0x02ff"
definition PSMOUSE_CMD_ENABLE :: u16 where "PSMOUSE_CMD_ENABLE = 0x00f4"
definition PSMOUSE_CMD_DISABLE :: u16 where "PSMOUSE_CMD_DISABLE = 0x00f5"

definition I8042_STR_AUXDATA :: u8 where "I8042_STR_AUXDATA = 0x20"
definition I8042_STR_IBF :: u8 where "I8042_STR_IBF = 0x02"
definition I8042_STR_OBF :: u8 where "I8042_STR_OBF = 0x01"

definition I8042_CTR_KBDINT :: u8 where "I8042_CTR_KBDINT = 0x01"
definition I8042_CTR_AUXINT :: u8 where "I8042_CTR_AUXINT = 0x02"
definition I8042_CTR_KBDDIS :: u8 where "I8042_CTR_KBDDIS = 0x10"
definition I8042_CTR_AUXDIS :: u8 where "I8042_CTR_AUXDIS = 0x20"
definition I8042_CTR_XLATE :: u8 where "I8042_CTR_XLATE = 0x40"

definition PS2_RET_ACK :: u8 where "PS2_RET_ACK = 0xfa"
definition PS2_RET_NAK :: u8 where "PS2_RET_NAK = 0xfe"

text \<open>The static variables.\<close>

record 'w ps2_mach = "'w mach" +
  Ps2ctr :: u8
  has_ps2_keyboard :: bool

section \<open>The controller\<close>

definition I8042_CTL_TIMEOUT :: nat where "I8042_CTL_TIMEOUT = 10000"
definition I8042_BUFFER_SIZE :: nat where "I8042_BUFFER_SIZE = 16"

text \<open>The loops count the turns that are left.\<close>

fun wait_read_loop :: "'w io \<Rightarrow> nat \<Rightarrow> ('w, 'z) mach_scheme \<Rightarrow> (int \<times> ('w, 'z) mach_scheme) option" where
  "wait_read_loop io 0 s = Some (- 1, s)"
| "wait_read_loop io (Suc n) s =
     (case inb io PORT_PS2_STATUS s of (status, s) \<Rightarrow>
        if status AND I8042_STR_OBF \<noteq> 0 then Some (0, s)
        else do { s \<leftarrow> udelay io 50 s; wait_read_loop io n s })"

definition i8042_wait_read :: "'w io \<Rightarrow> ('w, 'z) mach_scheme \<Rightarrow> (int \<times> ('w, 'z) mach_scheme) option" where
  "i8042_wait_read io = wait_read_loop io I8042_CTL_TIMEOUT"

fun wait_write_loop :: "'w io \<Rightarrow> nat \<Rightarrow> ('w, 'z) mach_scheme \<Rightarrow> (int \<times> ('w, 'z) mach_scheme) option" where
  "wait_write_loop io 0 s = Some (- 1, s)"
| "wait_write_loop io (Suc n) s =
     (case inb io PORT_PS2_STATUS s of (status, s) \<Rightarrow>
        if status AND I8042_STR_IBF = 0 then Some (0, s)
        else do { s \<leftarrow> udelay io 50 s; wait_write_loop io n s })"

definition i8042_wait_write :: "'w io \<Rightarrow> ('w, 'z) mach_scheme \<Rightarrow> (int \<times> ('w, 'z) mach_scheme) option" where
  "i8042_wait_write io = wait_write_loop io I8042_CTL_TIMEOUT"

fun flush_loop :: "'w io \<Rightarrow> nat \<Rightarrow> ('w, 'z) mach_scheme \<Rightarrow> (int \<times> ('w, 'z) mach_scheme) option" where
  "flush_loop io 0 s = Some (- 1, s)"
| "flush_loop io (Suc n) s =
     (case inb io PORT_PS2_STATUS s of (status, s) \<Rightarrow>
        if status AND I8042_STR_OBF = 0 then Some (0, s)
        else do { s \<leftarrow> udelay io 50 s; let (_, s) = inb io PORT_PS2_DATA s; flush_loop io n s })"

definition i8042_flush :: "'w io \<Rightarrow> ('w, 'z) mach_scheme \<Rightarrow> (int \<times> ('w, 'z) mach_scheme) option" where
  "i8042_flush io = flush_loop io I8042_BUFFER_SIZE"

text \<open>The numbers of bytes to receive and to send are in the upper byte of a command.\<close>

definition receive_of :: "u16 \<Rightarrow> nat" where "receive_of command = unat (drop_bit 8 command AND 0xf)"
definition send_of :: "u16 \<Rightarrow> nat" where "send_of command = unat (drop_bit 12 command AND 0xf)"

definition store_at :: "nat \<Rightarrow> 'a \<Rightarrow> 'a list \<Rightarrow> 'a list option" where
  "store_at i v xs = (if i < length xs then Some (xs[i := v]) else None)"

text \<open>The loops from index \<open>i\<close>, with \<open>n\<close> bytes to go.\<close>

fun send_params :: "'w io \<Rightarrow> nat \<Rightarrow> nat \<Rightarrow> u8 list \<Rightarrow> ('w, 'z) mach_scheme \<Rightarrow> (int \<times> ('w, 'z) mach_scheme) option" where
  "send_params io i 0 param s = Some (0, s)"
| "send_params io i (Suc n) param s =
     do {
       (ret, s) \<leftarrow> i8042_wait_write io s;
       if ret \<noteq> 0 then Some (ret, s)
       else do {
         v \<leftarrow> arr_get param (int i);
         send_params io (i + 1) n param (outb io v PORT_PS2_DATA s)
       }
     }"

fun receive_params :: "'w io \<Rightarrow> nat \<Rightarrow> nat \<Rightarrow> u8 list \<Rightarrow> ('w, 'z) mach_scheme \<Rightarrow>
    (int \<times> u8 list \<times> ('w, 'z) mach_scheme) option" where
  "receive_params io i 0 param s = Some (0, param, s)"
| "receive_params io i (Suc n) param s =
     do {
       (ret, s) \<leftarrow> i8042_wait_read io s;
       if ret \<noteq> 0 then Some (ret, param, s)
       else do {
         let (v, s) = inb io PORT_PS2_DATA s;
         param \<leftarrow> store_at i v param;
         receive_params io (i + 1) n param s
       }
     }"

text \<open>\<open>__i8042_command\<close> and \<open>i8042_command\<close>, which differ in a debug message.\<close>

definition i8042_command :: "'w io \<Rightarrow> u16 \<Rightarrow> u8 list \<Rightarrow> ('w, 'z) mach_scheme \<Rightarrow>
    (int \<times> u8 list \<times> ('w, 'z) mach_scheme) option" where
  "i8042_command io command param s =
     do {
       (ret, s) \<leftarrow> i8042_wait_write io s;
       if ret \<noteq> 0 then Some (ret, param, s)
       else do {
         let s = outb io (ucast command) PORT_PS2_STATUS s;
         (ret, s) \<leftarrow> send_params io 0 (send_of command) param s;
         if ret \<noteq> 0 then Some (ret, param, s)
         else receive_params io 0 (receive_of command) param s
       }
     }"

definition i8042_kbd_write :: "'w io \<Rightarrow> u8 \<Rightarrow> ('w, 'z) mach_scheme \<Rightarrow> (int \<times> ('w, 'z) mach_scheme) option" where
  "i8042_kbd_write io c s =
     do {
       (ret, s) \<leftarrow> i8042_wait_write io s;
       Some (ret, if ret = 0 then outb io c PORT_PS2_DATA s else s)
     }"

definition i8042_aux_write :: "'w io \<Rightarrow> u8 \<Rightarrow> ('w, 'z) mach_scheme \<Rightarrow> (int \<times> ('w, 'z) mach_scheme) option" where
  "i8042_aux_write io c s = map_option (\<lambda>(ret, _, s). (ret, s)) (i8042_command io I8042_CMD_AUX_SEND [c] s)"

fun reboot_loop :: "'w io \<Rightarrow> nat \<Rightarrow> ('w, 'z) mach_scheme \<Rightarrow> ('w, 'z) mach_scheme option" where
  "reboot_loop io 0 s = Some s"
| "reboot_loop io (Suc n) s =
     do {
       (_, s) \<leftarrow> i8042_wait_write io s;
       s \<leftarrow> udelay io 50 s;
       s \<leftarrow> udelay io 50 (outb io 0xfe PORT_PS2_STATUS s);
       reboot_loop io n s
     }"

definition i8042_reboot :: "'w io \<Rightarrow> ('w, 'z) mach_scheme \<Rightarrow> ('w, 'z) mach_scheme option" where
  "i8042_reboot io = reboot_loop io 10"

section \<open>Device commands\<close>

text \<open>A byte from the keyboard or, with \<open>aux\<close>, from the mouse; -1 after the timeout.\<close>

partial_function (option) recvbyte_loop ::
    "'w io \<Rightarrow> bool \<Rightarrow> bool \<Rightarrow> u32 \<Rightarrow> ('w, 'z) mach_scheme \<Rightarrow> (int \<times> ('w, 'z) mach_scheme) option" where
  "recvbyte_loop io aux needack end s =
     (case inb io PORT_PS2_STATUS s of (status, s) \<Rightarrow>
      case (if status AND I8042_STR_OBF \<noteq> 0
            then (case inb io PORT_PS2_DATA s of (data, s) \<Rightarrow>
                    if ((status AND I8042_STR_AUXDATA \<noteq> 0) = aux) \<and> (\<not> needack \<or> data = PS2_RET_ACK \<or> data = PS2_RET_NAK)
                    then (Some data, s) else (None, s))
            else (None, s)) of
        (Some data, s) \<Rightarrow> Some (uint data, s)
      | (None, s) \<Rightarrow>
          (case timer_check io end s of (late, s) \<Rightarrow>
             if late then Some (- 1, s) else recvbyte_loop io aux needack end (yield io s)))"

definition ps2_recvbyte :: "'w io \<Rightarrow> bool \<Rightarrow> bool \<Rightarrow> u32 \<Rightarrow> ('w, 'z) mach_scheme \<Rightarrow> (int \<times> ('w, 'z) mach_scheme) option" where
  "ps2_recvbyte io aux needack timeout s =
     (case timer_calc io timeout s of (end, s) \<Rightarrow> recvbyte_loop io aux needack end s)"

definition ps2_sendbyte :: "'w io \<Rightarrow> bool \<Rightarrow> u8 \<Rightarrow> u32 \<Rightarrow> ('w, 'z) mach_scheme \<Rightarrow> (int \<times> ('w, 'z) mach_scheme) option" where
  "ps2_sendbyte io aux command timeout s =
     do {
       (ret, s) \<leftarrow> (if aux then i8042_aux_write io command s else i8042_kbd_write io command s);
       if ret \<noteq> 0 then Some (ret, s)
       else do {
         (ret, s) \<leftarrow> ps2_recvbyte io aux True timeout s;
         Some (if ret < 0 then ret else if ret \<noteq> uint PS2_RET_ACK then - 1 else 0, s)
       }
     }"

text \<open>The loops over the parameters of a device command.\<close>

fun send_bytes :: "'w io \<Rightarrow> bool \<Rightarrow> nat \<Rightarrow> nat \<Rightarrow> u8 list \<Rightarrow> ('w, 'z) mach_scheme \<Rightarrow> (int \<times> ('w, 'z) mach_scheme) option" where
  "send_bytes io aux i 0 param s = Some (0, s)"
| "send_bytes io aux i (Suc n) param s =
     do {
       v \<leftarrow> arr_get param (int i);
       (ret, s) \<leftarrow> ps2_sendbyte io aux v 200 s;
       if ret \<noteq> 0 then Some (ret, s) else send_bytes io aux (i + 1) n param s
     }"

fun receive_bytes :: "'w io \<Rightarrow> bool \<Rightarrow> nat \<Rightarrow> nat \<Rightarrow> u8 list \<Rightarrow> ('w, 'z) mach_scheme \<Rightarrow>
    (int \<times> u8 list \<times> ('w, 'z) mach_scheme) option" where
  "receive_bytes io aux i 0 param s = Some (0, param, s)"
| "receive_bytes io aux i (Suc n) param s =
     do {
       (ret, s) \<leftarrow> ps2_recvbyte io aux False 500 s;
       if ret < 0 then Some (ret, param, s)
       else do {
         param \<leftarrow> store_at i (word_of_int ret) param;
         receive_bytes io aux (i + 1) n param s
       }
     }"

text \<open>The exchange of bytes with the device: the body of \<open>__ps2_command\<close> between the two settings of the controller.\<close>

definition reset_exchange :: "'w io \<Rightarrow> bool \<Rightarrow> u16 \<Rightarrow> u8 list \<Rightarrow> ('w, 'z) mach_scheme \<Rightarrow>
    (int \<times> u8 list \<times> ('w, 'z) mach_scheme) option" where
  "reset_exchange io aux command param s =
     do {
       (ret, s) \<leftarrow> ps2_sendbyte io aux (ucast command) 1000 s;
       if ret \<noteq> 0 then Some (ret, param, s)
       else do {
         (ret, s) \<leftarrow> ps2_recvbyte io aux False 4000 s;
         if ret < 0 then Some (ret, param, s)
         else do {
           param \<leftarrow> store_at 0 (word_of_int ret) param;
           (ret, s) \<leftarrow> ps2_recvbyte io aux False 100 s;
           param \<leftarrow> store_at 1 (if ret < 0 then 0 else word_of_int ret) param;
           Some (0, param, s)
         }
       }
     }"

definition getid_exchange :: "'w io \<Rightarrow> bool \<Rightarrow> u16 \<Rightarrow> u8 list \<Rightarrow> ('w, 'z) mach_scheme \<Rightarrow>
    (int \<times> u8 list \<times> ('w, 'z) mach_scheme) option" where
  "getid_exchange io aux command param s =
     do {
       (ret, s) \<leftarrow> ps2_sendbyte io aux (ucast command) 200 s;
       if ret \<noteq> 0 then Some (ret, param, s)
       else do {
         (ret, s) \<leftarrow> ps2_recvbyte io aux False 500 s;
         if ret < 0 then Some (ret, param, s)
         else do {
           param \<leftarrow> store_at 0 (word_of_int ret) param;
           if ret \<in> {0xab, 0xac, 0x2b, 0x5d, 0x60, 0x47}
           then do {
             (ret, s) \<leftarrow> ps2_recvbyte io aux False 500 s;
             if ret < 0 then Some (ret, param, s)
             else do { param \<leftarrow> store_at 1 (word_of_int ret) param; Some (0, param, s) }
           }
           else do { param \<leftarrow> store_at 1 0 param; Some (0, param, s) }
         }
       }
     }"

definition plain_exchange :: "'w io \<Rightarrow> bool \<Rightarrow> u16 \<Rightarrow> u8 list \<Rightarrow> ('w, 'z) mach_scheme \<Rightarrow>
    (int \<times> u8 list \<times> ('w, 'z) mach_scheme) option" where
  "plain_exchange io aux command param s =
     do {
       (ret, s) \<leftarrow> ps2_sendbyte io aux (ucast command) 200 s;
       if ret \<noteq> 0 then Some (ret, param, s)
       else do {
         (ret, s) \<leftarrow> send_bytes io aux 0 (send_of command) param s;
         if ret \<noteq> 0 then Some (ret, param, s)
         else receive_bytes io aux 0 (receive_of command) param s
       }
     }"

definition exchange :: "'w io \<Rightarrow> bool \<Rightarrow> u16 \<Rightarrow> u8 list \<Rightarrow> ('w, 'z) mach_scheme \<Rightarrow>
    (int \<times> u8 list \<times> ('w, 'z) mach_scheme) option" where
  "exchange io aux command param s =
     (if command = ATKBD_CMD_RESET_BAT then reset_exchange io aux command param s
      else if command = ATKBD_CMD_GETID then getid_exchange io aux command param s
      else plain_exchange io aux command param s)"

text \<open>\<open>__ps2_command\<close> and \<open>ps2_command\<close>, which differ in a debug message.\<close>

definition ps2_command :: "'w io \<Rightarrow> bool \<Rightarrow> u16 \<Rightarrow> u8 list \<Rightarrow> ('w, 'z) ps2_mach_scheme \<Rightarrow>
    (int \<times> u8 list \<times> ('w, 'z) ps2_mach_scheme) option" where
  "ps2_command io aux command param s =
     do {
       let ps2ctr = Ps2ctr s;
       let newctr = (ps2ctr OR I8042_CTR_AUXDIS OR I8042_CTR_KBDDIS) AND NOT (I8042_CTR_KBDINT OR I8042_CTR_AUXINT);
       (ret, _, s) \<leftarrow> i8042_command io I8042_CMD_CTL_WCTR [newctr] s;
       if ret \<noteq> 0 then Some (ret, param, s)
       else do {
         let s = yield io s;
         let newctr = newctr AND NOT (if aux then I8042_CTR_AUXDIS else I8042_CTR_KBDDIS);
         (ret, _, s) \<leftarrow> i8042_command io I8042_CMD_CTL_WCTR [newctr] s;
         (ret, param, s) \<leftarrow> (if ret \<noteq> 0 then Some (ret, param, s) else exchange io aux command param s);
         (ret2, _, s) \<leftarrow> i8042_command io I8042_CMD_CTL_WCTR [ps2ctr] s;
         Some (if ret2 \<noteq> 0 then ret2 else ret, param, s)
       }
     }"

definition ps2_kbd_command :: "'w io \<Rightarrow> u16 \<Rightarrow> u8 list \<Rightarrow> ('w, 'z) ps2_mach_scheme \<Rightarrow>
    (int \<times> u8 list \<times> ('w, 'z) ps2_mach_scheme) option" where
  "ps2_kbd_command io command param s = ps2_command io False command param s"

definition ps2_mouse_command :: "'w io \<Rightarrow> u16 \<Rightarrow> u8 list \<Rightarrow> ('w, 'z) ps2_mach_scheme \<Rightarrow>
    (int \<times> u8 list \<times> ('w, 'z) ps2_mach_scheme) option" where
  "ps2_mouse_command io command param s =
     (let s = (if command = PSMOUSE_CMD_ENABLE
               then s\<lparr>Ps2ctr := (Ps2ctr s OR I8042_CTR_AUXINT) AND NOT I8042_CTR_AUXDIS\<rparr>
               else if command = PSMOUSE_CMD_DISABLE
               then s\<lparr>Ps2ctr := (Ps2ctr s OR I8042_CTR_AUXDIS) AND NOT I8042_CTR_AUXINT\<rparr>
               else s)
      in ps2_command io True command param s)"

section \<open>Interrupt handlers\<close>

text \<open>\<open>process_mouse\<close>, of \<open>mouse.c\<close>, is in the theory \<open>Mouse\<close>; it is passed to the handler.\<close>

definition handle_74 :: "'w io \<Rightarrow> (u8 \<Rightarrow> ('w, 'z) ps2_mach_scheme \<Rightarrow> ('w, 'z) ps2_mach_scheme) \<Rightarrow>
    ('w, 'z) ps2_mach_scheme \<Rightarrow> ('w, 'z) ps2_mach_scheme" where
  "handle_74 io process_mouse s =
     (case inb io PORT_PS2_STATUS s of (v, s) \<Rightarrow>
        if v AND (I8042_STR_OBF OR I8042_STR_AUXDATA) \<noteq> I8042_STR_OBF OR I8042_STR_AUXDATA then pic_eoi2 io s
        else (case inb io PORT_PS2_DATA s of (v, s) \<Rightarrow>
                if Ps2ctr s AND I8042_CTR_AUXINT = 0 then pic_eoi2 io s
                else pic_eoi2 io (process_mouse v s)))"

text \<open>The state has the BIOS data area, where the keys go. A reset does not come back.\<close>

definition handle_09 :: "'w io \<Rightarrow> ('w, 'z) ps2_mach_scheme kbd_env \<Rightarrow> bda \<times> ('w, 'z) ps2_mach_scheme \<Rightarrow>
    (key_result \<times> ('w, 'z) ps2_mach_scheme) option" where
  "handle_09 io env bs =
     (case bs of (b, s) \<Rightarrow>
      case inb io PORT_PS2_STATUS s of (v, s) \<Rightarrow>
        if v AND I8042_STR_AUXDATA \<noteq> 0 then Some (Done b, pic_eoi1 io s)
        else (case inb io PORT_PS2_DATA s of (v, s) \<Rightarrow>
                if Ps2ctr s AND I8042_CTR_KBDINT = 0 then Some (Done b, pic_eoi1 io s)
                else (case process_key env v (b, s) of
                        (ResetVector b, s) \<Rightarrow> Some (ResetVector b, s)
                      | (Done b, s) \<Rightarrow>
                          do {
                            (_, _, s) \<leftarrow> i8042_command io I8042_CMD_KBD_ENABLE [] s;
                            Some (Done b, pic_eoi1 io s)
                          })))"

section \<open>Set-up\<close>

text \<open>The loop that waits for the keyboard to come up.\<close>

partial_function (option) spinup_loop :: "'w io \<Rightarrow> u32 \<Rightarrow> u8 list \<Rightarrow> ('w, 'z) ps2_mach_scheme \<Rightarrow>
    (int \<times> u8 list \<times> ('w, 'z) ps2_mach_scheme) option" where
  "spinup_loop io end param s =
     do {
       (ret, param, s) \<leftarrow> ps2_kbd_command io ATKBD_CMD_RESET_BAT param s;
       if ret = 0 then Some (0, param, s)
       else (case timer_check io end s of (late, s) \<Rightarrow>
               if late then Some (ret, param, s) else spinup_loop io end param (yield io s))
     }"

text \<open>The first part, the tests of the controller; \<open>False\<close> is an early return.\<close>

definition controller_tests :: "'w io \<Rightarrow> u8 list \<Rightarrow> ('w, 'z) ps2_mach_scheme \<Rightarrow>
    (bool \<times> u8 list \<times> ('w, 'z) ps2_mach_scheme) option" where
  "controller_tests io param s =
     do {
       (ret, s) \<leftarrow> i8042_flush io s;
       if ret \<noteq> 0 then Some (False, param, s)
       else do {
         (ret, param, s) \<leftarrow> i8042_command io I8042_CMD_CTL_TEST param s;
         v \<leftarrow> arr_get param 0;
         if ret \<noteq> 0 \<or> v \<noteq> 0x55 then Some (False, param, s)
         else do {
           (ret, param, s) \<leftarrow> i8042_command io I8042_CMD_KBD_TEST param s;
           v \<leftarrow> arr_get param 0;
           Some (ret = 0 \<and> v = 0, param, s)
         }
       }
     }"

text \<open>The second part, the keyboard. \<open>spinupdelay\<close> is the number in the file \<open>etc/ps2-keyboard-spinup\<close>.\<close>

definition keyboard_side :: "'w io \<Rightarrow> u32 \<Rightarrow> u8 list \<Rightarrow> ('w, 'z) ps2_mach_scheme \<Rightarrow> ('w, 'z) ps2_mach_scheme option" where
  "keyboard_side io spinupdelay param s =
     do {
       let (end, s) = timer_calc io spinupdelay s;
       (ret, param, s) \<leftarrow> spinup_loop io end param s;
       if ret \<noteq> 0 then Some s
       else do {
         v \<leftarrow> arr_get param 0;
         if v \<noteq> 0xaa then Some s
         else do {
           let s = s\<lparr>has_ps2_keyboard := True\<rparr>;
           (ret, _, s) \<leftarrow> ps2_kbd_command io ATKBD_CMD_RESET_DIS [] s;
           if ret \<noteq> 0 then Some s
           else do {
             param \<leftarrow> store_at 0 0x02 param;
             (ret, param, s) \<leftarrow> ps2_kbd_command io ATKBD_CMD_SSCANSET param s;
             if ret \<noteq> 0 then Some s
             else do {
               let s = s\<lparr>Ps2ctr := I8042_CTR_AUXDIS OR I8042_CTR_XLATE OR I8042_CTR_KBDINT\<rparr>;
               (_, _, s) \<leftarrow> ps2_kbd_command io ATKBD_CMD_ENABLE [] s;
               Some s
             }
           }
         }
       }
     }"

text \<open>\<open>junk\<close> is what the uninitialised buffer of two bytes holds.\<close>

definition ps2_keyboard_setup :: "'w io \<Rightarrow> u32 \<Rightarrow> u8 \<times> u8 \<Rightarrow> ('w, 'z) ps2_mach_scheme \<Rightarrow> ('w, 'z) ps2_mach_scheme option" where
  "ps2_keyboard_setup io spinupdelay junk s =
     do {
       (ok, param, s) \<leftarrow> controller_tests io [fst junk, snd junk] s;
       if \<not> ok then Some s
       else keyboard_side io spinupdelay param (s\<lparr>Ps2ctr := I8042_CTR_KBDDIS OR I8042_CTR_AUXDIS\<rparr>)
     }"

definition force_init_8042_for_usb_kbd :: "'w io \<Rightarrow> ('w, 'z) ps2_mach_scheme \<Rightarrow> ('w, 'z) ps2_mach_scheme option" where
  "force_init_8042_for_usb_kbd io s =
     do {
       let s = s\<lparr>Ps2ctr := I8042_CTR_AUXDIS OR I8042_CTR_XLATE OR I8042_CTR_KBDINT\<rparr>;
       (_, _, s) \<leftarrow> i8042_command io I8042_CMD_CTL_WCTR [Ps2ctr s] s;
       Some s
     }"

end
