(* ===== verification/Ps2_Facts.thy ===== *)
theory Ps2_Facts
  imports Ps2
begin

text \<open>
  The PS/2 driver ends whatever the devices do, and what it sends. The first part extends the locale of machines
  with a clock.
\<close>

section \<open>Every command ends\<close>

text \<open>A result of a byte read: the byte, or -1.\<close>

abbreviation byte_or_error :: "int \<Rightarrow> bool" where
  "byte_or_error r \<equiv> - 1 \<le> r \<and> r < 256"

lemma receive_of_simps [simp]:
  "receive_of I8042_CMD_CTL_WCTR = 0" "send_of I8042_CMD_CTL_WCTR = 1" "receive_of I8042_CMD_AUX_SEND = 0" "send_of I8042_CMD_AUX_SEND = 1"
  "receive_of I8042_CMD_KBD_ENABLE = 0" "send_of I8042_CMD_KBD_ENABLE = 0" "receive_of I8042_CMD_CTL_TEST = 1" "send_of I8042_CMD_CTL_TEST = 0"
  "receive_of I8042_CMD_KBD_TEST = 1" "send_of I8042_CMD_KBD_TEST = 0"
  by (simp_all add: receive_of_def send_of_def I8042_CMD_CTL_WCTR_def I8042_CMD_AUX_SEND_def I8042_CMD_KBD_ENABLE_def
      I8042_CMD_CTL_TEST_def I8042_CMD_KBD_TEST_def)

text \<open>What an exchange with a device leaves: a result and the same number of bytes in the buffer.\<close>

abbreviation exchanged :: "('s \<Rightarrow> bool) \<Rightarrow> u8 list \<Rightarrow> int \<times> u8 list \<times> 's \<Rightarrow> bool" where
  "exchanged ok param r \<equiv> (case r of (r, p, s) \<Rightarrow> ok s \<and> r \<in> {0, - 1} \<and> length p = length param)"

context timed_machine
begin

lemma wait_loops_return:
  "ok s \<Longrightarrow> returns (\<lambda>(r, s). ok s \<and> r \<in> {0, - 1}) (wait_read_loop io n s)"
  "ok s \<Longrightarrow> returns (\<lambda>(r, s). ok s \<and> r \<in> {0, - 1}) (wait_write_loop io n s)"
  "ok s \<Longrightarrow> returns (\<lambda>(r, s). ok s \<and> r \<in> {0, - 1}) (flush_loop io n s)"
proof (induction n arbitrary: s)
  case 0
  {
    case 1
    then show ?case by (simp add: returns_def)
  next
    case 2
    then show ?case by (simp add: returns_def)
  next
    case 3
    then show ?case by (simp add: returns_def)
  }
next
  case (Suc n)
  have look: "\<exists>v s1. inb io port s = (v, s1) \<and> ok s1" if "ok s" for port s
    using snd_ok(1) [OF that, of port] by (metis prod.collapse)
  have delay: "\<exists>s1. udelay io 50 s = Some s1 \<and> ok s1" if "ok s" for s
    using udelay_returns [OF that, of 50] by (simp add: returns_def DELAY_MAX_def)
  {
    case 1
    obtain v s1 where v: "inb io PORT_PS2_STATUS s = (v, s1)" "ok s1" using look [OF 1] by blast
    obtain s2 where "udelay io 50 s1 = Some s2" "ok s2" using delay [OF v(2)] by blast
    then show ?case using v Suc.IH(1) [of s2] by (auto simp: returns_def)
  next
    case 2
    obtain v s1 where v: "inb io PORT_PS2_STATUS s = (v, s1)" "ok s1" using look [OF 2] by blast
    obtain s2 where "udelay io 50 s1 = Some s2" "ok s2" using delay [OF v(2)] by blast
    then show ?case using v Suc.IH(2) [of s2] by (auto simp: returns_def)
  next
    case 3
    obtain v s1 where v: "inb io PORT_PS2_STATUS s = (v, s1)" "ok s1" using look [OF 3] by blast
    obtain s2 where s2: "udelay io 50 s1 = Some s2" "ok s2" using delay [OF v(2)] by blast
    obtain d s3 where "inb io PORT_PS2_DATA s2 = (d, s3)" "ok s3" using look [OF s2(2)] by blast
    then show ?case using v s2 Suc.IH(3) [of s3] by (auto simp: returns_def)
  }
qed

lemma i8042_waits_return [runs]:
  "ok s \<Longrightarrow> returns (\<lambda>(r, s). ok s \<and> r \<in> {0, - 1}) (i8042_wait_read io s)"
  "ok s \<Longrightarrow> returns (\<lambda>(r, s). ok s \<and> r \<in> {0, - 1}) (i8042_wait_write io s)"
  "ok s \<Longrightarrow> returns (\<lambda>(r, s). ok s \<and> r \<in> {0, - 1}) (i8042_flush io s)"
  unfolding i8042_wait_read_def i8042_wait_write_def i8042_flush_def by (rule wait_loops_return; assumption)+

lemma send_params_return:
  "ok s \<Longrightarrow> i + n \<le> length param \<Longrightarrow> returns (\<lambda>(r, s). ok s \<and> r \<in> {0, - 1}) (send_params io i n param s)"
proof (induction n arbitrary: i s)
  case (Suc n)
  have "i8042_wait_write io s = i8042_wait_write io s" ..
  obtain r s1 where r: "i8042_wait_write io s = Some (r, s1)" "ok s1" "r \<in> {0, - 1}"
    using i8042_waits_return(2) [OF Suc.prems(1)] by (auto simp: returns_def)
  show ?case
    using r Suc.prems(2) Suc.IH [of "outb io (param ! i) PORT_PS2_DATA s1" "i + 1"] by (auto simp: arr_get_def returns_def)
qed (simp add: returns_def)

lemma receive_params_return:
  "ok s \<Longrightarrow> i + n \<le> length param \<Longrightarrow>
    returns (\<lambda>(r, p, s). ok s \<and> r \<in> {0, - 1} \<and> length p = length param) (receive_params io i n param s)"
proof (induction n arbitrary: i s param)
  case (Suc n)
  obtain r s1 where r: "i8042_wait_read io s = Some (r, s1)" "ok s1" "r \<in> {0, - 1}"
    using i8042_waits_return(1) [OF Suc.prems(1)] by (auto simp: returns_def)
  obtain v s2 where v: "inb io PORT_PS2_DATA s1 = (v, s2)" by fastforce
  then have "ok s2" using snd_ok(1) [OF r(2), of PORT_PS2_DATA] by simp
  then show ?case
    using r v Suc.prems(2) Suc.IH [of s2 "i + 1" "param[i := v]"] by (auto simp: store_at_def returns_def)
qed (simp add: returns_def)

lemma i8042_command_returns:
  assumes "ok s" "send_of command \<le> length param" "receive_of command \<le> length param"
  shows "returns (\<lambda>(r, p, s). ok s \<and> r \<in> {0, - 1} \<and> length p = length param) (i8042_command io command param s)"
proof -
  obtain r s1 where r: "i8042_wait_write io s = Some (r, s1)" "ok s1" "r \<in> {0, - 1}"
    using i8042_waits_return(2) [OF assms(1)] by (auto simp: returns_def)
  obtain r2 s2 where s2: "send_params io 0 (send_of command) param (outb io (ucast command) PORT_PS2_STATUS s1) = Some (r2, s2)"
    "ok s2" "r2 \<in> {0, - 1}"
    using send_params_return [of "outb io (ucast command) PORT_PS2_STATUS s1" 0 "send_of command" param] r(2) assms(2)
    by (auto simp: returns_def)
  show ?thesis
    using r s2 receive_params_return [OF s2(2), of 0 "receive_of command" param] assms(3)
    by (auto simp: i8042_command_def returns_def)
qed

lemma i8042_writes_return:
  "ok s \<Longrightarrow> returns (\<lambda>(r, s). ok s \<and> r \<in> {0, - 1}) (i8042_kbd_write io c s)"
  "ok s \<Longrightarrow> returns (\<lambda>(r, s). ok s \<and> r \<in> {0, - 1}) (i8042_aux_write io c s)"
  using i8042_waits_return(2) [of s] i8042_command_returns [of s I8042_CMD_AUX_SEND "[c]"]
  by (auto simp: i8042_kbd_write_def i8042_aux_write_def returns_def)

lemma inb_keeps:
  assumes "ok s" "inb io port s = (v, s')"
  shows "ok s'" "cyc (wd s) \<le> cyc (wd s')" "cyc (wd s') \<le> cyc (wd s) + gap"
proof -
  have "s' = s\<lparr>wd := snd (io_inb io port (wd s))\<rparr>" using assms(2) by (auto simp: inb_def split: prod.splits)
  then show "ok s'" "cyc (wd s) \<le> cyc (wd s')" "cyc (wd s') \<le> cyc (wd s) + gap"
    using world [OF assms(1)] inb_time [OF assms(1)] by auto
qed

text \<open>One look at the controller.\<close>

lemma recv_look:
  assumes "ok s" "inb io PORT_PS2_STATUS s = (status, s1)"
    "(if status AND I8042_STR_OBF \<noteq> 0 then (case inb io PORT_PS2_DATA s1 of (data, s) \<Rightarrow> if P status data then (Some data, s) else (None, s))
      else (None, s1)) = (got, s2)"
  shows "ok s2" "cyc (wd s) \<le> cyc (wd s2)" "cyc (wd s2) \<le> cyc (wd s) + 2 * gap"
proof -
  note a = inb_keeps [OF assms(1,2)]
  obtain d s3 where d: "inb io PORT_PS2_DATA s1 = (d, s3)" by fastforce
  note b = inb_keeps [OF a(1) d]
  have "s2 = s1 \<or> s2 = s3" using assms(3) d by (auto split: if_splits)
  then show "ok s2" "cyc (wd s) \<le> cyc (wd s2)" "cyc (wd s2) \<le> cyc (wd s) + 2 * gap"
    using a b by auto
qed

lemma recvbyte_deadline:
  assumes "ok s" "cyc (wd s) \<le> (e + 1) * unit + gap" "e * unit \<le> cyc (wd s) + 2 ^ 30 * unit"
  shows "returns (\<lambda>(r, s). ok s \<and> byte_or_error r) (recvbyte_loop io aux needack (of_nat e) s)"
  using assms
proof (induction "(e + 1) * unit + gap - cyc (wd s)" arbitrary: s rule: less_induct)
  case less
  let ?P = "\<lambda>status data. ((status AND I8042_STR_AUXDATA \<noteq> 0) = aux) \<and> (\<not> needack \<or> data = PS2_RET_ACK \<or> data = PS2_RET_NAK)"
  obtain status s1 where 1: "inb io PORT_PS2_STATUS s = (status, s1)" by fastforce
  obtain got s2 where 2: "(if status AND I8042_STR_OBF \<noteq> 0
      then (case inb io PORT_PS2_DATA s1 of (data, s) \<Rightarrow> if ?P status data then (Some data, s) else (None, s))
      else (None, s1)) = (got, s2)" by fastforce
  note s2 = recv_look [where P = ?P, OF less.prems(1) 1 2]
  have loop: "recvbyte_loop io aux needack (of_nat e) s = (case got of Some data \<Rightarrow> Some (uint data, s2)
      | None \<Rightarrow> (case timer_check io (of_nat e) s2 of (late, s) \<Rightarrow>
             if late then Some (- 1, s) else recvbyte_loop io aux needack (of_nat e) (yield io s)))"
    by (subst recvbyte_loop.simps) (simp only: 1 2 prod.case split: option.split)
  show ?case
  proof (cases got)
    case (Some data)
    moreover have "uint data < 256" "- 1 \<le> uint data"
      using uint_lt2p [of data] order_trans [OF _ uint_ge_0, of "- 1" data] by simp_all
    ultimately show ?thesis using loop s2(1) by (simp add: returns_def)
  next
    case None
    obtain b s3 where c: "timer_check io (of_nat e) s2 = (b, s3)" by fastforce
    have 3: "e * unit \<le> cyc (wd s2) + 2 ^ 30 * unit" using less.prems(3) s2(2) by linarith
    have 4: "cyc (wd s2) \<le> (e + 1) * unit + 6 * gap" using less.prems(2) s2(3) by linarith
    note k = check_late [OF s2(1) c 3 4]
    show ?thesis
    proof (cases b)
      case True
      then show ?thesis using loop None c k(1) by (simp add: returns_def)
    next
      case False
      then have early: "cyc (wd s3) < (e + 1) * unit" using k(4) by (intro div_le_bound) simp
      note y = yield_ok [OF k(1)]
      have "returns (\<lambda>(r, s). ok s \<and> byte_or_error r) (recvbyte_loop io aux needack (of_nat e) (yield io s3))"
        using early y k s2 less.prems by (intro less.hyps) auto
      then show ?thesis using loop None c False by simp
    qed
  qed
qed

lemma ps2_recvbyte_returns:
  assumes "ok s" "unat timeout \<le> DELAY_MAX"
  shows "returns (\<lambda>(r, s). ok s \<and> byte_or_error r) (ps2_recvbyte io aux needack timeout s)"
proof -
  obtain fin s1 where t: "timer_calc io timeout s = (fin, s1)" by fastforce
  then obtain v where v: "timer_read io s = (v, s1)" "fin = v + TimerKHz s1 * timeout"
    by (auto simp: timer_calc_def split: prod.splits)
  have b: "unat (timeout * TimerKHz s1) < 2 ^ 30"
    using ticks_exact [of s1 timeout] read [OF assms(1) v(1)] assms(2) by simp
  obtain e where "ok s1" "fin = of_nat e" "cyc (wd s1) \<le> (e + 1) * unit" "e * unit \<le> cyc (wd s1) + 2 ^ 30 * unit"
    using deadline [OF assms(1) v(1), of "timeout * TimerKHz s1"] b v(2) by (auto simp: mult.commute)
  then show ?thesis using recvbyte_deadline [of s1 e aux needack] t by (simp add: ps2_recvbyte_def)
qed

lemma ps2_sendbyte_returns:
  assumes "ok s" "unat timeout \<le> DELAY_MAX"
  shows "returns (\<lambda>(r, s). ok s \<and> r \<in> {0, - 1}) (ps2_sendbyte io aux command timeout s)"
proof -
  obtain r s1 where r: "(if aux then i8042_aux_write io command s else i8042_kbd_write io command s) = Some (r, s1)" "ok s1" "r \<in> {0, - 1}"
    using i8042_writes_return [OF assms(1), of command] by (cases aux) (auto simp: returns_def)
  obtain r2 s2 where "ps2_recvbyte io aux True timeout s1 = Some (r2, s2)" "ok s2" "byte_or_error r2"
    using ps2_recvbyte_returns [OF r(2) assms(2), of aux True] by (auto simp: returns_def)
  then show ?thesis using r by (auto simp: ps2_sendbyte_def returns_def)
qed

lemma recv_or_fail:
  assumes "ok s" "unat timeout \<le> DELAY_MAX"
  obtains r s1 where "ps2_recvbyte io aux needack timeout s = Some (r, s1)" "ok s1" "byte_or_error r"
  using ps2_recvbyte_returns [OF assms, of aux needack] that by (auto simp: returns_def)

lemma send_or_fail:
  assumes "ok s" "unat timeout \<le> DELAY_MAX"
  obtains r s1 where "ps2_sendbyte io aux command timeout s = Some (r, s1)" "ok s1" "r \<in> {0, - 1}"
  using ps2_sendbyte_returns [OF assms, of aux command] that by (auto simp: returns_def)

lemma timeouts: "unat (100 :: u32) \<le> DELAY_MAX" "unat (200 :: u32) \<le> DELAY_MAX" "unat (500 :: u32) \<le> DELAY_MAX"
  "unat (1000 :: u32) \<le> DELAY_MAX" "unat (4000 :: u32) \<le> DELAY_MAX"
  by (simp_all add: DELAY_MAX_def)

lemma send_bytes_return:
  "ok s \<Longrightarrow> i + n \<le> length param \<Longrightarrow> returns (\<lambda>(r, s). ok s \<and> r \<in> {0, - 1}) (send_bytes io aux i n param s)"
proof (induction n arbitrary: i s)
  case (Suc n)
  obtain r s1 where "ps2_sendbyte io aux (param ! i) 200 s = Some (r, s1)" "ok s1" "r \<in> {0, - 1}"
    using send_or_fail [OF Suc.prems(1) timeouts(2)] by blast
  then show ?case using Suc.prems(2) Suc.IH [of s1 "i + 1"] by (auto simp: arr_get_def returns_def)
qed (simp add: returns_def)

lemma receive_bytes_return:
  "ok s \<Longrightarrow> i + n \<le> length param \<Longrightarrow> returns (exchanged ok param) (receive_bytes io aux i n param s)"
proof (induction n arbitrary: i s param)
  case (Suc n)
  obtain r s1 where "ps2_recvbyte io aux False 500 s = Some (r, s1)" "ok s1" "byte_or_error r"
    using recv_or_fail [OF Suc.prems(1) timeouts(3)] by blast
  then show ?case
    using Suc.prems(2) Suc.IH [of s1 "i + 1" "param[i := word_of_int r]"] by (auto simp: store_at_def returns_def)
qed (simp add: returns_def)

lemma exchange_returns:
  assumes "ok s" "send_of command \<le> length param" "receive_of command \<le> length param"
  shows "returns (exchanged ok param) (exchange io aux command param s)"
proof -
  have two: "2 \<le> length param" if "command = ATKBD_CMD_RESET_BAT \<or> command = ATKBD_CMD_GETID"
    using that assms(3) by (auto simp: receive_of_def ATKBD_CMD_RESET_BAT_def ATKBD_CMD_GETID_def)
  have reset: "returns (exchanged ok param) (reset_exchange io aux command param s)" if len: "2 \<le> length param"
  proof -
    obtain r s1 where 1: "ps2_sendbyte io aux (ucast command) 1000 s = Some (r, s1)" "ok s1" "r \<in> {0, - 1}"
      using send_or_fail [OF assms(1) timeouts(4)] by blast
    obtain r2 s2 where 2: "ps2_recvbyte io aux False 4000 s1 = Some (r2, s2)" "ok s2" "byte_or_error r2"
      using recv_or_fail [OF 1(2) timeouts(5)] by blast
    obtain r3 s3 where "ps2_recvbyte io aux False 100 s2 = Some (r3, s3)" "ok s3" "byte_or_error r3"
      using recv_or_fail [OF 2(2) timeouts(1)] by blast
    then show ?thesis using 1 2 len by (auto simp: reset_exchange_def store_at_def returns_def)
  qed
  have getid: "returns (exchanged ok param) (getid_exchange io aux command param s)" if len: "2 \<le> length param"
  proof -
    obtain r s1 where 1: "ps2_sendbyte io aux (ucast command) 200 s = Some (r, s1)" "ok s1" "r \<in> {0, - 1}"
      using send_or_fail [OF assms(1) timeouts(2)] by blast
    obtain r2 s2 where 2: "ps2_recvbyte io aux False 500 s1 = Some (r2, s2)" "ok s2" "byte_or_error r2"
      using recv_or_fail [OF 1(2) timeouts(3)] by blast
    obtain r3 s3 where 3: "ps2_recvbyte io aux False 500 s2 = Some (r3, s3)" "ok s3" "byte_or_error r3"
      using recv_or_fail [OF 2(2) timeouts(3)] by blast
    show ?thesis
    proof (cases "r2 \<in> {0xab, 0xac, 0x2b, 0x5d, 0x60, 0x47}")
      case True
      then show ?thesis using 1 2 3 len unfolding getid_exchange_def by (auto simp: store_at_def returns_def)
    next
      case False
      then show ?thesis using 1 2 len unfolding getid_exchange_def by (auto simp: store_at_def returns_def)
    qed
  qed
  have plain: "returns (exchanged ok param) (plain_exchange io aux command param s)"
  proof -
    obtain r s1 where 1: "ps2_sendbyte io aux (ucast command) 200 s = Some (r, s1)" "ok s1" "r \<in> {0, - 1}"
      using send_or_fail [OF assms(1) timeouts(2)] by blast
    obtain r2 s2 where "send_bytes io aux 0 (send_of command) param s1 = Some (r2, s2)" "ok s2" "r2 \<in> {0, - 1}"
      using send_bytes_return [OF 1(2), of 0 "send_of command" param aux] assms(2) by (auto simp: returns_def)
    then show ?thesis
      using 1 receive_bytes_return [of s2 0 "receive_of command" param aux] assms(3)
      by (auto simp: plain_exchange_def returns_def)
  qed
  show ?thesis unfolding exchange_def using reset getid plain two by (simp only: split: if_split) blast
qed

end

text \<open>The time-stamp counter, with the controller's setting as part of the invariant.\<close>

definition ps2_ok :: "'w io \<Rightarrow> ('w \<Rightarrow> nat) \<Rightarrow> nat \<Rightarrow> u8 \<Rightarrow> ('w, 'z) ps2_mach_scheme \<Rightarrow> bool" where
  "ps2_ok io cyc k c s \<longleftrightarrow> tsc_timer io cyc k s \<and> Ps2ctr s = c"

lemma timer_read_ps2: "timer_read io s = (v, s') \<Longrightarrow> Ps2ctr s' = Ps2ctr s"
  by (auto simp: timer_read_def timer_adjust_bits_def rdtscll_def inb_def inl_def outb_def Let_def split: prod.splits if_splits)

interpretation ps2: timed_machine io cyc "2 ^ k" "ps2_ok io cyc k c" for io :: "'w io" and cyc k c
proof unfold_locales
  fix s :: "('w, 'z) ps2_mach_scheme" and v s'
  assume "ps2_ok io cyc k c s" "timer_read io s = (v, s')"
  then show "ps2_ok io cyc k c s' \<and> v = of_nat (cyc (wd s') div 2 ^ k) \<and> cyc (wd s) < cyc (wd s') \<and>
      cyc (wd s') \<le> cyc (wd s) + gap \<and> TimerKHz s' = TimerKHz s"
    using tsc.read [of io cyc k s v s'] timer_read_ps2 [of io s v s'] by (auto simp: ps2_ok_def)
qed (auto simp: ps2_ok_def tsc_timer_def tsc_clock_def)

lemma ps2_command_returns:
  assumes "ps2_ok io cyc k c s" "send_of command \<le> length param" "receive_of command \<le> length param"
  shows "returns (exchanged (ps2_ok io cyc k c) param) (ps2_command io aux command param s)"
proof -
  let ?dis = "(Ps2ctr s OR I8042_CTR_AUXDIS OR I8042_CTR_KBDDIS) AND NOT (I8042_CTR_KBDINT OR I8042_CTR_AUXINT)"
  let ?en = "?dis AND NOT (if aux then I8042_CTR_AUXDIS else I8042_CTR_KBDDIS)"
  note ctl = ps2.i8042_command_returns [of io cyc k c _ I8042_CMD_CTL_WCTR "[x]" for x, simplified]
  obtain r1 p1 s1 where 1: "i8042_command io I8042_CMD_CTL_WCTR [?dis] s = Some (r1, p1, s1)" "ps2_ok io cyc k c s1" "r1 \<in> {0, - 1}"
    using ctl [OF assms(1), of ?dis] by (auto simp: returns_def)
  have y: "ps2_ok io cyc k c (yield io s1)" using ps2.yield_ok [OF 1(2)] by blast
  obtain r2 p2 s2 where 2: "i8042_command io I8042_CMD_CTL_WCTR [?en] (yield io s1) = Some (r2, p2, s2)" "ps2_ok io cyc k c s2" "r2 \<in> {0, - 1}"
    using ctl [OF y, of ?en] by (auto simp: returns_def)
  obtain r3 p3 s3 where 3: "(if r2 \<noteq> 0 then Some (r2, param, s2) else exchange io aux command param s2) = Some (r3, p3, s3)"
    "ps2_ok io cyc k c s3" "r3 \<in> {0, - 1}" "length p3 = length param"
    using ps2.exchange_returns [OF 2(2) assms(2,3), of aux] 2(2,3) by (auto simp: returns_def)
  obtain r4 p4 s4 where "i8042_command io I8042_CMD_CTL_WCTR [Ps2ctr s] s3 = Some (r4, p4, s4)" "ps2_ok io cyc k c s4" "r4 \<in> {0, - 1}"
    using ctl [OF 3(2), of "Ps2ctr s"] by (auto simp: returns_def)
  then show ?thesis using 1 2(1) 3 by (auto simp: ps2_command_def Let_def returns_def)
qed

section \<open>Properties\<close>

text \<open>
  C20. No device can hang the firmware: a command to the keyboard or the mouse ends, whatever the controller's registers
  hold; the result is 0 or -1 and the buffer keeps its length. The driver's record of the controller's setting changes only with the
  commands that enable and disable the mouse.
\<close>

theorem ps2_commands_end:
  assumes "tsc_timer io cyc k s" "send_of command \<le> length param" "receive_of command \<le> length param"
  shows "(\<exists>ret param' s'. ps2_kbd_command io command param s = Some (ret, param', s') \<and> ret \<in> {0, - 1} \<and>
      length param' = length param \<and> tsc_timer io cyc k s' \<and> Ps2ctr s' = Ps2ctr s) \<and>
    (\<exists>ret param' s'. ps2_mouse_command io command param s = Some (ret, param', s') \<and> ret \<in> {0, - 1} \<and>
      length param' = length param \<and> tsc_timer io cyc k s' \<and>
      (command \<notin> {PSMOUSE_CMD_ENABLE, PSMOUSE_CMD_DISABLE} \<longrightarrow> Ps2ctr s' = Ps2ctr s))"
proof -
  have kbd: "ps2_ok io cyc k (Ps2ctr s) s" using assms(1) by (simp add: ps2_ok_def)
  define t where "t = (if command = PSMOUSE_CMD_ENABLE then s\<lparr>Ps2ctr := (Ps2ctr s OR I8042_CTR_AUXINT) AND NOT I8042_CTR_AUXDIS\<rparr>
      else if command = PSMOUSE_CMD_DISABLE then s\<lparr>Ps2ctr := (Ps2ctr s OR I8042_CTR_AUXDIS) AND NOT I8042_CTR_AUXINT\<rparr> else s)"
  have mouse: "ps2_ok io cyc k (Ps2ctr t) t" using assms(1) by (simp add: ps2_ok_def t_def tsc_timer_def)
  have run: "ps2_mouse_command io command param s = ps2_command io True command param t"
    by (simp add: ps2_mouse_command_def t_def)
  show ?thesis
    using ps2_command_returns [OF kbd assms(2,3), of False] ps2_command_returns [OF mouse assms(2,3), of True]
    unfolding run ps2_kbd_command_def by (fastforce simp: returns_def ps2_ok_def t_def)
qed

theorem ps2_commands_end_witness:
  "(\<exists>r. ps2_kbd_command clock_sim ATKBD_CMD_SETLEDS [2] \<lparr>TimerKHz = 5000, TimerPort = 0, ShiftTSC = 5, TimerLast = 0, wd = 0,
     Ps2ctr = 0x61, has_ps2_keyboard = True\<rparr> = Some r) \<and> send_of ATKBD_CMD_SETLEDS = 1"
proof -
  let ?s = "\<lparr>TimerKHz = 5000, TimerPort = 0, ShiftTSC = 5, TimerLast = 0, wd = 0 :: nat, Ps2ctr = 0x61, has_ps2_keyboard = True\<rparr>"
  have timer: "tsc_timer clock_sim id 5 ?s" using clock_sim_tsc by (simp add: tsc_timer_def KHZ_MAX_def)
  have n: "send_of ATKBD_CMD_SETLEDS = 1" "receive_of ATKBD_CMD_SETLEDS = 0"
    by (simp_all add: send_of_def receive_of_def ATKBD_CMD_SETLEDS_def)
  from ps2_commands_end [OF timer, of ATKBD_CMD_SETLEDS "[2]"] n show ?thesis by auto
qed

end
