(* ===== verification/Ps2_Wire.thy ===== *)
theory Ps2_Wire
  imports Ps2_Facts
begin

text \<open>
  What the PS/2 driver writes to the ports, and what the set-up of the keyboard establishes: statements on results
  that an operation returns.
\<close>

section \<open>What goes over the wire\<close>

text \<open>A condition that looking at ports and at the clock, and the other threads, keep.\<close>

definition stable :: "'w io \<Rightarrow> (('w, 'z) mach_scheme \<Rightarrow> bool) \<Rightarrow> bool" where
  "stable io P \<longleftrightarrow> (\<forall>s. P s \<longrightarrow> (\<forall>port. P (snd (inb io port s))) \<and> P (snd (timer_read io s)) \<and> P (yield io s))"

lemma stableD:
  assumes "stable io P" "P s"
  shows "inb io port s = (v, s') \<Longrightarrow> P s'" "timer_read io s = (t, s') \<Longrightarrow> P s'" "P (yield io s)"
  using assms unfolding stable_def by (metis snd_conv)+

lemma stable_check: "stable io P \<Longrightarrow> P s \<Longrightarrow> timer_check io end s = (late, s') \<Longrightarrow> P s'"
  unfolding timer_check_def using stableD(2) by (fastforce split: prod.splits)

lemma delay_loop_stable:
  assumes "timer_delay_loop io fin s = Some r" "stable io P" "P s"
  shows "P r"
proof (rule timer_delay_loop.raw_induct [where P = "\<lambda>io' e s r. io' = io \<longrightarrow> P s \<longrightarrow> P r", THEN mp, THEN mp, OF _ assms(1) refl assms(3)])
  fix loop and io' :: "'a io" and e s r
  assume IH: "\<And>io' e s r. loop io' e s = Some r \<Longrightarrow> io' = io \<longrightarrow> P s \<longrightarrow> P r"
    and step: "(case timer_check io' e s of (late, s) \<Rightarrow> if late then Some s else loop io' e s) = Some r"
  obtain late s1 where c: "timer_check io' e s = (late, s1)" by fastforce
  show "io' = io \<longrightarrow> P s \<longrightarrow> P r"
    using IH [of io' e s1 r] step c stable_check [OF assms(2), of s e late s1] by (auto split: if_splits)
qed

lemma udelay_stable:
  assumes "stable io P" "P s"
  shows "yields P (udelay io n s)"
proof -
  obtain v s1 where v: "timer_read io s = (v, s1)" by fastforce
  then show ?thesis
    using delay_loop_stable [OF _ assms(1) stableD(2) [OF assms v]] by (simp add: udelay_def timer_delay_def yields_def)
qed

lemma recvbyte_loop_stable:
  assumes "recvbyte_loop io aux needack fin s = Some r" "stable io P" "P s"
  shows "P (snd r)"
proof (rule recvbyte_loop.raw_induct [where P = "\<lambda>io' a n e s r. io' = io \<longrightarrow> P s \<longrightarrow> P (snd r)", THEN mp, THEN mp, OF _ assms(1) refl assms(3)])
  fix loop and io' :: "'a io" and a n e s r
  assume IH: "\<And>io' a n e s r. loop io' a n e s = Some r \<Longrightarrow> io' = io \<longrightarrow> P s \<longrightarrow> P (snd r)"
    and step: "(case inb io' PORT_PS2_STATUS s of (status, s) \<Rightarrow>
      case (if status AND I8042_STR_OBF \<noteq> 0
            then (case inb io' PORT_PS2_DATA s of (data, s) \<Rightarrow>
                    if ((status AND I8042_STR_AUXDATA \<noteq> 0) = a) \<and> (\<not> n \<or> data = PS2_RET_ACK \<or> data = PS2_RET_NAK)
                    then (Some data, s) else (None, s))
            else (None, s)) of
        (Some data, s) \<Rightarrow> Some (uint data, s)
      | (None, s) \<Rightarrow>
          (case timer_check io' e s of (late, s) \<Rightarrow>
             if late then Some (- 1, s) else loop io' a n e (yield io' s))) = Some r"
  obtain status s1 where 1: "inb io' PORT_PS2_STATUS s = (status, s1)" by fastforce
  obtain d s2 where 2: "inb io' PORT_PS2_DATA s1 = (d, s2)" by fastforce
  show "io' = io \<longrightarrow> P s \<longrightarrow> P (snd r)"
  proof (intro impI)
    assume io: "io' = io" and p: "P s"
    then have s12: "P s1" "P s2" using stableD(1) [OF assms(2)] 1 2 by blast+
    have wait: "P (snd r)"
      if t: "(case timer_check io e t of (late, s) \<Rightarrow> if late then Some (- 1, s) else loop io a n e (yield io s)) = Some r" and "P t" for t
    proof -
      obtain late t' where c: "timer_check io e t = (late, t')" by fastforce
      then have "P t'" using stable_check [OF assms(2) that(2)] by blast
      then show ?thesis using t c IH [of io a n e "yield io t'" r] stableD(3) [OF assms(2)] by (auto split: if_splits)
    qed
    show "P (snd r)"
      using step 1 2 s12 wait [of s1] wait [of s2] io by (auto split: if_splits)
  qed
qed

lemma ps2_recvbyte_stable:
  assumes "stable io P" "P s"
  shows "yields (\<lambda>(r, s). P s) (ps2_recvbyte io aux needack timeout s)"
proof -
  obtain v s1 where v: "timer_read io s = (v, s1)" by fastforce
  then show ?thesis
    using recvbyte_loop_stable [OF _ assms(1) stableD(2) [OF assms v]]
    by (auto simp: ps2_recvbyte_def timer_calc_def yields_def)
qed

lemma wait_loops_stable:
  assumes "stable io P"
  shows "P s \<Longrightarrow> yields (\<lambda>(r, s). P s) (wait_read_loop io n s)" "P s \<Longrightarrow> yields (\<lambda>(r, s). P s) (wait_write_loop io n s)"
proof (induction n arbitrary: s)
  case (Suc n)
  {
    case 1
    obtain v s1 where v: "inb io PORT_PS2_STATUS s = (v, s1)" by fastforce
    note p = stableD(1) [OF assms 1 v]
    show ?case using v p yields_bind_of [OF udelay_stable [OF assms p], of _ "wait_read_loop io n"] Suc.IH(1) by simp
  next
    case 2
    obtain v s1 where v: "inb io PORT_PS2_STATUS s = (v, s1)" by fastforce
    note p = stableD(1) [OF assms 2 v]
    show ?case using v p yields_bind_of [OF udelay_stable [OF assms p], of _ "wait_write_loop io n"] Suc.IH(2) by simp
  }
qed simp_all

section \<open>The trace of the ports\<close>

text \<open>A world that records what is written to ports: writes append to \<open>log\<close>, nothing else changes it.\<close>

definition port_log :: "'w io \<Rightarrow> ('w \<Rightarrow> (u16 \<times> u8) list) \<Rightarrow> bool" where
  "port_log io log \<longleftrightarrow> (\<forall>v p w. log (io_outb io v p w) = log w @ [(p, v)]) \<and> (\<forall>p w. log (snd (io_inb io p w)) = log w) \<and>
     (\<forall>w. log (snd (io_rdtsc io w)) = log w) \<and> (\<forall>w. log (io_yield io w) = log w)"

definition logged :: "('w \<Rightarrow> (u16 \<times> u8) list) \<Rightarrow> (u16 \<times> u8) list \<Rightarrow> ('w, 'z) mach_scheme \<Rightarrow> bool" where
  "logged log l s \<longleftrightarrow> TimerPort s = 0 \<and> log (wd s) = l"

lemma logged_stable: "port_log io log \<Longrightarrow> stable io (logged log l)"
  by (auto simp: port_log_def logged_def stable_def inb_def yield_def timer_read_def rdtscll_def split: prod.splits)
    (metis snd_conv)+

lemma logged_outb: "port_log io log \<Longrightarrow> logged log l s \<Longrightarrow> logged log (l @ [(p, v)]) (outb io v p s)"
  by (auto simp: port_log_def logged_def outb_def)

lemma wait_write_logged:
  assumes "port_log io log" "logged log l s"
  shows "yields (\<lambda>(r, s). logged log l s) (i8042_wait_write io s)"
  unfolding i8042_wait_write_def by (rule wait_loops_stable(2) [OF logged_stable [OF assms(1)] assms(2)])

text \<open>What a successful setting of the controller has written.\<close>

abbreviation ctl_bytes :: "u8 \<Rightarrow> (u16 \<times> u8) list" where
  "ctl_bytes v \<equiv> [(PORT_PS2_STATUS, 0x60), (PORT_PS2_DATA, v)]"

lemma ctl_logged:
  assumes "port_log io log" "logged log l s"
  shows "yields (\<lambda>(r, p, s). r = 0 \<longrightarrow> logged log (l @ ctl_bytes v) s) (i8042_command io I8042_CMD_CTL_WCTR [v] s)"
  unfolding yields_def
proof (intro allI impI)
  fix x assume "i8042_command io I8042_CMD_CTL_WCTR [v] s = Some x"
  then obtain r1 s1 where 1: "i8042_wait_write io s = Some (r1, s1)"
    and rest: "(if r1 \<noteq> 0 then Some (r1, [v], s1) else Option.bind (i8042_wait_write io (outb io (ucast I8042_CMD_CTL_WCTR) PORT_PS2_STATUS s1))
      (\<lambda>(ret, s). if ret \<noteq> 0 then Some (ret, [v], s) else Some (0, [v], outb io v PORT_PS2_DATA s))) = Some x"
    by (auto simp: i8042_command_def Let_def bind_eq_Some_conv numeral_eq_Suc arr_get_def split: if_splits)
  have s1: "logged log (l @ [(PORT_PS2_STATUS, 0x60)]) (outb io (ucast I8042_CMD_CTL_WCTR) PORT_PS2_STATUS s1)"
  proof -
    have "(ucast I8042_CMD_CTL_WCTR :: u8) = 0x60" by (simp add: I8042_CMD_CTL_WCTR_def)
    then show ?thesis
      using yieldsD [OF wait_write_logged [OF assms] 1] logged_outb [OF assms(1), of l s1 PORT_PS2_STATUS "0x60"] by simp
  qed
  show "case x of (r, p, s) \<Rightarrow> r = 0 \<longrightarrow> logged log (l @ ctl_bytes v) s"
  proof (cases "r1 = 0")
    case True
    then obtain r2 s2 where 2: "i8042_wait_write io (outb io (ucast I8042_CMD_CTL_WCTR) PORT_PS2_STATUS s1) = Some (r2, s2)"
      "x = (if r2 \<noteq> 0 then (r2, [v], s2) else (0, [v], outb io v PORT_PS2_DATA s2))"
      using rest by (auto simp: bind_eq_Some_conv split: if_splits)
    have "logged log (l @ [(PORT_PS2_STATUS, 0x60)]) s2" using yieldsD [OF wait_write_logged [OF assms(1) s1] 2(1)] by simp
    from logged_outb [OF assms(1) this, of PORT_PS2_DATA v] show ?thesis using 2(2) by auto
  qed (use rest in auto)
qed

text \<open>Bytes for the keyboard go to the data port.\<close>

lemma sendbyte_logged:
  assumes "port_log io log" "logged log l s"
  shows "yields (\<lambda>(r, s). r = 0 \<longrightarrow> logged log (l @ [(PORT_PS2_DATA, c)]) s) (ps2_sendbyte io False c timeout s)"
  unfolding yields_def
proof (intro allI impI)
  fix x assume "ps2_sendbyte io False c timeout s = Some x"
  then obtain r1 s1 where 1: "i8042_wait_write io s = Some (r1, s1)"
    and rest: "r1 = 0 \<Longrightarrow> \<exists>r2 s2. ps2_recvbyte io False True timeout (outb io c PORT_PS2_DATA s1) = Some (r2, s2) \<and>
        x = (if r2 < 0 then r2 else if r2 \<noteq> uint PS2_RET_ACK then - 1 else 0, s2)" "r1 \<noteq> 0 \<Longrightarrow> x = (r1, s1)"
    by (auto simp: ps2_sendbyte_def i8042_kbd_write_def bind_eq_Some_conv split: if_splits)
  have "logged log (l @ [(PORT_PS2_DATA, c)]) (outb io c PORT_PS2_DATA s1)"
    using logged_outb [OF assms(1)] yieldsD [OF wait_write_logged [OF assms] 1] by simp
  note recv = ps2_recvbyte_stable [OF logged_stable [OF assms(1)] this, of False True timeout]
  show "case x of (r, s) \<Rightarrow> r = 0 \<longrightarrow> logged log (l @ [(PORT_PS2_DATA, c)]) s"
  proof (cases "r1 = 0")
    case True
    then obtain r2 s2 where 2: "ps2_recvbyte io False True timeout (outb io c PORT_PS2_DATA s1) = Some (r2, s2)" "snd x = s2"
      using rest(1) by auto
    show ?thesis using yieldsD [OF recv 2(1)] 2(2) by auto
  qed (use rest(2) in auto)
qed

lemma send_bytes_logged:
  assumes "port_log io log"
  shows "logged log l s \<Longrightarrow> yields (\<lambda>(r, s). r = 0 \<longrightarrow> logged log (l @ map (Pair PORT_PS2_DATA) (take n (drop i param))) s)
    (send_bytes io False i n param s)"
proof (induction n arbitrary: i l s)
  case (Suc n)
  have "yields (\<lambda>(r, s). r = 0 \<longrightarrow> logged log (l @ map (Pair PORT_PS2_DATA) (take (Suc n) (drop i param))) s)
      (case x of (ret, s) \<Rightarrow> if ret \<noteq> 0 then Some (ret, s) else send_bytes io False (i + 1) n param s)"
    if i: "i < length param" and x: "ps2_sendbyte io False (param ! i) 200 s = Some x" for x
  proof -
    obtain r1 s1 where r: "x = (r1, s1)" by fastforce
    have "r1 = 0 \<longrightarrow> logged log (l @ [(PORT_PS2_DATA, param ! i)]) s1"
      using yieldsD [OF sendbyte_logged [OF assms Suc.prems] x] r by simp
    then show ?thesis
      using Suc.IH [of "l @ [(PORT_PS2_DATA, param ! i)]" s1 "i + 1"] i r
      by (auto simp: Cons_nth_drop_Suc [symmetric] yields_def)
  qed
  then show ?case by (auto simp: arr_get_def intro!: yields_bind)
qed simp

lemma receive_bytes_stable:
  assumes "stable io P"
  shows "P s \<Longrightarrow> yields (\<lambda>(r, p, s). P s) (receive_bytes io aux i n param s)"
proof (induction n arbitrary: i s param)
  case (Suc n)
  have "yields (\<lambda>(r, p, s). P s) (case x of (ret, s) \<Rightarrow> if ret < 0 then Some (ret, param, s)
      else do { param \<leftarrow> store_at i (word_of_int ret) param; receive_bytes io aux (i + 1) n param s })"
    if x: "ps2_recvbyte io aux False 500 s = Some x" for x
  proof -
    obtain r1 s1 where r: "x = (r1, s1)" by fastforce
    have "P s1" using yieldsD [OF ps2_recvbyte_stable [OF assms Suc.prems] x] r by simp
    then show ?thesis using r Suc.IH by (auto simp: store_at_def)
  qed
  then show ?case unfolding receive_bytes.simps by (rule yields_bind)
qed simp

text \<open>A whole exchange with the keyboard: the command byte and its parameters.\<close>

lemma exchange_logged:
  assumes "port_log io log" "logged log l s"
  shows "yields (\<lambda>(r, p, s). r = 0 \<longrightarrow> logged log (l @ map (Pair PORT_PS2_DATA) (ucast command # take (send_of command) param)) s)
    (exchange io False command param s)"
proof -
  let ?l = "l @ [(PORT_PS2_DATA, ucast command)]"
  note st = logged_stable [OF assms(1)]
  have sent: "r = 0 \<longrightarrow> logged log ?l s1" if "ps2_sendbyte io False (ucast command) t s = Some (r, s1)" for t r s1
    using yieldsD [OF sendbyte_logged [OF assms] that] by simp
  have got: "logged log m s2" if "ps2_recvbyte io False False t s1 = Some (r, s2)" "logged log m s1" for t r s1 s2 m
    using yieldsD [OF ps2_recvbyte_stable [OF st that(2)] that(1)] by simp
  have none: "send_of ATKBD_CMD_RESET_BAT = 0" "send_of ATKBD_CMD_GETID = 0"
    by (simp_all add: send_of_def ATKBD_CMD_RESET_BAT_def ATKBD_CMD_GETID_def)
  have reset: "yields (\<lambda>(r, p, s). r = 0 \<longrightarrow> logged log ?l s) (reset_exchange io False command param s)"
    unfolding yields_def reset_exchange_def
    by (auto simp: bind_eq_Some_conv store_at_def split: if_splits dest!: sent dest: got)
  have getid: "yields (\<lambda>(r, p, s). r = 0 \<longrightarrow> logged log ?l s) (getid_exchange io False command param s)"
    unfolding yields_def getid_exchange_def
    by (auto simp: bind_eq_Some_conv store_at_def split: if_splits dest!: sent dest: got)
  have plain: "yields (\<lambda>(r, p, s). r = 0 \<longrightarrow> logged log (?l @ map (Pair PORT_PS2_DATA) (take (send_of command) param)) s)
      (plain_exchange io False command param s)"
    unfolding yields_def
  proof (intro allI impI)
    fix x assume "plain_exchange io False command param s = Some x"
    then obtain r1 s1 where 1: "ps2_sendbyte io False (ucast command) 200 s = Some (r1, s1)"
      and rest: "r1 \<noteq> 0 \<Longrightarrow> x = (r1, param, s1)" "r1 = 0 \<Longrightarrow> \<exists>r2 s2. send_bytes io False 0 (send_of command) param s1 = Some (r2, s2) \<and>
        (if r2 \<noteq> 0 then Some (r2, param, s2) else receive_bytes io False 0 (receive_of command) param s2) = Some x"
      by (auto simp: plain_exchange_def bind_eq_Some_conv split: if_splits)
    show "case x of (r, p, s) \<Rightarrow> r = 0 \<longrightarrow> logged log (?l @ map (Pair PORT_PS2_DATA) (take (send_of command) param)) s"
    proof (cases "r1 = 0")
      case True
      then obtain r2 s2 where 2: "send_bytes io False 0 (send_of command) param s1 = Some (r2, s2)"
        "(if r2 \<noteq> 0 then Some (r2, param, s2) else receive_bytes io False 0 (receive_of command) param s2) = Some x"
        using rest(2) by blast
      have "r2 = 0 \<longrightarrow> logged log (?l @ map (Pair PORT_PS2_DATA) (take (send_of command) param)) s2"
        using yieldsD [OF send_bytes_logged [OF assms(1)] 2(1)] sent [OF 1] True by fastforce
      then show ?thesis
        using 2(2) receive_bytes_stable [OF logged_stable [OF assms(1)], of _ s2 False 0 "receive_of command" param]
        by (cases "r2 = 0") (auto simp: yields_def)
    qed (use rest(1) in auto)
  qed
  show ?thesis using reset getid plain none by (auto simp: exchange_def)
qed

lemma yield_logged: "port_log io log \<Longrightarrow> logged log l s \<Longrightarrow> logged log l (yield io s)"
  using stableD(3) [OF logged_stable] by blast

section \<open>Properties\<close>

text \<open>
  C28. What a successful command to the keyboard sends, byte for byte and in order: the controller is set so that both devices
  and their interrupts are off, then the keyboard's port is opened, the command and its parameters follow, and at last the controller
  gets back the setting it had.
\<close>

theorem keyboard_command_bytes:
  assumes "port_log io log" "TimerPort s = 0" "ps2_kbd_command io command param s = Some (0, param', s')"
  shows "let off = (Ps2ctr s OR I8042_CTR_AUXDIS OR I8042_CTR_KBDDIS) AND NOT (I8042_CTR_KBDINT OR I8042_CTR_AUXINT) in
    log (wd s') = log (wd s) @ ctl_bytes off @ ctl_bytes (off AND NOT I8042_CTR_KBDDIS) @
      map (Pair PORT_PS2_DATA) (ucast command # take (send_of command) param) @ ctl_bytes (Ps2ctr s)"
proof -
  let ?off = "(Ps2ctr s OR I8042_CTR_AUXDIS OR I8042_CTR_KBDDIS) AND NOT (I8042_CTR_KBDINT OR I8042_CTR_AUXINT)"
  let ?on = "?off AND NOT I8042_CTR_KBDDIS"
  have s: "logged log (log (wd s)) s" using assms(2) by (simp add: logged_def)
  obtain p1 s1 p2 s2 p4 where 1: "i8042_command io I8042_CMD_CTL_WCTR [?off] s = Some (0, p1, s1)"
    and 2: "i8042_command io I8042_CMD_CTL_WCTR [?on] (yield io s1) = Some (0, p2, s2)"
    and rest: "\<exists>s3. exchange io False command param s2 = Some (0, param', s3) \<and>
      i8042_command io I8042_CMD_CTL_WCTR [Ps2ctr s] s3 = Some (0, p4, s')"
    using assms(3) by (auto simp: ps2_kbd_command_def ps2_command_def Let_def bind_eq_Some_conv split: if_splits)
  have s1: "logged log (log (wd s) @ ctl_bytes ?off) s1" using yieldsD [OF ctl_logged [OF assms(1) s] 1] by simp
  have s2: "logged log ((log (wd s) @ ctl_bytes ?off) @ ctl_bytes ?on) s2"
    using yieldsD [OF ctl_logged [OF assms(1) yield_logged [OF assms(1) s1]] 2] by simp
  obtain s3 where 3: "exchange io False command param s2 = Some (0, param', s3)"
    and 4: "i8042_command io I8042_CMD_CTL_WCTR [Ps2ctr s] s3 = Some (0, p4, s')" using rest by blast
  have s3: "logged log (((log (wd s) @ ctl_bytes ?off) @ ctl_bytes ?on) @
      map (Pair PORT_PS2_DATA) (ucast command # take (send_of command) param)) s3"
    using yieldsD [OF exchange_logged [OF assms(1) s2] 3] by simp
  show ?thesis using yieldsD [OF ctl_logged [OF assms(1) s3] 4] by (simp add: logged_def Let_def)
qed

text \<open>A keyboard that acknowledges everything: the world is the time and the trace.\<close>

definition keyboard_sim :: "(nat \<times> (u16 \<times> u8) list) io" where
  "keyboard_sim =
     \<lparr>io_inb = (\<lambda>port (t, l). (if port = PORT_PS2_STATUS then I8042_STR_OBF else PS2_RET_ACK, t + 400, l)),
      io_inl = (\<lambda>port (t, l). (0, t + 400, l)), io_outb = (\<lambda>v port (t, l). (t + 400, l @ [(port, v)])),
      io_outl = (\<lambda>v port (t, l). (t + 400, l)), io_rdtsc = (\<lambda>(t, l). (of_nat (t + 20), t + 20, l)),
      io_cr0 = (\<lambda>w. 0), io_setcr0 = (\<lambda>v w. w), io_wbinvd = (\<lambda>w. w), io_yield = (\<lambda>(t, l). (t + 1000, l)),
      io_yield_toirq = (\<lambda>(t, l). (t + 1000, l)), io_timer_counter = (\<lambda>w. 0), io_call16 = (\<lambda>nr r w. (r, w))\<rparr>"

definition ps2_start :: "(nat \<times> (u16 \<times> u8) list) ps2_mach" where
  "ps2_start = \<lparr>TimerKHz = 5000, TimerPort = 0, ShiftTSC = 5, TimerLast = 0, wd = (0, []), Ps2ctr = 0x61, has_ps2_keyboard = True\<rparr>"

lemma keyboard_sim_log: "port_log keyboard_sim snd"
  by (auto simp: port_log_def keyboard_sim_def split: prod.splits)

definition tick :: "(nat \<times> (u16 \<times> u8) list, 'z) mach_scheme \<Rightarrow> (nat \<times> (u16 \<times> u8) list, 'z) mach_scheme" where
  "tick s = s\<lparr>wd := (fst (wd s) + 400, snd (wd s))\<rparr>"

lemma keyboard_sim_ports:
  "inb keyboard_sim PORT_PS2_STATUS s = (1, tick s)" "inb keyboard_sim PORT_PS2_DATA s = (PS2_RET_ACK, tick s)"
  by (simp_all add: inb_def keyboard_sim_def tick_def PORT_PS2_DATA_def PORT_PS2_STATUS_def I8042_STR_OBF_def split: prod.split)

lemma keyboard_sim_free: "i8042_wait_write keyboard_sim s = Some (0, tick s)"
proof -
  have "wait_write_loop keyboard_sim (Suc n) s = Some (0, tick s)" for n
    by (simp add: keyboard_sim_ports I8042_STR_IBF_def)
  from this [of 9999] show ?thesis by (simp add: i8042_wait_write_def I8042_CTL_TIMEOUT_def)
qed

lemma keyboard_sim_sends: "\<exists>s'. ps2_sendbyte keyboard_sim False c t s = Some (0, s')"
proof -
  have "recvbyte_loop keyboard_sim False True e s = Some (uint PS2_RET_ACK, tick (tick s))" for e and s :: "(nat \<times> (u16 \<times> u8) list, 'a) mach_scheme"
    by (subst recvbyte_loop.simps) (simp add: keyboard_sim_ports I8042_STR_OBF_def I8042_STR_AUXDATA_def)
  then show ?thesis
    by (simp add: ps2_sendbyte_def i8042_kbd_write_def keyboard_sim_free ps2_recvbyte_def PS2_RET_ACK_def split: prod.split)
qed

lemma keyboard_sim_ctl: "\<exists>s'. i8042_command keyboard_sim I8042_CMD_CTL_WCTR [v] s = Some (0, [v], s')"
  by (simp add: i8042_command_def Let_def keyboard_sim_free numeral_eq_Suc arr_get_def)

theorem keyboard_command_bytes_witness:
  "\<exists>param' s'. ps2_kbd_command keyboard_sim ATKBD_CMD_SETLEDS [0x02] ps2_start = Some (0, param', s') \<and>
     snd (wd s') = [(0x64, 0x60), (0x60, 0x70), (0x64, 0x60), (0x60, 0x60), (0x60, 0xed), (0x60, 0x02), (0x64, 0x60), (0x60, 0x61)]"
proof -
  let ?off = "(Ps2ctr ps2_start OR I8042_CTR_AUXDIS OR I8042_CTR_KBDDIS) AND NOT (I8042_CTR_KBDINT OR I8042_CTR_AUXINT)"
  obtain s1 where 1: "i8042_command keyboard_sim I8042_CMD_CTL_WCTR [?off] ps2_start = Some (0, [?off], s1)"
    using keyboard_sim_ctl by blast
  obtain s2 where 2: "i8042_command keyboard_sim I8042_CMD_CTL_WCTR [?off AND NOT I8042_CTR_KBDDIS] (yield keyboard_sim s1) =
      Some (0, [?off AND NOT I8042_CTR_KBDDIS], s2)"
    using keyboard_sim_ctl by blast
  obtain s3 where 3: "ps2_sendbyte keyboard_sim False (ucast ATKBD_CMD_SETLEDS) 200 s2 = Some (0, s3)" using keyboard_sim_sends by blast
  obtain s4 where 4: "ps2_sendbyte keyboard_sim False 0x02 200 s3 = Some (0, s4)" using keyboard_sim_sends by blast
  obtain s5 where 5: "i8042_command keyboard_sim I8042_CMD_CTL_WCTR [Ps2ctr ps2_start] s4 = Some (0, [Ps2ctr ps2_start], s5)"
    using keyboard_sim_ctl by blast
  have n: "send_of ATKBD_CMD_SETLEDS = 1" "receive_of ATKBD_CMD_SETLEDS = 0"
    "ATKBD_CMD_SETLEDS \<noteq> ATKBD_CMD_RESET_BAT" "ATKBD_CMD_SETLEDS \<noteq> ATKBD_CMD_GETID"
    by (simp_all add: send_of_def receive_of_def ATKBD_CMD_SETLEDS_def ATKBD_CMD_RESET_BAT_def ATKBD_CMD_GETID_def)
  have "exchange keyboard_sim False ATKBD_CMD_SETLEDS [0x02] s2 = Some (0, [0x02], s4)"
    using 3 4 by (simp add: exchange_def n plain_exchange_def arr_get_def)
  then have run: "ps2_kbd_command keyboard_sim ATKBD_CMD_SETLEDS [0x02] ps2_start = Some (0, [0x02], s5)"
    using 1 2 5 by (simp add: ps2_kbd_command_def ps2_command_def Let_def)
  have "TimerPort ps2_start = 0" by (simp add: ps2_start_def)
  from keyboard_command_bytes [OF keyboard_sim_log this run] run show ?thesis
    by (simp add: Let_def n ps2_start_def I8042_CTR_AUXDIS_def I8042_CTR_KBDDIS_def I8042_CTR_KBDINT_def I8042_CTR_AUXINT_def
        PORT_PS2_STATUS_def PORT_PS2_DATA_def ATKBD_CMD_SETLEDS_def send_of_def)
qed

section \<open>What commands leave alone\<close>

text \<open>A condition on the state that reading and writing ports, the clock and the other threads keep.\<close>

locale ps2_frame =
  fixes io :: "'w io" and P :: "('w, 'z) mach_scheme \<Rightarrow> bool"
  assumes stable: "stable io P" and outb: "P s \<Longrightarrow> P (outb io v p s)"
begin

lemma wait_write: "i8042_wait_write io s = Some (r, s') \<Longrightarrow> P s \<Longrightarrow> P s'"
  using yieldsD [OF wait_loops_stable(2) [OF stable], of s I8042_CTL_TIMEOUT "(r, s')"] by (simp add: i8042_wait_write_def)

lemma wait_read: "i8042_wait_read io s = Some (r, s') \<Longrightarrow> P s \<Longrightarrow> P s'"
  using yieldsD [OF wait_loops_stable(1) [OF stable], of s I8042_CTL_TIMEOUT "(r, s')"] by (simp add: i8042_wait_read_def)

lemma flush:
  assumes "i8042_flush io s = Some (r, s')" "P s"
  shows "P s'"
proof -
  have "P s \<Longrightarrow> flush_loop io n s = Some (r, s') \<Longrightarrow> P s'" for n
  proof (induction n arbitrary: s)
    case (Suc n)
    obtain v s1 where 1: "inb io PORT_PS2_STATUS s = (v, s1)" by fastforce
    note s1 = stableD(1) [OF stable Suc.prems(1) 1]
    show ?case
    proof (cases "v AND I8042_STR_OBF = 0")
      case False
      then obtain s2 where 2: "udelay io 50 s1 = Some s2" using Suc.prems(2) 1 by (auto simp: bind_eq_Some_conv)
      obtain d s3 where 3: "inb io PORT_PS2_DATA s2 = (d, s3)" by fastforce
      have "P s3" using stableD(1) [OF stable yieldsD [OF udelay_stable [OF stable s1] 2] 3] .
      then show ?thesis using Suc.IH [of s3] Suc.prems(2) 1 2 3 False by simp
    qed (use Suc.prems(2) 1 s1 in simp)
  qed simp
  then show ?thesis using assms by (simp add: i8042_flush_def)
qed

lemma recv: "ps2_recvbyte io aux needack t s = Some (r, s') \<Longrightarrow> P s \<Longrightarrow> P s'"
  using yieldsD [OF ps2_recvbyte_stable [OF stable], of s aux needack t "(r, s')"] by simp

lemma send_params: "send_params io i n param s = Some (r, s') \<Longrightarrow> P s \<Longrightarrow> P s'"
proof (induction n arbitrary: i s)
  case (Suc n)
  obtain r1 s1 where 1: "i8042_wait_write io s = Some (r1, s1)" using Suc.prems(1) by (auto simp: bind_eq_Some_conv)
  have "P s1" by (rule wait_write [OF 1 Suc.prems(2)])
  then show ?case using Suc.prems(1) 1 Suc.IH outb by (auto simp: bind_eq_Some_conv split: if_splits)
qed simp

lemma receive_params: "receive_params io i n param s = Some (r, p, s') \<Longrightarrow> P s \<Longrightarrow> P s'"
proof (induction n arbitrary: i s param)
  case (Suc n)
  obtain r1 s1 where 1: "i8042_wait_read io s = Some (r1, s1)" using Suc.prems(1) by (auto simp: bind_eq_Some_conv)
  obtain v s2 where 2: "inb io PORT_PS2_DATA s1 = (v, s2)" by fastforce
  have p: "P s1" by (rule wait_read [OF 1 Suc.prems(2)])
  then have "P s2" using stableD(1) [OF stable _ 2] by blast
  then show ?case using Suc.prems(1) 1 2 p Suc.IH by (auto simp: bind_eq_Some_conv split: if_splits)
qed simp

lemma command:
  assumes "i8042_command io command param s = Some (r, p, s')" "P s"
  shows "P s'"
proof -
  obtain r1 s1 where 1: "i8042_wait_write io s = Some (r1, s1)" using assms(1) by (auto simp: i8042_command_def bind_eq_Some_conv)
  have p: "P s1" by (rule wait_write [OF 1 assms(2)])
  show ?thesis
  proof (cases "r1 = 0")
    case True
    then obtain r2 s2 where 2: "send_params io 0 (send_of command) param (outb io (ucast command) PORT_PS2_STATUS s1) = Some (r2, s2)"
      and rest: "(if r2 \<noteq> 0 then Some (r2, param, s2) else receive_params io 0 (receive_of command) param s2) = Some (r, p, s')"
      using assms(1) 1 by (auto simp: i8042_command_def bind_eq_Some_conv Let_def split: if_splits)
    have "P s2" by (rule send_params [OF 2 outb [OF p]])
    then show ?thesis using rest receive_params [of 0 "receive_of command" param s2 r p s'] by (auto split: if_splits)
  qed (use assms(1) 1 p in \<open>auto simp: i8042_command_def\<close>)
qed

lemma sendbyte:
  assumes "ps2_sendbyte io aux c t s = Some (r, s')" "P s"
  shows "P s'"
proof -
  obtain r1 s1 where 1: "(if aux then i8042_aux_write io c s else i8042_kbd_write io c s) = Some (r1, s1)"
    using assms(1) by (auto simp: ps2_sendbyte_def bind_eq_Some_conv split: if_splits)
  have "P s1"
  proof (cases aux)
    case True
    then obtain r p where "i8042_command io I8042_CMD_AUX_SEND [c] s = Some (r, p, s1)" using 1 by (auto simp: i8042_aux_write_def)
    then show ?thesis using command assms(2) by blast
  next
    case False
    then obtain s2 where "i8042_wait_write io s = Some (r1, s2)" "s1 = (if r1 = 0 then outb io c PORT_PS2_DATA s2 else s2)"
      using 1 by (auto simp: i8042_kbd_write_def bind_eq_Some_conv)
    then show ?thesis using wait_write assms(2) outb by auto
  qed
  show ?thesis
  proof (cases "r1 = 0")
    case True
    then obtain r2 where "ps2_recvbyte io aux True t s1 = Some (r2, s')" using assms(1) 1 by (auto simp: ps2_sendbyte_def bind_eq_Some_conv)
    then show ?thesis using recv \<open>P s1\<close> by blast
  qed (use assms(1) 1 \<open>P s1\<close> in \<open>auto simp: ps2_sendbyte_def\<close>)
qed

lemma send_bytes: "send_bytes io aux i n param s = Some (r, s') \<Longrightarrow> P s \<Longrightarrow> P s'"
proof (induction n arbitrary: i s)
  case (Suc n)
  obtain v r1 s1 where 1: "arr_get param (int i) = Some v" "ps2_sendbyte io aux v 200 s = Some (r1, s1)"
    using Suc.prems(1) by (auto simp: bind_eq_Some_conv)
  have "P s1" by (rule sendbyte [OF 1(2) Suc.prems(2)])
  then show ?case using Suc.prems(1) 1 Suc.IH by (auto split: if_splits)
qed simp

lemma receive_bytes: "receive_bytes io aux i n param s = Some (r, p, s') \<Longrightarrow> P s \<Longrightarrow> P s'"
  using receive_bytes_stable [OF stable, of s aux i n param] by (auto dest: yieldsD)

lemma exchange:
  assumes "exchange io aux command param s = Some (r, p, s')" "P s"
  shows "P s'"
proof -
  have "P s'" if "reset_exchange io aux command param s = Some (r, p, s')"
    using that assms(2) unfolding reset_exchange_def
    by (auto simp: bind_eq_Some_conv split: if_splits dest!: sendbyte dest: recv)
  moreover have "P s'" if "getid_exchange io aux command param s = Some (r, p, s')"
    using that assms(2) unfolding getid_exchange_def
    by (auto simp: bind_eq_Some_conv split: if_splits dest!: sendbyte dest: recv)
  moreover have "P s'" if "plain_exchange io aux command param s = Some (r, p, s')"
    using that assms(2) unfolding plain_exchange_def
    by (auto simp: bind_eq_Some_conv split: if_splits dest!: sendbyte send_bytes dest: receive_bytes)
  ultimately show ?thesis using assms(1) by (auto simp: exchange_def split: if_splits)
qed

end

text \<open>The two variables of the driver.\<close>

definition vars_are :: "u8 \<Rightarrow> bool \<Rightarrow> ('w, 'z) ps2_mach_scheme \<Rightarrow> bool" where
  "vars_are c h s \<longleftrightarrow> Ps2ctr s = c \<and> has_ps2_keyboard s = h"

lemma timer_read_vars: "timer_read io s = (v, s') \<Longrightarrow> vars_are c h s' = vars_are c h s"
  by (auto simp: vars_are_def timer_read_def timer_adjust_bits_def rdtscll_def inb_def inl_def outb_def Let_def split: prod.splits if_splits)

interpretation vars: ps2_frame io "vars_are c h" for io :: "'w io" and c h
proof unfold_locales
  have "vars_are c h (snd (timer_read io s)) = vars_are c h s" for s :: "('w, 'z) ps2_mach_scheme"
    using timer_read_vars [of io s "fst (timer_read io s)" "snd (timer_read io s)"] by simp
  then show "stable io (vars_are c h)"
    unfolding stable_def by (auto simp: vars_are_def inb_def yield_def split: prod.split)
qed (simp add: vars_are_def outb_def)

lemma ps2_command_vars:
  assumes "ps2_command io aux command param s = Some (r, p, s')" "vars_are c h s"
  shows "vars_are c h s'"
proof -
  let ?off = "(Ps2ctr s OR I8042_CTR_AUXDIS OR I8042_CTR_KBDDIS) AND NOT (I8042_CTR_KBDINT OR I8042_CTR_AUXINT)"
  let ?on = "?off AND NOT (if aux then I8042_CTR_AUXDIS else I8042_CTR_KBDDIS)"
  obtain r1 p1 s1 where 1: "i8042_command io I8042_CMD_CTL_WCTR [?off] s = Some (r1, p1, s1)"
    using assms(1) by (auto simp: ps2_command_def Let_def bind_eq_Some_conv)
  have s1: "vars_are c h s1" by (rule vars.command [OF 1 assms(2)])
  show ?thesis
  proof (cases "r1 = 0")
    case True
    have s1y: "vars_are c h (yield io s1)" using s1 by (simp add: vars_are_def yield_def)
    obtain r2 p2 s2 where 2: "i8042_command io I8042_CMD_CTL_WCTR [?on] (yield io s1) = Some (r2, p2, s2)"
      and rest: "Option.bind (if r2 \<noteq> 0 then Some (r2, param, s2) else exchange io aux command param s2)
        (\<lambda>(ret, param, t). Option.bind (i8042_command io I8042_CMD_CTL_WCTR [Ps2ctr s] t)
          (\<lambda>(ret2, _, t). Some (if ret2 \<noteq> 0 then ret2 else ret, param, t))) = Some (r, p, s')"
      using assms(1) 1 True unfolding ps2_command_def Let_def by (auto simp: bind_eq_Some_conv simp del: if_split)
    have s2: "vars_are c h s2" by (rule vars.command [OF 2 s1y])
    obtain r3 p3 s3 where 3: "(if r2 \<noteq> 0 then Some (r2, param, s2) else exchange io aux command param s2) = Some (r3, p3, s3)"
      and last: "\<exists>r4 p4. i8042_command io I8042_CMD_CTL_WCTR [Ps2ctr s] s3 = Some (r4, p4, s')"
      using rest by (auto simp: bind_eq_Some_conv split del: if_split)
    have "vars_are c h s3" using 3 s2 vars.exchange by (auto split: if_splits)
    then show ?thesis using last vars.command by blast
  qed (use assms(1) 1 s1 in \<open>auto simp: ps2_command_def Let_def\<close>)
qed

lemma kbd_command_vars:
  "ps2_kbd_command io command param s = Some (r, p, s') \<Longrightarrow> vars_are c h s \<Longrightarrow> vars_are c h s'"
  unfolding ps2_kbd_command_def by (rule ps2_command_vars)

lemma check_vars: "timer_check io e s = (late, s') \<Longrightarrow> vars_are c h s \<Longrightarrow> vars_are c h s'"
  by (rule stable_check [OF vars.stable])

lemma spinup_vars:
  assumes "spinup_loop io e param s = Some r" "vars_are c h s"
  shows "vars_are c h (snd (snd r))"
proof (rule spinup_loop.raw_induct [where P = "\<lambda>io' e param s r. io' = io \<longrightarrow> vars_are c h s \<longrightarrow> vars_are c h (snd (snd r))",
      THEN mp, THEN mp, OF _ assms(1) refl assms(2)])
  fix loop and io' :: "'a io" and e param s r
  assume IH: "\<And>io' e param s r. loop io' e param s = Some r \<Longrightarrow> io' = io \<longrightarrow> vars_are c h s \<longrightarrow> vars_are c h (snd (snd r))"
    and step: "do {
       (ret, param, s) \<leftarrow> ps2_kbd_command io' ATKBD_CMD_RESET_BAT param s;
       if ret = 0 then Some (0, param, s)
       else (case timer_check io' e s of (late, s) \<Rightarrow> if late then Some (ret, param, s) else loop io' e param (yield io' s))
     } = Some r"
  show "io' = io \<longrightarrow> vars_are c h s \<longrightarrow> vars_are c h (snd (snd r))"
  proof (intro impI)
    assume io: "io' = io" and s: "vars_are c h s"
    obtain r1 p1 s1 where 1: "ps2_kbd_command io ATKBD_CMD_RESET_BAT param s = Some (r1, p1, s1)"
      using step io by (auto simp: bind_eq_Some_conv)
    have s1: "vars_are c h s1" by (rule kbd_command_vars [OF 1 s])
    obtain late s2 where 2: "timer_check io e s1 = (late, s2)" by fastforce
    have s2: "vars_are c h s2" by (rule check_vars [OF 2 s1])
    then have "vars_are c h (yield io s2)" by (simp add: vars_are_def yield_def)
    then show "vars_are c h (snd (snd r))" using step io 1 2 s1 s2 IH [of io e p1 "yield io s2" r] by (auto split: if_splits)
  qed
qed

section \<open>What the set-up leaves\<close>

text \<open>The values that the set-up gives to the controller's setting: both devices off, and the keyboard with its interrupt.\<close>

abbreviation devices_off :: u8 where "devices_off \<equiv> I8042_CTR_KBDDIS OR I8042_CTR_AUXDIS"
abbreviation keyboard_on :: u8 where "keyboard_on \<equiv> I8042_CTR_AUXDIS OR I8042_CTR_XLATE OR I8042_CTR_KBDINT"

lemma controller_tests_vars:
  assumes "controller_tests io param s = Some (ok, param', s')" "vars_are c h s"
  shows "vars_are c h s'"
proof -
  obtain r1 s1 where 1: "i8042_flush io s = Some (r1, s1)" using assms(1) by (auto simp: controller_tests_def bind_eq_Some_conv)
  note s1 = vars.flush [OF 1 assms(2)]
  show ?thesis
    using assms(1) 1 s1 unfolding controller_tests_def
    by (auto simp: bind_eq_Some_conv split: if_splits dest!: vars.command)
qed

lemma keyboard_side_vars:
  assumes "keyboard_side io delay param s = Some s'" "vars_are devices_off h s"
  shows "vars_are devices_off h s' \<or> vars_are devices_off True s' \<or> vars_are keyboard_on True s'"
proof -
  obtain e s1 where 1: "timer_calc io delay s = (e, s1)" by fastforce
  have s1: "vars_are devices_off h s1"
    using 1 assms(2) timer_read_vars [of io s] by (auto simp: timer_calc_def split: prod.splits)
  obtain r2 p2 s2 where 2: "spinup_loop io e param s1 = Some (r2, p2, s2)"
    using assms(1) 1 by (auto simp: keyboard_side_def bind_eq_Some_conv)
  have s2: "vars_are devices_off h s2" using spinup_vars [OF 2 s1] by simp
  show ?thesis
  proof (cases "r2 = 0 \<and> arr_get p2 0 = Some 0xaa")
    case True
    have s2': "vars_are devices_off True (s2\<lparr>has_ps2_keyboard := True\<rparr>)" using s2 by (simp add: vars_are_def)
    obtain r3 p3 s3 where 3: "ps2_kbd_command io ATKBD_CMD_RESET_DIS [] (s2\<lparr>has_ps2_keyboard := True\<rparr>) = Some (r3, p3, s3)"
      using assms(1) 1 2 True by (auto simp: keyboard_side_def bind_eq_Some_conv)
    have s3: "vars_are devices_off True s3" by (rule kbd_command_vars [OF 3 s2'])
    show ?thesis
    proof (cases "r3 = 0")
      case True
      then obtain p r4 p4 s4 where 4: "ps2_kbd_command io ATKBD_CMD_SSCANSET p s3 = Some (r4, p4, s4)"
        and rest: "if r4 \<noteq> 0 then s' = s4 else \<exists>r p. ps2_kbd_command io ATKBD_CMD_ENABLE [] (s4\<lparr>Ps2ctr := keyboard_on\<rparr>) = Some (r, p, s')"
        using assms(1) 1 2 3 \<open>r2 = 0 \<and> _\<close> by (auto simp: keyboard_side_def bind_eq_Some_conv split: if_splits)
      have s4: "vars_are devices_off True s4" by (rule kbd_command_vars [OF 4 s3])
      then have "vars_are keyboard_on True (s4\<lparr>Ps2ctr := keyboard_on\<rparr>)" by (simp add: vars_are_def)
      then show ?thesis using rest s4 kbd_command_vars by (fastforce split: if_splits)
    qed (use assms(1) 1 2 3 s3 \<open>r2 = 0 \<and> _\<close> in \<open>auto simp: keyboard_side_def\<close>)
  qed (use assms(1) 1 2 s2 in \<open>auto simp: keyboard_side_def bind_eq_Some_conv split: if_splits\<close>)
qed

text \<open>
  The firmware never takes interrupts from a keyboard that it did not find: when the set-up is over, the variable that names the
  setting of the controller still has no keyboard interrupt, unless the keyboard passed its self-test and was announced. The set-up ends
  in one of four states: nothing touched, both devices off, a keyboard announced but off, a keyboard announced and on.
\<close>

theorem keyboard_setup_states:
  assumes "ps2_keyboard_setup io delay junk s = Some s'" "Ps2ctr s = 0" "\<not> has_ps2_keyboard s"
  shows "(Ps2ctr s', has_ps2_keyboard s') \<in> {(0, False), (devices_off, False), (devices_off, True), (keyboard_on, True)} \<and>
    (Ps2ctr s' AND I8042_CTR_KBDINT \<noteq> 0 \<longrightarrow> has_ps2_keyboard s')"
proof -
  obtain ok p1 s1 where 1: "controller_tests io [fst junk, snd junk] s = Some (ok, p1, s1)"
    and rest: "if \<not> ok then s' = s1 else keyboard_side io delay p1 (s1\<lparr>Ps2ctr := devices_off\<rparr>) = Some s'"
    using assms(1) by (auto simp: ps2_keyboard_setup_def bind_eq_Some_conv split: if_splits)
  have "vars_are 0 False s" using assms(2,3) by (simp add: vars_are_def)
  from controller_tests_vars [OF 1 this] have s1: "vars_are 0 False s1" .
  then have "vars_are devices_off False (s1\<lparr>Ps2ctr := devices_off\<rparr>)" by (simp add: vars_are_def)
  note side = keyboard_side_vars [OF _ this, of io delay p1 s']
  have *: "(Ps2ctr s', has_ps2_keyboard s') \<in> {(0, False), (devices_off, False), (devices_off, True), (keyboard_on, True)}"
    using rest s1 side by (auto simp: vars_are_def split: if_splits)
  then show ?thesis
    by (auto simp: I8042_CTR_KBDDIS_def I8042_CTR_AUXDIS_def I8042_CTR_KBDINT_def)
qed

text \<open>
  A controller with a working keyboard: the world is the queue of bytes to be read and whether the next byte is the controller's setting.
\<close>

definition good_keyboard :: "(u8 list \<times> bool) io" where
  "good_keyboard =
     \<lparr>io_inb = (\<lambda>port (q, b). if port = PORT_PS2_STATUS then (if q = [] then 0 else I8042_STR_OBF, q, b)
        else case q of [] \<Rightarrow> (0, q, b) | v # q \<Rightarrow> (v, q, b)),
      io_inl = (\<lambda>port w. (0, w)),
      io_outb = (\<lambda>v port (q, b). if port = PORT_PS2_STATUS
        then if v = 0xaa then (q @ [0x55], False) else if v = 0xab then (q @ [0], False) else (q, v = 0x60)
        else if b then (q, False) else if v = 0xff then (q @ [PS2_RET_ACK, 0xaa, 0], False) else (q @ [PS2_RET_ACK], False)),
      io_outl = (\<lambda>v port w. w), io_rdtsc = (\<lambda>w. (0, w)), io_cr0 = (\<lambda>w. 0), io_setcr0 = (\<lambda>v w. w), io_wbinvd = (\<lambda>w. w),
      io_yield = (\<lambda>w. w), io_yield_toirq = (\<lambda>w. w), io_timer_counter = (\<lambda>w. 0), io_call16 = (\<lambda>nr r w. (r, w))\<rparr>"

definition power_on :: "(u8 list \<times> bool) ps2_mach" where
  "power_on = \<lparr>TimerKHz = 5000, TimerPort = 0, ShiftTSC = 5, TimerLast = 0, wd = ([], False), Ps2ctr = 0, has_ps2_keyboard = False\<rparr>"

lemma good_ports:
  "inb good_keyboard PORT_PS2_STATUS s = (if fst (wd s) = [] then 0 else 1, s)"
  "inb good_keyboard PORT_PS2_DATA s =
     (case fst (wd s) of [] \<Rightarrow> (0, s) | v # q \<Rightarrow> (v, s\<lparr>wd := (q, snd (wd s))\<rparr>))"
  "yield good_keyboard s = s"
  by (cases s; simp add: inb_def yield_def good_keyboard_def PORT_PS2_DATA_def PORT_PS2_STATUS_def I8042_STR_OBF_def
      split: prod.split list.split)+

lemma good_waits:
  "i8042_wait_write good_keyboard s = Some (0, s)" "fst (wd s) \<noteq> [] \<Longrightarrow> i8042_wait_read good_keyboard s = Some (0, s)"
  "fst (wd s) = [] \<Longrightarrow> i8042_flush good_keyboard s = Some (0, s)"
proof -
  have "wait_write_loop good_keyboard (Suc n) s = Some (0, s)" for n
    by (simp add: good_ports I8042_STR_IBF_def)
  from this [of 9999] show "i8042_wait_write good_keyboard s = Some (0, s)" by (simp add: i8042_wait_write_def I8042_CTL_TIMEOUT_def)
  have "wait_read_loop good_keyboard (Suc n) s = Some (0, s)" if "fst (wd s) \<noteq> []" for n
    using that by (simp add: good_ports I8042_STR_OBF_def)
  from this [of 9999] show "i8042_wait_read good_keyboard s = Some (0, s)" if "fst (wd s) \<noteq> []"
    using that by (simp add: i8042_wait_read_def I8042_CTL_TIMEOUT_def)
  have "flush_loop good_keyboard (Suc n) s = Some (0, s)" if "fst (wd s) = []" for n
    using that by (simp add: good_ports I8042_STR_OBF_def)
  from this [of "I8042_BUFFER_SIZE - 1"] show "i8042_flush good_keyboard s = Some (0, s)" if "fst (wd s) = []"
    using that by (simp add: i8042_flush_def I8042_BUFFER_SIZE_def)
qed

lemma good_recv:
  assumes "wd s = (v # q, False)" "TimerPort s = 0" "needack \<longrightarrow> v = PS2_RET_ACK"
  shows "ps2_recvbyte good_keyboard False needack t s = Some (uint v, s\<lparr>wd := (q, False)\<rparr>)"
proof -
  have read: "timer_read good_keyboard s = (0, s)"
    using assms(2) by (simp add: timer_read_def rdtscll_def good_keyboard_def)
  have "recvbyte_loop good_keyboard False needack e s = Some (uint v, s\<lparr>wd := (q, False)\<rparr>)" for e
    using assms by (subst recvbyte_loop.simps) (auto simp: good_ports I8042_STR_OBF_def I8042_STR_AUXDATA_def)
  then show ?thesis by (simp add: ps2_recvbyte_def timer_calc_def read)
qed

lemma good_send:
  assumes "wd s = ([], False)" "TimerPort s = 0"
  shows "ps2_sendbyte good_keyboard False c t s = Some (0, s\<lparr>wd := (if c = 0xff then [0xaa, 0] else [], False)\<rparr>)"
proof -
  have out: "outb good_keyboard c PORT_PS2_DATA s = s\<lparr>wd := (PS2_RET_ACK # (if c = 0xff then [0xaa, 0] else []), False)\<rparr>"
    using assms by (simp add: outb_def good_keyboard_def PORT_PS2_DATA_def PORT_PS2_STATUS_def)
  show ?thesis
    using good_recv [of "outb good_keyboard c PORT_PS2_DATA s" PS2_RET_ACK "if c = 0xff then [0xaa, 0] else []" True t] assms
    by (simp add: ps2_sendbyte_def i8042_kbd_write_def good_waits out PS2_RET_ACK_def)
qed

lemma good_ctl:
  assumes "wd s = ([], b)"
  shows "i8042_command good_keyboard I8042_CMD_CTL_WCTR [v] s = Some (0, [v], s\<lparr>wd := ([], False)\<rparr>)"
proof -
  have "(ucast I8042_CMD_CTL_WCTR :: u8) = 0x60" by (simp add: I8042_CMD_CTL_WCTR_def)
  then show ?thesis
    using assms by (simp add: i8042_command_def good_waits numeral_eq_Suc arr_get_def)
      (simp add: outb_def good_keyboard_def PORT_PS2_DATA_def PORT_PS2_STATUS_def)
qed

lemma good_command:
  assumes "wd s = ([], False)" "exchange good_keyboard False command param s = Some (0, p, s)"
  shows "ps2_kbd_command good_keyboard command param s = Some (0, p, s)"
proof -
  have s: "s\<lparr>wd := ([], False)\<rparr> = s" using assms(1) by (cases s) simp
  note ctl = good_ctl [OF assms(1), unfolded s]
  show ?thesis
    by (simp add: ps2_kbd_command_def ps2_command_def Let_def good_ports ctl assms(2))
qed

lemma good_exchanges:
  assumes "wd s = ([], False)" "TimerPort s = 0"
  shows "exchange good_keyboard False ATKBD_CMD_RESET_BAT [x, y] s = Some (0, [0xaa, 0], s)"
    "exchange good_keyboard False ATKBD_CMD_RESET_DIS [] s = Some (0, [], s)"
    "exchange good_keyboard False ATKBD_CMD_SSCANSET [0x02, z] s = Some (0, [0x02, z], s)"
    "exchange good_keyboard False ATKBD_CMD_ENABLE [] s = Some (0, [], s)"
proof -
  have s: "s\<lparr>wd := ([], False)\<rparr> = s" using assms(1) by (cases s) simp
  note send = good_send [OF assms]
  have recv: "ps2_recvbyte good_keyboard False False t (s\<lparr>wd := ([v, w], False)\<rparr>) = Some (uint v, s\<lparr>wd := ([w], False)\<rparr>)"
    "ps2_recvbyte good_keyboard False False t (s\<lparr>wd := ([v], False)\<rparr>) = Some (uint v, s)" for t v w
    using good_recv [of "s\<lparr>wd := ([v, w], False)\<rparr>" v "[w]" False t] good_recv [of "s\<lparr>wd := ([v], False)\<rparr>" v "[]" False t] assms s
    by simp_all
  show "exchange good_keyboard False ATKBD_CMD_RESET_BAT [x, y] s = Some (0, [0xaa, 0], s)"
    by (simp add: exchange_def reset_exchange_def send recv store_at_def ATKBD_CMD_RESET_BAT_def)
  show "exchange good_keyboard False ATKBD_CMD_RESET_DIS [] s = Some (0, [], s)"
    "exchange good_keyboard False ATKBD_CMD_SSCANSET [0x02, z] s = Some (0, [0x02, z], s)"
    "exchange good_keyboard False ATKBD_CMD_ENABLE [] s = Some (0, [], s)"
    using send s by (simp_all add: exchange_def plain_exchange_def ATKBD_CMD_RESET_BAT_def ATKBD_CMD_GETID_def ATKBD_CMD_RESET_DIS_def
        ATKBD_CMD_SSCANSET_def ATKBD_CMD_ENABLE_def send_of_def receive_of_def arr_get_def)
qed

lemma good_tests:
  assumes "wd s = ([], False)"
  shows "controller_tests good_keyboard [x, y] s = Some (True, [0, y], s)"
proof -
  have s: "s\<lparr>wd := ([], False)\<rparr> = s" using assms by (cases s) simp
  have out: "outb good_keyboard 0xaa PORT_PS2_STATUS s = s\<lparr>wd := ([0x55], False)\<rparr>"
    "outb good_keyboard 0xab PORT_PS2_STATUS s = s\<lparr>wd := ([0], False)\<rparr>"
    using assms by (simp_all add: outb_def good_keyboard_def PORT_PS2_STATUS_def)
  have c: "(ucast I8042_CMD_CTL_TEST :: u8) = 0xaa" "(ucast I8042_CMD_KBD_TEST :: u8) = 0xab"
    by (simp_all add: I8042_CMD_CTL_TEST_def I8042_CMD_KBD_TEST_def)
  have one: "receive_params good_keyboard 0 (Suc 0) [x, y] (s\<lparr>wd := ([v], False)\<rparr>) = Some (0, [v, y], s)" for v x
    using s by (simp add: good_waits good_ports store_at_def)
  have test: "i8042_command good_keyboard I8042_CMD_CTL_TEST [x, y] s = Some (0, [0x55, y], s)"
    "i8042_command good_keyboard I8042_CMD_KBD_TEST [x, y] s = Some (0, [0, y], s)" for x
    by (simp_all add: i8042_command_def good_waits c out one del: receive_params.simps)
  show ?thesis using assms by (simp add: controller_tests_def good_waits test arr_get_def)
qed

theorem keyboard_setup_states_witness:
  "\<exists>s'. ps2_keyboard_setup good_keyboard 0 (0, 0) power_on = Some s' \<and> Ps2ctr s' = keyboard_on \<and> has_ps2_keyboard s'"
proof -
  let ?s = "power_on\<lparr>Ps2ctr := keyboard_on, has_ps2_keyboard := True\<rparr>"
  have reset: "ps2_kbd_command good_keyboard ATKBD_CMD_RESET_BAT [x, y] s = Some (0, [0xaa, 0], s)"
    and others: "ps2_kbd_command good_keyboard ATKBD_CMD_RESET_DIS [] s = Some (0, [], s)"
    "ps2_kbd_command good_keyboard ATKBD_CMD_SSCANSET [0x02, y] s = Some (0, [0x02, y], s)"
    "ps2_kbd_command good_keyboard ATKBD_CMD_ENABLE [] s = Some (0, [], s)"
    if "wd s = ([], False)" "TimerPort s = 0" for x y and s :: "(u8 list \<times> bool, 'b) ps2_mach_scheme"
    using that by (auto intro!: good_command good_exchanges)
  have start: "wd power_on = ([], False)" "TimerPort power_on = 0" by (simp_all add: power_on_def)
  have read: "timer_read good_keyboard s = (0, s)" if "TimerPort s = 0" for s :: "(u8 list \<times> bool, 'b) mach_scheme"
    using that by (simp add: timer_read_def rdtscll_def good_keyboard_def)
  have "keyboard_side good_keyboard 0 [0, 0] (power_on\<lparr>Ps2ctr := devices_off\<rparr>) = Some ?s"
    using start by (simp add: keyboard_side_def timer_calc_def read spinup_loop.simps reset others store_at_def arr_get_def)
  then have run: "ps2_keyboard_setup good_keyboard 0 (0, 0) power_on = Some ?s"
    by (simp add: ps2_keyboard_setup_def good_tests [OF start(1)])
  from keyboard_setup_states [OF this] run show ?thesis by (simp add: power_on_def)
qed

end
