(* ===== verification/Rtc.thy ===== *)
theory Rtc
  imports Lowmem Clock
begin

text \<open>The real-time clock chip, \<open>seabios/src/hw/rtc.c\<close>: its registers are reached through an index and a data port.\<close>

section \<open>Registers and bits\<close>

definition PORT_CMOS_INDEX :: u16 where "PORT_CMOS_INDEX = 0x70"
definition PORT_CMOS_DATA :: u16 where "PORT_CMOS_DATA = 0x71"
definition NMI_DISABLE_BIT :: u8 where "NMI_DISABLE_BIT = 0x80"
definition CMOS_RTC_SECONDS :: u8 where "CMOS_RTC_SECONDS = 0x00"
definition CMOS_RTC_SECONDS_ALARM :: u8 where "CMOS_RTC_SECONDS_ALARM = 0x01"
definition CMOS_RTC_MINUTES :: u8 where "CMOS_RTC_MINUTES = 0x02"
definition CMOS_RTC_MINUTES_ALARM :: u8 where "CMOS_RTC_MINUTES_ALARM = 0x03"
definition CMOS_RTC_HOURS :: u8 where "CMOS_RTC_HOURS = 0x04"
definition CMOS_RTC_HOURS_ALARM :: u8 where "CMOS_RTC_HOURS_ALARM = 0x05"
definition CMOS_RTC_DAY_MONTH :: u8 where "CMOS_RTC_DAY_MONTH = 0x07"
definition CMOS_RTC_MONTH :: u8 where "CMOS_RTC_MONTH = 0x08"
definition CMOS_RTC_YEAR :: u8 where "CMOS_RTC_YEAR = 0x09"
definition CMOS_STATUS_A :: u8 where "CMOS_STATUS_A = 0x0a"
definition CMOS_STATUS_B :: u8 where "CMOS_STATUS_B = 0x0b"
definition CMOS_STATUS_C :: u8 where "CMOS_STATUS_C = 0x0c"
definition CMOS_STATUS_D :: u8 where "CMOS_STATUS_D = 0x0d"
definition RTC_A_UIP :: u8 where "RTC_A_UIP = 0x80"
definition RTC_B_SET :: u8 where "RTC_B_SET = 0x80"
definition RTC_B_PIE :: u8 where "RTC_B_PIE = 0x40"
definition RTC_B_AIE :: u8 where "RTC_B_AIE = 0x20"
definition RTC_B_24HR :: u8 where "RTC_B_24HR = 0x02"
definition RTC_B_DSE :: u8 where "RTC_B_DSE = 0x01"

lemmas cmos_registers = CMOS_RTC_SECONDS_def CMOS_RTC_SECONDS_ALARM_def CMOS_RTC_MINUTES_def CMOS_RTC_MINUTES_ALARM_def
  CMOS_RTC_HOURS_def CMOS_RTC_HOURS_ALARM_def CMOS_RTC_DAY_MONTH_def CMOS_RTC_MONTH_def CMOS_RTC_YEAR_def
  CMOS_STATUS_A_def CMOS_STATUS_B_def CMOS_STATUS_C_def CMOS_STATUS_D_def

lemmas rtc_bits = RTC_A_UIP_def RTC_B_SET_def RTC_B_PIE_def RTC_B_AIE_def RTC_B_24HR_def RTC_B_DSE_def

section \<open>Access\<close>

definition rtc_read :: "'w io \<Rightarrow> u8 \<Rightarrow> ('w, 'z) mach_scheme \<Rightarrow> u8 \<times> ('w, 'z) mach_scheme" where
  "rtc_read io index s = inb io PORT_CMOS_DATA (outb io (index OR NMI_DISABLE_BIT) PORT_CMOS_INDEX s)"

definition rtc_write :: "'w io \<Rightarrow> u8 \<Rightarrow> u8 \<Rightarrow> ('w, 'z) mach_scheme \<Rightarrow> ('w, 'z) mach_scheme" where
  "rtc_write io index val s = outb io val PORT_CMOS_DATA (outb io (index OR NMI_DISABLE_BIT) PORT_CMOS_INDEX s)"

definition rtc_mask :: "'w io \<Rightarrow> u8 \<Rightarrow> u8 \<Rightarrow> u8 \<Rightarrow> ('w, 'z) mach_scheme \<Rightarrow> ('w, 'z) mach_scheme" where
  "rtc_mask io index off on s =
     (case inb io PORT_CMOS_DATA (outb io index PORT_CMOS_INDEX s) of (val, s) \<Rightarrow>
        outb io ((val AND NOT off) OR on) PORT_CMOS_DATA s)"

partial_function (option) rtc_updating_loop :: "'w io \<Rightarrow> u32 \<Rightarrow> ('w, 'z) mach_scheme \<Rightarrow> (int \<times> ('w, 'z) mach_scheme) option" where
  "rtc_updating_loop io end s =
     (case rtc_read io CMOS_STATUS_A s of (a, s) \<Rightarrow>
        if a AND RTC_A_UIP = 0 then Some (0, s)
        else (case timer_check io end s of (late, s) \<Rightarrow>
                if late then Some (- 1, s) else rtc_updating_loop io end (yield io s)))"

definition rtc_updating :: "'w io \<Rightarrow> ('w, 'z) mach_scheme \<Rightarrow> (int \<times> ('w, 'z) mach_scheme) option" where
  "rtc_updating io s =
     (case rtc_read io CMOS_STATUS_A s of (a, s) \<Rightarrow>
        if a AND RTC_A_UIP = 0 then Some (0, s)
        else (case timer_calc io 15 s of (end, s) \<Rightarrow> rtc_updating_loop io end s))"

definition rtc_setup :: "'w io \<Rightarrow> ('w, 'z) mach_scheme \<Rightarrow> ('w, 'z) mach_scheme" where
  "rtc_setup io s =
     (let s = rtc_write io CMOS_STATUS_A 0x26 s;
          s = rtc_mask io CMOS_STATUS_B (NOT RTC_B_DSE) RTC_B_24HR s
      in snd (rtc_read io CMOS_STATUS_D (snd (rtc_read io CMOS_STATUS_C s))))"

section \<open>The periodic interrupt and its users\<close>

definition rtc_use :: "('v low) io \<Rightarrow> ('v low, 'z) mach_scheme \<Rightarrow> ('v low, 'z) mach_scheme" where
  "rtc_use io s =
     (let count = RTCusers (wd s); s = s\<lparr>wd := (wd s)\<lparr>RTCusers := count + 1\<rparr>\<rparr>
      in if count \<noteq> 0 then s else rtc_mask io CMOS_STATUS_B 0 RTC_B_PIE s)"

definition rtc_release :: "('v low) io \<Rightarrow> ('v low, 'z) mach_scheme \<Rightarrow> ('v low, 'z) mach_scheme" where
  "rtc_release io s =
     (let count = RTCusers (wd s); s = s\<lparr>wd := (wd s)\<lparr>RTCusers := count - 1\<rparr>\<rparr>
      in if count \<noteq> 1 then s else rtc_mask io CMOS_STATUS_B RTC_B_PIE 0 s)"

end
