(* ===== verification/Tod.thy ===== *)
theory Tod
  imports Rtc Pic Keys
begin

text \<open>
  Time of day, \<open>seabios/src/clock.c\<close>: the set-up of the tick count, interrupt 1Ah, the timer interrupt, and the
  waits of interrupt 15h with the periodic interrupt of the clock chip. (The deadlines in ticks are in
  \<open>Keys\<close>.) In the board's configuration there are no floppy drives and no USB keyboards and mice, so that
  \<open>floppy_tick\<close> and \<open>usb_check_event\<close> do nothing. Taking the processor from the running thread is the
  parameter \<open>preempt\<close>.
\<close>

section \<open>Set-up\<close>

definition bcd2bin :: "u8 \<Rightarrow> u32" where
  "bcd2bin val = ucast (val AND 0xf) + ucast (drop_bit 4 val) * 10"

text \<open>The tick count for a time of day that is given in BCD.\<close>

definition ticks_of_time :: "u8 \<Rightarrow> u8 \<Rightarrow> u8 \<Rightarrow> u32" where
  "ticks_of_time h m sec =
     ticks_from_ms (((bcd2bin h * 60 + bcd2bin m) * 60 + bcd2bin sec) * 1000) mod TICKS_PER_DAY"

text \<open>\<open>e8\<close> and \<open>e70\<close> are the addresses of the entry points of the two interrupts.\<close>

definition clock_setup :: "('v low) io \<Rightarrow> u16 \<times> u16 \<Rightarrow> u16 \<times> u16 \<Rightarrow> ('v low, 'z) mach_scheme \<Rightarrow> ('v low, 'z) mach_scheme option" where
  "clock_setup io e8 e70 s =
     do {
       let s = rtc_setup io (pit_setup io s);
       (_, s) \<leftarrow> rtc_updating io s;
       let (seconds, s) = rtc_read io CMOS_RTC_SECONDS s;
       let (minutes, s) = rtc_read io CMOS_RTC_MINUTES s;
       let (hours, s) = rtc_read io CMOS_RTC_HOURS s;
       let s = set_bda32 timer_counter (ticks_of_time hours minutes seconds) s;
       let (year, s) = rtc_read io CMOS_RTC_YEAR s;
       let s = s\<lparr>wd := (wd s)\<lparr>Century := (if 0x80 < year then 0x19 else 0x20)\<rparr>\<rparr>;
       Some (enable_hwirq io 8 e70 (enable_hwirq io 0 e8 s))
     }"

section \<open>Interrupt 1Ah\<close>

type_synonym ('v, 'z) service = "(bregs \<times> ('v low, 'z) mach_scheme) option"

definition get_dx :: "'r bregs_scheme \<Rightarrow> u16" where
  "get_dx r = le16 (br_dl r) (br_dh r)"

text \<open>CX:DX.\<close>

definition cx_dx :: "bregs \<Rightarrow> u32" where
  "cx_dx r = push_bit 16 (ucast (get_cx r)) OR ucast (get_dx r)"

definition handle_1a00 :: "('v low) io \<Rightarrow> bregs \<Rightarrow> ('v low, 'z) mach_scheme \<Rightarrow> ('v, 'z) service" where
  "handle_1a00 io regs s =
     (let s = yield io s; ticks = bda32 timer_counter s;
          regs = set_dx (ucast ticks) (set_cx (ucast (drop_bit 16 ticks)) regs);
          regs = regs\<lparr>br_al := bda8 timer_rollover s\<rparr>
      in Some (set_success regs, set_bda8 timer_rollover 0 s))"

definition handle_1a01 :: "('v low) io \<Rightarrow> bregs \<Rightarrow> ('v low, 'z) mach_scheme \<Rightarrow> ('v, 'z) service" where
  "handle_1a01 io regs s =
     (let s = set_bda32 timer_counter (cx_dx regs) s
      in Some (set_success (regs\<lparr>br_ah := 0\<rparr>), set_bda8 timer_rollover 0 s))"

definition handle_1a02 :: "('v low) io \<Rightarrow> bregs \<Rightarrow> ('v low, 'z) mach_scheme \<Rightarrow> ('v, 'z) service" where
  "handle_1a02 io regs s =
     do {
       (updating, s) \<leftarrow> rtc_updating io s;
       if updating \<noteq> 0 then Some (set_invalid regs, s)
       else do {
         let (sec, s) = rtc_read io CMOS_RTC_SECONDS s;
         let (m, s) = rtc_read io CMOS_RTC_MINUTES s;
         let (h, s) = rtc_read io CMOS_RTC_HOURS s;
         let (b, s) = rtc_read io CMOS_STATUS_B s;
         Some (set_success (regs\<lparr>br_dh := sec, br_cl := m, br_ch := h, br_dl := b AND RTC_B_DSE, br_ah := 0, br_al := h\<rparr>), s)
       }
     }"

definition handle_1a03 :: "('v low) io \<Rightarrow> bregs \<Rightarrow> ('v low, 'z) mach_scheme \<Rightarrow> ('v, 'z) service" where
  "handle_1a03 io regs s =
     do {
       (updating, s) \<leftarrow> rtc_updating io s;
       let s = (if updating \<noteq> 0 then rtc_setup io s else s);
       let s = rtc_write io CMOS_RTC_SECONDS (br_dh regs) s;
       let s = rtc_write io CMOS_RTC_MINUTES (br_cl regs) s;
       let s = rtc_write io CMOS_RTC_HOURS (br_ch regs) s;
       let (b, s) = rtc_read io CMOS_STATUS_B s;
       let val8 = (b AND (RTC_B_PIE OR RTC_B_AIE)) OR RTC_B_24HR OR (br_dl regs AND RTC_B_DSE);
       let s = rtc_write io CMOS_STATUS_B val8 s;
       Some (set_success (regs\<lparr>br_ah := 0, br_al := val8\<rparr>), s)
     }"

definition handle_1a04 :: "('v low) io \<Rightarrow> bregs \<Rightarrow> ('v low, 'z) mach_scheme \<Rightarrow> ('v, 'z) service" where
  "handle_1a04 io regs s =
     do {
       let regs = regs\<lparr>br_ah := 0\<rparr>;
       (updating, s) \<leftarrow> rtc_updating io s;
       if updating \<noteq> 0 then Some (set_invalid regs, s)
       else do {
         let (y, s) = rtc_read io CMOS_RTC_YEAR s;
         let (m, s) = rtc_read io CMOS_RTC_MONTH s;
         let (d, s) = rtc_read io CMOS_RTC_DAY_MONTH s;
         let c = Century (wd s);
         Some (set_success (regs\<lparr>br_cl := y, br_dh := m, br_dl := d, br_ch := c, br_al := c\<rparr>), s)
       }
     }"

definition handle_1a05 :: "('v low) io \<Rightarrow> bregs \<Rightarrow> ('v low, 'z) mach_scheme \<Rightarrow> ('v, 'z) service" where
  "handle_1a05 io regs s =
     do {
       (updating, s) \<leftarrow> rtc_updating io s;
       if updating \<noteq> 0 then Some (set_invalid regs, rtc_setup io s)
       else do {
         let s = rtc_write io CMOS_RTC_YEAR (br_cl regs) s;
         let s = rtc_write io CMOS_RTC_MONTH (br_dh regs) s;
         let s = rtc_write io CMOS_RTC_DAY_MONTH (br_dl regs) s;
         let s = s\<lparr>wd := (wd s)\<lparr>Century := br_ch regs\<rparr>\<rparr>;
         let (b, s) = rtc_read io CMOS_STATUS_B s;
         let val8 = b AND NOT RTC_B_SET;
         let s = rtc_write io CMOS_STATUS_B val8 s;
         Some (set_success (regs\<lparr>br_ah := 0, br_al := val8\<rparr>), s)
       }
     }"

definition handle_1a06 :: "('v low) io \<Rightarrow> bregs \<Rightarrow> ('v low, 'z) mach_scheme \<Rightarrow> ('v, 'z) service" where
  "handle_1a06 io regs s =
     do {
       let (val8, s) = rtc_read io CMOS_STATUS_B s;
       let regs = set_ax 0 regs;
       if val8 AND RTC_B_AIE \<noteq> 0 then Some (set_invalid regs, s)
       else do {
         (updating, s) \<leftarrow> rtc_updating io s;
         let s = (if updating \<noteq> 0 then rtc_setup io s else s);
         let s = rtc_write io CMOS_RTC_SECONDS_ALARM (br_dh regs) s;
         let s = rtc_write io CMOS_RTC_MINUTES_ALARM (br_cl regs) s;
         let s = rtc_write io CMOS_RTC_HOURS_ALARM (br_ch regs) s;
         let s = rtc_write io CMOS_STATUS_B ((val8 AND NOT RTC_B_SET) OR RTC_B_AIE) s;
         Some (set_success regs, s)
       }
     }"

definition handle_1a07 :: "('v low) io \<Rightarrow> bregs \<Rightarrow> ('v low, 'z) mach_scheme \<Rightarrow> ('v, 'z) service" where
  "handle_1a07 io regs s =
     (let (val8, s) = rtc_read io CMOS_STATUS_B s;
          s = rtc_write io CMOS_STATUS_B (val8 AND NOT (RTC_B_SET OR RTC_B_AIE)) s
      in Some (set_success (regs\<lparr>br_ah := 0, br_al := val8\<rparr>), s))"

definition handle_1aXX :: "bregs \<Rightarrow> bregs" where
  "handle_1aXX regs = set_unimplemented regs"

definition handle_1a :: "('v low) io \<Rightarrow> bregs \<Rightarrow> ('v low, 'z) mach_scheme \<Rightarrow> ('v, 'z) service" where
  "handle_1a io regs s =
     (if br_ah regs = 0x00 then handle_1a00 io regs s
      else if br_ah regs = 0x01 then handle_1a01 io regs s
      else if br_ah regs = 0x02 then handle_1a02 io regs s
      else if br_ah regs = 0x03 then handle_1a03 io regs s
      else if br_ah regs = 0x04 then handle_1a04 io regs s
      else if br_ah regs = 0x05 then handle_1a05 io regs s
      else if br_ah regs = 0x06 then handle_1a06 io regs s
      else if br_ah regs = 0x07 then handle_1a07 io regs s
      else Some (handle_1aXX regs, s))"

section \<open>The timer interrupt\<close>

definition tick_counter :: "('v low, 'z) mach_scheme \<Rightarrow> ('v low, 'z) mach_scheme" where
  "tick_counter s =
     (let counter = bda32 timer_counter s + 1
      in if TICKS_PER_DAY \<le> counter
         then set_bda32 timer_counter 0 (set_bda8 timer_rollover (bda8 timer_rollover s + 1) s)
         else set_bda32 timer_counter counter s)"

definition handle_08 :: "('v low) io \<Rightarrow> ('v low, 'z) mach_scheme \<Rightarrow> ('v low, 'z) mach_scheme" where
  "handle_08 io s =
     (let s = pic_eoi1 io (tick_counter s)
      in if int1c_reentry (wd s) \<noteq> 0 then s
         else (let s = s\<lparr>wd := (wd s)\<lparr>int1c_reentry := 1\<rparr>\<rparr>;
                   s = yield io (yield io s);
                   (_, s) = call16_int io 0x1c (bregs_zero\<lparr>br_flags := F_IF\<rparr>) s
               in s\<lparr>wd := (wd s)\<lparr>int1c_reentry := 0\<rparr>\<rparr>))"

section \<open>Waits\<close>

definition RWS_WAIT_PENDING :: u8 where "RWS_WAIT_PENDING = 1"
definition RET_ECLOCKINUSE :: u8 where "RET_ECLOCKINUSE = 0x83"
definition USEC_PER_RTC :: u32 where "USEC_PER_RTC = (1000000 + 1024 div 2) div 1024"

definition set_usertimer :: "('v low) io \<Rightarrow> u32 \<Rightarrow> u16 \<Rightarrow> u16 \<Rightarrow> ('v low, 'z) mach_scheme \<Rightarrow> int \<times> ('v low, 'z) mach_scheme" where
  "set_usertimer io usecs seg offset s =
     (if bda8 rtc_wait_flag s AND RWS_WAIT_PENDING \<noteq> 0 then (- 1, s)
      else (let s = set_bda8 rtc_wait_flag RWS_WAIT_PENDING s;
                s = upd_bda (set16 (user_wait_complete_flag + 2) seg \<circ> set16 user_wait_complete_flag offset) s;
                s = set_bda32 user_wait_timeout usecs s
            in (0, rtc_use io s)))"

definition clear_usertimer :: "('v low) io \<Rightarrow> ('v low, 'z) mach_scheme \<Rightarrow> ('v low, 'z) mach_scheme" where
  "clear_usertimer io s =
     (if bda8 rtc_wait_flag s AND RWS_WAIT_PENDING = 0 then s
      else rtc_release io (set_bda8 rtc_wait_flag 0 s))"

partial_function (option) wait_flag :: "('v low) io \<Rightarrow> u16 \<Rightarrow> u16 \<Rightarrow> ('v low, 'z) mach_scheme \<Rightarrow> ('v low, 'z) mach_scheme option" where
  "wait_flag io seg off s = (if GET_FARVAR seg off s \<noteq> 0 then Some s else wait_flag io seg off (yield_toirq io s))"

text \<open>The flag of the wait is a variable on the stack, at \<open>ss:statusflag\<close>.\<close>

definition handle_1586 :: "('v low) io \<Rightarrow> u16 \<Rightarrow> u16 \<Rightarrow> bregs \<Rightarrow> ('v low, 'z) mach_scheme \<Rightarrow> ('v, 'z) service" where
  "handle_1586 io ss statusflag regs s =
     (let s = SET_FARVAR ss statusflag 0 s; (ret, s) = set_usertimer io (cx_dx regs) ss statusflag s
      in if ret \<noteq> 0 then Some (set_code_invalid RET_ECLOCKINUSE regs, s)
         else do { s \<leftarrow> wait_flag io ss statusflag s; Some (set_success regs, s) })"

definition handle_158300 :: "('v low) io \<Rightarrow> bregs \<Rightarrow> ('v low, 'z) mach_scheme \<Rightarrow> bregs \<times> ('v low, 'z) mach_scheme" where
  "handle_158300 io regs s =
     (let (ret, s) = set_usertimer io (cx_dx regs) (br_es regs) (le16 (br_bl regs) (br_bh regs)) s
      in (if ret \<noteq> 0 then set_code_invalid RET_EUNSUPPORTED regs else set_success regs, s))"

definition handle_158301 :: "('v low) io \<Rightarrow> bregs \<Rightarrow> ('v low, 'z) mach_scheme \<Rightarrow> bregs \<times> ('v low, 'z) mach_scheme" where
  "handle_158301 io regs s = (set_success regs, clear_usertimer io s)"

definition handle_1583XX :: "bregs \<Rightarrow> bregs" where
  "handle_1583XX regs = (let regs = set_code_unimplemented RET_EUNSUPPORTED regs in regs\<lparr>br_al := br_al regs - 1\<rparr>)"

definition handle_1583 :: "('v low) io \<Rightarrow> bregs \<Rightarrow> ('v low, 'z) mach_scheme \<Rightarrow> bregs \<times> ('v low, 'z) mach_scheme" where
  "handle_1583 io regs s =
     (if br_al regs = 0 then handle_158300 io regs s
      else if br_al regs = 1 then handle_158301 io regs s
      else (handle_1583XX regs, s))"

text \<open>The part of the periodic interrupt that counts a wait down.\<close>

definition usertimer_tick :: "('v low) io \<Rightarrow> ('v low, 'z) mach_scheme \<Rightarrow> ('v low, 'z) mach_scheme" where
  "usertimer_tick io s =
     (if bda8 rtc_wait_flag s = 0 then s
      else (let time = bda32 user_wait_timeout s
            in if time < USEC_PER_RTC
               then (let ptr_seg = get16 (bda_of (wd s)) (user_wait_complete_flag + 2);
                         ptr_far = get16 (bda_of (wd s)) user_wait_complete_flag;
                         s = SET_FARVAR ptr_seg ptr_far (GET_FARVAR ptr_seg ptr_far s OR 0x80) s
                     in clear_usertimer io s)
               else set_bda32 user_wait_timeout (time - USEC_PER_RTC) s))"

definition handle_70 :: "('v low) io \<Rightarrow> ('v low \<Rightarrow> 'v low) \<Rightarrow> ('v low, 'z) mach_scheme \<Rightarrow> ('v low, 'z) mach_scheme" where
  "handle_70 io preempt s =
     (let (registerB, s) = rtc_read io CMOS_STATUS_B s; (registerC, s) = rtc_read io CMOS_STATUS_C s;
          s = (if registerB AND (RTC_B_PIE OR RTC_B_AIE) = 0 then s
               else (let s = (if registerC AND RTC_B_AIE \<noteq> 0 then snd (call16_int io 0x4a (bregs_zero\<lparr>br_flags := F_IF\<rparr>) s) else s)
                     in if registerC AND RTC_B_PIE = 0 then s
                        else usertimer_tick io (s\<lparr>wd := preempt (wd s)\<rparr>)))
      in pic_eoi2 io s)"

end
