(* ===== verification/Tod_Facts.thy ===== *)
theory Tod_Facts
  imports Tod
begin

text \<open>What the time services promise: the chip as a set of registers, the tick count, and the waits.\<close>

section \<open>The chip\<close>

text \<open>
  The data sheet of the clock chip between two updates of its time: the index port selects a register, the data port reads and
  writes it. Registers A, C and D cannot be written freely, and reading C clears it.
\<close>

definition cmos_chip :: "('v low) io \<Rightarrow> ('v \<Rightarrow> u8) \<Rightarrow> ('v \<Rightarrow> u8 \<Rightarrow> u8) \<Rightarrow> bool" where
  "cmos_chip io sel reg \<longleftrightarrow>
     (\<forall>w v. \<exists>d. io_outb io v PORT_CMOS_INDEX w = w\<lparr>dev := d\<rparr> \<and> sel d = v AND 0x7f \<and> reg d = reg (dev w)) \<and>
     (\<forall>w v. \<exists>d. io_outb io v PORT_CMOS_DATA w = w\<lparr>dev := d\<rparr> \<and> sel d = sel (dev w) \<and>
        (\<forall>i. i \<noteq> sel (dev w) \<longrightarrow> reg d i = reg (dev w) i) \<and>
        (sel (dev w) \<notin> {CMOS_STATUS_A, CMOS_STATUS_C, CMOS_STATUS_D} \<longrightarrow> reg d (sel (dev w)) = v)) \<and>
     (\<forall>w. \<exists>d. io_inb io PORT_CMOS_DATA w = (reg (dev w) (sel (dev w)), w\<lparr>dev := d\<rparr>) \<and> sel d = sel (dev w) \<and>
        (\<forall>i. i \<noteq> CMOS_STATUS_C \<longrightarrow> reg d i = reg (dev w) i))"

abbreviation cmos :: "('v \<Rightarrow> u8 \<Rightarrow> u8) \<Rightarrow> ('v low, 'z) mach_scheme \<Rightarrow> u8 \<Rightarrow> u8" where
  "cmos reg s \<equiv> reg (dev (wd s))"

text \<open>Only the devices have changed.\<close>

definition same_low :: "('v low, 'z) mach_scheme \<Rightarrow> ('v low, 'z) mach_scheme \<Rightarrow> bool" where
  "same_low s s' \<longleftrightarrow> (\<exists>d. s' = s\<lparr>wd := (wd s)\<lparr>dev := d\<rparr>\<rparr>)"

lemma same_lowD:
  assumes "same_low s s'"
  shows "ram (wd s') = ram (wd s)" "Century (wd s') = Century (wd s)" "RTCusers (wd s') = RTCusers (wd s)"
    "int1c_reentry (wd s') = int1c_reentry (wd s)" "bda_of (wd s') = bda_of (wd s)"
  using assms by (auto simp: same_low_def bda_of_def)

lemma same_low_refl [simp]: "same_low s s"
proof -
  have "s = s\<lparr>wd := (wd s)\<lparr>dev := dev (wd s)\<rparr>\<rparr>" by simp
  then show ?thesis unfolding same_low_def by blast
qed

lemma same_low_trans [trans]: "same_low s t \<Longrightarrow> same_low t u \<Longrightarrow> same_low s u"
  by (auto simp: same_low_def)

lemma register_index: "i < 0x80 \<Longrightarrow> (i OR NMI_DISABLE_BIT) AND 0x7f = (i :: u8)" "i < 0x80 \<Longrightarrow> i AND 0x7f = (i :: u8)"
proof -
  assume "i < 0x80"
  then have "i AND 0x7f = i" using and_mask_less' [of 7 i] less_mask_eq [of i 7] by (simp add: mask_eq_decr_exp)
  then show "i AND 0x7f = i" "(i OR NMI_DISABLE_BIT) AND 0x7f = i"
    by (simp_all add: NMI_DISABLE_BIT_def bit.conj_disj_distrib2)
qed

lemma chip_ports:
  assumes "cmos_chip io sel reg"
  shows "\<exists>d. io_outb io v PORT_CMOS_INDEX w = w\<lparr>dev := d\<rparr> \<and> sel d = v AND 0x7f \<and> reg d = reg (dev w)"
    "\<exists>d. io_outb io v PORT_CMOS_DATA w = w\<lparr>dev := d\<rparr> \<and> sel d = sel (dev w) \<and> (\<forall>i. i \<noteq> sel (dev w) \<longrightarrow> reg d i = reg (dev w) i) \<and>
        (sel (dev w) \<notin> {CMOS_STATUS_A, CMOS_STATUS_C, CMOS_STATUS_D} \<longrightarrow> reg d (sel (dev w)) = v)"
    "\<exists>d. io_inb io PORT_CMOS_DATA w = (reg (dev w) (sel (dev w)), w\<lparr>dev := d\<rparr>) \<and> sel d = sel (dev w) \<and>
        (\<forall>i. i \<noteq> CMOS_STATUS_C \<longrightarrow> reg d i = reg (dev w) i)"
  using assms unfolding cmos_chip_def by blast+

lemma chip_read:
  assumes "cmos_chip io sel reg" "i < 0x80"
  shows "fst (rtc_read io i s) = cmos reg s i" "j \<noteq> CMOS_STATUS_C \<Longrightarrow> cmos reg (snd (rtc_read io i s)) j = cmos reg s j"
    "same_low s (snd (rtc_read io i s))"
proof -
  obtain d where d: "io_outb io (i OR NMI_DISABLE_BIT) PORT_CMOS_INDEX (wd s) = (wd s)\<lparr>dev := d\<rparr>" "sel d = i" "reg d = reg (dev (wd s))"
    using chip_ports(1) [OF assms(1), of "i OR NMI_DISABLE_BIT" "wd s"] register_index(1) [OF assms(2)] by auto
  obtain e where e: "io_inb io PORT_CMOS_DATA ((wd s)\<lparr>dev := d\<rparr>) = (reg d i, (wd s)\<lparr>dev := e\<rparr>)"
    "\<forall>j. j \<noteq> CMOS_STATUS_C \<longrightarrow> reg e j = reg d j"
    using chip_ports(3) [OF assms(1), of "(wd s)\<lparr>dev := d\<rparr>"] d(2) by auto
  have "rtc_read io i s = (reg d i, s\<lparr>wd := (wd s)\<lparr>dev := e\<rparr>\<rparr>)"
    using d(1) e(1) by (simp add: rtc_read_def outb_def inb_def)
  then show "fst (rtc_read io i s) = cmos reg s i" "j \<noteq> CMOS_STATUS_C \<Longrightarrow> cmos reg (snd (rtc_read io i s)) j = cmos reg s j"
    "same_low s (snd (rtc_read io i s))"
    using d(3) e(2) by (auto simp: same_low_def)
qed

lemma chip_write:
  assumes "cmos_chip io sel reg" "i < 0x80" "i \<notin> {CMOS_STATUS_A, CMOS_STATUS_C, CMOS_STATUS_D}"
  shows "cmos reg (rtc_write io i v s) = (cmos reg s)(i := v)" "same_low s (rtc_write io i v s)"
proof -
  obtain d where d: "io_outb io (i OR NMI_DISABLE_BIT) PORT_CMOS_INDEX (wd s) = (wd s)\<lparr>dev := d\<rparr>" "sel d = i" "reg d = reg (dev (wd s))"
    using chip_ports(1) [OF assms(1), of "i OR NMI_DISABLE_BIT" "wd s"] register_index(1) [OF assms(2)] by auto
  obtain e where e: "io_outb io v PORT_CMOS_DATA ((wd s)\<lparr>dev := d\<rparr>) = (wd s)\<lparr>dev := e\<rparr>" "\<forall>j. j \<noteq> i \<longrightarrow> reg e j = reg d j" "reg e i = v"
    using chip_ports(2) [OF assms(1), of v "(wd s)\<lparr>dev := d\<rparr>"] d(2) assms(3) by auto
  have run: "rtc_write io i v s = s\<lparr>wd := (wd s)\<lparr>dev := e\<rparr>\<rparr>" using d(1) e(1) by (simp add: rtc_write_def outb_def)
  then show "cmos reg (rtc_write io i v s) = (cmos reg s)(i := v)" using d(3) e(2,3) by (auto simp: fun_eq_iff)
  show "same_low s (rtc_write io i v s)" using run by (auto simp: same_low_def)
qed

lemma no_update:
  assumes "cmos_chip io sel reg" "cmos reg s CMOS_STATUS_A AND RTC_A_UIP = 0"
  shows "rtc_updating io s = Some (0, snd (rtc_read io CMOS_STATUS_A s))"
  using chip_read(1) [OF assms(1), of CMOS_STATUS_A s] assms(2)
  by (cases "rtc_read io CMOS_STATUS_A s") (simp add: rtc_updating_def CMOS_STATUS_A_def)

section \<open>The tick count\<close>

lemma get32_set32: "get32 (set32 f v b) f = (v :: u32)"
proof -
  have f: "f + 2 \<noteq> f" "f + 2 + 1 \<noteq> f" "f + 2 \<noteq> f + 1" by (simp_all add: add.assoc)
  have "(ucast (ucast v :: u16) :: u32) OR push_bit 16 (ucast (ucast (drop_bit 16 v) :: u16)) = v"
    by (rule bit_word_eqI) (auto simp: bit_simps)
  moreover have "get16 (set16 (f + 2) x b') f = get16 b' f" "get16 (set16 (f + 2) x b') (f + 2) = x" for x b'
    using f by (auto simp: get16_set16_other add.commute)
  ultimately show ?thesis by (simp add: get32_def set32_def)
qed

lemma set32_other: "a \<notin> {f, f + 1, f + 2, f + 3} \<Longrightarrow> set32 f v b a = b a"
  by (simp add: set32_def set16_def add.assoc)

lemma get32_other: "a \<notin> {f, f + 1, f + 2, f + 3} \<Longrightarrow> get32 (b(a := v)) f = get32 b f"
  by (auto simp: get32_def get16_def add.assoc)

text \<open>The two fields, as numbers.\<close>

abbreviation ticks :: "('v low, 'z) mach_scheme \<Rightarrow> nat" where "ticks s \<equiv> unat (bda32 timer_counter s)"
abbreviation nights :: "('v low, 'z) mach_scheme \<Rightarrow> u8" where "nights s \<equiv> bda8 timer_rollover s"

definition keeps_ticks :: "('v low) io \<Rightarrow> bool" where
  "keeps_ticks io \<longleftrightarrow> (\<forall>w w'. (w' = io_yield io w \<or> (\<exists>v p. w' = io_outb io v p w) \<or> (\<exists>r. w' = snd (io_call16 io 0x1c r w))) \<longrightarrow>
     get32 (bda_of w') timer_counter = get32 (bda_of w) timer_counter \<and> bda_of w' timer_rollover = bda_of w timer_rollover)"

lemma keeps_ticksD:
  assumes "keeps_ticks io"
  shows "get32 (bda_of (io_yield io w)) timer_counter = get32 (bda_of w) timer_counter" "bda_of (io_yield io w) timer_rollover = bda_of w timer_rollover"
    "get32 (bda_of (io_outb io v p w)) timer_counter = get32 (bda_of w) timer_counter" "bda_of (io_outb io v p w) timer_rollover = bda_of w timer_rollover"
    "get32 (bda_of (snd (io_call16 io 0x1c r w))) timer_counter = get32 (bda_of w) timer_counter"
    "bda_of (snd (io_call16 io 0x1c r w)) timer_rollover = bda_of w timer_rollover"
  using assms unfolding keeps_ticks_def by blast+

lemma tick_counter_step:
  assumes "ticks s < 1573040"
  shows "ticks (tick_counter s) = (ticks s + 1) mod 1573040"
    "nights (tick_counter s) = nights s + of_nat ((ticks s + 1) div 1573040)"
proof -
  have inc: "unat (bda32 timer_counter s + 1) = ticks s + 1" using assms by (simp add: unat_word_ariths)
  have late: "TICKS_PER_DAY \<le> bda32 timer_counter s + 1 \<longleftrightarrow> ticks s = 1573039"
    using assms inc by (auto simp: word_le_nat_alt TICKS_PER_DAY_def)
  have fields: "ticks (tick_counter s) = (if ticks s = 1573039 then 0 else ticks s + 1)"
    "nights (tick_counter s) = (if ticks s = 1573039 then nights s + 1 else nights s)"
    using late inc by (simp_all add: tick_counter_def Let_def get32_set32 set32_other)
  show "ticks (tick_counter s) = (ticks s + 1) mod 1573040"
    "nights (tick_counter s) = nights s + of_nat ((ticks s + 1) div 1573040)"
    using assms by (simp_all add: fields div_eq_0_iff)
qed

lemma handle_08_step:
  assumes "keeps_ticks io"
  shows "ticks (handle_08 io s) = ticks (tick_counter s)" "nights (handle_08 io s) = nights (tick_counter s)"
proof -
  have low: "bda_of (w\<lparr>int1c_reentry := x\<rparr>) = bda_of w" for x and w :: "'a low" by (simp add: bda_of_def)
  note keep = keeps_ticksD [OF assms]
  show "ticks (handle_08 io s) = ticks (tick_counter s)" "nights (handle_08 io s) = nights (tick_counter s)"
    using keep by (simp_all add: handle_08_def Let_def pic_eoi1_def outb_def yield_def call16_int_def low split: prod.splits)
      (metis low snd_conv)+
qed

lemma handle_08_runs:
  assumes "keeps_ticks io" "ticks s < 1573040"
  shows "ticks ((handle_08 io ^^ n) s) = (ticks s + n) mod 1573040 \<and>
    nights ((handle_08 io ^^ n) s) = nights s + of_nat ((ticks s + n) div 1573040)"
proof (induction n)
  case (Suc n)
  let ?t = "(handle_08 io ^^ n) s" and ?D = "1573040 :: nat"
  have "ticks ?t < ?D" using Suc.IH by simp
  note step = tick_counter_step [OF this]
  have split: "(x mod ?D + 1) mod ?D = (x + 1) mod ?D" "x div ?D + (x mod ?D + 1) div ?D = (x + 1) div ?D" for x
    using div_add1_eq [of x 1 ?D] by (simp_all add: mod_simps)
  show ?case
    using Suc.IH step split [of "ticks s + n"]
    by (simp add: handle_08_step [OF assms(1)] flip: of_nat_add)
qed (use assms in simp)

section \<open>Waits\<close>

text \<open>The byte \<open>seg:off\<close> is none of the three fields that describe the wait.\<close>

definition wait_fields :: "u16 set" where
  "wait_fields = {user_wait_complete_flag, user_wait_complete_flag + 1, user_wait_complete_flag + 2, user_wait_complete_flag + 3,
     user_wait_timeout, user_wait_timeout + 1, user_wait_timeout + 2, user_wait_timeout + 3, rtc_wait_flag}"

definition far_from_wait :: "u16 \<Rightarrow> u16 \<Rightarrow> bool" where
  "far_from_wait seg off \<longleftrightarrow> seg_addr seg off \<notin> seg_addr SEG_BDA ` wait_fields"

lemma seg_addr_bda: "a - 0x400 < 0x10000 \<Longrightarrow> seg_addr SEG_BDA (ucast (a - 0x400)) = a"
proof -
  assume a: "a - 0x400 < 0x10000"
  then have "unat (a - 0x400) < 2 ^ 16" by (simp add: word_less_nat_alt)
  then have "take_bit 16 (unat (a - 0x400)) = unat (a - 0x400)" by (rule take_bit_nat_eq_self)
  then have "unat (ucast (ucast (a - 0x400) :: u16) :: u32) = unat (a - 0x400)"
    by (simp only: unsigned_ucast_eq) (simp add: unsigned_take_bit_eq)
  then have "(ucast (ucast (a - 0x400) :: u16) :: u32) = a - 0x400" by (simp only: word_unat_eq_iff)
  then show ?thesis by (simp add: seg_addr_def SEG_BDA_def)
qed

lemma far_upd_bda:
  assumes "\<And>f. seg_addr SEG_BDA f = seg_addr seg off \<Longrightarrow> g (bda_of (wd s)) f = bda_of (wd s) f"
  shows "GET_FARVAR seg off (upd_bda g s) = GET_FARVAR seg off s"
proof (cases "seg_addr seg off - 0x400 < 0x10000")
  case True
  from assms [OF seg_addr_bda [OF this]] show ?thesis
    using True seg_addr_bda [OF True] by (simp add: GET_FARVAR_def upd_bda_def bda_of_def)
qed (simp add: GET_FARVAR_def upd_bda_def)

lemma bda_far [simp]: "far_from_wait seg off \<Longrightarrow> f \<in> wait_fields \<Longrightarrow> bda_of (wd (SET_FARVAR seg off v s)) f = bda_of (wd s) f"
  unfolding far_from_wait_def SET_FARVAR_def bda_of_def by (simp add: image_iff) metis

lemma far_set [simp]: "GET_FARVAR seg off (SET_FARVAR seg off v s) = v"
  by (simp add: GET_FARVAR_def SET_FARVAR_def)

lemma far_wait_upd:
  assumes "far_from_wait seg off" "\<And>f. f \<notin> wait_fields \<Longrightarrow> g (bda_of (wd s)) f = bda_of (wd s) f"
  shows "GET_FARVAR seg off (upd_bda g s) = GET_FARVAR seg off s"
  using assms unfolding far_from_wait_def by (intro far_upd_bda) (metis image_eqI)

lemma far_wait_updates:
  assumes "far_from_wait seg off"
  shows "GET_FARVAR seg off (set_bda8 rtc_wait_flag x s) = GET_FARVAR seg off s"
    "GET_FARVAR seg off (set_bda32 user_wait_timeout y s) = GET_FARVAR seg off s"
    "GET_FARVAR seg off (upd_bda (set16 (user_wait_complete_flag + 2) a \<circ> set16 user_wait_complete_flag b) s) = GET_FARVAR seg off s"
  by (rule far_wait_upd [OF assms]; simp add: wait_fields_def set32_other set16_other)+

text \<open>The mask operation on the chip.\<close>

lemma chip_mask:
  assumes "cmos_chip io sel reg" "i < 0x80" "i \<notin> {CMOS_STATUS_A, CMOS_STATUS_C, CMOS_STATUS_D}"
  shows "cmos reg (rtc_mask io i off on s) i = (cmos reg s i AND NOT off) OR on" "same_low s (rtc_mask io i off on s)"
proof -
  obtain d where d: "io_outb io i PORT_CMOS_INDEX (wd s) = (wd s)\<lparr>dev := d\<rparr>" "sel d = i" "reg d = reg (dev (wd s))"
    using chip_ports(1) [OF assms(1), of i "wd s"] register_index(2) [OF assms(2)] by auto
  obtain e where e: "io_inb io PORT_CMOS_DATA ((wd s)\<lparr>dev := d\<rparr>) = (reg d i, (wd s)\<lparr>dev := e\<rparr>)" "sel e = i"
    using chip_ports(3) [OF assms(1), of "(wd s)\<lparr>dev := d\<rparr>"] d(2) by auto
  obtain f where f: "io_outb io ((reg d i AND NOT off) OR on) PORT_CMOS_DATA ((wd s)\<lparr>dev := e\<rparr>) = (wd s)\<lparr>dev := f\<rparr>"
    "reg f i = (reg d i AND NOT off) OR on"
    using chip_ports(2) [OF assms(1), of "(reg d i AND NOT off) OR on" "(wd s)\<lparr>dev := e\<rparr>"] e(2) assms(3) by auto
  have run: "rtc_mask io i off on s = s\<lparr>wd := (wd s)\<lparr>dev := f\<rparr>\<rparr>" using d(1) e(1) f(1) by (simp add: rtc_mask_def outb_def inb_def)
  show "cmos reg (rtc_mask io i off on s) i = (cmos reg s i AND NOT off) OR on" using run d(3) f(2) by simp
  show "same_low s (rtc_mask io i off on s)" using run by (auto simp: same_low_def)
qed

lemma same_low_far: "same_low s t \<Longrightarrow> GET_FARVAR seg off t = GET_FARVAR seg off s"
  by (auto simp: same_low_def GET_FARVAR_def)

lemma users_frame: "bda_of (w\<lparr>RTCusers := n\<rparr>) = bda_of w" "GET_FARVAR seg off (s\<lparr>wd := (wd s)\<lparr>RTCusers := n\<rparr>\<rparr>) = GET_FARVAR seg off s"
  by (simp_all add: bda_of_def GET_FARVAR_def)

lemma mask_b:
  assumes "cmos_chip io sel reg"
  shows "RTCusers (wd (rtc_mask io CMOS_STATUS_B off on s)) = RTCusers (wd s)" "bda_of (wd (rtc_mask io CMOS_STATUS_B off on s)) = bda_of (wd s)"
    "GET_FARVAR seg p (rtc_mask io CMOS_STATUS_B off on s) = GET_FARVAR seg p s"
    "cmos reg (rtc_mask io CMOS_STATUS_B off on s) CMOS_STATUS_B = (cmos reg s CMOS_STATUS_B AND NOT off) OR on"
proof -
  have b: "CMOS_STATUS_B < 0x80" "CMOS_STATUS_B \<notin> {CMOS_STATUS_A, CMOS_STATUS_C, CMOS_STATUS_D}" by (simp_all add: cmos_registers)
  note m = chip_mask [OF assms b, where off = off and on = on and s = s]
  show "RTCusers (wd (rtc_mask io CMOS_STATUS_B off on s)) = RTCusers (wd s)" "bda_of (wd (rtc_mask io CMOS_STATUS_B off on s)) = bda_of (wd s)"
    "GET_FARVAR seg p (rtc_mask io CMOS_STATUS_B off on s) = GET_FARVAR seg p s"
    "cmos reg (rtc_mask io CMOS_STATUS_B off on s) CMOS_STATUS_B = (cmos reg s CMOS_STATUS_B AND NOT off) OR on"
    using m(1) same_lowD(3,5) [OF m(2)] same_low_far [OF m(2)] by simp_all
qed

lemma rtc_use_chip:
  assumes "cmos_chip io sel reg"
  shows "RTCusers (wd (rtc_use io s)) = RTCusers (wd s) + 1" "bda_of (wd (rtc_use io s)) = bda_of (wd s)"
    "GET_FARVAR seg off (rtc_use io s) = GET_FARVAR seg off s"
    "RTCusers (wd s) = 0 \<Longrightarrow> cmos reg (rtc_use io s) CMOS_STATUS_B = cmos reg s CMOS_STATUS_B OR RTC_B_PIE"
    "RTCusers (wd s) \<noteq> 0 \<Longrightarrow> cmos reg (rtc_use io s) = cmos reg s"
  by (simp_all add: rtc_use_def Let_def users_frame mask_b [OF assms])

lemma rtc_release_chip:
  assumes "cmos_chip io sel reg"
  shows "RTCusers (wd (rtc_release io s)) = RTCusers (wd s) - 1" "bda_of (wd (rtc_release io s)) = bda_of (wd s)"
    "GET_FARVAR seg off (rtc_release io s) = GET_FARVAR seg off s"
    "RTCusers (wd s) = 1 \<Longrightarrow> cmos reg (rtc_release io s) CMOS_STATUS_B = cmos reg s CMOS_STATUS_B AND NOT RTC_B_PIE"
    "RTCusers (wd s) \<noteq> 1 \<Longrightarrow> cmos reg (rtc_release io s) = cmos reg s"
  by (simp_all add: rtc_release_def Let_def users_frame mask_b [OF assms])

text \<open>A wait in progress: what is left of it, its flag, and the interrupt that counts it down.\<close>

definition waiting :: "('v \<Rightarrow> u8 \<Rightarrow> u8) \<Rightarrow> u32 \<Rightarrow> u16 \<Rightarrow> u16 \<Rightarrow> u8 \<Rightarrow> u32 \<Rightarrow> ('v low, 'z) mach_scheme \<Rightarrow> bool" where
  "waiting reg left seg off v users s \<longleftrightarrow> bda8 rtc_wait_flag s = RWS_WAIT_PENDING \<and> bda32 user_wait_timeout s = left \<and>
     get16 (bda_of (wd s)) user_wait_complete_flag = off \<and> get16 (bda_of (wd s)) (user_wait_complete_flag + 2) = seg \<and>
     GET_FARVAR seg off s = v \<and> RTCusers (wd s) = users + 1 \<and> (users = 0 \<longrightarrow> cmos reg s CMOS_STATUS_B AND RTC_B_PIE \<noteq> 0)"

lemma wait_starts:
  assumes "cmos_chip io sel reg" "far_from_wait seg off" "bda8 rtc_wait_flag s AND RWS_WAIT_PENDING = 0"
  shows "fst (set_usertimer io usecs seg off s) = 0"
    "waiting reg usecs seg off (GET_FARVAR seg off s) (RTCusers (wd s)) (snd (set_usertimer io usecs seg off s))"
proof -
  let ?s = "set_bda32 user_wait_timeout usecs (upd_bda (set16 (user_wait_complete_flag + 2) seg \<circ> set16 user_wait_complete_flag off)
    (set_bda8 rtc_wait_flag RWS_WAIT_PENDING s))"
  have run: "set_usertimer io usecs seg off s = (0, rtc_use io ?s)" using assms(3) by (simp add: set_usertimer_def)
  have far: "GET_FARVAR seg off ?s = GET_FARVAR seg off s"
    by (simp only: far_wait_updates [OF assms(2)])
  have b: "bda8 rtc_wait_flag ?s = RWS_WAIT_PENDING" "bda32 user_wait_timeout ?s = usecs"
    "get16 (bda_of (wd ?s)) user_wait_complete_flag = off" "get16 (bda_of (wd ?s)) (user_wait_complete_flag + 2) = seg"
    by (simp_all add: get32_set32 set32_other set16_other get16_def) (simp_all add: set16_def)
  have pie: "(x OR RTC_B_PIE) AND RTC_B_PIE \<noteq> 0" for x by (simp add: RTC_B_PIE_def bit.conj_disj_distrib2)
  show "fst (set_usertimer io usecs seg off s) = 0" by (simp add: run)
  show "waiting reg usecs seg off (GET_FARVAR seg off s) (RTCusers (wd s)) (snd (set_usertimer io usecs seg off s))"
    using b far pie rtc_use_chip(1-4) [OF assms(1), where s = ?s]
    unfolding waiting_def run by (simp del: bda_upd)
qed

lemma wait_tick:
  assumes "far_from_wait seg off" "waiting reg left seg off v users s" "977 \<le> left"
  shows "waiting reg (left - 977) seg off v users (usertimer_tick io s)"
proof -
  have u: "USEC_PER_RTC = 977" by (simp add: USEC_PER_RTC_def)
  have run: "usertimer_tick io s = set_bda32 user_wait_timeout (left - 977) s"
    using assms(2,3) by (simp add: usertimer_tick_def waiting_def u RWS_WAIT_PENDING_def Let_def not_less [symmetric])
  have far: "GET_FARVAR seg off (set_bda32 user_wait_timeout (left - 977) s) = GET_FARVAR seg off s"
    by (simp only: far_wait_updates [OF assms(1)])
  show ?thesis
    using assms(2) far unfolding waiting_def run by (simp add: get32_set32 set32_other get16_def)
qed

lemma wait_ends:
  assumes "cmos_chip io sel reg" "far_from_wait seg off" "waiting reg left seg off v users s" "left < 977"
  shows "GET_FARVAR seg off (usertimer_tick io s) = v OR 0x80" "bda8 rtc_wait_flag (usertimer_tick io s) = 0"
    "RTCusers (wd (usertimer_tick io s)) = users"
    "users = 0 \<Longrightarrow> cmos reg (usertimer_tick io s) CMOS_STATUS_B AND RTC_B_PIE = 0"
proof -
  have u: "USEC_PER_RTC = 977" by (simp add: USEC_PER_RTC_def)
  let ?s = "SET_FARVAR seg off (v OR 0x80) s"
  have pending: "bda8 rtc_wait_flag ?s = RWS_WAIT_PENDING"
    using assms(2,3) by (simp add: waiting_def wait_fields_def)
  have run: "usertimer_tick io s = rtc_release io (set_bda8 rtc_wait_flag 0 ?s)"
    using assms(3,4) pending by (simp add: usertimer_tick_def waiting_def u RWS_WAIT_PENDING_def Let_def clear_usertimer_def)
  have far: "GET_FARVAR seg off (set_bda8 rtc_wait_flag 0 ?s) = v OR 0x80"
    by (simp only: far_wait_updates [OF assms(2)] far_set)
  have users: "RTCusers (wd ?s) = users + 1" using assms(3) by (simp add: waiting_def SET_FARVAR_def)
  note rel = rtc_release_chip [OF assms(1), where s = "set_bda8 rtc_wait_flag 0 ?s"]
  show "GET_FARVAR seg off (usertimer_tick io s) = v OR 0x80" "bda8 rtc_wait_flag (usertimer_tick io s) = 0"
    "RTCusers (wd (usertimer_tick io s)) = users"
    using far users rel(1-3) by (simp_all add: run)
  show "cmos reg (usertimer_tick io s) CMOS_STATUS_B AND RTC_B_PIE = 0" if "users = 0"
    using that users rel(4) by (simp add: run and.assoc)
qed

section \<open>Properties of the clock\<close>

text \<open>
  C37. The time that is set is the time that is read, and likewise the date with its century: while the chip is not updating,
  functions 3 and 5 of interrupt 1Ah succeed, and functions 2 and 4 then return what was given. Setting the time leaves the date alone,
  and the other way round. Of status register B, setting the time keeps the alarm and the periodic interrupt, takes the daylight-saving
  bit from the caller and selects the 24-hour mode; setting the date clears the SET bit and keeps everything else. No other register
  changes, status register C excepted, which is not considered.
\<close>

theorem clock_set_read:
  assumes "cmos_chip io sel reg" "cmos reg s CMOS_STATUS_A AND RTC_A_UIP = 0"
  shows "(\<exists>r t r' t'. handle_1a io (regs\<lparr>br_ah := 3\<rparr>) s = Some (r, t) \<and> handle_1a io (q\<lparr>br_ah := 2\<rparr>) t = Some (r', t') \<and>
      br_ch r' = br_ch regs \<and> br_cl r' = br_cl regs \<and> br_dh r' = br_dh regs \<and> br_dl r' = br_dl regs AND RTC_B_DSE \<and>
      br_flags r' AND F_CF = 0 \<and> Century (wd t) = Century (wd s) \<and>
      cmos reg t CMOS_STATUS_B = (cmos reg s CMOS_STATUS_B AND (RTC_B_PIE OR RTC_B_AIE)) OR RTC_B_24HR OR (br_dl regs AND RTC_B_DSE) \<and>
      (\<forall>i. i \<notin> {CMOS_RTC_SECONDS, CMOS_RTC_MINUTES, CMOS_RTC_HOURS, CMOS_STATUS_B, CMOS_STATUS_C} \<longrightarrow> cmos reg t i = cmos reg s i)) \<and>
    (\<exists>r t r' t'. handle_1a io (regs\<lparr>br_ah := 5\<rparr>) s = Some (r, t) \<and> handle_1a io (q\<lparr>br_ah := 4\<rparr>) t = Some (r', t') \<and>
      br_ch r' = br_ch regs \<and> br_cl r' = br_cl regs \<and> br_dh r' = br_dh regs \<and> br_dl r' = br_dl regs \<and>
      br_flags r' AND F_CF = 0 \<and> cmos reg t CMOS_STATUS_B = cmos reg s CMOS_STATUS_B AND NOT RTC_B_SET \<and>
      (\<forall>i. i \<notin> {CMOS_RTC_YEAR, CMOS_RTC_MONTH, CMOS_RTC_DAY_MONTH, CMOS_STATUS_B, CMOS_STATUS_C} \<longrightarrow> cmos reg t i = cmos reg s i))"
proof -
  note chip = chip_read(1,2) [OF assms(1)] chip_write(1) [OF assms(1)] same_lowD(2) [OF chip_read(3) [OF assms(1)]]
    same_lowD(2) [OF chip_write(2) [OF assms(1)]]
  note run = no_update [OF assms(1), unfolded cmos_registers rtc_bits] assms(2) [unfolded cmos_registers rtc_bits]
  have dse: "((a AND b) OR 2 OR (x AND 1)) AND 1 = x AND (1 :: u8)" if "b AND 1 = 0" for a b x
    using that by (simp add: bit.conj_disj_distrib2 and.assoc)
  have cf: "br_flags (set_cf False r) AND F_CF = 0" for r using cf_simps(1) [of False r] by blast
  show ?thesis
    by (simp add: handle_1a_def handle_1a02_def handle_1a03_def handle_1a04_def handle_1a05_def cmos_registers rtc_bits run chip
        Let_def split_beta set_success_def dse cf)
qed

text \<open>A chip whose registers are a function, and a memory of zeros.\<close>

definition chip_sim :: "(u8 \<times> (u8 \<Rightarrow> u8)) low io" where
  "chip_sim =
     \<lparr>io_inb = (\<lambda>port w. (snd (dev w) (fst (dev w)), w)), io_inl = (\<lambda>port w. (0, w)),
      io_outb = (\<lambda>v port w. if port = PORT_CMOS_INDEX then w\<lparr>dev := (v AND 0x7f, snd (dev w))\<rparr>
        else if port = PORT_CMOS_DATA then w\<lparr>dev := (fst (dev w), (snd (dev w))(fst (dev w) := v))\<rparr> else w),
      io_outl = (\<lambda>v port w. w), io_rdtsc = (\<lambda>w. (0, w)), io_cr0 = (\<lambda>w. 0), io_setcr0 = (\<lambda>v w. w), io_wbinvd = (\<lambda>w. w),
      io_yield = (\<lambda>w. w), io_yield_toirq = (\<lambda>w. w), io_timer_counter = (\<lambda>w. 0), io_call16 = (\<lambda>nr r w. (r, w))\<rparr>"

definition chip_start :: "(u8 \<times> (u8 \<Rightarrow> u8)) low mach" where
  "chip_start = \<lparr>TimerKHz = 0, TimerPort = 0, ShiftTSC = 0, TimerLast = 0,
     wd = \<lparr>ram = (\<lambda>_. 0), Century = 0x20, RTCusers = 0, int1c_reentry = 0, dev = (0, \<lambda>_. 0)\<rparr>\<rparr>"

lemma chip_sim_ok: "cmos_chip chip_sim fst snd"
  unfolding cmos_chip_def
proof (intro conjI allI)
  fix w :: "(u8 \<times> (u8 \<Rightarrow> u8)) low" and v
  show "\<exists>d. io_outb chip_sim v PORT_CMOS_INDEX w = w\<lparr>dev := d\<rparr> \<and> fst d = v AND 0x7f \<and> snd d = snd (dev w)"
    by (simp add: chip_sim_def)
  show "\<exists>d. io_outb chip_sim v PORT_CMOS_DATA w = w\<lparr>dev := d\<rparr> \<and> fst d = fst (dev w) \<and> (\<forall>i. i \<noteq> fst (dev w) \<longrightarrow> snd d i = snd (dev w) i) \<and>
      (fst (dev w) \<notin> {CMOS_STATUS_A, CMOS_STATUS_C, CMOS_STATUS_D} \<longrightarrow> snd d (fst (dev w)) = v)"
    by (rule exI [of _ "(fst (dev w), (snd (dev w))(fst (dev w) := v))"]) (simp add: chip_sim_def PORT_CMOS_INDEX_def PORT_CMOS_DATA_def)
  show "\<exists>d. io_inb chip_sim PORT_CMOS_DATA w = (snd (dev w) (fst (dev w)), w\<lparr>dev := d\<rparr>) \<and> fst d = fst (dev w) \<and>
      (\<forall>i. i \<noteq> CMOS_STATUS_C \<longrightarrow> snd d i = snd (dev w) i)"
    by (rule exI [of _ "dev w"]) (simp add: chip_sim_def)
qed

theorem clock_set_read_witness:
  "\<exists>r t r' t'. handle_1a chip_sim (bregs_zero\<lparr>br_ch := 0x23, br_cl := 0x59, br_ah := 3\<rparr>) chip_start = Some (r, t) \<and>
     handle_1a chip_sim (bregs_zero\<lparr>br_ah := 2\<rparr>) t = Some (r', t') \<and> br_ch r' = 0x23 \<and> br_cl r' = 0x59"
proof -
  have "cmos snd chip_start CMOS_STATUS_A AND RTC_A_UIP = 0" by (simp add: chip_start_def)
  from clock_set_read [OF chip_sim_ok this, of "bregs_zero\<lparr>br_ch := 0x23, br_cl := 0x59\<rparr>" bregs_zero]
  show ?thesis by auto
qed

text \<open>
  Days and nights: over any number of timer interrupts the tick count runs from 0 to the last tick of the day and starts again, and
  every midnight is counted; function 0 of interrupt 1Ah then returns both and clears the count of midnights only.
\<close>

theorem day_count:
  assumes "keeps_ticks io" "ticks s < 1573040"
  shows "let t = (handle_08 io ^^ n) s; m = ticks s + n in
    ticks t = m mod 1573040 \<and> nights t = nights s + of_nat (m div 1573040) \<and>
    (\<exists>r u. handle_1a io (regs\<lparr>br_ah := 0\<rparr>) t = Some (r, u) \<and> unat (cx_dx r) = m mod 1573040 \<and>
      br_al r = nights s + of_nat (m div 1573040) \<and> ticks u = ticks t \<and> nights u = 0)"
proof -
  let ?t = "(handle_08 io ^^ n) s"
  note run = handle_08_runs [OF assms, of n]
  have y: "bda32 timer_counter (yield io ?t) = bda32 timer_counter ?t" "nights (yield io ?t) = nights ?t"
    using keeps_ticksD(1,2) [OF assms(1)] by (simp_all add: yield_def)
  have joined: "push_bit 16 (ucast (ucast (drop_bit 16 v) :: u16)) OR ucast (ucast v :: u16) = v" for v :: u32
    by (rule bit_word_eqI) (auto simp: bit_simps)
  have reg: "get_dx (set_dx b q) = b" "get_cx (set_dx b q) = get_cx q" "get_cx (set_cx a q) = a"
    "get_cx (q\<lparr>br_al := c\<rparr>) = get_cx q" "get_dx (q\<lparr>br_al := c\<rparr>) = get_dx q" "get_cx (set_cf d q) = get_cx q" "get_dx (set_cf d q) = get_dx q" for a b c d q
    by (simp_all add: get_dx_def set_dx_def get_cx_def set_cx_def set_cf_def)
  have other: "get32 (\<lambda>a. if a = timer_rollover then v else b a) timer_counter = get32 b timer_counter" for b v
    using get32_other [of timer_rollover timer_counter b v] by (simp add: fun_upd_def)
  show ?thesis
    using run y by (simp add: Let_def handle_1a_def handle_1a00_def cx_dx_def set_success_def joined reg other)
qed

theorem day_count_witness:
  "ticks ((handle_08 chip_sim ^^ 1573041) chip_start) = 1 \<and> nights ((handle_08 chip_sim ^^ 1573041) chip_start) = 1"
proof -
  have zero: "get32 (\<lambda>_. 0) f = 0" "get16 (\<lambda>_. 0) f = 0" for f by (simp_all add: get32_def get16_def le16_def)
  have b: "bda_of (wd chip_start) = (\<lambda>_. 0)" by (simp add: bda_of_def chip_start_def)
  have "keeps_ticks chip_sim"
    unfolding keeps_ticks_def by (auto simp: chip_sim_def bda_of_def)
  from day_count [OF this, of chip_start 1573041 bregs_zero] show ?thesis by (simp add: Let_def b zero)
qed

lemma usecs_left: "977 * n \<le> unat (usecs :: u32) \<Longrightarrow> unat (usecs - of_nat (977 * n)) = unat usecs - 977 * n"
proof -
  assume n: "977 * n \<le> unat usecs"
  have "unat usecs < 2 ^ LENGTH(32)" by (rule unsigned_less)
  with n have "unat (of_nat (977 * n) :: u32) = 977 * n" by (simp only: unat_of_nat) (rule mod_less, simp)
  then show ?thesis using n by (simp only: unat_sub word_le_nat_alt)
qed

lemma busy: "waiting reg left seg off v users s \<Longrightarrow> set_usertimer io usecs seg' off' s = (- 1, s)"
  by (simp add: waiting_def set_usertimer_def RWS_WAIT_PENDING_def)

text \<open>
  A wait of \<open>usecs\<close> microseconds lasts \<open>usecs div 977 + 1\<close> periodic interrupts: until then the caller's flag and the
  interrupt stay as they are; with the last one bit 7 of the flag is set, the wait is over, and the interrupt is turned off unless it has other users.
  A second wait meanwhile is refused and changes nothing.
\<close>

theorem wait_lasts:
  assumes "cmos_chip io sel reg" "far_from_wait seg off" "bda8 rtc_wait_flag s AND RWS_WAIT_PENDING = 0"
  shows "\<exists>t. set_usertimer io usecs seg off s = (0, t) \<and>
    (\<forall>n \<le> unat usecs div 977. let u = (usertimer_tick io ^^ n) t in
       GET_FARVAR seg off u = GET_FARVAR seg off s \<and> (RTCusers (wd s) = 0 \<longrightarrow> cmos reg u CMOS_STATUS_B AND RTC_B_PIE \<noteq> 0) \<and>
       set_usertimer io usecs' seg' off' u = (- 1, u)) \<and>
    (let u = (usertimer_tick io ^^ (unat usecs div 977 + 1)) t in
       GET_FARVAR seg off u = GET_FARVAR seg off s OR 0x80 \<and> bda8 rtc_wait_flag u = 0 \<and> RTCusers (wd u) = RTCusers (wd s) \<and>
       (RTCusers (wd s) = 0 \<longrightarrow> cmos reg u CMOS_STATUS_B AND RTC_B_PIE = 0))"
proof -
  let ?v = "GET_FARVAR seg off s" and ?u = "RTCusers (wd s)" and ?k = "unat usecs div 977"
  obtain t where t: "set_usertimer io usecs seg off s = (0, t)" "waiting reg usecs seg off ?v ?u t"
    using wait_starts [OF assms, of usecs] by (metis prod.collapse)
  have on: "waiting reg (usecs - of_nat (977 * n)) seg off ?v ?u ((usertimer_tick io ^^ n) t)" if "n \<le> ?k" for n
    using that
  proof (induction n)
    case (Suc n)
    have "977 * Suc n \<le> unat usecs" using Suc.prems by (metis div_le_mono less_eq_div_iff_mult_less_eq mult.commute zero_less_numeral)
    then have n: "977 * n + 977 \<le> unat usecs" by simp
    then have "unat (usecs - of_nat (977 * n)) = unat usecs - 977 * n"
      by (intro usecs_left) simp
    then have "977 \<le> usecs - of_nat (977 * n)" using n by (simp add: word_le_nat_alt)
    from wait_tick [OF assms(2) _ this] Suc show ?case by (simp add: algebra_simps)
  qed (use t(2) in simp)
  have left: "usecs - of_nat (977 * ?k) < 977"
  proof -
    have "977 * ?k \<le> unat usecs" by simp
    then have "unat (usecs - of_nat (977 * ?k)) = unat usecs - 977 * ?k"
      by (rule usecs_left)
    also have "\<dots> < 977" using minus_mult_div_eq_mod [of "unat usecs" 977] by simp
    finally show ?thesis by (simp add: word_less_nat_alt)
  qed
  note last = wait_ends [OF assms(1,2) on [OF order_refl] left]
  have during: "GET_FARVAR seg off u = ?v \<and> (?u = 0 \<longrightarrow> cmos reg u CMOS_STATUS_B AND RTC_B_PIE \<noteq> 0) \<and> set_usertimer io usecs' seg' off' u = (- 1, u)"
    if "n \<le> ?k" "u = (usertimer_tick io ^^ n) t" for n u
    using on [OF that(1)] busy [OF on [OF that(1)]] that(2) by (simp add: waiting_def)
  show ?thesis using t(1) during last by (auto simp: Let_def)
qed

theorem wait_lasts_witness:
  "\<exists>t. set_usertimer chip_sim 2000 0x1000 8 chip_start = (0, t) \<and>
     GET_FARVAR 0x1000 8 ((usertimer_tick chip_sim ^^ 2) t) = 0 \<and> GET_FARVAR 0x1000 8 ((usertimer_tick chip_sim ^^ 3) t) = 0x80"
proof -
  have far: "far_from_wait 0x1000 8" by (simp add: far_from_wait_def wait_fields_def seg_addr_def SEG_BDA_def)
  have b: "bda_of (wd chip_start) = (\<lambda>_. 0)" by (simp add: bda_of_def chip_start_def)
  have "GET_FARVAR 0x1000 8 chip_start = 0" by (simp add: GET_FARVAR_def chip_start_def)
  moreover have "unat (2000 :: u32) div 977 = 2" by simp
  ultimately obtain t where t: "set_usertimer chip_sim 2000 0x1000 8 chip_start = (0, t)"
    "\<forall>n \<le> 2. GET_FARVAR 0x1000 8 ((usertimer_tick chip_sim ^^ n) t) = 0"
    "GET_FARVAR 0x1000 8 ((usertimer_tick chip_sim ^^ (2 + 1)) t) = 0x80"
    using wait_lasts [OF chip_sim_ok far, of chip_start 2000 0 0 0] b by (auto simp: Let_def)
  then show ?thesis using t(2) [rule_format, of 2] by simp
qed

lemma ticks_from_ms_wrap:
  assumes "unat ms \<le> 86399000" "(unat ms * 3579545 + 65535) div 65536 mod 4294967296 + 3000 < 4294967296"
  shows "unat (ticks_from_ms ms) = ((unat ms * 3579545 + 65535) div 65536 mod 4294967296 + 2999) div 3000"
proof -
  let ?p = "ucast ms * PMTIMER_HZ :: u64"
  have p: "unat ?p = unat ms * 3579545"
    using assms(1) by (simp add: PMTIMER_HZ_def unat_word_ariths unsigned_ucast_eq take_bit_nat_eq_self)
  have "unat (DIV_ROUND_UP ?p 65536) = (unat ms * 3579545 + 65535) div 65536"
    using assms(1) p by (subst round_up_word) simp_all
  then have "unat (ucast (DIV_ROUND_UP ?p 65536) :: u32) = (unat ms * 3579545 + 65535) div 65536 mod 4294967296"
    by (simp add: unsigned_ucast_eq take_bit_eq_mod)
  then show ?thesis
    unfolding ticks_from_ms_def Let_def using assms(2)
    by (subst round_up_word) (simp_all add: PMTIMER_TO_PIT_def, simp only: add.commute)
qed

text \<open>
  C40. The tick count after a start in the evening is wrong. For a time of day up to 21:50:34 \<open>clock_setup\<close> stores the number of
  ticks since midnight, rounded up; from 21:50:35 on an intermediate result loses its bit 32, and the count is that of some time
  before 2:10 in the morning.
\<close>

theorem evening_ticks:
  assumes "unat (bcd2bin h) < 24" "unat (bcd2bin m) < 60" "unat (bcd2bin sec) < 60"
  shows "let T = (unat (bcd2bin h) * 60 + unat (bcd2bin m)) * 60 + unat (bcd2bin sec); t = unat (ticks_of_time h m sec) in
    (if T < 78635 then T * 1000 * 3579545 \<le> t * 196608000 \<and> t * 196608000 < T * 1000 * 3579545 + 196608000
     else t * 196608000 < 7800 * 1000 * 3579545)"
proof -
  define T where "T = (unat (bcd2bin h) * 60 + unat (bcd2bin m)) * 60 + unat (bcd2bin sec)"
  let ?ms = "((bcd2bin h * 60 + bcd2bin m) * 60 + bcd2bin sec) * 1000"
  have T: "T \<le> 86399" using assms by (simp add: T_def)
  have ms: "unat ?ms = T * 1000" using assms by (simp add: unat_word_ariths T_def)
  define q where "q = (T * 1000 * 3579545 + 65535) div 65536"
  define r where "r = (if T < 78635 then q else q - 4294967296)"
  have r: "q mod 4294967296 = r" "r + 3000 < 4294967296" "T \<ge> 78635 \<Longrightarrow> r \<le> 424104794" "r \<le> 4294951501"
  proof -
    have "q \<le> 4294951501" if "T < 78635"
    proof -
      have "T * 1000 * 3579545 + 65535 \<le> 78634 * 1000 * 3579545 + 65535" using that by simp
      from div_le_mono [OF this, of 65536] show ?thesis by (simp add: q_def)
    qed
    moreover have "4294967296 \<le> q" "q \<le> 4719072090" if "\<not> T < 78635"
    proof -
      have l: "78635 * 1000 * 3579545 + 65535 \<le> T * 1000 * 3579545 + 65535" using that by simp
      from div_le_mono [OF l, of 65536] show "4294967296 \<le> q" by (simp add: q_def)
      have u: "T * 1000 * 3579545 + 65535 \<le> 86399 * 1000 * 3579545 + 65535" using T by simp
      from div_le_mono [OF u, of 65536] show "q \<le> 4719072090" by (simp add: q_def)
    qed
    ultimately show "q mod 4294967296 = r" "r + 3000 < 4294967296" "T \<ge> 78635 \<Longrightarrow> r \<le> 424104794" "r \<le> 4294951501"
      by (auto simp: r_def le_mod_geq)
  qed
  have from_ms: "unat (ticks_from_ms ?ms) = (r + 2999) div 3000"
    using ticks_from_ms_wrap [of ?ms] ms r T by (simp add: q_def)
  have t: "unat (ticks_of_time h m sec) = (r + 2999) div 3000"
  proof -
    have "(r + 2999) div 3000 \<le> (4294951501 + 2999) div 3000" using r(4) by (intro div_le_mono) simp
    then show ?thesis unfolding ticks_of_time_def unat_mod from_ms by (simp add: TICKS_PER_DAY_def)
  qed
  show ?thesis
  proof (cases "T < 78635")
    case True
    then have "r = (T * 1000 * 3579545 + 65535) div 65536" by (simp add: r_def q_def)
    then show ?thesis using True unfolding t T_def [symmetric] Let_def by simp linarith
  next
    case False
    then have "(r + 2999) div 3000 \<le> (424104794 + 2999) div 3000" using r(3) by (intro div_le_mono) simp
    then show ?thesis using False unfolding t T_def [symmetric] Let_def by simp
  qed
qed

theorem evening_ticks_witness: "unat (ticks_of_time 0x22 0 0) * 196608000 < 7800 * 1000 * 3579545"
  using evening_ticks [of "0x22" 0 0] by (simp add: bcd2bin_def)

end
