(* ===== verification/Disk.thy ===== *)
theory Disk
  imports Block Pic
begin

text \<open>
  Interrupt 13h, \<open>seabios/src/disk.c\<close>. Every function takes the registers, the address of the drive and the
  state. \<open>None\<close> is an access out of a table, or a request that does not return.
\<close>

record dregs = bregs +
  br_ds :: u16
  br_si :: u16
  br_di :: u16

type_synonym ('v, 'z) dstate = "('v low, 'z) disk_mach_scheme"
type_synonym ('v, 'z) disk_service = "dregs \<Rightarrow> u32 \<Rightarrow> ('v, 'z) dstate \<Rightarrow> (dregs \<times> ('v, 'z) dstate) option"

definition set_bx :: "u16 \<Rightarrow> 'r bregs_scheme \<Rightarrow> 'r bregs_scheme" where
  "set_bx v r = r\<lparr>br_bh := hi8 v, br_bl := lo8 v\<rparr>"

definition get_bx :: "'r bregs_scheme \<Rightarrow> u16" where
  "get_bx r = le16 (br_bl r) (br_bh r)"

definition DISK_RET_ECHANGED :: int where "DISK_RET_ECHANGED = 0x06"
definition DISK_RET_ENOTLOCKED :: int where "DISK_RET_ENOTLOCKED = 0xb0"
definition DISK_RET_ELOCKED :: int where "DISK_RET_ELOCKED = 0xb1"
definition DISK_RET_ENOTREMOVABLE :: int where "DISK_RET_ENOTREMOVABLE = 0xb2"
definition DISK_RET_ETOOMANYLOCKS :: int where "DISK_RET_ETOOMANYLOCKS = 0xb4"
definition SEG_BIOS :: u16 where "SEG_BIOS = 0xf000"

section \<open>Return status\<close>

definition set_last_status :: "dregs \<Rightarrow> u8 \<Rightarrow> ('v, 'z) dstate \<Rightarrow> ('v, 'z) dstate" where
  "set_last_status regs code s = (if br_dl regs < EXTSTART_HD then set_bda8 floppy_last_status code s else set_bda8 disk_last_status code s)"

definition disk_ret :: "dregs \<Rightarrow> int \<Rightarrow> ('v, 'z) dstate \<Rightarrow> dregs \<times> ('v, 'z) dstate" where
  "disk_ret regs status s =
     (let code = word_of_int status :: u8
      in (if code \<noteq> 0 then set_code_invalid code regs else set_code_success regs, set_last_status regs code s))"

definition disk_ret_unimplemented :: "dregs \<Rightarrow> int \<Rightarrow> ('v, 'z) dstate \<Rightarrow> dregs \<times> ('v, 'z) dstate" where
  "disk_ret_unimplemented regs status s =
     (let code = word_of_int status :: u8 in (set_code_unimplemented code regs, set_last_status regs code s))"

definition disk_stub :: "dregs \<Rightarrow> ('v, 'z) dstate \<Rightarrow> dregs \<times> ('v, 'z) dstate" where
  "disk_stub regs s = disk_ret regs DISK_RET_SUCCESS s"

section \<open>Access by cylinder, head and sector\<close>

definition getLCHS :: "u32 \<Rightarrow> ('v, 'z) dstate \<Rightarrow> chs_s" where
  "getLCHS d s =
     (if d = cdemu_drive_gf s
      then (let sptcyl = chs_sptcyl (CDEmu s)
            in \<lparr>head = ucast (chs_heads (CDEmu s)) + 1,
                cylinder = ucast (chs_cyllow (CDEmu s)) + (push_bit 2 (ucast sptcyl) AND 0x300) + 1,
                sector = ucast (sptcyl AND 0x3f)\<rparr>)
      else lchs (drives s d))"

definition chs_lba :: "chs_s \<Rightarrow> u16 \<Rightarrow> u16 \<Rightarrow> u16 \<Rightarrow> u64" where
  "chs_lba chs c h sec = ucast ((ucast c * ucast (head chs) + ucast h) * ucast (sector chs) + ucast sec - 1 :: u32)"

definition basic_access :: "('v, 'z) dstate drivers \<Rightarrow> u8 \<Rightarrow> ('v, 'z) disk_service" where
  "basic_access drv command regs d s =
     (let count = br_al regs;
          c = ucast (br_ch regs) OR (push_bit 2 (ucast (br_cl regs)) AND 0x300) :: u16;
          sec = ucast (br_cl regs) AND 0x3f :: u16;
          h = ucast (br_dh regs) :: u16
      in if 128 < count \<or> count = 0 \<or> sec = 0 then Some (disk_ret regs DISK_RET_EPARAM s)
         else (let chs = getLCHS d s
               in if cylinder chs \<le> c \<or> head chs \<le> h \<or> sector chs < sec then Some (disk_ret regs DISK_RET_EPARAM s)
                  else do {
                    (status, n, s) \<leftarrow> send_disk_op drv
                      \<lparr>op_lba = chs_lba chs c h sec, buf_fl = MAKE_FLATPTR (br_es regs) (get_bx regs), op_drive = d,
                       op_count = ucast count, op_command = command\<rparr> s;
                    Some (disk_ret (regs\<lparr>br_al := ucast n\<rparr>) status s)
                  }))"

section \<open>Access by block number\<close>

definition extended_access :: "('v, 'z) dstate drivers \<Rightarrow> u8 \<Rightarrow> ('v, 'z) disk_service" where
  "extended_access drv command regs d s =
     (let ds = br_ds regs; p = br_si regs; lba = get_far64 ds (p + 8) s
      in if drive_sectors (drives s d) \<le> lba then Some (disk_ret regs DISK_RET_EPARAM s)
         else (let buf = MAKE_FLATPTR (get_far16 ds (p + 6) s) (get_far16 ds (p + 4) s); count = get_far16 ds (p + 2) s
               in if count = 0 then Some (disk_ret regs DISK_RET_SUCCESS s)
                  else do {
                    (status, n, s) \<leftarrow> send_disk_op drv
                      \<lparr>op_lba = lba, buf_fl = buf, op_drive = d, op_count = count, op_command = command\<rparr> s;
                    Some (disk_ret regs status (put_far ds (p + 2) (bytes16 n) s))
                  }))"

section \<open>The functions\<close>

text \<open>\<open>junk\<close> is what the fields of a request hold that the code does not set.\<close>

definition simple_op :: "('v, 'z) dstate drivers \<Rightarrow> disk_op_s \<Rightarrow> u8 \<Rightarrow> ('v, 'z) disk_service" where
  "simple_op drv junk command regs d s =
     do { (status, _, s) \<leftarrow> send_disk_op drv (junk\<lparr>op_drive := d, op_command := command\<rparr>) s; Some (disk_ret regs status s) }"

definition disk_1300 :: "('v, 'z) dstate drivers \<Rightarrow> disk_op_s \<Rightarrow> ('v, 'z) disk_service" where
  "disk_1300 drv junk regs d s = simple_op drv junk CMD_RESET regs d s"

definition disk_1301 :: "dregs \<Rightarrow> ('v, 'z) dstate \<Rightarrow> dregs \<times> ('v, 'z) dstate" where
  "disk_1301 regs s =
     (let v = bda8 (if br_dl regs < EXTSTART_HD then floppy_last_status else disk_last_status) s
      in (set_cf (v \<noteq> 0) (regs\<lparr>br_ah := v\<rparr>), s))"

definition disk_1302 :: "('v, 'z) dstate drivers \<Rightarrow> ('v, 'z) disk_service" where "disk_1302 drv = basic_access drv CMD_READ"
definition disk_1303 :: "('v, 'z) dstate drivers \<Rightarrow> ('v, 'z) disk_service" where "disk_1303 drv = basic_access drv CMD_WRITE"
definition disk_1304 :: "('v, 'z) dstate drivers \<Rightarrow> ('v, 'z) disk_service" where "disk_1304 drv = basic_access drv CMD_VERIFY"

definition disk_1305 :: "('v, 'z) dstate drivers \<Rightarrow> ('v, 'z) disk_service" where
  "disk_1305 drv regs d s =
     (let chs = getLCHS d s; count = br_al regs; c = br_ch regs; h = br_dh regs
      in if cylinder chs \<le> ucast c \<or> head chs \<le> ucast h \<or> count = 0 \<or> sector chs < ucast count
         then Some (disk_ret regs DISK_RET_EPARAM s)
         else do {
           (status, _, s) \<leftarrow> send_disk_op drv
             \<lparr>op_lba = ucast ((ucast c * ucast (head chs) + ucast h) * ucast (sector chs) :: u32),
              buf_fl = MAKE_FLATPTR (br_es regs) (get_bx regs), op_drive = d, op_count = ucast count, op_command = CMD_FORMAT\<rparr> s;
           Some (disk_ret regs status s)
         })"

definition extra_drive :: "u8 \<Rightarrow> u8 \<Rightarrow> ('v, 'z) dstate \<Rightarrow> u8" where
  "extra_drive dl count s =
     (if media (CDEmu s) \<noteq> 0
      then (let count = (if (emulated_drive (CDEmu s) XOR dl) AND 0x80 = 0 then count + 1 else count)
            in if dl < EXTSTART_HD \<and> 2 < count then 2 else count)
      else count)"

definition disk_1308 :: "disk_consts \<Rightarrow> dregs \<Rightarrow> u32 \<Rightarrow> ('v, 'z) dstate \<Rightarrow> dregs \<times> ('v, 'z) dstate" where
  "disk_1308 k regs d s =
     (let chs = getLCHS d s; nlc = cylinder chs - 1; nlh = head chs - 1; nls = sector chs; dl = br_dl regs;
          report = (\<lambda>regs nlc count.
            let regs = regs\<lparr>br_al := 0, br_ch := ucast (nlc AND 0xff), br_cl := ucast ((drop_bit 2 nlc AND 0xc0) OR (nls AND 0x3f)),
                  br_dh := ucast nlh\<rparr>;
                (regs, s) = disk_ret regs DISK_RET_SUCCESS s
            in (regs\<lparr>br_dl := extra_drive dl count s\<rparr>, s))
      in if dl < EXTSTART_HD
         then report ((set_bx (if d = cdemu_drive_gf s then ucast (media (CDEmu s)) * 2 else ucast (floppy_type (drives s d))) regs)
                \<lparr>br_es := SEG_BIOS, br_di := diskette_param_table2 k\<rparr>) nlc (FloppyCount s)
         else if dl < EXTSTART_CD then report regs (nlc - 1) (bda8 hdcount s)
         else disk_ret regs DISK_RET_EPARAM s)"

definition disk_1310 :: "('v, 'z) dstate drivers \<Rightarrow> disk_op_s \<Rightarrow> ('v, 'z) disk_service" where
  "disk_1310 drv junk regs d s = simple_op drv junk CMD_ISREADY regs d s"

definition disk_1315 :: "dregs \<Rightarrow> u32 \<Rightarrow> ('v, 'z) dstate \<Rightarrow> dregs \<times> ('v, 'z) dstate" where
  "disk_1315 regs d s =
     (let (regs, s) = disk_ret regs DISK_RET_SUCCESS s
      in if br_dl regs < EXTSTART_HD \<or> EXTSTART_CD \<le> br_dl regs then (regs\<lparr>br_ah := 1\<rparr>, s)
         else (let chs = getLCHS d s; lba = word_of_int (uint (cylinder chs) - 1) * ucast (head chs) * ucast (sector chs) :: u32
               in ((set_dx (ucast (lba AND 0xffff)) (set_cx (ucast (drop_bit 16 lba)) regs))\<lparr>br_ah := 3\<rparr>, s)))"

definition disk_1316 :: "dregs \<Rightarrow> ('v, 'z) dstate \<Rightarrow> dregs \<times> ('v, 'z) dstate" where
  "disk_1316 regs s = (if EXTSTART_HD \<le> br_dl regs then disk_ret regs DISK_RET_EPARAM s else disk_ret regs DISK_RET_ECHANGED s)"

definition disk_1341 :: "dregs \<Rightarrow> ('v, 'z) dstate \<Rightarrow> dregs \<times> ('v, 'z) dstate" where
  "disk_1341 regs s =
     (case disk_ret (set_cx 0x0007 (set_bx 0xaa55 regs)) DISK_RET_SUCCESS s of (regs, s) \<Rightarrow> (regs\<lparr>br_ah := 0x30\<rparr>, s))"

definition disk_1342 :: "('v, 'z) dstate drivers \<Rightarrow> ('v, 'z) disk_service" where "disk_1342 drv = extended_access drv CMD_READ"
definition disk_1343 :: "('v, 'z) dstate drivers \<Rightarrow> ('v, 'z) disk_service" where "disk_1343 drv = extended_access drv CMD_WRITE"
definition disk_1344 :: "('v, 'z) dstate drivers \<Rightarrow> ('v, 'z) disk_service" where "disk_1344 drv = extended_access drv CMD_VERIFY"
definition disk_1347 :: "('v, 'z) dstate drivers \<Rightarrow> ('v, 'z) disk_service" where "disk_1347 drv = extended_access drv CMD_SEEK"

section \<open>Locks of removable media\<close>

abbreviation cdid :: "dregs \<Rightarrow> int" where "cdid regs \<equiv> uint (br_dl regs) - uint EXTSTART_CD"

definition disk_134500 :: "dregs \<Rightarrow> ('v, 'z) dstate \<Rightarrow> (dregs \<times> ('v, 'z) dstate) option" where
  "disk_134500 regs s =
     do {
       locks \<leftarrow> arr_get (CDRom_locks s) (cdid regs);
       Some (if locks = 0xff then disk_ret (regs\<lparr>br_al := 1\<rparr>) DISK_RET_ETOOMANYLOCKS s
             else disk_ret (regs\<lparr>br_al := 1\<rparr>) DISK_RET_SUCCESS (s\<lparr>CDRom_locks := (CDRom_locks s)[nat (cdid regs) := locks + 1]\<rparr>))
     }"

definition disk_134501 :: "dregs \<Rightarrow> ('v, 'z) dstate \<Rightarrow> (dregs \<times> ('v, 'z) dstate) option" where
  "disk_134501 regs s =
     do {
       locks \<leftarrow> arr_get (CDRom_locks s) (cdid regs);
       Some (if locks = 0 then disk_ret (regs\<lparr>br_al := 0\<rparr>) DISK_RET_ENOTLOCKED s
             else (let locks = locks - 1
                   in disk_ret (regs\<lparr>br_al := (if locks \<noteq> 0 then 1 else 0)\<rparr>) DISK_RET_SUCCESS
                        (s\<lparr>CDRom_locks := (CDRom_locks s)[nat (cdid regs) := locks]\<rparr>)))
     }"

definition disk_134502 :: "dregs \<Rightarrow> ('v, 'z) dstate \<Rightarrow> (dregs \<times> ('v, 'z) dstate) option" where
  "disk_134502 regs s =
     do {
       locks \<leftarrow> arr_get (CDRom_locks s) (cdid regs);
       Some (disk_ret (regs\<lparr>br_al := (if locks \<noteq> 0 then 1 else 0)\<rparr>) DISK_RET_SUCCESS s)
     }"

definition disk_1345XX :: "dregs \<Rightarrow> ('v, 'z) dstate \<Rightarrow> dregs \<times> ('v, 'z) dstate" where
  "disk_1345XX regs s = disk_ret_unimplemented regs DISK_RET_EPARAM s"

definition disk_1345 :: "dregs \<Rightarrow> ('v, 'z) dstate \<Rightarrow> (dregs \<times> ('v, 'z) dstate) option" where
  "disk_1345 regs s =
     (if br_dl regs < EXTSTART_CD then Some (disk_ret regs DISK_RET_SUCCESS s)
      else if br_al regs = 0 then disk_134500 regs s
      else if br_al regs = 1 then disk_134501 regs s
      else if br_al regs = 2 then disk_134502 regs s
      else Some (disk_1345XX regs s))"

definition disk_1346 :: "('v low) io \<Rightarrow> dregs \<Rightarrow> ('v, 'z) dstate \<Rightarrow> (dregs \<times> ('v, 'z) dstate) option" where
  "disk_1346 io regs s =
     (if br_dl regs < EXTSTART_CD then Some (disk_ret regs DISK_RET_ENOTREMOVABLE s)
      else do {
        locks \<leftarrow> arr_get (CDRom_locks s) (cdid regs);
        Some (if locks \<noteq> 0 then disk_ret regs DISK_RET_ELOCKED s
              else (let (br, s) = call16_int io 0x15 (bregs_zero\<lparr>br_ah := 0x52, br_dl := br_dl regs\<rparr>) s
                    in if br_ah br \<noteq> 0 \<or> br_flags br AND F_CF \<noteq> 0 then disk_ret regs DISK_RET_ELOCKED s
                       else disk_ret regs DISK_RET_SUCCESS s))
      })"

definition disk_1348 :: "disk_consts \<Rightarrow> dregs \<Rightarrow> u32 \<Rightarrow> ('v, 'z) dstate \<Rightarrow> dregs \<times> ('v, 'z) dstate" where
  "disk_1348 k regs d s = (case fill_edd k (br_ds regs) (br_si regs) d s of (ret, s) \<Rightarrow> disk_ret regs ret s)"

definition disk_1349 :: "dregs \<Rightarrow> ('v, 'z) dstate \<Rightarrow> dregs \<times> ('v, 'z) dstate" where
  "disk_1349 regs s =
     (if br_dl regs < EXTSTART_CD then disk_ret regs DISK_RET_SUCCESS s
      else ((set_invalid regs)\<lparr>br_ah := word_of_int DISK_RET_ECHANGED\<rparr>, s))"

definition disk_134e :: "dregs \<Rightarrow> ('v, 'z) dstate \<Rightarrow> dregs \<times> ('v, 'z) dstate" where
  "disk_134e regs s =
     (if br_al regs \<in> {0x01, 0x03, 0x04, 0x06} then disk_ret regs DISK_RET_SUCCESS s else disk_ret regs DISK_RET_EPARAM s)"

definition disk_13XX :: "dregs \<Rightarrow> ('v, 'z) dstate \<Rightarrow> dregs \<times> ('v, 'z) dstate" where
  "disk_13XX regs s = disk_ret_unimplemented regs DISK_RET_EPARAM s"

section \<open>Dispatch\<close>

text \<open>The functions 9h, 0Ch, 0Dh, 11h and 14h are stubs that succeed.\<close>

definition disk_13 :: "('v low) io \<Rightarrow> ('v, 'z) dstate drivers \<Rightarrow> disk_consts \<Rightarrow> disk_op_s \<Rightarrow> ('v, 'z) disk_service" where
  "disk_13 io drv k junk regs d s =
     (let s = set_bda8 disk_interrupt_flag 0 s; ah = br_ah regs
      in if ah = 0x00 then disk_1300 drv junk regs d s
         else if ah = 0x01 then Some (disk_1301 regs s)
         else if ah = 0x02 then disk_1302 drv regs d s
         else if ah = 0x03 then disk_1303 drv regs d s
         else if ah = 0x04 then disk_1304 drv regs d s
         else if ah = 0x05 then disk_1305 drv regs d s
         else if ah = 0x08 then Some (disk_1308 k regs d s)
         else if ah \<in> {0x09, 0x0c, 0x0d, 0x11, 0x14} then Some (disk_stub regs s)
         else if ah = 0x10 then disk_1310 drv junk regs d s
         else if ah = 0x15 then Some (disk_1315 regs d s)
         else if ah = 0x16 then Some (disk_1316 regs s)
         else if ah = 0x41 then Some (disk_1341 regs s)
         else if ah = 0x42 then disk_1342 drv regs d s
         else if ah = 0x43 then disk_1343 drv regs d s
         else if ah = 0x44 then disk_1344 drv regs d s
         else if ah = 0x45 then disk_1345 regs s
         else if ah = 0x46 then disk_1346 io regs s
         else if ah = 0x47 then disk_1347 drv regs d s
         else if ah = 0x48 then Some (disk_1348 k regs d s)
         else if ah = 0x49 then Some (disk_1349 regs s)
         else if ah = 0x4e then Some (disk_134e regs s)
         else Some (disk_13XX regs s))"

definition floppy_13 :: "('v low) io \<Rightarrow> ('v, 'z) dstate drivers \<Rightarrow> disk_consts \<Rightarrow> disk_op_s \<Rightarrow> ('v, 'z) disk_service" where
  "floppy_13 io drv k junk regs d s =
     (if br_ah regs \<in> {0x00, 0x01, 0x02, 0x03, 0x04, 0x05, 0x08, 0x15, 0x16} then disk_13 io drv k junk regs d s
      else Some (disk_13XX regs s))"

definition eltorito_bytes :: "eltorito_s \<Rightarrow> u8 list" where
  "eltorito_bytes e = [19, media e, emulated_drive e, controller_index e] @ bytes32 (ilba e) @ bytes16 (device_spec e) @
     bytes16 (buffer_segment e) @ bytes16 (load_segment e) @ bytes16 (sector_count e) @ [chs_heads e, chs_sptcyl e, chs_cyllow e]"

definition cdemu_134b :: "dregs \<Rightarrow> ('v, 'z) dstate \<Rightarrow> dregs \<times> ('v, 'z) dstate" where
  "cdemu_134b regs s =
     (let s = put_far (br_ds regs) (br_si regs) (eltorito_bytes (CDEmu s)) s;
          s = (if br_al regs = 0 then s\<lparr>CDEmu := (CDEmu s)\<lparr>media := 0\<rparr>\<rparr> else s)
      in disk_ret regs DISK_RET_SUCCESS s)"

definition handle_legacy_disk :: "('v low) io \<Rightarrow> ('v, 'z) dstate drivers \<Rightarrow> disk_consts \<Rightarrow> disk_op_s \<Rightarrow> u8 \<Rightarrow> dregs \<Rightarrow>
    ('v, 'z) dstate \<Rightarrow> (dregs \<times> ('v, 'z) dstate) option" where
  "handle_legacy_disk io drv k junk extdrive regs s =
     (if extdrive < EXTSTART_HD
      then do {
        d \<leftarrow> getDrive EXTTYPE_FLOPPY extdrive s;
        if d = 0 then Some (disk_ret regs DISK_RET_EPARAM s) else floppy_13 io drv k junk regs d s
      }
      else do {
        d \<leftarrow> (if EXTSTART_CD \<le> extdrive then getDrive EXTTYPE_CD (extdrive - EXTSTART_CD) s
              else getDrive EXTTYPE_HD (extdrive - EXTSTART_HD) s);
        if d = 0 then Some (disk_ret regs DISK_RET_EPARAM s) else disk_13 io drv k junk regs d s
      })"

definition handle_40 :: "('v low) io \<Rightarrow> ('v, 'z) dstate drivers \<Rightarrow> disk_consts \<Rightarrow> disk_op_s \<Rightarrow> dregs \<Rightarrow>
    ('v, 'z) dstate \<Rightarrow> (dregs \<times> ('v, 'z) dstate) option" where
  "handle_40 io drv k junk regs s = handle_legacy_disk io drv k junk (br_dl regs) regs s"

definition handle_13 :: "('v low) io \<Rightarrow> ('v, 'z) dstate drivers \<Rightarrow> disk_consts \<Rightarrow> disk_op_s \<Rightarrow> dregs \<Rightarrow>
    ('v, 'z) dstate \<Rightarrow> (dregs \<times> ('v, 'z) dstate) option" where
  "handle_13 io drv k junk regs s =
     (let extdrive = br_dl regs; emudrive = emulated_drive (CDEmu s)
      in if br_ah regs = 0x4b then Some (cdemu_134b regs s)
         else if media (CDEmu s) \<noteq> 0 \<and> extdrive = emudrive
         then (if 0x16 < br_ah regs then Some (disk_13XX regs s) else disk_13 io drv k junk regs (cdemu_drive_gf s) s)
         else handle_legacy_disk io drv k junk
           (if media (CDEmu s) \<noteq> 0 \<and> extdrive < EXTSTART_CD \<and> (emudrive XOR extdrive) AND 0x80 = 0 then extdrive - 1 else extdrive) regs s)"

definition handle_76 :: "('v low) io \<Rightarrow> ('v, 'z) dstate \<Rightarrow> ('v, 'z) dstate" where
  "handle_76 io s = pic_eoi2 io (set_bda8 disk_interrupt_flag 0xff s)"

end
