(* ===== verification/Geometry.thy ===== *)
theory Geometry
  imports Disk
begin

text \<open>
  The geometry that a drive is given: it stays within what the registers of interrupt 13h can express and within the
  drive, and cylinder, head and sector number each of its sectors once.
\<close>

section \<open>Choice of a geometry\<close>

definition fits :: "nat \<Rightarrow> nat \<Rightarrow> nat \<Rightarrow> nat \<Rightarrow> bool" where
  "fits n c h k \<longleftrightarrow> 1 \<le> h \<and> h \<le> 255 \<and> 1 \<le> k \<and> k \<le> 63 \<and> c * h * k \<le> n"

lemma large_loop_product:
  assumes "unat h < 256" "unat c \<le> 1024 \<or> unat h < 128" "1 \<le> unat c" "1 \<le> unat h" "large_loop c h = (c', h')"
  shows "unat c' * unat h' \<le> unat c * unat h" "1 \<le> unat c'" "1 \<le> unat h'" "unat h' < 256"
proof -
  have "unat h < 256 \<longrightarrow> unat c \<le> 1024 \<or> unat h < 128 \<longrightarrow> 1 \<le> unat c \<longrightarrow> 1 \<le> unat h \<longrightarrow> large_loop c h = (c', h') \<longrightarrow>
     unat c' * unat h' \<le> unat c * unat h \<and> 1 \<le> unat c' \<and> 1 \<le> unat h' \<and> unat h' < 256"
  proof (induction c h rule: large_loop.induct)
    case (1 c h)
    let ?c = "drop_bit 1 c" and ?h = "push_bit 1 h"
    show ?case
    proof (intro impI)
      assume a: "unat h < 256" "unat c \<le> 1024 \<or> unat h < 128" "1 \<le> unat c" "1 \<le> unat h" "large_loop c h = (c', h')"
      show "unat c' * unat h' \<le> unat c * unat h \<and> 1 \<le> unat c' \<and> 1 \<le> unat h' \<and> unat h' < 256"
      proof (cases "1024 < c")
        case False
        with a show ?thesis by (subst (asm) large_loop.simps) simp
      next
        case True
        then have c: "1024 < unat c" by (simp add: word_less_nat_alt)
        with a have h: "unat h < 128" by simp
        have uc: "unat ?c = unat c div 2" by (simp add: drop_bit_eq_div unat_div)
        have uh: "unat ?h = unat h * 2" using h by (simp add: push_bit_eq_mult unat_word_ariths)
        have p: "unat ?c * unat ?h \<le> unat c * unat h" unfolding uc uh by (simp add: mult.left_commute)
        have b: "1 \<le> unat ?c" "1 \<le> unat ?h" "unat ?h < 256" unfolding uc uh using c h a(4) by simp_all
        show ?thesis
        proof (cases "127 < ?h")
          case True
          then have "(c', h') = (?c, ?h)" using a(5) \<open>1024 < c\<close> by (subst (asm) large_loop.simps) (simp add: Let_def)
          then show ?thesis using p b by simp
        next
          case False
          then have e: "large_loop ?c ?h = (c', h')" using a(5) \<open>1024 < c\<close> by (subst (asm) large_loop.simps) (simp add: Let_def)
          have "unat ?h < 128" using False by (simp add: word_less_nat_alt)
          then have "unat c' * unat h' \<le> unat ?c * unat ?h \<and> 1 \<le> unat c' \<and> 1 \<le> unat h' \<and> unat h' < 256"
            using 1 [OF True refl refl False] b e by blast
          then show ?thesis using p by linarith
        qed
      qed
    qed
  qed
  with assms show "unat c' * unat h' \<le> unat c * unat h" "1 \<le> unat c'" "1 \<le> unat h'" "unat h' < 256" by blast+
qed

lemma translate_lba:
  assumes "translate TRANSLATION_LBA n p = (c, h, k)"
  shows "fits (unat n) (unat c) (unat h) (unat k) \<and> (1024 \<le> unat c \<or> unat n < (unat c + 1) * unat h * unat k)"
proof (cases "63 * 255 * 1024 < n")
  case True
  then have "16450560 < unat n" by (simp add: word_less_nat_alt)
  with True assms show ?thesis by (auto simp: translate_def fits_def)
next
  case False
  then have n: "unat n \<le> 16450560" by (simp add: word_less_nat_alt)
  define q where "q = (ucast n :: u32) div 63"
  have q: "unat q = unat n div 63"
    using n by (simp add: q_def unat_div unsigned_ucast_eq take_bit_nat_eq_self)
  then have qb: "unat q \<le> 261120" using n by simp
  have r: "unat (ucast (q div 1024) :: u16) = unat q div 1024"
    using qb by (simp add: unat_div unsigned_ucast_eq take_bit_nat_eq_self)
  have e: "h = lba_heads (ucast (q div 1024))" "c = ucast (q div ucast h)" "k = 63"
    using assms False by (auto simp: translate_def Let_def q_def)
  have h: "unat h = (if 128 < unat q div 1024 then 255 else if 64 < unat q div 1024 then 128
      else if 32 < unat q div 1024 then 64 else if 16 < unat q div 1024 then 32 else 16)"
    unfolding e(1) lba_heads_def by (simp add: word_less_nat_alt r)
  have hb: "16 \<le> unat h" "unat h \<le> 255" by (simp_all add: h)
  have c32: "unat (q div ucast h) = unat q div unat h"
    using hb by (simp add: unat_div unsigned_ucast_eq take_bit_nat_eq_self)
  have "unat q div unat h \<le> unat q div 16" using hb by (intro div_le_mono2) auto
  then have c: "unat c = unat q div unat h" unfolding e(2) unsigned_ucast_eq c32 using qb by (simp add: take_bit_nat_eq_self)
  have "unat c * unat h \<le> unat q" "unat q < (unat c + 1) * unat h"
    unfolding c using hb dividend_less_div_times [of "unat h" "unat q"] by simp_all
  then show ?thesis using hb q by (auto simp: fits_def e(3))
qed

lemma sectors_of_geometry:
  "unat (ucast h * ucast c * ucast k :: u64) = unat (h :: u16) * unat (c :: u16) * unat (k :: u16)"
proof -
  have l: "unat x \<le> 65535" for x :: u16 using u16_unat_lt [of x] by linarith
  have "unat h * unat c * unat k \<le> 65535 * 65535 * 65535" by (intro mult_le_mono) (rule l)+
  then have lt: "unat h * unat c * unat k < 2 ^ 64" by (rule le_less_trans) simp
  have u: "unat (of_nat m :: u64) = m" if "m < 2 ^ 64" for m using that by (simp add: unat_of_nat)
  have "ucast h * ucast c * ucast k = (of_nat (unat h * unat c * unat k) :: u64)" by simp
  then show ?thesis using u [OF lt] by (simp only:)
qed

lemma word_sint_small:
  assumes "unat (x :: u32) < 2147483648"
  shows "sint x = int (unat x)"
proof -
  have "int (unat x) < 2147483648" using assms by linarith
  then have u: "uint x < 2147483648" "0 \<le> uint x" by simp_all
  have "signed_take_bit 31 (uint x) = uint x" by (rule signed_take_bit_int_eq_self) (use u(1) order_trans [OF _ u(2)] in simp_all)
  then show ?thesis by (simp add: sint_uint)
qed

lemma large_translation:
  assumes "get_translation d = TRANSLATION_LARGE" "unat (head (pchs d)) \<le> 255"
  shows "unat (cylinder (pchs d)) \<le> 1024 \<or> unat (head (pchs d)) < 128"
proof (rule ccontr)
  let ?c = "cylinder (pchs d)" and ?h = "head (pchs d)"
  assume "\<not> ?thesis"
  then have m: "1025 \<le> unat ?c" "128 \<le> unat ?h" by simp_all
  have u: "unat ?c \<le> 65535" using u16_unat_lt [of ?c] by simp
  have "unat ?c * unat ?h \<le> 65535 * 255" using u assms(2) by (intro mult_mono) simp_all
  moreover from this have "unat (ucast ?c * ucast ?h :: u32) = unat ?c * unat ?h"
    using u assms(2) by (simp add: unat_word_ariths unsigned_ucast_eq take_bit_nat_eq_self)
  ultimately have "sint (ucast ?c * ucast ?h :: u32) = int (unat ?c * unat ?h)"
    by (simp add: word_sint_small del: of_nat_mult)
  moreover have "sint (ucast ?c * ucast ?h :: u32) \<le> 131072"
    using assms(1) by (auto simp: get_translation_def Let_def TRANSLATION_LARGE_def TRANSLATION_LBA_def TRANSLATION_NONE_def split: if_splits)
  moreover have "1025 * 128 \<le> unat ?c * unat ?h" using m by (intro mult_mono) simp_all
  ultimately show False by linarith
qed



lemma large_disk:
  "setup_translation (no_drive\<lparr>drive_sectors := 4000000, pchs := \<lparr>head = 16, cylinder = 3968, sector = 63\<rparr>\<rparr>) =
     no_drive\<lparr>drive_sectors := 4000000, pchs := \<lparr>head = 16, cylinder = 3968, sector = 63\<rparr>, translation := TRANSLATION_LARGE,
       lchs := \<lparr>head = 64, cylinder = 992, sector = 63\<rparr>\<rparr>"
proof -
  have l: "large_loop 3968 16 = (992, 64)"
    by (simp add: large_loop.simps drop_bit_eq_div push_bit_eq_mult)
  have "get_translation (no_drive\<lparr>drive_sectors := 4000000, pchs := \<lparr>head = 16, cylinder = 3968, sector = 63\<rparr>\<rparr>) = TRANSLATION_LARGE"
    by (simp add: get_translation_def Let_def)
  then show ?thesis
    by (simp add: setup_translation_def translate_def Let_def l TRANSLATION_LARGE_def TRANSLATION_LBA_def TRANSLATION_RECHS_def)
qed


section \<open>Cylinder, head and sector\<close>

lemma radix:
  assumes "c < C" "h < H" "k < S"
  shows "((c * H + h) * S + k :: nat) < C * H * S" "((c * H + h) * S + k) div S = c * H + h" "((c * H + h) * S + k) mod S = k"
    "(c * H + h) div H = c" "(c * H + h) mod H = h"
proof -
  have "c * H + h + 1 \<le> C * H"
  proof -
    have "c * H + h + 1 \<le> c * H + H" using assms by simp
    also have "\<dots> = (c + 1) * H" by simp
    also have "\<dots> \<le> C * H" using assms by (intro mult_le_mono) simp_all
    finally show ?thesis .
  qed
  then have "(c * H + h + 1) * S \<le> C * H * S" by (intro mult_le_mono) simp_all
  moreover have "(c * H + h) * S + k < (c * H + h + 1) * S" using assms by (simp add: algebra_simps)
  ultimately show "(c * H + h) * S + k < C * H * S" by linarith
qed (use assms in simp_all)

definition valid_chs :: "chs_s \<Rightarrow> u16 \<times> u16 \<times> u16 \<Rightarrow> bool" where
  "valid_chs l a = (case a of (c, h, k) \<Rightarrow> c < cylinder l \<and> h < head l \<and> 1 \<le> k \<and> k \<le> sector l)"

definition small_geometry :: "chs_s \<Rightarrow> bool" where
  "small_geometry l \<longleftrightarrow> unat (cylinder l) \<le> 1024 \<and> unat (head l) \<le> 255 \<and> unat (sector l) \<le> 63"

definition sectors_in :: "chs_s \<Rightarrow> nat" where
  "sectors_in l = unat (cylinder l) * unat (head l) * unat (sector l)"

lemma chs_lba_value:
  assumes "small_geometry l" "valid_chs l (c, h, k)"
  shows "unat (chs_lba l c h k) = (unat c * unat (head l) + unat h) * unat (sector l) + (unat k - 1)"
    "unat (chs_lba l c h k) < sectors_in l"
proof -
  have v: "unat c < unat (cylinder l)" "unat h < unat (head l)" "1 \<le> unat k" "unat k - 1 < unat (sector l)"
    using assms(2) by (auto simp: valid_chs_def word_less_nat_alt word_le_nat_alt)
  define n where "n = (unat c * unat (head l) + unat h) * unat (sector l) + (unat k - 1)"
  have lt: "n < sectors_in l" unfolding n_def sectors_in_def by (rule radix(1) [OF v(1,2,4)])
  moreover have "sectors_in l \<le> 1024 * 255 * 63"
    unfolding sectors_in_def using assms(1) by (intro mult_le_mono) (simp_all add: small_geometry_def)
  ultimately have n: "n < 2 ^ 32" by simp
  have u: "unat (of_nat m :: u32) = m" "unat (ucast (of_nat m :: u32) :: u64) = m" if "m < 2 ^ 32" for m
    using that by (simp_all add: unat_of_nat unsigned_ucast_eq take_bit_nat_eq_self)
  have "(ucast c * ucast (head l) + ucast h) * ucast (sector l) + ucast k - 1 = (of_nat n :: u32)"
    using v(3) by (simp add: n_def of_nat_diff)
  then have "chs_lba l c h k = ucast (of_nat n :: u32)" by (simp add: chs_lba_def)
  then have "unat (chs_lba l c h k) = n" using u(2) [OF n] by (simp only:)
  then show "unat (chs_lba l c h k) = (unat c * unat (head l) + unat h) * unat (sector l) + (unat k - 1)"
    "unat (chs_lba l c h k) < sectors_in l"
    using lt by (simp_all add: n_def)
qed

lemma small_words: "n < 65536 \<Longrightarrow> unat (of_nat n :: u16) = n"
  by (simp add: unat_of_nat)

text \<open>
  Cylinder, head and sector number the sectors of a drive: in a geometry that the registers can express, the valid triples
  and the block numbers below their product correspond one to one.
\<close>

theorem chs_addresses:
  assumes "small_geometry l"
  shows "bij_betw (\<lambda>(c, h, k). unat (chs_lba l c h k)) {a. valid_chs l a} {..<sectors_in l}"
proof (rule bij_betw_byWitness [where f' = "\<lambda>n. (of_nat (n div unat (sector l) div unat (head l)), of_nat (n div unat (sector l) mod unat (head l)),
    of_nat (n mod unat (sector l) + 1))"])
  let ?H = "unat (head l)" and ?S = "unat (sector l)"
  show "(\<lambda>(c, h, k). unat (chs_lba l c h k)) ` {a. valid_chs l a} \<subseteq> {..<sectors_in l}"
    using chs_lba_value(2) [OF assms] by auto
  have inverse: "valid_chs l (of_nat (n div ?S div ?H), of_nat (n div ?S mod ?H), of_nat (n mod ?S + 1))"
    "unat (chs_lba l (of_nat (n div ?S div ?H)) (of_nat (n div ?S mod ?H)) (of_nat (n mod ?S + 1))) = n" if "n < sectors_in l" for n
  proof -
    from that have n: "n < unat (cylinder l) * ?H * ?S" by (simp add: sectors_in_def)
    then have pos: "0 < ?H" "0 < ?S" by (auto intro: ccontr)
    from n have q: "n div ?S < unat (cylinder l) * ?H" by (rule less_mult_imp_div_less)
    then have c: "n div ?S div ?H < unat (cylinder l)" by (rule less_mult_imp_div_less)
    have h: "n div ?S mod ?H < ?H" and k: "n mod ?S < ?S" using pos by simp_all
    have b: "unat (cylinder l) < 65536" "?H < 65536" "?S < 65535" using assms by (simp_all add: small_geometry_def)
    have "n mod ?S + 1 < 65536" using k b by linarith
    note u = small_words [OF less_trans [OF c b(1)]] small_words [OF less_trans [OF h b(2)]] small_words [OF this]
    show v: "valid_chs l (of_nat (n div ?S div ?H), of_nat (n div ?S mod ?H), of_nat (n mod ?S + 1))"
      using c h k by (simp only: valid_chs_def prod.case word_less_nat_alt word_le_nat_alt u) simp
    show "unat (chs_lba l (of_nat (n div ?S div ?H)) (of_nat (n div ?S mod ?H)) (of_nat (n mod ?S + 1))) = n"
      using chs_lba_value(1) [OF assms v] by (simp only: u) simp
  qed
  show "\<forall>n\<in>{..<sectors_in l}. (\<lambda>(c, h, k). unat (chs_lba l c h k)) (of_nat (n div ?S div ?H), of_nat (n div ?S mod ?H), of_nat (n mod ?S + 1)) = n"
    using inverse(2) by (simp only: prod.case lessThan_iff) simp
  show "(\<lambda>n. (of_nat (n div ?S div ?H), of_nat (n div ?S mod ?H), of_nat (n mod ?S + 1))) ` {..<sectors_in l} \<subseteq> {a. valid_chs l a}"
    using inverse(1) by blast
  show "\<forall>a\<in>{a. valid_chs l a}. (of_nat ((case a of (c, h, k) \<Rightarrow> unat (chs_lba l c h k)) div ?S div ?H),
     of_nat ((case a of (c, h, k) \<Rightarrow> unat (chs_lba l c h k)) div ?S mod ?H),
     of_nat ((case a of (c, h, k) \<Rightarrow> unat (chs_lba l c h k)) mod ?S + 1)) = a"
  proof (intro ballI)
    fix a assume a: "a \<in> {a. valid_chs l a}"
    obtain c h k where e: "a = (c, h, k)" by (rule prod_cases3)
    with a have v: "unat c < unat (cylinder l)" "unat h < ?H" "1 \<le> unat k" "unat k - 1 < ?S"
      by (auto simp: valid_chs_def word_less_nat_alt word_le_nat_alt)
    from a e have "unat (chs_lba l c h k) = (unat c * ?H + unat h) * ?S + (unat k - 1)"
      by (simp add: chs_lba_value(1) [OF assms])
    then show "(of_nat ((case a of (c, h, k) \<Rightarrow> unat (chs_lba l c h k)) div ?S div ?H),
       of_nat ((case a of (c, h, k) \<Rightarrow> unat (chs_lba l c h k)) div ?S mod ?H),
       of_nat ((case a of (c, h, k) \<Rightarrow> unat (chs_lba l c h k)) mod ?S + 1)) = a"
      using v(3) by (simp only: e prod.case radix(2-5) [OF v(1,2,4)] le_add_diff_inverse2) simp
  qed
qed

theorem chs_addresses_witness:
  "bij_betw (\<lambda>(c, h, k). unat (chs_lba \<lparr>head = 64, cylinder = 992, sector = 63\<rparr> c h k))
     {a. valid_chs \<lparr>head = 64, cylinder = 992, sector = 63\<rparr> a} {..<3999744}"
  using chs_addresses [of "\<lparr>head = 64, cylinder = 992, sector = 63\<rparr>"] by (simp add: small_geometry_def sectors_in_def)
end
