(* ===== verification/Cd_Facts.thy ===== *)
theory Cd_Facts
  imports Disk
begin

text \<open>
  A disk on a CD: reading sectors of the emulated disk gives the bytes of the image on the CD, although the drive reads
  blocks of four sectors and the first and the last of them go through the bounce buffer.
\<close>

section \<open>What the drive does\<close>

definition cd_written :: "(nat \<Rightarrow> u8) \<Rightarrow> disk_op_s \<Rightarrow> mem \<Rightarrow> mem" where
  "cd_written img op m = (\<lambda>a. if unat (a - buf_fl op) < 2048 * unat (op_count op)
     then img (2048 * unat (op_lba op) + unat (a - buf_fl op)) else m a)"

definition cd_types :: "u8 set" where
  "cd_types = {DTYPE_ATA_ATAPI, DTYPE_AHCI_ATAPI, DTYPE_USB, DTYPE_UAS, DTYPE_VIRTIO_SCSI, DTYPE_LSI_SCSI, DTYPE_ESP_SCSI,
     DTYPE_MEGASAS, DTYPE_USB_32, DTYPE_UAS_32, DTYPE_PVSCSI}"

definition types_32 :: "u8 set" where
  "types_32 = {DTYPE_AHCI_ATAPI, DTYPE_USB_32, DTYPE_UAS_32, DTYPE_PVSCSI}"

text \<open>
  The ten bytes of the command READ(10), with the most significant byte of a number first, and a drive that obeys it: \<open>img\<close> are
  the bytes of the CD.
\<close>

definition read_10 :: "u32 \<Rightarrow> u16 \<Rightarrow> u8 list" where
  "read_10 lba n = [0x28, 0, ucast (drop_bit 24 lba), ucast (drop_bit 16 lba), ucast (drop_bit 8 lba), ucast lba, 0,
     ucast (drop_bit 8 n), ucast n, 0]"

definition reads_cd :: "(nat \<Rightarrow> u8) \<Rightarrow> ('v, 'z) dstate drivers \<Rightarrow> u32 \<Rightarrow> bool" where
  "reads_cd img drv d \<longleftrightarrow> (\<forall>m pad op lba s. op_drive op = d \<and> drive_type (drives s d) \<in> cd_types \<and>
     (m \<longrightarrow> drive_type (drives s d) \<notin> types_32) \<longrightarrow>
     (\<exists>s'. cdb_cmd_data m drv (read_10 lba (op_count op) @ pad) 2048 op s = (0, op_count op, s') \<and> drives s' = drives s \<and>
        bounce_buf_fl s' = bounce_buf_fl s \<and> ram (wd s') = cd_written img (op\<lparr>op_lba := ucast lba\<rparr>) (ram (wd s))))"

text \<open>What \<open>cdb_read\<close> sends is that command.\<close>

lemma bytes_swab32: "bytes32 (swab32 v) = [ucast (drop_bit 24 v), ucast (drop_bit 16 v), ucast (drop_bit 8 v), ucast v]"
proof -
  have b: "(0xff00 :: u32) = push_bit 8 (mask 8)" "(0xff0000 :: u32) = push_bit 16 (mask 8)" "(0xFF :: u16) = mask 8"
    by (simp_all add: mask_eq_decr_exp)
  show ?thesis
    unfolding bytes32_def bytes16_def append.simps list.inject
    by (intro conjI bit_word_eqI) (auto simp: swab32_def b bit_simps dest: bit_imp_le_length)
qed

lemma bytes_swab16: "bytes16 (swab16 v) = [ucast (drop_bit 8 v), ucast v]"
proof -
  have b: "(0xFF :: u16) = mask 8" by (simp add: mask_eq_decr_exp)
  show ?thesis
    unfolding bytes16_def list.inject by (intro conjI bit_word_eqI) (auto simp: swab16_def b bit_simps dest: bit_imp_le_length)
qed

lemma read_command: "cdb_rwdata_10 CDB_CMD_READ_10 (swab32 lba) (swab16 n) = read_10 lba n @ replicate 6 0"
  by (simp add: cdb_rwdata_10_def read_10_def bytes_swab32 bytes_swab16 CDB_CMD_READ_10_def numeral_eq_Suc)

lemma reads_cd_read:
  assumes "reads_cd img drv d" "op_drive op = d" "drive_type (drives s d) \<in> cd_types" "m \<longrightarrow> drive_type (drives s d) \<notin> types_32"
    and "blksize (drives s d) = 2048" "unat (op_lba op) < 2 ^ 32"
  obtains s' where "cdb_read m drv op s = (0, op_count op, s')" "drives s' = drives s" "bounce_buf_fl s' = bounce_buf_fl s"
    "ram (wd s') = cd_written img op (ram (wd s))"
proof -
  have "unat (ucast (ucast (op_lba op) :: u32) :: u64) = unat (op_lba op)"
    using assms(6) by (simp add: unsigned_ucast_eq unsigned_take_bit_eq take_bit_nat_eq_self)
  then have "op\<lparr>op_lba := ucast (ucast (op_lba op) :: u32)\<rparr> = op" by (simp add: word_unat_eq_iff)
  with assms(1-5) show thesis
    unfolding reads_cd_def
    by (elim allE [of _ m] allE [of _ "replicate 6 0"] allE [of _ op] allE [of _ "ucast (op_lba op)"] allE [of _ s])
      (auto simp: cdb_read_def read_command intro: that)
qed

lemmas dtypes = DTYPE_FLOPPY_def DTYPE_ATA_def DTYPE_ATA_ATAPI_def DTYPE_RAMDISK_def DTYPE_CDEMU_def DTYPE_AHCI_def
  DTYPE_AHCI_ATAPI_def DTYPE_VIRTIO_SCSI_def DTYPE_VIRTIO_BLK_def DTYPE_USB_def DTYPE_USB_32_def DTYPE_UAS_def DTYPE_UAS_32_def
  DTYPE_LSI_SCSI_def DTYPE_ESP_SCSI_def DTYPE_MEGASAS_def DTYPE_PVSCSI_def

lemma cd_device_op:
  assumes "reads_cd img drv d" "op_drive op = d" "op_command op = CMD_READ" "drive_type (drives s d) \<in> cd_types"
    and "blksize (drives s d) = 2048" "unat (op_lba op) < 2 ^ 32"
  obtains s' where "device_op drv op s = Some (0, op_count op, s')" "drives s' = drives s" "bounce_buf_fl s' = bounce_buf_fl s"
    "ram (wd s') = cd_written img op (ram (wd s))"
proof -
  define m where "m \<longleftrightarrow> drive_type (drives s d) \<notin> types_32"
  obtain s' where r: "cdb_read m drv op s = (0, op_count op, s')" and s': "drives s' = drives s" "bounce_buf_fl s' = bounce_buf_fl s"
    "ram (wd s') = cd_written img op (ram (wd s))"
    by (rule reads_cd_read [OF assms(1,2,4) _ assms(5,6), of m]) (simp add: m_def)
  have "process_scsi_op m drv op s = (0, op_count op, s')" using assms(3) r by (simp add: process_scsi_op_def)
  moreover have "process_atapi_op m drv op s = process_scsi_op m drv op s"
    using assms(3) by (simp add: process_atapi_op_def CMD_READ_def CMD_WRITE_def CMD_FORMAT_def)
  ultimately have "device_op drv op s = Some (0, op_count op, s')"
    using assms(2,4) by (auto simp: device_op_def Let_def cd_types_def dtypes done_count_def m_def types_32_def)
  then show thesis using s' by (rule that)
qed

section \<open>The state of a read\<close>

text \<open>\<open>k\<close> of the sectors are in the buffer; besides them only the bounce buffer has changed.\<close>

definition cd_progress :: "(nat \<Rightarrow> u8) \<Rightarrow> nat \<Rightarrow> u32 \<Rightarrow> u32 \<Rightarrow> ('v, 'z) dstate \<Rightarrow> nat \<Rightarrow> ('v, 'z) dstate \<Rightarrow> bool" where
  "cd_progress img base buf b s0 k s \<longleftrightarrow> drives s = drives s0 \<and> bounce_buf_fl s = b \<and>
     (\<forall>a. unat (a - buf) < 512 * k \<longrightarrow> ram (wd s) a = img (base + unat (a - buf))) \<and>
     (\<forall>a. 512 * k \<le> unat (a - buf) \<longrightarrow> 2048 \<le> unat (a - b) \<longrightarrow> ram (wd s) a = ram (wd s0) a)"

definition apart :: "u32 \<Rightarrow> nat \<Rightarrow> u32 \<Rightarrow> bool" where
  "apart buf n b \<longleftrightarrow> (\<forall>a. unat (a - buf) < 512 * n \<longrightarrow> 2048 \<le> unat (a - b))"

lemma apartD: "apart buf n b \<Longrightarrow> unat (a - buf) < 512 * m \<Longrightarrow> m \<le> n \<Longrightarrow> 2048 \<le> unat (a - b)"
  unfolding apart_def by (meson le_trans less_le_trans mult_le_mono2)

lemma offset_in_buffer:
  assumes "512 * k < 2 ^ 32"
  shows "unat ((a :: u32) - (buf + 512 * of_nat k)) = (if 512 * k \<le> unat (a - buf) then unat (a - buf) - 512 * k else 2 ^ 32 + unat (a - buf) - 512 * k)"
  using unat_minus_of_nat [OF assms, of "a - buf"] by (simp add: algebra_simps)

lemma progress_direct:
  assumes p: "cd_progress img base buf b s0 k s" and d: "drives s' = drives s" "bounce_buf_fl s' = bounce_buf_fl s"
    and w: "ram (wd s') = cd_written img op (ram (wd s))" "buf_fl op = buf + 512 * of_nat k" "2048 * unat (op_lba op) = base + 512 * k"
    and n: "512 * (k + 4 * unat (op_count op)) < 2 ^ 32"
  shows "cd_progress img base buf b s0 (k + 4 * unat (op_count op)) s'"
proof -
  have off: "unat (a - buf_fl op) = (if 512 * k \<le> unat (a - buf) then unat (a - buf) - 512 * k else 2 ^ 32 + unat (a - buf) - 512 * k)" for a
    using offset_in_buffer [of k a buf] n by (simp add: w(2))
  show ?thesis
    unfolding cd_progress_def
  proof (intro conjI allI impI)
    fix a assume a: "unat (a - buf) < 512 * (k + 4 * unat (op_count op))"
    show "ram (wd s') a = img (base + unat (a - buf))"
    proof (cases "512 * k \<le> unat (a - buf)")
      case True
      with off [of a] a have "unat (a - buf_fl op) < 2048 * unat (op_count op)" "base + unat (a - buf) = 2048 * unat (op_lba op) + unat (a - buf_fl op)"
        unfolding w(3) by auto
      then show ?thesis by (simp add: w(1) cd_written_def)
    next
      case False
      with off [of a] n have "\<not> unat (a - buf_fl op) < 2048 * unat (op_count op)" by simp
      with False p show ?thesis by (simp add: w(1) cd_written_def cd_progress_def)
    qed
  next
    fix a assume a: "512 * (k + 4 * unat (op_count op)) \<le> unat (a - buf)" "2048 \<le> unat (a - b)"
    then have "\<not> unat (a - buf_fl op) < 2048 * unat (op_count op)" using off [of a] by simp
    then show "ram (wd s') a = ram (wd s0) a" using a p by (simp add: w(1) cd_written_def cd_progress_def)
  qed (use p d in \<open>simp_all add: cd_progress_def\<close>)
qed

lemma progress_bounce:
  assumes p: "cd_progress img base buf b s0 k s" and d: "drives s' = drives s" "bounce_buf_fl s' = bounce_buf_fl s"
    and w: "ram (wd s') = cd_written img op (ram (wd s))" "buf_fl op = b" "op_count op = 1" and ap: "apart buf n b" "k \<le> n"
  shows "cd_progress img base buf b s0 k s'" "unat (a - b) < 2048 \<Longrightarrow> ram (wd s') a = img (2048 * unat (op_lba op) + unat (a - b))"
proof -
  have "\<not> unat (a - b) < 2048" if "unat (a - buf) < 512 * k" for a using apartD [OF ap(1) that ap(2)] by simp
  then show "cd_progress img base buf b s0 k s'" using p d by (auto simp: w cd_written_def cd_progress_def)
qed (simp add: w cd_written_def)

lemma progress_copy:
  assumes p: "cd_progress img base buf b s0 k s" and ap: "apart buf n b" "k + t \<le> n" "512 * n < 2 ^ 32"
    and c: "\<And>a. unat (a - b) < 2048 \<Longrightarrow> ram (wd s) a = img (q + unat (a - b))" and q: "q + off = base + 512 * k" "off + 512 * t \<le> 2048"
  shows "cd_progress img base buf b s0 (k + t) (memcpy_fl (buf + 512 * of_nat k) (b + of_nat off) (512 * t) s)"
proof -
  let ?d = "buf + 512 * of_nat k" and ?s = "b + of_nat off"
  have offs: "unat (a - ?d) = (if 512 * k \<le> unat (a - buf) then unat (a - buf) - 512 * k else 2 ^ 32 + unat (a - buf) - 512 * k)" for a
    using offset_in_buffer [of k a buf] ap by simp
  have b: "unat (of_nat off + x) = off + unat x" if "unat x < 512 * t" for x :: u32
    using that q(2) by (simp add: unat_word_ariths unat_of_nat)
  have in_bounce: "unat (?s + x - b) = off + unat x" if "unat x < 512 * t" for x
    using b [OF that] by simp
  have asc: "ascending_ok ?d ?s (512 * t)"
  proof (cases "t = 0")
    case False
    have "512 * t \<le> unat (?d - ?s)"
    proof (rule ccontr)
      assume "\<not> ?thesis"
      then have "unat (?d - b) < 2048" using in_bounce [of "?d - ?s"] q(2) by simp
      moreover have "unat (?d - buf) < 512 * n" using ap(2,3) False by (simp add: unat_word_ariths unat_of_nat)
      ultimately show False using apartD [OF ap(1) _ order.refl, of ?d] by simp
    qed
    then show ?thesis using q(2) by (simp add: ascending_ok_def)
  qed (simp add: ascending_ok_def)
  have mem: "ram (wd (memcpy_fl ?d ?s (512 * t) s)) a = (if unat (a - ?d) < 512 * t then ram (wd s) (?s + (a - ?d)) else ram (wd s) a)" for a
    by (simp add: memcpy_fl_def movsb_copied [OF asc] copied_def)
  show ?thesis
    unfolding cd_progress_def
  proof (intro conjI allI impI)
    fix a assume a: "unat (a - buf) < 512 * (k + t)"
    show "ram (wd (memcpy_fl ?d ?s (512 * t) s)) a = img (base + unat (a - buf))"
    proof (cases "512 * k \<le> unat (a - buf)")
      case True
      with offs [of a] a have l: "unat (a - ?d) < 512 * t" "off + unat (a - ?d) < 2048" "base + unat (a - buf) = q + (off + unat (a - ?d))"
        using q by auto
      then show ?thesis using c [of "?s + (a - ?d)"] in_bounce [OF l(1)] unfolding mem by simp
    next
      case False
      with offs [of a] ap have "\<not> unat (a - ?d) < 512 * t" by simp
      with False p show ?thesis unfolding mem by (simp add: cd_progress_def)
    qed
  next
    fix a assume a: "512 * (k + t) \<le> unat (a - buf)" "2048 \<le> unat (a - b)"
    then have "\<not> unat (a - ?d) < 512 * t" using offs [of a] by simp
    then show "ram (wd (memcpy_fl ?d ?s (512 * t) s)) a = ram (wd s0) a" using a p unfolding mem by (simp add: cd_progress_def)
  qed (use p in \<open>simp_all add: cd_progress_def memcpy_fl_def\<close>)
qed

section \<open>The three parts of a read\<close>

lemma low_bits: "unat (lba AND 3 :: u64) = unat lba mod 4"
proof -
  have "lba AND 3 = take_bit 2 lba" by (simp add: take_bit_eq_mask mask_eq_exp_minus_1)
  then show ?thesis by (simp add: take_bit_eq_mod unat_mod)
qed

definition start_count :: "nat \<Rightarrow> nat \<Rightarrow> nat" where
  "start_count l n = (if l mod 4 = 0 then 0 else min (4 - l mod 4) n)"

text \<open>The drive, the buffers and the request: \<open>n\<close> sectors from sector \<open>l\<close> of the image on.\<close>

definition cd_setup :: "(nat \<Rightarrow> u8) \<Rightarrow> ('v, 'z) dstate drivers \<Rightarrow> u32 \<Rightarrow> u32 \<Rightarrow> u32 \<Rightarrow> nat \<Rightarrow> ('v, 'z) dstate \<Rightarrow> bool" where
  "cd_setup img drv d buf b n s0 \<longleftrightarrow> reads_cd img drv d \<and> drive_type (drives s0 d) \<in> cd_types \<and> blksize (drives s0 d) = 2048 \<and>
     apart buf n b \<and> n \<le> 255"

lemma read_first:
  assumes S: "cd_setup img drv d buf b n s0" and b: "bounce_buf_fl s0 = b"
    and dop: "op_drive dop = d" "op_command dop = CMD_READ" "2048 * unat (op_lba dop) + 512 * (unat lba mod 4) = base" "unat (op_lba dop) < 2 ^ 63"
    and t: "t = start_count (unat lba) n" and end_base: "base + 512 * n \<le> 2 ^ 43"
  obtains dop' s where "cd_first drv lba dop (int n) buf s0 = Some (0, dop', int (n - t), buf + 512 * of_nat t, of_nat t, s)"
    "cd_progress img base buf b s0 t s" "op_drive dop' = d" "op_command dop' = CMD_READ" "unat (op_lba dop') < 2 ^ 63 + 1"
    "t < n \<longrightarrow> 2048 * unat (op_lba dop') = base + 512 * t" "t \<le> n"
proof (cases "unat lba mod 4 = 0")
  case True
  have start: "cd_progress img base buf b s0 0 s0" using b by (simp add: cd_progress_def)
  from True have "lba AND 3 = 0" using low_bits [of lba] by (simp add: unat_eq_0)
  then have "cd_first drv lba dop (int n) buf s0 = Some (0, dop, int (n - t), buf + 512 * of_nat t, of_nat t, s0)"
    using True by (simp add: cd_first_def t start_count_def)
  moreover have "t = 0" using True by (simp add: t start_count_def)
  ultimately show thesis using start dop True by (intro that [of dop s0]) simp_all
next
  case False
  let ?r = "unat lba mod 4" and ?o = "dop\<lparr>op_count := 1, buf_fl := b\<rparr>"
  have r: "uint (lba AND 3) = int ?r" "(ucast (lba AND 3) :: u32) = of_nat ?r" "lba AND 3 \<noteq> 0"
    using low_bits [of lba] False by (simp_all flip: low_bits add: unat_eq_0)
  have small: "unat (op_lba ?o) < 2 ^ 32" using dop(3) end_base False by simp
  obtain s' where dev: "device_op drv ?o s0 = Some (0, 1, s')" and k: "drives s' = drives s0" "bounce_buf_fl s' = bounce_buf_fl s0"
    "ram (wd s') = cd_written img ?o (ram (wd s0))"
    using cd_device_op [of img drv d ?o s0] S dop small by (auto simp: cd_setup_def)
  have start: "cd_progress img base buf b s0 0 s0" using b by (simp add: cd_progress_def)
  have ap: "apart buf n b" using S by (simp add: cd_setup_def)
  note bounce = progress_bounce [OF start k(1,2,3) _ _ ap, simplified]
  have tn: "t \<le> n" "?r + t \<le> 4" using False by (auto simp: t start_count_def)
  have c: "ram (wd s') a = img (2048 * unat (op_lba dop) + unat (a - b))" if "unat (a - b) < 2048" for a
    using bounce(2) that by simp
  have "cd_progress img base buf b s0 (0 + t) (memcpy_fl (buf + 512 * of_nat 0) (b + of_nat (512 * ?r)) (512 * t) s')"
    by (rule progress_copy [OF bounce(1) ap _ _ c]) (use tn dop S in \<open>simp_all add: cd_setup_def\<close>)
  then have pr: "cd_progress img base buf b s0 t (memcpy_fl buf (b + of_nat ?r * 512) (512 * t) s')"
    by (simp add: mult.commute)
  have tc: "min (4 - int ?r) (int n) = int t" using False by (auto simp: t start_count_def min_def of_nat_diff)
  let ?dop = "dop\<lparr>op_lba := op_lba dop + 1\<rparr>"
  have run: "cd_first drv lba dop (int n) buf s0 =
      Some (0, ?dop, int n - int t, buf + of_nat t * 512, of_nat t, memcpy_fl buf (b + of_nat ?r * 512) (t * 512) s')"
    using dev b r(3) by (simp add: cd_first_def Let_def r(1,2) tc)
  have next_lba: "unat (op_lba dop + 1) = unat (op_lba dop) + 1" using dop(4) by (simp add: unat_word_ariths)
  show thesis
  proof (rule that)
    show "cd_first drv lba dop (int n) buf s0 = Some (0, ?dop, int (n - t), buf + 512 * of_nat t, of_nat t,
        memcpy_fl buf (b + of_nat ?r * 512) (512 * t) s')"
      using run tn(1) by (simp add: of_nat_diff mult.commute)
    show "t < n \<longrightarrow> 2048 * unat (op_lba ?dop) = base + 512 * t"
      using False dop(3) by (auto simp: next_lba t start_count_def min_def split: if_splits)
  qed (use pr dop next_lba tn in simp_all)
qed

lemma read_blocks:
  assumes S: "cd_setup img drv d buf b n s0" and p: "cd_progress img base buf b s0 k s" and k: "k \<le> n"
    and end_base: "base + 512 * n \<le> 2 ^ 43" and dop: "op_drive dop = d" "op_command dop = CMD_READ" "k < n \<Longrightarrow> 2048 * unat (op_lba dop) = base + 512 * k"
      "unat (op_lba dop) < 2 ^ 63 + 1"
  obtains dop' m s' where "cd_blocks drv dop (int (n - k)) (buf + 512 * of_nat k) s =
      Some (0, dop', int (n - m), buf + 512 * of_nat m, of_nat (m - k), s')"
    "cd_progress img base buf b s0 m s'" "op_drive dop' = d" "op_command dop' = CMD_READ"
    "m < n \<longrightarrow> 2048 * unat (op_lba dop') = base + 512 * m" "k \<le> m" "m \<le> n" "n < m + 4"
proof (cases "int (n - k) \<le> 3")
  case True
  then have "cd_blocks drv dop (int (n - k)) (buf + 512 * of_nat k) s = Some (0, dop, int (n - k), buf + 512 * of_nat k, of_nat (k - k), s)"
    by (simp add: cd_blocks_def)
  then show thesis using p k dop True by (intro that [of dop k s]) auto
next
  case False
  define q where "q = (n - k) div 4"
  let ?o = "dop\<lparr>op_count := of_nat q, buf_fl := buf + 512 * of_nat k\<rparr>"
  have n: "n \<le> 255" using S by (simp add: cd_setup_def)
  then have q: "q < 64" "4 * q \<le> n - k" "n - k < 4 * q + 4" "n - k - (n - k) mod 4 = 4 * q"
    unfolding q_def by (simp_all add: minus_mod_eq_mult_div)
  have u: "unat (of_nat q :: u16) = q" using q(1) by (simp add: unat_of_nat)
  have t: "drive_type (drives s d) \<in> cd_types" "blksize (drives s d) = 2048" using S p by (simp_all add: cd_setup_def cd_progress_def)
  have small: "unat (op_lba ?o) < 2 ^ 32"
  proof -
    have "k < n" using False k by linarith
    then have "2048 * unat (op_lba dop) < 2048 * 2 ^ 32" using dop(3) end_base by simp
    then show ?thesis by simp
  qed
  obtain s' where dev: "device_op drv ?o s = Some (0, of_nat q, s')" and d: "drives s' = drives s" "bounce_buf_fl s' = bounce_buf_fl s"
    "ram (wd s') = cd_written img ?o (ram (wd s))"
    using cd_device_op [of img drv d ?o s] S dop t small by (auto simp: cd_setup_def)
  have "cd_progress img base buf b s0 (k + 4 * unat (op_count ?o)) s'"
    by (rule progress_direct [OF p d]) (use dop False n q u in simp_all)
  then have pr: "cd_progress img base buf b s0 (k + 4 * q) s'" by (simp add: u)
  let ?dop = "dop\<lparr>op_lba := op_lba dop + of_nat q\<rparr>"
  have c: "int (n - k) div 4 = int q" "int (n - k) mod 4 = int (n - (k + 4 * q))" "int (n - k) - int (n - k) mod 4 = int (4 * q)"
  proof -
    have m: "n - (k + 4 * q) = (n - k) mod 4" using minus_mult_div_eq_mod [of "n - k" 4] by (simp add: q_def diff_diff_left)
    show "int (n - k) div 4 = int q" unfolding q_def zdiv_int by simp
    show d: "int (n - k) mod 4 = int (n - (k + 4 * q))" unfolding m zmod_int by simp
    show "int (n - k) - int (n - k) mod 4 = int (4 * q)" unfolding d using q(2) k by linarith
  qed
  have w: "(word_of_int (int (n - k) - int (n - k) mod 4) :: u8) = of_nat (4 * q)" unfolding c(3) by simp
  have u8: "unat (of_nat (4 * q) :: u8) = 4 * q" using q(1) by (simp only: unat_of_nat) simp
  have div4: "(ucast ((of_nat (4 * q) :: u8) div 4) :: u64) = of_nat q" "(ucast (of_nat (4 * q) :: u8) :: u32) = of_nat (4 * q)"
    using u8 q(1) by (simp_all add: word_unat_eq_iff unsigned_ucast_eq unat_div unat_of_nat take_bit_nat_eq_self del: of_nat_mult)
  have run: "cd_blocks drv dop (int (n - k)) (buf + 512 * of_nat k) s =
      Some (0, ?dop, int (n - (k + 4 * q)), buf + 512 * of_nat k + of_nat (4 * q) * 512, of_nat q * 4, s')"
    unfolding cd_blocks_def Let_def if_not_P [OF False] w unfolding c(1,2) using dev by (simp add: div4 del: of_nat_mult of_nat_diff)
  have lba: "unat (op_lba dop + of_nat q) = unat (op_lba dop) + q"
    using dop(4) q(1) by (simp add: unat_word_ariths unat_of_nat)
  show thesis
  proof (rule that [OF _ pr])
    show "cd_blocks drv dop (int (n - k)) (buf + 512 * of_nat k) s =
      Some (0, ?dop, int (n - (k + 4 * q)), buf + 512 * of_nat (k + 4 * q), of_nat (k + 4 * q - k), s')"
      using run by (simp add: algebra_simps)
    show "k + 4 * q < n \<longrightarrow> 2048 * unat (op_lba ?dop) = base + 512 * (k + 4 * q)" using dop(3) lba by simp
  qed (use dop q k in auto)
qed

lemma read_last:
  assumes S: "cd_setup img drv d buf b n s0" and p: "cd_progress img base buf b s0 k s" and k: "k \<le> n" "n < k + 4"
    and end_base: "base + 512 * n \<le> 2 ^ 43" and dop: "op_drive dop = d" "op_command dop = CMD_READ" "k < n \<Longrightarrow> 2048 * unat (op_lba dop) = base + 512 * k"
  obtains s' where "cd_last drv dop (int (n - k)) (buf + 512 * of_nat k) s = Some (0, of_nat (n - k), s')"
    "cd_progress img base buf b s0 n s'"
proof (cases "k = n")
  case True
  then show thesis using p by (intro that [of s]) (simp_all add: cd_last_def DISK_RET_SUCCESS_def)
next
  case False
  let ?o = "dop\<lparr>op_count := 1, buf_fl := b\<rparr>"
  have small: "unat (op_lba ?o) < 2 ^ 32" using dop(3) end_base False k(1) by simp
  have t: "drive_type (drives s d) \<in> cd_types" "bounce_buf_fl s = b" "blksize (drives s d) = 2048" using S p by (simp_all add: cd_setup_def cd_progress_def)
  obtain s' where dev: "device_op drv ?o s = Some (0, 1, s')" and d: "drives s' = drives s" "bounce_buf_fl s' = bounce_buf_fl s"
    "ram (wd s') = cd_written img ?o (ram (wd s))"
    using cd_device_op [of img drv d ?o s] S dop t small by (auto simp: cd_setup_def)
  have ap: "apart buf n b" using S by (simp add: cd_setup_def)
  note bounce = progress_bounce [OF p d _ _ ap k(1), simplified]
  have c: "ram (wd s') a = img (2048 * unat (op_lba dop) + unat (a - b))" if "unat (a - b) < 2048" for a
    using bounce(2) that by simp
  have "cd_progress img base buf b s0 (k + (n - k)) (memcpy_fl (buf + 512 * of_nat k) (b + of_nat 0) (512 * (n - k)) s')"
    by (rule progress_copy [OF bounce(1) ap _ _ c]) (use k False dop S in \<open>simp_all add: cd_setup_def\<close>)
  then have pr: "cd_progress img base buf b s0 n (memcpy_fl (buf + 512 * of_nat k) b (512 * (n - k)) s')" using k by simp
  have w: "(word_of_int (int (n - k)) :: u8) = of_nat (n - k)" "int (n - k) \<noteq> 0" using k(1) False by (simp_all add: of_nat_diff)
  have u: "unat (of_nat (n - k) :: u8) = n - k" using k by (simp only: unat_of_nat) simp
  have "(ucast (of_nat (n - k) :: u8) :: u16) = of_nat (n - k)"
    using u k by (simp add: word_unat_eq_iff unsigned_ucast_eq unat_of_nat take_bit_nat_eq_self del: of_nat_diff)
  then have "cd_last drv dop (int (n - k)) (buf + 512 * of_nat k) s =
      Some (0, of_nat (n - k), memcpy_fl (buf + 512 * of_nat k) b ((n - k) * 512) s')"
    unfolding cd_last_def w Let_def using dev t(2) w(2) by (simp add: u DISK_RET_SUCCESS_def del: of_nat_diff)
  then show thesis using pr by (intro that) (simp_all add: mult.commute)
qed

section \<open>A simulated machine\<close>

text \<open>Byte \<open>i\<close> of the CD is \<open>i\<close>. Drive 1 is the CD drive, drive 2 the emulated disk, drive 3 a hard disk.\<close>

type_synonym sim_disk = "(unit, unit) dstate"

definition cdb_lba :: "u8 list \<Rightarrow> u32" where
  "cdb_lba cmd = push_bit 24 (ucast (cmd ! 2)) OR push_bit 16 (ucast (cmd ! 3)) OR push_bit 8 (ucast (cmd ! 4)) OR ucast (cmd ! 5)"

lemma cdb_lba_read_10: "cdb_lba (read_10 lba n @ pad) = lba"
proof (rule bit_word_eqI)
  have c: "(read_10 lba n @ pad) ! 2 = ucast (drop_bit 24 lba)" "(read_10 lba n @ pad) ! 3 = ucast (drop_bit 16 lba)"
    "(read_10 lba n @ pad) ! 4 = ucast (drop_bit 8 lba)" "(read_10 lba n @ pad) ! 5 = ucast lba" by (simp_all add: read_10_def)
  fix i assume "i < LENGTH(32)"
  then have "i < 8 \<or> 8 \<le> i \<and> i < 16 \<or> 16 \<le> i \<and> i < 24 \<or> 24 \<le> i \<and> i < 32" by auto
  then show "bit (cdb_lba (read_10 lba n @ pad)) i = bit lba i"
    unfolding cdb_lba_def c by (elim disjE conjE) (simp_all add: bit_simps, auto)
qed

definition cdb_disc :: "(nat \<Rightarrow> u8) \<Rightarrow> u8 list \<Rightarrow> u16 \<Rightarrow> ('v, 'z) dstate driver" where
  "cdb_disc img cmd bs op s =
     (0, op_count op,
      if cmd ! 0 = 0x28 then s\<lparr>wd := (wd s)\<lparr>ram := cd_written img (op\<lparr>op_lba := ucast (cdb_lba cmd)\<rparr>) (ram (wd s))\<rparr>\<rparr> else s)"

text \<open>All drives hold the disc \<open>img\<close>.\<close>

definition disc_drivers :: "(nat \<Rightarrow> u8) \<Rightarrow> ('v, 'z) dstate drivers" where
  "disc_drivers img = (let f = (\<lambda>op s. (0, op_count op, s)); c = cdb_disc img in
     \<lparr>floppy_op = f, ata_op = f, ramdisk_op = f, virtio_blk_op = f, ahci_op = f, atapi_cmd_data = c, usb_cmd_data = c,
      uas_cmd_data = c, virtio_scsi_cmd_data = c, lsi_scsi_cmd_data = c, esp_scsi_cmd_data = c, megasas_cmd_data = c,
      pvscsi_cmd_data = c, ahci_cmd_data = c\<rparr>)"

definition drivers_sim :: "sim_disk drivers" where
  "drivers_sim = disc_drivers of_nat"

definition disk_sim :: sim_disk where
  "disk_sim = \<lparr>TimerKHz = 0, TimerPort = 0, ShiftTSC = 0, TimerLast = 0,
     wd = \<lparr>ram = (\<lambda>_. 0), Century = 0x20, RTCusers = 0, int1c_reentry = 0, dev = ()\<rparr>,
     drives = (\<lambda>_. no_drive)(1 := no_drive\<lparr>drive_type := DTYPE_ATA_ATAPI, blksize := 2048\<rparr>, 2 := no_drive\<lparr>drive_type := DTYPE_CDEMU\<rparr>,
       3 := no_drive\<lparr>drive_type := DTYPE_ATA, drive_sectors := 4000000, lchs := \<lparr>head = 64, cylinder = 992, sector = 63\<rparr>\<rparr>),
     IDMap = [replicate 16 0, 3 # replicate 15 0, 1 # replicate 15 0], FloppyCount = 0, CDCount = 1, bounce_buf_fl = 0xf0000,
     CDEmu = \<lparr>media = 4, emulated_drive = 0x80, controller_index = 0, ilba = 2, device_spec = 0, buffer_segment = 0, load_segment = 0,
       sector_count = 0, chs_heads = 0, chs_sptcyl = 0, chs_cyllow = 0\<rparr>,
     emulated_drive_gf = 1, cdemu_drive_gf = 2, CDRom_locks = replicate 16 0\<rparr>"

lemma disc_drivers_cmd:
  assumes "drive_type (drives s (op_drive op)) \<in> cd_types" "m \<longrightarrow> drive_type (drives s (op_drive op)) \<notin> types_32"
  shows "cdb_cmd_data m (disc_drivers img) cmd bs op s = cdb_disc img cmd bs op s"
proof -
  let ?d = "disc_drivers img" and ?c = "cdb_disc img"
  have "atapi_cmd_data ?d = ?c" "usb_cmd_data ?d = ?c" "uas_cmd_data ?d = ?c" "virtio_scsi_cmd_data ?d = ?c" "lsi_scsi_cmd_data ?d = ?c"
    "esp_scsi_cmd_data ?d = ?c" "megasas_cmd_data ?d = ?c" "pvscsi_cmd_data ?d = ?c" "ahci_cmd_data ?d = ?c"
    by (simp_all add: disc_drivers_def Let_def)
  note d = this
  let ?t = "drive_type (drives s (op_drive op))"
  consider "?t = DTYPE_ATA_ATAPI \<or> ?t = DTYPE_USB \<or> ?t = DTYPE_UAS \<or> ?t = DTYPE_VIRTIO_SCSI \<or> ?t = DTYPE_LSI_SCSI \<or>
      ?t = DTYPE_ESP_SCSI \<or> ?t = DTYPE_MEGASAS" | "?t \<in> types_32" "\<not> m"
    using assms by (auto simp: cd_types_def types_32_def)
  then show ?thesis unfolding cdb_cmd_data_def Let_def d by cases (auto simp: types_32_def)
qed

lemma disc_drivers_read: "reads_cd img (disc_drivers img) d"
  unfolding reads_cd_def by (auto simp: disc_drivers_cmd cdb_disc_def cdb_lba_read_10) (auto simp: read_10_def)

lemma drivers_sim_read: "reads_cd of_nat drivers_sim d"
  unfolding drivers_sim_def by (rule disc_drivers_read)

text \<open>No command of such a drive fails, and none changes more than the memory.\<close>

lemma disc_drivers_result:
  "cdb_cmd_data m (disc_drivers img) cmd bs op s = (r, n, s') \<Longrightarrow> \<exists>f. s' = s\<lparr>wd := (wd s)\<lparr>ram := f\<rparr>\<rparr>"
proof -
  have "\<exists>f. snd (snd (cdb_disc img cmd bs op s)) = s\<lparr>wd := (wd s)\<lparr>ram := f\<rparr>\<rparr>"
    by (cases "cmd ! 0 = 0x28") (auto simp: cdb_disc_def intro: exI [of _ "ram (wd s)"])
  moreover have "\<exists>f. s = s\<lparr>wd := (wd s)\<lparr>ram := f\<rparr>\<rparr>" by (rule exI [of _ "ram (wd s)"]) simp
  moreover have "snd (snd (cdb_cmd_data m (disc_drivers img) cmd bs op s)) \<in> {s, snd (snd (cdb_disc img cmd bs op s))}"
    by (simp add: cdb_cmd_data_def disc_drivers_def Let_def)
  ultimately have "\<exists>f. snd (snd (cdb_cmd_data m (disc_drivers img) cmd bs op s)) = s\<lparr>wd := (wd s)\<lparr>ram := f\<rparr>\<rparr>" by auto
  then show "cdb_cmd_data m (disc_drivers img) cmd bs op s = (r, n, s') \<Longrightarrow> \<exists>f. s' = s\<lparr>wd := (wd s)\<lparr>ram := f\<rparr>\<rparr>" by auto
qed

text \<open>Ports that answer 0, and a time-stamp counter that counts the readings.\<close>

definition io_ticks :: "nat low io" where
  "io_ticks =
     \<lparr>io_inb = (\<lambda>port w. (0, w)), io_inl = (\<lambda>port w. (0, w)), io_outb = (\<lambda>v port w. w), io_outl = (\<lambda>v port w. w),
      io_rdtsc = (\<lambda>w. (of_nat (dev w + 1), w\<lparr>dev := dev w + 1\<rparr>)),
      io_cr0 = (\<lambda>w. 0), io_setcr0 = (\<lambda>v w. w), io_wbinvd = (\<lambda>w. w), io_yield = (\<lambda>w. w), io_yield_toirq = (\<lambda>w. w),
      io_timer_counter = (\<lambda>w. 0), io_call16 = (\<lambda>nr br w. (br, w))\<rparr>"

lemma ticks_timer: "TimerPort s = 0 \<Longrightarrow> ShiftTSC s = 0 \<Longrightarrow> unat (TimerKHz s) \<le> KHZ_MAX \<Longrightarrow> tsc_timer io_ticks dev 0 s"
  by (simp add: tsc_timer_def tsc_clock_def io_ticks_def gap_def)

section \<open>The whole read\<close>

lemma emulated_disk:
  assumes "reads_cd img drv (emulated_drive_gf s)" "drive_type (drives s (emulated_drive_gf s)) \<in> cd_types"
    and "blksize (drives s (emulated_drive_gf s)) = 2048" "4 * unat (ilba (CDEmu s)) + unat (op_lba op) + unat (op_count op) \<le> 2 ^ 34"
    and "drive_type (drives s (op_drive op)) = DTYPE_CDEMU" "op_command op = CMD_READ"
    and "unat (op_count op) \<le> 255" "apart (buf_fl op) (unat (op_count op)) (bounce_buf_fl s)"
  shows "\<exists>s'. send_disk_op drv op s = Some (0, op_count op, s') \<and>
    (\<forall>a. unat (a - buf_fl op) < 512 * unat (op_count op) \<longrightarrow>
      ram (wd s') a = img (2048 * unat (ilba (CDEmu s)) + 512 * unat (op_lba op) + unat (a - buf_fl op))) \<and>
    (\<forall>a. 512 * unat (op_count op) \<le> unat (a - buf_fl op) \<longrightarrow> 2048 \<le> unat (a - bounce_buf_fl s) \<longrightarrow> ram (wd s') a = ram (wd s) a)"
proof -
  let ?n = "unat (op_count op)" and ?d = "emulated_drive_gf s" and ?b = "bounce_buf_fl s" and ?buf = "buf_fl op"
  let ?base = "2048 * unat (ilba (CDEmu s)) + 512 * unat (op_lba op)"
  let ?dop = "op\<lparr>op_drive := ?d, op_lba := ucast (ilba (CDEmu s)) + op_lba op div 4\<rparr>"
  have S: "cd_setup img drv ?d ?buf ?b ?n s" using assms by (simp add: cd_setup_def)
  have lba: "unat (op_lba ?dop) = unat (ilba (CDEmu s)) + unat (op_lba op) div 4" "unat (op_lba ?dop) < 2 ^ 63"
  proof -
    have i: "unat (ilba (CDEmu s)) < 2 ^ 32" by (rule u32_unat_lt)
    have "unat (op_lba op) < 2 ^ LENGTH(64)" by (rule unsigned_less)
    then have o: "unat (op_lba op) div 4 < 2 ^ 62" by simp
    have u: "unat (ucast (ilba (CDEmu s)) :: u64) = unat (ilba (CDEmu s))"
      using i by (simp add: unsigned_ucast_eq take_bit_nat_eq_self)
    show "unat (op_lba ?dop) = unat (ilba (CDEmu s)) + unat (op_lba op) div 4"
      using i o by (simp add: unat_word_ariths(1) u unat_div)
    then show "unat (op_lba ?dop) < 2 ^ 63" using i o by simp
  qed
  have blocks: "2048 * (i + x div 4) + 512 * (x mod 4) = 2048 * i + 512 * x" for i x :: nat
  proof -
    have split: "x = 4 * q + r \<Longrightarrow> 2048 * (i + q) + 512 * r = 2048 * i + 512 * x" for q r :: nat by simp
    show ?thesis by (rule split) simp
  qed
  have base: "2048 * unat (op_lba ?dop) + 512 * (unat (op_lba op) mod 4) = ?base"
    unfolding lba(1) by (rule blocks)
  have ends: "?base + 512 * ?n \<le> 2 ^ 43" using assms(4) by simp
  define t where "t = start_count (unat (op_lba op)) ?n"
  obtain dop1 s1 where f: "cd_first drv (op_lba op) ?dop (int ?n) ?buf s = Some (0, dop1, int (?n - t), ?buf + 512 * of_nat t, of_nat t, s1)"
    and p1: "cd_progress img ?base ?buf ?b s t s1" and d1: "op_drive dop1 = ?d" "op_command dop1 = CMD_READ"
    "unat (op_lba dop1) < 2 ^ 63 + 1" "t < ?n \<longrightarrow> 2048 * unat (op_lba dop1) = ?base + 512 * t" and t: "t \<le> ?n"
    by (rule read_first [OF S refl _ _ base lba(2) t_def ends]) (simp_all add: assms(6))
  obtain dop2 m s2 where g: "cd_blocks drv dop1 (int (?n - t)) (?buf + 512 * of_nat t) s1 =
      Some (0, dop2, int (?n - m), ?buf + 512 * of_nat m, of_nat (m - t), s2)"
    and p2: "cd_progress img ?base ?buf ?b s m s2" and d2: "op_drive dop2 = ?d" "op_command dop2 = CMD_READ"
    "m < ?n \<longrightarrow> 2048 * unat (op_lba dop2) = ?base + 512 * m" and m: "t \<le> m" "m \<le> ?n" "?n < m + 4"
    by (rule read_blocks [OF S p1 t ends d1(1,2) d1(4) [THEN mp] d1(3)])
  obtain s3 where h: "cd_last drv dop2 (int (?n - m)) (?buf + 512 * of_nat m) s2 = Some (0, of_nat (?n - m), s3)"
    and p3: "cd_progress img ?base ?buf ?b s ?n s3"
    by (rule read_last [OF S p2 m(2,3) ends d2(1,2) d2(3) [THEN mp]])
  have "of_nat t + of_nat (m - t) + of_nat (?n - m) = (of_nat (t + (m - t) + (?n - m)) :: u16)" by (simp only: of_nat_add)
  then have sum: "of_nat t + of_nat (m - t) + of_nat (?n - m) = op_count op" using m by simp
  have "uint (op_count op) = int ?n" by simp
  then have "cdemu_read drv op s = Some (0, op_count op, s3)"
    unfolding cdemu_read_def Let_def by (simp only: f g h) (simp add: sum f g h del: of_nat_diff)
  then have "send_disk_op drv op s = Some (0, op_count op, s3)"
    using assms(5,6) by (simp add: send_disk_op_def process_op_def process_cdemu_op_def done_count_def)
  then show ?thesis using p3 by (auto simp: cd_progress_def)
qed

text \<open>
  C29. The emulated disk is the image on the CD: a read of up to 255 sectors of 512 bytes, from any sector on, puts the bytes of the image
  that start at block \<open>ilba\<close> of the CD into the buffer, reports all of them, and changes no other memory than the bounce
  buffer; the buffer of the caller must not overlap it, and the blocks must have numbers of 32 bits.
\<close>

theorem emulated_read:
  assumes "reads_cd img drv (emulated_drive_gf s)" "drive_type (drives s (emulated_drive_gf s)) \<in> cd_types"
    and "blksize (drives s (emulated_drive_gf s)) = 2048" "4 * unat (ilba (CDEmu s)) + unat (op_lba op) + unat (op_count op) \<le> 2 ^ 34"
    and "drive_type (drives s (op_drive op)) = DTYPE_CDEMU" "op_command op = CMD_READ"
    and "unat (op_count op) \<le> 255" "apart (buf_fl op) (unat (op_count op)) (bounce_buf_fl s)"
  shows "\<exists>s'. send_disk_op drv op s = Some (0, op_count op, s') \<and>
    (\<forall>a. unat (a - buf_fl op) < 512 * unat (op_count op) \<longrightarrow>
      ram (wd s') a = img (2048 * unat (ilba (CDEmu s)) + 512 * unat (op_lba op) + unat (a - buf_fl op))) \<and>
    (\<forall>a. 512 * unat (op_count op) \<le> unat (a - buf_fl op) \<longrightarrow> 2048 \<le> unat (a - bounce_buf_fl s) \<longrightarrow> ram (wd s') a = ram (wd s) a)"
  using assms by (rule emulated_disk)

theorem emulated_read_witness:
  "\<exists>s'. send_disk_op drivers_sim \<lparr>op_lba = 3, buf_fl = 0x1000, op_drive = 2, op_count = 6, op_command = CMD_READ\<rparr> disk_sim =
     Some (0, 6, s') \<and> ram (wd s') 0x1001 = of_nat 5633"
proof -
  have "apart 0x1000 6 0xf0000"
    unfolding apart_def
  proof (intro allI impI)
    fix a :: u32 assume "unat (a - 0x1000) < 512 * 6"
    moreover have "a - 0xf0000 = (a - 0x1000) - of_nat 0xef000" by (simp add: algebra_simps)
    ultimately show "2048 \<le> unat (a - 0xf0000)" using unat_minus_of_nat [of "0xef000" "a - 0x1000"] by simp
  qed
  then obtain s' where "send_disk_op drivers_sim \<lparr>op_lba = 3, buf_fl = 0x1000, op_drive = 2, op_count = 6, op_command = CMD_READ\<rparr> disk_sim =
     Some (0, 6, s')" and m: "\<forall>a. unat (a - 0x1000) < 3072 \<longrightarrow> ram (wd s') a = of_nat (2048 * 2 + 512 * 3 + unat (a - 0x1000))"
    using emulated_read [OF drivers_sim_read, of disk_sim "\<lparr>op_lba = 3, buf_fl = 0x1000, op_drive = 2, op_count = 6, op_command = CMD_READ\<rparr>"]
    by (auto simp: disk_sim_def cd_types_def)
  moreover have "ram (wd s') 0x1001 = of_nat 5633" using m [rule_format, of "0x1001"] by simp
  ultimately show ?thesis by blast
qed
end
