(* ===== verification/Disk_Facts.thy ===== *)
theory Disk_Facts
  imports Geometry Cd_Facts
begin

text \<open>
  Interrupt 13h: it answers whatever is in the registers and leaves the status of the request where the caller looks for
  it, and no request for sectors reaches a driver that lies outside the drive.
\<close>

section \<open>Every request is answered\<close>

definition disk_tables :: "('v, 'z) dstate \<Rightarrow> bool" where
  "disk_tables s \<longleftrightarrow> length (IDMap s) = 3 \<and> (\<forall>row\<in>set (IDMap s). length row = BUILD_MAX_EXTDRIVE) \<and>
     length (CDRom_locks s) = BUILD_MAX_EXTDRIVE \<and> drive_type (drives s (emulated_drive_gf s)) \<noteq> DTYPE_CDEMU"

definition drivers_keep_drives :: "('v, 'z) dstate drivers \<Rightarrow> bool" where
  "drivers_keep_drives drv \<longleftrightarrow> (\<forall>op s r n s'. device_op drv op s = Some (r, n, s') \<longrightarrow> drives s' = drives s)"

definition int13_status :: "u8 \<Rightarrow> dregs \<Rightarrow> ('v, 'z) dstate \<Rightarrow> bool" where
  "int13_status dl r s \<longleftrightarrow> bda8 (if dl < EXTSTART_HD then floppy_last_status else disk_last_status) s = br_ah r \<and>
     (br_flags r AND F_CF \<noteq> 0) = (br_ah r \<noteq> 0)"

definition answers :: "u8 \<Rightarrow> (dregs \<times> ('v, 'z) dstate) option \<Rightarrow> bool" where
  "answers dl x \<longleftrightarrow> (case x of None \<Rightarrow> False | Some (r, s) \<Rightarrow> int13_status dl r s)"

lemma cf_clear [simp]: "br_flags (set_cf False r) AND F_CF = 0"
  using cf_simps(1) [of False r] by blast

lemma disk_ret_answers [simp]:
  "br_dl regs = dl \<Longrightarrow> answers dl (Some (disk_ret regs st s))"
  by (simp add: answers_def disk_ret_def int13_status_def Let_def set_last_status_def set_code_invalid_def set_code_success_def)

lemma disk_unimplemented_answers [simp]:
  "br_dl regs = dl \<Longrightarrow> answers dl (Some (disk_ret_unimplemented regs DISK_RET_EPARAM s))"
  by (simp add: answers_def disk_ret_unimplemented_def int13_status_def Let_def set_last_status_def set_code_unimplemented_def
      DISK_RET_EPARAM_def)

lemma device_op_returns:
  assumes "drive_type (drives s (op_drive op)) \<noteq> DTYPE_CDEMU"
  shows "\<exists>r n s'. device_op drv op s = Some (r, n, s')"
proof -
  obtain x where "device_op drv op s = Some x" using assms by (simp add: device_op_def Let_def del: not_None_eq)
  then show ?thesis by (cases x) simp
qed

lemma cdemu_read_returns:
  assumes "drivers_keep_drives drv" "drive_type (drives s (emulated_drive_gf s)) \<noteq> DTYPE_CDEMU"
  shows "cdemu_read drv op s \<noteq> None"
proof -
  let ?t = "\<lambda>s'. drive_type (drives s' (emulated_drive_gf s)) \<noteq> DTYPE_CDEMU"
  have dev: "\<exists>r n s''. device_op drv o' s' = Some (r, n, s'') \<and> ?t s''" if "op_drive o' = emulated_drive_gf s" "?t s'" for o' s'
    using device_op_returns [of s' o' drv] that assms(1) unfolding drivers_keep_drives_def by fastforce
  have 1: "\<exists>r o'' c b n s''. cd_first drv lba o' cnt buf s' = Some (r, o'', c, b, n, s'') \<and> op_drive o'' = emulated_drive_gf s \<and> ?t s''"
    if "op_drive o' = emulated_drive_gf s" "?t s'" for lba o' cnt buf s'
    using dev [of "o'\<lparr>op_count := 1, buf_fl := bounce_buf_fl s'\<rparr>" s'] that
    by (auto simp: cd_first_def Let_def memcpy_fl_def)
  have 2: "\<exists>r o'' c b n s''. cd_blocks drv o' cnt buf s' = Some (r, o'', c, b, n, s'') \<and> op_drive o'' = emulated_drive_gf s \<and> ?t s''"
    if "op_drive o' = emulated_drive_gf s" "?t s'" for o' cnt buf s'
    using dev [of "o'\<lparr>op_count := word_of_int (cnt div 4), buf_fl := buf\<rparr>" s'] that by (auto simp: cd_blocks_def Let_def)
  have 3: "\<exists>r n s''. cd_last drv o' cnt buf s' = Some (r, n, s'')" if "op_drive o' = emulated_drive_gf s" "?t s'" for o' cnt buf s'
    using dev [of "o'\<lparr>op_count := 1, buf_fl := bounce_buf_fl s'\<rparr>" s'] that by (auto simp: cd_last_def Let_def)
  let ?o = "op\<lparr>op_drive := emulated_drive_gf s, op_lba := ucast (ilba (CDEmu s)) + op_lba op div 4\<rparr>"
  obtain r1 o1 c1 b1 n1 s1 where f: "cd_first drv (op_lba op) ?o (uint (op_count op)) (buf_fl op) s = Some (r1, o1, c1, b1, n1, s1)"
    and d1: "op_drive o1 = emulated_drive_gf s" "?t s1"
    using 1 [of ?o s] assms(2) by fastforce
  obtain r2 o2 c2 b2 n2 s2 where g: "cd_blocks drv o1 c1 b1 s1 = Some (r2, o2, c2, b2, n2, s2)"
    and d2: "op_drive o2 = emulated_drive_gf s" "?t s2"
    using 2 [OF d1] by metis
  obtain r3 n3 s3 where h: "cd_last drv o2 c2 b2 s2 = Some (r3, n3, s3)" using 3 [OF d2] by metis
  show ?thesis by (simp add: cdemu_read_def f g h Let_def)
qed

lemma send_returns:
  assumes "drivers_keep_drives drv" "disk_tables s"
  shows "\<exists>r n s'. send_disk_op drv op s = Some (r, n, s')"
proof -
  have "process_cdemu_op drv op s \<noteq> None"
    using cdemu_read_returns [OF assms(1), of s op] assms(2) by (auto simp: process_cdemu_op_def disk_tables_def)
  then have "process_op drv op s \<noteq> None" 
    using device_op_returns [of s op drv] by (cases "drive_type (drives s (op_drive op)) = DTYPE_CDEMU") (auto simp: process_op_def)
  then show ?thesis by (auto simp: send_disk_op_def)
qed

lemma tables_bda [simp]: "disk_tables (upd_bda g s) = disk_tables s"
  by (simp add: disk_tables_def upd_bda_def)

lemma request_answers:
  assumes "drivers_keep_drives drv" "disk_tables s" "\<And>r n s'. answers dl (f r n s')"
  shows "answers dl (Option.bind (send_disk_op drv op s) (\<lambda>(r, n, s'). f r n s'))"
  using send_returns [OF assms(1,2), of op] assms(3) by auto

lemma access_answers:
  assumes "drivers_keep_drives drv" "disk_tables s"
  shows "answers (br_dl regs) (basic_access drv c regs d s)" "answers (br_dl regs) (extended_access drv c regs d s)"
    "answers (br_dl regs) (simple_op drv junk c regs d s)" "answers (br_dl regs) (disk_1305 drv regs d s)"
  by (auto simp: basic_access_def extended_access_def simple_op_def disk_1305_def Let_def intro!: request_answers [OF assms])

lemma lock_answers:
  assumes "disk_tables s" "unat (br_dl regs) < 240"
  shows "answers (br_dl regs) (disk_1345 regs s)" "answers (br_dl regs) (disk_1346 io regs s)"
proof -
  have g: "\<exists>n. arr_get (CDRom_locks s) (cdid regs) = Some n" if "\<not> br_dl regs < EXTSTART_CD"
  proof -
    have "224 \<le> unat (br_dl regs)" using that by (simp add: EXTSTART_CD_def word_less_nat_alt)
    with assms(2) have "224 \<le> int (unat (br_dl regs))" "int (unat (br_dl regs)) < 240" by linarith+
    then have "224 \<le> uint (br_dl regs)" "uint (br_dl regs) < 240" by simp_all
    then show ?thesis using assms by (simp add: arr_get_def disk_tables_def BUILD_MAX_EXTDRIVE_def EXTSTART_CD_def nat_less_iff)
  qed
  show "answers (br_dl regs) (disk_1345 regs s)"
  proof (cases "br_dl regs < EXTSTART_CD")
    case True then show ?thesis by (simp add: disk_1345_def)
  next
    case False
    then obtain n where "arr_get (CDRom_locks s) (cdid regs) = Some n" using g by blast
    with False show ?thesis
      by (simp add: disk_1345_def disk_134500_def disk_134501_def disk_134502_def disk_1345XX_def Let_def)
  qed
  show "answers (br_dl regs) (disk_1346 io regs s)"
  proof (cases "br_dl regs < EXTSTART_CD")
    case True then show ?thesis by (simp add: disk_1346_def)
  next
    case False
    then obtain n where "arr_get (CDRom_locks s) (cdid regs) = Some n" using g by blast
    with False show ?thesis by (simp add: disk_1346_def Let_def split: prod.splits)
  qed
qed

lemma changed_answers:
  "br_dl regs = dl \<Longrightarrow> answers dl (Some (disk_1308 k regs d s))" "br_dl regs = dl \<Longrightarrow> answers dl (Some (disk_1316 regs s))"
  "br_dl regs = dl \<Longrightarrow> answers dl (Some (disk_1348 k regs d s))" "br_dl regs = dl \<Longrightarrow> answers dl (Some (disk_134e regs s))"
  "br_dl regs = dl \<Longrightarrow> answers dl (Some (cdemu_134b regs s))"
  apply (auto simp: disk_1308_def Let_def answers_def disk_ret_def int13_status_def set_last_status_def set_code_invalid_def
      set_code_success_def set_bx_def split: prod.splits)[1]
  apply (simp_all add: disk_1316_def disk_134e_def disk_1348_def cdemu_134b_def Let_def split: prod.split)
  done

definition status_elsewhere :: "u8 set" where
  "status_elsewhere = {0x01, 0x15, 0x41, 0x49}"

lemma disk_13_answers:
  assumes "drivers_keep_drives drv" "disk_tables s" "unat (br_dl regs) < 240 \<or> br_ah regs \<le> 0x16"
  shows "disk_13 io drv k junk regs d s \<noteq> None"
    "br_ah regs \<notin> status_elsewhere \<Longrightarrow> answers (br_dl regs) (disk_13 io drv k junk regs d s)"
proof -
  let ?s = "set_bda8 disk_interrupt_flag 0 s"
  have t: "disk_tables ?s" using assms(2) by simp
  note a = access_answers [OF assms(1) t] changed_answers [OF refl]
  have l: "answers (br_dl regs) (disk_1345 regs ?s)" "answers (br_dl regs) (disk_1346 io regs ?s)" if "br_ah regs = 0x45 \<or> br_ah regs = 0x46"
    using lock_answers [OF t, of regs] that assms(3) by auto
  show n: "br_ah regs \<notin> status_elsewhere \<Longrightarrow> answers (br_dl regs) (disk_13 io drv k junk regs d s)"
    using l unfolding disk_13_def Let_def status_elsewhere_def
    by (simp add: disk_1300_def disk_1302_def disk_1303_def disk_1304_def disk_1310_def disk_1342_def disk_1343_def disk_1344_def
        disk_1347_def disk_stub_def disk_13XX_def a)
  show "disk_13 io drv k junk regs d s \<noteq> None"
  proof (cases "br_ah regs \<in> status_elsewhere")
    case True
    then show ?thesis by (auto simp: disk_13_def Let_def status_elsewhere_def)
  next
    case False
    with n show ?thesis by (auto simp: answers_def split: option.splits)
  qed
qed

lemma getDrive_row:
  assumes "disk_tables s" "t < 3"
  shows "\<exists>d. getDrive t off s = Some d \<and> (BUILD_MAX_EXTDRIVE \<le> unat off \<longrightarrow> d = 0)"
proof -
  have "length (IDMap s ! t) = BUILD_MAX_EXTDRIVE" using assms by (simp add: disk_tables_def)
  moreover have "nat (uint off) = unat off" by simp
  ultimately show ?thesis using assms by (auto simp: getDrive_def arr_get_def disk_tables_def)
qed

lemma legacy_answers:
  assumes "drivers_keep_drives drv" "disk_tables s"
    and e: "extdrive = br_dl regs \<or> br_dl regs < EXTSTART_CD"
  shows "handle_legacy_disk io drv k junk extdrive regs s \<noteq> None"
    "br_ah regs \<notin> status_elsewhere \<Longrightarrow> answers (br_dl regs) (handle_legacy_disk io drv k junk extdrive regs s)"
proof -
  note g = getDrive_row [OF assms(2)]
  obtain f h c where d: "getDrive EXTTYPE_FLOPPY extdrive s = Some f" "getDrive EXTTYPE_HD (extdrive - EXTSTART_HD) s = Some h"
    "getDrive EXTTYPE_CD (extdrive - EXTSTART_CD) s = Some c" "BUILD_MAX_EXTDRIVE \<le> unat (extdrive - EXTSTART_CD) \<longrightarrow> c = 0"
    using g [of EXTTYPE_FLOPPY extdrive] g [of EXTTYPE_HD "extdrive - EXTSTART_HD"] g [of EXTTYPE_CD "extdrive - EXTSTART_CD"]
    by (auto simp: EXTTYPE_FLOPPY_def EXTTYPE_HD_def EXTTYPE_CD_def)
  have small: "unat (br_dl regs) < 240" if "\<not> extdrive < EXTSTART_HD" "EXTSTART_CD \<le> extdrive \<longrightarrow> c \<noteq> 0"
  proof (cases "br_dl regs < EXTSTART_CD")
    case True then show ?thesis by (simp add: EXTSTART_CD_def word_less_nat_alt)
  next
    case False
    with e that d(4) have "extdrive = br_dl regs" "unat (extdrive - EXTSTART_CD) < 16" by (auto simp: BUILD_MAX_EXTDRIVE_def)
    moreover from this False have "unat (extdrive - EXTSTART_CD) = unat (br_dl regs) - 224"
      by (simp add: unat_sub not_less EXTSTART_CD_def)
    ultimately show ?thesis by simp
  qed
  note a = disk_13_answers [OF assms(1,2)]
  have fl: "br_ah regs \<le> 0x16" if "br_ah regs \<in> {0x00, 0x01, 0x02, 0x03, 0x04, 0x05, 0x08, 0x15, 0x16}"
    using that by auto
  show "handle_legacy_disk io drv k junk extdrive regs s \<noteq> None"
    using d small a(1) fl by (auto simp: handle_legacy_disk_def floppy_13_def)
  show "br_ah regs \<notin> status_elsewhere \<Longrightarrow> answers (br_dl regs) (handle_legacy_disk io drv k junk extdrive regs s)"
    using d(1-3) small a(2) fl by (auto simp: handle_legacy_disk_def floppy_13_def disk_13XX_def)
qed

text \<open>
  C33. Interrupt 13h answers every request: whatever the registers hold, as long as the tables have their sizes and the CD behind an
  emulated disk is not emulated itself, the handler returns without an access outside of a table. Except for the functions that
  answer in AH otherwise (1h, 15h, 41h and 49h), the carry flag tells whether AH is an error, and AH is also the
  status byte of the data area that function 1h reads.
\<close>

theorem int13_answered:
  assumes "drivers_keep_drives drv" "disk_tables s"
  shows "\<exists>r s'. handle_13 io drv k junk regs s = Some (r, s') \<and>
    (br_ah regs \<notin> {0x01, 0x15, 0x41, 0x49} \<longrightarrow> int13_status (br_dl regs) r s')"
proof -
  have "handle_13 io drv k junk regs s \<noteq> None \<and> (br_ah regs \<notin> status_elsewhere \<longrightarrow> answers (br_dl regs) (handle_13 io drv k junk regs s))"
  proof (cases "br_ah regs \<noteq> 0x4b \<and> media (CDEmu s) \<noteq> 0 \<and> br_dl regs = emulated_drive (CDEmu s)")
    case True
    then have "handle_13 io drv k junk regs s =
       (if 0x16 < br_ah regs then Some (disk_13XX regs s) else disk_13 io drv k junk regs (cdemu_drive_gf s) s)"
      by (simp add: handle_13_def Let_def)
    then show ?thesis
      using disk_13_answers [OF assms, of regs io k junk "cdemu_drive_gf s"] by (simp add: disk_13XX_def not_less)
  next
    case False
    then show ?thesis
      using legacy_answers [OF assms, of _ regs io k junk] changed_answers(5) [of regs, OF refl]
      by (auto simp: handle_13_def Let_def)
  qed
  then show ?thesis by (auto simp: answers_def status_elsewhere_def split: option.splits)
qed

lemma drivers_sim_scsi: "drives (snd (snd (process_scsi_op m drivers_sim op s))) = drives s"
proof -
  have "drives (snd (snd (cdb_cmd_data m drivers_sim cmd bs op s))) = drives s" for cmd bs
    using disc_drivers_result [of m of_nat cmd bs op s] by (cases "cdb_cmd_data m drivers_sim cmd bs op s") (auto simp: drivers_sim_def)
  then show ?thesis by (simp add: process_scsi_op_def cdb_read_def cdb_write_def)
qed

lemma drivers_sim_device: "device_op drivers_sim op s = Some (r, n, s') \<Longrightarrow> drives s' = drives s"
proof -
  have k: "(case process_atapi_op m drivers_sim op s of (r, n, s') \<Rightarrow> drives s' = drives s)"
    "(case process_scsi_op m drivers_sim op s of (r, n, s') \<Rightarrow> drives s' = drives s)" for m
    using drivers_sim_scsi [of m op s] by (auto simp: process_atapi_op_def split: prod.splits)
  have f: "floppy_op drivers_sim op s = (0, op_count op, s)" "ata_op drivers_sim op s = (0, op_count op, s)"
    "ramdisk_op drivers_sim op s = (0, op_count op, s)" "virtio_blk_op drivers_sim op s = (0, op_count op, s)"
    "ahci_op drivers_sim op s = (0, op_count op, s)" by (simp_all add: drivers_sim_def disc_drivers_def Let_def)
  show "device_op drivers_sim op s = Some (r, n, s') \<Longrightarrow> drives s' = drives s"
    using k [of True] k [of False] by (auto simp: device_op_def Let_def done_count_def f split: prod.splits if_splits)
qed

lemma drivers_sim_keep: "drivers_keep_drives drivers_sim"
  by (auto simp: drivers_keep_drives_def dest: drivers_sim_device)

lemma disk_sim_tables: "disk_tables disk_sim"
  by (simp add: disk_tables_def disk_sim_def BUILD_MAX_EXTDRIVE_def DTYPE_ATA_ATAPI_def DTYPE_CDEMU_def)

definition dregs_zero :: dregs where
  "dregs_zero = bregs.extend bregs_zero (dregs.fields 0 0 0)"

definition io_idle :: "'w io" where
  "io_idle =
     \<lparr>io_inb = (\<lambda>port w. (0, w)), io_inl = (\<lambda>port w. (0, w)), io_outb = (\<lambda>v port w. w), io_outl = (\<lambda>v port w. w),
      io_rdtsc = (\<lambda>w. (0, w)), io_cr0 = (\<lambda>w. 0), io_setcr0 = (\<lambda>v w. w), io_wbinvd = (\<lambda>w. w),
      io_yield = (\<lambda>w. w), io_yield_toirq = (\<lambda>w. w), io_timer_counter = (\<lambda>w. 0), io_call16 = (\<lambda>nr r w. (r, w))\<rparr>"

definition consts_sim :: disk_consts where
  "consts_sim = \<lparr>dpte_at = (0xf000, 0x100), diskette_param_table2 = 0xefc7,
     ata_port_of = (\<lambda>d. \<lparr>slave = 0, iobase1 = 0x1f0, iobase2 = 0x3f0, ata_irq = 14, pci_bdf = 0x61, chanid = 0\<rparr>)\<rparr>"

abbreviation junk_sim :: disk_op_s where
  "junk_sim \<equiv> \<lparr>op_lba = 0, buf_fl = 0, op_drive = 0, op_count = 0, op_command = 0\<rparr>"

theorem int13_answered_witness:
  "\<exists>r s'. handle_13 io_idle drivers_sim consts_sim junk_sim (dregs_zero\<lparr>br_ah := 2, br_dl := 0x81, br_al := 1\<rparr>) disk_sim = Some (r, s') \<and>
     int13_status 0x81 r s'"
  using int13_answered [OF drivers_sim_keep disk_sim_tables, of io_idle consts_sim junk_sim "dregs_zero\<lparr>br_ah := 2, br_dl := 0x81, br_al := 1\<rparr>"]
  by simp

section \<open>Requests lie inside the drive\<close>

definition agree_inside :: "('v, 'z) dstate drivers \<Rightarrow> ('v, 'z) dstate drivers \<Rightarrow> bool" where
  "agree_inside drv drv' \<longleftrightarrow>
     (\<forall>op s. op_lba op < drive_sectors (drives s (op_drive op)) \<longrightarrow> device_op drv op s = device_op drv' op s)"

lemma send_inside:
  assumes "agree_inside drv drv'" "drive_type (drives s (op_drive op)) \<noteq> DTYPE_CDEMU" "op_lba op < drive_sectors (drives s (op_drive op))"
  shows "send_disk_op drv op s = send_disk_op drv' op s"
  using assms by (simp add: agree_inside_def send_disk_op_def process_op_def)

text \<open>
  C32. No request for sectors reaches a driver that starts outside of the drive: two sets of drivers that agree on requests inside
  of it are the same to the functions that read, write, verify, format and seek, by cylinder, head and sector as well as by block number,
  whatever is in the registers and in the caller's packet.
\<close>

theorem requests_inside:
  assumes "agree_inside drv drv'" "drive_type (drives s d) \<noteq> DTYPE_CDEMU" "d \<noteq> cdemu_drive_gf s"
    and "small_geometry (lchs (drives s d))" "sectors_in (lchs (drives s d)) \<le> unat (drive_sectors (drives s d))"
    and "br_ah regs \<notin> {0x00, 0x10}"
  shows "disk_13 io drv k junk regs d s = disk_13 io drv' k junk regs d s"
proof -
  define t where "t = set_bda8 disk_interrupt_flag 0 s"
  let ?l = "lchs (drives t d)"
  have t: "drives t = drives s" "cdemu_drive_gf t = cdemu_drive_gf s" by (simp_all add: t_def upd_bda_def)
  have l: "getLCHS d t = ?l" using assms(3) by (simp add: getLCHS_def t)
  note send = send_inside [OF assms(1), of t]
  have g: "small_geometry ?l" "sectors_in ?l \<le> unat (drive_sectors (drives t d))" using assms(4,5) by (simp_all add: t)
  have chs: "chs_lba ?l c h k < drive_sectors (drives t d)" if "valid_chs ?l (c, h, k)" for c h k
    using chs_lba_value(2) [OF g(1) that] g(2) by (simp add: word_less_nat_alt)
  have basic: "basic_access drv c regs d t = basic_access drv' c regs d t" for c
  proof -
    let ?c = "ucast (br_ch regs) OR (push_bit 2 (ucast (br_cl regs)) AND 0x300) :: u16" and ?k = "ucast (br_cl regs) AND 0x3f :: u16"
    let ?h = "ucast (br_dh regs) :: u16"
    let ?o = "\<lparr>op_lba = chs_lba ?l ?c ?h ?k, buf_fl = MAKE_FLATPTR (br_es regs) (get_bx regs), op_drive = d,
      op_count = ucast (br_al regs), op_command = c\<rparr>"
    have "send_disk_op drv ?o t = send_disk_op drv' ?o t"
      if "\<not> (?k = 0)" "\<not> (cylinder ?l \<le> ?c \<or> head ?l \<le> ?h \<or> sector ?l < ?k)"
    proof -
      have "1 \<le> ?k" using that(1) by (simp add: word_le_nat_alt unat_gt_0 Suc_le_eq)
      with that have "valid_chs ?l (?c, ?h, ?k)" by (simp add: valid_chs_def not_le not_less)
      from chs [OF this] show ?thesis using assms(2) by (intro send) (simp_all add: t)
    qed
    then show ?thesis by (simp add: basic_access_def Let_def l)
  qed
  have extended: "extended_access drv c regs d t = extended_access drv' c regs d t" for c
  proof (cases "drive_sectors (drives t d) \<le> get_far64 (br_ds regs) (br_si regs + 8) t")
    case True
    then show ?thesis by (simp add: extended_access_def Let_def)
  next
    case False
    then have "send_disk_op drv \<lparr>op_lba = get_far64 (br_ds regs) (br_si regs + 8) t, buf_fl = b, op_drive = d, op_count = n, op_command = c\<rparr> t =
        send_disk_op drv' \<lparr>op_lba = get_far64 (br_ds regs) (br_si regs + 8) t, buf_fl = b, op_drive = d, op_count = n, op_command = c\<rparr> t" for b n
      using assms(2) by (intro send) (simp_all add: t not_le)
    with False show ?thesis by (simp add: extended_access_def Let_def)
  qed
  have format: "disk_1305 drv regs d t = disk_1305 drv' regs d t"
  proof -
    let ?c = "ucast (br_ch regs) :: u16" and ?h = "ucast (br_dh regs) :: u16"
    let ?o = "\<lparr>op_lba = ucast ((ucast (br_ch regs) * ucast (head ?l) + ucast (br_dh regs)) * ucast (sector ?l) :: u32),
      buf_fl = MAKE_FLATPTR (br_es regs) (get_bx regs), op_drive = d, op_count = ucast (br_al regs), op_command = CMD_FORMAT\<rparr>"
    have "send_disk_op drv ?o t = send_disk_op drv' ?o t"
      if "\<not> (cylinder ?l \<le> ?c \<or> head ?l \<le> ?h \<or> br_al regs = 0 \<or> sector ?l < ucast (br_al regs))"
    proof -
      have "unat (ucast (br_al regs) :: u16) = unat (br_al regs)"
        using unsigned_less [of "br_al regs", where ?'a = nat] by (simp add: unsigned_ucast_eq take_bit_nat_eq_self)
      moreover have "unat (br_al regs) \<noteq> 0" using that by (simp add: unat_eq_0)
      ultimately have "1 \<le> sector ?l" using that by (simp add: word_le_nat_alt word_less_nat_alt)
      with that have v: "valid_chs ?l (?c, ?h, 1)" by (simp add: valid_chs_def not_le not_less)
      have wide: "ucast (ucast x :: u16) = (ucast x :: u32)" for x :: u8
        by (rule bit_word_eqI) (auto simp: bit_simps dest: bit_imp_le_length)
      from chs [OF v] have "op_lba ?o < drive_sectors (drives t d)" by (simp add: chs_lba_def wide)
      then show ?thesis using assms(2) by (intro send) (simp_all add: t)
    qed
    then show ?thesis by (simp add: disk_1305_def Let_def l)
  qed
  show ?thesis
    using assms(6) unfolding disk_13_def Let_def t_def [symmetric] disk_1302_def disk_1303_def disk_1304_def disk_1342_def disk_1343_def
      disk_1344_def disk_1347_def basic extended format by simp
qed

theorem requests_inside_witness:
  "disk_13 io_idle drivers_sim consts_sim junk_sim (dregs_zero\<lparr>br_ah := 2, br_dl := 0x80, br_al := 1\<rparr>) 3 disk_sim =
   disk_13 io_idle (drivers_sim\<lparr>ata_op := \<lambda>op s. if drive_sectors (drives s (op_drive op)) \<le> op_lba op then (- 1, 0, s) else (0, op_count op, s)\<rparr>)
     consts_sim junk_sim (dregs_zero\<lparr>br_ah := 2, br_dl := 0x80, br_al := 1\<rparr>) 3 disk_sim"
proof (rule requests_inside)
  show "agree_inside drivers_sim
     (drivers_sim\<lparr>ata_op := \<lambda>op s. if drive_sectors (drives s (op_drive op)) \<le> op_lba op then (- 1, 0, s) else (0, op_count op, s)\<rparr>)"
    unfolding agree_inside_def
  proof (intro allI impI)
    fix op :: disk_op_s and s :: sim_disk
    assume inside: "op_lba op < drive_sectors (drives s (op_drive op))"
    have scsi: "process_scsi_op m (drv\<lparr>ata_op := f\<rparr>) = process_scsi_op m drv" "process_atapi_op m (drv\<lparr>ata_op := f\<rparr>) = process_atapi_op m drv"
      for f m and drv :: "sim_disk drivers"
    proof -
      have "cdb_cmd_data m (drv\<lparr>ata_op := f\<rparr>) = cdb_cmd_data m drv" by (intro ext) (simp add: cdb_cmd_data_def Let_def)
      then show "process_scsi_op m (drv\<lparr>ata_op := f\<rparr>) = process_scsi_op m drv"
        by (intro ext) (simp add: process_scsi_op_def cdb_read_def cdb_write_def)
      then show "process_atapi_op m (drv\<lparr>ata_op := f\<rparr>) = process_atapi_op m drv"
        by (intro ext) (simp add: process_atapi_op_def)
    qed
    have "ata_op drivers_sim op s = (0, op_count op, s)" by (simp add: drivers_sim_def disc_drivers_def Let_def)
    moreover have "\<not> drive_sectors (drives s (op_drive op)) \<le> op_lba op" using inside by simp
    ultimately show "device_op drivers_sim op s = device_op (drivers_sim\<lparr>ata_op := \<lambda>op s.
        if drive_sectors (drives s (op_drive op)) \<le> op_lba op then (- 1, 0, s) else (0, op_count op, s)\<rparr>) op s"
      by (simp add: device_op_def Let_def scsi)
  qed
qed (simp_all add: disk_sim_def dtypes small_geometry_def sectors_in_def)
end
