(* ===== verification/Edd_Facts.thy ===== *)
theory Edd_Facts
  imports Cd_Facts
begin

text \<open>
  The parameters that function 48h reports: they are in the caller's buffer, nothing is written behind its end, and the checksums
  are right.
\<close>

section \<open>Bytes of a segment\<close>

lemma seg_addr_inj: "seg_addr seg a = seg_addr seg b \<longleftrightarrow> a = b"
proof -
  have u: "unat (ucast x :: u32) = unat x" for x :: u16
    using u16_unat_lt [of x] by (simp add: unsigned_ucast_eq take_bit_nat_eq_self)
  have "(ucast a :: u32) = ucast b \<Longrightarrow> a = b" using u [of a] u [of b] by (metis word_unat_eq_iff)
  then show ?thesis by (auto simp: seg_addr_def)
qed

lemma get_set_far: "GET_FARVAR seg a (SET_FARVAR seg b v s) = (if a = b then v else GET_FARVAR seg a s)"
  by (simp add: GET_FARVAR_def SET_FARVAR_def seg_addr_inj)

lemma put_far_Nil [simp]: "put_far seg off [] s = s"
  by (simp add: put_far_def)

lemma put_far_Cons: "put_far seg off (b # bs) s = put_far seg (off + 1) bs (SET_FARVAR seg off b s)"
proof -
  have "enumerate (Suc 0) bs = map (\<lambda>(i, b). (Suc i, b)) (enumerate 0 bs)"
    by (simp add: enumerate_map_upt map_nth enumerate_eq_zip zip_map1 [symmetric] map_Suc_upt [symmetric] del: upt_Suc)
  then show ?thesis by (simp add: put_far_def fold_map comp_def case_prod_beta' add.assoc)
qed

lemma get_put_far:
  assumes "length bs \<le> 65536"
  shows "GET_FARVAR seg a (put_far seg off bs s) = (if unat (a - off) < length bs then bs ! unat (a - off) else GET_FARVAR seg a s)"
  using assms
proof (induction bs arbitrary: off s)
  case (Cons b bs)
  show ?case
  proof (cases "a = off")
    case True
    have "unat (a - (a + 1)) = 65535" by (simp add: unsigned_minus_1_eq_mask mask_eq_exp_minus_1)
    then show ?thesis using Cons True by (simp add: put_far_Cons get_set_far)
  next
    case False
    then have "unat (a - off) \<noteq> 0" by (simp add: unat_eq_0)
    moreover from this have "unat (a - (off + 1)) = unat (a - off) - 1"
      using unat_sub [of 1 "a - off"] by (simp add: diff_diff_eq word_le_nat_alt)
    ultimately show ?thesis using Cons False by (auto simp: put_far_Cons get_set_far nth_Cons')
  qed
qed simp

lemma offset_diff: "unat (p + a - (p + k) :: u16) = (if unat k \<le> unat a then unat a - unat k else 65536 + unat a - unat k)"
proof -
  have "p + a - (p + k) = a - k" by simp
  then show ?thesis using u16_unat_lt [of a] u16_unat_lt [of k] by (simp only:) (auto simp: unat_sub_if_size word_size)
qed

lemma get_put_off:
  assumes "unat k + length bs \<le> 65536"
  shows "GET_FARVAR seg (p + a) (put_far seg (p + k) bs s) =
    (if unat k \<le> unat a \<and> unat a < unat k + length bs then bs ! (unat a - unat k) else GET_FARVAR seg (p + a) s)"
  using assms get_put_far [of bs seg "p + a" "p + k" s] offset_diff [of p a k] by auto

lemma get_set_off: "GET_FARVAR seg (p + a) (SET_FARVAR seg (p + k) v s) = (if a = k then v else GET_FARVAR seg (p + a) s)"
  by (simp add: get_set_far)

lemma get_put_base:
  "length bs \<le> 65536 \<Longrightarrow> GET_FARVAR seg (p + a) (put_far seg p bs s) = (if unat a < length bs then bs ! unat a else GET_FARVAR seg (p + a) s)"
  using get_put_off [of 0 bs seg p a s] by simp

lemma bytes_length [simp]: "length (bytes16 a) = 2" "length (bytes32 b) = 4" "length (bytes64 c) = 8"
  by (simp_all add: bytes16_def bytes32_def bytes64_def)

lemma word32_halves: "ucast (ucast v :: u16) OR push_bit 16 (ucast (ucast (drop_bit 16 v) :: u16)) = (v :: u32)"
  by (rule bit_word_eqI) (auto simp: bit_simps)

lemma word64_halves: "ucast (ucast v :: u32) OR push_bit 32 (ucast (ucast (drop_bit 32 v) :: u32)) = (v :: u64)"
  by (rule bit_word_eqI) (auto simp: bit_simps)

lemma get_far_bytes:
  "GET_FARVAR seg off s = bytes16 v ! 0 \<Longrightarrow> GET_FARVAR seg (off + 1) s = bytes16 v ! 1 \<Longrightarrow> get_far16 seg off s = v"
  "get_far16 seg off s = ucast w \<Longrightarrow> get_far16 seg (off + 2) s = ucast (drop_bit 16 w) \<Longrightarrow> get_far32 seg off s = w"
  "get_far32 seg off s = ucast x \<Longrightarrow> get_far32 seg (off + 4) s = ucast (drop_bit 32 x) \<Longrightarrow> get_far64 seg off s = x"
  by (simp_all add: get_far16_def get_far32_def get_far64_def bytes16_def word32_halves word64_halves)

lemma get_far64_bytes:
  assumes "map (\<lambda>i. GET_FARVAR seg (off + i) s) [0, 1, 2, 3, 4, 5, 6, 7] = bytes64 v"
  shows "get_far64 seg off s = v"
proof -
  let ?l = "ucast v :: u32" and ?h = "ucast (drop_bit 32 v) :: u32"
  have "get_far16 seg off s = ucast ?l" "get_far16 seg (off + 2) s = ucast (drop_bit 16 ?l)"
    "get_far16 seg (off + 4) s = ucast ?h" "get_far16 seg (off + 4 + 2) s = ucast (drop_bit 16 ?h)"
    using assms by (auto simp: bytes64_def bytes32_def bytes16_def get_far16_def add.assoc)
  then show ?thesis by (intro get_far_bytes(3) get_far_bytes(2)) 
qed

section \<open>What a write can reach\<close>

definition writes_only :: "u16 \<Rightarrow> u16 \<Rightarrow> nat \<Rightarrow> ('v low, 'z) mach_scheme \<Rightarrow> ('v low, 'z) mach_scheme \<Rightarrow> bool" where
  "writes_only seg p n s s' \<longleftrightarrow>
     (\<forall>adr. (\<forall>i<n. adr \<noteq> seg_addr seg (p + of_nat i)) \<longrightarrow> ram (wd s') adr = ram (wd s) adr)"

lemma writes_only_refl [simp]: "writes_only seg p n s s"
  by (simp add: writes_only_def)

lemma writes_only_set [simp]:
  assumes "writes_only seg p n s t" "unat k < n"
  shows "writes_only seg p n s (SET_FARVAR seg (p + k) v t)"
proof -
  have "k = of_nat (unat k)" by simp
  then show ?thesis using assms unfolding writes_only_def SET_FARVAR_def by (auto simp del: of_nat_unat)
qed

lemma writes_only_put [simp]:
  assumes "writes_only seg p n s t" "unat k + length bs \<le> n" "n \<le> 65536"
  shows "writes_only seg p n s (put_far seg (p + k) bs t)"
  using assms
proof (induction bs arbitrary: k t)
  case (Cons b bs)
  have 1: "writes_only seg p n s (SET_FARVAR seg (p + k) b t)" using Cons.prems by simp
  show ?case
  proof (cases "bs = []")
    case True with 1 show ?thesis by (simp add: put_far_Cons)
  next
    case False
    then have "unat k + 1 < 65536" using Cons.prems by (cases bs) auto
    then have "unat (k + 1) = unat k + 1" by (simp add: unat_word_ariths)
    then show ?thesis using Cons.IH [OF 1, of "k + 1"] Cons.prems by (simp add: put_far_Cons add.assoc)
  qed
qed simp

lemma writes_only_base [simp]:
  "writes_only seg p n s t \<Longrightarrow> length bs \<le> n \<Longrightarrow> n \<le> 65536 \<Longrightarrow> writes_only seg p n s (put_far seg p bs t)"
  using writes_only_put [of seg p n s t 0 bs] by simp

section \<open>Checksums\<close>

lemma checksum_step: "checksum_far seg off (Suc n) s = checksum_far seg off n s + GET_FARVAR seg (off + of_nat n) s"
  by (simp add: checksum_far_def)

lemma checksum_frame:
  "n \<le> m \<Longrightarrow> m < 65536 \<Longrightarrow> checksum_far seg off n (SET_FARVAR seg (off + of_nat m) v s) = checksum_far seg off n s"
proof (induction n)
  case (Suc n)
  have "unat (of_nat n :: u16) \<noteq> unat (of_nat m :: u16)" using Suc.prems by (simp add: unat_of_nat)
  then have "(of_nat n :: u16) \<noteq> of_nat m" by metis
  then show ?case using Suc by (simp add: checksum_step get_set_far)
qed (simp add: checksum_far_def)

lemma checksum_closed:
  "n < 65536 \<Longrightarrow> checksum_far seg off (Suc n) (SET_FARVAR seg (off + of_nat n) (- checksum_far seg off n s) s) = 0"
  by (simp add: checksum_step checksum_frame get_set_far)

section \<open>The report\<close>

lemma chars_length [simp]: "length (chars t) = length t"
  by (simp add: chars_def)

lemma edd_1_writes: "26 \<le> n \<Longrightarrow> n \<le> 65536 \<Longrightarrow> writes_only seg p n s t \<Longrightarrow> writes_only seg p n s (edd_1 seg p drive t)"
  by (simp add: edd_1_def Let_def)

lemma edd_3_writes:
  "(if t13 then 74 else 66) \<le> n \<Longrightarrow> n \<le> 65536 \<Longrightarrow> length ty = 8 \<Longrightarrow> writes_only seg p n s t \<Longrightarrow>
   writes_only seg p n s (edd_3 seg p t13 ty bdf ch io dp t)"
  by (auto simp: edd_3_def Let_def)

lemma edd_1_ends:
  "\<exists>t. edd_1 seg p drive s = put_far seg (p + 24) (bytes16 (blksize drive)) (put_far seg (p + 16) (bytes64 (drive_sectors drive)) t)"
  unfolding edd_1_def Let_def by blast

text \<open>The bytes 16 to 25 of the report hold what \<open>edd_1\<close> put there.\<close>

lemma report_fields:
  assumes "\<And>a. 16 \<le> unat a \<Longrightarrow> unat a < 26 \<Longrightarrow> GET_FARVAR seg (p + a) s' = GET_FARVAR seg (p + a) (edd_1 seg p drive s)"
  shows "get_far64 seg (p + 16) s' = drive_sectors drive" "get_far16 seg (p + 24) s' = blksize drive"
proof -
  obtain t where e: "edd_1 seg p drive s = put_far seg (p + 24) (bytes16 (blksize drive)) (put_far seg (p + 16) (bytes64 (drive_sectors drive)) t)"
    using edd_1_ends by blast
  show "get_far64 seg (p + 16) s' = drive_sectors drive"
    by (rule get_far64_bytes) (simp add: assms e get_put_off add.assoc bytes64_def bytes32_def bytes16_def)
  show "get_far16 seg (p + 24) s' = blksize drive"
    by (rule get_far_bytes(1)) (simp_all add: assms e get_put_off add.assoc bytes16_def)
qed

lemma checksum_43: "checksum_far seg (p + 30) 44 (SET_FARVAR seg (p + 73) (- checksum_far seg (p + 30) 43 s) s) = 0"
  using checksum_closed [of 43 seg "p + 30" s] by (simp add: add.assoc)

lemma checksum_35: "checksum_far seg (p + 30) 36 (SET_FARVAR seg (p + 65) (- checksum_far seg (p + 30) 35 s) s) = 0"
  using checksum_closed [of 35 seg "p + 30" s] by (simp add: add.assoc)

lemma edd_3_checksum: "checksum_far seg (p + 30) (if t13 then 44 else 36) (edd_3 seg p t13 ty bdf ch io dp s) = 0"
  by (simp add: edd_3_def Let_def checksum_43 checksum_35)

lemma edd_3_keeps:
  assumes "length ty = 8" "unat a < 30"
  shows "GET_FARVAR seg (p + a) (edd_3 seg p t13 ty bdf ch io dp s) = GET_FARVAR seg (p + a) s"
proof -
  have "a \<noteq> k" if "30 \<le> unat k" for k using that assms(2) by auto
  then show ?thesis using assms by (simp add: edd_3_def Let_def get_put_off get_set_off)
qed

text \<open>
  The drive parameters that are reported: a buffer of less than 26 bytes is refused and left alone; otherwise the number of
  sectors and their size are in it, nothing outside the buffer is written, whatever its size, and the device path of a long enough
  buffer has a checksum that makes its bytes add up to zero.
\<close>

theorem edd_reported:
  assumes "fill_generic_edd seg p drive so iface bdf ch io dp s = (r, s')" "n = get_far16 seg p s"
    and "case iface of None \<Rightarrow> True | Some ty \<Rightarrow> length ty = 8"
  shows "(n < 26 \<longrightarrow> r = DISK_RET_EPARAM \<and> s' = s) \<and>
    (26 \<le> n \<longrightarrow> r = DISK_RET_SUCCESS \<and> get_far64 seg (p + 16) s' = drive_sectors drive \<and> get_far16 seg (p + 24) s' = blksize drive) \<and>
    writes_only seg p (unat n) s s' \<and>
    (66 \<le> n \<and> so \<noteq> 0 \<and> iface \<noteq> None \<longrightarrow> checksum_far seg (p + 30) (if n = 74 then 44 else 36) s' = 0)"
proof -
  let ?e = "edd_1 seg p drive s"
  let ?f = "put_far seg (p + 26) (bytes32 so) (put_far seg p (bytes16 30) ?e)"
  have n: "unat n \<le> 65536" using u16_unat_lt [of n] by simp
  have e: "get_far64 seg (p + 16) ?e = drive_sectors drive" "get_far16 seg (p + 24) ?e = blksize drive"
    by (rule report_fields; simp)+
  have f: "GET_FARVAR seg (p + a) ?f = GET_FARVAR seg (p + a) ?e" if "16 \<le> unat a" "unat a < 26" for a
    using that by (simp add: get_put_off get_put_base)
  have we: "writes_only seg p (unat n) s ?e" if "26 \<le> n" using that n by (intro edd_1_writes) (simp_all add: word_le_nat_alt)
  have wf: "writes_only seg p (unat n) s ?f" if "30 \<le> n" using that n we by (simp add: word_le_nat_alt)
  have run: "(r, s') = (if n < 26 then (DISK_RET_EPARAM, s) else if n < 30 \<or> so = 0 then (DISK_RET_SUCCESS, ?e)
      else case iface of None \<Rightarrow> (DISK_RET_SUCCESS, ?f)
        | Some t \<Rightarrow> if n < 66 then (DISK_RET_SUCCESS, ?f) else (DISK_RET_SUCCESS, edd_3 seg p (n = 74) t bdf ch io dp ?f))"
    using assms(1) by (simp only: fill_generic_edd_def Let_def flip: assms(2))
  consider "n < 26" | "26 \<le> n" "n < 30 \<or> so = 0" | "30 \<le> n" "so \<noteq> 0" "iface = None \<or> n < 66"
    | ty where "66 \<le> n" "so \<noteq> 0" "iface = Some ty" by (metis not_less not_None_eq)
  then show ?thesis
  proof cases
    case 1
    then have "r = DISK_RET_EPARAM" "s' = s" using run by simp_all
    moreover from 1 have "\<not> 26 \<le> n" "\<not> 66 \<le> n" by (simp_all add: word_le_nat_alt word_less_nat_alt)
    ultimately show ?thesis by simp
  next
    case 2
    then have "r = DISK_RET_SUCCESS" "s' = ?e" using run by (simp_all add: not_less [symmetric])
    moreover have "\<not> (66 \<le> n \<and> so \<noteq> 0)" using 2(2) by (auto simp: word_le_nat_alt word_less_nat_alt)
    ultimately show ?thesis using 2 e we by (auto simp: not_less [symmetric])
  next
    case 3
    from 3(1) have lo: "\<not> n < 26" "\<not> n < 30" by (simp_all add: word_le_nat_alt word_less_nat_alt)
    with 3 have "r = DISK_RET_SUCCESS" "s' = ?f" using run by (auto split: option.splits)
    moreover have "get_far64 seg (p + 16) ?f = drive_sectors drive" "get_far16 seg (p + 24) ?f = blksize drive"
      using f by (auto intro!: report_fields)
    ultimately show ?thesis using 3 wf lo by (auto simp: not_less [symmetric])
  next
    case 4
    have ty: "length ty = 8" using 4(3) assms(3) by simp
    let ?g = "edd_3 seg p (n = 74) ty bdf ch io dp ?f"
    from 4(1) have lo: "\<not> n < 26" "\<not> n < 30" "\<not> n < 66" by (simp_all add: word_le_nat_alt word_less_nat_alt)
    with 4 have "r = DISK_RET_SUCCESS" "s' = ?g" using run by simp_all
    moreover have "get_far64 seg (p + 16) ?g = drive_sectors drive" "get_far16 seg (p + 24) ?g = blksize drive"
      using f by (auto intro!: report_fields [where s = s] simp: edd_3_keeps [OF ty])
    moreover have "writes_only seg p (unat n) s ?g"
      using 4 n wf ty by (intro edd_3_writes) (auto simp: word_le_nat_alt)
    ultimately show ?thesis using 4 lo edd_3_checksum [of seg p "n = 74" ty bdf ch io dp ?f] by (simp split: if_splits)
  qed
qed

definition report_sim :: sim_disk where
  "report_sim = put_far 0x1000 0 (bytes16 66) disk_sim"

theorem edd_reported_witness:
  "\<exists>s'. fill_generic_edd 0x1000 0 (drives disk_sim 3) 0xf0000100 (Some ''ATA     '') 0x61 0 0x1f0 0 report_sim = (DISK_RET_SUCCESS, s') \<and>
     get_far64 0x1000 16 s' = 4000000 \<and> checksum_far 0x1000 30 36 s' = 0"
proof -
  obtain r s' where f: "fill_generic_edd 0x1000 0 (drives disk_sim 3) 0xf0000100 (Some ''ATA     '') 0x61 0 0x1f0 0 report_sim = (r, s')"
    by fastforce
  have n: "66 = get_far16 0x1000 0 report_sim"
    by (rule sym, rule get_far_bytes(1)) (simp_all add: report_sim_def get_put_far bytes16_def)
  have "drive_sectors (drives disk_sim 3) = 4000000" by (simp add: disk_sim_def)
  with edd_reported [OF f n] f show ?thesis by simp
qed
end
