(* ===== verification/Disk_Media.thy ===== *)
theory Disk_Media
  imports Disk_Facts Edd_Facts
begin

text \<open>
  Which drive a number stands for, and the locks of removable media.
\<close>

section \<open>The numbers of the hard disks\<close>

lemma set_far_frame:
  "IDMap (SET_FARVAR seg a v s) = IDMap s" "CDEmu (SET_FARVAR seg a v s) = CDEmu s" "drives (SET_FARVAR seg a v s) = drives s"
  by (simp_all add: SET_FARVAR_def)

lemma put_far_frame:
  "IDMap (put_far seg a bs s) = IDMap s" "CDEmu (put_far seg a bs s) = CDEmu s" "drives (put_far seg a bs s) = drives s"
  by (induction bs arbitrary: a s) (simp_all add: put_far_Cons set_far_frame)

lemma fdpt_frame:
  "IDMap (fill_fdpt drive n s) = IDMap s" "CDEmu (fill_fdpt drive n s) = CDEmu s" "drives (fill_fdpt drive n s) = drives s"
  by (simp_all add: fill_fdpt_def fill_fdpt_fields_def SET_IVT_def Let_def set_far_frame put_far_frame)

lemma fdpt_writes: "writes_only seg f 16 s (fill_fdpt_fields drive seg f s)"
  by (simp add: fill_fdpt_fields_def Let_def)

lemma hdcount_far:
  assumes "writes_only seg p n s s'" "0x50 \<le> seg"
  shows "bda8 hdcount s' = bda8 hdcount s"
proof -
  have "seg_addr seg a \<noteq> seg_addr SEG_BDA hdcount" for a
  proof
    have u: "unat (ucast x :: u32) = unat x" for x :: u16
      using u16_unat_lt [of x] by (simp add: unsigned_ucast_eq take_bit_nat_eq_self)
    have "unat (seg_addr seg a) = 16 * unat seg + unat a"
      using u16_unat_lt [of a] u16_unat_lt [of seg] by (simp add: seg_addr_def push_bit_eq_mult unat_word_ariths u)
    moreover have "80 \<le> unat seg" using assms(2) by (simp add: word_le_nat_alt)
    moreover assume "seg_addr seg a = seg_addr SEG_BDA hdcount"
    ultimately show False by (simp add: seg_addr_def SEG_BDA_def)
  qed
  then show ?thesis using assms(1) by (simp add: bda_of_def writes_only_def eq_commute)
qed

lemma hdcount_set:
  assumes "unat a < 0x400"
  shows "bda8 hdcount (SET_FARVAR SEG_IVT a x t) = bda8 hdcount t"
proof -
  have "unat (seg_addr SEG_IVT a) = unat a"
    using u16_unat_lt [of a] by (simp add: seg_addr_def SEG_IVT_def unsigned_ucast_eq take_bit_nat_eq_self)
  with assms have "seg_addr SEG_IVT a \<noteq> seg_addr SEG_BDA hdcount" by (auto simp: seg_addr_def SEG_BDA_def)
  then show ?thesis by (simp add: bda_of_def SET_FARVAR_def)
qed

lemma hdcount_ivt: "v = 0x41 \<or> v = 0x46 \<Longrightarrow> bda8 hdcount (SET_IVT v func s) = bda8 hdcount s"
  by (elim disjE; simp add: SET_IVT_def Let_def hdcount_set)

lemma fdpt_hdcount: "0x50 \<le> get_ebda_seg s \<Longrightarrow> bda8 hdcount (fill_fdpt drive n s) = bda8 hdcount s"
  by (simp add: fill_fdpt_def Let_def hdcount_ivt hdcount_far [OF fdpt_writes])

text \<open>
  C35. A hard disk is reached under the number that it was given: after \<open>map_hd_drive\<close> it is the drive of 80h plus the count before, the count
  is one more, the numbers of all other drives are what they were, and it has the geometry that \<open>setup_translation\<close> chooses; from
  the seventeenth disk on the tables stay as they are.
\<close>

theorem hard_disk_numbered:
  assumes "length (IDMap s) = 3" "\<forall>row\<in>set (IDMap s). length row = BUILD_MAX_EXTDRIVE"
    and "0x50 \<le> get_ebda_seg s" "n = bda8 hdcount s" "d \<noteq> 0"
  shows "\<exists>s'. map_hd_drive d s = Some s' \<and> drives s' = (drives s)(d := setup_translation (drives s d)) \<and>
    (n < 16 \<longrightarrow> bda8 hdcount s' = n + 1 \<and>
      (\<forall>t i. t < 3 \<longrightarrow> getDrive t i s' = (if t = EXTTYPE_HD \<and> i = n then Some d else getDrive t i s)) \<and>
      (\<forall>io drv k junk regs. media (CDEmu s) = 0 \<and> br_dl regs = EXTSTART_HD + n \<and> br_ah regs \<noteq> 0x4b \<longrightarrow>
        handle_13 io drv k junk regs s' = disk_13 io drv k junk regs d s')) \<and>
    (16 \<le> n \<longrightarrow> IDMap s' = IDMap s \<and> bda8 hdcount s' = n)"
proof -
  let ?row = "IDMap s ! EXTTYPE_HD" and ?drive = "setup_translation (drives s d)"
  have n: "bda8 hdcount s = n" using assms(4) by simp
  have row: "arr_get (IDMap s) (int EXTTYPE_HD) = Some ?row" "length ?row = 16"
    using assms(1,2) by (simp_all add: arr_get_def EXTTYPE_HD_def BUILD_MAX_EXTDRIVE_def)
  obtain r c where add: "add_drive ?row n d = (r, c)" by fastforce
  define t where "t = (set_bda8 hdcount c (s\<lparr>IDMap := (IDMap s)[EXTTYPE_HD := r]\<rparr>))\<lparr>drives := (drives s)(d := ?drive)\<rparr>"
  let ?s = "fill_fdpt ?drive (unat n) t"
  have run: "map_hd_drive d s = Some ?s"
    by (simp add: map_hd_drive_def map_row_def n row add t_def Let_def upd_bda_def)
  have t: "IDMap t = (IDMap s)[EXTTYPE_HD := r]" "drives t = (drives s)(d := ?drive)" "CDEmu t = CDEmu s"
    by (simp_all add: t_def upd_bda_def)
  have e: "get_ebda_seg t = get_ebda_seg s" by (simp add: get_ebda_seg_def get16_def t_def)
  have c: "bda8 hdcount ?s = c" using fdpt_hdcount [of t] assms(3) by (simp add: e) (simp add: t_def)
  have small: "nat (uint i) = unat i" for i :: u8 by simp
  have numbers: "getDrive u i ?s = (if u = EXTTYPE_HD \<and> i = n then Some d else getDrive u i s)" if "n < 16" "u < 3" for u i
  proof -
    have "unat n < 16" using that(1) by (simp add: word_less_nat_alt)
    then have r: "r = ?row[unat n := d]" using add by (auto simp: add_drive_def BUILD_MAX_EXTDRIVE_def)
    have "unat i = unat n \<longleftrightarrow> i = n" by (simp add: word_unat_eq_iff)
    then show ?thesis using that(2) assms(1) row(2) \<open>unat n < 16\<close>
      by (auto simp: getDrive_def fdpt_frame t r arr_get_def EXTTYPE_HD_def BUILD_MAX_EXTDRIVE_def nth_list_update)
  qed
  have "handle_13 io drv k junk regs ?s = disk_13 io drv k junk regs d ?s"
    if "n < 16" "media (CDEmu s) = 0" "br_dl regs = EXTSTART_HD + n" "br_ah regs \<noteq> 0x4b" for io drv k junk regs
  proof -
    have un: "unat n < 16" using that(1) by (simp add: word_less_nat_alt)
    then have u: "unat (EXTSTART_HD + n) = 128 + unat n" by (simp add: EXTSTART_HD_def unat_word_ariths)
    have "\<not> br_dl regs < EXTSTART_HD" "\<not> EXTSTART_CD \<le> br_dl regs"
      using un by (simp_all add: that(3) word_less_nat_alt word_le_nat_alt u) (simp_all add: EXTSTART_HD_def EXTSTART_CD_def)
    moreover have "getDrive EXTTYPE_HD n ?s = Some d" using numbers [OF that(1), of EXTTYPE_HD n] by (simp add: EXTTYPE_HD_def)
    ultimately show ?thesis using that(2-4) assms(5) by (simp add: handle_13_def handle_legacy_disk_def Let_def fdpt_frame t)
  qed
  moreover have "c = n + 1" if "n < 16" using that add by (auto simp: add_drive_def BUILD_MAX_EXTDRIVE_def word_less_nat_alt split: if_splits)
  moreover have "c = n" "IDMap ?s = IDMap s" if "16 \<le> n"
    using that add by (auto simp: add_drive_def BUILD_MAX_EXTDRIVE_def word_le_nat_alt fdpt_frame t)
  moreover have "drives ?s = (drives s)(d := ?drive)" by (simp add: fdpt_frame t)
  ultimately show ?thesis using run numbers c by (intro exI [of _ ?s]) simp
qed

definition unmapped_sim :: sim_disk where
  "unmapped_sim = upd_bda (\<lambda>b. b(ebda_seg := 0x00, ebda_seg + 1 := 0x9f)) (disk_sim\<lparr>CDEmu := (CDEmu disk_sim)\<lparr>media := 0\<rparr>\<rparr>)"

theorem hard_disk_numbered_witness:
  "\<exists>s'. map_hd_drive 3 unmapped_sim = Some s' \<and> getDrive EXTTYPE_HD 0 s' = Some 3 \<and> bda8 hdcount s' = 1 \<and>
     handle_13 io_idle drivers_sim consts_sim junk_sim (dregs_zero\<lparr>br_ah := 2, br_dl := 0x80, br_al := 1\<rparr>) s' =
     disk_13 io_idle drivers_sim consts_sim junk_sim (dregs_zero\<lparr>br_ah := 2, br_dl := 0x80, br_al := 1\<rparr>) 3 s'"
proof -
  have e: "get_ebda_seg unmapped_sim = 0x9f00" by (simp add: get_ebda_seg_def get16_def unmapped_sim_def le16_def)
  have "ram (wd disk_sim) a = 0" for a by (simp add: disk_sim_def)
  then have n: "0 = bda8 hdcount unmapped_sim" by (simp add: unmapped_sim_def) (simp add: bda_of_def)
  have m: "media (CDEmu unmapped_sim) = 0" by (simp add: unmapped_sim_def upd_bda_def)
  have t: "length (IDMap unmapped_sim) = 3" "\<forall>row\<in>set (IDMap unmapped_sim). length row = BUILD_MAX_EXTDRIVE"
    by (simp_all add: unmapped_sim_def upd_bda_def disk_sim_def BUILD_MAX_EXTDRIVE_def)
  from hard_disk_numbered [OF t _ n, of 3] e m show ?thesis
    by (fastforce simp: EXTTYPE_HD_def EXTSTART_HD_def)
qed

section \<open>Locks\<close>

lemma lock_index:
  assumes "length (CDRom_locks s) = BUILD_MAX_EXTDRIVE" "EXTSTART_CD \<le> br_dl regs" "unat (br_dl regs) < 240"
  shows "arr_get (CDRom_locks s) (cdid regs) = Some (CDRom_locks s ! nat (cdid regs))" "nat (cdid regs) < 16"
proof -
  have "224 \<le> unat (br_dl regs)" using assms(2) by (simp add: EXTSTART_CD_def word_le_nat_alt)
  with assms(3) have "224 \<le> int (unat (br_dl regs))" "int (unat (br_dl regs)) < 240" by linarith+
  then have "224 \<le> uint (br_dl regs)" "uint (br_dl regs) < 240" by simp_all
  then show "arr_get (CDRom_locks s) (cdid regs) = Some (CDRom_locks s ! nat (cdid regs))" "nat (cdid regs) < 16"
    using assms(1) by (simp_all add: arr_get_def BUILD_MAX_EXTDRIVE_def EXTSTART_CD_def nat_less_iff)
qed

text \<open>
  A locked disc stays in: locking a CD drive succeeds and tells that it is locked unless it has been locked 255 times; after that an eject
  is refused without asking anybody, and unlocking succeeds and restores all counts. A drive that is not locked cannot be
  unlocked.
\<close>

theorem locked_disc_stays:
  assumes "length (CDRom_locks s) = BUILD_MAX_EXTDRIVE" "EXTSTART_CD \<le> br_dl regs" "unat (br_dl regs) < 240"
    and "n = CDRom_locks s ! nat (cdid regs)"
  shows "(n \<noteq> 0xff \<longrightarrow> (\<exists>r t. disk_1345 (regs\<lparr>br_al := 0\<rparr>) s = Some (r, t) \<and> br_ah r = 0 \<and> br_al r = 1 \<and>
      disk_1346 io regs t = Some (disk_ret regs DISK_RET_ELOCKED t) \<and>
      (\<exists>r' t'. disk_1345 (regs\<lparr>br_al := 1\<rparr>) t = Some (r', t') \<and> br_ah r' = 0 \<and> (br_al r' = 0 \<longleftrightarrow> n = 0) \<and> CDRom_locks t' = CDRom_locks s))) \<and>
    (n = 0xff \<longrightarrow> disk_1345 (regs\<lparr>br_al := 0\<rparr>) s = Some (disk_ret (regs\<lparr>br_al := 1\<rparr>) DISK_RET_ETOOMANYLOCKS s)) \<and>
    (n = 0 \<longrightarrow> disk_1345 (regs\<lparr>br_al := 1\<rparr>) s = Some (disk_ret (regs\<lparr>br_al := 0\<rparr>) DISK_RET_ENOTLOCKED s))"
proof -
  let ?i = "nat (cdid regs)"
  have cd: "\<not> br_dl regs < EXTSTART_CD" using assms(2) by (simp add: not_less)
  have g: "arr_get (CDRom_locks s) (cdid regs) = Some n" "?i < length (CDRom_locks s)"
    using lock_index [OF assms(1-3)] assms(1,4) by (simp_all add: BUILD_MAX_EXTDRIVE_def)
  define t where "t = s\<lparr>CDRom_locks := (CDRom_locks s)[?i := n + 1]\<rparr>"
  have ret: "disk_ret r DISK_RET_SUCCESS u = (set_code_success r, set_last_status r 0 u)" for r and u :: "('a, 'b) dstate"
    by (simp add: disk_ret_def DISK_RET_SUCCESS_def)
  have locks: "CDRom_locks (set_last_status r v u) = CDRom_locks u" for r v and u :: "('a, 'b) dstate"
    by (simp add: set_last_status_def upd_bda_def)
  let ?t = "set_last_status (regs\<lparr>br_al := 1\<rparr>) 0 t"
  have l: "CDRom_locks ?t = (CDRom_locks s)[?i := n + 1]" by (simp add: locks t_def)
  have gt: "arr_get (CDRom_locks ?t) (cdid regs) = Some (n + 1)"
    using g by (auto simp: l arr_get_def split: if_splits)
  have restored: "(CDRom_locks s)[?i := n] = CDRom_locks s" using assms(4) by simp
  have lock: "disk_1345 (regs\<lparr>br_al := 0\<rparr>) s = Some (set_code_success (regs\<lparr>br_al := 1\<rparr>), ?t)" if "n \<noteq> 0xff"
    using that cd g by (simp add: disk_1345_def disk_134500_def ret t_def)
  have nz: "n + 1 \<noteq> 0" if "n \<noteq> 0xff"
  proof
    assume "n + 1 = 0"
    then have "n = - 1" by (simp add: add_eq_0_iff2)
    with that show False by simp
  qed
  have eject: "disk_1346 io regs ?t = Some (disk_ret regs DISK_RET_ELOCKED ?t)" if "n \<noteq> 0xff"
    using nz [OF that] cd gt by (simp add: disk_1346_def)
  have unlock: "disk_1345 (regs\<lparr>br_al := 1\<rparr>) ?t = Some (set_code_success (regs\<lparr>br_al := (if n \<noteq> 0 then 1 else 0)\<rparr>),
      set_last_status (regs\<lparr>br_al := (if n \<noteq> 0 then 1 else 0)\<rparr>) 0 (?t\<lparr>CDRom_locks := CDRom_locks s\<rparr>))" if "n \<noteq> 0xff"
    using nz [OF that] cd gt restored by (cases "n = 0") (simp_all add: disk_1345_def disk_134501_def ret Let_def l)
  show ?thesis
    using lock eject unlock cd g by (auto simp: set_code_success_def locks disk_1345_def disk_134500_def disk_134501_def)
qed

theorem locked_disc_stays_witness:
  "\<exists>r t. disk_1345 (dregs_zero\<lparr>br_dl := 0xe0, br_al := 0\<rparr>) disk_sim = Some (r, t) \<and>
     disk_1346 io_idle (dregs_zero\<lparr>br_dl := 0xe0\<rparr>) t = Some (disk_ret (dregs_zero\<lparr>br_dl := 0xe0\<rparr>) DISK_RET_ELOCKED t)"
proof -
  have "0 = CDRom_locks disk_sim ! nat (cdid (dregs_zero\<lparr>br_dl := 0xe0\<rparr>))" by (simp add: disk_sim_def EXTSTART_CD_def)
  from locked_disc_stays [OF _ _ _ this, of io_idle] show ?thesis
    by (auto simp: disk_sim_def BUILD_MAX_EXTDRIVE_def EXTSTART_CD_def)
qed
end
