(* ===== verification/Blockcmd.thy ===== *)
theory Blockcmd
  imports Block Output
begin

text \<open>
  The SCSI commands of \<open>seabios/src/hw/blockcmd.c\<close> that are not reads or writes, the waiting for a drive to become ready, and
  the boot from a CD of \<open>cdrom.c\<close>. The results of the commands are written to local variables of the callers: \<open>k\<close> holds their
  addresses on the stack. All of this runs in 32-bit mode.
\<close>

record stack_vars =
  sense_fl :: u32
  inquiry_fl :: u32
  capacity_fl :: u32
  sector_fl :: u32

section \<open>Reading memory\<close>

definition ram8 :: "('v low, 'z) mach_scheme \<Rightarrow> u32 \<Rightarrow> u8" where
  "ram8 s a = ram (wd s) a"

definition ram16 :: "('v low, 'z) mach_scheme \<Rightarrow> u32 \<Rightarrow> u16" where
  "ram16 s a = le16 (ram8 s a) (ram8 s (a + 1))"

definition ram32 :: "('v low, 'z) mach_scheme \<Rightarrow> u32 \<Rightarrow> u32" where
  "ram32 s a = ucast (ram16 s a) OR push_bit 16 (ucast (ram16 s (a + 2)))"

text \<open>The C string in an array of \<open>n\<close> characters.\<close>

definition ram_string :: "('v low, 'z) mach_scheme \<Rightarrow> u32 \<Rightarrow> nat \<Rightarrow> string" where
  "ram_string s a n = map (\<lambda>b. char_of (unat b)) (takeWhile (\<lambda>b. b \<noteq> 0) (map (\<lambda>i. ram8 s (a + of_nat i)) [0..<n]))"

section \<open>Commands\<close>

definition CDB_CMD_READ_CAPACITY :: u8 where "CDB_CMD_READ_CAPACITY = 0x25"
definition CDB_CMD_TEST_UNIT_READY :: u8 where "CDB_CMD_TEST_UNIT_READY = 0x00"
definition CDB_CMD_INQUIRY :: u8 where "CDB_CMD_INQUIRY = 0x12"
definition CDB_CMD_REQUEST_SENSE :: u8 where "CDB_CMD_REQUEST_SENSE = 0x03"
definition CDB_CMD_MODE_SENSE :: u8 where "CDB_CMD_MODE_SENSE = 0x5A"
definition MODE_PAGE_HD_GEOMETRY :: u8 where "MODE_PAGE_HD_GEOMETRY = 0x04"
definition SCSI_TYPE_CDROM :: u8 where "SCSI_TYPE_CDROM = 0x05"

definition cdb_request_sense :: "u8 \<Rightarrow> u8 \<Rightarrow> u8 list" where
  "cdb_request_sense command len = [command, 0, 0, 0, len, 0] @ replicate 10 0"

definition cdb_read_capacity_10 :: "u8 \<Rightarrow> u8 list" where
  "cdb_read_capacity_10 command = [command, 0] @ replicate 14 0"

definition cdb_mode_sense :: "u8 \<Rightarrow> u8 \<Rightarrow> u8 \<Rightarrow> u16 \<Rightarrow> u8 list" where
  "cdb_mode_sense command flags page count = [command, flags, page, 0, 0, 0, 0] @ bytes16 count @ replicate 7 0"

text \<open>
  The functions change the request of the caller: the drivers report in its count what they have done.
\<close>

type_synonym ('v, 'z) command = "('v low, 'z) disk_mach_scheme drivers \<Rightarrow> u32 \<Rightarrow> disk_op_s \<Rightarrow> ('v low, 'z) disk_mach_scheme \<Rightarrow>
    int \<times> disk_op_s \<times> ('v low, 'z) disk_mach_scheme"

definition run_cdb :: "u8 list \<Rightarrow> u16 \<Rightarrow> u16 \<Rightarrow> ('v, 'z) command" where
  "run_cdb cmd count sz drv data op s =
     (let op = op\<lparr>op_count := count, buf_fl := data\<rparr>; (ret, n, s) = cdb_cmd_data False drv cmd sz op s
      in (ret, op\<lparr>op_count := n\<rparr>, s))"

definition cdb_get_inquiry :: "('v, 'z) command" where
  "cdb_get_inquiry = run_cdb (cdb_request_sense CDB_CMD_INQUIRY 36) 1 36"

definition cdb_get_sense :: "('v, 'z) command" where
  "cdb_get_sense = run_cdb (cdb_request_sense CDB_CMD_REQUEST_SENSE 18) 1 18"

definition cdb_test_unit_ready :: "('v low, 'z) disk_mach_scheme drivers \<Rightarrow> disk_op_s \<Rightarrow> ('v low, 'z) disk_mach_scheme \<Rightarrow>
    int \<times> disk_op_s \<times> ('v low, 'z) disk_mach_scheme" where
  "cdb_test_unit_ready drv = run_cdb (cdb_request_sense CDB_CMD_TEST_UNIT_READY 0) 0 0 drv 0"

definition cdb_read_capacity :: "('v, 'z) command" where
  "cdb_read_capacity = run_cdb (cdb_read_capacity_10 CDB_CMD_READ_CAPACITY) 1 8"

definition cdb_mode_sense_geom :: "('v, 'z) command" where
  "cdb_mode_sense_geom = run_cdb (cdb_mode_sense CDB_CMD_MODE_SENSE 8 MODE_PAGE_HD_GEOMETRY (swab16 27)) 1 27"

section \<open>Waiting for a drive\<close>

type_synonym ('v, 'z) ready_state = "disk_op_s \<times> u32 \<times> bool \<times> ('v low, 'z) disk_mach_scheme"

text \<open>The additional sense code and its qualifier are bytes 12 and 13 of the answer.\<close>

definition ready_turn :: "'v low io \<Rightarrow> ('v low, 'z) disk_mach_scheme drivers \<Rightarrow> u32 \<Rightarrow> ('v, 'z) ready_state \<Rightarrow>
    (('v, 'z) ready_state, int \<times> disk_op_s \<times> ('v low, 'z) disk_mach_scheme) turn option" where
  "ready_turn io drv sense = (\<lambda>(op, end_time, in_progress, s).
     (let (late, s) = timer_check io end_time s
      in if late then Some (Finish (- 1, op, s))
         else (let (ret, op, s) = cdb_test_unit_ready drv op s
               in if ret = 0 then Some (Finish (0, op, s))
                  else (let (ret, op, s) = cdb_get_sense drv sense op s
                        in if ret \<noteq> 0 then Some (Again (op, end_time, in_progress, s))
                           else (let asc = ram8 s (sense + 12); ascq = ram8 s (sense + 13)
                                 in if asc = 0x3a then Some (Finish (- 1, op, s))
                                    else if asc = 0x04 \<and> ascq = 0x01 \<and> \<not> in_progress
                                    then do {
                                      s \<leftarrow> printf io ''Waiting for device to detect medium... '' [] s;
                                      let (end_time, s) = timer_calc io 30000 s;
                                      Some (Again (op, end_time, True, s))
                                    }
                                    else Some (Again (op, end_time, in_progress, s)))))))"

definition scsi_is_ready :: "'v low io \<Rightarrow> ('v low, 'z) disk_mach_scheme drivers \<Rightarrow> u32 \<Rightarrow> disk_op_s \<Rightarrow> ('v low, 'z) disk_mach_scheme \<Rightarrow>
    (int \<times> disk_op_s \<times> ('v low, 'z) disk_mach_scheme) option" where
  "scsi_is_ready io drv sense op s =
     (let (end_time, s) = timer_calc io 5000 s in loop (ready_turn io drv sense) (op, end_time, False, s))"

section \<open>Booting from a CD\<close>

text \<open>\<open>op_zero d\<close> is the request after \<open>memset\<close>.\<close>

definition op_zero :: "u32 \<Rightarrow> disk_op_s" where
  "op_zero d = \<lparr>op_lba = 0, buf_fl = 0, op_drive = d, op_count = 0, op_command = 0\<rparr>"

definition EL_TORITO :: string where
  "EL_TORITO = ''CD001'' @ [CHR 0x01] @ ''EL TORITO SPECIFICATION''"

definition upd_emu :: "(eltorito_s \<Rightarrow> eltorito_s) \<Rightarrow> ('w, 'z) disk_mach_scheme \<Rightarrow> ('w, 'z) disk_mach_scheme" where
  "upd_emu f s = s\<lparr>CDEmu := f (CDEmu s)\<rparr>"

text \<open>The checks of the boot catalog in the sector buffer: 0, or the error code.\<close>

definition catalog_error :: "u32 \<Rightarrow> ('v low, 'z) mach_scheme \<Rightarrow> int" where
  "catalog_error buffer s =
     (if ram8 s buffer \<noteq> 0x01 then 8
      else if ram8 s (buffer + 0x01) \<noteq> 0x00 then 9
      else if ram8 s (buffer + 0x1E) \<noteq> 0x55 then 10
      else if ram8 s (buffer + 0x1F) \<noteq> 0xAA then 10
      else if ram8 s (buffer + 0x20) \<noteq> 0x88 then 11
      else 0)"

text \<open>What is set up when the image is in memory.\<close>

definition emu_geometry :: "u8 \<Rightarrow> u8 \<Rightarrow> u8 \<Rightarrow> eltorito_s \<Rightarrow> eltorito_s" where
  "emu_geometry sptcyl cyllow heads e = e\<lparr>chs_sptcyl := sptcyl, chs_cyllow := cyllow, chs_heads := heads\<rparr>"

definition emulate_disk :: "u8 \<Rightarrow> u16 \<Rightarrow> ('v low, 'z) disk_mach_scheme \<Rightarrow> ('v low, 'z) disk_mach_scheme" where
  "emulate_disk m boot_segment s =
     (let s = (if m < 4
               then (let s = upd_emu (\<lambda>e. e\<lparr>emulated_drive := 0x00\<rparr>) s;
                         s = set_equipment_flags 0x41 0x41 s
                     in if m = 0x01 then upd_emu (emu_geometry 15 79 1) s
                        else if m = 0x02 then upd_emu (emu_geometry 18 79 1) s
                        else if m = 0x03 then upd_emu (emu_geometry 36 79 1) s
                        else s)
               else (let s = upd_emu (\<lambda>e. e\<lparr>emulated_drive := 0x80\<rparr>) s;
                         s = set_bda8 hdcount (bda8 hdcount s + 1) s;
                         mbr = MAKE_FLATPTR boot_segment 0
                     in upd_emu (emu_geometry (ram8 s (mbr + 0x1c4)) (ram8 s (mbr + 0x1c5)) (ram8 s (mbr + 0x1c3))) s))
      in upd_emu (\<lambda>e. e\<lparr>media := m\<rparr>) s)"

definition boot_catalog :: "('v low, 'z) disk_mach_scheme drivers \<Rightarrow> u32 \<Rightarrow> int \<Rightarrow> u32 \<Rightarrow> disk_op_s \<Rightarrow> ('v low, 'z) disk_mach_scheme \<Rightarrow>
    int \<times> ('v low, 'z) disk_mach_scheme" where
  "boot_catalog drv drive cdid buffer dop s =
     (let s = s\<lparr>emulated_drive_gf := drive\<rparr>;
          m = ram8 s (buffer + 0x21);
          boot_segment = ram16 s (buffer + 0x22);
          boot_segment = (if boot_segment = 0 then 0x07C0 else boot_segment);
          s = upd_emu (\<lambda>e. e\<lparr>load_segment := boot_segment, buffer_segment := 0x0000\<rparr>) s;
          nbsectors = ram16 s (buffer + 0x26);
          lba = ram32 s (buffer + 0x28);
          cntl = cntl_id (drives s drive);
          s = upd_emu (\<lambda>e. e\<lparr>sector_count := nbsectors, ilba := lba, controller_index := ucast (cntl div 2),
                 device_spec := ucast (cntl mod 2)\<rparr>) s;
          (ret, _, s) = cdb_read False drv (dop\<lparr>op_lba := ucast lba, op_count := ucast (DIV_ROUND_UP (ucast nbsectors :: u32) 4),
                 buf_fl := MAKE_FLATPTR boot_segment 0\<rparr>) s
      in if ret \<noteq> 0 then (12, s)
         else if m = 0 then (0, upd_emu (\<lambda>e. e\<lparr>emulated_drive := EXTSTART_CD + word_of_int cdid\<rparr>) s)
         else if cdemu_drive_gf s = 0 then (13, s)
         else (0, emulate_disk m boot_segment s))"

definition cdrom_boot :: "'v low io \<Rightarrow> ('v low, 'z) disk_mach_scheme drivers \<Rightarrow> stack_vars \<Rightarrow> u32 \<Rightarrow> ('v low, 'z) disk_mach_scheme \<Rightarrow>
    (int \<times> ('v low, 'z) disk_mach_scheme) option" where
  "cdrom_boot io drv k drive s =
     do {
       cdid \<leftarrow> getDriveId EXTTYPE_CD drive s;
       if drive = 0 \<or> cdid < 0 then Some (1, s)
       else do {
         (_, dop, s) \<leftarrow> scsi_is_ready io drv (sense_fl k) (op_zero drive) s;
         let buffer = sector_fl k;
         let dop = dop\<lparr>op_lba := 0x11, op_count := 1, buf_fl := buffer\<rparr>;
         let (ret, _, s) = cdb_read False drv dop s;
         if ret \<noteq> 0 then Some (3, s)
         else if ram8 s buffer \<noteq> 0 then Some (4, s)
         else if strcmp (ram_string s (buffer + 1) 2047) EL_TORITO \<noteq> 0 then Some (5, s)
         else do {
           let dop = dop\<lparr>op_lba := ucast (ram32 s (buffer + 0x47)), op_count := 1\<rparr>;
           let (ret, _, s) = cdb_read False drv dop s;
           if ret \<noteq> 0 then Some (7, s)
           else if catalog_error buffer s \<noteq> 0 then Some (catalog_error buffer s, s)
           else Some (boot_catalog drv drive cdid buffer dop s)
         }
       }
     }"

end
