(* ===== verification/Cd_Boot.thy ===== *)
theory Cd_Boot
  imports Blockcmd Llama_Boot Malloc Cd_Facts
begin

text \<open>
  Booting from a CD, \<open>seabios/src/cdrom.c\<close>: the preparation of the emulation, the end of the wait for the drive, and what
  \<open>cdrom_boot\<close> makes of the contents of a disc.
\<close>

section \<open>Preparation\<close>

text \<open>\<open>tables s\<close>: the variables of the block layer that the drivers do not change.\<close>

definition tables :: "('w, 'z) disk_mach_scheme \<Rightarrow> (u32 \<Rightarrow> drive_s) \<times> u32 list list \<times> u32 \<times> eltorito_s \<times> u32 \<times> u32" where
  "tables s = (drives s, IDMap s, bounce_buf_fl s, CDEmu s, emulated_drive_gf s, cdemu_drive_gf s)"

text \<open>The address that the allocation returns, 0 for none; the new drive is filled in at its address.\<close>

definition create_bounce_buf :: "malloc_state \<times> ('w, 'z) disk_mach_scheme \<Rightarrow> int \<times> malloc_state \<times> ('w, 'z) disk_mach_scheme" where
  "create_bounce_buf = (\<lambda>(h, s).
     if bounce_buf_fl s \<noteq> 0 then (0, h, s)
     else (case malloc ZoneLow 2048 MALLOC_MIN_ALIGN h of
             (None, h) \<Rightarrow> (- 1, h, s)
           | (Some buf, h) \<Rightarrow> if buf = 0 then (- 1, h, s) else (0, h, s\<lparr>bounce_buf_fl := buf\<rparr>)))"

definition cdrom_prepboot :: "malloc_state \<times> ('w, 'z) disk_mach_scheme \<Rightarrow> malloc_state \<times> ('w, 'z) disk_mach_scheme" where
  "cdrom_prepboot p =
     (if CDCount (snd p) = 0 then p
      else (let (ret, h, s) = create_bounce_buf p
            in if ret < 0 then (h, s)
               else (case malloc ZoneFSeg 32 MALLOC_MIN_ALIGN h of
                       (None, h) \<Rightarrow> (snd (free 0 h), s)
                     | (Some drive, h) \<Rightarrow>
                         if drive = 0 then (snd (free 0 h), s)
                         else (h, s\<lparr>cdemu_drive_gf := drive,
                                drives := (drives s)(drive := no_drive\<lparr>drive_type := DTYPE_CDEMU, blksize := 512, drive_sectors := NOT 0\<rparr>)\<rparr>))))"

section \<open>The wait for a drive ends\<close>

context tick_clock
begin

lemma check_far:
  assumes "ok s" "timer_check io (of_nat e) s = (b, s')"
    "e * unit \<le> cyc (wd s) + 2 ^ 30 * unit" "cyc (wd s) \<le> (e + 1) * unit + 2 ^ 30 * unit"
  shows "ok s'" "cyc (wd s) < cyc (wd s')" "b \<longleftrightarrow> e < cyc (wd s') div unit" "e * unit \<le> cyc (wd s') + 2 ^ 30 * unit"
proof -
  obtain v where v: "timer_read io s = (v, s')" "b = (0 < sint (v - of_nat e))"
    using assms(2) by (auto simp: timer_check_def split: prod.splits)
  note r = read [OF assms(1) v(1)]
  show "ok s'" "cyc (wd s) < cyc (wd s')" using r by auto
  show le: "e * unit \<le> cyc (wd s') + 2 ^ 30 * unit" using assms(3) r by linarith
  then have "e \<le> (cyc (wd s') + 2 ^ 30 * unit) div unit" using unit by (subst less_eq_div_iff_mult_less_eq) auto
  also have "\<dots> = cyc (wd s') div unit + 2 ^ 30"
    using div_mult_self1 [of unit "cyc (wd s')" "2 ^ 30"] unit by simp
  finally have 1: "e \<le> cyc (wd s') div unit + 2 ^ 30" .
  have "gap * 1 \<le> gap * unit" using unit by (intro mult_le_mono) auto
  then have "cyc (wd s') \<le> (e + 1) * unit + 2 ^ 30 * unit + gap * unit" using assms(4) r by linarith
  also have "\<dots> = (e + 1 + 2 ^ 30 + gap) * unit" by (simp add: algebra_simps)
  finally have "cyc (wd s') div unit \<le> e + 1 + 2 ^ 30 + gap"
    using unit by (metis div_le_mono nonzero_mult_div_cancel_right not_gr0)
  then have 2: "cyc (wd s') div unit < e + 2 ^ 31" by (simp add: gap_def)
  show "b \<longleftrightarrow> e < cyc (wd s') div unit" using late_iff [OF 1 2] v(2) r by simp
qed

end

lemma timer_read_tables: "timer_read io s = (v, s') \<Longrightarrow> tables s' = tables s"
  by (auto simp: timer_read_def rdtscll_def inl_def inb_def outb_def timer_adjust_bits_def Let_def tables_def
      split: prod.splits if_splits)

lemma timer_check_tables: "timer_check io e s = (b, s') \<Longrightarrow> tables s' = tables s"
  by (auto simp: timer_check_def split: prod.splits dest: timer_read_tables)

lemma timer_calc_tables: "timer_calc io n s = (e, s') \<Longrightarrow> tables s' = tables s"
  by (auto simp: timer_calc_def split: prod.splits dest: timer_read_tables)

lemma printf_tables: "printf io fmt args s = Some s' \<Longrightarrow> tables s' = tables s"
proof -
  have put: "tables (screen_putc io c s) = tables s" for c s
    by (simp add: screen_putc_def screenc_def call16_int_def Let_def tables_def split: prod.splits)
  have "tables (fold (screen_putc io) cs s) = tables s" for cs s by (induction cs arbitrary: s) (simp_all add: put)
  then show "printf io fmt args s = Some s' \<Longrightarrow> tables s' = tables s" by (auto simp: printf_def bind_eq_Some_conv)
qed

text \<open>
  A command takes at most 2^29 ticks, that is 95 seconds at the fastest rate, and leaves the variables of the block
  layer alone.
\<close>

definition commands_end :: "'v low io \<Rightarrow> ('v low \<Rightarrow> nat) \<Rightarrow> nat \<Rightarrow> ('v, 'z) dstate drivers \<Rightarrow> bool" where
  "commands_end io cyc k drv \<longleftrightarrow> (\<forall>m cmd sz op s r n s'. tsc_timer io cyc k s \<and> cdb_cmd_data m drv cmd sz op s = (r, n, s') \<longrightarrow>
     tsc_timer io cyc k s' \<and> cyc (wd s) \<le> cyc (wd s') \<and> cyc (wd s') \<le> cyc (wd s) + 2 ^ 29 * 2 ^ k \<and> tables s' = tables s)"

lemma run_cdb_ends:
  assumes "commands_end io cyc k drv" "tsc_timer io cyc k s" "run_cdb cmd count sz drv data op s = (r, op', s')"
  shows "tsc_timer io cyc k s'" "cyc (wd s) \<le> cyc (wd s')" "cyc (wd s') \<le> cyc (wd s) + 2 ^ 29 * 2 ^ k" "tables s' = tables s"
    "op_drive op' = op_drive op" "op_lba op' = op_lba op" "op_command op' = op_command op"
proof -
  let ?op = "op\<lparr>op_count := count, buf_fl := data\<rparr>"
  obtain n where c: "cdb_cmd_data False drv cmd sz ?op s = (r, n, s')" and op': "op' = ?op\<lparr>op_count := n\<rparr>"
    using assms(3) by (auto simp: run_cdb_def Let_def split: prod.splits)
  from assms(1,2) c show "tsc_timer io cyc k s'" "cyc (wd s) \<le> cyc (wd s')" "cyc (wd s') \<le> cyc (wd s) + 2 ^ 29 * 2 ^ k"
    "tables s' = tables s" unfolding commands_end_def by blast+
  show "op_drive op' = op_drive op" "op_lba op' = op_lba op" "op_command op' = op_command op" by (simp_all add: op')
qed

definition ready_result :: "'v low io \<Rightarrow> ('v low \<Rightarrow> nat) \<Rightarrow> nat \<Rightarrow> disk_op_s \<Rightarrow> ('v, 'z) dstate \<Rightarrow> int \<times> disk_op_s \<times> ('v, 'z) dstate \<Rightarrow> bool" where
  "ready_result io cyc k op s = (\<lambda>(r, op', s'). (r = 0 \<or> r = - 1) \<and> tsc_timer io cyc k s' \<and> tables s' = tables s \<and>
     op_drive op' = op_drive op \<and> op_lba op' = op_lba op \<and> op_command op' = op_command op)"

text \<open>A deadline that a loop of commands can see: neither too far ahead nor too long ago.\<close>

definition in_reach :: "('v low \<Rightarrow> nat) \<Rightarrow> nat \<Rightarrow> nat \<Rightarrow> ('v, 'z) dstate \<Rightarrow> bool" where
  "in_reach cyc k e s \<longleftrightarrow> e * 2 ^ k \<le> cyc (wd s) + 2 ^ 30 * 2 ^ k \<and> cyc (wd s) \<le> (e + 1) * 2 ^ k + 2 ^ 30 * 2 ^ k"

text \<open>One turn ends the loop, goes on with the same deadline at a later time, or sets the second deadline.\<close>

definition turn_result :: "'v low io \<Rightarrow> ('v low \<Rightarrow> nat) \<Rightarrow> nat \<Rightarrow> nat \<Rightarrow> ('v, 'z) ready_state \<Rightarrow>
    (('v, 'z) ready_state, int \<times> disk_op_s \<times> ('v, 'z) dstate) turn \<Rightarrow> bool" where
  "turn_result io cyc k e = (\<lambda>(op, end_time, p, s) t. case t of
       Finish r \<Rightarrow> ready_result io cyc k op s r
     | Again (op', end', p', s') \<Rightarrow> ready_result io cyc k op s (0, op', s') \<and>
         (p' = p \<and> end' = end_time \<and> in_reach cyc k e s' \<and> cyc (wd s) < cyc (wd s') \<or>
          \<not> p \<and> p' \<and> (\<exists>e'. end' = of_nat e' \<and> in_reach cyc k e' s')))"

lemma deadline_in_reach:
  assumes "tsc_timer io cyc k s" "timer_calc io msecs s = (e, s')" "unat msecs \<le> DELAY_MAX"
  shows "\<exists>e'. e = of_nat e' \<and> in_reach cyc k e' s'" "tsc_timer io cyc k s'"
proof -
  obtain v where v: "timer_read io s = (v, s')" "e = v + TimerKHz s' * msecs"
    using assms(2) by (auto simp: timer_calc_def split: prod.splits)
  note r = tsc.read [OF assms(1) v(1)]
  then show ok: "tsc_timer io cyc k s'" by simp
  note t = tsc.ticks_exact [OF ok assms(3)]
  obtain e' where e': "v + msecs * TimerKHz s' = of_nat e'" "cyc (wd s') \<le> (e' + 1) * 2 ^ k" "e' * 2 ^ k \<le> cyc (wd s') + 2 ^ 30 * 2 ^ k"
    using tsc.deadline [OF assms(1) v(1), of "msecs * TimerKHz s'"] t by auto
  then show "\<exists>e'. e = of_nat e' \<and> in_reach cyc k e' s'"
    by (intro exI [of _ e']) (simp add: v(2) in_reach_def mult.commute)
qed

lemma turn_ends:
  assumes d: "commands_end io cyc k drv" and s: "tsc_timer io cyc k s" "in_reach cyc k e s"
  shows "returns (turn_result io cyc k e (op, of_nat e, p, s)) (ready_turn io drv sense (op, of_nat e, p, s))"
proof -
  obtain late s1 where c: "timer_check io (of_nat e) s = (late, s1)" by fastforce
  note k = tsc.check_far [OF s(1) c] timer_check_tables [OF c]
  obtain r2 op2 s2 where t: "cdb_test_unit_ready drv op s1 = (r2, op2, s2)" by (metis prod_cases3)
  obtain r3 op3 s3 where q: "cdb_get_sense drv sense op2 s2 = (r3, op3, s3)" by (metis prod_cases3)
  have s1: "tsc_timer io cyc k s1" "cyc (wd s) < cyc (wd s1)" "e * 2 ^ k \<le> cyc (wd s1) + 2 ^ 30 * 2 ^ k" "tables s1 = tables s"
    using k s(2) by (simp_all add: in_reach_def)
  note test_run = t
  note t = run_cdb_ends [OF d s1(1) t [unfolded cdb_test_unit_ready_def]]
  note sense_run = q
  note q = run_cdb_ends [OF d t(1) q [unfolded cdb_get_sense_def]]
  have late: "cyc (wd s1) < (e + 1) * 2 ^ k" if "\<not> late"
    using that k(3) s(2) tsc.div_le_bound [of "cyc (wd s1)" k e] by (simp add: in_reach_def)
  have R: "ready_result io cyc k op s (0, op3, s3)" "ready_result io cyc k op s (0, op2, s2)" "ready_result io cyc k op s (- 1, op3, s3)"
    "ready_result io cyc k op s (- 1, op, s1)"
    using s1 t q by (simp_all add: ready_result_def)
  have A: "in_reach cyc k e s3" "cyc (wd s) < cyc (wd s3)" if "\<not> late"
    using late [OF that] s1 t q by (simp_all add: in_reach_def)
  have W: "returns (\<lambda>s4. tsc_timer io cyc k s4 \<and> tables s4 = tables s) (printf io ''Waiting for device to detect medium... '' [] s3)"
  proof -
    have "bvprintf ''Waiting for device to detect medium... '' [] = Some ''Waiting for device to detect medium... ''"
      by (rule bvprintf_literal) simp
    from tsc.printf_ok [OF q(1) this] show ?thesis using printf_tables s1 t q by (fastforce simp: returns_def)
  qed
  then obtain s4 where w: "printf io ''Waiting for device to detect medium... '' [] s3 = Some s4" "tsc_timer io cyc k s4" "tables s4 = tables s"
    by (auto simp: returns_def)
  obtain e5 s5 where n: "timer_calc io 30000 s4 = (e5, s5)" by fastforce
  obtain e' where e': "e5 = of_nat e'" "in_reach cyc k e' s5" "tsc_timer io cyc k s5"
    using deadline_in_reach [OF w(2) n] by (auto simp: DELAY_MAX_def)
  have R5: "ready_result io cyc k op s (0, op3, s5)"
    using timer_calc_tables [OF n] w(3) e'(3) t q by (simp add: ready_result_def)
  show ?thesis
    using R A R5 e'(1,2) by (auto simp: ready_turn_def Let_def c turn_result_def returns_def w n test_run sense_run)
qed

lemma ready_result_trans: "ready_result io cyc k op s (r0, op', s') \<Longrightarrow> ready_result io cyc k op' s' r \<Longrightarrow> ready_result io cyc k op s r"
  by (auto simp: ready_result_def)

lemma ready_result_returns:
  assumes "ready_result io cyc k op s (r0, op', s')" "returns (ready_result io cyc k op' s') m"
  shows "returns (ready_result io cyc k op s) m"
  using assms(2) by (rule returns_mono) (rule ready_result_trans [OF assms(1)])

lemma ready_loop_in_progress:
  assumes d: "commands_end io cyc k drv" and s: "tsc_timer io cyc k s" "in_reach cyc k e s"
  shows "returns (ready_result io cyc k op s) (loop (ready_turn io drv sense) (op, of_nat e, True, s))"
  using s
proof (induction "(e + 1) * 2 ^ k + 2 ^ 30 * 2 ^ k - cyc (wd s)" arbitrary: op s rule: less_induct)
  case less
  obtain t where t: "ready_turn io drv sense (op, of_nat e, True, s) = Some t" "turn_result io cyc k e (op, of_nat e, True, s) t"
    using turn_ends [OF d less.prems] unfolding returns_def by blast
  show ?case
  proof (cases t)
    case (Finish r)
    then show ?thesis using t by (simp add: loop_unfold_Finish turn_result_def returns_def)
  next
    case (Again x)
    obtain op' e' p' s' where x: "x = (op', e', p', s')" by (metis prod_cases4)
    have r: "ready_result io cyc k op s (0, op', s')" "e' = of_nat e" "p' = True" "in_reach cyc k e s'" "cyc (wd s) < cyc (wd s')"
      using t(2) by (auto simp: turn_result_def Again x)
    have "tsc_timer io cyc k s'" using r(1) by (simp add: ready_result_def)
    moreover have "(e + 1) * 2 ^ k + 2 ^ 30 * 2 ^ k - cyc (wd s') < (e + 1) * 2 ^ k + 2 ^ 30 * 2 ^ k - cyc (wd s)"
      using r(4,5) unfolding in_reach_def by (intro diff_less_mono2) linarith+
    ultimately have "returns (ready_result io cyc k op' s') (loop (ready_turn io drv sense) (op', of_nat e, True, s'))"
      using r(4) by (intro less.hyps)
    then show ?thesis
      using t(1) ready_result_returns [OF r(1)] by (simp add: loop_unfold_Again Again x r)
  qed
qed

lemma ready_loop:
  assumes d: "commands_end io cyc k drv" and s: "tsc_timer io cyc k s" "in_reach cyc k e s"
  shows "returns (ready_result io cyc k op s) (loop (ready_turn io drv sense) (op, of_nat e, False, s))"
  using s
proof (induction "(e + 1) * 2 ^ k + 2 ^ 30 * 2 ^ k - cyc (wd s)" arbitrary: op s rule: less_induct)
  case less
  obtain t where t: "ready_turn io drv sense (op, of_nat e, False, s) = Some t" "turn_result io cyc k e (op, of_nat e, False, s) t"
    using turn_ends [OF d less.prems] unfolding returns_def by blast
  show ?case
  proof (cases t)
    case (Finish r)
    then show ?thesis using t by (simp add: loop_unfold_Finish turn_result_def returns_def)
  next
    case (Again x)
    obtain op' e' p' s' where x: "x = (op', e', p', s')" by (metis prod_cases4)
    have r: "ready_result io cyc k op s (0, op', s')" using t(2) by (simp add: turn_result_def Again x)
    then have ok: "tsc_timer io cyc k s'" by (simp add: ready_result_def)
    have "returns (ready_result io cyc k op' s') (loop (ready_turn io drv sense) (op', e', p', s'))"
    proof (cases p')
      case True
      then obtain e2 where "e' = of_nat e2" "in_reach cyc k e2 s'" using t(2) by (auto simp: turn_result_def Again x)
      then show ?thesis using ready_loop_in_progress [OF d ok] True by simp
    next
      case False
      then have q: "e' = of_nat e" "in_reach cyc k e s'" "cyc (wd s) < cyc (wd s')" using t(2) by (auto simp: turn_result_def Again x)
      moreover have "(e + 1) * 2 ^ k + 2 ^ 30 * 2 ^ k - cyc (wd s') < (e + 1) * 2 ^ k + 2 ^ 30 * 2 ^ k - cyc (wd s)"
        using q(2,3) unfolding in_reach_def by (intro diff_less_mono2) linarith+
      ultimately show ?thesis using False ok less.hyps [of s' op'] by simp
    qed
    then show ?thesis
      using t(1) ready_result_returns [OF r] by (simp add: loop_unfold_Again Again x)
  qed
qed

lemma scsi_is_ready_returns:
  assumes "commands_end io cyc k drv" "tsc_timer io cyc k s"
  obtains r op' s' where "scsi_is_ready io drv sense op s = Some (r, op', s')" "ready_result io cyc k op s (r, op', s')"
proof -
  obtain e s1 where c: "timer_calc io 5000 s = (e, s1)" by fastforce
  have "unat (5000 :: u32) \<le> DELAY_MAX" by (simp add: DELAY_MAX_def)
  note n = deadline_in_reach [OF assms(2) c this]
  then obtain e' where "e = of_nat e'" "in_reach cyc k e' s1" by blast
  then obtain x where x: "scsi_is_ready io drv sense op s = Some x" "ready_result io cyc k op s1 x"
    using ready_loop [OF assms(1) n(2), of e' op sense] by (auto simp: scsi_is_ready_def c returns_def)
  then have "ready_result io cyc k op s x" using timer_calc_tables [OF c] by (auto simp: ready_result_def)
  then show thesis using x(1) that by (cases x) blast
qed

text \<open>
  C39. The wait for a drive ends, with 0 or -1, whatever the drive answers, as long as its commands end; the
  deadline is compared across the wrap-around of the tick count, and the variables of the block layer are what they were.
\<close>

theorem ready_wait_ends:
  assumes "commands_end io cyc k drv" "tsc_timer io cyc k s"
  shows "\<exists>r op' s'. scsi_is_ready io drv sense op s = Some (r, op', s') \<and> (r = 0 \<or> r = - 1) \<and> drives s' = drives s \<and>
    IDMap s' = IDMap s \<and> CDEmu s' = CDEmu s \<and> op_drive op' = op_drive op"
proof -
  obtain r op' s' where "scsi_is_ready io drv sense op s = Some (r, op', s')" "ready_result io cyc k op s (r, op', s')"
    by (rule scsi_is_ready_returns [OF assms])
  then show ?thesis by (auto simp: ready_result_def tables_def)
qed

section \<open>What is on the disc\<close>

definition img16 :: "(nat \<Rightarrow> u8) \<Rightarrow> nat \<Rightarrow> u16" where
  "img16 img i = le16 (img i) (img (i + 1))"

definition img32 :: "(nat \<Rightarrow> u8) \<Rightarrow> nat \<Rightarrow> u32" where
  "img32 img i = ucast (img16 img i) OR push_bit 16 (ucast (img16 img (i + 2)))"

definition img_string :: "(nat \<Rightarrow> u8) \<Rightarrow> nat \<Rightarrow> nat \<Rightarrow> string" where
  "img_string img i n = map (\<lambda>b. char_of (unat b)) (takeWhile (\<lambda>b. b \<noteq> 0) (map (\<lambda>j. img (i + j)) [0..<n]))"

text \<open>
  The El Torito specification: sector 17 names the sector of the boot catalog, whose second entry is the bootable image. The result is
  the error code, or the place of the catalog.
\<close>

definition el_torito :: "(nat \<Rightarrow> u8) \<Rightarrow> int + nat" where
  "el_torito img =
     (let b = 2048 * 17; c = 2048 * unat (img32 img (b + 0x47))
      in if img b \<noteq> 0 then Inl 4
         else if img_string img (b + 1) 2047 \<noteq> EL_TORITO then Inl 5
         else if img c \<noteq> 1 then Inl 8
         else if img (c + 1) \<noteq> 0 then Inl 9
         else if img (c + 0x1e) \<noteq> 0x55 \<or> img (c + 0x1f) \<noteq> 0xaa then Inl 10
         else if img (c + 0x20) \<noteq> 0x88 then Inl 11
         else Inr c)"

definition el_segment :: "(nat \<Rightarrow> u8) \<Rightarrow> nat \<Rightarrow> u16" where
  "el_segment img c = (let v = img16 img (c + 0x22) in if v = 0 then 0x07c0 else v)"

abbreviation el_media :: "(nat \<Rightarrow> u8) \<Rightarrow> nat \<Rightarrow> u8" where "el_media img c \<equiv> img (c + 0x21)"
abbreviation el_count :: "(nat \<Rightarrow> u8) \<Rightarrow> nat \<Rightarrow> u16" where "el_count img c \<equiv> img16 img (c + 0x26)"
abbreviation el_lba :: "(nat \<Rightarrow> u8) \<Rightarrow> nat \<Rightarrow> u32" where "el_lba img c \<equiv> img32 img (c + 0x28)"

section \<open>Reading the disc\<close>

text \<open>A CD drive that works, and what a read puts into memory.\<close>

definition cd_works :: "'v low io \<Rightarrow> ('v low \<Rightarrow> nat) \<Rightarrow> nat \<Rightarrow> ('v, 'z) dstate drivers \<Rightarrow> (nat \<Rightarrow> u8) \<Rightarrow> u32 \<Rightarrow> ('v, 'z) dstate \<Rightarrow> bool" where
  "cd_works io cyc k drv img d s \<longleftrightarrow> commands_end io cyc k drv \<and> tsc_timer io cyc k s \<and> reads_cd img drv d \<and>
     drive_type (drives s d) \<in> cd_types \<and> blksize (drives s d) = 2048"

definition holds :: "(nat \<Rightarrow> u8) \<Rightarrow> nat \<Rightarrow> u32 \<Rightarrow> nat \<Rightarrow> ('v, 'z) dstate \<Rightarrow> bool" where
  "holds img base buf n s \<longleftrightarrow> (\<forall>a. unat (a - buf) < n \<longrightarrow> ram8 s a = img (base + unat (a - buf)))"

lemma disc_read:
  assumes "cd_works io cyc k drv img d s" "op_drive op = d" "unat (op_lba op) < 2 ^ 32"
  obtains n s' where "cdb_read False drv op s = (0, n, s')" "cd_works io cyc k drv img d s'" "tables s' = tables s"
    "holds img (2048 * unat (op_lba op)) (buf_fl op) (2048 * unat (op_count op)) s'"
proof -
  have w: "reads_cd img drv d" "drive_type (drives s d) \<in> cd_types" "blksize (drives s d) = 2048" "commands_end io cyc k drv"
    "tsc_timer io cyc k s" using assms(1) by (simp_all add: cd_works_def)
  obtain s' where r: "cdb_read False drv op s = (0, op_count op, s')" and m: "low.ram (wd s') = cd_written img op (low.ram (wd s))"
    by (rule reads_cd_read [OF w(1) assms(2) w(2) _ w(3) assms(3), of False]) simp
  then have "tsc_timer io cyc k s' \<and> tables s' = tables s" using w(4,5) unfolding commands_end_def cdb_read_def by blast
  moreover then have "drives s' = drives s" by (simp add: tables_def)
  ultimately have "cd_works io cyc k drv img d s'" "tables s' = tables s" using assms(1) by (simp_all add: cd_works_def)
  moreover have "holds img (2048 * unat (op_lba op)) (buf_fl op) (2048 * unat (op_count op)) s'"
    by (simp add: holds_def ram8_def m cd_written_def)
  ultimately show thesis using r that by blast
qed

lemma holds_byte: "holds img base buf 2048 s \<Longrightarrow> i < 2048 \<Longrightarrow> ram8 s (buf + of_nat i) = img (base + i)"
  by (simp add: holds_def unat_of_nat)

lemma holds_numeral:
  assumes "holds img base buf 2048 s" "numeral w < (2048 :: nat)"
  shows "ram8 s (buf + numeral w) = img (base + numeral w)"
  using holds_byte [OF assms] by simp

lemma holds_sector:
  assumes "holds img base buf 2048 s"
  shows "ram8 s buf = img base" "ram8 s (buf + 1) = img (base + 1)" "ram_string s (buf + 1) 2047 = img_string img (base + 1) 2047"
    "ram32 s (buf + 0x47) = img32 img (base + 0x47)" "ram8 s (buf + 0x21) = img (base + 0x21)" "ram16 s (buf + 0x22) = img16 img (base + 0x22)"
    "ram16 s (buf + 0x26) = img16 img (base + 0x26)" "ram32 s (buf + 0x28) = img32 img (base + 0x28)"
proof -
  note h = holds_numeral [OF assms]
  have h': "ram8 s (numeral w + buf) = img (numeral w + base)" if "numeral w < (2048 :: nat)" for w
    using h [OF that] by (simp add: add.commute)
  show "ram8 s buf = img base" "ram8 s (buf + 1) = img (base + 1)"
    using holds_byte [OF assms, of 0] holds_byte [OF assms, of 1] by simp_all
  have "map (\<lambda>i. ram8 s (buf + 1 + of_nat i)) [0..<2047] = map (\<lambda>j. img (base + 1 + j)) [0..<2047]"
    using holds_byte [OF assms, of "Suc i" for i] by (simp add: algebra_simps)
  then show "ram_string s (buf + 1) 2047 = img_string img (base + 1) 2047" by (simp only: ram_string_def img_string_def)
  show "ram8 s (buf + 0x21) = img (base + 0x21)" "ram16 s (buf + 0x22) = img16 img (base + 0x22)"
    "ram16 s (buf + 0x26) = img16 img (base + 0x26)" "ram32 s (buf + 0x28) = img32 img (base + 0x28)" "ram32 s (buf + 0x47) = img32 img (base + 0x47)"
    by (simp_all add: ram16_def ram32_def img16_def img32_def h h')
qed

lemma strcmp_0_iff: "strcmp a b = 0 \<longleftrightarrow> a = b"
  by (induction a b rule: strcmp.induct) auto

lemma catalog_on_disc:
  assumes "holds img (2048 * 17) buf 2048 s1" "holds img c buf 2048 s2" "c = 2048 * unat (img32 img (2048 * 17 + 0x47))"
  shows "el_torito img = (if ram8 s1 buf \<noteq> 0 then Inl 4 else if strcmp (ram_string s1 (buf + 1) 2047) EL_TORITO \<noteq> 0 then Inl 5
    else if catalog_error buf s2 \<noteq> 0 then Inl (catalog_error buf s2) else Inr c)"
proof -
  have spec: "el_torito img = (if img (2048 * 17) \<noteq> 0 then Inl 4 else if img_string img (2048 * 17 + 1) 2047 \<noteq> EL_TORITO then Inl 5
      else if img c \<noteq> 1 then Inl 8 else if img (c + 1) \<noteq> 0 then Inl 9
      else if img (c + 0x1e) \<noteq> 0x55 \<or> img (c + 0x1f) \<noteq> 0xaa then Inl 10 else if img (c + 0x20) \<noteq> 0x88 then Inl 11 else Inr c)"
    unfolding el_torito_def Let_def assms(3) ..
  have n: "ram8 s2 (buf + 0x1e) = img (c + 0x1e)" "ram8 s2 (buf + 0x1f) = img (c + 0x1f)" "ram8 s2 (buf + 0x20) = img (c + 0x20)"
    by (rule holds_numeral [OF assms(2)]; simp)+
  show ?thesis
    unfolding spec catalog_error_def strcmp_0_iff holds_sector(1-3) [OF assms(1)] holds_sector(1,2) [OF assms(2)] n by simp
qed

section \<open>Booting\<close>

text \<open>Writes to the first 256 bytes of the BIOS data area do not reach what lies above it.\<close>

lemma upd_bda_above:
  assumes "\<And>b x. 0x100 \<le> x \<Longrightarrow> g b x = b x" "0x500 \<le> a"
  shows "ram8 (upd_bda g s) a = ram8 s a"
proof (cases "a - 0x400 < 0x10000")
  case True
  have a: "0x500 \<le> unat a" using assms(2) by (simp add: word_le_nat_alt)
  then have d: "unat (a - 0x400) = unat a - 0x400" by (simp add: unat_sub word_le_nat_alt)
  then have l: "unat a - 0x400 < 65536" using True by (simp add: word_less_nat_alt)
  then have u: "unat (ucast (a - 0x400) :: u16) = unat a - 0x400"
    by (simp add: unsigned_ucast_eq unsigned_take_bit_eq d take_bit_nat_eq_self)
  have "unat (seg_addr SEG_BDA (ucast (a - 0x400))) = unat a"
    using l a by (simp add: seg_addr_def SEG_BDA_def unat_word_ariths unsigned_ucast_eq unsigned_take_bit_eq d take_bit_nat_eq_self)
  then have "seg_addr SEG_BDA (ucast (a - 0x400)) = a" by (simp add: word_unat_eq_iff)
  moreover have "0x100 \<le> (ucast (a - 0x400) :: u16)" using a u by (simp add: word_le_nat_alt)
  ultimately show ?thesis by (simp add: ram8_def upd_bda_def True assms(1) bda_of_def)
next
  case False
  then show ?thesis by (simp add: ram8_def upd_bda_def)
qed

lemma emu_above:
  "0x500 \<le> a \<Longrightarrow> ram8 (emulate_disk m seg s) a = ram8 s a"
proof -
  assume a: "0x500 \<le> a"
  have e: "ram8 (upd_emu f t) a = ram8 t a" for f and t :: "('a, 'b) dstate" by (simp add: upd_emu_def ram8_def)
  have q: "ram8 (set_equipment_flags c v t) a = ram8 t a" for c v and t :: "('a, 'b) dstate"
    unfolding set_equipment_flags_def Let_def using a
    by (intro upd_bda_above) (auto simp: set16_def word_le_nat_alt)
  have h: "ram8 (set_bda8 hdcount v t) a = ram8 t a" for v and t :: "('a, 'b) dstate"
    using a by (intro upd_bda_above) (auto simp: word_le_nat_alt)
  show ?thesis by (simp add: emulate_disk_def Let_def e q h)
qed

text \<open>
  What a boot from the catalog at byte \<open>c\<close> does: the blocks of the image are in memory and the parameters of the emulation are
  those of the catalog.
\<close>

definition booted :: "(nat \<Rightarrow> u8) \<Rightarrow> nat \<Rightarrow> u32 \<Rightarrow> int \<Rightarrow> ('v, 'z) dstate \<Rightarrow> int \<Rightarrow> ('v, 'z) dstate \<Rightarrow> bool" where
  "booted img c d cdno s code s' \<longleftrightarrow>
     code = (if el_media img c \<noteq> 0 \<and> cdemu_drive_gf s = 0 then 13 else 0) \<and>
     (\<forall>a. 0x500 \<le> a \<and> unat (a - MAKE_FLATPTR (el_segment img c) 0) < 2048 * ((unat (el_count img c) + 3) div 4) \<longrightarrow>
        ram8 s' a = img (2048 * unat (el_lba img c) + unat (a - MAKE_FLATPTR (el_segment img c) 0))) \<and>
     emulated_drive_gf s' = d \<and> drives s' = drives s \<and> cdemu_drive_gf s' = cdemu_drive_gf s \<and> bounce_buf_fl s' = bounce_buf_fl s \<and>
     ilba (CDEmu s') = el_lba img c \<and> load_segment (CDEmu s') = el_segment img c \<and> sector_count (CDEmu s') = el_count img c \<and>
     (code = 0 \<longrightarrow>
        emulated_drive (CDEmu s') =
          (if el_media img c = 0 then EXTSTART_CD + word_of_int cdno else if el_media img c < 4 then 0 else 0x80) \<and>
        media (CDEmu s') = (if el_media img c = 0 then media (CDEmu s) else el_media img c))"

lemma blocks_of_sectors: "unat (ucast (DIV_ROUND_UP (ucast (n :: u16) :: u32) 4) :: u16) = (unat n + 3) div 4"
proof -
  have n: "unat n < 65536" by (rule u16_unat_lt)
  have u: "unat (ucast n :: u32) = unat n" using n by (simp add: unsigned_ucast_eq take_bit_nat_eq_self)
  have "(ucast n :: u32) + 4 - 1 = ucast n + 3" by simp
  then have d: "unat (DIV_ROUND_UP (ucast n :: u32) 4) = (unat n + 3) div 4"
    using n by (simp add: DIV_ROUND_UP_def unat_div unat_word_ariths u)
  moreover have "(unat n + 3) div 4 < 65536" using n by linarith
  ultimately show ?thesis by (simp add: unsigned_ucast_eq unsigned_take_bit_eq take_bit_nat_eq_self)
qed

lemma emulate_disk_emu:
  "emulated_drive (CDEmu (emulate_disk m seg s)) = (if m < 4 then 0 else 0x80)" "media (CDEmu (emulate_disk m seg s)) = m"
  "ilba (CDEmu (emulate_disk m seg s)) = ilba (CDEmu s)" "load_segment (CDEmu (emulate_disk m seg s)) = load_segment (CDEmu s)"
  "sector_count (CDEmu (emulate_disk m seg s)) = sector_count (CDEmu s)"
  "emulated_drive_gf (emulate_disk m seg s) = emulated_drive_gf s" "drives (emulate_disk m seg s) = drives s"
  "cdemu_drive_gf (emulate_disk m seg s) = cdemu_drive_gf s" "bounce_buf_fl (emulate_disk m seg s) = bounce_buf_fl s"
proof -
  have q: "CDEmu (set_equipment_flags c v t) = CDEmu t" "emulated_drive_gf (set_equipment_flags c v t) = emulated_drive_gf t"
    "drives (set_equipment_flags c v t) = drives t" "cdemu_drive_gf (set_equipment_flags c v t) = cdemu_drive_gf t"
    "bounce_buf_fl (set_equipment_flags c v t) = bounce_buf_fl t" for c v and t :: "('a, 'b) dstate"
    by (simp_all add: set_equipment_flags_def Let_def upd_bda_def)
  show "emulated_drive (CDEmu (emulate_disk m seg s)) = (if m < 4 then 0 else 0x80)" "media (CDEmu (emulate_disk m seg s)) = m"
    "ilba (CDEmu (emulate_disk m seg s)) = ilba (CDEmu s)" "load_segment (CDEmu (emulate_disk m seg s)) = load_segment (CDEmu s)"
    "sector_count (CDEmu (emulate_disk m seg s)) = sector_count (CDEmu s)"
    "emulated_drive_gf (emulate_disk m seg s) = emulated_drive_gf s" "drives (emulate_disk m seg s) = drives s"
    "cdemu_drive_gf (emulate_disk m seg s) = cdemu_drive_gf s" "bounce_buf_fl (emulate_disk m seg s) = bounce_buf_fl s"
    by (simp_all add: emulate_disk_def Let_def upd_emu_def emu_geometry_def q) (simp_all add: upd_bda_def)
qed

lemma boot_catalog_works:
  assumes W: "cd_works io cyc k drv img d s" and H: "holds img c buf 2048 s" and "op_drive dop = d"
    and run: "boot_catalog drv d cdno buf dop s = (code, s')"
  shows "booted img c d cdno s code s'"
proof -
  note cat = holds_sector(5-8) [OF H]
  let ?seg = "el_segment img c" and ?n = "el_count img c" and ?lba = "el_lba img c" and ?cntl = "cntl_id (drives s d)"
  define s1 where "s1 = s\<lparr>emulated_drive_gf := d, CDEmu := (CDEmu s)\<lparr>load_segment := ?seg, buffer_segment := 0, sector_count := ?n,
    ilba := ?lba, controller_index := ucast (?cntl div 2), device_spec := ucast (?cntl mod 2)\<rparr>\<rparr>"
  define op where "op = dop\<lparr>op_lba := ucast ?lba, op_count := ucast (DIV_ROUND_UP (ucast ?n :: u32) 4), buf_fl := MAKE_FLATPTR ?seg 0\<rparr>"
  have W1: "cd_works io cyc k drv img d s1" using W by (simp add: cd_works_def s1_def tsc_timer_def)
  have lba: "unat (op_lba op) = unat ?lba" using u32_unat_lt [of ?lba] by (simp add: op_def unsigned_ucast_eq take_bit_nat_eq_self)
  then have small: "unat (op_lba op) < 2 ^ 32" using u32_unat_lt [of ?lba] by simp
  obtain n s2 where r: "cdb_read False drv op s1 = (0, n, s2)" and T: "tables s2 = tables s1"
    and M: "holds img (2048 * unat (op_lba op)) (buf_fl op) (2048 * unat (op_count op)) s2"
    by (rule disc_read [OF W1 _ small]) (simp_all add: op_def assms(3))
  have image: "ram8 s2 a = img (2048 * unat ?lba + unat (a - MAKE_FLATPTR ?seg 0))"
    if "unat (a - MAKE_FLATPTR ?seg 0) < 2048 * ((unat ?n + 3) div 4)" for a
    using M that unfolding holds_def lba by (simp add: op_def blocks_of_sectors)
  have t: "drives s2 = drives s" "cdemu_drive_gf s2 = cdemu_drive_gf s" "emulated_drive_gf s2 = d" "CDEmu s2 = CDEmu s1"
    "bounce_buf_fl s2 = bounce_buf_fl s"
    using T by (simp_all add: tables_def s1_def)
  have run': "(code, s') = (if el_media img c = 0 then (0, upd_emu (\<lambda>e. e\<lparr>emulated_drive := EXTSTART_CD + word_of_int cdno\<rparr>) s2)
      else if cdemu_drive_gf s = 0 then (13, s2) else (0, emulate_disk (el_media img c) ?seg s2))"
  proof -
    have k: "ram8 (s\<lparr>emulated_drive_gf := d\<rparr>) = ram8 s" "ram8 (upd_emu f u) = ram8 u" for f and u :: "('a, 'b) dstate"
      by (simp_all add: fun_eq_iff ram8_def upd_emu_def)
    have k: "ram8 (s\<lparr>emulated_drive_gf := d\<rparr>) = ram8 s" "ram16 (s\<lparr>emulated_drive_gf := d\<rparr>) = ram16 s" "ram16 (upd_emu f u) = ram16 u"
      "ram32 (upd_emu f u) = ram32 u" "ram32 (s\<lparr>emulated_drive_gf := d\<rparr>) = ram32 s" for f and u :: "('a, 'b) dstate"
      by (simp_all add: fun_eq_iff ram16_def ram32_def k)
    have e: "upd_emu f (u\<lparr>emulated_drive_gf := d\<rparr>) = u\<lparr>emulated_drive_gf := d, CDEmu := f (CDEmu u)\<rparr>" for f and u :: "('a, 'b) dstate"
      by (simp add: upd_emu_def)
    show ?thesis
      using run r t(2) unfolding boot_catalog_def Let_def k cat
      by (auto simp: e k cat upd_emu_def el_segment_def Let_def s1_def op_def split: if_splits)
  qed
  have up: "ram8 (s2\<lparr>CDEmu := e\<rparr>) a = ram8 s2 a" for e a by (simp add: ram8_def)
  show ?thesis
    using run' image t by (auto simp: booted_def upd_emu_def emulate_disk_emu emu_above s1_def up split: if_splits)
qed


lemma cd_boots_as:
  assumes "cd_works io cyc k drv img d s" "d \<noteq> 0" "getDriveId EXTTYPE_CD d s = Some cdno" "0 \<le> cdno"
  shows "\<exists>code s'. cdrom_boot io drv vars d s = Some (code, s') \<and>
    (case el_torito img of Inl e \<Rightarrow> code = e | Inr c \<Rightarrow> booted img c d cdno s code s')"
proof -
  let ?buf = "sector_fl vars"
  have W: "commands_end io cyc k drv" "tsc_timer io cyc k s" using assms(1) by (simp_all add: cd_works_def)
  obtain r dop s1 where ready: "scsi_is_ready io drv (sense_fl vars) (op_zero d) s = Some (r, dop, s1)"
    and rr: "ready_result io cyc k (op_zero d) s (r, dop, s1)" by (rule scsi_is_ready_returns [OF W])
  have dop: "op_drive dop = d" and T1: "tables s1 = tables s" and W1: "cd_works io cyc k drv img d s1"
    using rr assms(1) by (auto simp: ready_result_def cd_works_def tables_def op_zero_def)
  define dop1 where "dop1 = dop\<lparr>op_lba := 0x11, op_count := 1, buf_fl := ?buf\<rparr>"
  obtain n2 s2 where r2: "cdb_read False drv dop1 s1 = (0, n2, s2)" and W2: "cd_works io cyc k drv img d s2" and T2: "tables s2 = tables s1"
    and H2: "holds img (2048 * unat (op_lba dop1)) (buf_fl dop1) (2048 * unat (op_count dop1)) s2"
    by (rule disc_read [OF W1, of dop1]) (simp_all add: dop1_def dop)
  have H2: "holds img (2048 * 17) ?buf 2048 s2" using H2 by (simp add: dop1_def)
  define c where "c = 2048 * unat (img32 img (2048 * 17 + 0x47))"
  define dop2 where "dop2 = dop1\<lparr>op_lba := ucast (ram32 s2 (?buf + 0x47)), op_count := 1\<rparr>"
  have lba: "ram32 s2 (?buf + 0x47) = img32 img (2048 * 17 + 0x47)" by (rule holds_sector(4) [OF H2])
  have l2: "unat (op_lba dop2) = unat (img32 img (2048 * 17 + 0x47))"
    using u32_unat_lt [of "img32 img (2048 * 17 + 0x47)"] unfolding dop2_def lba by (simp add: unsigned_ucast_eq take_bit_nat_eq_self)
  have small: "unat (op_lba dop2) < 2 ^ 32" unfolding l2 by (rule u32_unat_lt)
  obtain n3 s3 where r3: "cdb_read False drv dop2 s2 = (0, n3, s3)" and W3: "cd_works io cyc k drv img d s3" and T3: "tables s3 = tables s2"
    and H3: "holds img (2048 * unat (op_lba dop2)) (buf_fl dop2) (2048 * unat (op_count dop2)) s3"
    by (rule disc_read [OF W2 _ small]) (simp_all add: dop2_def dop1_def dop)
  have H3: "holds img c ?buf 2048 s3" using H3 unfolding l2 by (simp add: dop2_def dop1_def c_def)
  note spec = catalog_on_disc [OF H2 H3 c_def]
  obtain code s4 where b: "boot_catalog drv d cdno ?buf dop2 s3 = (code, s4)" by fastforce
  have B: "booted img c d cdno s3 code s4"
    by (rule boot_catalog_works [OF W3 H3 _ b]) (simp add: dop2_def dop1_def dop)
  have "booted img c d cdno s code s4"
    using B T1 T2 T3 by (simp add: booted_def tables_def)
  moreover have "cdrom_boot io drv vars d s = Some (if ram8 s2 ?buf \<noteq> 0 then (4, s2)
      else if strcmp (ram_string s2 (?buf + 1) 2047) EL_TORITO \<noteq> 0 then (5, s2)
      else if catalog_error ?buf s3 \<noteq> 0 then (catalog_error ?buf s3, s3) else (code, s4))"
    using assms(2-4) ready r2 r3 b by (simp add: cdrom_boot_def dop1_def dop2_def Let_def)
  ultimately show ?thesis unfolding spec by auto
qed

text \<open>
  C30. A CD boots as the El Torito specification says: with a drive that works \<open>cdrom_boot\<close> returns 3 to 12 exactly according to what
  is on the disc, as \<open>el_torito\<close> computes it; for a bootable disc it has loaded the image to the segment that the catalog
  names, and has set up the emulation that it asks for.
\<close>

theorem cd_boots:
  assumes "cd_works io cyc k drv img d s" "d \<noteq> 0" "getDriveId EXTTYPE_CD d s = Some cdno" "0 \<le> cdno"
  shows "\<exists>code s'. cdrom_boot io drv vars d s = Some (code, s') \<and>
    (case el_torito img of Inl e \<Rightarrow> code = e | Inr c \<Rightarrow> booted img c d cdno s code s')"
  using assms by (rule cd_boots_as)

section \<open>A simulated disc\<close>

text \<open>
  A disc with a catalog in sector 18 and the image of a 1.44 MB floppy, of which one sector is loaded, in sector 19.
\<close>

definition img_disc :: "nat \<Rightarrow> u8" where
  "img_disc i =
     (if 34817 \<le> i \<and> i < 34846 then of_char (EL_TORITO ! (i - 34817))
      else if i = 34887 then 18
      else if i = 36864 then 1 else if i = 36894 then 0x55 else if i = 36895 then 0xaa else if i = 36896 then 0x88
      else if i = 36897 then 2 else if i = 36902 then 1 else if i = 36904 then 19
      else if 38912 \<le> i then of_nat i
      else 0)"

definition disc_sim :: "(nat, unit) dstate" where
  "disc_sim = \<lparr>TimerKHz = 1000, TimerPort = 0, ShiftTSC = 0, TimerLast = 0,
     wd = \<lparr>low.ram = (\<lambda>_. 0), Century = 0x20, RTCusers = 0, int1c_reentry = 0, dev = 0\<rparr>,
     drives = (\<lambda>_. no_drive)(1 := no_drive\<lparr>drive_type := DTYPE_ATA_ATAPI, blksize := 2048\<rparr>, 2 := no_drive\<lparr>drive_type := DTYPE_CDEMU\<rparr>),
     IDMap = [replicate 16 0, replicate 16 0, 1 # replicate 15 0], FloppyCount = 0, CDCount = 1, bounce_buf_fl = 0xf0000,
     CDEmu = \<lparr>media = 0, emulated_drive = 0, controller_index = 0, ilba = 0, device_spec = 0, buffer_segment = 0, load_segment = 0,
       sector_count = 0, chs_heads = 0, chs_sptcyl = 0, chs_cyllow = 0\<rparr>,
     emulated_drive_gf = 0, cdemu_drive_gf = 2, CDRom_locks = replicate 16 0\<rparr>"

definition vars_sim :: stack_vars where
  "vars_sim = \<lparr>sense_fl = 0x9000, inquiry_fl = 0x9100, capacity_fl = 0x9200, sector_fl = 0x9800\<rparr>"

lemma disc_commands_end: "commands_end io cyc k (disc_drivers img :: ('v, 'z) dstate drivers)" if "\<And>w f. cyc (w\<lparr>low.ram := f\<rparr>) = cyc w" for cyc :: "'v low \<Rightarrow> nat"
  unfolding commands_end_def
proof (intro allI impI)
  fix m cmd sz op n r and s s' :: "('v, 'z) dstate"
  assume a: "tsc_timer io cyc k s \<and> cdb_cmd_data m (disc_drivers img) cmd sz op s = (r, n, s')"
  then obtain f where "s' = s\<lparr>wd := (wd s)\<lparr>low.ram := f\<rparr>\<rparr>" using disc_drivers_result by blast
  with a that show "tsc_timer io cyc k s' \<and> cyc (wd s) \<le> cyc (wd s') \<and> cyc (wd s') \<le> cyc (wd s) + 2 ^ 29 * 2 ^ k \<and> tables s' = tables s"
    by (simp add: tsc_timer_def tables_def)
qed

lemma disc_sim_timer: "tsc_timer io_ticks dev 0 disc_sim"
  by (rule ticks_timer) (simp_all add: disc_sim_def KHZ_MAX_def)

lemma disc_sim_works: "cd_works io_ticks dev 0 (disc_drivers img) img 1 disc_sim"
  using disc_commands_end [of dev io_ticks 0 img] disc_sim_timer
  by (simp add: cd_works_def disc_drivers_read) (simp add: disc_sim_def cd_types_def)

lemma img_disc_catalog: "el_torito img_disc = Inr 36864"
proof -
  let ?f = "\<lambda>j. img_disc (2048 * 17 + 1 + j)" and ?P = "\<lambda>b :: u8. b \<noteq> 0"
  have "[0..<29 + Suc n] = [0..<29] @ 29 # [30..<29 + Suc n]" for n :: nat
    using upt_add_eq_append [of 0 29 "Suc n"] upt_conv_Cons [of 29 "29 + Suc n"] by simp
  from this [of 2017] have l: "[0..<2047] = [0..<29] @ 29 # [30..<2047 :: nat]"
    by (simp only: arith_simps Suc_numeral)
  have len: "length EL_TORITO = 29" by (simp add: EL_TORITO_def)
  have "map ?f [0..<29] = map (\<lambda>j. of_char (EL_TORITO ! j)) [0..<29]" by (simp add: img_disc_def)
  also have "\<dots> = map of_char (map (\<lambda>j. EL_TORITO ! j) [0..<length EL_TORITO])" by (simp add: len)
  also have "\<dots> = map of_char EL_TORITO" unfolding map_nth ..
  finally have f: "map ?f [0..<29] = map of_char EL_TORITO" .
  have nz: "\<forall>c\<in>set EL_TORITO. ?P (of_char c)" by (simp add: EL_TORITO_def)
  have z: "?f 29 = 0" by (simp add: img_disc_def)
  have "takeWhile ?P (map ?f [0..<2047]) = map of_char EL_TORITO"
    unfolding l map_append list.map f z using nz by (subst takeWhile_append2) auto
  moreover have "map (\<lambda>b. char_of (unat b)) (map of_char EL_TORITO :: u8 list) = EL_TORITO" by (simp add: EL_TORITO_def char_of_def bit_0)
  ultimately have "img_string img_disc (2048 * 17 + 1) 2047 = EL_TORITO" unfolding img_string_def by simp
  moreover have "img32 img_disc (2048 * 17 + 0x47) = 18" by (simp add: img32_def img16_def img_disc_def le16_def)
  ultimately show ?thesis by (simp add: el_torito_def Let_def) (simp add: img_disc_def)
qed


section \<open>Witnesses, and the emulated disk after the boot\<close>

theorem ready_wait_ends_witness:
  "\<exists>r op' s'. scsi_is_ready io_ticks (disc_drivers img_disc) 0x9000 (op_zero 1) disc_sim = Some (r, op', s') \<and> (r = 0 \<or> r = - 1)"
proof -
  have "commands_end io_ticks dev 0 (disc_drivers img_disc :: (nat, unit) dstate drivers)" by (rule disc_commands_end) simp
  from ready_wait_ends [OF this disc_sim_timer] show ?thesis by fastforce
qed

lemma disc_sim_drive: "getDriveId EXTTYPE_CD 1 disc_sim = Some 0"
  by (simp add: getDriveId_def getDrive_def BUILD_MAX_EXTDRIVE_def EXTTYPE_CD_def disc_sim_def arr_get_def numeral_eq_Suc)

theorem cd_boots_witness:
  "\<exists>s'. cdrom_boot io_ticks (disc_drivers img_disc) vars_sim 1 disc_sim = Some (0, s') \<and> emulated_drive (CDEmu s') = 0 \<and>
     media (CDEmu s') = 2 \<and> ilba (CDEmu s') = 19 \<and> ram8 s' 0x7c05 = img_disc 38917"
proof -
  have c: "el_media img_disc 36864 = 2" "el_lba img_disc 36864 = 19" "el_count img_disc 36864 = 1" "el_segment img_disc 36864 = 0x7c0"
    by (simp_all add: img_disc_def img32_def img16_def el_segment_def le16_def)
  have m: "cdemu_drive_gf disc_sim = 2" by (simp add: disc_sim_def)
  obtain code s' where r: "cdrom_boot io_ticks (disc_drivers img_disc) vars_sim 1 disc_sim = Some (code, s')"
    and b: "booted img_disc 36864 1 0 disc_sim code s'"
    using cd_boots [OF disc_sim_works _ disc_sim_drive, of img_disc vars_sim] unfolding img_disc_catalog by auto
  have "code = 0" using b unfolding booted_def c m by simp
  moreover from this have "emulated_drive (CDEmu s') = 0 \<and> media (CDEmu s') = 2 \<and> ilba (CDEmu s') = 19"
    using b unfolding booted_def c m by simp
  moreover have "ram8 s' 0x7c05 = img_disc 38917"
  proof -
    have "\<forall>a. 0x500 \<le> a \<and> unat (a - MAKE_FLATPTR 0x7c0 0) < 2048 * ((unat (1 :: u16) + 3) div 4) \<longrightarrow>
        ram8 s' a = img_disc (2048 * unat (19 :: u32) + unat (a - MAKE_FLATPTR 0x7c0 0))"
      using b unfolding booted_def c by (elim conjE)
    from this [rule_format, of "0x7c05"] show ?thesis by (simp add: MAKE_FLATPTR_def seg_addr_def)
  qed
  ultimately show ?thesis using r by auto
qed

text \<open>
  C31. After the boot of a disc with an emulated disk the emulated disk is the image: with the drive of the emulation set up,
  interrupt 13h for drive 0 or 80h is about that drive, and a read of it gives the sectors of the image that the catalog names.
\<close>

theorem booted_disk_reads:
  assumes "cd_works io cyc k drv img d s" "d \<noteq> 0" "getDriveId EXTTYPE_CD d s = Some cdno" "0 \<le> cdno"
    and "el_torito img = Inr c" "el_media img c \<noteq> 0" "cdemu_drive_gf s = e" "e \<noteq> 0" "drive_type (drives s e) = DTYPE_CDEMU"
  shows "\<exists>s'. cdrom_boot io drv vars d s = Some (0, s') \<and>
    (\<forall>regs kk junk. br_dl regs = (if el_media img c < 4 then 0 else 0x80) \<and> br_ah regs \<le> 0x16 \<longrightarrow>
       handle_13 io drv kk junk regs s' = disk_13 io drv kk junk regs e s') \<and>
    (\<forall>op. op_drive op = e \<and> op_command op = CMD_READ \<and> unat (op_count op) \<le> 255 \<and>
       4 * unat (el_lba img c) + unat (op_lba op) + unat (op_count op) \<le> 2 ^ 34 \<and> apart (buf_fl op) (unat (op_count op)) (bounce_buf_fl s) \<longrightarrow>
       (\<exists>t. send_disk_op drv op s' = Some (0, op_count op, t) \<and> (\<forall>a. unat (a - buf_fl op) < 512 * unat (op_count op) \<longrightarrow>
          ram8 t a = img (2048 * unat (el_lba img c) + 512 * unat (op_lba op) + unat (a - buf_fl op)))))"
proof -
  obtain code s' where r: "cdrom_boot io drv vars d s = Some (code, s')" and b: "booted img c d cdno s code s'"
    using cd_boots_as [OF assms(1-4), of vars] unfolding assms(5) by auto
  have code: "code = 0" using b assms(7,8) by (simp add: booted_def)
  have m: "media (CDEmu s') = el_media img c" "emulated_drive (CDEmu s') = (if el_media img c < 4 then 0 else 0x80)" "drives s' = drives s"
    "cdemu_drive_gf s' = e" "emulated_drive_gf s' = d" "ilba (CDEmu s') = el_lba img c" "bounce_buf_fl s' = bounce_buf_fl s"
    using b code assms(6,7) by (simp_all add: booted_def)
  have w: "reads_cd img drv d" "drive_type (drives s d) \<in> cd_types" "blksize (drives s d) = 2048"
    using assms(1) by (simp_all add: cd_works_def)
  have h: "handle_13 io drv kk junk regs s' = disk_13 io drv kk junk regs e s'"
    if "br_dl regs = (if el_media img c < 4 then 0 else 0x80)" "br_ah regs \<le> 0x16" for regs kk junk
  proof -
    have "\<not> 0x16 < br_ah regs" "br_ah regs \<noteq> 0x4b" using that(2) by (auto simp: word_le_nat_alt word_less_nat_alt)
    then show ?thesis using that(1) assms(6) m by (simp add: handle_13_def Let_def)
  qed
  have "\<exists>t. send_disk_op drv op s' = Some (0, op_count op, t) \<and> (\<forall>a. unat (a - buf_fl op) < 512 * unat (op_count op) \<longrightarrow>
      ram8 t a = img (2048 * unat (el_lba img c) + 512 * unat (op_lba op) + unat (a - buf_fl op)))"
    if "op_drive op = e" "op_command op = CMD_READ" "unat (op_count op) \<le> 255"
      "4 * unat (el_lba img c) + unat (op_lba op) + unat (op_count op) \<le> 2 ^ 34" "apart (buf_fl op) (unat (op_count op)) (bounce_buf_fl s)" for op
    using emulated_disk [of img drv s' op] that w m assms(9) by (auto simp: ram8_def)
  then show ?thesis using r code h by blast
qed

theorem booted_disk_reads_witness:
  "\<exists>s' t. cdrom_boot io_ticks (disc_drivers img_disc) vars_sim 1 disc_sim = Some (0, s') \<and>
     send_disk_op (disc_drivers img_disc) \<lparr>op_lba = 1, buf_fl = 0x1000, op_drive = 2, op_count = 1, op_command = CMD_READ\<rparr> s' = Some (0, 1, t) \<and>
     ram8 t 0x1003 = of_nat 39427"
proof -
  have c: "el_media img_disc 36864 = 2" "el_lba img_disc 36864 = 19" by (simp_all add: img_disc_def img32_def img16_def le16_def)
  have "apart 0x1000 1 0xf0000"
    unfolding apart_def
  proof (intro allI impI)
    fix a :: u32 assume "unat (a - 0x1000) < 512 * 1"
    moreover have "a - 0xf0000 = (a - 0x1000) - of_nat 0xef000" by (simp add: algebra_simps)
    ultimately show "2048 \<le> unat (a - 0xf0000)" using unat_minus_of_nat [of "0xef000" "a - 0x1000"] by simp
  qed
  then have ap: "apart 0x1000 1 (bounce_buf_fl disc_sim)" by (simp add: disc_sim_def)
  let ?op = "\<lparr>op_lba = 1, buf_fl = 0x1000, op_drive = 2, op_count = 1, op_command = CMD_READ\<rparr>"
  have e: "cdemu_drive_gf disc_sim = 2" "drive_type (drives disc_sim 2) = DTYPE_CDEMU" by (simp_all add: disc_sim_def)
  note b = booted_disk_reads [OF disc_sim_works _ disc_sim_drive _ img_disc_catalog _ e(1) _ e(2), of vars_sim, unfolded c]
  obtain s' where s': "cdrom_boot io_ticks (disc_drivers img_disc) vars_sim 1 disc_sim = Some (0, s')" and
    reads: "op_drive op = 2 \<and> op_command op = CMD_READ \<and> unat (op_count op) \<le> 255 \<and>
       4 * unat (19 :: u32) + unat (op_lba op) + unat (op_count op) \<le> 2 ^ 34 \<and> apart (buf_fl op) (unat (op_count op)) (bounce_buf_fl disc_sim) \<Longrightarrow>
       (\<exists>t. send_disk_op (disc_drivers img_disc) op s' = Some (0, op_count op, t) \<and> (\<forall>a. unat (a - buf_fl op) < 512 * unat (op_count op) \<longrightarrow>
          ram8 t a = img_disc (2048 * unat (19 :: u32) + 512 * unat (op_lba op) + unat (a - buf_fl op))))" for op
    using b by auto
  obtain t where t: "send_disk_op (disc_drivers img_disc) ?op s' = Some (0, 1, t)"
    "\<forall>a. unat (a - 0x1000) < 512 \<longrightarrow> ram8 t a = img_disc (2048 * 19 + 512 + unat (a - 0x1000))"
    using reads [of ?op] ap by auto
  have "ram8 t 0x1003 = of_nat 39427" using t(2) [rule_format, of "0x1003"] by (simp add: img_disc_def)
  then show ?thesis using s' t(1) by blast
qed
end
