(* ===== verification/Scsi_Setup.thy ===== *)
theory Scsi_Setup
  imports Boot Cd_Boot
begin

text \<open>
  The set-up of a SCSI drive, \<open>scsi_drive_setup\<close> of \<open>seabios/src/hw/blockcmd.c\<close>: identification, readiness, capacity, and the
  entry in the boot list. \<open>CONFIG_QEMU_HARDWARE\<close> is off.
\<close>

section \<open>Strings\<close>

text \<open>What \<open>nullTrailingSpace\<close> does to its buffer, apart from the pointer that it returns.\<close>

definition trailing_nulled :: "string \<Rightarrow> string" where
  "trailing_nulled buf = rev (dropWhile blank (rev buf))"

lemma nullTrailingSpace_buf: "nullTrailingSpace buf = dropWhile blank (trailing_nulled buf)"
  by (simp add: nullTrailingSpace_def trailing_nulled_def)

definition MAXDESCSIZE :: nat where "MAXDESCSIZE = 80"

text \<open>\<open>ok\<close> says whether the allocation of the string succeeds.\<close>

definition znprintf :: "bool \<Rightarrow> nat \<Rightarrow> string \<Rightarrow> printf_arg list \<Rightarrow> string option option" where
  "znprintf ok sz fmt args = (if sz = 0 \<or> \<not> ok then Some None else map_option (\<lambda>r. Some (fst r)) (snprintf sz fmt args))"

text \<open>A field of the identification: \<open>n\<close> characters, without the blanks at its end.\<close>

definition inquiry_field :: "('v low, 'z) mach_scheme \<Rightarrow> u32 \<Rightarrow> nat \<Rightarrow> string" where
  "inquiry_field s a n = trailing_nulled (strtcpy (ram_string s a n) (of_nat n + 1))"

section \<open>The set-up\<close>

definition upd_drive :: "u32 \<Rightarrow> (drive_s \<Rightarrow> drive_s) \<Rightarrow> ('w, 'z) disk_mach_scheme \<Rightarrow> ('w, 'z) disk_mach_scheme" where
  "upd_drive d f s = s\<lparr>drives := (drives s)(d := f (drives s d))\<rparr>"

type_synonym ('v, 'z) setup_result = "(int \<times> boot_state \<times> ('v, 'z) dstate) option"

definition setup_cd :: "'v low boot_env \<Rightarrow> bool \<times> bool \<Rightarrow> u32 \<Rightarrow> printf_arg list \<Rightarrow> int \<Rightarrow> boot_state \<times> ('v, 'z) dstate \<Rightarrow> ('v, 'z) setup_result" where
  "setup_cd env ok drive args prio = (\<lambda>(b, s).
     do {
       let s = upd_drive drive (\<lambda>d. d\<lparr>blksize := 2048, drive_sectors := NOT 0\<rparr>) s;
       desc \<leftarrow> znprintf (fst ok) MAXDESCSIZE ''DVD/CD [%s Drive %s %s %s]'' args;
       Some (0, boot_add_cd (env\<lparr>env_drive := drives s\<rparr>) (snd ok) drive desc prio b, s)
     })"

definition setup_hd :: "'v low io \<Rightarrow> ('v, 'z) dstate drivers \<Rightarrow> stack_vars \<Rightarrow> 'v low boot_env \<Rightarrow> bool \<times> bool \<Rightarrow> u32 \<Rightarrow> disk_op_s \<Rightarrow>
    printf_arg list \<Rightarrow> int \<Rightarrow> boot_state \<times> ('v, 'z) dstate \<Rightarrow> ('v, 'z) setup_result" where
  "setup_hd io drv k env ok drive dop args prio = (\<lambda>(b, s).
     do {
       (ret, dop, s) \<leftarrow> scsi_is_ready io drv (sense_fl k) dop s;
       if ret \<noteq> 0 then Some (ret, b, s)
       else do {
         let (ret, dop, s) = cdb_read_capacity drv (capacity_fl k) dop s;
         if ret \<noteq> 0 then Some (ret, b, s)
         else do {
           let s = upd_drive drive (\<lambda>d. d\<lparr>blksize := ucast (swab32 (ram32 s (capacity_fl k + 4)))\<rparr>) s;
           if blksize (drives s drive) \<noteq> 512 then Some (- 1, b, s)
           else do {
             let s = upd_drive drive (\<lambda>d. d\<lparr>drive_sectors := ucast (swab32 (ram32 s (capacity_fl k))) + 1\<rparr>) s;
             desc \<leftarrow> znprintf (fst ok) MAXDESCSIZE ''%s Drive %s %s %s'' args;
             b \<leftarrow> boot_add_hd (env\<lparr>env_drive := drives s\<rparr>) (snd ok) drive desc prio b;
             Some (0, b, s)
           }
         }
       }
     })"

definition scsi_drive_setup :: "'v low io \<Rightarrow> ('v, 'z) dstate drivers \<Rightarrow> stack_vars \<Rightarrow> 'v low boot_env \<Rightarrow> bool \<times> bool \<Rightarrow> u32 \<Rightarrow>
    string \<Rightarrow> int \<Rightarrow> boot_state \<times> ('v, 'z) dstate \<Rightarrow> ('v, 'z) setup_result" where
  "scsi_drive_setup io drv k env ok drive label prio = (\<lambda>(b, s).
     (let (ret, dop, s) = cdb_get_inquiry drv (inquiry_fl k) (op_zero drive) s
      in if ret \<noteq> 0 then Some (ret, b, s)
         else (let data = inquiry_fl k;
                   args = [PStr label, PStr (inquiry_field s (data + 8) 8), PStr (inquiry_field s (data + 16) 16),
                           PStr (inquiry_field s (data + 32) 4)];
                   pdt = ram8 s data AND 0x1f;
                   s = upd_drive drive (\<lambda>d. d\<lparr>removable := (if ram8 s (data + 1) AND 0x80 \<noteq> 0 then 1 else 0)\<rparr>) s
               in if pdt = SCSI_TYPE_CDROM then setup_cd env ok drive args prio (b, s)
                  else setup_hd io drv k env ok drive dop args prio (b, s))))"

section \<open>Registered drives\<close>

lemma desc_formats:
  "\<exists>out. bvprintf ''DVD/CD [%s Drive %s %s %s]'' [PStr a, PStr b, PStr c, PStr d] = Some out"
  "\<exists>out. bvprintf ''%s Drive %s %s %s'' [PStr a, PStr b, PStr c, PStr d] = Some out"
proof -
  note f = bvprintf_skip [of "CHR '' ''"] bvprintf_skip [of "CHR '']''"] bvprintf.simps(1)
  have s: "bvprintf (CHR ''%'' # CHR ''s'' # rest) (PStr t # args) = map_option (\<lambda>out. t @ out) (bvprintf rest args)" for rest t args
    using bvprintf_s [of rest t args] by simp
  show "\<exists>out. bvprintf ''DVD/CD [%s Drive %s %s %s]'' [PStr a, PStr b, PStr c, PStr d] = Some out"
    "\<exists>out. bvprintf ''%s Drive %s %s %s'' [PStr a, PStr b, PStr c, PStr d] = Some out"
    by (simp_all add: bvprintf_skip s bvprintf.simps(1))
qed

lemma desc_printed:
  "bvprintf fmt args = Some out \<Longrightarrow> znprintf True MAXDESCSIZE fmt args = Some (Some (take 79 out))"
  by (simp add: znprintf_def MAXDESCSIZE_def snprintf_spec)

text \<open>What a set-up that succeeded has registered: the entry of a CD drive with blocks of 2048 bytes or of a disk with blocks of 512.\<close>

definition registered :: "u32 \<Rightarrow> int \<Rightarrow> boot_state \<Rightarrow> boot_state \<Rightarrow> ('v, 'z) dstate \<Rightarrow> bool" where
  "registered drive prio b b' s \<longleftrightarrow> (\<exists>desc typ dflt. length desc < MAXDESCSIZE \<and>
     (typ = IPL_TYPE_CDROM \<and> dflt = DefaultCDPrio b \<and> blksize (drives s drive) = 2048 \<and> drive_sectors (drives s drive) = NOT 0 \<or>
      typ = IPL_TYPE_HARDDISK \<and> dflt = DefaultHDPrio b \<and> blksize (drives s drive) = 512 \<and>
        0 < drive_sectors (drives s drive) \<and> drive_sectors (drives s drive) \<le> 2 ^ 32) \<and>
     (b' = b\<lparr>BootList := insert_entry (drives s) \<lparr>be_type = typ, be_data = drive, be_priority = defPrio prio dflt, be_description = desc\<rparr> (BootList b)\<rparr> \<or>
      b' = b \<and> typ = IPL_TYPE_HARDDISK \<and> se_value (usb_as_fixed_disks (boot_lbs b)) = 0 \<and> string_contains desc ''USB MSC'' \<noteq> 0))"

definition setup_ok :: "u32 \<Rightarrow> int \<Rightarrow> boot_state \<times> ('v, 'z) dstate \<Rightarrow> ('v, 'z) setup_result \<Rightarrow> bool" where
  "setup_ok drive prio = (\<lambda>(b, s). returns (\<lambda>(r, b', s'). (\<forall>d. d \<noteq> drive \<longrightarrow> drives s' d = drives s d) \<and> (r \<noteq> 0 \<longrightarrow> b' = b) \<and>
     (r = 0 \<longrightarrow> registered drive prio b b' s')))"

lemma setup_cd_ok: "setup_ok drive prio (b, s) (setup_cd env (True, True) drive [PStr p, PStr v, PStr q, PStr r] prio (b, s))"
proof -
  obtain out where o: "bvprintf ''DVD/CD [%s Drive %s %s %s]'' [PStr p, PStr v, PStr q, PStr r] = Some out"
    using desc_formats(1) by blast
  have l: "length (take 79 out) < MAXDESCSIZE" by (simp add: MAXDESCSIZE_def)
  show ?thesis
    unfolding setup_ok_def setup_cd_def returns_def registered_def using l
    by (auto simp: desc_printed [OF o] boot_add_cd_def bootentry_add_def upd_drive_def intro!: exI [of _ "take 79 out"])
qed

lemma capacity_bounds: "0 < (ucast (v :: u32) + 1 :: u64)" "(ucast (v :: u32) + 1 :: u64) \<le> 2 ^ 32"
proof -
  have u: "unat (ucast v :: u64) = unat v" using u32_unat_lt [of v] by (simp add: unsigned_ucast_eq take_bit_nat_eq_self)
  then have "unat (ucast v + 1 :: u64) = unat v + 1" using u32_unat_lt [of v] by (simp add: unat_word_ariths)
  then show "0 < (ucast v + 1 :: u64)" "(ucast v + 1 :: u64) \<le> 2 ^ 32"
    using u32_unat_lt [of v] by (simp_all add: word_less_nat_alt word_le_nat_alt)
qed

lemma hd_registered:
  assumes "length desc < MAXDESCSIZE" "blksize (drives s drive) = 512" "0 < drive_sectors (drives s drive)" "drive_sectors (drives s drive) \<le> 2 ^ 32"
  shows "\<exists>b'. boot_add_hd (env\<lparr>env_drive := drives s\<rparr>) True drive (Some desc) prio b = Some b' \<and> registered drive prio b b' s"
  using assms unfolding registered_def boot_add_hd_def bootentry_add_def by fastforce

lemma setup_hd_ok:
  assumes "commands_end io cyc c drv" "tsc_timer io cyc c s"
  shows "setup_ok drive prio (b, s) (setup_hd io drv k env (True, True) drive dop [PStr p, PStr v, PStr q, PStr r] prio (b, s))"
proof -
  obtain out where o: "bvprintf ''%s Drive %s %s %s'' [PStr p, PStr v, PStr q, PStr r] = Some out"
    using desc_formats(2) by blast
  obtain r1 dop1 s1 where w: "scsi_is_ready io drv (sense_fl k) dop s = Some (r1, dop1, s1)" and rr: "ready_result io cyc c dop s (r1, dop1, s1)"
    by (rule scsi_is_ready_returns [OF assms])
  have s1: "tsc_timer io cyc c s1" "drives s1 = drives s" using rr by (simp_all add: ready_result_def tables_def)
  obtain r2 dop2 s2 where c: "cdb_read_capacity drv (capacity_fl k) dop1 s1 = (r2, dop2, s2)" by (metis prod_cases3)
  have s2: "drives s2 = drives s" using run_cdb_ends(4) [OF assms(1) s1(1) c [unfolded cdb_read_capacity_def]] s1(2) by (simp add: tables_def)
  define s3 where "s3 = upd_drive drive (\<lambda>d. d\<lparr>blksize := ucast (swab32 (ram32 s2 (capacity_fl k + 4)))\<rparr>) s2"
  define s4 where "s4 = upd_drive drive (\<lambda>d. d\<lparr>drive_sectors := ucast (swab32 (ram32 s3 (capacity_fl k))) + 1\<rparr>) s3"
  have others: "d \<noteq> drive \<Longrightarrow> drives s3 d = drives s d \<and> drives s4 d = drives s d" for d by (simp add: s3_def s4_def upd_drive_def s2)
  have size: "0 < drive_sectors (drives s4 drive)" "drive_sectors (drives s4 drive) \<le> 2 ^ 32" "blksize (drives s4 drive) = blksize (drives s3 drive)"
    unfolding s4_def upd_drive_def using capacity_bounds by simp_all
  have l: "length (take 79 out) < MAXDESCSIZE" by (simp add: MAXDESCSIZE_def)
  have add: "\<exists>b'. boot_add_hd (env\<lparr>env_drive := drives s4\<rparr>) True drive (Some (take 79 out)) prio b = Some b' \<and> registered drive prio b b' s4"
    if "blksize (drives s3 drive) = 512" using that size by (intro hd_registered l) simp_all
  have run: "setup_hd io drv k env (True, True) drive dop [PStr p, PStr v, PStr q, PStr r] prio (b, s) =
    (if r1 \<noteq> 0 then Some (r1, b, s1) else if r2 \<noteq> 0 then Some (r2, b, s2) else if blksize (drives s3 drive) \<noteq> 512 then Some (- 1, b, s3)
     else map_option (\<lambda>b. (0, b, s4)) (boot_add_hd (env\<lparr>env_drive := drives s4\<rparr>) True drive (Some (take 79 out)) prio b))"
    unfolding setup_hd_def prod.case w c Let_def bind.simps s3_def [symmetric] s4_def [symmetric]
    by (simp add: desc_printed [OF o] map_option_case split: option.split)
  show ?thesis
    unfolding setup_ok_def prod.case run using add others s1(2) s2 by (auto simp: returns_def)
qed

text \<open>
  The set-up of a SCSI drive ends, whatever the drive answers, and tells the truth: the boot list gets an entry only if the
  set-up succeeds, with a description that fits its buffer, and a disk that is registered has blocks of 512 bytes and a size that is neither 0
  nor overflows; no other drive is touched.
\<close>

theorem scsi_drive_registered:
  assumes "commands_end io cyc c drv" "tsc_timer io cyc c s"
  shows "setup_ok drive prio (b, s) (scsi_drive_setup io drv k env (True, True) drive label prio (b, s))"
proof -
  obtain r1 dop1 s1 where q: "cdb_get_inquiry drv (inquiry_fl k) (op_zero drive) s = (r1, dop1, s1)" by (metis prod_cases3)
  have s1: "tsc_timer io cyc c s1" "drives s1 = drives s"
    using run_cdb_ends(1,4) [OF assms q [unfolded cdb_get_inquiry_def]] by (simp_all add: tables_def)
  define s2 where "s2 = upd_drive drive (\<lambda>d. d\<lparr>removable := (if ram8 s1 (inquiry_fl k + 1) AND 0x80 \<noteq> 0 then 1 else 0)\<rparr>) s1"
  have s2: "tsc_timer io cyc c s2" "\<forall>d. d \<noteq> drive \<longrightarrow> drives s2 d = drives s d"
    using s1 by (simp_all add: s2_def upd_drive_def tsc_timer_def)
  have weaken: "setup_ok drive prio (b, s2) m \<Longrightarrow> setup_ok drive prio (b, s) m" for m
    using s2(2) by (fastforce simp: setup_ok_def returns_def)
  have fail: "r1 \<noteq> 0 \<Longrightarrow> setup_ok drive prio (b, s) (Some (r1, b, s1))" using s1 by (simp add: setup_ok_def returns_def)
  show ?thesis
    unfolding scsi_drive_setup_def Let_def prod.case q s2_def [symmetric]
    by (auto intro!: weaken setup_cd_ok setup_hd_ok [OF assms(1) s2(1)] fail)
qed

end
