(* ===== verification/Mouse.thy ===== *)
theory Mouse
  imports Edd_Facts Ps2_Facts
begin

text \<open>
  The mouse, \<open>seabios/src/mouse.c\<close>: function C2h of interrupt 15h, and the packets of the mouse, which go to the handler
  that a program has installed. \<open>CONFIG_USB_MOUSE\<close> is off, so that all commands go to the PS/2 port. The variables are in
  the extended BIOS data area; the handler is the parameter \<open>handler\<close>: what a far call with a packet does to the world.
\<close>

section \<open>Constants\<close>

definition PSMOUSE_CMD_SETSCALE11 :: u16 where "PSMOUSE_CMD_SETSCALE11 = 0x00e6"
definition PSMOUSE_CMD_SETSCALE21 :: u16 where "PSMOUSE_CMD_SETSCALE21 = 0x00e7"
definition PSMOUSE_CMD_SETRES :: u16 where "PSMOUSE_CMD_SETRES = 0x10e8"
definition PSMOUSE_CMD_GETINFO :: u16 where "PSMOUSE_CMD_GETINFO = 0x03e9"
definition PSMOUSE_CMD_GETID :: u16 where "PSMOUSE_CMD_GETID = 0x02f2"
definition PSMOUSE_CMD_SETRATE :: u16 where "PSMOUSE_CMD_SETRATE = 0x10f3"
definition PSMOUSE_CMD_RESET_BAT :: u16 where "PSMOUSE_CMD_RESET_BAT = 0x02ff"

definition RET_EINVFUNCTION :: u8 where "RET_EINVFUNCTION = 0x01"
definition RET_EINVINPUT :: u8 where "RET_EINVINPUT = 0x02"
definition RET_EINTERFACE :: u8 where "RET_EINTERFACE = 0x03"
definition RET_ENEEDRESEND :: u8 where "RET_ENEEDRESEND = 0x04"
definition RET_ENOHANDLER :: u8 where "RET_ENOHANDLER = 0x05"

text \<open>Offsets in the extended BIOS data area.\<close>

abbreviation far_call_pointer :: u16 where "far_call_pointer \<equiv> 0x22"
abbreviation mouse_flag1 :: u16 where "mouse_flag1 \<equiv> 0x26"
abbreviation mouse_flag2 :: u16 where "mouse_flag2 \<equiv> 0x27"
abbreviation mouse_data :: u16 where "mouse_data \<equiv> 0x28"

section \<open>Function C2h\<close>

type_synonym ('v, 'z) mstate = "('v low, 'z) ps2_mach_scheme"
type_synonym ('r, 'v, 'z) mouse_service = "('r bregs_scheme \<times> ('v, 'z) mstate) option"

definition mouse_init :: "('v low, 'z) mach_scheme \<Rightarrow> ('v low, 'z) mach_scheme" where
  "mouse_init s = set_equipment_flags 0x04 0x04 s"

definition mouse_command :: "'v low io \<Rightarrow> u16 \<Rightarrow> u8 list \<Rightarrow> ('v, 'z) mstate \<Rightarrow> (int \<times> u8 list \<times> ('v, 'z) mstate) option" where
  "mouse_command io command param s = ps2_mouse_command io command param s"

text \<open>A command whose failure asks for a repetition; \<open>f\<close> puts what it has received into the registers.\<close>

definition mouse_do :: "'v low io \<Rightarrow> u16 \<Rightarrow> u8 list \<Rightarrow> (u8 list \<Rightarrow> 'r bregs_scheme \<Rightarrow> 'r bregs_scheme) \<Rightarrow> 'r bregs_scheme \<Rightarrow> ('v, 'z) mstate \<Rightarrow>
    ('r, 'v, 'z) mouse_service" where
  "mouse_do io command param f regs s =
     do {
       (ret, param, s) \<leftarrow> mouse_command io command param s;
       Some (if ret \<noteq> 0 then set_code_invalid RET_ENEEDRESEND regs else set_code_success (f param regs), s)
     }"

definition mouse_15c20000 :: "'v low io \<Rightarrow> 'r bregs_scheme \<Rightarrow> ('v, 'z) mstate \<Rightarrow> ('r, 'v, 'z) mouse_service" where
  "mouse_15c20000 io = mouse_do io PSMOUSE_CMD_DISABLE [] (\<lambda>_ regs. regs)"

definition mouse_15c20001 :: "'v low io \<Rightarrow> 'r bregs_scheme \<Rightarrow> ('v, 'z) mstate \<Rightarrow> ('r, 'v, 'z) mouse_service" where
  "mouse_15c20001 io regs s =
     (if GET_FARVAR (get_ebda_seg s) mouse_flag2 s AND 0x80 = 0 then Some (set_code_invalid RET_ENOHANDLER regs, s)
      else mouse_do io PSMOUSE_CMD_ENABLE [] (\<lambda>_ regs. regs) regs s)"

definition mouse_15c200XX :: "'r bregs_scheme \<Rightarrow> 'r bregs_scheme" where
  "mouse_15c200XX regs = set_code_unimplemented RET_EINVFUNCTION regs"

definition mouse_15c200 :: "'v low io \<Rightarrow> 'r bregs_scheme \<Rightarrow> ('v, 'z) mstate \<Rightarrow> ('r, 'v, 'z) mouse_service" where
  "mouse_15c200 io regs s =
     (if br_bh regs = 0x00 then mouse_15c20000 io regs s
      else if br_bh regs = 0x01 then mouse_15c20001 io regs s
      else Some (mouse_15c200XX regs, s))"

definition mouse_15c201 :: "'v low io \<Rightarrow> 'r bregs_scheme \<Rightarrow> ('v, 'z) mstate \<Rightarrow> ('r, 'v, 'z) mouse_service" where
  "mouse_15c201 io = mouse_do io PSMOUSE_CMD_RESET_BAT [0, 0] (\<lambda>p regs. regs\<lparr>br_bl := p ! 0, br_bh := p ! 1\<rparr>)"

definition sample_rates :: "u8 list" where
  "sample_rates = [10, 20, 40, 60, 80, 100, 200]"

definition mouse_15c202 :: "'v low io \<Rightarrow> 'r bregs_scheme \<Rightarrow> ('v, 'z) mstate \<Rightarrow> ('r, 'v, 'z) mouse_service" where
  "mouse_15c202 io regs s =
     (if length sample_rates \<le> unat (br_bh regs) then Some (set_code_invalid RET_EINVINPUT regs, s)
      else mouse_do io PSMOUSE_CMD_SETRATE [sample_rates ! unat (br_bh regs)] (\<lambda>_ regs. regs) regs s)"

definition mouse_15c203 :: "'v low io \<Rightarrow> 'r bregs_scheme \<Rightarrow> ('v, 'z) mstate \<Rightarrow> ('r, 'v, 'z) mouse_service" where
  "mouse_15c203 io regs s =
     (if 4 \<le> br_bh regs then Some (set_code_invalid RET_EINVINPUT regs, s)
      else mouse_do io PSMOUSE_CMD_SETRES [br_bh regs] (\<lambda>_ regs. regs) regs s)"

definition mouse_15c204 :: "'v low io \<Rightarrow> 'r bregs_scheme \<Rightarrow> ('v, 'z) mstate \<Rightarrow> ('r, 'v, 'z) mouse_service" where
  "mouse_15c204 io = mouse_do io PSMOUSE_CMD_GETID [0, 0] (\<lambda>p regs. regs\<lparr>br_bh := p ! 0\<rparr>)"

definition mouse_15c205 :: "'v low io \<Rightarrow> 'r bregs_scheme \<Rightarrow> ('v, 'z) mstate \<Rightarrow> ('r, 'v, 'z) mouse_service" where
  "mouse_15c205 io regs s =
     (if br_bh regs \<noteq> 3 then Some (set_code_invalid RET_EINTERFACE regs, s)
      else (let seg = get_ebda_seg s; s = SET_FARVAR seg mouse_flag1 0x00 s; s = SET_FARVAR seg mouse_flag2 (br_bh regs) s
            in mouse_15c201 io regs s))"

definition mouse_15c20600 :: "'v low io \<Rightarrow> 'r bregs_scheme \<Rightarrow> ('v, 'z) mstate \<Rightarrow> ('r, 'v, 'z) mouse_service" where
  "mouse_15c20600 io = mouse_do io PSMOUSE_CMD_GETINFO [0, 0, 0] (\<lambda>p regs. regs\<lparr>br_bl := p ! 0, br_cl := p ! 1, br_dl := p ! 2\<rparr>)"

definition mouse_15c20601 :: "'v low io \<Rightarrow> 'r bregs_scheme \<Rightarrow> ('v, 'z) mstate \<Rightarrow> ('r, 'v, 'z) mouse_service" where
  "mouse_15c20601 io = mouse_do io PSMOUSE_CMD_SETSCALE11 [] (\<lambda>_ regs. regs)"

definition mouse_15c20602 :: "'v low io \<Rightarrow> 'r bregs_scheme \<Rightarrow> ('v, 'z) mstate \<Rightarrow> ('r, 'v, 'z) mouse_service" where
  "mouse_15c20602 io = mouse_do io PSMOUSE_CMD_SETSCALE21 [] (\<lambda>_ regs. regs)"

definition mouse_15c206XX :: "'r bregs_scheme \<Rightarrow> 'r bregs_scheme" where
  "mouse_15c206XX regs = set_code_unimplemented RET_EINVFUNCTION regs"

definition mouse_15c206 :: "'v low io \<Rightarrow> 'r bregs_scheme \<Rightarrow> ('v, 'z) mstate \<Rightarrow> ('r, 'v, 'z) mouse_service" where
  "mouse_15c206 io regs s =
     (if br_bh regs = 0x00 then mouse_15c20600 io regs s
      else if br_bh regs = 0x01 then mouse_15c20601 io regs s
      else if br_bh regs = 0x02 then mouse_15c20602 io regs s
      else Some (mouse_15c206XX regs, s))"

definition mouse_15c207 :: "'v low io \<Rightarrow> 'r bregs_scheme \<Rightarrow> ('v, 'z) mstate \<Rightarrow> ('r, 'v, 'z) mouse_service" where
  "mouse_15c207 io regs s =
     do {
       let off = le16 (br_bl regs) (br_bh regs);
       let seg = get_ebda_seg s;
       let flags2 = GET_FARVAR seg mouse_flag2 s;
       (flags2, s) \<leftarrow>
         (if br_es regs = 0 \<and> off = 0
          then (if flags2 AND 0x80 \<noteq> 0
                then do { (_, _, s) \<leftarrow> mouse_command io PSMOUSE_CMD_DISABLE [] s; Some (flags2 AND NOT 0x80, s) }
                else Some (flags2, s))
          else Some (flags2 OR 0x80, s));
       let s = SET_FARVAR seg mouse_flag2 flags2 s;
       let s = put_far seg far_call_pointer (bytes16 off @ bytes16 (br_es regs)) s;
       Some (set_code_success regs, s)
     }"

definition mouse_15c2XX :: "'r bregs_scheme \<Rightarrow> 'r bregs_scheme" where
  "mouse_15c2XX regs = set_code_unimplemented RET_EINVFUNCTION regs"

definition handle_15c2 :: "'v low io \<Rightarrow> 'r bregs_scheme \<Rightarrow> ('v, 'z) mstate \<Rightarrow> ('r, 'v, 'z) mouse_service" where
  "handle_15c2 io regs s =
     (let al = br_al regs
      in if al = 0x00 then mouse_15c200 io regs s
         else if al = 0x01 then mouse_15c201 io regs s
         else if al = 0x02 then mouse_15c202 io regs s
         else if al = 0x03 then mouse_15c203 io regs s
         else if al = 0x04 then mouse_15c204 io regs s
         else if al = 0x05 then mouse_15c205 io regs s
         else if al = 0x06 then mouse_15c206 io regs s
         else if al = 0x07 then mouse_15c207 io regs s
         else Some (mouse_15c2XX regs, s))"

section \<open>Packets\<close>

text \<open>\<open>handler\<close> gets the address that it is called at, and status, X and Y.\<close>

type_synonym 'v mouse_handler = "u16 \<times> u16 \<Rightarrow> u8 \<times> u8 \<times> u8 \<Rightarrow> 'v low \<Rightarrow> 'v low"

definition invoke_mouse_handler :: "'v mouse_handler \<Rightarrow> u16 \<Rightarrow> ('v low, 'z) mach_scheme \<Rightarrow> ('v low, 'z) mach_scheme" where
  "invoke_mouse_handler handler seg s =
     (let status = GET_FARVAR seg mouse_data s; x = GET_FARVAR seg (mouse_data + 1) s; y = GET_FARVAR seg (mouse_data + 2) s;
          func = (get_far16 seg (far_call_pointer + 2) s, get_far16 seg far_call_pointer s)
      in s\<lparr>wd := handler func (status, x, y) (wd s)\<rparr>)"

definition process_mouse :: "'v mouse_handler \<Rightarrow> u8 \<Rightarrow> ('v low, 'z) mach_scheme \<Rightarrow> ('v low, 'z) mach_scheme" where
  "process_mouse handler data s =
     (let seg = get_ebda_seg s; flags1 = GET_FARVAR seg mouse_flag1 s; flags2 = GET_FARVAR seg mouse_flag2 s
      in if flags2 AND 0x80 = 0 then s
         else (let package_count = flags2 AND 0x07; index = flags1 AND 0x07;
                   s = SET_FARVAR seg (mouse_data + ucast index) data s
               in if index + 1 < package_count then SET_FARVAR seg mouse_flag1 (flags1 + 1) s
                  else invoke_mouse_handler handler seg (SET_FARVAR seg mouse_flag1 0 s)))"

section \<open>Every function answers\<close>

text \<open>\<open>answered\<close>: the carry flag tells whether AH is an error, the clock runs on, and the setting of the controller is the old one, or the
  old one with the mouse switched on or off.\<close>

definition answered :: "'v low io \<Rightarrow> ('v low \<Rightarrow> nat) \<Rightarrow> nat \<Rightarrow> u8 \<Rightarrow> 'r bregs_scheme \<times> ('v, 'z) mstate \<Rightarrow> bool" where
  "answered io cyc k ctr = (\<lambda>(r, s). (br_flags r AND F_CF \<noteq> 0 \<longleftrightarrow> br_ah r \<noteq> 0) \<and> tsc_timer io cyc k s \<and>
     Ps2ctr s \<in> {ctr, (ctr OR I8042_CTR_AUXINT) AND NOT I8042_CTR_AUXDIS, (ctr OR I8042_CTR_AUXDIS) AND NOT I8042_CTR_AUXINT})"

lemma mouse_command_answers:
  assumes "tsc_timer io cyc k s" "send_of command \<le> length param" "receive_of command \<le> length param"
  shows "returns (\<lambda>(ret, p, s'). tsc_timer io cyc k s' \<and> length p = length param \<and>
    Ps2ctr s' \<in> {Ps2ctr s, (Ps2ctr s OR I8042_CTR_AUXINT) AND NOT I8042_CTR_AUXDIS, (Ps2ctr s OR I8042_CTR_AUXDIS) AND NOT I8042_CTR_AUXINT})
    (mouse_command io command param s)"
proof -
  define t where "t = (if command = PSMOUSE_CMD_ENABLE then s\<lparr>Ps2ctr := (Ps2ctr s OR I8042_CTR_AUXINT) AND NOT I8042_CTR_AUXDIS\<rparr>
      else if command = PSMOUSE_CMD_DISABLE then s\<lparr>Ps2ctr := (Ps2ctr s OR I8042_CTR_AUXDIS) AND NOT I8042_CTR_AUXINT\<rparr> else s)"
  have ok: "ps2_ok io cyc k (Ps2ctr t) t" using assms(1) by (simp add: ps2_ok_def t_def tsc_timer_def)
  have run: "mouse_command io command param s = ps2_command io True command param t"
    by (simp add: mouse_command_def ps2_mouse_command_def t_def)
  have "Ps2ctr t \<in> {Ps2ctr s, (Ps2ctr s OR I8042_CTR_AUXINT) AND NOT I8042_CTR_AUXDIS, (Ps2ctr s OR I8042_CTR_AUXDIS) AND NOT I8042_CTR_AUXINT}"
    by (simp add: t_def)
  with ps2_command_returns [OF ok assms(2,3), of True] show ?thesis
    unfolding run by (elim returns_mono) (auto simp: ps2_ok_def)
qed

lemma status_codes:
  "br_flags (set_code_invalid c r) AND F_CF \<noteq> 0 \<longleftrightarrow> True" "br_ah (set_code_invalid c r) = c"
  "br_flags (set_code_unimplemented c r) AND F_CF \<noteq> 0 \<longleftrightarrow> True" "br_ah (set_code_unimplemented c r) = c"
  "br_flags (set_code_success r) AND F_CF = 0" "br_ah (set_code_success r) = 0"
proof -
  show "br_flags (set_code_success r) AND F_CF = 0"
    unfolding set_code_success_def using cf_simps(1) [of False "r\<lparr>br_ah := 0\<rparr>"] by blast
qed (simp_all add: set_code_invalid_def set_code_unimplemented_def set_code_success_def)

lemma mouse_do_answers:
  assumes "tsc_timer io cyc k s" "send_of command \<le> length param" "receive_of command \<le> length param"
  shows "returns (answered io cyc k (Ps2ctr s)) (mouse_do io command param f regs s)"
  unfolding mouse_do_def
proof (rule returns_bind [OF mouse_command_answers [OF assms]], goal_cases)
  case (1 r)
  then show ?case by (cases r) (auto simp: returns_def answered_def status_codes RET_ENEEDRESEND_def)
qed

lemma rejected_answers: "tsc_timer io cyc k s \<Longrightarrow> c \<noteq> 0 \<Longrightarrow> returns (answered io cyc k (Ps2ctr s)) (Some (set_code_invalid c regs, s))"
  "tsc_timer io cyc k s \<Longrightarrow> c \<noteq> 0 \<Longrightarrow> returns (answered io cyc k (Ps2ctr s)) (Some (set_code_unimplemented c regs, s))"
  by (simp_all add: returns_def answered_def status_codes)

lemma far_ps2 [simp]: "Ps2ctr (SET_FARVAR seg a v s) = Ps2ctr s" "tsc_timer io cyc k (SET_FARVAR seg a v s) = tsc_timer io cyc k s"
  by (simp_all add: SET_FARVAR_def tsc_timer_def)

lemma put_far_ps2 [simp]: "Ps2ctr (put_far seg a bs s) = Ps2ctr s" "tsc_timer io cyc k (put_far seg a bs s) = tsc_timer io cyc k s"
proof -
  have "Ps2ctr (fold (\<lambda>(i, b). SET_FARVAR seg (a + of_nat i) b) xs s) = Ps2ctr s \<and>
      tsc_timer io cyc k (fold (\<lambda>(i, b). SET_FARVAR seg (a + of_nat i) b) xs s) = tsc_timer io cyc k s" for xs
    by (induction xs arbitrary: s) (auto split: prod.splits)
  then show "Ps2ctr (put_far seg a bs s) = Ps2ctr s" "tsc_timer io cyc k (put_far seg a bs s) = tsc_timer io cyc k s"
    by (simp_all add: put_far_def)
qed

lemmas mouse_commands = PSMOUSE_CMD_SETSCALE11_def PSMOUSE_CMD_SETSCALE21_def PSMOUSE_CMD_SETRES_def PSMOUSE_CMD_GETINFO_def
  PSMOUSE_CMD_GETID_def PSMOUSE_CMD_SETRATE_def PSMOUSE_CMD_RESET_BAT_def PSMOUSE_CMD_ENABLE_def PSMOUSE_CMD_DISABLE_def

lemmas mouse_errors = RET_EINVFUNCTION_def RET_EINVINPUT_def RET_EINTERFACE_def RET_ENEEDRESEND_def RET_ENOHANDLER_def

lemma mouse_15c207_answers:
  assumes "tsc_timer io cyc k s"
  shows "returns (answered io cyc k (Ps2ctr s)) (mouse_15c207 io regs s)"
proof -
  have n: "send_of PSMOUSE_CMD_DISABLE \<le> length []" "receive_of PSMOUSE_CMD_DISABLE \<le> length []"
    by (simp_all add: send_of_def receive_of_def mouse_commands)
  note mouse_command_answers [OF assms n]
  then obtain r p s' where "mouse_command io PSMOUSE_CMD_DISABLE [] s = Some (r, p, s')" "tsc_timer io cyc k s'"
    "Ps2ctr s' \<in> {Ps2ctr s, (Ps2ctr s OR I8042_CTR_AUXINT) AND NOT I8042_CTR_AUXDIS, (Ps2ctr s OR I8042_CTR_AUXDIS) AND NOT I8042_CTR_AUXINT}"
    by (auto simp: returns_def)
  then show ?thesis using assms by (simp add: mouse_15c207_def Let_def returns_def answered_def status_codes)
qed

text \<open>
  C27. The mouse service always answers: whatever the registers hold and whatever the mouse and the controller do, function C2h of interrupt 15h
  ends, never stores more bytes than its buffers hold, reports with the carry flag whether AH is an error, and changes the
  setting of the controller at most by switching the mouse on or off.
\<close>

theorem mouse_service_answers:
  assumes "tsc_timer io cyc k s"
  shows "\<exists>r s'. handle_15c2 io regs s = Some (r, s') \<and> answered io cyc k (Ps2ctr s) (r, s')"
proof -
  note d = mouse_do_answers [OF assms] rejected_answers [OF assms]
  have rates: "length sample_rates = 7" by (simp add: sample_rates_def)
  define t where "t = SET_FARVAR (get_ebda_seg s) mouse_flag2 (br_bh regs) (SET_FARVAR (get_ebda_seg s) mouse_flag1 0 s)"
  have t: "tsc_timer io cyc k t" "Ps2ctr t = Ps2ctr s" using assms by (simp_all add: t_def)
  have c201: "returns (answered io cyc k (Ps2ctr s)) (mouse_15c201 io regs s)" "returns (answered io cyc k (Ps2ctr s)) (mouse_15c201 io regs t)"
    using mouse_do_answers [OF t(1), of PSMOUSE_CMD_RESET_BAT "[0, 0]"] d(1) [of PSMOUSE_CMD_RESET_BAT "[0, 0]"]
    by (simp_all add: mouse_15c201_def send_of_def receive_of_def mouse_commands t(2))
  have c205: "returns (answered io cyc k (Ps2ctr s)) (mouse_15c205 io regs s)"
    using c201(2) by (cases "br_bh regs = 3") (simp_all add: mouse_15c205_def Let_def t_def mouse_errors d)
  have c200: "returns (answered io cyc k (Ps2ctr s)) (mouse_15c200 io regs s)"
    by (simp add: mouse_15c200_def mouse_15c20000_def mouse_15c20001_def mouse_15c200XX_def d send_of_def receive_of_def mouse_commands mouse_errors)
  have c206: "returns (answered io cyc k (Ps2ctr s)) (mouse_15c206 io regs s)"
    by (simp add: mouse_15c206_def mouse_15c20600_def mouse_15c20601_def mouse_15c20602_def mouse_15c206XX_def d send_of_def receive_of_def
        mouse_commands mouse_errors)
  have rest: "returns (answered io cyc k (Ps2ctr s)) (mouse_15c202 io regs s)" "returns (answered io cyc k (Ps2ctr s)) (mouse_15c203 io regs s)"
    "returns (answered io cyc k (Ps2ctr s)) (mouse_15c204 io regs s)"
    by (simp_all add: mouse_15c202_def mouse_15c203_def mouse_15c204_def d send_of_def receive_of_def mouse_commands mouse_errors)
  have "returns (answered io cyc k (Ps2ctr s)) (handle_15c2 io regs s)"
    using c200 c201(1) c205 c206 rest mouse_15c207_answers [OF assms, of regs]
    by (simp add: handle_15c2_def Let_def mouse_15c2XX_def mouse_errors d)
  then show ?thesis by (auto simp: returns_def)
qed

section \<open>The packets of the mouse\<close>

lemma ebda_apart:
  assumes "0x50 \<le> seg" "f < 0x100"
  shows "seg_addr SEG_BDA f \<noteq> seg_addr seg a"
proof
  have u: "unat (ucast x :: u32) = unat x" for x :: u16
    using u16_unat_lt [of x] by (simp add: unsigned_ucast_eq take_bit_nat_eq_self)
  have "unat (seg_addr seg a) = 16 * unat seg + unat a" "unat (seg_addr SEG_BDA f) = 0x400 + unat f"
    using u16_unat_lt [of a] u16_unat_lt [of f] u16_unat_lt [of seg]
    by (simp_all add: seg_addr_def SEG_BDA_def push_bit_eq_mult unat_word_ariths u)
  moreover have "80 \<le> unat seg" "unat f < 256" using assms by (simp_all add: word_le_nat_alt word_less_nat_alt)
  moreover assume "seg_addr SEG_BDA f = seg_addr seg a"
  ultimately show False by simp
qed

text \<open>A handler for packets of three bytes, of which \<open>i\<close> have come.\<close>

definition mouse_installed :: "u16 \<Rightarrow> u16 \<times> u16 \<Rightarrow> u8 \<Rightarrow> ('v low, 'z) mach_scheme \<Rightarrow> bool" where
  "mouse_installed seg func i s \<longleftrightarrow> get_ebda_seg s = seg \<and> GET_FARVAR seg mouse_flag1 s = i \<and> GET_FARVAR seg mouse_flag2 s = 0x83 \<and>
     get_far16 seg (far_call_pointer + 2) s = fst func \<and> get_far16 seg far_call_pointer s = snd func"

lemma ebda_seg_set: "0x50 \<le> seg \<Longrightarrow> get_ebda_seg (SET_FARVAR seg a v s) = get_ebda_seg s"
  using ebda_apart [of seg ebda_seg a] ebda_apart [of seg "ebda_seg + 1" a]
  by (simp add: get_ebda_seg_def get16_def bda_of_def SET_FARVAR_def)

lemma installed_set:
  assumes "mouse_installed seg func i s" "0x50 \<le> seg"
  shows "mouse_installed seg func j (SET_FARVAR seg mouse_flag1 j s)"
    "0x28 \<le> a \<Longrightarrow> mouse_installed seg func i (SET_FARVAR seg a v s)"
  using assms by (auto simp: mouse_installed_def ebda_seg_set get_set_far get_far16_def word_le_nat_alt)

lemma dev_set: "dev (wd (SET_FARVAR seg a v s)) = dev (wd s)"
  by (simp add: SET_FARVAR_def)

lemma first_bytes:
  assumes "mouse_installed seg func i s" "i = 0 \<or> i = 1"
  shows "process_mouse h d s = SET_FARVAR seg mouse_flag1 (i + 1) (SET_FARVAR seg (mouse_data + ucast i) d s)"
  using assms by (auto simp: process_mouse_def Let_def mouse_installed_def)

lemma last_byte:
  assumes "mouse_installed seg func 2 s"
  shows "process_mouse h d s = invoke_mouse_handler h seg (SET_FARVAR seg mouse_flag1 0 (SET_FARVAR seg (mouse_data + 2) d s))"
  using assms by (auto simp: process_mouse_def Let_def mouse_installed_def)

text \<open>
  The contract of a handler: it does \<open>effect\<close> to the devices, and leaves the variables of the mouse alone.
\<close>

definition handler_does :: "(u16 \<times> u16 \<Rightarrow> u8 \<times> u8 \<times> u8 \<Rightarrow> 'v \<Rightarrow> 'v) \<Rightarrow> u16 \<Rightarrow> u16 \<times> u16 \<Rightarrow> 'v mouse_handler \<Rightarrow> bool" where
  "handler_does effect seg func h \<longleftrightarrow> (\<forall>p w. dev (h func p w) = effect func p (dev w) \<and>
     (\<forall>a\<in>{seg_addr SEG_BDA ebda_seg, seg_addr SEG_BDA (ebda_seg + 1)} \<union> (\<lambda>i. seg_addr seg (far_call_pointer + of_nat i)) ` {..<6}.
        ram (h func p w) a = ram w a))"

lemma handler_keeps:
  assumes "handler_does effect seg func h" "mouse_installed seg func i s"
  shows "mouse_installed seg func i (s\<lparr>wd := h func p (wd s)\<rparr>)" "dev (h func p (wd s)) = effect func p (dev (wd s))"
proof -
  have k: "ram (h func p w) a = ram w a"
    if "a \<in> {seg_addr SEG_BDA ebda_seg, seg_addr SEG_BDA (ebda_seg + 1)} \<union> (\<lambda>i. seg_addr seg (far_call_pointer + of_nat i)) ` {..<6}" for a w
    using assms(1) that unfolding handler_does_def by blast
  have "seg_addr seg (far_call_pointer + of_nat i) \<in> (\<lambda>i. seg_addr seg (far_call_pointer + of_nat i)) ` {..<6}" if "i < 6" for i
    using that by blast
  note f = this [of 0] this [of 1] this [of 2] this [of 3] this [of 4] this [of 5]
  have "ram (h func p w) (seg_addr SEG_BDA 0xe) = ram w (seg_addr SEG_BDA 0xe)" "ram (h func p w) (seg_addr SEG_BDA 0xf) = ram w (seg_addr SEG_BDA 0xf)"
    "ram (h func p w) (seg_addr seg 0x22) = ram w (seg_addr seg 0x22)" "ram (h func p w) (seg_addr seg 0x23) = ram w (seg_addr seg 0x23)"
    "ram (h func p w) (seg_addr seg 0x24) = ram w (seg_addr seg 0x24)" "ram (h func p w) (seg_addr seg 0x25) = ram w (seg_addr seg 0x25)"
    "ram (h func p w) (seg_addr seg 0x26) = ram w (seg_addr seg 0x26)" "ram (h func p w) (seg_addr seg 0x27) = ram w (seg_addr seg 0x27)" for w
    using f by (intro k; simp)+
  then show "mouse_installed seg func i (s\<lparr>wd := h func p (wd s)\<rparr>)"
    using assms(2) by (simp add: mouse_installed_def get_ebda_seg_def get16_def bda_of_def GET_FARVAR_def get_far16_def)
  show "dev (h func p (wd s)) = effect func p (dev (wd s))" using assms(1) unfolding handler_does_def by blast
qed

lemma packet_delivered:
  assumes "handler_does effect seg func h" "mouse_installed seg func 0 s" "0x50 \<le> seg" "s' = fold (process_mouse h) [a, b, c] s"
  shows "mouse_installed seg func 0 s'" "dev (wd s') = effect func (a, b, c) (dev (wd s))"
proof -
  define s1 where "s1 = SET_FARVAR seg mouse_flag1 1 (SET_FARVAR seg mouse_data a s)"
  define s2 where "s2 = SET_FARVAR seg mouse_flag1 2 (SET_FARVAR seg (mouse_data + 1) b s1)"
  define s3 where "s3 = SET_FARVAR seg mouse_flag1 0 (SET_FARVAR seg (mouse_data + 2) c s2)"
  have 1: "process_mouse h a s = s1" using first_bytes [OF assms(2), of h a] by (simp add: s1_def)
  have i1: "mouse_installed seg func 1 s1"
    unfolding s1_def by (intro installed_set(1) [OF installed_set(2) [OF assms(2)]] assms(3)) simp
  have 2: "process_mouse h b s1 = s2" using first_bytes [OF i1, of h b] by (simp add: s2_def)
  have i2: "mouse_installed seg func 2 s2"
    unfolding s2_def by (intro installed_set(1) [OF installed_set(2) [OF i1]] assms(3)) simp
  have i3: "mouse_installed seg func 0 s3"
    unfolding s3_def by (intro installed_set(1) [OF installed_set(2) [OF i2]] assms(3)) simp
  have d: "GET_FARVAR seg mouse_data s3 = a" "GET_FARVAR seg (mouse_data + 1) s3 = b" "GET_FARVAR seg (mouse_data + 2) s3 = c"
    by (simp_all add: s3_def s2_def s1_def get_set_far)
  have "invoke_mouse_handler h seg s3 = s3\<lparr>wd := h func (a, b, c) (wd s3)\<rparr>"
    using i3 unfolding invoke_mouse_handler_def Let_def d by (cases func) (simp add: mouse_installed_def)
  then have s': "s' = s3\<lparr>wd := h func (a, b, c) (wd s3)\<rparr>"
    using assms(4) last_byte [OF i2, of h c] by (simp add: 1 2 s3_def)
  have "dev (wd s3) = dev (wd s)" by (simp add: s3_def s2_def s1_def dev_set)
  then show "mouse_installed seg func 0 s'" "dev (wd s') = effect func (a, b, c) (dev (wd s))"
    using handler_keeps [OF assms(1) i3] by (simp_all add: s')
qed

definition packet_bytes :: "u8 \<times> u8 \<times> u8 \<Rightarrow> u8 list" where
  "packet_bytes = (\<lambda>(a, b, c). [a, b, c])"

text \<open>
  C21. The handler gets the packets: the bytes of a mouse with packets of three bytes reach the installed handler as whole packets, each once and in
  their order, at its address, and it is not called in between.
\<close>

theorem mouse_packets_delivered:
  assumes "handler_does effect seg func h" "mouse_installed seg func 0 s" "0x50 \<le> seg"
  shows "dev (wd (fold (process_mouse h) (concat (map packet_bytes ps)) s)) = fold (effect func) ps (dev (wd s))"
  using assms(2)
proof (induction ps arbitrary: s)
  case (Cons p ps)
  obtain a b c where p: "p = (a, b, c)" by (metis prod_cases3)
  note d = packet_delivered [OF assms(1) Cons.prems assms(3) refl, of a b c]
  show ?case using Cons.IH [OF d(1)] d(2) by (simp add: p packet_bytes_def)
qed simp


section \<open>Witnesses\<close>

definition mouse_sim :: "'d \<Rightarrow> ('d low, unit) ps2_mach_scheme" where
  "mouse_sim d = \<lparr>TimerKHz = 1000, TimerPort = 0, ShiftTSC = 0, TimerLast = 0,
     wd = \<lparr>ram = (\<lambda>_. 0)(0x40f := 0x9f, 0x9f022 := 0x20, 0x9f025 := 0x10, 0x9f027 := 0x83), Century = 0x20, RTCusers = 0, int1c_reentry = 0, dev = d\<rparr>,
     Ps2ctr = 0x61, has_ps2_keyboard = True\<rparr>"

theorem mouse_service_answers_witness:
  "\<exists>r s'. handle_15c2 io_ticks (bregs_zero\<lparr>br_al := 5, br_bh := 3\<rparr>) (mouse_sim 0) = Some (r, s') \<and>
     answered io_ticks dev 0 0x61 (r, s')"
proof -
  have "tsc_timer io_ticks dev 0 (mouse_sim 0)" by (rule ticks_timer) (simp_all add: mouse_sim_def KHZ_MAX_def)
  from mouse_service_answers [OF this] show ?thesis by (simp add: mouse_sim_def)
qed

text \<open>A handler that keeps a log.\<close>

definition log_handler :: "((u16 \<times> u16) \<times> (u8 \<times> u8 \<times> u8)) list mouse_handler" where
  "log_handler func p w = w\<lparr>dev := dev w @ [(func, p)]\<rparr>"

theorem mouse_packets_delivered_witness:
  "dev (wd (fold (process_mouse log_handler) [8, 1, 2, 8, 255, 3] (mouse_sim []))) = [((0x1000, 0x20), (8, 1, 2)), ((0x1000, 0x20), (8, 255, 3))]"
proof -
  have h: "handler_does (\<lambda>func p d. d @ [(func, p)]) 0x9f00 (0x1000, 0x20) log_handler" by (simp add: handler_does_def log_handler_def)
  have i: "mouse_installed 0x9f00 (0x1000, 0x20) 0 (mouse_sim [])"
    by (simp add: mouse_installed_def mouse_sim_def get_ebda_seg_def get16_def bda_of_def GET_FARVAR_def get_far16_def seg_addr_def SEG_BDA_def le16_def)
  show ?thesis
    using mouse_packets_delivered [OF h i, of "[(8, 1, 2), (8, 255, 3)]"] by (simp add: packet_bytes_def mouse_sim_def)
qed
end
