(* ===== verification/Int15.thy ===== *)
theory Int15
  imports Mouse Tod Memmap Disk
begin

text \<open>
  Interrupt 15h, \<open>seabios/src/system.c\<close>: the A20 gate, the move of blocks above 1 MB, the sizes of the memory and the memory map, the switch to
  protected mode, and the dispatch to the services of other files. The processor that copies a block is modelled with its
  descriptors; \<open>None\<close> is a fault of the processor, after which the machine shuts down, or a call that does not return.
\<close>

section \<open>State\<close>

text \<open>The high halves of the general registers, and the segment of the return address.\<close>

record sregs = dregs +
  br_eax_hi :: u16
  br_ebx_hi :: u16
  br_ecx_hi :: u16
  br_edx_hi :: u16
  code_seg :: u16

text \<open>What the start-up has found out: the memory map, the memory below 4 GB, and whether the start-up is over.\<close>

record 'w sys_mach = "'w ps2_mach" +
  sys_e820 :: "e820entry list"
  sys_ram_size :: u32
  sys_in_post :: bool

type_synonym ('v, 'z) sstate = "('v low, 'z) sys_mach_scheme"

definition get_reg32 :: "u16 \<Rightarrow> u16 \<Rightarrow> u32" where
  "get_reg32 hi lo = push_bit 16 (ucast hi) OR ucast lo"

definition get_eax :: "sregs \<Rightarrow> u32" where "get_eax r = get_reg32 (br_eax_hi r) (get_ax r)"
definition get_ebx :: "sregs \<Rightarrow> u32" where "get_ebx r = get_reg32 (br_ebx_hi r) (get_bx r)"
definition get_ecx :: "sregs \<Rightarrow> u32" where "get_ecx r = get_reg32 (br_ecx_hi r) (get_cx r)"
definition get_edx :: "sregs \<Rightarrow> u32" where "get_edx r = get_reg32 (br_edx_hi r) (get_dx r)"

definition set_eax :: "u32 \<Rightarrow> sregs \<Rightarrow> sregs" where
  "set_eax v r = set_ax (ucast v) (r\<lparr>br_eax_hi := ucast (drop_bit 16 v)\<rparr>)"

definition set_ebx :: "u32 \<Rightarrow> sregs \<Rightarrow> sregs" where
  "set_ebx v r = set_bx (ucast v) (r\<lparr>br_ebx_hi := ucast (drop_bit 16 v)\<rparr>)"

definition set_ecx :: "u32 \<Rightarrow> sregs \<Rightarrow> sregs" where
  "set_ecx v r = set_cx (ucast v) (r\<lparr>br_ecx_hi := ucast (drop_bit 16 v)\<rparr>)"

section \<open>The A20 gate\<close>

definition PORT_A20 :: u16 where "PORT_A20 = 0x0092"
definition A20_ENABLE_BIT :: u8 where "A20_ENABLE_BIT = 0x02"

definition set_a20 :: "'w io \<Rightarrow> bool \<Rightarrow> ('w, 'z) mach_scheme \<Rightarrow> bool \<times> ('w, 'z) mach_scheme" where
  "set_a20 io cond s =
     (case inb io PORT_A20 s of (oldval, s) \<Rightarrow>
        (oldval AND A20_ENABLE_BIT \<noteq> 0,
         outb io (if cond then oldval OR A20_ENABLE_BIT else oldval AND NOT A20_ENABLE_BIT) PORT_A20 s))"

definition handle_152400 :: "'w io \<Rightarrow> 'r bregs_scheme \<Rightarrow> ('w, 'z) mach_scheme \<Rightarrow> 'r bregs_scheme \<times> ('w, 'z) mach_scheme" where
  "handle_152400 io regs s = (set_code_success regs, snd (set_a20 io False s))"

definition handle_152401 :: "'w io \<Rightarrow> 'r bregs_scheme \<Rightarrow> ('w, 'z) mach_scheme \<Rightarrow> 'r bregs_scheme \<times> ('w, 'z) mach_scheme" where
  "handle_152401 io regs s = (set_code_success regs, snd (set_a20 io True s))"

definition handle_152402 :: "'w io \<Rightarrow> 'r bregs_scheme \<Rightarrow> ('w, 'z) mach_scheme \<Rightarrow> 'r bregs_scheme \<times> ('w, 'z) mach_scheme" where
  "handle_152402 io regs s =
     (case inb io PORT_A20 s of (v, s) \<Rightarrow> (set_code_success (regs\<lparr>br_al := (if v AND A20_ENABLE_BIT \<noteq> 0 then 1 else 0)\<rparr>), s))"

definition handle_152403 :: "'r bregs_scheme \<Rightarrow> 'r bregs_scheme" where
  "handle_152403 regs = set_code_success (set_bx 3 regs)"

definition handle_1524XX :: "'r bregs_scheme \<Rightarrow> 'r bregs_scheme" where
  "handle_1524XX regs = set_code_unimplemented RET_EUNSUPPORTED regs"

definition handle_1524 :: "'w io \<Rightarrow> 'r bregs_scheme \<Rightarrow> ('w, 'z) mach_scheme \<Rightarrow> 'r bregs_scheme \<times> ('w, 'z) mach_scheme" where
  "handle_1524 io regs s =
     (if br_al regs = 0x00 then handle_152400 io regs s
      else if br_al regs = 0x01 then handle_152401 io regs s
      else if br_al regs = 0x02 then handle_152402 io regs s
      else if br_al regs = 0x03 then (handle_152403 regs, s)
      else (handle_1524XX regs, s))"

definition handle_1552 :: "'r bregs_scheme \<Rightarrow> 'r bregs_scheme" where
  "handle_1552 regs = set_code_success regs"

section \<open>Descriptors\<close>

text \<open>The macros of \<open>x86.h\<close>.\<close>

definition GDT_CODE :: u64 where "GDT_CODE = push_bit 40 0x9b"
definition GDT_DATA :: u64 where "GDT_DATA = push_bit 40 0x93"
definition GDT_G :: u64 where "GDT_G = push_bit 55 1"
definition GDT_BASE :: "u32 \<Rightarrow> u64" where
  "GDT_BASE v = push_bit 32 (ucast v AND 0xff000000) OR push_bit 16 (ucast v AND 0x00ffffff)"
definition GDT_LIMIT :: "u32 \<Rightarrow> u64" where
  "GDT_LIMIT v = push_bit 32 (ucast v AND 0x000f0000) OR (ucast v AND 0x0000ffff)"
definition GDT_GRANLIMIT :: "u32 \<Rightarrow> u64" where
  "GDT_GRANLIMIT v = GDT_G OR GDT_LIMIT (drop_bit 12 v)"

definition BUILD_BIOS_ADDR :: u32 where "BUILD_BIOS_ADDR = 0xf0000"
definition BUILD_BIOS_SIZE :: u32 where "BUILD_BIOS_SIZE = 0x10000"

text \<open>What the processor reads from a descriptor: base, access rights, and the final byte of the segment.\<close>

definition desc_base :: "u64 \<Rightarrow> u32" where
  "desc_base d = ucast (drop_bit 16 d AND 0x00ffffff) OR push_bit 24 (ucast (drop_bit 56 d))"

definition desc_access :: "u64 \<Rightarrow> u8" where
  "desc_access d = ucast (drop_bit 40 d)"

definition desc_limit :: "u64 \<Rightarrow> nat" where
  "desc_limit d =
     (let l = unat (d AND 0xffff) + 65536 * unat (drop_bit 48 d AND 0xf)
      in if d AND GDT_G \<noteq> 0 then 4096 * l + 4095 else l)"

text \<open>Present segments of code or data; data that grows down is outside of its limit.\<close>

definition seg_present :: "u64 \<Rightarrow> bool" where
  "seg_present d \<longleftrightarrow> desc_access d AND 0x90 = 0x90"

definition seg_readable :: "u64 \<Rightarrow> bool" where
  "seg_readable d \<longleftrightarrow> seg_present d \<and> (desc_access d AND 0x08 \<noteq> 0 \<longrightarrow> desc_access d AND 0x02 \<noteq> 0)"

definition seg_writable :: "u64 \<Rightarrow> bool" where
  "seg_writable d \<longleftrightarrow> seg_present d \<and> desc_access d AND 0x0a = 0x02"

definition in_limit :: "u64 \<Rightarrow> nat \<Rightarrow> bool" where
  "in_limit d final \<longleftrightarrow>
     (if desc_access d AND 0x0c = 0x04 then desc_limit d < final - 1 \<and> (d AND push_bit 54 1 \<noteq> 0 \<or> final \<le> 65535) else final \<le> desc_limit d)"

section \<open>The move of a block\<close>

text \<open>\<open>rep movsw\<close> with 16-bit addresses: the offsets start at 0 and wrap around at 64 KB.\<close>

fun movsw_seg :: "u64 \<Rightarrow> u64 \<Rightarrow> u16 \<Rightarrow> nat \<Rightarrow> mem \<Rightarrow> mem option" where
  "movsw_seg src dst off 0 m = Some m"
| "movsw_seg src dst off (Suc n) m =
     (if in_limit src (unat off + 1) \<and> in_limit dst (unat off + 1)
      then (let a = desc_base src + ucast off; b = desc_base dst + ucast off
            in movsw_seg src dst (off + 2) n (m(b := m a, b + 1 := m (a + 1))))
      else None)"

text \<open>\<open>ss\<close> is the stack segment. The descriptors of the table are loaded after they have been filled in.\<close>

definition fill_gdt :: "u16 \<Rightarrow> u16 \<Rightarrow> u16 \<Rightarrow> ('v, 'z) sstate \<Rightarrow> ('v, 'z) sstate" where
  "fill_gdt ss seg si s =
     (let s = put_far seg (si + 8) (bytes64 (GDT_DATA OR GDT_LIMIT 47 OR GDT_BASE (MAKE_FLATPTR seg si))) s;
          lim = (if sys_in_post s then GDT_GRANLIMIT 0xffffffff else GDT_LIMIT 0x0ffff);
          s = put_far seg (si + 32) (bytes64 (GDT_CODE OR lim OR GDT_BASE BUILD_BIOS_ADDR)) s
      in put_far seg (si + 40) (bytes64 (GDT_DATA OR lim OR GDT_BASE (MAKE_FLATPTR ss 0))) s)"

text \<open>
  A descriptor that is loaded is marked as accessed in the table. The table does not cross the end of its segment, and the block does not
  overwrite the descriptors that the processor still has to load.
\<close>

definition load_desc :: "u16 \<Rightarrow> u16 \<Rightarrow> ('v, 'z) sstate \<Rightarrow> u64 \<times> ('v, 'z) sstate" where
  "load_desc seg off s =
     (let d = get_far64 seg off s in (d, SET_FARVAR seg (off + 5) (desc_access d OR 1) s))"

definition handle_1587 :: "'v low io \<Rightarrow> u16 \<Rightarrow> sregs \<Rightarrow> ('v, 'z) sstate \<Rightarrow> (sregs \<times> ('v, 'z) sstate) option" where
  "handle_1587 io ss regs s =
     do {
       let (prev_a20, s) = set_a20 io True s;
       let seg = br_es regs;
       let si = br_si regs;
       let s = fill_gdt ss seg si s;
       let (src, s) = load_desc seg (si + 16) s;
       let (dst, s) = load_desc seg (si + 24) s;
       m \<leftarrow> (if seg_readable src \<and> seg_writable dst then movsw_seg src dst 0 (unat (get_cx regs)) (ram (wd s)) else None);
       let s = s\<lparr>wd := (wd s)\<lparr>ram := m\<rparr>\<rparr>;
       Some (set_code_success regs, snd (set_a20 io prev_a20 s))
     }"

section \<open>Memory sizes\<close>

definition handle_1588 :: "sregs \<Rightarrow> ('v, 'z) sstate \<Rightarrow> sregs" where
  "handle_1588 regs s =
     (let rs = sys_ram_size s
      in set_success (set_ax (if 64 * 1024 * 1024 < rs then 63 * 1024 else ucast ((rs - 1 * 1024 * 1024) div 1024)) regs))"

definition handle_15e801 :: "sregs \<Rightarrow> ('v, 'z) sstate \<Rightarrow> sregs" where
  "handle_15e801 regs s =
     (let rs = sys_ram_size s;
          (cx, dx) = (if 16 * 1024 * 1024 < rs then (15 * 1024, ucast ((rs - 16 * 1024 * 1024) div (64 * 1024)))
                      else (ucast ((rs - 1 * 1024 * 1024) div 1024), 0))
      in set_success (set_bx dx (set_ax cx (set_dx dx (set_cx cx regs)))))"

section \<open>The memory map\<close>

definition SMAP :: u32 where "SMAP = 0x534D4150"

definition e820_bytes :: "e820entry \<Rightarrow> u8 list" where
  "e820_bytes e = bytes64 (e_start e) @ bytes64 (e_size e) @ bytes32 (e_type e)"

definition handle_15e820 :: "sregs \<Rightarrow> ('v, 'z) sstate \<Rightarrow> sregs \<times> ('v, 'z) sstate" where
  "handle_15e820 regs s =
     (let l = sys_e820 s; count = length l; i = unat (get_bx regs)
      in if get_edx regs \<noteq> SMAP \<or> count \<le> i \<or> get_ecx regs < 20 then (set_code_invalid RET_EUNSUPPORTED regs, s)
         else (let s = put_far (br_es regs) (br_di regs) (e820_bytes (l ! i)) s;
                   regs = (if int i = int count - 1 then set_ebx 0 regs else set_ebx (get_ebx regs + 1) regs)
               in (set_success (set_ecx 20 (set_eax SMAP regs)), s)))"

definition handle_15e8XX :: "'r bregs_scheme \<Rightarrow> 'r bregs_scheme" where
  "handle_15e8XX regs = set_code_unimplemented RET_EUNSUPPORTED regs"

definition handle_15e8 :: "sregs \<Rightarrow> ('v, 'z) sstate \<Rightarrow> sregs \<times> ('v, 'z) sstate" where
  "handle_15e8 regs s =
     (if br_al regs = 0x01 then (handle_15e801 regs s, s)
      else if br_al regs = 0x20 then handle_15e820 regs s
      else (handle_15e8XX regs, s))"

section \<open>Other services\<close>

definition handle_1589 :: "'v low io \<Rightarrow> sregs \<Rightarrow> ('v, 'z) sstate \<Rightarrow> sregs \<times> ('v, 'z) sstate" where
  "handle_1589 io regs s =
     (let s = snd (set_a20 io True s);
          s = pic_reset io (br_bl regs) (br_bh regs) s;
          s = put_far (br_es regs) (br_si regs + 56)
                (bytes64 (GDT_CODE OR GDT_LIMIT (BUILD_BIOS_SIZE - 1) OR GDT_BASE BUILD_BIOS_ADDR)) s
      in (set_code_success (regs\<lparr>br_ds := 24, br_es := 32, code_seg := 48\<rparr>), s))"

definition handle_1590 :: "'r bregs_scheme \<Rightarrow> 'r bregs_scheme" where "handle_1590 regs = regs"
definition handle_1591 :: "'r bregs_scheme \<Rightarrow> 'r bregs_scheme" where "handle_1591 regs = regs"

definition handle_154f :: "'r bregs_scheme \<Rightarrow> 'r bregs_scheme" where
  "handle_154f regs = set_invalid regs"

text \<open>\<open>BIOS_CONFIG_TABLE\<close> is at a fixed place.\<close>

definition handle_15c0 :: "'r bregs_scheme \<Rightarrow> 'r bregs_scheme" where
  "handle_15c0 regs = set_code_success (set_bx 0xe6f5 (regs\<lparr>br_es := SEG_BIOS\<rparr>))"

definition handle_15c1 :: "'r bregs_scheme \<Rightarrow> ('v low, 'z) mach_scheme \<Rightarrow> 'r bregs_scheme" where
  "handle_15c1 regs s = set_success (regs\<lparr>br_es := get_ebda_seg s\<rparr>)"

definition handle_15XX :: "'r bregs_scheme \<Rightarrow> 'r bregs_scheme" where
  "handle_15XX regs = set_code_unimplemented RET_EUNSUPPORTED regs"

text \<open>
  Function 53h without \<open>CONFIG_APMBIOS\<close>, and functions 5Fh and 7Fh, which exist for some other boards only: no handler is installed.
\<close>

definition handle_1553 :: "'r bregs_scheme \<Rightarrow> 'r bregs_scheme" where
  "handle_1553 regs = set_code_invalid RET_EUNSUPPORTED regs"

definition handle_155fXX :: "'r bregs_scheme \<Rightarrow> 'r bregs_scheme" where
  "handle_155fXX regs = set_code_unimplemented RET_EUNSUPPORTED regs"

definition handle_157fXX :: "'r bregs_scheme \<Rightarrow> 'r bregs_scheme" where
  "handle_157fXX regs = set_code_unimplemented RET_EUNSUPPORTED regs"

text \<open>The time services of \<open>Tod\<close> know the registers that they use; the others stay as they are.\<close>

definition with_bregs :: "bregs \<Rightarrow> sregs \<Rightarrow> sregs" where
  "with_bregs r regs = bregs.extend r (bregs.more regs)"

text \<open>\<open>flag_at\<close> is the address of the variable of the wait on the stack.\<close>

definition handle_15 :: "'v low io \<Rightarrow> u16 \<Rightarrow> u16 \<Rightarrow> sregs \<Rightarrow> ('v, 'z) sstate \<Rightarrow> (sregs \<times> ('v, 'z) sstate) option" where
  "handle_15 io ss flag_at regs s =
     (let ah = br_ah regs; r = bregs.truncate regs
      in if ah = 0x24 then Some (handle_1524 io regs s)
         else if ah = 0x4f then Some (handle_154f regs, s)
         else if ah = 0x52 then Some (handle_1552 regs, s)
         else if ah = 0x53 then Some (handle_1553 regs, s)
         else if ah = 0x5f then Some (handle_155fXX regs, s)
         else if ah = 0x7f then Some (handle_157fXX regs, s)
         else if ah = 0x83 then (case handle_1583 io r s of (r, s) \<Rightarrow> Some (with_bregs r regs, s))
         else if ah = 0x86 then map_option (\<lambda>(r, s). (with_bregs r regs, s)) (handle_1586 io ss flag_at r s)
         else if ah = 0x87 then handle_1587 io ss regs s
         else if ah = 0x88 then Some (handle_1588 regs s, s)
         else if ah = 0x90 then Some (handle_1590 regs, s)
         else if ah = 0x91 then Some (handle_1591 regs, s)
         else if ah = 0xc0 then Some (handle_15c0 regs, s)
         else if ah = 0xc1 then Some (handle_15c1 regs s, s)
         else if ah = 0xc2 then handle_15c2 io regs s
         else if ah = 0xe8 then Some (handle_15e8 regs s)
         else Some (handle_15XX regs, s))"

section \<open>Registers\<close>

lemma drop_16: "ucast (drop_bit 16 (get_reg32 hi lo)) = hi" "ucast (get_reg32 hi lo) = lo"
  by (rule bit_word_eqI; auto simp: get_reg32_def bit_simps dest: bit_imp_le_length)+

lemma reg32_halves: "get_reg32 (ucast (drop_bit 16 v)) (ucast v) = v"
proof (rule bit_word_eqI)
  fix n assume "n < LENGTH(32)"
  then show "bit (get_reg32 (ucast (drop_bit 16 v)) (ucast v)) n = bit v n"
    by (cases "n < 16") (auto simp: get_reg32_def bit_simps)
qed

lemma set_flags [simp]:
  "get_ax (set_cf c r) = get_ax r" "get_bx (set_cf c r) = get_bx r" "get_cx (set_cf c r) = get_cx r" "get_dx (set_cf c r) = get_dx r"
  by (simp_all add: get_ax_def get_bx_def get_cx_def get_dx_def set_cf_def)

lemma get_set_16 [simp]:
  "get_bx (set_bx v r) = v" "get_dx (set_dx v r) = v"
  "get_ax (set_bx v r) = get_ax r" "get_ax (set_cx v r) = get_ax r" "get_ax (set_dx v r) = get_ax r"
  "get_bx (set_ax v r) = get_bx r" "get_bx (set_cx v r) = get_bx r" "get_bx (set_dx v r) = get_bx r"
  "get_cx (set_ax v r) = get_cx r" "get_cx (set_bx v r) = get_cx r" "get_cx (set_dx v r) = get_cx r"
  "get_dx (set_ax v r) = get_dx r" "get_dx (set_bx v r) = get_dx r" "get_dx (set_cx v r) = get_dx r"
  by (simp_all add: get_ax_def get_bx_def get_cx_def get_dx_def set_ax_def set_bx_def set_cx_def set_dx_def)

lemma get_set_hi [simp]:
  fixes r :: sregs
  shows "get_ax (r\<lparr>br_eax_hi := h\<rparr>) = get_ax r" "get_ax (r\<lparr>br_ebx_hi := h\<rparr>) = get_ax r" "get_ax (r\<lparr>br_ecx_hi := h\<rparr>) = get_ax r"
  "get_bx (r\<lparr>br_eax_hi := h\<rparr>) = get_bx r" "get_bx (r\<lparr>br_ebx_hi := h\<rparr>) = get_bx r" "get_bx (r\<lparr>br_ecx_hi := h\<rparr>) = get_bx r"
  "get_cx (r\<lparr>br_eax_hi := h\<rparr>) = get_cx r" "get_cx (r\<lparr>br_ebx_hi := h\<rparr>) = get_cx r" "get_cx (r\<lparr>br_ecx_hi := h\<rparr>) = get_cx r"
  "get_dx (r\<lparr>br_eax_hi := h\<rparr>) = get_dx r" "get_dx (r\<lparr>br_ebx_hi := h\<rparr>) = get_dx r" "get_dx (r\<lparr>br_ecx_hi := h\<rparr>) = get_dx r"
  by (simp_all add: get_ax_def get_bx_def get_cx_def get_dx_def)

lemma hi_kept [simp]:
  fixes r :: sregs
  shows "br_eax_hi (set_ax v r) = br_eax_hi r" "br_eax_hi (set_bx v r) = br_eax_hi r" "br_eax_hi (set_cx v r) = br_eax_hi r"
  "br_ebx_hi (set_ax v r) = br_ebx_hi r" "br_ebx_hi (set_bx v r) = br_ebx_hi r" "br_ebx_hi (set_cx v r) = br_ebx_hi r"
  "br_ecx_hi (set_ax v r) = br_ecx_hi r" "br_ecx_hi (set_bx v r) = br_ecx_hi r" "br_ecx_hi (set_cx v r) = br_ecx_hi r"
  "br_edx_hi (set_ax v r) = br_edx_hi r" "br_edx_hi (set_bx v r) = br_edx_hi r" "br_edx_hi (set_cx v r) = br_edx_hi r"
  "br_eax_hi (set_cf c r) = br_eax_hi r" "br_ebx_hi (set_cf c r) = br_ebx_hi r" "br_ecx_hi (set_cf c r) = br_ecx_hi r" "br_edx_hi (set_cf c r) = br_edx_hi r"
  "br_es (set_ax v r) = br_es r" "br_es (set_bx v r) = br_es r" "br_es (set_cx v r) = br_es r" "br_es (set_cf c r) = br_es r"
  "br_di (set_ax v r) = br_di r" "br_di (set_bx v r) = br_di r" "br_di (set_cx v r) = br_di r" "br_di (set_cf c r) = br_di r"
  by (simp_all add: set_ax_def set_bx_def set_cx_def set_cf_def)

lemma get_set_32 [simp]:
  "get_eax (set_eax v r) = v" "get_ebx (set_ebx v r) = v" "get_ecx (set_ecx v r) = v"
  "get_eax (set_ebx v r) = get_eax r" "get_eax (set_ecx v r) = get_eax r" "get_ebx (set_eax v r) = get_ebx r" "get_ebx (set_ecx v r) = get_ebx r"
  "get_ecx (set_eax v r) = get_ecx r" "get_ecx (set_ebx v r) = get_ecx r" "get_edx (set_eax v r) = get_edx r" "get_edx (set_ebx v r) = get_edx r"
  "get_edx (set_ecx v r) = get_edx r"
  by (simp_all add: get_eax_def get_ebx_def get_ecx_def get_edx_def set_eax_def set_ebx_def set_ecx_def reg32_halves)

lemma get_cf_32 [simp]: "get_eax (set_cf c r) = get_eax r" "get_ebx (set_cf c r) = get_ebx r" "get_ecx (set_cf c r) = get_ecx r" "get_edx (set_cf c r) = get_edx r"
  by (simp_all add: get_eax_def get_ebx_def get_ecx_def get_edx_def)

lemma pointer_kept [simp]:
  "br_es (set_eax v r) = br_es r" "br_es (set_ebx v r) = br_es r" "br_es (set_ecx v r) = br_es r"
  "br_di (set_eax v r) = br_di r" "br_di (set_ebx v r) = br_di r" "br_di (set_ecx v r) = br_di r"
  by (simp_all add: set_eax_def set_ebx_def set_ecx_def)

lemma bx_of_ebx: "get_bx r = ucast (get_ebx r)"
  by (simp add: get_ebx_def drop_16)


section \<open>Sizes\<close>

text \<open>
  Both calls report the memory above 1 MB, rounded down to their units: 88h up to 63 MB, E801h in two parts, and the copies that old
  programs read are equal.
\<close>

theorem memory_sizes:
  assumes "0x100000 \<le> sys_ram_size s"
  shows "let rs = unat (sys_ram_size s); ax = unat (get_ax (handle_1588 regs s)); r = handle_15e801 regs s; cx = unat (get_cx r); dx = unat (get_dx r)
    in (if rs \<le> 0x4000000 then rs div 1024 = 1024 + ax else ax = 63 * 1024) \<and>
       (if rs \<le> 0x1000000 then rs div 1024 = 1024 + cx \<and> dx = 0 else cx = 15 * 1024 \<and> rs div 65536 = 256 + dx) \<and>
       get_ax r = get_cx r \<and> get_bx r = get_dx r"
proof -
  have sub: "unat (sys_ram_size s - 0x100000) = unat (sys_ram_size s) - 0x100000"
    using assms by (simp add: unat_sub)
  have sub16: "0x1000000 < sys_ram_size s \<Longrightarrow> unat (sys_ram_size s - 0x1000000) = unat (sys_ram_size s) - 0x1000000"
    by (simp add: unat_sub)
  have lt: "unat (sys_ram_size s) < 2 ^ 32" by (rule u32_unat_lt)
  note cmp = word_le_nat_alt word_less_nat_alt
  show ?thesis using assms sub sub16 lt
    by (auto simp: handle_1588_def handle_15e801_def Let_def set_success_def cmp unat_div unsigned_ucast_eq unsigned_take_bit_eq take_bit_nat_eq_self)
qed

section \<open>The memory map as a caller reads it\<close>

text \<open>A loader that calls function E820h with the value of \<open>ebx\<close> that the previous call has returned, until it is 0 or the call fails.\<close>

definition read_entry :: "u16 \<Rightarrow> u16 \<Rightarrow> ('v low, 'z) mach_scheme \<Rightarrow> e820entry" where
  "read_entry seg off s = \<lparr>e_start = get_far64 seg off s, e_size = get_far64 seg (off + 8) s, e_type = get_far32 seg (off + 16) s\<rparr>"

definition e820_call :: "u32 \<Rightarrow> sregs \<Rightarrow> sregs" where
  "e820_call b regs = set_eax 0xe820 (set_ebx b (set_ecx 20 (regs\<lparr>br_edx_hi := 0x534d, br_dh := 0x41, br_dl := 0x50\<rparr>)))"

fun e820_entries :: "'v low io \<Rightarrow> u16 \<Rightarrow> u16 \<Rightarrow> nat \<Rightarrow> u32 \<Rightarrow> sregs \<Rightarrow> ('v, 'z) sstate \<Rightarrow> e820entry list" where
  "e820_entries io ss flag_at 0 b regs s = []"
| "e820_entries io ss flag_at (Suc fuel) b regs s =
     (case handle_15 io ss flag_at (e820_call b regs) s of
        None \<Rightarrow> []
      | Some (r, s) \<Rightarrow>
          if br_flags r AND F_CF \<noteq> 0 then []
          else read_entry (br_es r) (br_di r) s # (if get_ebx r = 0 then [] else e820_entries io ss flag_at fuel (get_ebx r) r s))"

lemma put_far_sys [simp]: "sys_e820 (put_far seg off bs s) = sys_e820 s"
proof (induction bs arbitrary: off s)
  case (Cons b bs)
  then show ?case by (simp add: put_far_Cons SET_FARVAR_def)
qed simp

lemma entry_written:
  "read_entry seg off (put_far seg off (e820_bytes e) s) = e"
proof -
  let ?s = "put_far seg off (e820_bytes e) s"
  have len: "length (e820_bytes e) = 20" by (simp add: e820_bytes_def)
  have byte: "GET_FARVAR seg (off + a) ?s = e820_bytes e ! unat a" if "unat a < 20" for a
    using that by (simp add: get_put_base len)
  have byte0: "GET_FARVAR seg off ?s = e820_bytes e ! 0" using byte [of 0] by simp
  have 1: "get_far64 seg off ?s = e_start e"
    by (rule get_far64_bytes) (simp add: byte byte0, simp add: e820_bytes_def bytes64_def bytes32_def bytes16_def)
  have 2: "get_far64 seg (off + 8) ?s = e_size e"
    by (rule get_far64_bytes) (simp add: byte add.assoc, simp add: e820_bytes_def bytes64_def bytes32_def bytes16_def nth_append)
  have 3: "get_far32 seg (off + 16) ?s = e_type e"
    by (rule get_far_bytes(2); rule get_far_bytes(1))
       (simp_all add: byte add.assoc, simp_all add: e820_bytes_def bytes64_def bytes32_def bytes16_def nth_append)
  show ?thesis by (simp add: read_entry_def 1 2 3)
qed

lemma e820_call_regs:
  "br_ah (e820_call b regs) = 0xe8" "br_al (e820_call b regs) = 0x20" "get_ebx (e820_call b regs) = b" "get_ecx (e820_call b regs) = 20"
  "get_edx (e820_call b regs) = SMAP" "br_es (e820_call b regs) = br_es regs" "br_di (e820_call b regs) = br_di regs"
  by (simp_all add: e820_call_def)
     (simp_all add: set_eax_def set_ebx_def set_ecx_def set_ax_def set_bx_def set_cx_def get_edx_def get_dx_def get_reg32_def le16_def SMAP_def)

lemma no_carry [simp]: "br_flags (set_success r) AND F_CF = 0"
  by (simp add: set_success_def set_cf_def F_CF_def and.assoc)

lemma e820_step:
  assumes i: "i < length (sys_e820 s)" and n: "length (sys_e820 s) \<le> 65536"
  obtains r s' where "handle_15 io ss flag_at (e820_call (of_nat i) regs) s = Some (r, s')" "br_flags r AND F_CF = 0"
    "read_entry (br_es r) (br_di r) s' = sys_e820 s ! i" "get_ebx r = (if Suc i = length (sys_e820 s) then 0 else of_nat (Suc i))"
    "sys_e820 s' = sys_e820 s"
proof -
  let ?c = "e820_call (of_nat i) regs" and ?l = "sys_e820 s"
  let ?s = "put_far (br_es regs) (br_di regs) (e820_bytes (?l ! i)) s"
  let ?r = "set_success (set_ecx 20 (set_eax SMAP (if Suc i = length ?l then set_ebx 0 ?c else set_ebx (of_nat i + 1) ?c)))"
  have u: "unat (get_bx ?c) = i" using i n
    by (simp add: bx_of_ebx e820_call_regs unsigned_ucast_eq unat_of_nat unsigned_take_bit_eq take_bit_nat_eq_self)
  have last: "int i = int (length ?l) - 1 \<longleftrightarrow> Suc i = length ?l" by linarith
  have "handle_15 io ss flag_at ?c s = Some (?r, ?s)"
    using i by (simp add: handle_15_def handle_15e8_def handle_15e820_def Let_def e820_call_regs u last del: of_nat_diff)
  moreover have "br_es ?r = br_es regs" "br_di ?r = br_di regs" "get_ebx ?r = (if Suc i = length ?l then 0 else of_nat (Suc i))"
    by (simp_all add: set_success_def e820_call_regs add.commute)
  ultimately show thesis by (intro that [of ?r ?s]) (simp_all add: entry_written)
qed

text \<open>
  C38. A loader that follows function E820h gets the whole memory map of the firmware: every entry, once, in order and bit for bit, and
  then the end.
\<close>

theorem memory_map_enumerated:
  assumes "sys_e820 s \<noteq> []" "length (sys_e820 s) \<le> 65536" "length (sys_e820 s) \<le> fuel"
  shows "e820_entries io ss flag_at fuel 0 regs s = sys_e820 s"
proof -
  have "e820_entries io ss flag_at fuel (of_nat i) regs s = drop i (sys_e820 s)"
    if "i < length (sys_e820 s)" "length (sys_e820 s) \<le> 65536" "length (sys_e820 s) - i \<le> fuel" for i regs s fuel
    using that
  proof (induction fuel arbitrary: i regs s)
    case (Suc fuel)
    obtain r s' where r: "handle_15 io ss flag_at (e820_call (of_nat i) regs) s = Some (r, s')" "br_flags r AND F_CF = 0"
      "read_entry (br_es r) (br_di r) s' = sys_e820 s ! i" "get_ebx r = (if Suc i = length (sys_e820 s) then 0 else of_nat (Suc i))"
      "sys_e820 s' = sys_e820 s"
      using e820_step [OF Suc.prems(1,2)] by blast
    show ?case
    proof (cases "Suc i = length (sys_e820 s)")
      case True
      with r Suc.prems show ?thesis by (simp add: Cons_nth_drop_Suc [symmetric])
    next
      case False
      then have "get_ebx r = of_nat (Suc i)" "unat (of_nat (Suc i) :: u32) = Suc i" using r Suc.prems by (simp_all add: unat_of_nat del: of_nat_Suc)
      then have "get_ebx r = of_nat (Suc i)" "get_ebx r \<noteq> 0" by (auto simp del: of_nat_Suc)
      moreover have "e820_entries io ss flag_at fuel (of_nat (Suc i)) r s' = drop (Suc i) (sys_e820 s)"
        using Suc.IH [of "Suc i" s' r] Suc.prems False r(5) by simp
      ultimately show ?thesis using r Suc.prems by (simp add: Cons_nth_drop_Suc del: of_nat_Suc)
    qed
  qed simp
  from this [of 0 s fuel regs] show ?thesis using assms by simp
qed

section \<open>Blocks are moved\<close>

text \<open>A present segment of data that can be written and grows up, as callers build it.\<close>

definition data_up :: "u64 \<Rightarrow> bool" where
  "data_up d \<longleftrightarrow> desc_access d AND 0x9e = 0x92"

lemma data_up_ok:
  assumes "data_up d"
  shows "seg_readable d" "seg_writable d" "in_limit d k \<longleftrightarrow> k \<le> desc_limit d"
proof -
  define w where "w = desc_access d"
  have w: "w AND 0x9e = 0x92" using assms by (simp add: data_up_def w_def)
  have "w AND 0x90 = (w AND 0x9e) AND 0x90" "w AND 0x0a = (w AND 0x9e) AND 0x0a" "w AND 0x0c = (w AND 0x9e) AND 0x0c" "w AND 0x08 = (w AND 0x9e) AND 0x08"
    by (simp_all add: and.assoc)
  then have "w AND 0x90 = 0x90" "w AND 0x0a = 0x02" "w AND 0x0c = 0" "w AND 0x08 = 0" by (simp_all add: w)
  then show "seg_readable d" "seg_writable d" "in_limit d k \<longleftrightarrow> k \<le> desc_limit d"
    by (simp_all add: seg_readable_def seg_writable_def seg_present_def in_limit_def w_def)
qed

lemma copied_word: "m(d := m s, d + 1 := m (s + 1)) = copied m d s 2"
proof -
  have lt: "unat x < 2 \<longleftrightarrow> x = 0 \<or> x = 1" for x :: u32 by (auto simp: word_unat_eq_iff)
  have add: "a = d + k \<longleftrightarrow> a - d = k" for a k by (auto simp: algebra_simps)
  show ?thesis using add [of _ 0] by (auto simp: copied_def lt fun_upd_def add)
qed

lemma movsw_copies:
  assumes "data_up src" "data_up dst" "unat off + 2 * n \<le> 65536" "ascending_ok (desc_base dst) (desc_base src) (2 * n)"
  shows "movsw_seg src dst off n m =
    (if n = 0 \<or> (unat off + 2 * n - 1 \<le> desc_limit src \<and> unat off + 2 * n - 1 \<le> desc_limit dst)
     then Some (copied m (desc_base dst + ucast off) (desc_base src + ucast off) (2 * n)) else None)"
  using assms(3,4)
proof (induction n arbitrary: off m)
  case (Suc n)
  let ?a = "desc_base src + ucast off" and ?b = "desc_base dst + ucast off"
  have ok: "ascending_ok ?b ?a (2 + 2 * n)" "ascending_ok (desc_base dst) (desc_base src) (2 * n)"
    using Suc.prems by (auto simp: ascending_ok_def)
  show ?case
  proof (cases "n = 0")
    case True
    then show ?thesis using assms(1,2) copied_word [of m ?b ?a] by (simp add: data_up_ok Let_def)
  next
    case False
    then have o: "unat (off + 2) = unat off + 2" using Suc.prems by (simp add: unat_word_ariths)
    then have oc: "(ucast (off + 2) :: u32) = ucast off + 2"
      by (intro word_unat_eq_iff [THEN iffD2]) (simp add: unsigned_ucast_eq unat_word_ariths take_bit_nat_eq_self unsigned_take_bit_eq)
    have "movsw_seg src dst (off + 2) n (m(?b := m ?a, ?b + 1 := m (?a + 1))) =
      (if unat off + 2 + 2 * n - 1 \<le> desc_limit src \<and> unat off + 2 + 2 * n - 1 \<le> desc_limit dst then Some (copied m ?b ?a (2 * Suc n)) else None)"
      using Suc.IH [of "off + 2"] Suc.prems(1) o oc False ok copied_append [OF ok(1), of m] copied_word [of m ?b ?a]
      by (simp add: add.assoc del: fun_upd_apply)
    then show ?thesis using assms(1,2) by (auto simp: data_up_ok Let_def)
  qed
qed simp

text \<open>The port of the gate: \<open>gate\<close> is the byte that it holds, which writes to memory do not change.\<close>

definition a20_port :: "'v low io \<Rightarrow> ('v low \<Rightarrow> u8) \<Rightarrow> bool" where
  "a20_port io gate \<longleftrightarrow>
     (\<forall>w. io_inb io PORT_A20 w = (gate w, w)) \<and> (\<forall>w m. gate (w\<lparr>ram := m\<rparr>) = gate w) \<and>
     (\<forall>v w. gate (io_outb io v PORT_A20 w) = v \<and> ram (io_outb io v PORT_A20 w) = ram w)"

lemma gate_set_a20:
  assumes "a20_port io gate"
  shows "fst (set_a20 io c s) = (gate (wd s) AND A20_ENABLE_BIT \<noteq> 0)"
    "gate (wd (snd (set_a20 io c s))) = (if c then gate (wd s) OR A20_ENABLE_BIT else gate (wd s) AND NOT A20_ENABLE_BIT)"
    "ram (wd (snd (set_a20 io c s))) = ram (wd s)"
  using assms by (simp_all add: a20_port_def set_a20_def inb_def outb_def)

lemma gate_far:
  assumes "a20_port io gate"
  shows "gate (wd (SET_FARVAR seg off v s)) = gate (wd s)" "gate (wd (put_far seg off bs s)) = gate (wd s)"
proof -
  show 1: "gate (wd (SET_FARVAR seg off v s)) = gate (wd s)" for off v s
    using assms by (simp add: a20_port_def SET_FARVAR_def)
  show "gate (wd (put_far seg off bs s)) = gate (wd s)"
    by (induction bs arbitrary: off s) (simp_all add: put_far_Cons 1)
qed

lemma gate_back:
  "(if v AND A20_ENABLE_BIT \<noteq> 0 then (v OR A20_ENABLE_BIT) OR A20_ENABLE_BIT else (v OR A20_ENABLE_BIT) AND NOT A20_ENABLE_BIT) = v"
proof -
  have "v AND A20_ENABLE_BIT \<noteq> 0 \<longleftrightarrow> bit v 1" "bit A20_ENABLE_BIT n \<longleftrightarrow> n = 1" for n
    using bit_iff_and_push_bit_not_eq_0 [of v 1] by (auto simp: A20_ENABLE_BIT_def bit_2_iff bit_double_iff bit_1_iff)
  then show ?thesis by (intro bit_word_eqI) (auto simp: bit_or_iff bit_and_iff bit_not_iff)
qed

lemma far_same_ram:
  assumes "ram (wd t) = ram (wd s)"
  shows "get_far64 seg off t = get_far64 seg off s" "writes_only seg p n s t"
  using assms by (simp_all add: get_far64_def get_far32_def get_far16_def GET_FARVAR_def writes_only_def)

lemma fill_gdt_keeps:
  "16 \<le> unat a \<Longrightarrow> unat a < 32 \<Longrightarrow> GET_FARVAR seg (si + a) (fill_gdt ss seg si s) = GET_FARVAR seg (si + a) s"
  by (simp add: fill_gdt_def Let_def get_put_off)

lemma fill_gdt_writes: "writes_only seg si 48 s t \<Longrightarrow> writes_only seg si 48 s (fill_gdt ss seg si t)"
  by (simp add: fill_gdt_def Let_def)

lemma get_far64_cong:
  assumes "\<And>a. unat k \<le> unat a \<Longrightarrow> unat a < unat k + 8 \<Longrightarrow> GET_FARVAR seg (p + a) s = GET_FARVAR seg (p + a) t" "unat k \<le> 65000"
  shows "get_far64 seg (p + k) s = get_far64 seg (p + k) t"
proof -
  have "unat (k + j) = unat k + unat j" if "unat j < 8" for j using assms(2) that by (subst unat_add_lem [THEN iffD1]) simp_all
  then show ?thesis using assms(1) [of "k + _"] assms(1) [of k]
    by (simp add: get_far64_def get_far32_def get_far16_def add.assoc)
qed

text \<open>
  C36. Function 87h moves the block: after it the destination that the caller's table describes holds the bytes that the source held, the
  rest of the memory is as it was except for the caller's table, and the A20 gate is as before. It fails exactly when the block does not
  fit into a segment.
\<close>

theorem block_moved:
  assumes io: "a20_port io gate"
    and segs: "src = get_far64 (br_es regs) (br_si regs + 16) s" "dst = get_far64 (br_es regs) (br_si regs + 24) s" "data_up src" "data_up dst"
    and n: "n = 2 * unat (get_cx regs)" "0 < n" "n \<le> 65536"
    and asc: "ascending_ok (desc_base dst) (desc_base src) n"
  shows "if n - 1 \<le> desc_limit src \<and> n - 1 \<le> desc_limit dst
    then \<exists>t s'. handle_1587 io ss regs s = Some (set_code_success regs, s') \<and> writes_only (br_es regs) (br_si regs) 48 s t \<and>
      ram (wd s') = copied (ram (wd t)) (desc_base dst) (desc_base src) n \<and> gate (wd s') = gate (wd s)
    else handle_1587 io ss regs s = None"
proof -
  let ?seg = "br_es regs" and ?si = "br_si regs"
  obtain prev a where a: "set_a20 io True s = (prev, a)" by fastforce
  then have pa: "prev \<longleftrightarrow> gate (wd s) AND A20_ENABLE_BIT \<noteq> 0" "gate (wd a) = gate (wd s) OR A20_ENABLE_BIT" "ram (wd a) = ram (wd s)"
    using gate_set_a20 [OF io, of True s] by simp_all
  define f where "f = fill_gdt ss ?seg ?si a"
  define f1 where "f1 = SET_FARVAR ?seg (?si + 21) (desc_access src OR 1) f"
  define t where "t = SET_FARVAR ?seg (?si + 29) (desc_access dst OR 1) f1"
  have get: "get_far64 ?seg (?si + 16) f = src" "get_far64 ?seg (?si + 24) f1 = dst"
  proof -
    have "get_far64 ?seg (?si + 16) f = get_far64 ?seg (?si + 16) a"
      unfolding f_def by (rule get_far64_cong, rule fill_gdt_keeps) simp_all
    then show "get_far64 ?seg (?si + 16) f = src" using segs(1) far_same_ram(1) [OF pa(3)] by metis
    have "get_far64 ?seg (?si + 24) f1 = get_far64 ?seg (?si + 24) f"
      unfolding f1_def by (rule get_far64_cong) (auto simp: get_set_off)
    also have "\<dots> = get_far64 ?seg (?si + 24) a"
      unfolding f_def by (rule get_far64_cong, rule fill_gdt_keeps) simp_all
    finally show "get_far64 ?seg (?si + 24) f1 = dst" using segs(2) far_same_ram(1) [OF pa(3)] by metis
  qed
  have loads: "load_desc ?seg (?si + 16) f = (src, f1)" "load_desc ?seg (?si + 24) f1 = (dst, t)"
    using get by (simp_all add: load_desc_def f1_def t_def add.assoc)
  have wo: "writes_only ?seg ?si 48 s t"
    unfolding t_def f1_def f_def by (intro writes_only_set fill_gdt_writes far_same_ram(2) pa(3)) simp_all
  have gt: "gate (wd t) = gate (wd s) OR A20_ENABLE_BIT"
    by (simp add: t_def f1_def f_def fill_gdt_def Let_def gate_far [OF io] pa(2))
  have h: "handle_1587 io ss regs s =
    (case movsw_seg src dst 0 (unat (get_cx regs)) (ram (wd t)) of None \<Rightarrow> None
     | Some m \<Rightarrow> Some (set_code_success regs, snd (set_a20 io prev (t\<lparr>wd := (wd t)\<lparr>ram := m\<rparr>\<rparr>))))"
    using loads segs(3,4)
    by (simp add: handle_1587_def a f_def [symmetric] Let_def data_up_ok split: option.split)
  have m: "movsw_seg src dst 0 (unat (get_cx regs)) (ram (wd t)) =
    (if n - 1 \<le> desc_limit src \<and> n - 1 \<le> desc_limit dst then Some (copied (ram (wd t)) (desc_base dst) (desc_base src) n) else None)"
    using movsw_copies [OF segs(3,4), of 0 "unat (get_cx regs)"] n asc by auto
  have g: "gate ((wd t)\<lparr>ram := x\<rparr>) = gate (wd s) OR A20_ENABLE_BIT" for x using io gt by (simp add: a20_port_def)
  show ?thesis
    using wo gate_set_a20(2,3) [OF io, of prev "t\<lparr>wd := (wd t)\<lparr>ram := _\<rparr>\<rparr>"] gate_back [of "gate (wd s)"]
    by (auto simp: h m g pa(1))
qed

section \<open>Witnesses\<close>

text \<open>A machine with 64 MB whose only port is the A20 gate, and a table at 1000:0000 for a block from 1 MB to 2 MB.\<close>

definition io_gate :: "u8 low io" where
  "io_gate =
     \<lparr>io_inb = (\<lambda>port w. (dev w, w)), io_inl = (\<lambda>port w. (0, w)), io_outb = (\<lambda>v port w. w\<lparr>dev := v\<rparr>), io_outl = (\<lambda>v port w. w),
      io_rdtsc = (\<lambda>w. (0, w)),
      io_cr0 = (\<lambda>w. 0), io_setcr0 = (\<lambda>v w. w), io_wbinvd = (\<lambda>w. w), io_yield = (\<lambda>w. w), io_yield_toirq = (\<lambda>w. w),
      io_timer_counter = (\<lambda>w. 0), io_call16 = (\<lambda>nr br w. (br, w))\<rparr>"

definition map_sim :: "e820entry list" where
  "map_sim = [\<lparr>e_start = 0, e_size = 0x9fc00, e_type = 1\<rparr>, \<lparr>e_start = 0x100000, e_size = 0x3f00000, e_type = 1\<rparr>]"

definition table_sim :: mem where
  "table_sim = (\<lambda>_. 0)(0x10010 := 0xff, 0x10011 := 0xff, 0x10014 := 0x10, 0x10015 := 0x93,
     0x10018 := 0xff, 0x10019 := 0xff, 0x1001c := 0x20, 0x1001d := 0x93, 0x100000 := 7)"

definition sys_sim :: "(u8, unit) sstate" where
  "sys_sim = \<lparr>TimerKHz = 1000, TimerPort = 0, ShiftTSC = 0, TimerLast = 0,
     wd = \<lparr>ram = table_sim, Century = 0x20, RTCusers = 0, int1c_reentry = 0, dev = 0\<rparr>, Ps2ctr = 0x61, has_ps2_keyboard = True,
     sys_e820 = map_sim, sys_ram_size = 0x4000000, sys_in_post = False\<rparr>"

definition sregs_zero :: sregs where
  "sregs_zero = \<lparr>br_ah = 0, br_al = 0, br_bh = 0, br_bl = 0, br_ch = 0, br_cl = 0, br_dh = 0, br_dl = 0, br_es = 0, br_flags = 0, es_bp = [],
     br_ds = 0, br_si = 0, br_di = 0, br_eax_hi = 0, br_ebx_hi = 0, br_ecx_hi = 0, br_edx_hi = 0, code_seg = 0\<rparr>"

theorem memory_sizes_witness:
  "unat (get_ax (handle_1588 sregs_zero sys_sim)) = 63 * 1024 \<and> unat (get_dx (handle_15e801 sregs_zero sys_sim)) = 768"
  using memory_sizes [of sys_sim sregs_zero] by (simp add: sys_sim_def Let_def)

theorem memory_map_enumerated_witness: "e820_entries io_gate 0 0 5 0 sregs_zero sys_sim = map_sim"
  using memory_map_enumerated [of sys_sim 5 io_gate 0 0 sregs_zero] by (simp add: sys_sim_def map_sim_def)

theorem block_moved_witness:
  "\<exists>s'. handle_1587 io_gate 0 (sregs_zero\<lparr>br_es := 0x1000, br_cl := 1\<rparr>) sys_sim =
     Some (set_code_success (sregs_zero\<lparr>br_es := 0x1000, br_cl := 1\<rparr>), s') \<and> ram (wd s') 0x200000 = 7 \<and> dev (wd s') = 0"
proof -
  let ?r = "sregs_zero\<lparr>br_es := 0x1000, br_cl := 1\<rparr>"
  have io: "a20_port io_gate dev" by (simp add: a20_port_def io_gate_def)
  have src: "get_far64 0x1000 16 sys_sim = 0x000093100000ffff"
    by (simp add: get_far64_def get_far32_def get_far16_def GET_FARVAR_def seg_addr_def le16_def sys_sim_def table_sim_def)
  have dst: "get_far64 0x1000 24 sys_sim = 0x000093200000ffff"
    by (simp add: get_far64_def get_far32_def get_far16_def GET_FARVAR_def seg_addr_def le16_def sys_sim_def table_sim_def)
  have d: "data_up 0x000093100000ffff" "data_up 0x000093200000ffff" "desc_base 0x000093100000ffff = 0x100000" "desc_base 0x000093200000ffff = 0x200000"
    "desc_limit 0x000093100000ffff = 0xffff" "desc_limit 0x000093200000ffff = 0xffff"
    by (simp_all add: data_up_def desc_access_def desc_base_def desc_limit_def GDT_G_def Let_def)
  have asc: "ascending_ok (desc_base 0x000093200000ffff) (desc_base 0x000093100000ffff) 2" by (simp add: d ascending_ok_def)
  have far: "seg_addr 0x1000 x \<noteq> 0x100000" for x
  proof -
    have "unat (ucast x :: u32) < 65536" using u16_unat_lt [of x] by (simp add: unsigned_ucast_eq take_bit_nat_eq_self)
    then have "(ucast x :: u32) \<noteq> 0xf0000" by auto
    then have "0x10000 + ucast x \<noteq> 0x10000 + (0xf0000 :: u32)" by (simp only: add_left_cancel not_False_eq_True)
    then show ?thesis by (simp add: seg_addr_def)
  qed
  obtain t s' where h: "handle_1587 io_gate 0 ?r sys_sim = Some (set_code_success ?r, s')" "writes_only 0x1000 0 48 sys_sim t"
    "ram (wd s') = copied (ram (wd t)) 0x200000 0x100000 2" "dev (wd s') = dev (wd sys_sim)"
    using block_moved [OF io, of "0x000093100000ffff" ?r sys_sim "0x000093200000ffff" 2 0] asc
    by (auto simp: sregs_zero_def src dst d get_cx_def le16_def)
  have "ram (wd t) 0x100000 = ram (wd sys_sim) 0x100000" using h(2) far unfolding writes_only_def by metis
  then show ?thesis using h by (simp add: copied_def sys_sim_def table_sim_def)
qed
end
