(* ===== verification/Spec2Isabelle.thy ===== *)
theory Spec2Isabelle
  imports Llama_Boot Menu Screen Menu_Exit Menu_Facts Menu_Invariant Keys Leds Boot_Facts Malloc_Init Pmm Kbd_Decode Ps2_Wire Tod_Facts Disk_Media Scsi_Setup Int15
begin

text \<open>
  The BIOS of the ITX-Llama board: the SeaBIOS payload of a coreboot image for the Vortex86EX, with the board's
  own code under \<open>src/seabios/src/llama\<close>. coreboot brings up the memory and the chipset and starts the
  payload. The payload loads the settings from the last 8 KB of the SPI flash chip (\<open>boot_init\<close>),
  finds the drives and registers them in the order of the setting (\<open>loadBootOrder\<close>,
  \<open>bootentry_add\<close>), initialises the board (\<open>llama_boot\<close>: codec, fans, clocks,
  LEDs, tune), waits for a key (\<open>interactive_bootmenu\<close>) that opens the setup menu
  (\<open>llama_bios_menu\<close>) or the list of the boot devices, and boots (\<open>bcv_prepboot\<close>, interrupt 19h).
  The setup menu edits the settings through handlers, some of which also act on the hardware, and
  writes them to the chip before it resets the machine.

  \<^bold>\<open>Theories.\<close>
  \<^item> \<open>Prelude\<close>: machine integers, little-endian words, array access, the loop combinator \<open>loop\<close>.
  \<^item> \<open>Machine\<close>: \<open>x86.h\<close>, \<open>bregs.h\<close>, \<open>biosvar.h\<close> as far as the drivers use them. The
    hardware is the parameter \<open>io\<close>, a record of functions on a world \<open>wd s\<close>: port input and output, the
    time-stamp counter, interrupts, the other threads. The static variables of a component are the fields that its
    state record adds to \<open>mach\<close>.
  \<^item> \<open>Timer\<close> (\<open>hw/timer.c\<close>), \<open>Clock\<close> (the contract of a clock as the locales \<open>tick_clock\<close>
    and \<open>timed_machine\<close>, interpreted on the time-stamp-counter driver; the
    two calculi for programs that may not end, \<open>returns\<close> (ends with) and \<open>yields\<close> (if it ends)), \<open>Keys\<close> (\<open>clock.c\<close>,
    \<open>kbd_input.c\<close>: the interval timer and \<open>get_keystroke\<close>).
  \<^item> \<open>Nbsb\<close> (\<open>llama_nbsb.c\<close>), \<open>Spi_Flash\<close> (\<open>llama_spi_flash.c\<close>), \<open>Flash_Store\<close>
    (the flash memory as the locale \<open>flash_store\<close>), \<open>Spi_Chip\<close> (the data sheet of controller
    and chip as \<open>spi_board\<close>, the refinement, and the interpretation of \<open>flash_store\<close> on the driver),
    \<open>Settings\<close> (\<open>llama_bios_settings.c\<close>).
  \<^item> \<open>I2c\<close>, \<open>Leds\<close>, \<open>Emc2303\<close>, \<open>Cs4237\<close>, \<open>Speaker\<close>: the drivers
    \<open>llama_i2c.c\<close>, \<open>llama_leds.c\<close>, \<open>llama_emc2303.c\<close>, \<open>llama_cs4237.c\<close>,
    \<open>llama_speaker.c\<close>.
  \<^item> \<open>Cstring\<close> (\<open>string.c\<close>), \<open>Hlist\<close> (\<open>list.h\<close>, over a store of nodes and
    cells), \<open>Output\<close> (\<open>output.c\<close>: \<open>bvprintf\<close>, \<open>snprintf\<close>, \<open>printf\<close>).
  \<^item> \<open>Llama_Strings\<close>, \<open>Fonts\<close>, \<open>Handlers\<close>, \<open>Menu_Ui\<close>, \<open>Menu_Tables\<close>,
    \<open>Menu\<close>: the setup menu, \<open>llama_strings.c\<close>, \<open>llama_fonts.h\<close>,
    \<open>llama_bios_menu_handlers.c\<close>, \<open>llama_bios_menu_ui.c\<close> and \<open>llama_bios_menu.c\<close>;
    \<open>Screen\<close>, \<open>Menu_Facts\<close>, \<open>Menu_Exit\<close>, \<open>Menu_Invariant\<close>: what it draws, its tables and
    movements, how it is left, and the invariant of the settings.
  \<^item> \<open>Llama_Boot\<close> (\<open>llama_boot.c\<close>), \<open>Boot_Order\<close> and \<open>Boot\<close>
    (\<open>boot.c\<close>), \<open>Boot_Facts\<close>.
  \<^item> \<open>Memmap\<close> (\<open>memmap.c\<close>: the memory map), \<open>Malloc\<close> (\<open>malloc.c\<close>: the zones of the
    allocator as lists of node addresses, the contents of the nodes as a map), \<open>Malloc_Facts\<close> (the invariant
    \<open>heap_inv\<close> and how each operation acts on it), \<open>Malloc_Init\<close> (the set-up of the zones and the properties),
    \<open>Pmm\<close> (\<open>pmm.c\<close>: the allocator as option ROMs see it).
  \<^item> \<open>Bda\<close> (\<open>std/bda.h\<close>: the BIOS data area as a store of bytes), \<open>Kbd\<close> (\<open>kbd.c\<close>: the key
    buffer, interrupt 16h, the decoder of scan codes), \<open>Kbd_Facts\<close> (the locale \<open>key_queue\<close> and its
    interpretation on the ring buffer), \<open>Kbd_Decode\<close> (the invariant of the keyboard services as a step relation, and the
    properties of the decoder).
  \<^item> \<open>Ps2\<close> (\<open>hw/ps2port.c\<close>: controller, keyboard and mouse commands, interrupt handlers, set-up),
    \<open>Ps2_Facts\<close> (every command ends; extends \<open>timed_machine\<close>), \<open>Ps2_Wire\<close> (the bytes that a command sends; the locale
    \<open>ps2_frame\<close> of conditions that commands keep, interpreted on the variables of the driver).
  \<^item> \<open>Lowmem\<close> (\<open>farptr.h\<close>, \<open>biosvar.h\<close>, \<open>bregs.h\<close>: the memory below 1 MB as a part of the world, the interrupt
    vectors, the results of a service in the registers), \<open>Pic\<close> (\<open>hw/pic.c\<close>), \<open>Rtc\<close> (\<open>hw/rtc.c\<close>), \<open>Tod\<close>
    (\<open>clock.c\<close>: time of day, timer interrupts, waits), \<open>Tod_Facts\<close>.
  \<^item> \<open>Block\<close> (\<open>block.c\<close> and the emulated disk of \<open>cdrom.c\<close>), \<open>Disk\<close> (\<open>disk.c\<close>: interrupt 13h),
    \<open>Geometry\<close> (geometries and the numbering of sectors), \<open>Cd_Facts\<close> (what a read of an emulated disk delivers), \<open>Disk_Facts\<close>
    (every request is answered, none leaves the drive), \<open>Edd_Facts\<close> (bytes of a segment, the reported parameters),
    \<open>Disk_Media\<close> (which drive a number stands for, locks).
  \<^item> \<open>Blockcmd\<close> (\<open>hw/blockcmd.c\<close>: SCSI commands, the wait for a drive, and \<open>cdrom_boot\<close>; the reads and writes are in
    \<open>Block\<close>), \<open>Cd_Boot\<close> (the preparation of the emulation, the El Torito specification \<open>el_torito\<close> of a disc, and that the boot
    implements it), \<open>Scsi_Setup\<close> (\<open>scsi_drive_setup\<close>).
  \<^item> \<open>Mouse\<close> (\<open>mouse.c\<close>: function C2h of interrupt 15h and the packets), \<open>Int15\<close> (\<open>system.c\<close>: interrupt 15h, with
    the descriptors of \<open>x86.h\<close> as the processor reads them).

  \<^bold>\<open>Conventions.\<close> Integers have the width the code gives them. The result type \<open>option\<close> is used where
  the code may not end or may do what C leaves undefined (an index out of an array, a division by zero): \<open>None\<close> is
  either. Loops that poll the hardware are \<open>loop\<close>, a \<open>partial_function\<close>, so that waiting for
  ever is a value; that they do end under the contract of the hardware is proved where it is claimed. There is no fuel.
  Handlers of the menu tables are entries of a \<open>datatype\<close> of actions that carry the functions.

  \<^bold>\<open>What is assumed of the hardware.\<close> Every assumption is a predicate in the statement that uses it, and has a
  concrete device that satisfies it in the witness. \<open>pci_config_ports\<close>: the two configuration ports address
  registers. \<open>spi_board\<close>: the controller shifts bytes, the chip obeys the commands of its data sheet and
  is idle between them. \<open>tsc_clock\<close> and \<open>pit_board\<close>: the time-stamp counter advances by at
  most \<open>gap\<close> = 2^28 cycles between two readings, and channel 2 of the interval timer ends when it should; the
  calibrated rate is below 5593 units per millisecond by the counter's own scaling, and with delays of up to 190000
  ticks no comparison of tick counts overflows. \<open>pc_bios\<close>: interrupts 10h and 16h keep the chip as it is and
  return the keys pressed. \<open>cmos_chip\<close>: the clock chip has an index and registers that keep what is written; \<open>keeps_ticks\<close>: what runs during
  a timer interrupt leaves the tick count alone. \<open>reads_cd\<close>: the CD drive answers the bytes of a READ(10) command with the blocks that it names, at the address that it is
  given; \<open>commands_end\<close>: a SCSI command takes a bounded time and leaves the variables of the block layer alone; \<open>cd_works\<close>: both, for a drive
  with blocks of 2048 bytes;
  \<open>drivers_keep_drives\<close>: drivers do not change the description of the drives; \<open>handler_does\<close>: the mouse handler of a program leaves the
  variables of the mouse alone; \<open>a20_port\<close>: the port of the A20 gate keeps what is written. The disk, option-ROM and CBFS services
  that booting calls are the record \<open>boot_env\<close>, about which nothing is assumed.

  \<^bold>\<open>What is proved.\<close> The flash driver implements a flash memory, saved settings are what is loaded, and saving
  changes only the last sector of the chip, of which two pages are kept up to the options and the rest is erased; F10 saves and resets;
  on the page of the processor every sequence of keys does to the chip what a dialogue of a few lines says, which is nothing unless a
  key asks for it; no sequence of menu actions makes the settings unwritable; the drawing stays on the screen; labels agree with tables and with what the start-up code
  computes. Delays wait, calibration is accurate, transfers and start-up end. The boot list is the stable sort of the
  registered devices and its pointer operations implement it; the boot order is the one that the menu names; the boot table,
  the choice of the user, the order of the attempts, the check of the boot sector. The memory map is sorted and says of every address what was added last; the
  allocator starts sound, hands out free memory only, restores the zones when a block is freed, and cannot be corrupted by an
  option ROM. Keys arrive in the order in which they are typed; the record of the modifiers stays consistent; the machine is reset
  by Ctrl, Alt and Del only; commands of the PS/2 driver end whatever the devices do, send the bytes of the protocol, and the keyboard
  interrupt is on only after a keyboard has been found. The time that is set is the time that is read; the tick count is exact over any
  number of midnights, but wrong after a start late in the evening; waits last as long as they should. Interrupt 13h answers every
  request and never sends one for sectors outside of the drive to a driver; geometries fit the drive and number its sectors once; a disk
  emulated from a CD is its image; the reported parameters stay within the caller's buffer; a mapped disk is reached under its
  number and a locked disc is not ejected. The wait for a SCSI drive ends; a CD boots as the El Torito specification says, and the emulated disk
  is then the image that its catalog names; a SCSI drive that is set up is in the boot list. The mouse service always answers, and the packets of the
  mouse reach the handler; a loader gets the whole memory map; blocks are moved above 1 MB as the caller's descriptors say. Where the code does not do what it means
  to, the lemma states what it does.

  \<^bold>\<open>Not modelled.\<close> The vendored coreboot tree and the SeaBIOS drivers of disks, USB, PCI and video: third-party
  code, whose effects are parameters (the drivers below \<open>process_op\<close> are the record \<open>drivers\<close>). The disk geometry of emulated hardware
  (\<open>CONFIG_QEMU_HARDWARE\<close> is off), APM, the video hooks of other boards, and the switch to protected mode itself in function 89h. Debug output (level 1 goes to the serial port of the firmware only). Far and segment
  variants of the string functions, which exist in the 16-bit part. Vectors 10h, 13h, 16h, 18h and 19h are taken to
  point to the BIOS's own handlers while the payload runs. The allocator's
  variants for other configurations (\<open>zonelow_expand\<close>, \<open>csm_malloc_preinit\<close>). \<open>ps2port_setup\<close>, which registers interrupt handlers and starts a
  thread. The build scripts.
\<close>

section \<open>What the menu promises and the tables deliver\<close>

text \<open>
  The text of a MAC address: two hexadecimal digits a byte, separated by colons.
\<close>

definition hex_digit :: "u8 \<Rightarrow> char" where
  "hex_digit d = ''0123456789ABCDEF'' ! unat d"

fun mac_text :: "u8 list \<Rightarrow> string" where
  "mac_text [] = ''''"
| "mac_text [b] = [hex_digit (b div 16), hex_digit (b mod 16)]"
| "mac_text (b # bs) = hex_digit (b div 16) # hex_digit (b mod 16) # CHR 0x3A # mac_text bs"

text \<open>
  What \<open>llama_boot\<close> reports when the first two bytes of a row of the frequency table are in the strap register.
\<close>

definition freq_text :: "u8 list \<Rightarrow> string option" where
  "freq_text row = do {
     freq \<leftarrow> cpu_freq_of_strap (ucast (le16 (row ! 0) (row ! 1)));
     bvprintf ''%d MHz'' [PInt freq]
   }"

lemma numbers:
  "putuint 60 = ''60''" "putuint 100 = ''100''" "putuint 200 = ''200''"
  "putuint 300 = ''300''" "putuint 466 = ''466''" "putuint 500 = ''500''"
  by code_simp+

lemma freq_texts:
  "map freq_text freq_array =
     [Some ''60 MHz'', Some ''100 MHz'', Some ''200 MHz'', Some ''300 MHz'', Some ''466 MHz'', Some ''500 MHz'']"
  using bvprintf_d [of "'' MHz''"]
  by (simp add: freq_text_def freq_array_def cpu_freq_of_strap_def le16_def Let_def numbers)

text \<open>
  The menu says what the chip will do: the choices of the CPU frequency carry, in order, the indices of the
  frequency table and the frequencies that the start-up code computes from the straps of its rows; the choices
  of the MAC address carry the indices and the texts of the rows of the address table.
\<close>

theorem menu_labels_true:
  "map (\<lambda>ce. (ce_value ce, Some (ce_name ce))) (change_entries_init (submenus_init (cpu_menu io) ! 0)) =
     zip [0, 1, 2, 3, 4, 5] (map freq_text freq_array) \<and>
   map (\<lambda>ce. (ce_value ce, ce_name ce)) (change_entries_init (submenus_init (ethernet_menu io) ! 0)) =
     zip [0, 1, 2, 3, 4, 5] (map mac_text mac_address_array)"
  unfolding freq_texts
  by (simp add: cpu_menu_def ethernet_menu_def mac_address_array_def hex_digit_def)

end
